(* ===== verification/Prelude.thy ===== *)
theory Prelude
  imports Main "HOL-Library.Word"
begin

text \<open>
  Shared vocabulary of the development: the machine integers of the Rust sources, their
  checked and saturating arithmetic, \<open>Result\<close> as a sum with its \<open>?\<close> operator, little-endian
  byte strings, and the collections of rewrite rules the component theories use.
\<close>

unbundle bit_operations_syntax

section \<open>Named collections\<close>

named_theorems rust_defs "definitions of the Rust standard library operations used by the sources"
named_theorems wide_ints "facts that move machine integers to nat and int"

section \<open>Machine integers\<close>

text \<open>
  A signed Rust integer is a word read with \<open>sint\<close>; an unsigned one is read with \<open>unat\<close>.
  A \<open>usize\<close> that is only ever a length or an index is a \<open>nat\<close>.
\<close>

type_synonym u8 = "8 word"
type_synonym u32 = "32 word"
type_synonym u64 = "64 word"
type_synonym i64 = "64 word"
type_synonym bytes = "u8 list"

definition checked_add_u :: "'a::len word \<Rightarrow> 'a word \<Rightarrow> 'a word option" where
  "checked_add_u a b = (if unat a + unat b < 2 ^ LENGTH('a) then Some (a + b) else None)"

definition checked_mul_u :: "'a::len word \<Rightarrow> 'a word \<Rightarrow> 'a word option" where
  "checked_mul_u a b = (if unat a * unat b < 2 ^ LENGTH('a) then Some (a * b) else None)"

definition saturating_add_u :: "'a::len word \<Rightarrow> 'a word \<Rightarrow> 'a word" where
  "saturating_add_u a b = (if unat a + unat b < 2 ^ LENGTH('a) then a + b else - 1)"

definition checked_add_i64 :: "i64 \<Rightarrow> i64 \<Rightarrow> i64 option" where
  "checked_add_i64 a b =
     (if - (2 ^ 63) \<le> sint a + sint b \<and> sint a + sint b < 2 ^ 63 then Some (a + b) else None)"

text \<open>\<open>i64::try_from(u64)\<close>; the other direction, \<open>x as i64\<close>, is the identity on words.\<close>

definition i64_try_from_u64 :: "u64 \<Rightarrow> i64 option" where
  "i64_try_from_u64 x = (if unat x < 2 ^ 63 then Some x else None)"

lemma unat_checked_add_u [wide_ints]:
  "checked_add_u a b = Some c \<Longrightarrow> unat c = unat a + unat b"
  by (auto simp: checked_add_u_def unat_word_ariths split: if_splits)

lemma checked_add_u_None: "checked_add_u a b = None \<longleftrightarrow> 2 ^ LENGTH('a) \<le> unat a + unat (b :: 'a::len word)"
  by (auto simp: checked_add_u_def)

lemma unat_checked_mul_u [wide_ints]:
  "checked_mul_u a b = Some c \<Longrightarrow> unat c = unat a * unat b"
  by (auto simp: checked_mul_u_def unat_word_ariths split: if_splits)

lemma checked_mul_u_None: "checked_mul_u a b = None \<longleftrightarrow> 2 ^ LENGTH('a) \<le> unat a * unat (b :: 'a::len word)"
  by (auto simp: checked_mul_u_def)

lemma checked_add_u_Some_iff: "checked_add_u a b = Some c \<longleftrightarrow> unat c = unat a + unat b"
  by (auto simp: checked_add_u_def word_unat_eq_iff unat_word_ariths) (metis unsigned_less)

lemma checked_mul_u_Some_iff: "checked_mul_u a b = Some c \<longleftrightarrow> unat c = unat a * unat b"
  by (auto simp: checked_mul_u_def word_unat_eq_iff unat_word_ariths) (metis unsigned_less)

lemma unat_saturating_add_u [wide_ints]:
  "unat (saturating_add_u a b) = min (unat a + unat b) (2 ^ LENGTH('a) - 1)"
  for a b :: "'a::len word"
  by (auto simp: saturating_add_u_def unat_word_ariths unsigned_minus_1_eq_mask
      mask_eq_exp_minus_1 not_less)

lemma sint_range_i64: "- (2 ^ 63) \<le> sint (x :: i64)" "sint (x :: i64) < 2 ^ 63"
  using sint_range_size [of x] by (simp_all add: word_size)

lemma sint_add_i64:
  "- (2 ^ 63) \<le> sint a + sint b \<Longrightarrow> sint a + sint b < 2 ^ 63 \<Longrightarrow> sint (a + b) = sint a + sint (b :: i64)"
  by (simp add: signed_take_bit_int_eq_self sint_word_ariths)

lemma sint_checked_add_i64 [wide_ints]:
  "checked_add_i64 a b = Some c \<Longrightarrow> sint c = sint a + sint b"
  by (auto simp: checked_add_i64_def sint_add_i64 split: if_splits)

lemma checked_add_i64_None:
  "checked_add_i64 a b = None \<longleftrightarrow> sint a + sint b < - (2 ^ 63) \<or> 2 ^ 63 \<le> sint a + sint b"
  by (auto simp: checked_add_i64_def)

lemma sint_i64_unfold: "sint (x :: i64) = (int (unat x) + 2 ^ 63) mod 2 ^ 64 - 2 ^ 63"
  by (simp add: sint_uint signed_take_bit_eq_take_bit_shift take_bit_eq_mod)

lemma unat_lt_u64: "unat (x :: u64) < 2 ^ 64"
  using unsigned_less [of x, where ?'a = nat] by simp

lemma unat_lt_u64_numeral [simp]: "unat (x :: u64) < 18446744073709551616"
  using unat_lt_u64 [of x] by simp

lemma u64_of_nat_ex: "n < 2 ^ 64 \<Longrightarrow> \<exists>w :: u64. unat w = n"
  by (rule exI [of _ "word_of_nat n"]) (simp add: unsigned_of_nat take_bit_nat_eq_self)

lemma sint_i64_cases:
  "sint (x :: i64) = (if unat x < 2 ^ 63 then int (unat x) else int (unat x) - 2 ^ 64)"
proof -
  define n where "n = unat x"
  have "n < 2 ^ 64" unfolding n_def by (rule unat_lt_u64)
  moreover have "(int n + 2 ^ 63) mod 2 ^ 64 = int n + 2 ^ 63 - (if n < 2 ^ 63 then 0 else 2 ^ 64)"
    if "n < 2 ^ 64"
  proof (cases "n < 2 ^ 63")
    case False
    then have "(int n + 2 ^ 63) mod 2 ^ 64 = (int n - 2 ^ 63 + 2 ^ 64) mod 2 ^ 64"
      by (simp add: add.commute)
    also have "\<dots> = int n - 2 ^ 63"
      using False that by (subst mod_add_self2, intro mod_pos_pos_trivial) auto
    finally show ?thesis using False by simp
  qed (use that in simp)
  ultimately show ?thesis
    by (simp only: sint_i64_unfold flip: n_def) simp
qed

lemma sint_of_small [wide_ints]: "unat (x :: i64) < 2 ^ 63 \<Longrightarrow> sint x = int (unat x)"
  by (simp add: sint_i64_cases)

lemma sint_nonneg:
  assumes "0 \<le> sint (x :: i64)"
  shows "sint x = int (unat x)"
proof (cases "unat x < 2 ^ 63")
  case False
  define n where "n = unat x"
  have "n < 2 ^ 64" unfolding n_def by (rule unat_lt_u64)
  moreover from False have "sint x = int n - 2 ^ 64" unfolding n_def by (simp only: sint_i64_cases if_False)
  ultimately show ?thesis using assms by simp
qed (rule sint_of_small)

lemma sint_i64_try_from_u64 [wide_ints]:
  "i64_try_from_u64 x = Some y \<Longrightarrow> y = x \<and> sint y = int (unat x)"
  by (auto simp: i64_try_from_u64_def sint_of_small split: if_splits)

text \<open>A positive \<open>i64\<close> seen as \<open>u64\<close> is the same number: \<open>x as i64\<close> did not wrap.\<close>

lemma sint_pos_unat: "0 \<le> sint (x :: i64) \<Longrightarrow> sint x = int (unat x)"
proof -
  assume "0 \<le> sint x"
  moreover have "int (unat x) < 2 ^ 64"
    using unat_lt_u64 [of x] by (metis of_nat_less_iff of_nat_numeral of_nat_power)
  ultimately show ?thesis
    by (simp only: sint_i64_cases split: if_splits) simp
qed

lemma sint_eq_iff_i64: "sint x = sint y \<longleftrightarrow> x = (y :: i64)"
  by (metis signed_word_eqI)

section \<open>Results\<close>

text \<open>
  \<open>Result<T, E>\<close> is \<open>'e + 't\<close>. \<open>rbind\<close> is the \<open>?\<close> operator, \<open>map_err\<close> is \<open>Result::map_err\<close>,
  \<open>traverse\<close> is an iterator collected into a \<open>Result<Vec<_>, _>\<close>: the first error wins.
\<close>

abbreviation Ok :: "'t \<Rightarrow> 'e + 't" where
  "Ok x \<equiv> Inr x"

abbreviation Err :: "'e \<Rightarrow> 'e + 't" where
  "Err e \<equiv> Inl e"

fun rbind :: "'e + 'a \<Rightarrow> ('a \<Rightarrow> 'e + 'b) \<Rightarrow> 'e + 'b" where
  "rbind (Inl e) f = Inl e"
| "rbind (Inr x) f = f x"

fun map_err :: "('e \<Rightarrow> 'f) \<Rightarrow> 'e + 'a \<Rightarrow> 'f + 'a" where
  "map_err g (Inl e) = Inl (g e)"
| "map_err g (Inr x) = Inr x"

fun ok_or :: "'e \<Rightarrow> 'a option \<Rightarrow> 'e + 'a" where
  "ok_or e None = Inl e"
| "ok_or e (Some x) = Inr x"

fun traverse :: "('a \<Rightarrow> 'e + 'b) \<Rightarrow> 'a list \<Rightarrow> 'e + 'b list" where
  "traverse f [] = Inr []"
| "traverse f (x # xs) = rbind (f x) (\<lambda>y. rbind (traverse f xs) (\<lambda>ys. Inr (y # ys)))"

text \<open>\<open>a.or_else(|| b)\<close> for an effect-free \<open>b\<close>\<close>

definition or_else :: "'a option \<Rightarrow> 'a option \<Rightarrow> 'a option" where
  "or_else a b = (case a of None \<Rightarrow> b | Some x \<Rightarrow> Some x)"

lemma rbind_Inr_iff [simp]: "rbind m f = Inr y \<longleftrightarrow> (\<exists>x. m = Inr x \<and> f x = Inr y)"
  by (cases m) auto

lemma rbind_Inl_iff: "rbind m f = Inl e \<longleftrightarrow> m = Inl e \<or> (\<exists>x. m = Inr x \<and> f x = Inl e)"
  by (cases m) auto

lemma map_err_Inr_iff [simp]: "map_err g m = Inr y \<longleftrightarrow> m = Inr y"
  by (cases m) auto

lemma map_err_Inl_iff: "map_err g m = Inl e \<longleftrightarrow> (\<exists>d. m = Inl d \<and> e = g d)"
  by (cases m) auto

lemma ok_or_Inr_iff [simp]: "ok_or e m = Inr y \<longleftrightarrow> m = Some y"
  by (cases m) auto

lemma ok_or_Inl_iff: "ok_or e m = Inl d \<longleftrightarrow> m = None \<and> d = e"
  by (cases m) auto

lemma traverse_Inr_iff: "traverse f xs = Inr ys \<longleftrightarrow> list_all2 (\<lambda>x y. f x = Inr y) xs ys"
  by (induction xs arbitrary: ys) (auto simp: list_all2_Cons1)

lemma traverse_map: "(\<And>x. x \<in> set xs \<Longrightarrow> f x = Inr (g x)) \<Longrightarrow> traverse f xs = Inr (map g xs)"
  by (induction xs) auto

section \<open>Little-endian bytes\<close>

text \<open>\<open>le_bytes k n\<close>: the \<open>k\<close> low bytes of \<open>n\<close>, least significant first (\<open>to_le_bytes\<close>).\<close>

fun le_bytes :: "nat \<Rightarrow> nat \<Rightarrow> bytes" where
  "le_bytes 0 n = []"
| "le_bytes (Suc k) n = word_of_nat n # le_bytes k (n div 256)"

fun from_le :: "bytes \<Rightarrow> nat" where
  "from_le [] = 0"
| "from_le (b # bs) = unat b + 256 * from_le bs"

definition u64_to_le_bytes :: "u64 \<Rightarrow> bytes" where
  "u64_to_le_bytes w = le_bytes 8 (unat w)"

definition u32_to_le_bytes :: "u32 \<Rightarrow> bytes" where
  "u32_to_le_bytes w = le_bytes 4 (unat w)"

lemma length_le_bytes [simp]: "length (le_bytes k n) = k"
  by (induction k n rule: le_bytes.induct) auto

lemma length_to_le_bytes [simp]:
  "length (u64_to_le_bytes w) = 8" "length (u32_to_le_bytes v) = 4"
  by (simp_all add: u64_to_le_bytes_def u32_to_le_bytes_def)

lemma from_le_le_bytes: "from_le (le_bytes k n) = n mod 256 ^ k"
proof (induction k n rule: le_bytes.induct)
  case (2 k n)
  have "n mod (256 * 256 ^ k) = 256 * (n div 256 mod 256 ^ k) + n mod 256"
    by (rule mod_mult2_eq)
  with 2 show ?case
    by (simp add: unat_of_nat)
qed simp

lemma le_bytes_inject: "m < 256 ^ k \<Longrightarrow> n < 256 ^ k \<Longrightarrow> le_bytes k m = le_bytes k n \<longleftrightarrow> m = n"
  by (metis from_le_le_bytes mod_less)

lemma to_le_bytes_inject [simp]:
  "u64_to_le_bytes v = u64_to_le_bytes w \<longleftrightarrow> v = w"
  "u32_to_le_bytes x = u32_to_le_bytes y \<longleftrightarrow> x = y"
  using unat_lt_u64 [of v] unat_lt_u64 [of w] unsigned_less [of x, where ?'a = nat]
    unsigned_less [of y, where ?'a = nat]
  by (simp_all add: u64_to_le_bytes_def u32_to_le_bytes_def le_bytes_inject word_unat_eq_iff)

text \<open>Two concatenations whose first parts have the same length agree part by part.\<close>

lemma append_same_length:
  "length a = length b \<Longrightarrow> a @ x = b @ y \<longleftrightarrow> a = b \<and> x = y"
  by auto

end
