(* ===== verification/Rust_Str.thy ===== *)
theory Rust_Str
  imports Prelude
begin

text \<open>
  The operations of Rust's \<open>str\<close> the sources use. A \<open>str\<close> is the list of its UTF-8 bytes,
  each a \<open>char\<close>: \<open>len()\<close> is \<open>length\<close>, \<open>as_bytes()\<close> is \<open>as_bytes\<close>, and the Unicode-aware
  operations (\<open>trim\<close>, \<open>char::is_whitespace\<close>, \<open>char::is_control\<close>) match the encoded code points.
\<close>

section \<open>Characters\<close>

abbreviation code :: "char \<Rightarrow> nat" where
  "code c \<equiv> of_char c"

definition byte_of :: "char \<Rightarrow> u8" where
  "byte_of c = word_of_nat (code c)"

definition as_bytes :: "string \<Rightarrow> bytes" where
  "as_bytes s = map byte_of s"

definition is_ascii_digit :: "char \<Rightarrow> bool" where
  "is_ascii_digit c \<longleftrightarrow> 48 \<le> code c \<and> code c \<le> 57"

definition is_ascii_upper :: "char \<Rightarrow> bool" where
  "is_ascii_upper c \<longleftrightarrow> 65 \<le> code c \<and> code c \<le> 90"

definition is_ascii_lower :: "char \<Rightarrow> bool" where
  "is_ascii_lower c \<longleftrightarrow> 97 \<le> code c \<and> code c \<le> 122"

definition is_ascii_alpha :: "char \<Rightarrow> bool" where
  "is_ascii_alpha c \<longleftrightarrow> is_ascii_upper c \<or> is_ascii_lower c"

definition is_ascii_hexdigit :: "char \<Rightarrow> bool" where
  "is_ascii_hexdigit c \<longleftrightarrow> is_ascii_digit c \<or> (65 \<le> code c \<and> code c \<le> 70) \<or> (97 \<le> code c \<and> code c \<le> 102)"

definition to_upper :: "char \<Rightarrow> char" where
  "to_upper c = (if is_ascii_lower c then char_of (code c - 32) else c)"

definition to_lower :: "char \<Rightarrow> char" where
  "to_lower c = (if is_ascii_upper c then char_of (code c + 32) else c)"

definition to_ascii_uppercase :: "string \<Rightarrow> string" where
  "to_ascii_uppercase s = map to_upper s"

definition to_ascii_lowercase :: "string \<Rightarrow> string" where
  "to_ascii_lowercase s = map to_lower s"

definition eq_ignore_ascii_case :: "string \<Rightarrow> string \<Rightarrow> bool" where
  "eq_ignore_ascii_case s t \<longleftrightarrow> to_ascii_lowercase s = to_ascii_lowercase t"

section \<open>Whitespace and trimming\<close>

text \<open>The code points with the Unicode property White\_Space, by the length of their encoding.\<close>

definition ws1 :: "char \<Rightarrow> bool" where
  "ws1 a \<longleftrightarrow> (9 \<le> code a \<and> code a \<le> 13) \<or> code a = 32"

definition ws2 :: "char \<Rightarrow> char \<Rightarrow> bool" where
  "ws2 a b \<longleftrightarrow> code a = 0xC2 \<and> (code b = 0x85 \<or> code b = 0xA0)"

definition ws3 :: "char \<Rightarrow> char \<Rightarrow> char \<Rightarrow> bool" where
  "ws3 a b c \<longleftrightarrow>
     (code a = 0xE1 \<and> code b = 0x9A \<and> code c = 0x80) \<or>
     (code a = 0xE2 \<and> code b = 0x80 \<and>
        ((0x80 \<le> code c \<and> code c \<le> 0x8A) \<or> code c = 0xA8 \<or> code c = 0xA9 \<or> code c = 0xAF)) \<or>
     (code a = 0xE2 \<and> code b = 0x81 \<and> code c = 0x9F) \<or>
     (code a = 0xE3 \<and> code b = 0x80 \<and> code c = 0x80)"

fun ws_head :: "string \<Rightarrow> nat" where
  "ws_head (a # b # c # s) = (if ws1 a then 1 else if ws2 a b then 2 else if ws3 a b c then 3 else 0)"
| "ws_head [a, b] = (if ws1 a then 1 else if ws2 a b then 2 else 0)"
| "ws_head [a] = (if ws1 a then 1 else 0)"
| "ws_head [] = 0"

fun ws_last :: "string \<Rightarrow> nat" where
  "ws_last (c # b # a # s) = (if ws1 c then 1 else if ws2 b c then 2 else if ws3 a b c then 3 else 0)"
| "ws_last [c, b] = (if ws1 c then 1 else if ws2 b c then 2 else 0)"
| "ws_last [c] = (if ws1 c then 1 else 0)"
| "ws_last [] = 0"

function trim_start :: "string \<Rightarrow> string" where
  "trim_start s = (if ws_head s = 0 then s else trim_start (drop (ws_head s) s))"
  by pat_completeness auto
termination
proof (relation "measure length")
  fix s :: string
  assume "ws_head s \<noteq> 0"
  then show "(drop (ws_head s) s, s) \<in> measure length"
    by (cases s) auto
qed simp

text \<open>The same from the end, over the reversed string.\<close>

function trim_rev :: "string \<Rightarrow> string" where
  "trim_rev s = (if ws_last s = 0 then s else trim_rev (drop (ws_last s) s))"
  by pat_completeness auto
termination
proof (relation "measure length")
  fix s :: string
  assume "ws_last s \<noteq> 0"
  then show "(drop (ws_last s) s, s) \<in> measure length"
    by (cases s) auto
qed simp

declare trim_start.simps [simp del] trim_rev.simps [simp del]

definition trim :: "string \<Rightarrow> string" where
  "trim s = rev (trim_rev (rev (trim_start s)))"

text \<open>\<open>s.trim().is_empty()\<close>\<close>

definition blank :: "string \<Rightarrow> bool" where
  "blank s \<longleftrightarrow> trim s = []"

fun any_suffix :: "(string \<Rightarrow> bool) \<Rightarrow> string \<Rightarrow> bool" where
  "any_suffix p [] = p []"
| "any_suffix p (c # s) = (p (c # s) \<or> any_suffix p s)"

text \<open>\<open>s.chars().any(|c| c.is_whitespace() || c.is_control())\<close>; the controls are Unicode's Cc.\<close>

definition is_control_head :: "string \<Rightarrow> bool" where
  "is_control_head s = (case s of
      [] \<Rightarrow> False
    | a # t \<Rightarrow> code a < 32 \<or> code a = 127 \<or>
        (code a = 0xC2 \<and> (case t of [] \<Rightarrow> False | b # _ \<Rightarrow> 0x80 \<le> code b \<and> code b \<le> 0x9F)))"

definition has_whitespace_or_control :: "string \<Rightarrow> bool" where
  "has_whitespace_or_control = any_suffix (\<lambda>s. ws_head s \<noteq> 0 \<or> is_control_head s)"

section \<open>Prefixes and splitting\<close>

fun strip_prefix :: "string \<Rightarrow> string \<Rightarrow> string option" where
  "strip_prefix [] s = Some s"
| "strip_prefix (p # ps) [] = None"
| "strip_prefix (p # ps) (c # cs) = (if p = c then strip_prefix ps cs else None)"

definition starts_with :: "string \<Rightarrow> string \<Rightarrow> bool" where
  "starts_with p s \<longleftrightarrow> strip_prefix p s \<noteq> None"

fun split_on :: "(char \<Rightarrow> bool) \<Rightarrow> string \<Rightarrow> string list" where
  "split_on p [] = [[]]"
| "split_on p (c # s) =
     (if p c then [] # split_on p s
      else case split_on p s of [] \<Rightarrow> [[c]] | x # xs \<Rightarrow> (c # x) # xs)"

text \<open>\<open>s.split_once(c)\<close>\<close>

fun split_once :: "char \<Rightarrow> string \<Rightarrow> (string \<times> string) option" where
  "split_once d [] = None"
| "split_once d (c # s) =
     (if c = d then Some ([], s) else map_option (\<lambda>(a, b). (c # a, b)) (split_once d s))"

fun contains_str :: "string \<Rightarrow> string \<Rightarrow> bool" where
  "contains_str p [] = starts_with p []"
| "contains_str p (c # s) = (starts_with p (c # s) \<or> contains_str p s)"

section \<open>Decimal numbers\<close>

definition digit_char :: "nat \<Rightarrow> char" where
  "digit_char d = char_of (48 + d)"

definition digit_val :: "char \<Rightarrow> nat" where
  "digit_val c = code c - 48"

fun dec_of_nat :: "nat \<Rightarrow> string" where
  "dec_of_nat n = (if n < 10 then [digit_char n] else dec_of_nat (n div 10) @ [digit_char (n mod 10)])"

declare dec_of_nat.simps [simp del]

definition dec_of_int :: "int \<Rightarrow> string" where
  "dec_of_int i = (if i < 0 then CHR ''-'' # dec_of_nat (nat (- i)) else dec_of_nat (nat i))"

definition all_digits :: "string \<Rightarrow> bool" where
  "all_digits s \<longleftrightarrow> list_all is_ascii_digit s"

definition nat_of_digits :: "string \<Rightarrow> nat" where
  "nat_of_digits s = foldl (\<lambda>n c. 10 * n + digit_val c) 0 s"

text \<open>\<open>u64::from_str\<close>: an optional \<open>+\<close>, then at least one digit; an overflow is an error.\<close>

definition parse_u64 :: "string \<Rightarrow> u64 option" where
  "parse_u64 s =
     (let ds = (case s of [] \<Rightarrow> [] | c # t \<Rightarrow> if c = CHR ''+'' then t else s)
      in if ds = [] \<or> \<not> all_digits ds then None
         else if nat_of_digits ds < 2 ^ 64 then Some (word_of_nat (nat_of_digits ds)) else None)"

text \<open>\<open>parse\<close> of a signed integer of \<open>n + 1\<close> bits: an optional sign, at least one digit, in range.\<close>

definition parse_signed :: "nat \<Rightarrow> string \<Rightarrow> int option" where
  "parse_signed n s =
     (let (negative, ds) = (case s of
            c # rest \<Rightarrow> if c = CHR ''-'' then (True, rest) else if c = CHR ''+'' then (False, rest) else (False, s)
          | [] \<Rightarrow> (False, []));
          v = (if negative then - int (nat_of_digits ds) else int (nat_of_digits ds))
      in if ds = [] \<or> \<not> all_digits ds then None
         else if - (2 ^ n) \<le> v \<and> v < 2 ^ n then Some v else None)"

definition parse_i64 :: "string \<Rightarrow> i64 option" where
  "parse_i64 s = map_option word_of_int (parse_signed 63 s)"

text \<open>\<open>format!("{s:0<width$}")\<close> and \<open>format!("{n:0width$}")\<close>\<close>

definition pad_right :: "nat \<Rightarrow> string \<Rightarrow> string" where
  "pad_right w s = s @ replicate (w - length s) CHR ''0''"

definition pad_left :: "nat \<Rightarrow> string \<Rightarrow> string" where
  "pad_left w s = replicate (w - length s) CHR ''0'' @ s"

section \<open>Debug formatting\<close>

text \<open>
  \<open>format!("{s:?}")\<close>: quotes, backslashes and the ASCII controls are escaped as \<open>Debug for str\<close>
  does. Bytes of non-ASCII code points are copied; Rust also escapes the unprintable ones among
  them, which matters to the text of a message only.
\<close>

definition hex_digit :: "nat \<Rightarrow> char" where
  "hex_digit d = (if d < 10 then char_of (48 + d) else char_of (87 + d))"

definition debug_char :: "char \<Rightarrow> string" where
  "debug_char c =
     (if code c = 0 then [CHR 0x5C, CHR ''0'']
      else if code c = 9 then [CHR 0x5C, CHR ''t'']
      else if code c = 10 then [CHR 0x5C, CHR ''n'']
      else if code c = 13 then [CHR 0x5C, CHR ''r'']
      else if code c = 34 \<or> code c = 92 then [CHR 0x5C, c]
      else if code c < 16 then [CHR 0x5C, CHR ''u'', CHR 0x7B, hex_digit (code c), CHR 0x7D]
      else if code c < 32 \<or> code c = 127
        then [CHR 0x5C, CHR ''u'', CHR 0x7B, hex_digit (code c div 16), hex_digit (code c mod 16), CHR 0x7D]
      else [c])"

definition debug_str :: "string \<Rightarrow> string" where
  "debug_str s = CHR 0x22 # concat (map debug_char s) @ [CHR 0x22]"

text \<open>
  A \<open>char\<close> of the source may take several bytes here: the first one of a string, by its leading byte,
  and \<open>Debug for char\<close>, which escapes the single quote and not the double one.
\<close>

definition first_char :: "string \<Rightarrow> string" where
  "first_char s = (case s of [] \<Rightarrow> []
     | c # _ \<Rightarrow> take (if code c < 0x80 then 1 else if code c < 0xE0 then 2 else if code c < 0xF0 then 3 else 4) s)"

definition debug_char_lit :: "string \<Rightarrow> string" where
  "debug_char_lit s =
     [CHR 0x27] @
     (if s = [CHR 0x27] then [CHR 0x5C, CHR 0x27] else if s = [CHR 0x22] then s
      else concat (map debug_char s)) @
     [CHR 0x27]"

text \<open>The non-ASCII punctuation that the messages of the sources contain.\<close>

definition em_dash :: string where
  "em_dash = [CHR 0xE2, CHR 0x80, CHR 0x94]"

definition ellipsis :: string where
  "ellipsis = [CHR 0xE2, CHR 0x80, CHR 0xA6]"

section \<open>Facts\<close>

lemma code_less: "code c < 256"
  using of_char_mod_256 [of c, where ?'a = nat] by (metis mod_less_divisor zero_less_numeral)

lemma unat_byte_of: "unat (byte_of c) = code c"
  using code_less [of c] by (simp add: byte_of_def unat_of_nat)

lemma byte_of_inject [simp]: "byte_of c = byte_of d \<longleftrightarrow> c = d"
  by (metis unat_byte_of of_char_eq_iff)

lemma as_bytes_inject [simp]: "as_bytes s = as_bytes t \<longleftrightarrow> s = t"
  by (auto simp: as_bytes_def dest: map_injective [OF _ injI])

lemma length_as_bytes [simp]: "length (as_bytes s) = length s"
  by (simp add: as_bytes_def)

lemma as_bytes_append: "as_bytes (s @ t) = as_bytes s @ as_bytes t"
  by (simp add: as_bytes_def)

subsection \<open>Trimming\<close>

text \<open>Bytes that are neither white space nor part of a multi-byte code point.\<close>

definition graphic :: "char \<Rightarrow> bool" where
  "graphic c \<longleftrightarrow> 32 < code c \<and> code c < 128"

lemma ws_head_graphic: "graphic a \<Longrightarrow> ws_head (a # s) = 0"
  by (cases "(a # s)" rule: ws_head.cases) (auto simp: graphic_def ws1_def ws2_def ws3_def)

lemma ws_last_graphic: "graphic a \<Longrightarrow> ws_last (a # s) = 0"
  by (cases "(a # s)" rule: ws_last.cases) (auto simp: graphic_def ws1_def ws2_def ws3_def)

lemma trim_start_Nil [simp]: "trim_start [] = []"
  by (simp add: trim_start.simps)

lemma trim_rev_Nil [simp]: "trim_rev [] = []"
  by (simp add: trim_rev.simps)

lemma trim_Nil [simp]: "trim [] = []"
  by (simp add: trim_def)

lemma blank_Nil [simp]: "blank []"
  by (simp add: blank_def)

lemma trim_graphic: "list_all graphic s \<Longrightarrow> trim s = s"
proof (cases s)
  case (Cons a t)
  assume all: "list_all graphic s"
  with Cons have start: "trim_start s = s"
    by (simp add: trim_start.simps ws_head_graphic)
  obtain b u where r: "rev s = b # u"
    using Cons by (metis list.exhaust Nil_is_rev_conv list.distinct(1))
  with all have "graphic b"
    by (metis list.pred_inject(2) list_all_rev)
  then show ?thesis
    by (metis start r rev_rev_ident trim_def trim_rev.simps ws_last_graphic)
qed simp

lemma not_blank_graphic: "list_all graphic s \<Longrightarrow> s \<noteq> [] \<Longrightarrow> \<not> blank s"
  by (simp add: blank_def trim_graphic)

lemma trim_start_suffix: "\<exists>p. s = p @ trim_start s"
proof (induction s rule: trim_start.induct)
  case (1 s)
  show ?case
  proof (cases "ws_head s = 0")
    case False
    with 1 obtain p where "drop (ws_head s) s = p @ trim_start (drop (ws_head s) s)" by blast
    then have "s = (take (ws_head s) s @ p) @ trim_start (drop (ws_head s) s)"
      by (metis append.assoc append_take_drop_id)
    with False show ?thesis
      by (metis trim_start.simps)
  qed (simp add: trim_start.simps)
qed

lemma trim_rev_suffix: "\<exists>p. s = p @ trim_rev s"
proof (induction s rule: trim_rev.induct)
  case (1 s)
  show ?case
  proof (cases "ws_last s = 0")
    case False
    with 1 obtain p where "drop (ws_last s) s = p @ trim_rev (drop (ws_last s) s)" by blast
    then have "s = (take (ws_last s) s @ p) @ trim_rev (drop (ws_last s) s)"
      by (metis append.assoc append_take_drop_id)
    with False show ?thesis
      by (metis trim_rev.simps)
  qed (simp add: trim_rev.simps)
qed

lemma trim_infix: "\<exists>p q. s = p @ trim s @ q"
proof -
  obtain p where p: "s = p @ trim_start s" using trim_start_suffix by blast
  obtain q where "rev (trim_start s) = q @ trim_rev (rev (trim_start s))" using trim_rev_suffix by blast
  then have "trim_start s = trim s @ rev q"
    by (metis rev_append rev_rev_ident trim_def)
  with p show ?thesis by metis
qed

text \<open>Trimming leaves nothing to trim.\<close>

lemma ws_head_trim_start: "ws_head (trim_start s) = 0"
  by (induction s rule: trim_start.induct) (subst trim_start.simps, simp)

lemma ws_last_trim_rev: "ws_last (trim_rev s) = 0"
  by (induction s rule: trim_rev.induct) (subst trim_rev.simps, simp)

lemma ws_head_prefix: "ws_head (p @ q) = 0 \<Longrightarrow> ws_head p = 0"
  by (cases p rule: ws_head.cases; cases q rule: ws_head.cases) (auto split: if_splits)

lemma trim_idem [simp]: "trim (trim s) = trim s"
proof -
  obtain q where "rev (trim_start s) = q @ trim_rev (rev (trim_start s))" using trim_rev_suffix by blast
  then have "trim_start s = trim s @ rev q"
    by (metis rev_append rev_rev_ident trim_def)
  then have "ws_head (trim s) = 0" by (metis ws_head_prefix ws_head_trim_start)
  then have "trim_start (trim s) = trim s" by (simp add: trim_start.simps)
  moreover have "trim_rev (rev (trim s)) = rev (trim s)"
    by (simp add: trim_def trim_rev.simps [of "trim_rev x" for x] ws_last_trim_rev)
  ultimately show ?thesis by (metis rev_rev_ident trim_def)
qed

lemma set_trim: "set (trim s) \<subseteq> set s"
proof -
  obtain p q where "s = p @ trim s @ q" using trim_infix by blast
  then show ?thesis by (metis Un_iff set_append subsetI)
qed

text \<open>A graphic byte is never trimmed away, nor is anything between two of them.\<close>

lemma ws_last_le: "ws_last x \<le> length x"
  by (cases x rule: ws_last.cases) auto

lemma ws_last_not_graphic: "i < ws_last x \<Longrightarrow> \<not> graphic (x ! i)"
  by (cases x rule: ws_last.cases)
    (auto simp: graphic_def ws1_def ws2_def ws3_def less_Suc_eq numeral_3_eq_3 numeral_2_eq_2 split: if_splits)

lemma ws_last_snoc_graphic: "graphic c \<Longrightarrow> ws_last (u @ [c]) \<le> length u"
proof (rule ccontr)
  assume g: "graphic c" and "\<not> ws_last (u @ [c]) \<le> length u"
  then have "length u < ws_last (u @ [c])" by simp
  from ws_last_not_graphic [OF this] g show False by simp
qed

lemma trim_rev_snoc_graphic: "graphic c \<Longrightarrow> trim_rev (u @ [c]) = trim_rev u @ [c]"
proof (induction "length u" arbitrary: u rule: less_induct)
  case less
  let ?n = "ws_last (u @ [c])"
  have n: "?n \<le> length u" by (rule ws_last_snoc_graphic [OF less.prems])
  have same: "ws_last u = ?n"
    using less.prems
    by (cases u rule: ws_last.cases) (auto simp: graphic_def ws1_def ws2_def ws3_def)
  show ?case
  proof (cases "?n = 0")
    case True
    then show ?thesis by (simp add: trim_rev.simps same)
  next
    case False
    with n have "length (drop ?n u) < length u" by simp
    from less.hyps [OF this less.prems] False n show ?thesis
      by (subst (1 2) trim_rev.simps) (simp add: same)
  qed
qed

lemma trim_graphic_Cons: "graphic c \<Longrightarrow> \<exists>s'. trim (c # s) = c # s'"
  by (simp add: trim_def trim_start.simps [of "c # s"] ws_head_graphic trim_rev_snoc_graphic)

lemma not_blank_Cons: "graphic c \<Longrightarrow> \<not> blank (c # s)"
  using trim_graphic_Cons [of c s] by (auto simp: blank_def)

subsection \<open>Prefixes and splitting\<close>

lemma strip_prefix_Some_iff: "strip_prefix p s = Some t \<longleftrightarrow> s = p @ t"
  by (induction p s rule: strip_prefix.induct) auto

lemma starts_with_iff: "starts_with p s \<longleftrightarrow> (\<exists>t. s = p @ t)"
  by (simp add: starts_with_def strip_prefix_Some_iff)

lemma split_once_None_iff: "split_once c s = None \<longleftrightarrow> c \<notin> set s"
  by (induction c s rule: split_once.induct) auto

lemma split_once_Some_iff: "split_once c s = Some (a, b) \<longleftrightarrow> s = a @ c # b \<and> c \<notin> set a"
proof (induction s arbitrary: a b)
  case (Cons d s)
  show ?case
  proof (cases a)
    case (Cons e a')
    then show ?thesis using Cons.IH [of a' b] by auto
  qed (auto simp: Cons.IH)
qed simp

lemma split_once_append: "c \<notin> set a \<Longrightarrow> split_once c (a @ c # b) = Some (a, b)"
  by (simp add: split_once_Some_iff)

lemma split_on_nonempty [simp]: "split_on p s \<noteq> []"
  by (induction p s rule: split_on.induct) (auto split: list.splits)

text \<open>The first part of a split, and what is left of it.\<close>

lemma split_on_single_iff: "split_on (\<lambda>c. c = d) s = [a] \<longleftrightarrow> d \<notin> set a \<and> s = a"
proof (induction s arbitrary: a)
  case (Cons e s)
  obtain x xs where sp: "split_on (\<lambda>c. c = d) s = x # xs" by (metis list.exhaust split_on_nonempty)
  show ?case
  proof (cases a)
    case (Cons e' a')
    with sp Cons.IH [of a'] show ?thesis by auto
  qed (simp add: sp)
qed auto

lemma split_on_Cons_iff:
  "split_on (\<lambda>c. c = d) s = a # b # r \<longleftrightarrow>
     (\<exists>t. s = a @ d # t \<and> d \<notin> set a \<and> split_on (\<lambda>c. c = d) t = b # r)"
proof (induction s arbitrary: a)
  case (Cons e s)
  obtain x xs where sp: "split_on (\<lambda>c. c = d) s = x # xs" by (metis list.exhaust split_on_nonempty)
  show ?case
  proof (cases a)
    case Nil
    then show ?thesis by (auto simp: sp)
  next
    case a: (Cons e' a')
    have "split_on (\<lambda>c. c = d) (e # s) = a # b # r \<longleftrightarrow> e \<noteq> d \<and> e = e' \<and> x # xs = a' # b # r"
      by (auto simp: sp a)
    also have "\<dots> \<longleftrightarrow> (\<exists>t. e # s = a @ d # t \<and> d \<notin> set a \<and> split_on (\<lambda>c. c = d) t = b # r)"
      using Cons.IH [of a'] sp by (auto simp: a)
    finally show ?thesis .
  qed
qed simp

lemma split_on_three_iff:
  "split_on (\<lambda>c. c = d) s = [a, b, c] \<longleftrightarrow>
     s = a @ d # b @ d # c \<and> d \<notin> set a \<and> d \<notin> set b \<and> d \<notin> set c"
  by (auto simp: split_on_Cons_iff split_on_single_iff)

subsection \<open>Decimal numbers\<close>

lemma code_digit_char: "d < 10 \<Longrightarrow> code (digit_char d) = 48 + d"
  by (simp add: digit_char_def of_char_of)

lemma digit_val_digit_char [simp]: "d < 10 \<Longrightarrow> digit_val (digit_char d) = d"
  by (simp add: digit_val_def code_digit_char)

lemma is_ascii_digit_digit_char [simp]: "d < 10 \<Longrightarrow> is_ascii_digit (digit_char d)"
  by (simp add: is_ascii_digit_def code_digit_char)

lemma digit_val_less: "is_ascii_digit c \<Longrightarrow> digit_val c < 10"
  by (auto simp: is_ascii_digit_def digit_val_def)

lemma all_digits_append [simp]: "all_digits (s @ t) \<longleftrightarrow> all_digits s \<and> all_digits t"
  by (simp add: all_digits_def)

lemma all_digits_dec [simp]: "all_digits (dec_of_nat n)"
  by (induction n rule: dec_of_nat.induct)
     (subst dec_of_nat.simps, auto simp: all_digits_def)

lemma dec_of_nat_nonempty [simp]: "dec_of_nat n \<noteq> []"
  by (subst dec_of_nat.simps) simp

lemma nat_of_digits_Nil [simp]: "nat_of_digits [] = 0"
  by (simp add: nat_of_digits_def)

lemma nat_of_digits_snoc [simp]: "nat_of_digits (s @ [c]) = 10 * nat_of_digits s + digit_val c"
  by (simp add: nat_of_digits_def)

lemma nat_of_digits_append: "nat_of_digits (s @ t) = nat_of_digits s * 10 ^ length t + nat_of_digits t"
proof (induction t rule: rev_induct)
  case (snoc c t)
  have "nat_of_digits (s @ t @ [c]) = 10 * nat_of_digits (s @ t) + digit_val c"
    by (metis append.assoc nat_of_digits_snoc)
  with snoc show ?case by (simp add: algebra_simps)
qed simp

lemma nat_of_digits_dec [simp]: "nat_of_digits (dec_of_nat n) = n"
proof (induction n rule: dec_of_nat.induct)
  case (1 n)
  show ?case
  proof (cases "n < 10")
    case True
    then have "dec_of_nat n = [] @ [digit_char n]" by (simp add: dec_of_nat.simps)
    with True show ?thesis by (simp only: nat_of_digits_snoc) simp
  next
    case False
    then have "dec_of_nat n = dec_of_nat (n div 10) @ [digit_char (n mod 10)]"
      by (subst dec_of_nat.simps) simp
    with False 1 show ?thesis by (simp only: nat_of_digits_snoc) simp
  qed
qed

lemma nat_of_digits_less: "all_digits s \<Longrightarrow> nat_of_digits s < 10 ^ length s"
proof (induction s rule: rev_induct)
  case (snoc c s)
  then have "nat_of_digits s < 10 ^ length s" "digit_val c < 10"
    by (simp_all add: all_digits_def digit_val_less)
  then show ?case by simp
qed simp

lemma nat_of_digits_zeros [simp]: "nat_of_digits (replicate k CHR ''0'') = 0"
proof (induction k)
  case (Suc k)
  have "replicate (Suc k) CHR ''0'' = replicate k CHR ''0'' @ [CHR ''0'']"
    by (simp add: replicate_append_same)
  with Suc show ?case by (simp only: nat_of_digits_snoc) (simp add: digit_val_def)
qed simp

lemma all_digits_zeros [simp]: "all_digits (replicate k CHR ''0'')"
  by (simp add: all_digits_def list_all_iff is_ascii_digit_def)

lemma nat_of_digits_pad_left [simp]: "nat_of_digits (pad_left w s) = nat_of_digits s"
  by (simp add: pad_left_def nat_of_digits_append)

lemma nat_of_digits_pad_right: "nat_of_digits (pad_right w s) = nat_of_digits s * 10 ^ (w - length s)"
  by (simp add: pad_right_def nat_of_digits_append)

lemma all_digits_pad [simp]:
  "all_digits (pad_left w s) \<longleftrightarrow> all_digits s" "all_digits (pad_right w s) \<longleftrightarrow> all_digits s"
  by (simp_all add: pad_left_def pad_right_def)

lemma length_dec_of_nat_le: "n < 10 ^ k \<Longrightarrow> 0 < k \<Longrightarrow> length (dec_of_nat n) \<le> k"
proof (induction n arbitrary: k rule: dec_of_nat.induct)
  case (1 n)
  show ?case
  proof (cases "n < 10")
    case False
    with 1(2,3) obtain j where k: "k = Suc j" "0 < j"
      by (cases k; cases "k - 1") auto
    with 1(2) have "n div 10 < 10 ^ j" by (simp add: less_mult_imp_div_less mult.commute)
    with 1(1) [OF False] k have "length (dec_of_nat (n div 10)) \<le> j" by simp
    with False k show ?thesis by (subst dec_of_nat.simps) simp
  qed (use 1 in \<open>simp add: dec_of_nat.simps\<close>)
qed

lemma digit_not_special:
  "is_ascii_digit c \<Longrightarrow> c \<noteq> CHR ''+'' \<and> c \<noteq> CHR ''-'' \<and> c \<noteq> CHR ''.''"
  by (auto simp: is_ascii_digit_def)

lemma digit_graphic: "is_ascii_digit c \<Longrightarrow> graphic c"
  by (simp add: is_ascii_digit_def graphic_def)

lemma parse_u64_digits:
  assumes "all_digits s" "s \<noteq> []"
  shows "parse_u64 s = (if nat_of_digits s < 2 ^ 64 then Some (word_of_nat (nat_of_digits s)) else None)"
proof -
  obtain c t where s: "s = c # t" using assms(2) by (cases s) auto
  with assms(1) have "c \<noteq> CHR ''+''"
    using digit_not_special by (auto simp: all_digits_def)
  with s assms show ?thesis by (simp add: parse_u64_def)
qed

lemma parse_u64_dec: "parse_u64 (dec_of_nat (unat w)) = Some w"
  by (simp add: parse_u64_digits)

end
