(* ===== verification/Core_Types.thy ===== *)
theory Core_Types
  imports Rust_Str
begin

text \<open>
  The data of the seam, \<open>patala-core/src/error.rs\<close>, \<open>capabilities.rs\<close> and the request and
  response types of \<open>rail.rs\<close>: errors, settlement classes, capability descriptors, payment
  requests with their validation, quotes and receipts.
\<close>

section \<open>Settlement classes and capabilities\<close>

datatype rail_class = CustodialReversible | NonCustodialFinal

datatype settlement = Instant | Seconds u32 | Days u8

record rail_capabilities =
  caps_class :: rail_class
  reversible :: bool
  requires_kyc :: bool
  holds_funds :: bool
  currencies :: "string list"
  caps_settlement :: settlement
  atomic_multi_party :: bool

section \<open>Errors\<close>

datatype error =
    Unsupported string
  | Rail string
  | InvalidRequest string
  | CrossClassFailover rail_class rail_class \<comment> \<open>\<open>from\<close>, \<open>to\<close>\<close>
  | AllRailsFailed

type_synonym 'a result = "error + 'a"

fun debug_rail_class :: "rail_class \<Rightarrow> string" where
  "debug_rail_class CustodialReversible = ''CustodialReversible''"
| "debug_rail_class NonCustodialFinal = ''NonCustodialFinal''"

fun error_display :: "error \<Rightarrow> string" where
  "error_display (Unsupported m) = m @ '' is not supported by this rail''"
| "error_display (Rail m) = ''rail error: '' @ m"
| "error_display (InvalidRequest m) = ''invalid request: '' @ m"
| "error_display (CrossClassFailover a b) =
     ''failover from a '' @ debug_rail_class a @ '' rail to a '' @ debug_rail_class b @
     '' rail would cross the settlement-class boundary; call `.allow_cross_class(true)` on the '' @
     ''FailoverRail if this is intentional''"
| "error_display AllRailsFailed = ''no rail satisfied the request''"

definition require_atomic_multi_party :: "rail_capabilities \<Rightarrow> unit result" where
  "require_atomic_multi_party c =
     (if atomic_multi_party c then Ok ()
      else Err (Unsupported (''atomic_multi_party: this rail settles N payouts as N independent operations, '' @
             ''never as one atomic event'')))"

section \<open>Requests\<close>

record pay_request =
  pr_amount_minor :: u64
  pr_currency :: string
  pr_destination :: string
  pr_reference :: string

text \<open>\<open>PayRequest::validate\<close>: the guards in the order of the source.\<close>

definition pay_request_validate :: "pay_request \<Rightarrow> unit result" where
  "pay_request_validate req =
     (if pr_amount_minor req = 0 then Err (InvalidRequest ''amount_minor must be nonzero'')
      else if blank (pr_currency req) then Err (InvalidRequest ''currency must not be empty'')
      else if blank (pr_destination req) then Err (InvalidRequest ''destination must not be empty'')
      else if blank (pr_reference req) then Err (InvalidRequest ''reference must not be empty'')
      else Ok ())"

section \<open>Quotes and receipts\<close>

record quote =
  q_rail_id :: string
  q_amount_minor :: u64
  q_currency :: string
  q_fee_minor :: u64
  q_total_minor :: u64
  q_settlement :: settlement
  q_expires_at_unix :: u64

record receipt =
  r_rail_id :: string
  r_amount_minor :: u64
  r_currency :: string
  r_reference :: string
  r_proof :: bytes
  r_settled_at_unix :: u64

section \<open>Facts\<close>

definition well_formed_request :: "pay_request \<Rightarrow> bool" where
  "well_formed_request req \<longleftrightarrow>
     pr_amount_minor req \<noteq> 0 \<and> \<not> blank (pr_currency req) \<and>
     \<not> blank (pr_destination req) \<and> \<not> blank (pr_reference req)"

lemma validate_Ok_iff: "pay_request_validate req = Ok () \<longleftrightarrow> well_formed_request req"
  by (auto simp: pay_request_validate_def well_formed_request_def)

lemma validate_Err: "pay_request_validate req = Err e \<Longrightarrow> \<exists>m. e = InvalidRequest m"
  by (auto simp: pay_request_validate_def split: if_splits)

lemma well_formed_pos: "well_formed_request req \<Longrightarrow> 0 < unat (pr_amount_minor req)"
  by (simp add: well_formed_request_def unat_gt_0)

end
