(* ===== verification/Core_Destination.thy ===== *)
theory Core_Destination
  imports Core_Types
begin

text \<open>
  \<open>patala-core/src/destination.rs\<close>: what a rail can say offline about a destination. The five
  statuses, the verdict with its constructors, and the facts every verdict satisfies.
\<close>

datatype destination_status = Malformed | WrongNetwork | NotAWallet | StructurallyValid | Unknown

record destination_verdict =
  dv_rail_id :: string
  dv_status :: destination_status
  dv_reason :: string
  human_must_confirm :: bool
  exchange_deposit_caveat :: string

definition EXCHANGE_DEPOSIT_CAVEAT :: string where
  "EXCHANGE_DEPOSIT_CAVEAT =
     ''patala cannot tell whether this address belongs to an '' @
     ''exchange. A structurally perfect address may still be an exchange deposit or withdrawal '' @
     ''address, and an exchange will not credit funds arriving there to the person who gave you '' @
     ''the address. Determining that needs commercial address-attribution data patala deliberately '' @
     ''does not depend on, so only the person who owns the wallet can confirm they control this '' @
     ''address and can receive on it.''"

fun default_reason :: "destination_status \<Rightarrow> string" where
  "default_reason Malformed = ''this is not a well-formed address for this rail's network''"
| "default_reason WrongNetwork =
     ''this address is well-formed, but belongs to a different network than this rail pays on''"
| "default_reason NotAWallet =
     ''this address is valid on this network but is not a plain wallet '' @ em_dash @
     '' nobody may hold a key for it, so funds sent there can be unrecoverable''"
| "default_reason StructurallyValid =
     ''every check this rail can make offline passed; whether the recipient can actually '' @
     ''receive on it is not something this rail can know''"
| "default_reason Unknown =
     ''this rail cannot check this destination offline, so a human who controls the '' @
     ''receiving wallet must confirm it''"

section \<open>Constructors\<close>

definition verdict_new :: "string \<Rightarrow> destination_status \<Rightarrow> string \<Rightarrow> destination_verdict" where
  "verdict_new rail_id status reason =
     \<lparr> dv_rail_id = rail_id,
       dv_status = status,
       dv_reason = (if blank reason then default_reason status else reason),
       human_must_confirm = True,
       exchange_deposit_caveat = EXCHANGE_DEPOSIT_CAVEAT \<rparr>"

definition malformed :: "string \<Rightarrow> string \<Rightarrow> destination_verdict" where
  "malformed rail_id reason = verdict_new rail_id Malformed reason"

definition wrong_network :: "string \<Rightarrow> string \<Rightarrow> destination_verdict" where
  "wrong_network rail_id reason = verdict_new rail_id WrongNetwork reason"

definition not_a_wallet :: "string \<Rightarrow> string \<Rightarrow> destination_verdict" where
  "not_a_wallet rail_id reason = verdict_new rail_id NotAWallet reason"

definition structurally_valid :: "string \<Rightarrow> string \<Rightarrow> destination_verdict" where
  "structurally_valid rail_id reason = verdict_new rail_id StructurallyValid reason"

definition unknown :: "string \<Rightarrow> string \<Rightarrow> destination_verdict" where
  "unknown rail_id reason = verdict_new rail_id Unknown reason"

section \<open>Classification\<close>

definition is_refusal :: "destination_verdict \<Rightarrow> bool" where
  "is_refusal v = (case dv_status v of
       Malformed \<Rightarrow> True | WrongNetwork \<Rightarrow> True | NotAWallet \<Rightarrow> True
     | StructurallyValid \<Rightarrow> False | Unknown \<Rightarrow> False)"

definition requires_human_confirmation :: "destination_verdict \<Rightarrow> bool" where
  "requires_human_confirmation v = True"

section \<open>Facts\<close>

lemmas verdict_ctor_defs =
  malformed_def wrong_network_def not_a_wallet_def structurally_valid_def unknown_def

lemma verdict_new_sel [simp]:
  "dv_rail_id (verdict_new i s t) = i"
  "dv_status (verdict_new i s t) = s"
  "human_must_confirm (verdict_new i s t)"
  "exchange_deposit_caveat (verdict_new i s t) = EXCHANGE_DEPOSIT_CAVEAT"
  by (simp_all add: verdict_new_def)

lemma verdict_ctor_sel [simp]:
  "dv_rail_id (malformed i t) = i" "dv_status (malformed i t) = Malformed"
  "dv_rail_id (wrong_network i t) = i" "dv_status (wrong_network i t) = WrongNetwork"
  "dv_rail_id (not_a_wallet i t) = i" "dv_status (not_a_wallet i t) = NotAWallet"
  "dv_rail_id (structurally_valid i t) = i" "dv_status (structurally_valid i t) = StructurallyValid"
  "dv_rail_id (unknown i t) = i" "dv_status (unknown i t) = Unknown"
  by (simp_all add: verdict_ctor_defs)

lemma is_refusal_ctor [simp]:
  "is_refusal (malformed i t)" "is_refusal (wrong_network i t)" "is_refusal (not_a_wallet i t)"
  "\<not> is_refusal (structurally_valid i t)" "\<not> is_refusal (unknown i t)"
  by (simp_all add: is_refusal_def)

text \<open>
  The shape every rail owes its callers: a verdict names its rail, asks for the human, carries
  the caveat and has a reason to show.
\<close>

definition honest_verdict :: "string \<Rightarrow> destination_verdict \<Rightarrow> bool" where
  "honest_verdict i v \<longleftrightarrow>
     dv_rail_id v = i \<and> human_must_confirm v \<and>
     exchange_deposit_caveat v = EXCHANGE_DEPOSIT_CAVEAT \<and> \<not> blank (dv_reason v)"

lemma default_reason_not_blank: "\<not> blank (default_reason s)"
  by (cases s) (simp_all add: not_blank_Cons graphic_def)

lemma honest_verdict_new: "honest_verdict i (verdict_new i s t)"
  by (simp add: honest_verdict_def) (simp add: verdict_new_def default_reason_not_blank)

lemma honest_ctor [simp]:
  "honest_verdict i (malformed i t)" "honest_verdict i (wrong_network i t)"
  "honest_verdict i (not_a_wallet i t)" "honest_verdict i (structurally_valid i t)"
  "honest_verdict i (unknown i t)"
  by (simp_all add: verdict_ctor_defs honest_verdict_new)

end
