(* ===== verification/Core_Webhook.thy ===== *)
theory Core_Webhook
  imports Core_Types
begin

text \<open>
  \<open>patala-core/src/webhook.rs\<close>: an inbound delivery as it arrived and the authenticated event
  a rail makes of it. A \<open>BTreeMap\<close> that is only inserted into and looked up is a map.
\<close>

record webhook_delivery =
  raw_body :: bytes
  headers :: "string \<rightharpoonup> string"
  query :: "string \<rightharpoonup> string"
  now_unix :: u64

definition delivery_new :: "bytes \<Rightarrow> u64 \<Rightarrow> webhook_delivery" where
  "delivery_new body now = \<lparr> raw_body = body, headers = Map.empty, query = Map.empty, now_unix = now \<rparr>"

definition with_header :: "webhook_delivery \<Rightarrow> string \<Rightarrow> string \<Rightarrow> webhook_delivery" where
  "with_header d name value = d\<lparr> headers := (headers d)(to_ascii_lowercase name \<mapsto> value) \<rparr>"

definition with_headers :: "webhook_delivery \<Rightarrow> (string \<times> string) list \<Rightarrow> webhook_delivery" where
  "with_headers d hs = foldl (\<lambda>d' (k, v). with_header d' k v) d hs"

definition with_query_param :: "webhook_delivery \<Rightarrow> string \<Rightarrow> string \<Rightarrow> webhook_delivery" where
  "with_query_param d name value = d\<lparr> query := (query d)(name \<mapsto> value) \<rparr>"

definition with_query :: "webhook_delivery \<Rightarrow> (string \<times> string) list \<Rightarrow> webhook_delivery" where
  "with_query d ps = foldl (\<lambda>d' (k, v). with_query_param d' k v) d ps"

definition header :: "webhook_delivery \<Rightarrow> string \<Rightarrow> string option" where
  "header d name = headers d (to_ascii_lowercase name)"

definition query_param :: "webhook_delivery \<Rightarrow> string \<Rightarrow> string option" where
  "query_param d name = query d name"

definition header_or_empty :: "webhook_delivery \<Rightarrow> string \<Rightarrow> string" where
  "header_or_empty d name = (case header d name of None \<Rightarrow> [] | Some v \<Rightarrow> v)"

section \<open>Events\<close>

datatype webhook_status = Settled | NotSettled | Unconfirmed

record webhook_event =
  we_rail_id :: string
  we_event_id :: string
  we_reference :: string
  we_object_id :: string
  we_status :: webhook_status
  we_amount_minor :: u64
  we_currency :: string

definition unconfirmed :: "string \<Rightarrow> string \<Rightarrow> string \<Rightarrow> webhook_event" where
  "unconfirmed rail_id event_id object_id =
     \<lparr> we_rail_id = rail_id, we_event_id = event_id, we_reference = [], we_object_id = object_id,
       we_status = Unconfirmed, we_amount_minor = 0, we_currency = [] \<rparr>"

definition settlement_event ::
    "string \<Rightarrow> string \<Rightarrow> string \<Rightarrow> bool \<Rightarrow> u64 \<Rightarrow> string \<Rightarrow> webhook_event" where
  "settlement_event rail_id event_id reference settled amount currency =
     \<lparr> we_rail_id = rail_id, we_event_id = event_id, we_reference = reference, we_object_id = [],
       we_status = (if settled then Settled else NotSettled),
       we_amount_minor = (if settled then amount else 0),
       we_currency = (if settled then currency else []) \<rparr>"

definition with_object_id :: "webhook_event \<Rightarrow> string \<Rightarrow> webhook_event" where
  "with_object_id e object_id = e\<lparr> we_object_id := object_id \<rparr>"

definition is_settled :: "webhook_event \<Rightarrow> bool" where
  "is_settled e \<longleftrightarrow> we_status e = Settled"

section \<open>Facts\<close>

text \<open>Money on an event that did not settle: the invariant every constructor keeps.\<close>

definition no_phantom_money :: "webhook_event \<Rightarrow> bool" where
  "no_phantom_money e \<longleftrightarrow> (is_settled e \<or> (we_amount_minor e = 0 \<and> we_currency e = []))"

lemma we_rail_id_ctors [simp]:
  "we_rail_id (unconfirmed i e ob) = i"
  "we_rail_id (settlement_event i e r s a c) = i"
  "we_rail_id (with_object_id ev ob) = we_rail_id ev"
  by (simp_all add: unconfirmed_def settlement_event_def with_object_id_def)

lemma no_phantom_money_ctors [simp]:
  "no_phantom_money (unconfirmed i e ob)"
  "no_phantom_money (settlement_event i e r s a c)"
  "no_phantom_money (with_object_id ev ob) = no_phantom_money ev"
  by (simp_all add: no_phantom_money_def is_settled_def unconfirmed_def settlement_event_def
      with_object_id_def)

lemma of_char_char_of [simp]: "n < 256 \<Longrightarrow> code (char_of n) = (n :: nat)"
  by (simp add: of_char_of)

lemma to_lower_idem [simp]: "to_lower (to_lower c) = to_lower c"
  by (auto simp: to_lower_def is_ascii_upper_def)

lemma to_lower_to_upper [simp]: "to_lower (to_upper c) = to_lower c"
proof (cases "is_ascii_lower c")
  case True
  then have "to_lower (to_upper c) = char_of (code c - 32 + 32)" "to_lower c = c"
    by (auto simp: to_lower_def to_upper_def is_ascii_lower_def is_ascii_upper_def)
  with True show ?thesis by (simp add: is_ascii_lower_def)
qed (simp add: to_upper_def)

lemma lowercase_idem [simp]: "to_ascii_lowercase (to_ascii_lowercase s) = to_ascii_lowercase s"
  by (simp add: to_ascii_lowercase_def comp_def)

lemma lowercase_uppercase [simp]: "to_ascii_lowercase (to_ascii_uppercase s) = to_ascii_lowercase s"
  by (simp add: to_ascii_lowercase_def to_ascii_uppercase_def comp_def)

lemma header_with_header:
  "header (with_header d name v) n = (if eq_ignore_ascii_case n name then Some v else header d n)"
  by (simp add: header_def with_header_def eq_ignore_ascii_case_def)

lemma header_case_insensitive: "eq_ignore_ascii_case m n \<Longrightarrow> header d m = header d n"
  by (simp add: header_def eq_ignore_ascii_case_def)

text \<open>
  A forwarded header map is looked up as the last pair whose name agrees up to ASCII case, and
  what the delivery already held is the fallback.
\<close>

lemma header_with_headers:
  "header (with_headers d hs) n =
     (case find (\<lambda>(k, v). eq_ignore_ascii_case n k) (rev hs) of
        None \<Rightarrow> header d n | Some (k, v) \<Rightarrow> Some v)"
  unfolding with_headers_def
proof (induction hs rule: rev_induct)
  case (snoc h hs)
  then show ?case by (cases h) (simp add: header_with_header)
qed simp

lemma with_headers_frame:
  "raw_body (with_headers d hs) = raw_body d" "query (with_headers d hs) = query d"
  "now_unix (with_headers d hs) = now_unix d"
  unfolding with_headers_def by (induction hs arbitrary: d) (auto simp: with_header_def)

lemma with_query_frame:
  "raw_body (with_query d ps) = raw_body d" "headers (with_query d ps) = headers d"
  "now_unix (with_query d ps) = now_unix d"
  unfolding with_query_def by (induction ps arbitrary: d) (auto simp: with_query_param_def)

lemma query_with_query: "query (with_query d ps) = query d ++ map_of (rev ps)"
  unfolding with_query_def
proof (induction ps rule: rev_induct)
  case (snoc h ps)
  then show ?case by (cases h) (auto simp: with_query_param_def map_add_def fun_eq_iff)
qed simp

lemma headers_dom_with_headers:
  "dom (headers (with_headers d hs)) = dom (headers d) \<union> to_ascii_lowercase ` fst ` set hs"
  unfolding with_headers_def by (induction hs arbitrary: d) (auto simp: with_header_def)

end
