(* ===== verification/Core_Rail.thy ===== *)
theory Core_Rail
  imports Core_Destination Core_Webhook
begin

text \<open>
  \<open>patala-core/src/rail.rs\<close>: the \<open>PaymentRail\<close> trait. A trait object is a record of its methods;
  what an \<open>async\<close> method may observe or change (the clock, the network, a rail's own mutable
  state) is a world of type \<open>'w\<close> threaded through it. The trait's default methods are the
  definitions that a rail which does not override them uses. The locale states the contract the
  trait documents, and the failover chain is built on it.
\<close>

record 'w payment_rail =
  rail_id :: string
  capabilities :: rail_capabilities
  rail_quote :: "pay_request \<Rightarrow> 'w \<Rightarrow> quote result \<times> 'w"
  rail_charge :: "pay_request \<Rightarrow> 'w \<Rightarrow> receipt result \<times> 'w"
  rail_verify :: "receipt \<Rightarrow> 'w \<Rightarrow> bool result \<times> 'w"
  rail_validate_destination :: "string \<Rightarrow> destination_verdict"
  rail_refund :: "receipt \<Rightarrow> 'w \<Rightarrow> receipt result \<times> 'w"
  rail_verify_webhook :: "webhook_delivery \<Rightarrow> 'w \<Rightarrow> webhook_event result \<times> 'w"

section \<open>Default methods\<close>

definition default_validate_destination :: "string \<Rightarrow> string \<Rightarrow> destination_verdict" where
  "default_validate_destination self_id dest =
     (if blank dest then malformed self_id ''an empty destination is not an address on any rail''
      else unknown self_id
        (''the '' @ self_id @ '' rail does not check destinations offline, so it can neither accept nor '' @
         ''reject this one; a human who controls the receiving wallet must confirm it''))"

definition default_refund :: "receipt \<Rightarrow> 'w \<Rightarrow> receipt result \<times> 'w" where
  "default_refund r w = (Err (Unsupported ''refund''), w)"

definition default_verify_webhook :: "webhook_delivery \<Rightarrow> 'w \<Rightarrow> webhook_event result \<times> 'w" where
  "default_verify_webhook d w = (Err (Unsupported ''verify_webhook''), w)"

section \<open>The contract\<close>

text \<open>
  \<open>good\<close> is what the rail keeps true of its own state in the world. The laws: a request that does
  not validate is refused before any effect; a receipt names the rail that issued it; a receipt of
  another rail never verifies and costs nothing to refuse; a verdict is an honest one of this rail,
  and a blank destination is refused. What every rail of the repository keeps comes first, then what
  a rail that verifies keeps, then the full contract.
\<close>

locale rail_core =
  fixes R :: "'w payment_rail" and good :: "'w \<Rightarrow> bool"
  assumes quote_invalid:
      "pay_request_validate req = Err e \<Longrightarrow> rail_quote R req w = (Err e, w)"
    and charge_invalid:
      "pay_request_validate req = Err e \<Longrightarrow> rail_charge R req w = (Err e, w)"
    and charge_good: "good w \<Longrightarrow> rail_charge R req w = (res, w') \<Longrightarrow> good w'"
    and quote_good: "good w \<Longrightarrow> rail_quote R req w = (qres, w') \<Longrightarrow> good w'"
    and charge_names_rail:
      "good w \<Longrightarrow> rail_charge R req w = (Ok r, w') \<Longrightarrow> r_rail_id r = rail_id R"
    and quote_names_rail: "rail_quote R req w = (Ok q, w') \<Longrightarrow>
         q_rail_id q = rail_id R \<and> q_amount_minor q = pr_amount_minor req"
    and verdict_honest: "honest_verdict (rail_id R) (rail_validate_destination R d)"
    and blank_refused: "blank d \<Longrightarrow> is_refusal (rail_validate_destination R d)"
begin

text \<open>A charge that returns a receipt was asked for something well formed.\<close>

lemma charge_Ok_well_formed: "rail_charge R req w = (Ok r, w') \<Longrightarrow> well_formed_request req"
proof (rule ccontr)
  assume ok: "rail_charge R req w = (Ok r, w')" and "\<not> well_formed_request req"
  then obtain e where "pay_request_validate req = Err e"
    by (cases "pay_request_validate req") (auto simp: validate_Ok_iff)
  from charge_invalid [OF this, of w] ok show False by simp
qed

lemma quote_Ok_well_formed: "rail_quote R req w = (Ok q, w') \<Longrightarrow> well_formed_request req"
proof (rule ccontr)
  assume ok: "rail_quote R req w = (Ok q, w')" and "\<not> well_formed_request req"
  then obtain e where "pay_request_validate req = Err e"
    by (cases "pay_request_validate req") (auto simp: validate_Ok_iff)
  from quote_invalid [OF this, of w] ok show False by simp
qed

lemma verdict_needs_human: "human_must_confirm (rail_validate_destination R d)"
  using verdict_honest [of d] by (simp add: honest_verdict_def)

end

text \<open>A rail that can answer \<open>verify\<close> says no to a receipt of another rail, without asking anybody.\<close>

locale rail_base = rail_core +
  assumes verify_foreign: "r_rail_id r \<noteq> rail_id R \<Longrightarrow> rail_verify R r w = (Ok False, w)"
begin

text \<open>Only a receipt that names this rail can verify on it.\<close>

lemma verify_True_names_rail: "rail_verify R r w = (Ok True, w') \<Longrightarrow> r_rail_id r = rail_id R"
  using verify_foreign [of r w] by (cases "r_rail_id r = rail_id R") auto

end

text \<open>The full contract: the receipt echoes the request's reference, the quote its currency.\<close>

locale rail_contract = rail_base +
  assumes charge_reference:
      "good w \<Longrightarrow> rail_charge R req w = (Ok r, w') \<Longrightarrow> r_reference r = pr_reference req"
    and quote_currency: "rail_quote R req w = (Ok q, w') \<Longrightarrow> q_currency q = pr_currency req"
begin

lemma charge_receipt:
  "good w \<Longrightarrow> rail_charge R req w = (Ok r, w') \<Longrightarrow>
     r_rail_id r = rail_id R \<and> r_reference r = pr_reference req"
  using charge_names_rail charge_reference by blast

end

text \<open>A rail whose settlement is final, or that has no processor: \<open>refund\<close> is the trait's default.\<close>

locale final_rail = rail_contract +
  assumes refund_unsupported: "rail_refund R r w = (Err (Unsupported ''refund''), w)"
begin

lemma refund_never_succeeds: "rail_refund R r w \<noteq> (Ok r', w')"
  by (simp add: refund_unsupported)

end

lemma default_validate_destination_honest:
  "honest_verdict i (default_validate_destination i d)"
  by (simp add: default_validate_destination_def)

lemma default_validate_destination_blank:
  "is_refusal (default_validate_destination i d) = blank d"
  by (simp add: default_validate_destination_def)

end
