(* ===== verification/Core_Failover.thy ===== *)
theory Core_Failover
  imports Core_Rail
begin

text \<open>
  \<open>patala-core/src/failover.rs\<close>: a chain of rails tried in the order of a routing policy, which
  never crosses the settlement-class boundary unless it was asked to. \<open>plan\<close> and the attempt
  loops are the loops of the source; the lemmas say which rails a request can reach, which
  result wins and which error is reported.
\<close>

type_synonym 'w routing_policy = "'w payment_rail list \<Rightarrow> pay_request \<Rightarrow> 'w \<Rightarrow> nat list \<times> 'w"

definition in_order_policy :: "'w routing_policy" where
  "in_order_policy rails req w = ([0..<length rails], w)"

record plan =
  plan_order :: "nat list"
  plan_blocked :: "(rail_class \<times> rail_class) option"

record 'w failover_rail =
  fo_rails :: "'w payment_rail list"
  fo_policy :: "'w routing_policy"
  fo_allow_cross_class :: bool

definition failover_with_policy :: "'w payment_rail list \<Rightarrow> 'w routing_policy \<Rightarrow> 'w failover_rail" where
  "failover_with_policy rails policy =
     \<lparr> fo_rails = rails, fo_policy = policy, fo_allow_cross_class = False \<rparr>"

definition failover_new :: "'w payment_rail list \<Rightarrow> 'w failover_rail" where
  "failover_new rails = failover_with_policy rails in_order_policy"

definition allow_cross_class :: "'w failover_rail \<Rightarrow> bool \<Rightarrow> 'w failover_rail" where
  "allow_cross_class f allow = f\<lparr> fo_allow_cross_class := allow \<rparr>"

abbreviation class_of :: "'w payment_rail \<Rightarrow> rail_class" where
  "class_of R \<equiv> caps_class (capabilities R)"

text \<open>The loop of \<open>plan\<close>: \<open>intended\<close>, \<open>eligible\<close> and \<open>blocked\<close> are its mutable locals.\<close>

fun plan_loop ::
    "'w payment_rail list \<Rightarrow> bool \<Rightarrow> nat list \<Rightarrow> rail_class option \<Rightarrow> nat list \<Rightarrow>
     (rail_class \<times> rail_class) option \<Rightarrow> plan" where
  "plan_loop rails allow [] intended eligible blocked =
     \<lparr> plan_order = eligible, plan_blocked = blocked \<rparr>"
| "plan_loop rails allow (idx # order) intended eligible blocked =
     (if \<not> idx < length rails then plan_loop rails allow order intended eligible blocked
      else
        let cls = class_of (rails ! idx) in
        case intended of
          None \<Rightarrow> plan_loop rails allow order (Some cls) (eligible @ [idx]) blocked
        | Some want \<Rightarrow>
            if want = cls then plan_loop rails allow order intended (eligible @ [idx]) blocked
            else if allow then plan_loop rails allow order intended (eligible @ [idx]) blocked
            else plan_loop rails allow order intended eligible
                   (case blocked of None \<Rightarrow> Some (want, cls) | Some b \<Rightarrow> Some b))"

definition make_plan :: "'w failover_rail \<Rightarrow> pay_request \<Rightarrow> 'w \<Rightarrow> plan \<times> 'w" where
  "make_plan f req w =
     (let (order, w1) = fo_policy f (fo_rails f) req w
      in (plan_loop (fo_rails f) (fo_allow_cross_class f) order None [] None, w1))"

definition terminal_error :: "error option \<Rightarrow> (rail_class \<times> rail_class) option \<Rightarrow> error" where
  "terminal_error last_err blocked =
     (case blocked of
        Some (from_class, to_class) \<Rightarrow> CrossClassFailover from_class to_class
      | None \<Rightarrow> (case last_err of Some e \<Rightarrow> e | None \<Rightarrow> AllRailsFailed))"

text \<open>
  The loop \<open>quote\<close> and \<open>charge\<close> share: \<open>op\<close> is the trait method, \<open>last_err\<close> the mutable local, and
  the value \<open>Inl last_err\<close> at the end is what the caller hands to \<open>terminal_error\<close>.
\<close>

fun attempt ::
    "('w payment_rail \<Rightarrow> 'w \<Rightarrow> 'a result \<times> 'w) \<Rightarrow> 'w payment_rail list \<Rightarrow> nat list \<Rightarrow>
     error option \<Rightarrow> 'w \<Rightarrow> (error option + 'a) \<times> 'w" where
  "attempt op rails [] last_err w = (Inl last_err, w)"
| "attempt op rails (idx # order) last_err w =
     (case op (rails ! idx) w of
        (Inr x, w') \<Rightarrow> (Inr x, w')
      | (Inl e, w') \<Rightarrow> attempt op rails order (Some e) w')"

definition failover_quote :: "'w failover_rail \<Rightarrow> pay_request \<Rightarrow> 'w \<Rightarrow> quote result \<times> 'w" where
  "failover_quote f req w =
     (let (p, w1) = make_plan f req w in
      case attempt (\<lambda>R. rail_quote R req) (fo_rails f) (plan_order p) None w1 of
        (Inr q, w2) \<Rightarrow> (Ok q, w2)
      | (Inl last_err, w2) \<Rightarrow> (Err (terminal_error last_err (plan_blocked p)), w2))"

definition failover_charge :: "'w failover_rail \<Rightarrow> pay_request \<Rightarrow> 'w \<Rightarrow> receipt result \<times> 'w" where
  "failover_charge f req w =
     (let (p, w1) = make_plan f req w in
      case attempt (\<lambda>R. rail_charge R req) (fo_rails f) (plan_order p) None w1 of
        (Inr r, w2) \<Rightarrow> (Ok r, w2)
      | (Inl last_err, w2) \<Rightarrow> (Err (terminal_error last_err (plan_blocked p)), w2))"

fun verify_on :: "'w payment_rail list \<Rightarrow> receipt \<Rightarrow> 'w \<Rightarrow> bool result \<times> 'w" where
  "verify_on [] r w = (Ok False, w)"
| "verify_on (R # rails) r w =
     (if rail_id R = r_rail_id r then rail_verify R r w else verify_on rails r w)"

definition failover_verify :: "'w failover_rail \<Rightarrow> receipt \<Rightarrow> 'w \<Rightarrow> bool result \<times> 'w" where
  "failover_verify f r w = verify_on (fo_rails f) r w"

fun refund_on :: "'w payment_rail list \<Rightarrow> receipt \<Rightarrow> 'w \<Rightarrow> receipt result \<times> 'w" where
  "refund_on [] r w =
     (Err (Unsupported
        ''refund: the rail that issued this receipt is not wrapped by this FailoverRail''), w)"
| "refund_on (R # rails) r w =
     (if rail_id R = r_rail_id r then rail_refund R r w else refund_on rails r w)"

definition failover_refund :: "'w failover_rail \<Rightarrow> receipt \<Rightarrow> 'w \<Rightarrow> receipt result \<times> 'w" where
  "failover_refund f r w = refund_on (fo_rails f) r w"

definition destination_verdicts :: "'w failover_rail \<Rightarrow> string \<Rightarrow> destination_verdict list" where
  "destination_verdicts f dest = map (\<lambda>R. rail_validate_destination R dest) (fo_rails f)"

definition validate_destination_on ::
    "'w failover_rail \<Rightarrow> string \<Rightarrow> string \<Rightarrow> destination_verdict option" where
  "validate_destination_on f i dest =
     map_option (\<lambda>R. rail_validate_destination R dest) (find (\<lambda>R. rail_id R = i) (fo_rails f))"

section \<open>The plan\<close>

text \<open>The policy order without the indices that name no rail: what \<open>rails.get(idx)\<close> lets through.\<close>

definition in_range :: "'w payment_rail list \<Rightarrow> nat list \<Rightarrow> nat list" where
  "in_range rails order = filter (\<lambda>i. i < length rails) order"

text \<open>
  The abstract plan: the first rail in range fixes the class; without the opt-in only rails of
  that class are eligible and the first other class is what blocks.
\<close>

definition plan_spec :: "'w payment_rail list \<Rightarrow> bool \<Rightarrow> nat list \<Rightarrow> plan" where
  "plan_spec rails allow order =
     (case in_range rails order of
        [] \<Rightarrow> \<lparr> plan_order = [], plan_blocked = None \<rparr>
      | i # js \<Rightarrow>
          let c = class_of (rails ! i) in
          if allow then \<lparr> plan_order = i # js, plan_blocked = None \<rparr>
          else \<lparr> plan_order = filter (\<lambda>j. class_of (rails ! j) = c) (i # js),
                 plan_blocked = map_option (\<lambda>j. (c, class_of (rails ! j)))
                   (find (\<lambda>j. class_of (rails ! j) \<noteq> c) js) \<rparr>)"

lemma plan_loop_intended_allow:
  "plan_loop rails True order (Some c) el bl =
     \<lparr> plan_order = el @ in_range rails order, plan_blocked = bl \<rparr>"
  by (induction order arbitrary: el bl) (auto simp: in_range_def Let_def)

lemma plan_loop_intended_deny:
  "plan_loop rails False order (Some c) el bl =
     \<lparr> plan_order = el @ filter (\<lambda>j. class_of (rails ! j) = c) (in_range rails order),
       plan_blocked = (case bl of Some b \<Rightarrow> Some b
         | None \<Rightarrow> map_option (\<lambda>j. (c, class_of (rails ! j)))
             (find (\<lambda>j. class_of (rails ! j) \<noteq> c) (in_range rails order))) \<rparr>"
  by (induction order arbitrary: el bl) (auto simp: in_range_def Let_def split: option.splits)

lemma plan_loop_spec: "plan_loop rails allow order None [] None = plan_spec rails allow order"
proof (induction order)
  case (Cons i order)
  show ?case
  proof (cases "i < length rails")
    case True
    then show ?thesis
      by (cases allow)
        (simp_all add: plan_spec_def plan_loop_intended_allow plan_loop_intended_deny in_range_def Let_def)
  qed (use Cons in \<open>simp add: plan_spec_def in_range_def\<close>)
qed (simp add: plan_spec_def in_range_def)

text \<open>A plan looks at nothing but the number of rails and their classes.\<close>

lemma plan_loop_cong:
  assumes "length rails' = length rails"
    and "\<And>i. i < length rails \<Longrightarrow> class_of (rails' ! i) = class_of (rails ! i)"
  shows "plan_loop rails' allow order intended el bl = plan_loop rails allow order intended el bl"
  using assms
  by (induction rails allow order intended el bl rule: plan_loop.induct)
    (auto simp: Let_def split: option.split)

lemma plan_spec_in_range: "set (plan_order (plan_spec rails allow order)) \<subseteq> set (in_range rails order)"
  by (auto simp: plan_spec_def Let_def split: list.splits if_splits)

lemma plan_spec_bounds: "i \<in> set (plan_order (plan_spec rails allow order)) \<Longrightarrow> i < length rails"
  using plan_spec_in_range [of rails allow order] by (auto simp: in_range_def)

lemma plan_spec_same_class:
  assumes "i \<in> set (plan_order (plan_spec rails False order))"
  shows "class_of (rails ! i) = class_of (rails ! hd (in_range rails order))"
  using assms by (auto simp: plan_spec_def Let_def split: list.splits if_splits)

lemma plan_spec_empty_iff:
  "plan_order (plan_spec rails allow order) = [] \<longleftrightarrow> in_range rails order = []"
  by (auto simp: plan_spec_def Let_def split: list.splits if_splits)

lemma find_SomeD: "find P xs = Some x \<Longrightarrow> x \<in> set xs \<and> P x"
  by (induction xs) (auto split: if_splits)

lemma plan_spec_blocked:
  assumes "plan_blocked (plan_spec rails allow order) = Some (c, d)"
  shows "\<not> allow \<and> c \<noteq> d \<and> c = class_of (rails ! hd (in_range rails order)) \<and>
     (\<exists>j \<in> set (in_range rails order). d = class_of (rails ! j))"
proof (cases "in_range rails order")
  case (Cons i js)
  with assms obtain j where "\<not> allow" "c = class_of (rails ! i)" "d = class_of (rails ! j)"
      "find (\<lambda>j. class_of (rails ! j) \<noteq> class_of (rails ! i)) js = Some j"
    by (auto simp: plan_spec_def Let_def split: if_splits)
  then show ?thesis using Cons by (auto dest!: find_SomeD)
qed (use assms in \<open>simp add: plan_spec_def\<close>)

lemma plan_spec_not_blocked:
  assumes "plan_blocked (plan_spec rails False order) = None" and "i \<in> set (in_range rails order)"
  shows "i \<in> set (plan_order (plan_spec rails False order))"
  using assms by (auto simp: plan_spec_def Let_def find_None_iff split: list.splits if_splits)

lemma plan_spec_blocked_exists:
  assumes "\<exists>j \<in> set (in_range rails order). class_of (rails ! j) \<noteq> class_of (rails ! hd (in_range rails order))"
  obtains d where "plan_blocked (plan_spec rails False order) =
      Some (class_of (rails ! hd (in_range rails order)), d)" "d \<noteq> class_of (rails ! hd (in_range rails order))"
proof (cases "plan_blocked (plan_spec rails False order)")
  case None
  with assms plan_spec_not_blocked plan_spec_same_class show thesis by blast
next
  case (Some b)
  then obtain c d where "plan_blocked (plan_spec rails False order) = Some (c, d)" by (cases b) simp
  with plan_spec_blocked [OF this] that show thesis by auto
qed

lemma plan_spec_all:
  assumes "allow \<or> (\<forall>j \<in> set (in_range rails order).
      class_of (rails ! j) = class_of (rails ! hd (in_range rails order)))"
  shows "plan_order (plan_spec rails allow order) = in_range rails order \<and>
    plan_blocked (plan_spec rails allow order) = None"
  using assms by (auto simp: plan_spec_def Let_def find_None_iff filter_id_conv split: list.splits)

section \<open>The attempts\<close>

lemma attempt_append:
  "attempt op rails (xs @ ys) last_err w =
     (case attempt op rails xs last_err w of
        (Inr x, w') \<Rightarrow> (Inr x, w') | (Inl l, w') \<Rightarrow> attempt op rails ys l w')"
  by (induction xs arbitrary: last_err w) (auto split: prod.splits sum.splits)

text \<open>A success is the first one: every attempt before it failed, and in that order.\<close>

lemma attempt_Inr_split:
  assumes "attempt op rails order last_err w = (Inr x, w')"
  obtains pre i post w1 l where "order = pre @ i # post"
    "attempt op rails pre last_err w = (Inl l, w1)" "op (rails ! i) w1 = (Inr x, w')"
proof -
  have "\<exists>pre i post w1 l. order = pre @ i # post \<and>
      attempt op rails pre last_err w = (Inl l, w1) \<and> op (rails ! i) w1 = (Inr x, w')"
    using assms
  proof (induction order arbitrary: last_err w)
    case (Cons j order)
    obtain res w2 where op: "op (rails ! j) w = (res, w2)" by fastforce
    show ?case
    proof (cases res)
      case (Inr y)
      with op Cons.prems have "op (rails ! j) w = (Inr x, w')" by simp
      moreover have "j # order = [] @ j # order" "attempt op rails [] last_err w = (Inl last_err, w)"
        by simp_all
      ultimately show ?thesis by blast
    next
      case (Inl e)
      with op Cons.prems have "attempt op rails order (Some e) w2 = (Inr x, w')" by simp
      from Cons.IH [OF this] obtain pre i post w1 l where "order = pre @ i # post"
          "attempt op rails pre (Some e) w2 = (Inl l, w1)" "op (rails ! i) w1 = (Inr x, w')"
        by blast
      moreover from this op Inl have "j # order = (j # pre) @ i # post"
          "attempt op rails (j # pre) last_err w = (Inl l, w1)"
        by simp_all
      ultimately show ?thesis by blast
    qed
  qed simp
  with that show thesis by blast
qed

text \<open>When every attempt fails, what is kept is the error of the last one.\<close>

lemma attempt_Inl_last:
  assumes "attempt op rails order last_err w = (Inl l, w')"
  shows "order = [] \<and> l = last_err \<and> w' = w \<or>
    (\<exists>w1 e. order \<noteq> [] \<and> op (rails ! last order) w1 = (Inl e, w') \<and> l = Some e)"
  using assms
proof (induction order arbitrary: last_err w)
  case (Cons j order)
  then obtain e w2 where op: "op (rails ! j) w = (Inl e, w2)"
    and rest: "attempt op rails order (Some e) w2 = (Inl l, w')"
    by (auto split: prod.splits sum.splits)
  from Cons.IH [OF rest] op show ?case by auto
qed simp

lemma attempt_good:
  assumes "\<And>i w x w'. i \<in> set order \<Longrightarrow> good w \<Longrightarrow> op (rails ! i) w = (x, w') \<Longrightarrow> good w'"
    and "good w" and "attempt op rails order last_err w = (res, w')"
  shows "good w'"
  using assms
proof (induction order arbitrary: last_err w)
  case (Cons j order)
  obtain x w2 where op: "op (rails ! j) w = (x, w2)" by fastforce
  have w2: "good w2" using Cons.prems(1) [of j] Cons.prems(2) op by simp
  show ?case
  proof (cases x)
    case (Inl e)
    with op Cons.prems(3) have "attempt op rails order (Some e) w2 = (res, w')" by simp
    then show ?thesis using Cons.IH Cons.prems(1) w2 by (meson list.set_intros(2))
  next
    case (Inr y)
    with op Cons.prems(3) w2 show ?thesis by simp
  qed
qed simp

text \<open>Only the rails that are attempted can matter.\<close>

lemma attempt_cong:
  "(\<And>i. i \<in> set order \<Longrightarrow> op (rails ! i) = op (rails' ! i)) \<Longrightarrow>
     attempt op rails order last_err w = attempt op rails' order last_err w"
  by (induction order arbitrary: last_err w) (auto split: prod.splits sum.splits)

lemma attempt_None: "attempt op rails order last_err w = (Inl None, w') \<Longrightarrow> order = [] \<and> last_err = None \<and> w' = w"
  by (induction order arbitrary: last_err w) (auto split: prod.splits sum.splits dest!: meta_spec)

section \<open>Chains of contract-abiding rails\<close>

text \<open>
  A chain whose rails keep the \<open>PaymentRail\<close> contract over one world invariant, under a routing
  policy that keeps it too (a policy may ask the rails for quotes).
\<close>

locale failover_chain =
  fixes f :: "'w failover_rail" and good :: "'w \<Rightarrow> bool"
  assumes rails_contract: "R \<in> set (fo_rails f) \<Longrightarrow> rail_contract R good"
    and policy_good: "good w \<Longrightarrow> fo_policy f (fo_rails f) req w = (order, w') \<Longrightarrow> good w'"
begin

lemma nth_contract: "i < length (fo_rails f) \<Longrightarrow> rail_contract (fo_rails f ! i) good"
  by (simp add: rails_contract)

lemma nth_base: "i < length (fo_rails f) \<Longrightarrow> rail_base (fo_rails f ! i) good"
  by (rule rail_contract.axioms(1) [OF nth_contract])

lemma make_plan_eq:
  assumes "make_plan f req w = (p, w1)"
  obtains order where "fo_policy f (fo_rails f) req w = (order, w1)"
    "p = plan_spec (fo_rails f) (fo_allow_cross_class f) order"
  using assms by (auto simp: make_plan_def plan_loop_spec split: prod.splits)

lemma charge_attempts_good:
  assumes "good w1" "attempt (\<lambda>R. rail_charge R req) (fo_rails f) js None w1 = (res, w2)"
    and "\<And>i. i \<in> set js \<Longrightarrow> i < length (fo_rails f)"
  shows "good w2"
proof -
  have "good w'" if "i \<in> set js" "good w" "rail_charge (fo_rails f ! i) req w = (x, w')" for i w x w'
    using rail_core.charge_good [OF rail_base.axioms(1) [OF nth_base [OF assms(3)]]] that by blast
  then show ?thesis
    using attempt_good [where good = good and op = "\<lambda>R. rail_charge R req"] assms(1,2) by blast
qed

lemma charge_keeps_good:
  assumes "good w" "failover_charge f req w = (res, w')"
  shows "good w'"
proof -
  obtain p w1 where p: "make_plan f req w = (p, w1)" by fastforce
  then obtain order where pol: "fo_policy f (fo_rails f) req w = (order, w1)"
      and p': "p = plan_spec (fo_rails f) (fo_allow_cross_class f) order"
    by (rule make_plan_eq)
  obtain res2 w2 where att:
      "attempt (\<lambda>R. rail_charge R req) (fo_rails f) (plan_order p) None w1 = (res2, w2)" by fastforce
  have "w' = w2" using assms(2) p att by (auto simp: failover_charge_def split: sum.splits)
  moreover have "good w2"
    by (rule charge_attempts_good [OF policy_good [OF assms(1) pol] att]) (use p' plan_spec_bounds in blast)
  ultimately show ?thesis by simp
qed

text \<open>Where a receipt of the chain comes from.\<close>

lemma charge_Ok_origin:
  assumes "good w" "failover_charge f req w = (Ok r, w')"
  obtains order w1 i w2 where "fo_policy f (fo_rails f) req w = (order, w1)"
    "i \<in> set (plan_order (plan_spec (fo_rails f) (fo_allow_cross_class f) order))"
    "i < length (fo_rails f)" "good w2" "rail_charge (fo_rails f ! i) req w2 = (Ok r, w')"
proof -
  obtain p w1 where p: "make_plan f req w = (p, w1)" by fastforce
  then obtain order where pol: "fo_policy f (fo_rails f) req w = (order, w1)"
      and p': "p = plan_spec (fo_rails f) (fo_allow_cross_class f) order"
    by (rule make_plan_eq)
  have "attempt (\<lambda>R. rail_charge R req) (fo_rails f) (plan_order p) None w1 = (Inr r, w')"
    using assms(2) p by (auto simp: failover_charge_def split: prod.splits sum.splits)
  then obtain pre i post w2 l where sp: "plan_order p = pre @ i # post"
      and pre: "attempt (\<lambda>R. rail_charge R req) (fo_rails f) pre None w1 = (Inl l, w2)"
      and op: "rail_charge (fo_rails f ! i) req w2 = (Inr r, w')"
    by (rule attempt_Inr_split)
  have bounds: "j < length (fo_rails f)" if "j \<in> set (plan_order p)" for j
    using that p' plan_spec_bounds by blast
  have "good w2"
    by (rule charge_attempts_good [OF policy_good [OF assms(1) pol] pre]) (simp add: bounds sp)
  with that [OF pol _ _ _ op] sp p' bounds show thesis by simp
qed

end

section \<open>Routing by the rail a receipt names\<close>

lemma verify_on_find:
  "verify_on rails r w =
     (case find (\<lambda>R. rail_id R = r_rail_id r) rails of
        None \<Rightarrow> (Ok False, w) | Some R \<Rightarrow> rail_verify R r w)"
  by (induction rails r w rule: verify_on.induct) auto

lemma refund_on_find:
  "refund_on rails r w =
     (case find (\<lambda>R. rail_id R = r_rail_id r) rails of
        None \<Rightarrow> (Err (Unsupported
          ''refund: the rail that issued this receipt is not wrapped by this FailoverRail''), w)
      | Some R \<Rightarrow> rail_refund R r w)"
  by (induction rails r w rule: refund_on.induct) auto

lemma find_distinct_id:
  "distinct (map rail_id rails) \<Longrightarrow> R \<in> set rails \<Longrightarrow> find (\<lambda>S. rail_id S = rail_id R) rails = Some R"
  by (induction rails) (auto simp: image_iff)

section \<open>Properties\<close>

text \<open>
  C1: without the opt-in, once the policy has decided, a charge through the chain does not depend on a
  rail of another settlement class. Take a chain and a second one that keeps the rails of the class the
  policy's first rail fixed and puts, for each other rail, any rail that declares the same capabilities.
  If the two policies give the same order and leave the same world behind, as a policy in rail order or
  one that asks for capabilities alone does, then both charges give the same result and the same effects,
  so after the policy's own questions no method of a rail of another class is called. A policy that asks
  every rail for a quote, as one that seeks the cheapest would, calls those rails itself: what it does
  there is outside this claim.
\<close>

theorem failover_charge_never_crosses_class:
  assumes closed: "\<not> fo_allow_cross_class f" "\<not> fo_allow_cross_class f'"
    and pol: "fo_policy f (fo_rails f) req w = (order, w1)" "fo_policy f' (fo_rails f') req w = (order, w1)"
    and caps: "map capabilities (fo_rails f') = map capabilities (fo_rails f)"
    and same: "\<And>i. i < length (fo_rails f) \<Longrightarrow>
      class_of (fo_rails f ! i) = class_of (fo_rails f ! hd (in_range (fo_rails f) order)) \<Longrightarrow>
      fo_rails f' ! i = fo_rails f ! i"
  shows "failover_charge f' req w = failover_charge f req w"
proof -
  let ?rs = "fo_rails f" and ?rs' = "fo_rails f'"
  have len: "length ?rs' = length ?rs" using caps by (rule map_eq_imp_length_eq)
  have cls: "class_of (?rs' ! i) = class_of (?rs ! i)" if "i < length ?rs" for i
    using caps len that by (metis nth_map)
  have plan: "plan_spec ?rs' False order = plan_spec ?rs False order"
    by (simp add: plan_loop_cong [OF len cls] flip: plan_loop_spec)
  have "attempt (\<lambda>R. rail_charge R req) ?rs' (plan_order (plan_spec ?rs False order)) None w1 =
        attempt (\<lambda>R. rail_charge R req) ?rs (plan_order (plan_spec ?rs False order)) None w1"
  proof (rule attempt_cong)
    fix i assume "i \<in> set (plan_order (plan_spec ?rs False order))"
    then have "?rs' ! i = ?rs ! i"
      by (intro same plan_spec_bounds plan_spec_same_class)
    then show "rail_charge (?rs' ! i) req = rail_charge (?rs ! i) req" by simp
  qed
  then show ?thesis
    using closed pol by (simp add: failover_charge_def make_plan_def plan_loop_spec plan)
qed

text \<open>
  A receipt of a chain comes from a rail of the chain and for the request as asked: it names
  a wrapped rail, echoes the request's reference, the request was well formed, and without the
  opt-in the rail is of the class that the policy's first rail fixed.
\<close>

theorem failover_charge_receipt_origin:
  assumes chain: "failover_chain f good" and w: "good w"
    and ok: "failover_charge f req w = (Ok r, w')"
    and pol: "fo_policy f (fo_rails f) req w = (order, w1)"
  shows "well_formed_request req \<and> r_reference r = pr_reference req \<and> good w' \<and>
    (\<exists>R \<in> set (fo_rails f). r_rail_id r = rail_id R \<and>
      (fo_allow_cross_class f \<or> class_of R = class_of (fo_rails f ! hd (in_range (fo_rails f) order))))"
proof -
  obtain i w2 where i: "i \<in> set (plan_order (plan_spec (fo_rails f) (fo_allow_cross_class f) order))"
      "i < length (fo_rails f)" and w2: "good w2" and ch: "rail_charge (fo_rails f ! i) req w2 = (Ok r, w')"
    using failover_chain.charge_Ok_origin [OF chain w ok] pol by (metis fst_conv)
  note con = failover_chain.nth_contract [OF chain i(2)] and base = rail_base.axioms(1) [OF failover_chain.nth_base [OF chain i(2)]]
  have "class_of (fo_rails f ! i) = class_of (fo_rails f ! hd (in_range (fo_rails f) order))"
    if "\<not> fo_allow_cross_class f"
    using plan_spec_same_class i(1) that by simp
  then show ?thesis
    using rail_core.charge_Ok_well_formed [OF base ch] rail_contract.charge_receipt [OF con w2 ch]
      rail_core.charge_good [OF base w2 ch] nth_mem [OF i(2)] by blast
qed

text \<open>
  C24: which error a chain reports. Nothing in range is \<open>AllRailsFailed\<close>, with no rail called; a
  rail the closed chain had to leave out is \<open>CrossClassFailover\<close> from the fixed class to another
  one, whatever the tried rails answered; otherwise it is the answer of the last rail tried.
\<close>

theorem failover_charge_error_precedence:
  assumes err: "failover_charge f req w = (Err e, w')"
    and pol: "fo_policy f (fo_rails f) req w = (order, w1)"
  defines "cands \<equiv> in_range (fo_rails f) order"
  shows "if cands = [] then e = AllRailsFailed \<and> w' = w1
    else if \<not> fo_allow_cross_class f \<and> (\<exists>j \<in> set cands. class_of (fo_rails f ! j) \<noteq> class_of (fo_rails f ! hd cands))
    then (\<exists>d. e = CrossClassFailover (class_of (fo_rails f ! hd cands)) d \<and> d \<noteq> class_of (fo_rails f ! hd cands))
    else (\<exists>w2. rail_charge (fo_rails f ! last cands) req w2 = (Err e, w'))"
proof -
  let ?p = "plan_spec (fo_rails f) (fo_allow_cross_class f) order"
  obtain l where att: "attempt (\<lambda>R. rail_charge R req) (fo_rails f) (plan_order ?p) None w1 = (Inl l, w')"
      and e: "e = terminal_error l (plan_blocked ?p)"
    using err pol
    by (auto simp: failover_charge_def make_plan_def plan_loop_spec split: prod.splits sum.splits)
  consider (none) "cands = []"
    | (blocked) "cands \<noteq> []" "\<not> fo_allow_cross_class f"
        "\<exists>j \<in> set cands. class_of (fo_rails f ! j) \<noteq> class_of (fo_rails f ! hd cands)"
    | (tried) "cands \<noteq> []"
        "fo_allow_cross_class f \<or> (\<forall>j \<in> set cands. class_of (fo_rails f ! j) = class_of (fo_rails f ! hd cands))"
    by blast
  then show ?thesis
  proof cases
    case none
    then have "?p = \<lparr> plan_order = [], plan_blocked = None \<rparr>"
      by (simp add: plan_spec_def cands_def)
    with att e none show ?thesis by (simp add: terminal_error_def)
  next
    case blocked
    from plan_spec_blocked_exists [OF blocked(3) [unfolded cands_def]] blocked(2)
    obtain d where "plan_blocked ?p = Some (class_of (fo_rails f ! hd cands), d)"
        "d \<noteq> class_of (fo_rails f ! hd cands)"
      by (auto simp: cands_def)
    with e blocked show ?thesis by (simp add: terminal_error_def)
  next
    case tried
    then have "plan_order ?p = cands" "plan_blocked ?p = None"
      using plan_spec_all by (auto simp: cands_def)
    with attempt_Inl_last [OF att] e tried show ?thesis by (auto simp: terminal_error_def)
  qed
qed

text \<open>
  With distinct rail ids a receipt goes back to the rail that issued it: verification and
  refund are that rail's own, and a receipt no wrapped rail issued is never valid and never
  refunded, with no effect.
\<close>

theorem failover_routes_to_issuer:
  assumes "distinct (map rail_id (fo_rails f))"
  shows "(\<forall>R \<in> set (fo_rails f). r_rail_id r = rail_id R \<longrightarrow>
       failover_verify f r w = rail_verify R r w \<and> failover_refund f r w = rail_refund R r w) \<and>
    (r_rail_id r \<notin> rail_id ` set (fo_rails f) \<longrightarrow>
       failover_verify f r w = (Ok False, w) \<and> (\<exists>m. failover_refund f r w = (Err (Unsupported m), w)))"
proof (intro conjI ballI impI)
  fix R assume "R \<in> set (fo_rails f)" "r_rail_id r = rail_id R"
  then show "failover_verify f r w = rail_verify R r w" "failover_refund f r w = rail_refund R r w"
    using find_distinct_id [OF assms] by (simp_all add: failover_verify_def failover_refund_def
        verify_on_find refund_on_find)
next
  assume "r_rail_id r \<notin> rail_id ` set (fo_rails f)"
  then have "find (\<lambda>R. rail_id R = r_rail_id r) (fo_rails f) = None"
    by (auto simp: find_None_iff image_iff)
  then show "failover_verify f r w = (Ok False, w)" "\<exists>m. failover_refund f r w = (Err (Unsupported m), w)"
    by (simp_all add: failover_verify_def failover_refund_def verify_on_find refund_on_find)
qed

text \<open>
  C2: the loop that builds the failover order, with its three mutable variables, computes the abstract
  plan: the first rail in range of the policy's order fixes the settlement class, the plan is every rail
  in range of that class (or every rail, with the opt-in), and the blocked crossing is the first rail of
  another class.
\<close>

theorem failover_plan_refines_spec:
  "make_plan f req w =
     (plan_spec (fo_rails f) (fo_allow_cross_class f) (fst (fo_policy f (fo_rails f) req w)),
      snd (fo_policy f (fo_rails f) req w))"
  by (simp add: make_plan_def plan_loop_spec split: prod.split)

end
