(* ===== verification/Core_Mock.thy ===== *)
theory Core_Mock
  imports Core_Failover
begin

text \<open>
  \<open>patala-core/src/mock.rs\<close>: the deterministic offline rail, with its keyed digest, the bytes a
  proof covers and its synthetic address grammar. The clock is a function of the world. The rail
  meets the \<open>PaymentRail\<close> contract, its genuine receipts verify, and a chain of such rails meets
  the assumptions of the failover chain.
\<close>

definition DIGEST_LEN :: nat where "DIGEST_LEN = 32"
definition KEY_LEN :: nat where "KEY_LEN = 16"

definition FNV_OFFSET :: u64 where "FNV_OFFSET = 0xcbf29ce484222325"
definition FNV_PRIME :: u64 where "FNV_PRIME = 0x00000100000001b3"

definition fnv1a_round :: "u8 \<Rightarrow> bytes \<Rightarrow> bytes \<Rightarrow> u64" where
  "fnv1a_round salt key msg =
     foldl (\<lambda>h b. (h XOR ucast b) * FNV_PRIME) (FNV_OFFSET XOR ucast salt) (key @ msg)"

definition keyed_digest :: "bytes \<Rightarrow> bytes \<Rightarrow> bytes" where
  "keyed_digest key msg =
     concat (map (\<lambda>rnd. u64_to_le_bytes (fnv1a_round (word_of_nat rnd) key msg)) [0..<4])"

definition signing_bytes :: "string \<Rightarrow> receipt \<Rightarrow> bytes" where
  "signing_bytes rid r =
     as_bytes rid @ u64_to_le_bytes (r_amount_minor r) @ as_bytes (r_currency r) @
     as_bytes (r_reference r) @ u64_to_le_bytes (r_settled_at_unix r)"

record mock_rail =
  m_id :: string
  m_capabilities :: rail_capabilities
  m_key :: bytes
  m_fee_minor :: u64
  m_fail :: bool
  m_checks_destinations :: bool

definition mock_new :: "string \<Rightarrow> rail_class \<Rightarrow> string list \<Rightarrow> mock_rail" where
  "mock_new rid cls ccys =
     (let digest = keyed_digest (as_bytes ''patala-core/mock-rail-key/v1'') (as_bytes rid);
          rev = (cls = CustodialReversible)
      in \<lparr> m_id = rid,
           m_capabilities =
             \<lparr> caps_class = cls, reversible = rev, requires_kyc = rev, holds_funds = rev,
               currencies = ccys, caps_settlement = (if rev then Days 2 else Instant),
               atomic_multi_party = False \<rparr>,
           m_key = take KEY_LEN digest, m_fee_minor = 0, m_fail = False,
           m_checks_destinations = True \<rparr>)"

definition with_fee_minor :: "mock_rail \<Rightarrow> u64 \<Rightarrow> mock_rail" where
  "with_fee_minor m fee = m\<lparr> m_fee_minor := fee \<rparr>"

definition failing :: "mock_rail \<Rightarrow> mock_rail" where
  "failing m = m\<lparr> m_fail := True \<rparr>"

definition without_destination_checks :: "mock_rail \<Rightarrow> mock_rail" where
  "without_destination_checks m = m\<lparr> m_checks_destinations := False \<rparr>"

definition currency_supported :: "mock_rail \<Rightarrow> string \<Rightarrow> bool" where
  "currency_supported m ccy = list_ex (\<lambda>c. c = ccy) (currencies (m_capabilities m))"

section \<open>The trait methods\<close>

text \<open>\<open>now\<close> reads the clock (\<open>patala_core::now_unix\<close>).\<close>

definition unsupported_currency :: "mock_rail \<Rightarrow> string \<Rightarrow> error" where
  "unsupported_currency m ccy =
     InvalidRequest (''rail '' @ m_id m @ '' does not support currency '' @ ccy)"

definition mock_quote :: "('w \<Rightarrow> u64) \<Rightarrow> mock_rail \<Rightarrow> pay_request \<Rightarrow> 'w \<Rightarrow> quote result \<times> 'w" where
  "mock_quote now m req w =
     (case pay_request_validate req of
        Err e \<Rightarrow> (Err e, w)
      | Ok _ \<Rightarrow>
          if \<not> currency_supported m (pr_currency req)
          then (Err (unsupported_currency m (pr_currency req)), w)
          else (Ok \<lparr> q_rail_id = m_id m, q_amount_minor = pr_amount_minor req,
                     q_currency = pr_currency req, q_fee_minor = m_fee_minor m,
                     q_total_minor = saturating_add_u (pr_amount_minor req) (m_fee_minor m),
                     q_settlement = caps_settlement (m_capabilities m),
                     q_expires_at_unix = saturating_add_u (now w) 300 \<rparr>, w))"

definition mock_charge :: "('w \<Rightarrow> u64) \<Rightarrow> mock_rail \<Rightarrow> pay_request \<Rightarrow> 'w \<Rightarrow> receipt result \<times> 'w" where
  "mock_charge now m req w =
     (case pay_request_validate req of
        Err e \<Rightarrow> (Err e, w)
      | Ok _ \<Rightarrow>
          if m_fail m then (Err (Rail (''mock rail '' @ m_id m @ '' is configured to fail'')), w)
          else if \<not> currency_supported m (pr_currency req)
          then (Err (unsupported_currency m (pr_currency req)), w)
          else
            let r = \<lparr> r_rail_id = m_id m, r_amount_minor = pr_amount_minor req,
                      r_currency = pr_currency req, r_reference = pr_reference req,
                      r_proof = [], r_settled_at_unix = now w \<rparr>
            in (Ok (r\<lparr> r_proof := keyed_digest (m_key m) (signing_bytes (m_id m) r) \<rparr>), w))"

definition mock_verify :: "mock_rail \<Rightarrow> receipt \<Rightarrow> 'w \<Rightarrow> bool result \<times> 'w" where
  "mock_verify m r w =
     (if r_rail_id r \<noteq> m_id m then (Ok False, w)
      else if length (r_proof r) \<noteq> DIGEST_LEN then (Ok False, w)
      else (Ok (keyed_digest (m_key m) (signing_bytes (m_id m) r) = r_proof r), w))"

definition mock_validate_destination :: "mock_rail \<Rightarrow> string \<Rightarrow> destination_verdict" where
  "mock_validate_destination m dest0 =
     (let dest = trim dest0 in
      if dest = [] then malformed (m_id m) ''an empty destination is not an address on any rail''
      else if \<not> m_checks_destinations m then
        unknown (m_id m)
          (''mock rail '' @ m_id m @ '' is configured without destination checks, standing in for a '' @
           ''rail whose destination is an opaque processor-side token; a human who '' @
           ''controls the receiving account must confirm this one'')
      else
        let parts = split_on (\<lambda>c. c = CHR '':'') dest in
        if length parts \<noteq> 3 \<or> list_ex blank parts then
          malformed (m_id m)
            (debug_str dest @ '' is not a mock address: expected exactly '' @
             [CHR 0x22] @ ''<network>:<kind>:<label>'' @ [CHR 0x22] @ '' with no empty part, e.g. '' @
             [CHR 0x22] @ m_id m @ '':wallet:alice'' @ [CHR 0x22])
        else
          let network = parts ! 0; kind = parts ! 1; label = parts ! 2 in
          if network \<noteq> m_id m then
            wrong_network (m_id m)
              (''this is a well-formed address for network '' @ debug_str network @
               '', but this rail pays on '' @ debug_str (m_id m) @
               ''; money sent to it would land on the wrong network and would not be recoverable'')
          else if kind = ''wallet'' then
            structurally_valid (m_id m)
              (debug_str label @ '' is a well-formed '' @ m_id m @
               '' wallet address; every check this rail can make offline passed, which is not '' @
               ''the same as knowing the recipient can receive on it'')
          else if kind = ''program'' then
            not_a_wallet (m_id m)
              (debug_str label @ '' is a valid '' @ m_id m @
               '' address but a program account, not a wallet '' @ em_dash @
               '' nobody holds a key for it, so funds sent there are typically unrecoverable'')
          else
            malformed (m_id m)
              (debug_str kind @ '' is not a mock address kind: expected '' @
               [CHR 0x22] @ ''wallet'' @ [CHR 0x22] @ '' or '' @ [CHR 0x22] @ ''program'' @ [CHR 0x22] @
               '', as in '' @ [CHR 0x22] @ m_id m @ '':wallet:alice'' @ [CHR 0x22]))"

text \<open>\<open>impl PaymentRail for MockRail\<close>: \<open>refund\<close> and \<open>verify_webhook\<close> are the trait's defaults.\<close>

definition mock_payment_rail :: "('w \<Rightarrow> u64) \<Rightarrow> mock_rail \<Rightarrow> 'w payment_rail" where
  "mock_payment_rail now m =
     \<lparr> rail_id = m_id m,
       capabilities = m_capabilities m,
       rail_quote = mock_quote now m,
       rail_charge = mock_charge now m,
       rail_verify = mock_verify m,
       rail_validate_destination = mock_validate_destination m,
       rail_refund = default_refund,
       rail_verify_webhook = default_verify_webhook \<rparr>"

section \<open>Facts\<close>

lemma mock_payment_rail_sel [simp]:
  "rail_id (mock_payment_rail now m) = m_id m"
  "capabilities (mock_payment_rail now m) = m_capabilities m"
  "rail_quote (mock_payment_rail now m) = mock_quote now m"
  "rail_charge (mock_payment_rail now m) = mock_charge now m"
  "rail_verify (mock_payment_rail now m) = mock_verify m"
  "rail_validate_destination (mock_payment_rail now m) = mock_validate_destination m"
  "rail_refund (mock_payment_rail now m) = default_refund"
  by (simp_all add: mock_payment_rail_def)

lemma length_keyed_digest [simp]: "length (keyed_digest k m) = DIGEST_LEN"
  by (simp add: keyed_digest_def DIGEST_LEN_def length_concat upt_rec)

text \<open>A proof does not cover itself.\<close>

lemma signing_bytes_proof [simp]: "signing_bytes rid (r\<lparr> r_proof := p \<rparr>) = signing_bytes rid r"
  by (simp add: signing_bytes_def)

lemma mock_charge_Ok:
  assumes "mock_charge now m req w = (Ok r, w')"
  shows "well_formed_request req" "currency_supported m (pr_currency req)" "\<not> m_fail m" "w' = w"
    "r_rail_id r = m_id m" "r_amount_minor r = pr_amount_minor req" "r_currency r = pr_currency req"
    "r_reference r = pr_reference req" "r_settled_at_unix r = now w"
    "r_proof r = keyed_digest (m_key m) (signing_bytes (m_id m) r)"
  using assms
  by (auto simp: mock_charge_def validate_Ok_iff [symmetric] Let_def signing_bytes_def
      split: sum.splits if_splits)

lemma mock_charge_world: "mock_charge now m req w = (res, w') \<Longrightarrow> w' = w"
  by (auto simp: mock_charge_def Let_def split: sum.splits if_splits)

lemma mock_quote_world: "mock_quote now m req w = (res, w') \<Longrightarrow> w' = w"
  by (auto simp: mock_quote_def split: sum.splits if_splits)

lemma mock_validate_destination_honest: "honest_verdict (m_id m) (mock_validate_destination m d)"
  by (simp add: mock_validate_destination_def Let_def)

lemma mock_validate_destination_blank: "blank d \<Longrightarrow> is_refusal (mock_validate_destination m d)"
  by (simp add: mock_validate_destination_def blank_def)

text \<open>The rail meets the contract, whatever the world is.\<close>

interpretation mock: final_rail "mock_payment_rail now m" "\<lambda>_. True"
  for now :: "'w \<Rightarrow> u64" and m
  by unfold_locales
    (simp_all add: mock_validate_destination_honest mock_validate_destination_blank,
     auto simp: mock_quote_def mock_charge_def mock_verify_def default_refund_def
       split: sum.splits if_splits dest: mock_charge_Ok)


section \<open>The digest\<close>

text \<open>
  One FNV-1a step is a bijection of the state for a fixed byte, since the prime is odd, and
  different bytes send one state to different states. So two messages that differ in one byte
  have different digests.
\<close>

definition FNV_INVERSE :: u64 where "FNV_INVERSE = 0xce965057aff6957b"

lemma fnv_prime_inverse: "FNV_PRIME * FNV_INVERSE = 1"
  by (simp add: FNV_PRIME_def FNV_INVERSE_def)

lemma fnv_mult_inject: "x * FNV_PRIME = y * FNV_PRIME \<longleftrightarrow> x = y"
proof
  assume "x * FNV_PRIME = y * FNV_PRIME"
  then have "x * FNV_PRIME * FNV_INVERSE = y * FNV_PRIME * FNV_INVERSE" by simp
  then show "x = y" by (simp only: mult.assoc fnv_prime_inverse mult_1_right)
qed simp

lemma xor_inject: "(x :: u64) XOR z = y XOR z \<longleftrightarrow> x = y" "z XOR (x :: u64) = z XOR y \<longleftrightarrow> x = y"
  by (simp_all add: bit_eq_iff bit_xor_iff) blast+

lemma ucast_u8_inject: "ucast (b :: u8) = (ucast c :: u64) \<longleftrightarrow> b = c"
proof -
  have "uint (ucast x :: u64) = uint x" for x :: u8
    by (rule uint_up_ucast) (simp add: is_up.rep_eq)
  then show ?thesis by (metis word_uint_eq_iff)
qed

lemma fnv_fold_inject:
  "foldl (\<lambda>h b. (h XOR ucast b) * FNV_PRIME) x bs = foldl (\<lambda>h b. (h XOR ucast b) * FNV_PRIME) y bs \<longleftrightarrow> x = y"
  by (induction bs arbitrary: x y) (auto simp: fnv_mult_inject xor_inject)

lemma fnv1a_round_single_byte:
  "fnv1a_round salt key (p @ b # s) = fnv1a_round salt key (p @ c # s) \<longleftrightarrow> b = c"
  by (simp add: fnv1a_round_def fnv_fold_inject fnv_mult_inject xor_inject ucast_u8_inject
      del: append_assoc flip: append_assoc)


lemma keyed_digest_single_byte:
  assumes "b \<noteq> c"
  shows "keyed_digest key (p @ b # s) \<noteq> keyed_digest key (p @ c # s)"
proof
  assume "keyed_digest key (p @ b # s) = keyed_digest key (p @ c # s)"
  then have "fnv1a_round 0 key (p @ b # s) = fnv1a_round 0 key (p @ c # s)"
    by (simp add: keyed_digest_def upt_rec append_same_length)
  with assms show False by (simp add: fnv1a_round_single_byte)
qed

section \<open>Chains of mock rails\<close>

definition mock_chain :: "('w \<Rightarrow> u64) \<Rightarrow> mock_rail list \<Rightarrow> bool \<Rightarrow> 'w failover_rail" where
  "mock_chain now ms allow =
     allow_cross_class (failover_new (map (mock_payment_rail now) ms)) allow"

lemma mock_chain_sel [simp]:
  "fo_rails (mock_chain now ms allow) = map (mock_payment_rail now) ms"
  "fo_policy (mock_chain now ms allow) = in_order_policy"
  "fo_allow_cross_class (mock_chain now ms allow) = allow"
  by (simp_all add: mock_chain_def allow_cross_class_def failover_new_def failover_with_policy_def)

interpretation mock_chain: failover_chain "mock_chain now ms allow" "\<lambda>_. True"
  for now :: "'w \<Rightarrow> u64" and ms allow
  by (rule failover_chain.intro) (auto intro: mock.rail_contract_axioms)

section \<open>The address grammar\<close>

lemma mock_validate_destination_status:
  assumes "m_checks_destinations m"
  shows "dv_status (mock_validate_destination m d) =
    (case split_on (\<lambda>c. c = CHR '':'') (trim d) of
       [n, k, l] \<Rightarrow>
         if trim d = [] \<or> blank n \<or> blank k \<or> blank l then Malformed
         else if n \<noteq> m_id m then WrongNetwork
         else if k = ''wallet'' then StructurallyValid
         else if k = ''program'' then NotAWallet
         else Malformed
     | _ \<Rightarrow> Malformed)"
proof (cases "\<exists>n k l. split_on (\<lambda>c. c = CHR '':'') (trim d) = [n, k, l]")
  case True
  then show ?thesis using assms by (auto simp: mock_validate_destination_def Let_def)
next
  case False
  then have "length (split_on (\<lambda>c. c = CHR '':'') (trim d)) \<noteq> 3"
    by (auto simp: length_Suc_conv numeral_3_eq_3)
  then show ?thesis using assms
    by (auto simp: mock_validate_destination_def Let_def split: list.splits)
qed

lemma blank_kinds [simp]: "\<not> blank ''wallet''" "\<not> blank ''program''"
  by (simp_all add: not_blank_graphic graphic_def)

lemma mock_status_wallet:
  "m_checks_destinations m \<Longrightarrow> dv_status (mock_validate_destination m d) = StructurallyValid \<longleftrightarrow>
     (\<exists>l. split_on (\<lambda>c. c = CHR '':'') (trim d) = [m_id m, ''wallet'', l] \<and> \<not> blank (m_id m) \<and> \<not> blank l)"
  by (auto simp: mock_validate_destination_status split: list.splits)

lemma mock_status_program:
  "m_checks_destinations m \<Longrightarrow> dv_status (mock_validate_destination m d) = NotAWallet \<longleftrightarrow>
     (\<exists>l. split_on (\<lambda>c. c = CHR '':'') (trim d) = [m_id m, ''program'', l] \<and> \<not> blank (m_id m) \<and> \<not> blank l)"
  by (auto simp: mock_validate_destination_status split: list.splits)

section \<open>Concrete rails and a concrete request\<close>

definition demo_request :: pay_request where
  "demo_request = \<lparr> pr_amount_minor = 500, pr_currency = ''USD'', pr_destination = ''mock:wallet:bo'',
     pr_reference = ''INV-1'' \<rparr>"

definition demo_a :: mock_rail where "demo_a = mock_new ''a'' NonCustodialFinal [''USD'']"
definition demo_b :: mock_rail where "demo_b = mock_new ''b'' CustodialReversible [''USD'']"

lemma demo_request_ok: "pay_request_validate demo_request = Ok ()"
  by (simp add: demo_request_def pay_request_validate_def not_blank_graphic graphic_def)

lemma demo_sel [simp]:
  "m_id demo_a = ''a''" "m_id demo_b = ''b''" "\<not> m_fail demo_a" "\<not> m_fail demo_b"
  "currency_supported demo_a ''USD''" "currency_supported demo_b ''USD''"
  "caps_class (m_capabilities demo_a) = NonCustodialFinal"
  "caps_class (m_capabilities demo_b) = CustodialReversible"
  by (simp_all add: demo_a_def demo_b_def mock_new_def currency_supported_def Let_def)

lemma demo_caps [simp]:
  "m_checks_destinations demo_a" "m_capabilities (failing m) = m_capabilities m" "m_id (failing m) = m_id m"
  "m_fail (failing m)"
  by (simp_all add: demo_a_def mock_new_def failing_def Let_def)

lemma demo_request_sel [simp]:
  "pr_currency demo_request = ''USD''" "pr_reference demo_request = ''INV-1''"
  "pr_amount_minor demo_request = 500"
  by (simp_all add: demo_request_def)

definition demo_receipt :: "mock_rail \<Rightarrow> u64 \<Rightarrow> receipt" where
  "demo_receipt m t =
     (let r = \<lparr> r_rail_id = m_id m, r_amount_minor = 500, r_currency = ''USD'', r_reference = ''INV-1'',
                r_proof = [], r_settled_at_unix = t \<rparr>
      in r\<lparr> r_proof := keyed_digest (m_key m) (signing_bytes (m_id m) r) \<rparr>)"

lemma demo_charge:
  "\<not> m_fail m \<Longrightarrow> currency_supported m ''USD'' \<Longrightarrow>
     mock_charge now m demo_request w = (Ok (demo_receipt m (now w)), w)"
  by (simp add: mock_charge_def demo_request_ok demo_receipt_def Let_def)

section \<open>Properties\<close>

text \<open>
  A receipt a mock rail issues verifies on it, at any later state of the world.
\<close>

theorem mock_charge_verifies:
  assumes "mock_charge now m req w = (Ok r, w1)"
  shows "mock_verify m r w2 = (Ok True, w2)"
  using mock_charge_Ok [OF assms] by (simp add: mock_verify_def)

theorem mock_charge_verifies_witness:
  "mock_verify demo_a (demo_receipt demo_a 77) (78 :: u64) = (Ok True, 78)"
  using mock_charge_verifies [OF demo_charge, of demo_a id 77 78] by simp

text \<open>
  C35: tampering with one byte of what a genuine receipt states is always caught. If the bytes
  the proof covers differ from the genuine receipt's in exactly one position (a digit of the
  reference, a letter of the currency, one byte of the amount or of the time), the changed
  receipt does not verify under the old proof.
\<close>

theorem mock_verify_rejects_single_byte_tamper:
  assumes genuine: "mock_charge now m req w = (Ok r, w1)"
    and same_proof: "r_proof r' = r_proof r"
    and changed: "signing_bytes (m_id m) r = p @ b # s" "signing_bytes (m_id m) r' = p @ c # s" "b \<noteq> c"
  shows "mock_verify m r' w2 = (Ok False, w2)"
  using mock_charge_Ok(10) [OF genuine] same_proof changed keyed_digest_single_byte [OF changed(3)]
  by (simp add: mock_verify_def) metis

theorem mock_verify_rejects_single_byte_tamper_witness:
  "mock_verify demo_a ((demo_receipt demo_a 77)\<lparr> r_reference := ''INV-2'' \<rparr>) (78 :: u64) = (Ok False, 78)"
  by (rule mock_verify_rejects_single_byte_tamper [OF demo_charge, of demo_a _ id 77
        "as_bytes ''a'' @ u64_to_le_bytes 500 @ as_bytes ''USDINV-''" "byte_of CHR ''1''"
        "u64_to_le_bytes 77" "byte_of CHR ''2''"])
    (simp_all add: signing_bytes_def demo_receipt_def as_bytes_def Let_def)

text \<open>
  The proof does not bind where the currency ends and the reference begins. Moving a suffix
  of the currency to the front of the reference changes the receipt and still verifies, so not
  every mutated receipt is rejected.
\<close>

theorem mock_verify_accepts_moved_boundary:
  assumes genuine: "mock_charge now m req w = (Ok r, w1)" and split: "r_currency r = c @ x"
  shows "mock_verify m (r\<lparr> r_currency := c, r_reference := x @ r_reference r \<rparr>) w2 = (Ok True, w2)"
proof -
  have "signing_bytes (m_id m) (r\<lparr> r_currency := c, r_reference := x @ r_reference r \<rparr>) = signing_bytes (m_id m) r"
    using split by (simp add: signing_bytes_def as_bytes_append)
  then show ?thesis
    using mock_charge_Ok [OF genuine] by (simp add: mock_verify_def)
qed

theorem mock_verify_accepts_moved_boundary_witness:
  "mock_verify demo_a ((demo_receipt demo_a 77)\<lparr> r_currency := ''US'', r_reference := ''DINV-1'' \<rparr>) (78 :: u64)
     = (Ok True, 78)"
  using mock_verify_accepts_moved_boundary [OF demo_charge, of demo_a id 77 "''US''" "''D''" 78]
  by (simp add: demo_receipt_def Let_def)

text \<open>
  The mock address grammar, decided exactly: what passes every offline check is
  \<open><id>:wallet:<label>\<close>, what is refused as a program is \<open><id>:program:<label>\<close>, and nothing else
  (surrounding white space aside) is either.
\<close>

theorem mock_validate_destination_grammar:
  assumes "m_checks_destinations m"
  shows "(dv_status (mock_validate_destination m d) = StructurallyValid \<longleftrightarrow>
      (\<exists>label. trim d = m_id m @ '':wallet:'' @ label \<and> CHR '':'' \<notin> set (m_id m @ label) \<and>
        \<not> blank (m_id m) \<and> \<not> blank label)) \<and>
    (dv_status (mock_validate_destination m d) = NotAWallet \<longleftrightarrow>
      (\<exists>label. trim d = m_id m @ '':program:'' @ label \<and> CHR '':'' \<notin> set (m_id m @ label) \<and>
        \<not> blank (m_id m) \<and> \<not> blank label))"
proof -
  have "(\<exists>label. trim d = m_id m @ CHR '':'' # kind @ CHR '':'' # label \<and> CHR '':'' \<notin> set (m_id m @ label) \<and>
      \<not> blank (m_id m) \<and> \<not> blank label) \<longleftrightarrow>
    (\<exists>label. split_on (\<lambda>c. c = CHR '':'') (trim d) = [m_id m, kind, label] \<and>
      \<not> blank (m_id m) \<and> \<not> blank label)" if "CHR '':'' \<notin> set kind" for kind
    using that by (auto simp: split_on_three_iff)
  from this [of "''wallet''"] this [of "''program''"] show ?thesis
    using mock_status_wallet [OF assms] mock_status_program [OF assms] by simp
qed

theorem mock_validate_destination_grammar_witness:
  "dv_status (mock_validate_destination demo_a ''a:wallet:bo'') = StructurallyValid"
proof -
  have "trim ''a:wallet:bo'' = ''a:wallet:bo''" "\<not> blank ''a''" "\<not> blank ''bo''"
    by (simp_all add: trim_graphic not_blank_graphic graphic_def)
  then show ?thesis
    using mock_validate_destination_grammar [of demo_a "''a:wallet:bo''"] by auto
qed

text \<open>
  End to end through a chain of mock rails with distinct ids: what the chain charges, the
  same chain verifies, at any later time and whatever the opt-in says.
\<close>

theorem mock_chain_charge_verifies:
  assumes ids: "distinct (map m_id ms)"
    and ok: "failover_charge (mock_chain now ms allow) req w = (Ok r, w1)"
  shows "failover_verify (mock_chain now ms allow') r w2 = (Ok True, w2)"
proof -
  obtain i w3 where "i < length (fo_rails (mock_chain now ms allow))"
      "rail_charge (fo_rails (mock_chain now ms allow) ! i) req w3 = (Ok r, w1)"
    by (rule mock_chain.charge_Ok_origin [OF TrueI ok])
  then have i: "i < length ms" and ch: "mock_charge now (ms ! i) req w3 = (Ok r, w1)"
    by simp_all
  let ?R = "mock_payment_rail now (ms ! i)"
  have "rail_id ?R = r_rail_id r" "?R \<in> set (fo_rails (mock_chain now ms allow'))"
    using mock_charge_Ok [OF ch] i by auto
  moreover have "distinct (map rail_id (fo_rails (mock_chain now ms allow')))"
    using ids by (simp add: comp_def)
  ultimately have "failover_verify (mock_chain now ms allow') r w2 = rail_verify ?R r w2"
    by (metis find_distinct_id failover_verify_def option.simps(5) verify_on_find)
  then show ?thesis
    using mock_charge_Ok [OF ch] by (simp add: mock_verify_def)
qed

section \<open>The chain properties at concrete chains\<close>

lemma demo_chain_policy: "in_order_policy (map g [a, b]) req w = ([0, 1], w)"
  by (simp add: in_order_policy_def upt_rec)

lemma demo_chain_order [simp]: "in_range (map g [a, b]) [0, 1] = [0, 1]"
  by (simp add: in_range_def)

lemma demo_chain_charge:
  "failover_charge (mock_chain id [demo_a, demo_b] False) demo_request 77 = (Ok (demo_receipt demo_a 77), 77)"
  by (simp add: failover_charge_def make_plan_def demo_chain_policy [simplified] demo_charge)

lemma demo_chain_blocked:
  "failover_charge (mock_chain id [failing demo_a, demo_b] False) demo_request 77 =
     (Err (CrossClassFailover NonCustodialFinal CustodialReversible), 77)"
  by (simp add: failover_charge_def make_plan_def demo_chain_policy [simplified] mock_charge_def
      demo_request_ok terminal_error_def)

theorem mock_chain_charge_verifies_witness:
  "failover_verify (mock_chain id [demo_a, demo_b] True) (demo_receipt demo_a 77) 99 = (Ok True, 99 :: u64)"
  by (rule mock_chain_charge_verifies [OF _ demo_chain_charge]) simp

theorem failover_charge_never_crosses_class_witness:
  "failover_charge (mock_chain id [demo_a, failing demo_b] False) demo_request 77 =
   failover_charge (mock_chain id [demo_a, demo_b] False) demo_request 77"
  by (rule failover_charge_never_crosses_class [where order = "[0, 1]" and ?w1.0 = 77])
    (auto simp: demo_chain_policy [simplified] in_range_def less_Suc_eq)

theorem failover_charge_receipt_origin_witness:
  "r_reference (demo_receipt demo_a 77) = ''INV-1'' \<and>
    (\<exists>R \<in> set (fo_rails (mock_chain id [demo_a, demo_b] False)). r_rail_id (demo_receipt demo_a 77) = rail_id R)"
  using failover_charge_receipt_origin [OF mock_chain.failover_chain_axioms TrueI demo_chain_charge,
      of "[0, 1]" 77]
  by (auto simp: demo_chain_policy [simplified])

theorem failover_charge_error_precedence_witness:
  "\<exists>d. CrossClassFailover NonCustodialFinal CustodialReversible = CrossClassFailover NonCustodialFinal d \<and>
     d \<noteq> NonCustodialFinal"
  using failover_charge_error_precedence [OF demo_chain_blocked, of "[0, 1]" 77]
  by (simp add: demo_chain_policy [simplified] in_range_def)

theorem failover_routes_to_issuer_witness:
  "failover_verify (mock_chain id [demo_a, demo_b] False) (demo_receipt demo_b 5) 9 =
     mock_verify demo_b (demo_receipt demo_b 5) (9 :: u64)"
  using failover_routes_to_issuer [of "mock_chain id [demo_a, demo_b] False" "demo_receipt demo_b 5" 9]
  by (simp add: demo_receipt_def Let_def)

end
