(* ===== verification/Stellar_Tx.thy ===== *)
theory Stellar_Tx
  imports Core_Rail
begin

text \<open>
  \<open>patala-stellar/src/tx.rs\<close> and the error and network types of \<open>lib.rs\<close>: memo bindings,
  transaction construction, fees, envelopes and the strict decoder. The XDR types are the shapes
  of \<open>stellar_xdr\<close> the source builds and matches on; every variant it refuses is one \<open>Other\<close>
  constructor. What that crate and \<open>sha2\<close>, \<open>hex\<close>, \<open>ed25519_dalek\<close> and \<open>stellar_strkey\<close> compute is
  a record of functions, the parameter \<open>L\<close>.
\<close>

section \<open>Networks and errors\<close>

datatype network = Public | Testnet

fun passphrase :: "network \<Rightarrow> string" where
  "passphrase Public = ''Public Global Stellar Network ; September 2015''"
| "passphrase Testnet = ''Test SDF Network ; September 2015''"

fun is_mainnet :: "network \<Rightarrow> bool" where
  "is_mainnet Public = True"
| "is_mainnet Testnet = False"

datatype stellar_error = Rpc string | BadAddress string | Config string | Xdr string

fun stellar_error_display :: "stellar_error \<Rightarrow> string" where
  "stellar_error_display (Rpc m) = ''stellar horizon: '' @ m"
| "stellar_error_display (BadAddress m) = ''not a valid stellar address: '' @ m"
| "stellar_error_display (Config m) = ''stellar rail misconfigured: '' @ m"
| "stellar_error_display (Xdr m) = ''stellar xdr: '' @ m"

definition stellar_to_core :: "stellar_error \<Rightarrow> error" where
  "stellar_to_core e = Rail (stellar_error_display e)"

definition parse_network :: "string \<Rightarrow> network result" where
  "parse_network s =
     (if s = ''public'' \<or> s = ''pubnet'' \<or> s = ''mainnet'' then Ok Public
      else if s = ''testnet'' then Ok Testnet
      else Err (stellar_to_core (Config (''unknown stellar network '' @ debug_str s))))"

section \<open>XDR shapes\<close>

datatype muxed_account = Ed25519 bytes | OtherMuxed bytes

datatype asset =
    CreditAlphanum4 bytes bytes \<comment> \<open>\<open>asset_code\<close>, \<open>issuer\<close>\<close>
  | OtherAsset bytes

datatype operation_body =
    Payment muxed_account asset i64 \<comment> \<open>\<open>destination\<close>, \<open>asset\<close>, \<open>amount\<close>\<close>
  | BumpSequence i64
  | OtherOperation bytes

record operation =
  op_source :: "muxed_account option"
  op_body :: operation_body

datatype memo = MemoHash bytes | OtherMemo bytes

record preconditions_v2 =
  pc_time_bounds :: "(u64 \<times> u64) option"
  pc_ledger_bounds :: "(u32 \<times> u32) option"
  pc_min_seq_num :: "i64 option"
  pc_min_seq_age :: u64
  pc_min_seq_ledger_gap :: u32
  pc_extra_signers :: "bytes list"

datatype preconditions = NoPreconditions | V2 preconditions_v2 | OtherPreconditions bytes

record transaction =
  tx_source :: muxed_account
  tx_fee :: u32
  tx_seq_num :: i64
  tx_cond :: preconditions
  tx_memo :: memo
  tx_operations :: "operation list"

record decorated_signature =
  ds_hint :: bytes
  ds_signature :: bytes

datatype tx_envelope =
    TxV1 transaction "decorated_signature list"
  | OtherEnvelope bytes

section \<open>The libraries\<close>

text \<open>\<open>stellar_strkey::Strkey\<close>\<close>

datatype strkey =
    PublicKeyEd25519 bytes
  | PrivateKeyEd25519 bytes
  | PreAuthTx bytes
  | HashX bytes
  | MuxedAccountEd25519 bytes
  | SignedPayloadEd25519 bytes
  | Contract bytes

text \<open>
  \<open>strkey_encode\<close> and \<open>strkey_decode\<close> are \<open>to_string\<close> and \<open>from_string\<close> of
  \<open>stellar_strkey::ed25519::PublicKey\<close>, \<open>seed_decode\<close> is \<open>from_string\<close> of its \<open>PrivateKey\<close>, and
  \<open>ed_point\<close> is whether \<open>VerifyingKey::from_bytes\<close> accepts.
\<close>

record stellar_lib =
  sha256 :: "bytes \<Rightarrow> bytes"
  hex_encode :: "bytes \<Rightarrow> string"
  hex_decode :: "string \<Rightarrow> bytes option"
  strkey_encode :: "bytes \<Rightarrow> string"
  strkey_decode :: "string \<Rightarrow> bytes option"
  seed_decode :: "string \<Rightarrow> bytes option"
  strkey_parse :: "string \<Rightarrow> strkey option"
  ed_point :: "bytes \<Rightarrow> bool"
  xdr_signature_payload :: "bytes \<Rightarrow> transaction \<Rightarrow> string + bytes"
  xdr_encode_envelope :: "tx_envelope \<Rightarrow> string + string"
  xdr_decode_envelope :: "string \<Rightarrow> string + tx_envelope"
  ed_pubkey :: "bytes \<Rightarrow> bytes"
  ed_sign :: "bytes \<Rightarrow> bytes \<Rightarrow> bytes"
  ed_verify :: "bytes \<Rightarrow> bytes \<Rightarrow> bytes \<Rightarrow> bool"

section \<open>Constants and assets\<close>

definition USDC_DECIMALS :: nat where "USDC_DECIMALS = 7"
definition MAX_OPERATIONS :: nat where "MAX_OPERATIONS = 100"

definition xdr_pubkey :: "bytes \<Rightarrow> bytes" where "xdr_pubkey pk = pk"
definition muxed :: "bytes \<Rightarrow> muxed_account" where "muxed pk = Ed25519 pk"

definition is_ascii_alphanumeric :: "char \<Rightarrow> bool" where
  "is_ascii_alphanumeric c \<longleftrightarrow> is_ascii_alpha c \<or> is_ascii_digit c"

definition asset_code4 :: "string \<Rightarrow> stellar_error + bytes" where
  "asset_code4 c =
     (if c = [] \<or> length c > 4 \<or> \<not> list_all is_ascii_alphanumeric c
      then Err (Config (''asset code '' @ debug_str c @ '' must be 1-4 ASCII alphanumerics''))
      else Ok (as_bytes c @ replicate (4 - length c) 0))"

definition usdc_asset :: "string \<Rightarrow> bytes \<Rightarrow> stellar_error + asset" where
  "usdc_asset c issuer_pk = rbind (asset_code4 c) (\<lambda>ac. Ok (CreditAlphanum4 ac (xdr_pubkey issuer_pk)))"

section \<open>Memo bindings\<close>

text \<open>The bytes that are hashed: a domain string, then every field with its length before it.\<close>

definition field_bytes :: "string \<Rightarrow> bytes" where
  "field_bytes f = u64_to_le_bytes (word_of_nat (length f)) @ as_bytes f"

definition fields_bytes :: "string list \<Rightarrow> bytes" where
  "fields_bytes fs = concat (map field_bytes fs)"

definition leg_bytes :: "string \<times> i64 \<Rightarrow> bytes" where
  "leg_bytes l = (case l of (destination, amount) \<Rightarrow> field_bytes destination @ u64_to_le_bytes amount)"

definition pay_preimage :: "string \<Rightarrow> string \<Rightarrow> string \<Rightarrow> string \<Rightarrow> bytes" where
  "pay_preimage rid source destination reference =
     as_bytes ''patala-stellar-pay-v1'' @ fields_bytes [rid, source, destination, reference]"

definition split_preimage :: "string \<Rightarrow> string \<Rightarrow> string \<Rightarrow> (string \<times> i64) list \<Rightarrow> bytes" where
  "split_preimage rid source reference legs =
     as_bytes ''patala-stellar-split-v1'' @ fields_bytes [rid, source, reference] @
     u64_to_le_bytes (word_of_nat (length legs)) @ concat (map leg_bytes legs)"

definition recurring_preimage ::
    "string \<Rightarrow> string \<Rightarrow> string \<Rightarrow> string \<Rightarrow> i64 \<Rightarrow> u32 \<Rightarrow> u32 \<Rightarrow> bytes" where
  "recurring_preimage rid source destination reference base_seq index count =
     as_bytes ''patala-stellar-recurring-v1'' @ fields_bytes [rid, source, destination, reference] @
     u64_to_le_bytes base_seq @ u32_to_le_bytes index @ u32_to_le_bytes count"

definition cancel_preimage :: "string \<Rightarrow> string \<Rightarrow> string \<Rightarrow> i64 \<Rightarrow> bytes" where
  "cancel_preimage rid source reference base_seq =
     as_bytes ''patala-stellar-recurring-cancel-v1'' @ fields_bytes [rid, source, reference] @
     u64_to_le_bytes base_seq"

definition memo_hash :: "stellar_lib \<Rightarrow> string \<Rightarrow> string \<Rightarrow> string \<Rightarrow> string \<Rightarrow> bytes" where
  "memo_hash L rid source destination reference = sha256 L (pay_preimage rid source destination reference)"

definition split_memo_hash ::
    "stellar_lib \<Rightarrow> string \<Rightarrow> string \<Rightarrow> string \<Rightarrow> (string \<times> i64) list \<Rightarrow> bytes" where
  "split_memo_hash L rid source reference legs = sha256 L (split_preimage rid source reference legs)"

definition recurring_memo_hash ::
    "stellar_lib \<Rightarrow> string \<Rightarrow> string \<Rightarrow> string \<Rightarrow> string \<Rightarrow> i64 \<Rightarrow> u32 \<Rightarrow> u32 \<Rightarrow> bytes" where
  "recurring_memo_hash L rid source destination reference base_seq index count =
     sha256 L (recurring_preimage rid source destination reference base_seq index count)"

definition cancel_memo_hash :: "stellar_lib \<Rightarrow> string \<Rightarrow> string \<Rightarrow> string \<Rightarrow> i64 \<Rightarrow> bytes" where
  "cancel_memo_hash L rid source reference base_seq = sha256 L (cancel_preimage rid source reference base_seq)"

definition network_id :: "stellar_lib \<Rightarrow> string \<Rightarrow> bytes" where
  "network_id L phrase = sha256 L (as_bytes phrase)"

section \<open>Building transactions\<close>

record payment_leg =
  pl_dest :: bytes
  pl_asset :: asset
  pl_amount :: i64

definition payment_op :: "payment_leg \<Rightarrow> operation" where
  "payment_op leg =
     \<lparr> op_source = None, op_body = Payment (muxed (pl_dest leg)) (pl_asset leg) (pl_amount leg) \<rparr>"

definition transaction_from_ops ::
    "bytes \<Rightarrow> operation list \<Rightarrow> i64 \<Rightarrow> u32 \<Rightarrow> bytes \<Rightarrow> preconditions \<Rightarrow> stellar_error + transaction" where
  "transaction_from_ops source_pk ops seq_num fee mem cond =
     (if length ops > MAX_OPERATIONS then
        Err (Xdr (''a stellar transaction carries at most '' @ dec_of_nat MAX_OPERATIONS @ '' operations''))
      else Ok \<lparr> tx_source = muxed source_pk, tx_fee = fee, tx_seq_num = seq_num, tx_cond = cond,
                tx_memo = MemoHash mem, tx_operations = ops \<rparr>)"

text \<open>The loop of \<open>total_amount\<close>.\<close>

fun total_loop :: "payment_leg list \<Rightarrow> nat \<Rightarrow> i64 \<Rightarrow> stellar_error + i64" where
  "total_loop [] i acc = Ok acc"
| "total_loop (leg # legs) i acc =
     (case checked_add_i64 acc (pl_amount leg) of
        None \<Rightarrow> Err (Config (''leg '' @ dec_of_nat i @
          '': summing payment amounts overflows Stellar's i64 amount range''))
      | Some t \<Rightarrow> total_loop legs (i + 1) t)"

definition total_amount :: "payment_leg list \<Rightarrow> stellar_error + i64" where
  "total_amount legs = total_loop legs 0 0"

definition total_fee :: "u32 \<Rightarrow> nat \<Rightarrow> stellar_error + u32" where
  "total_fee base_fee_stroops op_count =
     (if op_count \<ge> 2 ^ 32 then Err (Config (''absurd operation count '' @ dec_of_nat op_count))
      else ok_or
        (Config (''fee bid overflows u32: '' @ dec_of_nat (unat base_fee_stroops) @ '' stroops '' @
           [CHR 0xC3, CHR 0x97] @ '' '' @ dec_of_nat op_count @ '' operations''))
        (checked_mul_u base_fee_stroops (word_of_nat op_count)))"

text \<open>The loop that refuses a non-positive leg, by index.\<close>

fun check_positive :: "payment_leg list \<Rightarrow> nat \<Rightarrow> stellar_error + unit" where
  "check_positive [] i = Ok ()"
| "check_positive (leg # legs) i =
     (if sint (pl_amount leg) \<le> 0 then
        Err (Config (''leg '' @ dec_of_nat i @ '': payment amount must be strictly positive, got '' @
          dec_of_int (sint (pl_amount leg))))
      else check_positive legs (i + 1))"

definition build_payment_transaction ::
    "bytes \<Rightarrow> payment_leg list \<Rightarrow> i64 \<Rightarrow> u32 \<Rightarrow> bytes \<Rightarrow> stellar_error + transaction" where
  "build_payment_transaction source_pk legs seq_num base_fee_stroops mem =
     (if legs = [] then Err (Config ''a payment transaction needs at least one leg'')
      else if length legs > MAX_OPERATIONS then
        Err (Config (dec_of_nat (length legs) @ '' legs exceeds Stellar's limit of '' @
          dec_of_nat MAX_OPERATIONS @ '' operations per transaction; split the bundle across several '' @
          ''transactions (each is then separately atomic '' @ em_dash @
          '' atomicity does NOT extend across them)''))
      else
        rbind (check_positive legs 0) (\<lambda>_.
        rbind (total_amount legs) (\<lambda>_.
        rbind (total_fee base_fee_stroops (length legs)) (\<lambda>fee.
          transaction_from_ops source_pk (map payment_op legs) seq_num fee mem NoPreconditions))))"

text \<open>One operation is under the limit, so the \<open>expect\<close> of these builders cannot fail.\<close>

definition build_transaction_with_preconditions ::
    "bytes \<Rightarrow> bytes \<Rightarrow> asset \<Rightarrow> i64 \<Rightarrow> i64 \<Rightarrow> u32 \<Rightarrow> bytes \<Rightarrow> preconditions \<Rightarrow> transaction" where
  "build_transaction_with_preconditions source_pk dest_pk ass amount seq_num fee mem cond =
     (let leg = \<lparr> pl_dest = dest_pk, pl_asset = ass, pl_amount = amount \<rparr>
      in projr (transaction_from_ops source_pk [payment_op leg] seq_num fee mem cond))"

definition build_transaction ::
    "bytes \<Rightarrow> bytes \<Rightarrow> asset \<Rightarrow> i64 \<Rightarrow> i64 \<Rightarrow> u32 \<Rightarrow> bytes \<Rightarrow> transaction" where
  "build_transaction source_pk dest_pk ass amount seq_num fee mem =
     build_transaction_with_preconditions source_pk dest_pk ass amount seq_num fee mem NoPreconditions"

definition build_bump_sequence_transaction :: "bytes \<Rightarrow> i64 \<Rightarrow> u32 \<Rightarrow> i64 \<Rightarrow> bytes \<Rightarrow> transaction" where
  "build_bump_sequence_transaction source_pk seq_num fee bump_to mem =
     projr (transaction_from_ops source_pk [\<lparr> op_source = None, op_body = BumpSequence bump_to \<rparr>]
       seq_num fee mem NoPreconditions)"

section \<open>Hashing and envelopes\<close>

definition signing_payload :: "stellar_lib \<Rightarrow> bytes \<Rightarrow> transaction \<Rightarrow> stellar_error + bytes" where
  "signing_payload L net_id tx =
     map_err (\<lambda>e. Xdr (''encode signature payload: '' @ e)) (xdr_signature_payload L net_id tx)"

definition tx_hash :: "stellar_lib \<Rightarrow> bytes \<Rightarrow> transaction \<Rightarrow> stellar_error + bytes" where
  "tx_hash L net_id tx = rbind (signing_payload L net_id tx) (\<lambda>p. Ok (sha256 L p))"

definition envelope :: "transaction \<Rightarrow> bytes \<Rightarrow> bytes \<Rightarrow> tx_envelope" where
  "envelope tx signer_pk signature =
     TxV1 tx [\<lparr> ds_hint = take 4 (drop 28 signer_pk), ds_signature = signature \<rparr>]"

definition envelope_to_xdr_base64 :: "stellar_lib \<Rightarrow> tx_envelope \<Rightarrow> stellar_error + string" where
  "envelope_to_xdr_base64 L env = map_err (\<lambda>e. Xdr (''encode envelope: '' @ e)) (xdr_encode_envelope L env)"

definition envelope_from_xdr_base64 :: "stellar_lib \<Rightarrow> string \<Rightarrow> stellar_error + tx_envelope" where
  "envelope_from_xdr_base64 L b64 = map_err (\<lambda>e. Xdr (''decode envelope: '' @ e)) (xdr_decode_envelope L b64)"

section \<open>The strict decoder\<close>

record decoded_payments =
  dp_source :: bytes
  dp_seq_num :: i64
  dp_fee :: u32
  dp_memo :: bytes
  dp_legs :: "payment_leg list" \<comment> \<open>\<open>DecodedLeg\<close> has the fields of \<open>PaymentLeg\<close>\<close>

fun decode_legs :: "operation list \<Rightarrow> nat \<Rightarrow> stellar_error + payment_leg list" where
  "decode_legs [] i = Ok []"
| "decode_legs (op # ops) i =
     (if op_source op \<noteq> None then
        Err (Xdr (''operation '' @ dec_of_nat i @ '' carries its own source override''))
      else case op_body op of
        Payment dest ass amount \<Rightarrow>
          (case dest of
             Ed25519 dest_pk \<Rightarrow>
               if sint amount \<le> 0 then
                 Err (Xdr (''operation '' @ dec_of_nat i @ '': payment amount '' @
                   dec_of_int (sint amount) @ '' is not strictly positive''))
               else rbind (decode_legs ops (i + 1)) (\<lambda>legs.
                 Ok (\<lparr> pl_dest = dest_pk, pl_asset = ass, pl_amount = amount \<rparr> # legs))
           | OtherMuxed _ \<Rightarrow>
               Err (Xdr (''operation '' @ dec_of_nat i @ '': destination is not a plain Ed25519 key'')))
      | _ \<Rightarrow> Err (Xdr (''operation '' @ dec_of_nat i @ '' is not PAYMENT'')))"

definition decode_payments :: "tx_envelope \<Rightarrow> stellar_error + decoded_payments" where
  "decode_payments env =
     (case env of
        OtherEnvelope _ \<Rightarrow> Err (Xdr ''not a v1 (ENVELOPE_TYPE_TX) envelope'')
      | TxV1 tx sigs \<Rightarrow>
          (case tx_source tx of
             OtherMuxed _ \<Rightarrow> Err (Xdr ''source account is not a plain Ed25519 key'')
           | Ed25519 source_pk \<Rightarrow>
               (case tx_memo tx of
                  OtherMemo _ \<Rightarrow> Err (Xdr ''memo is not MEMO_HASH'')
                | MemoHash mem \<Rightarrow>
                    if tx_operations tx = [] then Err (Xdr ''transaction carries no operations at all'')
                    else if length (tx_operations tx) > MAX_OPERATIONS then
                      Err (Xdr (dec_of_nat (length (tx_operations tx)) @
                        '' operations exceeds the protocol limit of '' @ dec_of_nat MAX_OPERATIONS))
                    else
                      rbind (decode_legs (tx_operations tx) 0) (\<lambda>legs.
                        Ok \<lparr> dp_source = source_pk, dp_seq_num = tx_seq_num tx, dp_fee = tx_fee tx,
                             dp_memo = mem, dp_legs = legs \<rparr>))))"

record decoded_payment =
  d1_source :: bytes
  d1_seq_num :: i64
  d1_fee :: u32
  d1_dest :: bytes
  d1_asset :: asset
  d1_amount :: i64
  d1_memo :: bytes

definition decode_single_payment :: "tx_envelope \<Rightarrow> stellar_error + decoded_payment" where
  "decode_single_payment env =
     rbind (decode_payments env) (\<lambda>d.
       case dp_legs d of
         [leg] \<Rightarrow>
           Ok \<lparr> d1_source = dp_source d, d1_seq_num = dp_seq_num d, d1_fee = dp_fee d,
                d1_dest = pl_dest leg, d1_asset = pl_asset leg, d1_amount = pl_amount leg,
                d1_memo = dp_memo d \<rparr>
       | _ \<Rightarrow> Err (Xdr (''expected exactly one operation, found '' @ dec_of_nat (length (dp_legs d)))))"

definition asset_is :: "asset \<Rightarrow> string \<Rightarrow> bytes \<Rightarrow> bool" where
  "asset_is ass c issuer_pk =
     (case ass of
        OtherAsset _ \<Rightarrow> False
      | CreditAlphanum4 ac issuer \<Rightarrow>
          (case asset_code4 c of Err _ \<Rightarrow> False | Ok want \<Rightarrow> ac = want \<and> issuer = xdr_pubkey issuer_pk))"

definition single_signature :: "tx_envelope \<Rightarrow> stellar_error + (bytes \<times> bytes)" where
  "single_signature env =
     (case env of
        OtherEnvelope _ \<Rightarrow> Err (Xdr ''not a v1 (ENVELOPE_TYPE_TX) envelope'')
      | TxV1 tx sigs \<Rightarrow>
          (case sigs of
             [s] \<Rightarrow>
               if length (ds_signature s) = 64 then Ok (ds_hint s, ds_signature s)
               else Err (Xdr ''signature is not 64 bytes'')
           | _ \<Rightarrow> Err (Xdr (''expected exactly one signature, found '' @ dec_of_nat (length sigs)))))"

section \<open>Facts: bindings\<close>

text \<open>A Rust string has fewer than 2 to the 64 bytes, so its length survives \<open>as u64\<close>.\<close>

definition sized :: "string \<Rightarrow> bool" where
  "sized s \<longleftrightarrow> length s < 2 ^ 64"

definition collides :: "stellar_lib \<Rightarrow> bytes \<Rightarrow> bytes \<Rightarrow> bool" where
  "collides L x y \<longleftrightarrow> x \<noteq> y \<and> sha256 L x = sha256 L y"

lemma word_of_nat_u64_inject: "m < 2 ^ 64 \<Longrightarrow> n < 2 ^ 64 \<Longrightarrow> (word_of_nat m :: u64) = word_of_nat n \<longleftrightarrow> m = n"
  by (simp add: word_unat_eq_iff unsigned_of_nat take_bit_nat_eq_self)

lemma field_bytes_append_iff:
  assumes "sized f" "sized g"
  shows "field_bytes f @ x = field_bytes g @ y \<longleftrightarrow> f = g \<and> x = y"
proof
  assume eq: "field_bytes f @ x = field_bytes g @ y"
  have "u64_to_le_bytes (word_of_nat (length f)) @ (as_bytes f @ x) =
      u64_to_le_bytes (word_of_nat (length g)) @ (as_bytes g @ y)"
    using eq by (simp add: field_bytes_def)
  then have "(word_of_nat (length f) :: u64) = word_of_nat (length g)" "as_bytes f @ x = as_bytes g @ y"
    by (simp_all only: append_same_length [OF trans [OF length_to_le_bytes(1) length_to_le_bytes(1) [symmetric]]] to_le_bytes_inject)
  then have "length f = length g" "as_bytes f @ x = as_bytes g @ y"
    using assms by (simp_all add: sized_def word_of_nat_u64_inject)
  then show "f = g \<and> x = y"
    by (metis append_same_length as_bytes_inject length_as_bytes)
qed simp

lemma fields_bytes_append_iff:
  assumes "length fs = length gs" "list_all sized fs" "list_all sized gs"
  shows "fields_bytes fs @ x = fields_bytes gs @ y \<longleftrightarrow> fs = gs \<and> x = y"
  using assms
  by (induction fs gs rule: list_induct2) (auto simp: fields_bytes_def field_bytes_append_iff)

lemma leg_bytes_append_iff:
  assumes "sized (fst k)" "sized (fst l)"
  shows "leg_bytes k @ x = leg_bytes l @ y \<longleftrightarrow> k = l \<and> x = y"
  using assms
  by (cases k; cases l) (auto simp: leg_bytes_def field_bytes_append_iff append_same_length)

lemma legs_bytes_append_iff:
  assumes "length ks = length ls" "list_all (sized \<circ> fst) ks" "list_all (sized \<circ> fst) ls"
  shows "concat (map leg_bytes ks) @ x = concat (map leg_bytes ls) @ y \<longleftrightarrow> ks = ls \<and> x = y"
  using assms
  by (induction ks ls rule: list_induct2) (auto simp: leg_bytes_append_iff)

lemma pay_preimage_inject:
  assumes "list_all sized [a, b, c, d]" "list_all sized [a', b', c', d']"
  shows "pay_preimage a b c d = pay_preimage a' b' c' d' \<longleftrightarrow> a = a' \<and> b = b' \<and> c = c' \<and> d = d'"
  using fields_bytes_append_iff [OF _ assms, of "[]" "[]"] by (simp add: pay_preimage_def)

lemma split_preimage_inject:
  assumes "list_all sized [a, b, c]" "list_all sized [a', b', c']"
    and "list_all (sized \<circ> fst) ks" "list_all (sized \<circ> fst) ls" "length ks < 2 ^ 64" "length ls < 2 ^ 64"
  shows "split_preimage a b c ks = split_preimage a' b' c' ls \<longleftrightarrow> a = a' \<and> b = b' \<and> c = c' \<and> ks = ls"
proof
  assume "split_preimage a b c ks = split_preimage a' b' c' ls"
  then have abc: "[a, b, c] = [a', b', c']" and rest:
      "u64_to_le_bytes (word_of_nat (length ks)) @ concat (map leg_bytes ks) =
       u64_to_le_bytes (word_of_nat (length ls)) @ concat (map leg_bytes ls)"
    using fields_bytes_append_iff [OF _ assms(1,2)] by (simp_all add: split_preimage_def)
  then have "length ks = length ls" "concat (map leg_bytes ks) = concat (map leg_bytes ls)"
    using assms(5,6) by (simp_all add: append_same_length word_of_nat_u64_inject)
  with legs_bytes_append_iff [OF _ assms(3,4), of "[]" "[]"] abc
  show "a = a' \<and> b = b' \<and> c = c' \<and> ks = ls" by simp
qed simp

lemma recurring_preimage_inject:
  assumes "list_all sized [a, b, c, d]" "list_all sized [a', b', c', d']"
  shows "recurring_preimage a b c d s i n = recurring_preimage a' b' c' d' s' i' n' \<longleftrightarrow>
    a = a' \<and> b = b' \<and> c = c' \<and> d = d' \<and> s = s' \<and> i = i' \<and> n = n'"
  using fields_bytes_append_iff [OF _ assms]
  by (simp add: recurring_preimage_def append_same_length)

lemma cancel_preimage_inject:
  assumes "list_all sized [a, b, c]" "list_all sized [a', b', c']"
  shows "cancel_preimage a b c s = cancel_preimage a' b' c' s' \<longleftrightarrow> a = a' \<and> b = b' \<and> c = c' \<and> s = s'"
  using fields_bytes_append_iff [OF _ assms] by (simp add: cancel_preimage_def)

text \<open>The four kinds of binding never hash the same bytes.\<close>

lemma domains_differ:
  "pay_preimage a b c d \<noteq> split_preimage a' b' c' legs"
  "pay_preimage a b c d \<noteq> recurring_preimage a' b' c' d' s i n"
  "pay_preimage a b c d \<noteq> cancel_preimage a' b' c' s"
  "split_preimage a b c legs \<noteq> recurring_preimage a' b' c' d' s i n"
  "split_preimage a b c legs \<noteq> cancel_preimage a' b' c' s"
  "recurring_preimage a b c d s i n \<noteq> cancel_preimage a' b' c' s'"
  by (simp_all add: pay_preimage_def split_preimage_def recurring_preimage_def cancel_preimage_def as_bytes_def)

section \<open>Facts: building and decoding\<close>

definition leg_sum :: "payment_leg list \<Rightarrow> int" where
  "leg_sum legs = sum_list (map (\<lambda>l. sint (pl_amount l)) legs)"

abbreviation positive_leg :: "payment_leg \<Rightarrow> bool" where
  "positive_leg l \<equiv> 0 < sint (pl_amount l)"

lemma leg_sum_simps [simp]: "leg_sum [] = 0" "leg_sum (l # legs) = sint (pl_amount l) + leg_sum legs"
  by (simp_all add: leg_sum_def)

lemma leg_sum_nonneg: "list_all positive_leg legs \<Longrightarrow> 0 \<le> leg_sum legs"
  by (induction legs) auto

lemma total_loop_sum: "total_loop legs i acc = Ok t \<Longrightarrow> sint t = sint acc + leg_sum legs"
  by (induction legs i acc rule: total_loop.induct) (auto dest: sint_checked_add_i64 split: option.splits)

lemma total_loop_Ok_iff:
  assumes "list_all positive_leg legs" "0 \<le> sint acc"
  shows "(\<exists>t. total_loop legs i acc = Ok t) \<longleftrightarrow> sint acc + leg_sum legs < 2 ^ 63"
  using assms
proof (induction legs i acc rule: total_loop.induct)
  case (1 i acc)
  then show ?case using sint_range_i64(2) [of acc] by simp
next
  case (2 leg legs i acc)
  have sum: "0 \<le> leg_sum legs" using 2 by (simp add: leg_sum_nonneg)
  show ?case
  proof (cases "checked_add_i64 acc (pl_amount leg)")
    case None
    then have "2 ^ 63 \<le> sint acc + sint (pl_amount leg)"
      using 2 by (auto simp: checked_add_i64_None)
    then show ?thesis using None sum by auto
  next
    case (Some t)
    then have "sint t = sint acc + sint (pl_amount leg)" by (rule sint_checked_add_i64)
    with 2 Some show ?thesis by (auto simp: add.assoc)
  qed
qed

lemma total_amount_Ok_iff:
  "list_all positive_leg legs \<Longrightarrow> (\<exists>t. total_amount legs = Ok t) \<longleftrightarrow> leg_sum legs < 2 ^ 63"
  using total_loop_Ok_iff [of legs 0 0] by (simp add: total_amount_def)

lemma total_amount_sum: "total_amount legs = Ok t \<Longrightarrow> sint t = leg_sum legs"
  using total_loop_sum [of legs 0 0 t] by (simp add: total_amount_def)

lemma check_positive_Ok_iff: "check_positive legs i = Ok () \<longleftrightarrow> list_all positive_leg legs"
  by (induction legs i rule: check_positive.induct) auto

lemma total_fee_Ok_iff: "total_fee base n = Ok fee \<longleftrightarrow> n < 2 ^ 32 \<and> unat fee = unat base * n"
  by (auto simp: total_fee_def checked_mul_u_Some_iff unsigned_of_nat take_bit_nat_eq_self)

lemma transaction_from_ops_one:
  "transaction_from_ops s [x] seq fee mem cond =
     Ok \<lparr> tx_source = muxed s, tx_fee = fee, tx_seq_num = seq, tx_cond = cond, tx_memo = MemoHash mem,
          tx_operations = [x] \<rparr>"
  by (simp add: transaction_from_ops_def MAX_OPERATIONS_def)

lemma build_transaction_with_preconditions_eq:
  "build_transaction_with_preconditions s d a amt seq fee mem cond =
     \<lparr> tx_source = Ed25519 s, tx_fee = fee, tx_seq_num = seq, tx_cond = cond, tx_memo = MemoHash mem,
       tx_operations = [payment_op \<lparr> pl_dest = d, pl_asset = a, pl_amount = amt \<rparr>] \<rparr>"
  by (simp add: build_transaction_with_preconditions_def transaction_from_ops_one muxed_def)

lemma build_bump_sequence_transaction_eq:
  "build_bump_sequence_transaction s seq fee bump mem =
     \<lparr> tx_source = Ed25519 s, tx_fee = fee, tx_seq_num = seq, tx_cond = NoPreconditions,
       tx_memo = MemoHash mem, tx_operations = [\<lparr> op_source = None, op_body = BumpSequence bump \<rparr>] \<rparr>"
  by (simp add: build_bump_sequence_transaction_def transaction_from_ops_one muxed_def)

text \<open>The transaction a bundle of legs becomes.\<close>

definition payment_tx :: "bytes \<Rightarrow> payment_leg list \<Rightarrow> i64 \<Rightarrow> u32 \<Rightarrow> bytes \<Rightarrow> preconditions \<Rightarrow> transaction" where
  "payment_tx s legs seq fee mem cond =
     \<lparr> tx_source = Ed25519 s, tx_fee = fee, tx_seq_num = seq, tx_cond = cond, tx_memo = MemoHash mem,
       tx_operations = map payment_op legs \<rparr>"

definition payable :: "payment_leg list \<Rightarrow> bool" where
  "payable legs \<longleftrightarrow> legs \<noteq> [] \<and> length legs \<le> MAX_OPERATIONS \<and> list_all positive_leg legs"

lemma build_payment_transaction_Ok_iff:
  "build_payment_transaction s legs seq base mem = Ok tx \<longleftrightarrow>
     payable legs \<and> leg_sum legs < 2 ^ 63 \<and>
     (\<exists>fee. unat fee = unat base * length legs \<and> tx = payment_tx s legs seq fee mem NoPreconditions)"
proof (cases "payable legs")
  case True
  then have small: "length legs < 2 ^ 32" "length legs \<le> MAX_OPERATIONS" "legs \<noteq> []"
    by (auto simp: payable_def MAX_OPERATIONS_def)
  have pos: "check_positive legs 0 = Ok ()" using True by (simp add: payable_def check_positive_Ok_iff)
  have "build_payment_transaction s legs seq base mem = Ok tx \<longleftrightarrow>
      (\<exists>t. total_amount legs = Ok t) \<and>
      (\<exists>fee. total_fee base (length legs) = Ok fee \<and> tx = payment_tx s legs seq fee mem NoPreconditions)"
    using small pos
    by (auto simp: build_payment_transaction_def transaction_from_ops_def payment_tx_def muxed_def)
  with True small show ?thesis
    by (simp add: total_amount_Ok_iff total_fee_Ok_iff payable_def)
next
  case False
  then show ?thesis
    by (auto simp: build_payment_transaction_def payable_def check_positive_Ok_iff)
qed

lemma decode_legs_Ok_iff:
  "decode_legs ops i = Ok legs \<longleftrightarrow> ops = map payment_op legs \<and> list_all positive_leg legs"
proof (induction ops i arbitrary: legs rule: decode_legs.induct)
  case (1 i)
  then show ?case by auto
next
  case (2 op ops i)
  show ?case
  proof (cases "\<exists>d a m. op = \<lparr> op_source = None, op_body = Payment (Ed25519 d) a m \<rparr> \<and> 0 < sint m")
    case True
    then obtain d a m where op: "op = \<lparr> op_source = None, op_body = Payment (Ed25519 d) a m \<rparr>" "0 < sint m"
      by blast
    then have "decode_legs (op # ops) i = Ok legs \<longleftrightarrow>
        (\<exists>legs'. legs = \<lparr> pl_dest = d, pl_asset = a, pl_amount = m \<rparr> # legs' \<and>
           ops = map payment_op legs' \<and> list_all positive_leg legs')"
      using "2.IH" by auto
    also have "\<dots> \<longleftrightarrow> op # ops = map payment_op legs \<and> list_all positive_leg legs"
      using op by (cases legs) (auto simp: payment_op_def muxed_def)
    finally show ?thesis .
  next
    case False
    then have "decode_legs (op # ops) i \<noteq> Ok legs"
      by (cases op) (auto split: operation_body.splits muxed_account.splits)
    moreover have "op \<noteq> payment_op l" if "positive_leg l" for l
      using False that by (auto simp: payment_op_def muxed_def)
    ultimately show ?thesis by (cases legs) auto
  qed
qed

lemma decode_payments_Ok_iff:
  "decode_payments env = Ok d \<longleftrightarrow>
     payable (dp_legs d) \<and>
     (\<exists>cond sigs. env = TxV1 (payment_tx (dp_source d) (dp_legs d) (dp_seq_num d) (dp_fee d) (dp_memo d) cond) sigs)"
proof (cases "\<exists>tx sigs s m. env = TxV1 tx sigs \<and> tx_source tx = Ed25519 s \<and> tx_memo tx = MemoHash m")
  case True
  then obtain tx sigs s m where env: "env = TxV1 tx sigs" "tx_source tx = Ed25519 s" "tx_memo tx = MemoHash m"
    by blast
  show ?thesis
    by (cases tx; cases d)
      (use env in \<open>auto simp: decode_payments_def decode_legs_Ok_iff payable_def payment_tx_def\<close>)
next
  case False
  then have "decode_payments env \<noteq> Ok d"
    by (auto simp: decode_payments_def split: tx_envelope.splits muxed_account.splits memo.splits)
  moreover have "env \<noteq> TxV1 (payment_tx s legs seq fee m cond) sigs" for s legs seq fee m cond sigs
    using False by (auto simp: payment_tx_def)
  ultimately show ?thesis by blast
qed

lemma decode_single_payment_Ok_iff:
  "decode_single_payment env = Ok d \<longleftrightarrow>
     0 < sint (d1_amount d) \<and>
     (\<exists>cond sigs. env = TxV1 (build_transaction_with_preconditions (d1_source d) (d1_dest d) (d1_asset d)
        (d1_amount d) (d1_seq_num d) (d1_fee d) (d1_memo d) cond) sigs)"
proof -
  have one: "build_transaction_with_preconditions s de a amt seq fee mem cond =
      payment_tx s [\<lparr> pl_dest = de, pl_asset = a, pl_amount = amt \<rparr>] seq fee mem cond"
    for s de a amt seq fee mem cond
    by (simp add: build_transaction_with_preconditions_eq payment_tx_def)
  let ?leg = "\<lparr> pl_dest = d1_dest d, pl_asset = d1_asset d, pl_amount = d1_amount d \<rparr>"
  let ?p = "\<lparr> dp_source = d1_source d, dp_seq_num = d1_seq_num d, dp_fee = d1_fee d,
      dp_memo = d1_memo d, dp_legs = [?leg] \<rparr>"
  have "decode_single_payment env = Ok d \<longleftrightarrow> decode_payments env = Ok ?p"
  proof
    assume "decode_single_payment env = Ok d"
    then obtain p where p: "decode_payments env = Ok p"
        "(case dp_legs p of [leg] \<Rightarrow>
           Ok \<lparr> d1_source = dp_source p, d1_seq_num = dp_seq_num p, d1_fee = dp_fee p,
                d1_dest = pl_dest leg, d1_asset = pl_asset leg, d1_amount = pl_amount leg, d1_memo = dp_memo p \<rparr>
         | _ \<Rightarrow> Err (Xdr (''expected exactly one operation, found '' @ dec_of_nat (length (dp_legs p))))) = Ok d"
      by (auto simp: decode_single_payment_def)
    then obtain leg where leg: "dp_legs p = [leg]"
      by (cases "dp_legs p"; cases "tl (dp_legs p)") auto
    have d: "d = \<lparr> d1_source = dp_source p, d1_seq_num = dp_seq_num p, d1_fee = dp_fee p,
        d1_dest = pl_dest leg, d1_asset = pl_asset leg, d1_amount = pl_amount leg, d1_memo = dp_memo p \<rparr>"
      using p(2) leg by simp
    have "\<lparr> pl_dest = pl_dest leg, pl_asset = pl_asset leg, pl_amount = pl_amount leg \<rparr> = leg"
      by (cases leg) simp
    then have "?p = p" by (intro decoded_payments.equality) (simp_all add: d leg)
    with p show "decode_payments env = Ok ?p" by simp
  qed (simp add: decode_single_payment_def)
  then show ?thesis
    unfolding decode_payments_Ok_iff one by (simp add: payable_def MAX_OPERATIONS_def)
qed

section \<open>Properties\<close>

text \<open>
  The memo of a single payment binds the rail, payer, payee and reference. Two payments have
  the same memo exactly when all four agree or SHA-256 collides on those very two inputs, and a
  payment shares its memo with a split, a recurring instalment or a cancellation only by such a
  collision.
\<close>

theorem payment_memo_binding:
  assumes "list_all sized [rid, src, dst, ref]" "list_all sized [rid', src', dst', ref']"
  defines "pre \<equiv> pay_preimage rid src dst ref"
  shows "(memo_hash L rid src dst ref = memo_hash L rid' src' dst' ref' \<longleftrightarrow>
      (rid = rid' \<and> src = src' \<and> dst = dst' \<and> ref = ref') \<or> collides L pre (pay_preimage rid' src' dst' ref')) \<and>
    (memo_hash L rid src dst ref = split_memo_hash L rid' src' ref' legs \<longleftrightarrow>
      collides L pre (split_preimage rid' src' ref' legs)) \<and>
    (memo_hash L rid src dst ref = recurring_memo_hash L rid' src' dst' ref' s i n \<longleftrightarrow>
      collides L pre (recurring_preimage rid' src' dst' ref' s i n)) \<and>
    (memo_hash L rid src dst ref = cancel_memo_hash L rid' src' ref' s \<longleftrightarrow>
      collides L pre (cancel_preimage rid' src' ref' s))"
  using pay_preimage_inject [OF assms(1,2)] domains_differ
  by (auto simp: memo_hash_def split_memo_hash_def recurring_memo_hash_def cancel_memo_hash_def
      collides_def pre_def)

theorem payment_memo_binding_witness:
  "\<forall>L. memo_hash L ''stellar'' ''GA'' ''GB'' ''r1'' = memo_hash L ''stellar'' ''GA'' ''GBr'' ''1'' \<longleftrightarrow>
     collides L (pay_preimage ''stellar'' ''GA'' ''GB'' ''r1'') (pay_preimage ''stellar'' ''GA'' ''GBr'' ''1'')"
proof
  fix L
  show "memo_hash L ''stellar'' ''GA'' ''GB'' ''r1'' = memo_hash L ''stellar'' ''GA'' ''GBr'' ''1'' \<longleftrightarrow>
     collides L (pay_preimage ''stellar'' ''GA'' ''GB'' ''r1'') (pay_preimage ''stellar'' ''GA'' ''GBr'' ''1'')"
    using payment_memo_binding [THEN conjunct1, of "''stellar''" "''GA''" "''GB''" "''r1''" "''stellar''" "''GA''" "''GBr''" "''1''" L]
    by (simp add: sized_def)
qed

text \<open>
  The memo of a split binds every leg and their order: two splits have the same memo exactly
  when rail, payer, reference and the list of (destination, amount) agree, or SHA-256 collides on
  those very two inputs.
\<close>

theorem split_memo_binding:
  assumes "list_all sized [rid, src, ref]" "list_all sized [rid', src', ref']"
    and "list_all (sized \<circ> fst) legs" "list_all (sized \<circ> fst) legs'" "length legs < 2 ^ 64" "length legs' < 2 ^ 64"
  shows "split_memo_hash L rid src ref legs = split_memo_hash L rid' src' ref' legs' \<longleftrightarrow>
    (rid = rid' \<and> src = src' \<and> ref = ref' \<and> legs = legs') \<or>
    collides L (split_preimage rid src ref legs) (split_preimage rid' src' ref' legs')"
  using split_preimage_inject [OF assms] by (auto simp: split_memo_hash_def collides_def)

theorem split_memo_binding_witness:
  "\<forall>L. split_memo_hash L ''stellar'' ''GA'' ''r'' [(''GB'', 700), (''GC'', 300)] =
     split_memo_hash L ''stellar'' ''GA'' ''r'' [(''GC'', 300), (''GB'', 700)] \<longleftrightarrow>
   collides L (split_preimage ''stellar'' ''GA'' ''r'' [(''GB'', 700), (''GC'', 300)])
     (split_preimage ''stellar'' ''GA'' ''r'' [(''GC'', 300), (''GB'', 700)])"
proof
  fix L
  show "split_memo_hash L ''stellar'' ''GA'' ''r'' [(''GB'', 700), (''GC'', 300)] =
     split_memo_hash L ''stellar'' ''GA'' ''r'' [(''GC'', 300), (''GB'', 700)] \<longleftrightarrow>
   collides L (split_preimage ''stellar'' ''GA'' ''r'' [(''GB'', 700), (''GC'', 300)])
     (split_preimage ''stellar'' ''GA'' ''r'' [(''GC'', 300), (''GB'', 700)])"
    using split_memo_binding [of "''stellar''" "''GA''" "''r''" "''stellar''" "''GA''" "''r''"
      "[(''GB'', 700), (''GC'', 300)]" "[(''GC'', 300), (''GB'', 700)]" L]
    by (simp add: sized_def)
qed

text \<open>
  What the checked builder accepts, exactly: one to a hundred legs, every amount positive, a sum
  within \<open>i64\<close>, a fee bid within \<open>u32\<close>. The transaction it then returns pays those legs in that order,
  with the fee of the base times the number of operations and no preconditions.
\<close>

theorem build_payment_transaction_exact:
  "build_payment_transaction s legs seq base mem = Ok tx \<longleftrightarrow>
     legs \<noteq> [] \<and> length legs \<le> 100 \<and> list_all positive_leg legs \<and>
     sum_list (map (\<lambda>l. sint (pl_amount l)) legs) < 2 ^ 63 \<and>
     unat base * length legs < 2 ^ 32 \<and>
     tx = \<lparr> tx_source = Ed25519 s, tx_fee = word_of_nat (unat base * length legs), tx_seq_num = seq,
            tx_cond = NoPreconditions, tx_memo = MemoHash mem, tx_operations = map payment_op legs \<rparr>"
proof -
  have "(\<exists>fee :: u32. unat fee = k \<and> tx = payment_tx s legs seq fee mem NoPreconditions) \<longleftrightarrow>
      k < 2 ^ 32 \<and> tx = payment_tx s legs seq (word_of_nat k) mem NoPreconditions" for k
  proof
    assume "\<exists>fee :: u32. unat fee = k \<and> tx = payment_tx s legs seq fee mem NoPreconditions"
    then show "k < 2 ^ 32 \<and> tx = payment_tx s legs seq (word_of_nat k) mem NoPreconditions"
      using unsigned_less [where ?'a = nat and 'b = 32] by auto
  next
    assume k: "k < 2 ^ 32 \<and> tx = payment_tx s legs seq (word_of_nat k) mem NoPreconditions"
    then have "unat (word_of_nat k :: u32) = k" by (simp add: unsigned_of_nat take_bit_nat_eq_self)
    with k show "\<exists>fee :: u32. unat fee = k \<and> tx = payment_tx s legs seq fee mem NoPreconditions" by blast
  qed
  then show ?thesis
    by (auto simp: build_payment_transaction_Ok_iff payable_def MAX_OPERATIONS_def leg_sum_def payment_tx_def)
qed

text \<open>
  The strict decoder is exact. It succeeds on precisely the version-1 envelopes of a plain
  source with a hash memo and one to a hundred plain positive payments, whatever the signatures and
  preconditions, and what it returns is everything else that is in the transaction.
\<close>

theorem decode_payments_exact:
  "decode_payments env = Ok d \<longleftrightarrow>
     dp_legs d \<noteq> [] \<and> length (dp_legs d) \<le> 100 \<and> list_all positive_leg (dp_legs d) \<and>
     (\<exists>cond sigs. env = TxV1 \<lparr> tx_source = Ed25519 (dp_source d), tx_fee = dp_fee d, tx_seq_num = dp_seq_num d,
        tx_cond = cond, tx_memo = MemoHash (dp_memo d), tx_operations = map payment_op (dp_legs d) \<rparr> sigs)"
  by (simp add: decode_payments_Ok_iff payable_def MAX_OPERATIONS_def payment_tx_def)

text \<open>
  A bundle survives the trip through its signed envelope: decoding what the checked builder
  built gives back the payer, the sequence number, the fee, the memo and every leg in order.
\<close>

theorem build_decode_round_trip:
  assumes "build_payment_transaction s legs seq base mem = Ok tx"
  shows "decode_payments (envelope tx pk sig) =
    Ok \<lparr> dp_source = s, dp_seq_num = seq, dp_fee = tx_fee tx, dp_memo = mem, dp_legs = legs \<rparr>"
  using assms
  by (auto simp: build_payment_transaction_Ok_iff decode_payments_Ok_iff envelope_def) (simp_all add: payment_tx_def)

definition demo_legs :: "payment_leg list" where
  "demo_legs = [\<lparr> pl_dest = [1], pl_asset = OtherAsset [], pl_amount = 700 \<rparr>,
     \<lparr> pl_dest = [2], pl_asset = OtherAsset [], pl_amount = 300 \<rparr>]"

theorem build_decode_round_trip_witness:
  "decode_payments (envelope (payment_tx [9] demo_legs 42 200 [7] NoPreconditions) [9] []) =
     Ok \<lparr> dp_source = [9], dp_seq_num = 42, dp_fee = 200, dp_memo = [7], dp_legs = demo_legs \<rparr>"
proof -
  have "build_payment_transaction [9] demo_legs 42 100 [7] = Ok (payment_tx [9] demo_legs 42 200 [7] NoPreconditions)"
    unfolding build_payment_transaction_Ok_iff
    by (simp add: demo_legs_def payable_def MAX_OPERATIONS_def) (rule exI [of _ 200], simp)
  from build_decode_round_trip [OF this] show ?thesis by (simp add: payment_tx_def)
qed

end
