(* ===== verification/Stellar_Destination.thy ===== *)
theory Stellar_Destination
  imports Stellar_Tx
begin

text \<open>
  \<open>patala-stellar/src/destination.rs\<close>: the offline check of a Stellar destination. The StrKey decoder
  and the curve check are the parameter \<open>L\<close>; everything else, the seed refusal, the recognition of
  other chains' addresses and the explanation of a rejected StrKey, is the module's own.
\<close>

definition RAIL_ID_STELLAR :: string where "RAIL_ID_STELLAR = ''stellar''"
definition STRKEY_LEN_32 :: nat where "STRKEY_LEN_32 = 56"
definition STRKEY_LEN_MUXED :: nat where "STRKEY_LEN_MUXED = 69"

definition is_base32_char :: "char \<Rightarrow> bool" where
  "is_base32_char c \<longleftrightarrow> is_ascii_alpha c \<or> (50 \<le> code c \<and> code c \<le> 55)"

definition is_strkey_alphabet :: "string \<Rightarrow> bool" where
  "is_strkey_alphabet s \<longleftrightarrow> list_all is_base32_char s"

definition BASE58_ALPHABET_stellar :: string where
  "BASE58_ALPHABET_stellar = ''123456789ABCDEFGHJKLMNPQRSTUVWXYZabcdefghijkmnopqrstuvwxyz''"

definition foreign_format :: "string \<Rightarrow> string option" where
  "foreign_format dest =
     (let len = length dest;
          all_base58 = list_all (\<lambda>c. c \<in> set BASE58_ALPHABET_stellar) dest;
          hexes = (case or_else (strip_prefix ''0x'' dest) (strip_prefix ''0X'' dest) of
              Some hex \<Rightarrow>
                if list_all is_ascii_hexdigit hex then
                  (if length hex = 40 then Some ''an Ethereum/EVM address (0x + 40 hex characters)''
                   else if length hex = 64 then Some ''a Sui or Aptos address (0x + 64 hex characters)''
                   else None)
                else None
            | None \<Rightarrow> None)
      in if (len = 43 \<or> len = 44) \<and> all_base58 then Some ''a Solana address (32 bytes of base58)''
         else if 26 \<le> len \<and> len \<le> 35 \<and> all_base58 \<and> (starts_with ''1'' dest \<or> starts_with ''3'' dest)
           then Some ''a legacy Bitcoin address''
         else case or_else (or_else (strip_prefix ''bc1'' dest) (strip_prefix ''tb1'' dest)) (strip_prefix ''bcrt1'' dest) of
             Some rest \<Rightarrow>
               if rest \<noteq> [] \<and> list_all (\<lambda>b. is_ascii_lower b \<or> is_ascii_digit b) rest
               then Some (''a bech32 Bitcoin address (bc1'' @ ellipsis @ '')'') else hexes
           | None \<Rightarrow> hexes)"

definition SECRET_SEED_TEXT :: string where
  "SECRET_SEED_TEXT =
     ''STOP '' @ em_dash @ '' this is not an address, it is a Stellar SECRET SEED (S'' @ ellipsis @
     ''). You have just pasted a '' @
     ''PRIVATE KEY into a destination field. Treat it as disclosed: create a new Stellar '' @
     ''account, move every asset the old key controls to it, remove the old key as a signer '' @
     ''anywhere it is one, and never use it again. patala has not logged the value and this '' @
     ''message does not repeat it, but wherever you copied it from may have. The address you '' @
     ''want is the PUBLIC account address (G'' @ ellipsis @ '') derived from that seed.''"

definition secret_seed_refusal :: destination_verdict where
  "secret_seed_refusal = malformed RAIL_ID_STELLAR SECRET_SEED_TEXT"

definition explain_rejection :: "string \<Rightarrow> nat \<Rightarrow> string \<Rightarrow> string" where
  "explain_rejection dest expected_len what =
     (case dropWhile is_base32_char dest of
        bad # rest \<Rightarrow>
          (let hint = (if bad = CHR ''0'' then '' (base32 has no 0 '' @ em_dash @ '' the letter O is what it uses)''
             else if bad = CHR ''1'' then '' (base32 has no 1 '' @ em_dash @ '' the letter I is what it uses)''
             else if bad = CHR ''8'' then '' (base32 has no 8 '' @ em_dash @ '' the letter B is what it uses)''
             else if bad = CHR ''9'' then '' (base32 has no 9 '' @ em_dash @ '' the letter G is what it uses)''
             else [])
           in ''this is not a valid Stellar address: the character '' @ debug_char_lit (first_char (bad # rest)) @
              '' is not in the base32 '' @ ''alphabet StrKey uses'' @ hint @ ''.'')
      | [] \<Rightarrow>
          if length dest \<noteq> expected_len then
            ''this starts like '' @ what @ '', but '' @ what @ '' is exactly '' @ dec_of_nat expected_len @
            '' characters and this is '' @ dec_of_nat (length dest) @
            ''. Characters were lost or added when it was copied '' @ em_dash @ '' take the whole address again.''
          else if 1 < length dest \<and> 65 \<le> code (dest ! 1) \<and> code (dest ! 1) \<le> 68 then
            ''this is '' @ what @ '' of exactly the right length and alphabet, but its CRC16 checksum does '' @
            ''not match '' @ em_dash @ '' so at least one character is wrong. This is what a typo, a truncated '' @
            ''copy, or an address mangled in transit looks like, and it is exactly the case '' @
            ''Stellar's checksum exists to catch. Do NOT try to repair it by hand: copy the whole '' @
            ''address again from the wallet that owns it.''
          else
            ''this starts like '' @ what @ '' and has the right length, but its second character does not '' @
            ''encode a StrKey version byte, so it is not a StrKey at all. Re-copy the address.'')"

text \<open>The \<open>else\<close> branch of the decode: a sentence for a string the decoder rejected.\<close>

definition rejected_strkey :: "string \<Rightarrow> destination_verdict" where
  "rejected_strkey dest =
     (let known = (case dest of
          [] \<Rightarrow> None
        | c # _ \<Rightarrow>
            if c = CHR ''G'' then Some (STRKEY_LEN_32, ''a Stellar account address (G'' @ ellipsis @ '')'')
            else if c = CHR ''M'' then Some (STRKEY_LEN_MUXED, ''a Stellar muxed account (M'' @ ellipsis @ '')'')
            else if c = CHR ''C'' then Some (STRKEY_LEN_32, ''a Stellar contract address (C'' @ ellipsis @ '')'')
            else if c = CHR ''S'' then Some (STRKEY_LEN_32, ''a Stellar secret seed (S'' @ ellipsis @ '')'')
            else if c = CHR ''T'' then Some (STRKEY_LEN_32, ''a Stellar pre-auth-tx signer (T'' @ ellipsis @ '')'')
            else if c = CHR ''X'' then Some (STRKEY_LEN_32, ''a Stellar hash-x signer (X'' @ ellipsis @ '')'')
            else None)
      in case known of
        None \<Rightarrow> malformed RAIL_ID_STELLAR
          (''this is not a Stellar address. A Stellar account address is StrKey: 56 '' @
           ''characters of uppercase base32 beginning with G. Ask the recipient for the '' @
           ''address their wallet shows, not a username, an email, a federation address, '' @
           ''or an address from another chain.'')
      | Some (expected_len, what) \<Rightarrow> malformed RAIL_ID_STELLAR (explain_rejection dest expected_len what))"

text \<open>The arms of the final \<open>match\<close>.\<close>

definition parsed_strkey :: "stellar_lib \<Rightarrow> strkey \<Rightarrow> destination_verdict" where
  "parsed_strkey L k =
     (case k of
        PublicKeyEd25519 pk \<Rightarrow>
          if \<not> ed_point L pk then not_a_wallet RAIL_ID_STELLAR
            (''this is a checksum-valid G'' @ ellipsis @ '' address whose 32-byte payload is not a point on '' @
             ''the ed25519 curve, so no private key can correspond to it and no one can '' @
             ''ever move funds out of it. A real Stellar account address is always a real '' @
             ''public key; this one was constructed rather than generated.'')
          else structurally_valid RAIL_ID_STELLAR
            (''this is a well-formed Stellar account address: the StrKey version byte says '' @
             ''account, the CRC16 checksum verifies, and the payload is a real ed25519 public '' @
             ''key. That is every check possible without asking Horizon a question. In '' @
             ''particular this rail cannot yet know whether the account EXISTS and is funded '' @
             ''above the base reserve, or whether it holds a TRUSTLINE for the USDC asset this '' @
             ''rail pays in '' @ em_dash @ '' without one the payment is rejected with op_no_trust, which is '' @
             ''the most common way a Stellar payment fails. Confirm both with the recipient '' @
             ''before paying.'')
      | MuxedAccountEd25519 _ \<Rightarrow> not_a_wallet RAIL_ID_STELLAR
          (''this is a muxed account (M'' @ ellipsis @ ''): a Stellar account plus a 64-bit subaccount id, which '' @
           ''is what an exchange or custodian hands out so it can tell its own customers apart '' @
           ''inside one shared omnibus account. It is a valid Stellar destination in general, '' @
           ''but NOT one this rail can pay: patala-stellar builds only plain Ed25519 payment '' @
           ''destinations, so it would drop the subaccount id and the money would land in the '' @
           ''omnibus account with nothing to say it was yours '' @ em_dash @ '' which is precisely the '' @
           ''unrecoverable case. Ask the recipient for an account they control directly (G'' @ ellipsis @ ''), '' @
           ''not a deposit address at a custodian.'')
      | Contract _ \<Rightarrow> not_a_wallet RAIL_ID_STELLAR
          (''this is a Soroban contract address (C'' @ ellipsis @ ''), not an account. A contract has no keypair '' @
           ''and no one can sign for it; this rail builds classic PAYMENT operations, which a '' @
           ''contract address cannot be the destination of at all. Ask for the recipient's '' @
           ''account address (G'' @ ellipsis @ '').'')
      | PrivateKeyEd25519 _ \<Rightarrow> secret_seed_refusal
      | _ \<Rightarrow> not_a_wallet RAIL_ID_STELLAR
          (''this is a valid StrKey, but it encodes a SIGNER (a pre-authorized transaction, a '' @
           ''hash-x signer, or a signed payload), not an account. Signers are things that may '' @
           ''authorize a transaction on an account; they are not places money can be sent, '' @
           ''and nothing sent using one is recoverable. Ask for the recipient's account '' @
           ''address (G'' @ ellipsis @ '').''))"

definition looks_like_seed :: "string \<Rightarrow> bool" where
  "looks_like_seed dest \<longleftrightarrow>
     (starts_with ''S'' dest \<or> starts_with ''s'' dest) \<and> length dest = STRKEY_LEN_32 \<and> is_strkey_alphabet dest"

definition stellar_validate :: "stellar_lib \<Rightarrow> string \<Rightarrow> destination_verdict" where
  "stellar_validate L dest =
     (if blank dest then malformed RAIL_ID_STELLAR ''an empty destination is not an address on any rail''
      else if trim dest \<noteq> dest then malformed RAIL_ID_STELLAR
        (''this address has leading or trailing whitespace, which came from the copy rather '' @
         ''than from the address '' @ em_dash @ '' remove it and check nothing else was picked up with it'')
      else if looks_like_seed dest then secret_seed_refusal
      else case foreign_format dest of
        Some what \<Rightarrow> wrong_network RAIL_ID_STELLAR
          (''this looks like '' @ what @ '', not a Stellar address. The stellar rail pays USDC on '' @
           ''Stellar only; funds sent using an address from another chain do not arrive on '' @
           ''that chain, they simply do not arrive. Ask for the recipient's Stellar account '' @
           ''address '' @ em_dash @ '' it starts with G and is 56 characters.'')
      | None \<Rightarrow>
          (case strkey_parse L dest of
             None \<Rightarrow> rejected_strkey dest
           | Some k \<Rightarrow> parsed_strkey L k))"

section \<open>Facts\<close>

lemma rejected_strkey_status [simp]:
  "dv_status (rejected_strkey d) = Malformed" "honest_verdict RAIL_ID_STELLAR (rejected_strkey d)"
  by (auto simp: rejected_strkey_def Let_def split: option.splits)

lemma stellar_validate_honest: "honest_verdict RAIL_ID_STELLAR (stellar_validate L d)"
  by (auto simp: stellar_validate_def parsed_strkey_def secret_seed_refusal_def split: option.splits strkey.splits)

lemma stellar_validate_blank: "blank d \<Longrightarrow> is_refusal (stellar_validate L d)"
  by (simp add: stellar_validate_def)

text \<open>
  SEP-23 as the decoder implements it: a StrKey is at least 56 characters, all base32, and none
  starts with a digit. With that, no shape of another chain shadows a StrKey.
\<close>

definition strkey_shaped :: "stellar_lib \<Rightarrow> bool" where
  "strkey_shaped L \<longleftrightarrow>
     (\<forall>d k. strkey_parse L d = Some k \<longrightarrow> 56 \<le> length d \<and> is_strkey_alphabet d)"

lemma base32_not_01: "is_base32_char c \<Longrightarrow> c \<noteq> CHR ''0'' \<and> c \<noteq> CHR ''1''"
  by (auto simp: is_base32_char_def is_ascii_alpha_def is_ascii_upper_def is_ascii_lower_def)

lemma strkey_alphabet_no_prefix:
  assumes "is_strkey_alphabet d" "c \<in> {CHR ''0'', CHR ''1''}" "c \<in> set p"
  shows "strip_prefix p d = None"
proof (rule ccontr)
  assume "strip_prefix p d \<noteq> None"
  then obtain t where "d = p @ t" by (auto simp: strip_prefix_Some_iff)
  with assms base32_not_01 [of c] show False by (auto simp: is_strkey_alphabet_def list_all_iff)
qed

lemma foreign_format_no_strkey:
  assumes "is_strkey_alphabet d" "56 \<le> length d"
  shows "foreign_format d = None"
proof -
  note np = strkey_alphabet_no_prefix [OF assms(1)]
  have "strip_prefix ''0x'' d = None" "strip_prefix ''0X'' d = None" "strip_prefix ''bc1'' d = None"
    "strip_prefix ''tb1'' d = None" "strip_prefix ''bcrt1'' d = None"
    using np [of "CHR ''0''"] np [of "CHR ''1''"] by simp_all
  with assms(2) show ?thesis by (simp add: foreign_format_def or_else_def)
qed

lemma stellar_validate_status:
  assumes "strkey_shaped L" "\<not> blank d" "trim d = d"
  shows "dv_status (stellar_validate L d) =
    (if looks_like_seed d then Malformed
     else case strkey_parse L d of
       Some (PublicKeyEd25519 pk) \<Rightarrow> if ed_point L pk then StructurallyValid else NotAWallet
     | Some (PrivateKeyEd25519 _) \<Rightarrow> Malformed
     | Some _ \<Rightarrow> NotAWallet
     | None \<Rightarrow> if foreign_format d = None then Malformed else WrongNetwork)"
proof (cases "strkey_parse L d")
  case None
  then show ?thesis using assms(2,3)
    by (auto simp: stellar_validate_def secret_seed_refusal_def split: option.splits)
next
  case (Some k)
  with assms(1) have "foreign_format d = None"
    using foreign_format_no_strkey unfolding strkey_shaped_def by blast
  with Some show ?thesis using assms(2,3)
    by (simp add: stellar_validate_def secret_seed_refusal_def parsed_strkey_def split: strkey.splits)
qed

section \<open>Properties\<close>

text \<open>A decoder for the examples: it knows one account, one muxed account and one contract.\<close>

definition demo_account :: string where "demo_account = replicate 56 (CHR ''G'')"
definition demo_muxed :: string where "demo_muxed = replicate 69 (CHR ''M'')"

definition demo_lib :: stellar_lib where
  "demo_lib =
     \<lparr> sha256 = (\<lambda>_. replicate 32 0), hex_encode = (\<lambda>_. []), hex_decode = (\<lambda>_. None),
       strkey_encode = (\<lambda>_. demo_account),
       strkey_decode = (\<lambda>d. if d = demo_account then Some (replicate 32 7) else None),
       seed_decode = (\<lambda>_. None),
       strkey_parse = (\<lambda>d. if d = demo_account then Some (PublicKeyEd25519 (replicate 32 7))
          else if d = demo_muxed then Some (MuxedAccountEd25519 (replicate 40 7)) else None),
       ed_point = (\<lambda>_. True), xdr_signature_payload = (\<lambda>_ _. Err []), xdr_encode_envelope = (\<lambda>_. Err []),
       xdr_decode_envelope = (\<lambda>_. Err []), ed_pubkey = id, ed_sign = (\<lambda>_ _. []), ed_verify = (\<lambda>_ _ _. False) \<rparr>"

lemma demo_lib_shaped: "strkey_shaped demo_lib"
  by (auto simp: strkey_shaped_def demo_lib_def demo_account_def demo_muxed_def is_strkey_alphabet_def
      is_base32_char_def is_ascii_alpha_def is_ascii_upper_def list_all_iff)

lemma Cons_neq_replicate: "c \<noteq> d \<Longrightarrow> c # s \<noteq> replicate n d"
  by (cases n) auto

lemma looks_like_seed_refused:
  assumes "looks_like_seed d"
  shows "stellar_validate L d = secret_seed_refusal"
proof -
  have "list_all graphic d"
    using assms by (auto simp: looks_like_seed_def is_strkey_alphabet_def list_all_iff is_base32_char_def
        is_ascii_alpha_def is_ascii_upper_def is_ascii_lower_def graphic_def)
  moreover have "d \<noteq> []" using assms by (auto simp: looks_like_seed_def STRKEY_LEN_32_def)
  ultimately show ?thesis
    using assms trim_graphic not_blank_graphic by (simp add: stellar_validate_def)
qed

text \<open>
  The status of a destination, exactly. Anything with surrounding whitespace, or shaped like a
  secret seed, is refused before decoding; what the StrKey decoder accepts is classified by its
  type alone, no other chain's shape overriding it; only a real ed25519 account is structurally
  valid; and what the decoder rejects is another network's address or malformed.
\<close>

theorem stellar_validate_exact:
  assumes "strkey_shaped L"
  shows "dv_status (stellar_validate L d) =
    (if blank d \<or> trim d \<noteq> d then Malformed
     else if length d = 56 \<and> (hd d = CHR ''S'' \<or> hd d = CHR ''s'') \<and> is_strkey_alphabet d then Malformed
     else case strkey_parse L d of
       Some (PublicKeyEd25519 pk) \<Rightarrow> if ed_point L pk then StructurallyValid else NotAWallet
     | Some (PrivateKeyEd25519 _) \<Rightarrow> Malformed
     | Some _ \<Rightarrow> NotAWallet
     | None \<Rightarrow> if foreign_format d = None then Malformed else WrongNetwork)"
proof (cases "blank d \<or> trim d \<noteq> d")
  case True
  then show ?thesis by (auto simp: stellar_validate_def)
next
  case False
  then have "d \<noteq> []" by auto
  then have "looks_like_seed d \<longleftrightarrow>
      length d = 56 \<and> (hd d = CHR ''S'' \<or> hd d = CHR ''s'') \<and> is_strkey_alphabet d"
    by (cases d) (auto simp: looks_like_seed_def STRKEY_LEN_32_def starts_with_def)
  with False stellar_validate_status [OF assms, of d] show ?thesis by simp
qed

theorem stellar_validate_exact_witness:
  "dv_status (stellar_validate demo_lib demo_account) = StructurallyValid \<and>
   dv_status (stellar_validate demo_lib demo_muxed) = NotAWallet \<and>
   dv_status (stellar_validate demo_lib (replicate 56 (CHR ''S''))) = Malformed \<and>
   dv_status (stellar_validate demo_lib (''0x'' @ replicate 40 (CHR ''a''))) = WrongNetwork"
proof -
  have t: "trim d = d" "\<not> blank d" if "list_all graphic d" "d \<noteq> []" for d
    using that trim_graphic not_blank_graphic by auto
  have g: "list_all graphic demo_account" "list_all graphic demo_muxed"
    "list_all graphic (replicate 56 (CHR ''S''))" "list_all graphic (''0x'' @ replicate 40 (CHR ''a''))"
    by (simp_all add: demo_account_def demo_muxed_def graphic_def list_all_iff)
  note x = stellar_validate_exact [OF demo_lib_shaped]
  show ?thesis
    unfolding x using t [OF g(1)] t [OF g(2)] t [OF g(3)] t [OF g(4)]
    by (simp add: demo_account_def demo_muxed_def demo_lib_def is_strkey_alphabet_def list_all_iff
        is_base32_char_def is_ascii_alpha_def is_ascii_upper_def)
      (auto simp: foreign_format_def or_else_def is_ascii_hexdigit_def starts_with_def list_all_iff
        Cons_neq_replicate)
qed

text \<open>
  A seed-shaped destination gets one fixed refusal, the same for every seed, so nothing of the
  seed is ever in the verdict.
\<close>

theorem seed_refusal_reveals_nothing:
  assumes "looks_like_seed d" "looks_like_seed d'"
  shows "stellar_validate L d = stellar_validate L' d' \<and> is_refusal (stellar_validate L d)"
  using looks_like_seed_refused [OF assms(1)] looks_like_seed_refused [OF assms(2)]
  by (simp add: secret_seed_refusal_def)

theorem seed_refusal_reveals_nothing_witness:
  "stellar_validate demo_lib (CHR ''S'' # replicate 55 (CHR ''A'')) = stellar_validate demo_lib (CHR ''s'' # replicate 55 (CHR ''7''))"
  using seed_refusal_reveals_nothing [of "CHR ''S'' # replicate 55 (CHR ''A'')" "CHR ''s'' # replicate 55 (CHR ''7'')" demo_lib demo_lib]
  by (simp add: looks_like_seed_def STRKEY_LEN_32_def starts_with_def is_strkey_alphabet_def list_all_iff
      is_base32_char_def is_ascii_alpha_def is_ascii_upper_def is_ascii_lower_def)

end
