(* ===== verification/Stellar_Rpc.thy ===== *)
theory Stellar_Rpc
  imports Stellar_Tx
begin

text \<open>
  \<open>patala-stellar/src/rpc.rs\<close>: the Horizon seam of the Stellar rail. The trait \<open>StellarRpc\<close> is a
  record of world-threaded functions, as a rail is, and \<open>parse_stroops\<close> reads a ledger amount. The
  HTTP client \<open>HorizonRpc\<close> is not modelled: it is one implementation of the record.
\<close>

section \<open>Horizon\<close>

record submit_result =
  su_hash :: string
  su_ledger :: u32
  su_successful :: bool

record tx_record =
  tr_successful :: bool
  tr_ledger :: u32
  tr_envelope_xdr :: string

record asset_holding =
  ah_is_native :: bool
  ah_asset_code :: string
  ah_asset_issuer :: string
  ah_balance_stroops :: i64
  ah_limit_stroops :: i64
  ah_is_authorized :: bool

record 'w stellar_rpc =
  rpc_load_sequence :: "string \<Rightarrow> 'w \<Rightarrow> (stellar_error + i64) \<times> 'w"
  rpc_load_account_holdings :: "string \<Rightarrow> 'w \<Rightarrow> (stellar_error + asset_holding list option) \<times> 'w"
  rpc_submit_transaction :: "string \<Rightarrow> 'w \<Rightarrow> (stellar_error + submit_result) \<times> 'w"
  rpc_get_transaction :: "string \<Rightarrow> 'w \<Rightarrow> (stellar_error + tx_record option) \<times> 'w"

section \<open>Ledger amounts\<close>

text \<open>Decimal digits as an \<open>i128\<close>, and the checked operations on it.\<close>

definition parse_i128_digits :: "string \<Rightarrow> int option" where
  "parse_i128_digits ds = (if int (nat_of_digits ds) < 2 ^ 127 then Some (int (nat_of_digits ds)) else None)"

definition checked_i128 :: "int \<Rightarrow> int option" where
  "checked_i128 n = (if - (2 ^ 127) \<le> n \<and> n < 2 ^ 127 then Some n else None)"

definition i64_try_from_i128 :: "int \<Rightarrow> i64 option" where
  "i64_try_from_i128 n = (if - (2 ^ 63) \<le> n \<and> n < 2 ^ 63 then Some (word_of_int n) else None)"

text \<open>\<open>for _ in frac.len()..7 { units *= 10 }\<close>\<close>

fun scale_up :: "nat \<Rightarrow> int \<Rightarrow> int" where
  "scale_up 0 units = units"
| "scale_up (Suc k) units = scale_up k (units * 10)"

definition parse_stroops :: "string \<Rightarrow> stellar_error + i64" where
  "parse_stroops s =
     (let bad = Rpc (''not a stellar decimal amount: '' @ debug_str s);
          (whole, frac) = (case split_once (CHR ''.'') s of Some (w, f) \<Rightarrow> (w, f) | None \<Rightarrow> (s, []))
      in if whole = [] \<and> frac = [] then Err bad
         else if \<not> all_digits whole \<or> \<not> all_digits frac then Err bad
         else if length frac > USDC_DECIMALS then Err bad
         else
           rbind (if whole = [] then Ok 0 else ok_or bad (parse_i128_digits whole)) (\<lambda>whole'.
           rbind (if frac = [] then Ok 0 else ok_or bad (parse_i128_digits frac)) (\<lambda>units0.
             let units = scale_up (USDC_DECIMALS - length frac) units0; scale = 10 ^ USDC_DECIMALS in
             rbind (ok_or bad (Option.bind (checked_i128 (whole' * scale)) (\<lambda>w. checked_i128 (w + units)))) (\<lambda>tot.
               ok_or bad (i64_try_from_i128 tot)))))"

section \<open>Facts\<close>

lemma scale_up_eq: "scale_up k u = u * 10 ^ k"
  by (induction k u rule: scale_up.induct) simp_all

lemma i64_try_from_i128_iff: "i64_try_from_i128 n = Some v \<longleftrightarrow> sint v = n"
proof
  assume "i64_try_from_i128 n = Some v"
  then show "sint v = n"
    by (auto simp: i64_try_from_i128_def signed_of_int signed_take_bit_int_eq_self split: if_splits)
next
  assume "sint v = n"
  then show "i64_try_from_i128 n = Some v"
    using sint_range_i64 [of v] by (auto simp: i64_try_from_i128_def)
qed

text \<open>The digits' value, whatever the machine integers on the way.\<close>

definition stroops_of :: "string \<Rightarrow> string \<Rightarrow> nat" where
  "stroops_of whole frac = nat_of_digits whole * 10 ^ 7 + nat_of_digits frac * 10 ^ (7 - length frac)"

definition decimal_parts :: "string \<Rightarrow> string \<times> string" where
  "decimal_parts s = (case split_once (CHR ''.'') s of Some p \<Rightarrow> p | None \<Rightarrow> (s, []))"

lemma i128_pipeline:
  fixes w f :: nat
  assumes "f < 10 ^ 7"
  shows "int w < 2 ^ 127 \<and>
      (\<exists>x. checked_i128 (int w * 10 ^ 7) = Some x \<and>
        (\<exists>t. checked_i128 (x + int f) = Some t \<and> i64_try_from_i128 t = Some v)) \<longleftrightarrow>
    sint v = int (w * 10 ^ 7 + f)"
proof
  assume "sint v = int (w * 10 ^ 7 + f)"
  then have v: "sint v = int w * 10 ^ 7 + int f" by simp
  moreover have "sint v < 2 ^ 63" by (rule sint_range_i64)
  ultimately have "int w * 10 ^ 7 + int f < 2 ^ 63" by simp
  then show "int w < 2 ^ 127 \<and>
      (\<exists>x. checked_i128 (int w * 10 ^ 7) = Some x \<and>
        (\<exists>t. checked_i128 (x + int f) = Some t \<and> i64_try_from_i128 t = Some v))"
    using v by (simp add: checked_i128_def i64_try_from_i128_iff)
qed (auto simp: checked_i128_def i64_try_from_i128_iff split: if_splits)

lemma parse_stroops_iff:
  assumes "decimal_parts s = (whole, frac)"
  shows "parse_stroops s = Ok v \<longleftrightarrow>
    \<not> (whole = [] \<and> frac = []) \<and> all_digits whole \<and> all_digits frac \<and> length frac \<le> 7 \<and>
    sint v = int (stroops_of whole frac)"
proof -
  have parts: "(case split_once (CHR ''.'') s of Some (w, f) \<Rightarrow> (w, f) | None \<Rightarrow> (s, [])) = (whole, frac)"
    using assms by (auto simp: decimal_parts_def split: option.splits)
  show ?thesis
  proof (cases "all_digits frac \<and> length frac \<le> 7")
    case True
    have side: "(if ds = [] then Ok 0 else ok_or bad (parse_i128_digits ds)) = ok_or bad (parse_i128_digits ds)"
      for ds and bad :: stellar_error
      by (simp add: parse_i128_digits_def)
    let ?f = "nat_of_digits frac * 10 ^ (7 - length frac)"
    have "nat_of_digits frac < 10 ^ length frac" using True nat_of_digits_less by blast
    then have "?f < 10 ^ length frac * 10 ^ (7 - length frac)" by simp
    then have f: "?f < 10 ^ 7" using True by (simp flip: power_add)
    have "nat_of_digits frac \<le> ?f" by simp
    then have "nat_of_digits frac < 10 ^ 7" using f by (rule le_less_trans)
    then have fi: "int (nat_of_digits frac) < 2 ^ 127" by simp
    have u: "scale_up (7 - length frac) (int (nat_of_digits frac)) = int ?f"
      by (simp add: scale_up_eq)
    have "parse_stroops s = Ok v \<longleftrightarrow> \<not> (whole = [] \<and> frac = []) \<and> all_digits whole \<and>
        (int (nat_of_digits whole) < 2 ^ 127 \<and>
         (\<exists>x. checked_i128 (int (nat_of_digits whole) * 10 ^ 7) = Some x \<and>
           (\<exists>t. checked_i128 (x + int ?f) = Some t \<and> i64_try_from_i128 t = Some v)))"
      unfolding parse_stroops_def Let_def parts prod.case side USDC_DECIMALS_def
      using True fi u by (simp add: parse_i128_digits_def Option.bind_eq_Some_conv) blast
    then show ?thesis
      unfolding i128_pipeline [OF f] using True by (auto simp: stroops_of_def)
  next
    case False
    then show ?thesis
      unfolding parse_stroops_def Let_def parts prod.case USDC_DECIMALS_def by auto
  qed
qed

section \<open>Properties\<close>

text \<open>
  \<open>parse_stroops\<close> accepts a string exactly when it is decimal digits around at most one point,
  not both sides empty, at most seven of them after it, and the amount in units of 10 to the -7 fits
  an \<open>i64\<close>; the result is that amount, with no rounding and no overflow on the way.
\<close>

theorem parse_stroops_exact:
  "parse_stroops s = Ok v \<longleftrightarrow>
     (case decimal_parts s of (whole, frac) \<Rightarrow>
        \<not> (whole = [] \<and> frac = []) \<and> all_digits whole \<and> all_digits frac \<and> length frac \<le> 7 \<and>
        sint v = int (nat_of_digits whole * 10 ^ 7 + nat_of_digits frac * 10 ^ (7 - length frac)))"
  by (cases "decimal_parts s") (simp add: parse_stroops_iff stroops_of_def)

end
