(* ===== verification/Stellar_Rail.thy ===== *)
theory Stellar_Rail
  imports Stellar_Destination Stellar_Rpc
begin

text \<open>
  \<open>patala-stellar/src/keys.rs\<close> and the single-payment rail of \<open>lib.rs\<close>. The JSON of a receipt's
  proof is written and read by \<open>serde_json\<close>: the codec is a parameter \<open>J\<close>, as the other libraries
  are the parameter \<open>L\<close>.
\<close>

section \<open>Keys\<close>

type_synonym pubkey = bytes
type_synonym keypair = bytes \<comment> \<open>the 32-byte seed a \<open>SigningKey\<close> is made from\<close>

definition to_strkey :: "stellar_lib \<Rightarrow> pubkey \<Rightarrow> string" where
  "to_strkey L pk = strkey_encode L pk"

definition from_strkey :: "stellar_lib \<Rightarrow> string \<Rightarrow> stellar_error + pubkey" where
  "from_strkey L s = (case strkey_decode L s of Some pk \<Rightarrow> Ok pk | None \<Rightarrow> Err (BadAddress s))"

definition keypair_pubkey :: "stellar_lib \<Rightarrow> keypair \<Rightarrow> pubkey" where
  "keypair_pubkey L k = ed_pubkey L k"

definition keypair_sign :: "stellar_lib \<Rightarrow> keypair \<Rightarrow> bytes \<Rightarrow> bytes" where
  "keypair_sign L k msg = ed_sign L k msg"

definition keypair_verify :: "stellar_lib \<Rightarrow> pubkey \<Rightarrow> bytes \<Rightarrow> bytes \<Rightarrow> bool" where
  "keypair_verify L pk msg sig = (if \<not> ed_point L pk then False else ed_verify L pk msg sig)"

text \<open>\<open>from_env\<close>, given the value of \<open>STELLAR_SECRET_KEY\<close> if it is set.\<close>

definition keypair_from_env :: "stellar_lib \<Rightarrow> string option \<Rightarrow> stellar_error + keypair option" where
  "keypair_from_env L var =
     (case var of
        None \<Rightarrow> Ok None
      | Some s \<Rightarrow>
          (case seed_decode L (trim s) of
             None \<Rightarrow> Err (Config ''STELLAR_SECRET_KEY: not a valid S... seed'')
           | Some seed \<Rightarrow> Ok (Some seed)))"

section \<open>Configuration and proof\<close>

definition CIRCLE_USDC_ISSUER_PUBLIC :: string where
  "CIRCLE_USDC_ISSUER_PUBLIC = ''GA5ZSEJYB37JRC5AVCIA5MOP4RHTM335X2KGX3IHOJAPP5RE34K4KZVN''"

record stellar_config =
  sc_network :: network
  sc_usdc_issuer :: string
  sc_base_fee_stroops :: u32

definition config_testnet :: "string \<Rightarrow> stellar_config" where
  "config_testnet issuer =
     \<lparr> sc_network = Testnet, sc_usdc_issuer = issuer, sc_base_fee_stroops = 100 \<rparr>"

definition config_public :: stellar_config where
  "config_public =
     \<lparr> sc_network = Public, sc_usdc_issuer = CIRCLE_USDC_ISSUER_PUBLIC, sc_base_fee_stroops = 100 \<rparr>"

record stellar_binding =
  b_chain :: string
  b_network_passphrase :: string
  b_tx_hash :: string
  b_source :: string
  b_destination :: string
  b_asset_code :: string
  b_asset_issuer :: string
  b_amount_stroops :: i64
  b_seq_num :: i64
  b_fee :: u32
  b_memo_hash :: string
  b_signature :: string

record stellar_split_binding =
  s_chain :: string
  s_network_passphrase :: string
  s_tx_hash :: string
  s_source :: string
  s_asset_code :: string
  s_asset_issuer :: string
  s_legs :: "(string \<times> i64) list"
  s_seq_num :: i64
  s_fee :: u32
  s_memo_hash :: string
  s_signature :: string

text \<open>\<open>serde_json::to_vec\<close> and \<open>from_slice\<close> at the two binding types; an error is its message.\<close>

record stellar_json =
  binding_to_vec :: "stellar_binding \<Rightarrow> string + bytes"
  binding_from_slice :: "bytes \<Rightarrow> stellar_binding option"
  split_to_vec :: "stellar_split_binding \<Rightarrow> string + bytes"
  split_from_slice :: "bytes \<Rightarrow> stellar_split_binding option"

section \<open>The rail\<close>

record 'w stellar_rail =
  sr_cfg :: stellar_config
  sr_rpc :: "'w stellar_rpc"
  sr_signer :: "keypair option"
  sr_capabilities :: rail_capabilities

definition stellar_capabilities :: rail_capabilities where
  "stellar_capabilities =
     \<lparr> caps_class = NonCustodialFinal, reversible = False, requires_kyc = False, holds_funds = False,
       currencies = [''USDC''], caps_settlement = Seconds 5, atomic_multi_party = False \<rparr>"

definition stellar_new :: "stellar_config \<Rightarrow> 'w stellar_rpc \<Rightarrow> 'w stellar_rail" where
  "stellar_new cfg rpc =
     \<lparr> sr_cfg = cfg, sr_rpc = rpc, sr_signer = None, sr_capabilities = stellar_capabilities \<rparr>"

definition with_signer :: "'w stellar_rail \<Rightarrow> keypair \<Rightarrow> 'w stellar_rail" where
  "with_signer R signer = R\<lparr> sr_signer := Some signer \<rparr>"

definition stellar_from_env ::
    "stellar_lib \<Rightarrow> string option \<Rightarrow> stellar_config \<Rightarrow> 'w stellar_rpc \<Rightarrow> 'w stellar_rail result" where
  "stellar_from_env L var cfg rpc =
     rbind (map_err stellar_to_core (keypair_from_env L var)) (\<lambda>k.
       Ok (case k of Some k \<Rightarrow> with_signer (stellar_new cfg rpc) k | None \<Rightarrow> stellar_new cfg rpc))"

definition usdc_only :: "string \<Rightarrow> unit result" where
  "usdc_only currency =
     (if currency \<noteq> ''USDC'' then
        Err (InvalidRequest (''stellar rail only supports USDC, got '' @ currency))
      else Ok ())"

definition stellar_quote ::
    "('w \<Rightarrow> u64) \<Rightarrow> 'w stellar_rail \<Rightarrow> pay_request \<Rightarrow> 'w \<Rightarrow> quote result \<times> 'w" where
  "stellar_quote now R req w =
     (case rbind (pay_request_validate req) (\<lambda>_. usdc_only (pr_currency req)) of
        Err e \<Rightarrow> (Err e, w)
      | Ok _ \<Rightarrow>
          (Ok \<lparr> q_rail_id = RAIL_ID_STELLAR, q_amount_minor = pr_amount_minor req,
                q_currency = pr_currency req, q_fee_minor = 0, q_total_minor = pr_amount_minor req,
                q_settlement = caps_settlement (sr_capabilities R),
                q_expires_at_unix = saturating_add_u (now w) 60 \<rparr>, w))"

section \<open>Charging\<close>

definition load_next_seq ::
    "'w stellar_rpc \<Rightarrow> string \<Rightarrow> 'w \<Rightarrow> i64 result \<times> 'w" where
  "load_next_seq rpc account w =
     (case rpc_load_sequence rpc account w of
        (Err e, w') \<Rightarrow> (Err (stellar_to_core e), w')
      | (Ok seq, w') \<Rightarrow> (ok_or (Rail ''account sequence number overflow'') (checked_add_i64 seq 1), w'))"

text \<open>Hash, sign and encode: the hash, the signature and the base64 envelope.\<close>

definition sign_and_encode ::
    "stellar_lib \<Rightarrow> network \<Rightarrow> keypair \<Rightarrow> transaction \<Rightarrow> (bytes \<times> bytes \<times> string) result" where
  "sign_and_encode L net signer utx =
     rbind (map_err stellar_to_core (tx_hash L (network_id L (passphrase net)) utx)) (\<lambda>hash.
       let sig = keypair_sign L signer hash;
           env = envelope utx (keypair_pubkey L signer) sig
       in rbind (map_err stellar_to_core (envelope_to_xdr_base64 L env)) (\<lambda>b64. Ok (hash, sig, b64)))"

text \<open>Submit, and insist on a successful transaction with the hash computed here.\<close>

definition submit_checked ::
    "stellar_lib \<Rightarrow> 'w stellar_rpc \<Rightarrow> string \<Rightarrow> string \<Rightarrow> bytes \<Rightarrow> 'w \<Rightarrow> string result \<times> 'w" where
  "submit_checked L rpc failed b64 hash w =
     (case rpc_submit_transaction rpc b64 w of
        (Err e, w') \<Rightarrow> (Err (stellar_to_core e), w')
      | (Ok submitted, w') \<Rightarrow>
          if \<not> su_successful submitted then (Err (Rail failed), w')
          else if su_hash submitted \<noteq> hex_encode L hash then
            (Err (Rail
              (''horizon-reported transaction hash does not match the locally computed hash'')), w')
          else (Ok (su_hash submitted), w'))"

text \<open>What \<open>charge\<close> establishes before it goes to the network: signer, payee, issuer, asset, amount.\<close>

definition charge_guards ::
    "stellar_lib \<Rightarrow> 'w stellar_rail \<Rightarrow> pay_request \<Rightarrow> (keypair \<times> pubkey \<times> pubkey \<times> asset \<times> i64) result" where
  "charge_guards L R req =
     rbind (pay_request_validate req) (\<lambda>_.
     rbind (usdc_only (pr_currency req)) (\<lambda>_.
     rbind (ok_or
         (Rail (''stellar rail holds no signing key; it is verify-only (configure one with '' @
           ''`with_signer`/`from_env` to charge)''))
         (sr_signer R)) (\<lambda>signer.
     rbind (map_err
         (\<lambda>e. InvalidRequest (''destination is not a valid stellar address: '' @ stellar_error_display e))
         (from_strkey L (pr_destination req))) (\<lambda>dest.
     rbind (map_err (\<lambda>e. Rail (''configured usdc_issuer is invalid: '' @ stellar_error_display e))
         (from_strkey L (sc_usdc_issuer (sr_cfg R)))) (\<lambda>issuer.
     rbind (map_err stellar_to_core (usdc_asset ''USDC'' issuer)) (\<lambda>ass.
     rbind (ok_or (InvalidRequest ''amount_minor exceeds Stellar's i64 range'')
         (i64_try_from_u64 (pr_amount_minor req))) (\<lambda>amount.
       Ok (signer, dest, issuer, ass, amount))))))))"

definition stellar_charge ::
    "stellar_lib \<Rightarrow> stellar_json \<Rightarrow> ('w \<Rightarrow> u64) \<Rightarrow> 'w stellar_rail \<Rightarrow> pay_request \<Rightarrow> 'w \<Rightarrow> receipt result \<times> 'w" where
  "stellar_charge L J now R req w =
     (case charge_guards L R req of
        Err e \<Rightarrow> (Err e, w)
      | Ok (signer, dest, issuer, ass, amount) \<Rightarrow>
          let source = keypair_pubkey L signer in
          (case load_next_seq (sr_rpc R) (to_strkey L source) w of
             (Err e, w1) \<Rightarrow> (Err e, w1)
           | (Ok next_seq, w1) \<Rightarrow>
               let mem = memo_hash L RAIL_ID_STELLAR (to_strkey L source) (pr_destination req) (pr_reference req);
                   utx = build_transaction source dest ass amount next_seq
                     (sc_base_fee_stroops (sr_cfg R)) mem in
               (case sign_and_encode L (sc_network (sr_cfg R)) signer utx of
                  Err e \<Rightarrow> (Err e, w1)
                | Ok (hash, sig, b64) \<Rightarrow>
                    (case submit_checked L (sr_rpc R) ''stellar transaction failed on submission'' b64 hash w1 of
                       (Err e, w2) \<Rightarrow> (Err e, w2)
                     | (Ok submitted_hash, w2) \<Rightarrow>
                         let binding =
                           \<lparr> b_chain = ''stellar'',
                             b_network_passphrase = passphrase (sc_network (sr_cfg R)),
                             b_tx_hash = submitted_hash,
                             b_source = to_strkey L source,
                             b_destination = pr_destination req,
                             b_asset_code = ''USDC'',
                             b_asset_issuer = to_strkey L issuer,
                             b_amount_stroops = amount,
                             b_seq_num = next_seq,
                             b_fee = sc_base_fee_stroops (sr_cfg R),
                             b_memo_hash = hex_encode L mem,
                             b_signature = hex_encode L sig \<rparr> in
                         (case map_err (\<lambda>e. Rail (''encode receipt proof: '' @ e)) (binding_to_vec J binding) of
                            Err e \<Rightarrow> (Err e, w2)
                          | Ok proof \<Rightarrow>
                              (Ok \<lparr> r_rail_id = RAIL_ID_STELLAR, r_amount_minor = pr_amount_minor req,
                                    r_currency = pr_currency req, r_reference = pr_reference req,
                                    r_proof = proof, r_settled_at_unix = now w2 \<rparr>, w2))))))"

section \<open>Verifying\<close>

definition sized_array :: "nat \<Rightarrow> bytes \<Rightarrow> bytes option" where
  "sized_array n bs = (if length bs = n then Some bs else None)"

text \<open>
  Steps 1 to 4 of \<open>verify\<close>, which need no network: the binding with the decoded payer, payee, issuer
  and memo, or nothing where the source returns \<open>Ok(false)\<close>.
\<close>

definition verify_offline ::
    "stellar_lib \<Rightarrow> stellar_json \<Rightarrow> 'w stellar_rail \<Rightarrow> receipt \<Rightarrow>
     (stellar_binding \<times> pubkey \<times> pubkey \<times> pubkey \<times> bytes) option" where
  "verify_offline L J R r =
     (if r_rail_id r \<noteq> RAIL_ID_STELLAR then None
      else if r_currency r \<noteq> ''USDC'' then None
      else Option.bind (binding_from_slice J (r_proof r)) (\<lambda>b.
        if b_chain b \<noteq> ''stellar'' then None
        else if b_network_passphrase b \<noteq> passphrase (sc_network (sr_cfg R)) then None
        else Option.bind (strkey_decode L (sc_usdc_issuer (sr_cfg R))) (\<lambda>issuer.
          if b_asset_code b \<noteq> ''USDC'' \<or> b_asset_issuer b \<noteq> to_strkey L issuer then None
          else if b_amount_stroops b \<noteq> r_amount_minor r then None
          else if b_memo_hash b \<noteq>
              hex_encode L (memo_hash L RAIL_ID_STELLAR (b_source b) (b_destination b) (r_reference r)) then None
          else
            Option.bind (strkey_decode L (b_source b)) (\<lambda>source.
            Option.bind (strkey_decode L (b_destination b)) (\<lambda>dest.
            Option.bind (Option.bind (hex_decode L (b_memo_hash b)) (sized_array 32)) (\<lambda>mem.
            Option.bind (Option.bind (hex_decode L (b_signature b)) (sized_array 64)) (\<lambda>sig.
              case usdc_asset (b_asset_code b) issuer of
                Err _ \<Rightarrow> None
              | Ok ass \<Rightarrow>
                  let rebuilt = build_transaction source dest ass (b_amount_stroops b) (b_seq_num b) (b_fee b) mem in
                  (case tx_hash L (network_id L (b_network_passphrase b)) rebuilt of
                     Err _ \<Rightarrow> None
                   | Ok recomputed \<Rightarrow>
                       Option.bind (hex_decode L (b_tx_hash b)) (\<lambda>claimed.
                         if claimed \<noteq> recomputed then None
                         else if \<not> keypair_verify L source recomputed sig then None
                         else Some (b, source, dest, issuer, mem))))))))))"

definition stellar_verify ::
    "stellar_lib \<Rightarrow> stellar_json \<Rightarrow> 'w stellar_rail \<Rightarrow> receipt \<Rightarrow> 'w \<Rightarrow> bool result \<times> 'w" where
  "stellar_verify L J R r w =
     (case verify_offline L J R r of
        None \<Rightarrow> (Ok False, w)
      | Some (b, source, dest, issuer, mem) \<Rightarrow>
          (case rpc_get_transaction (sr_rpc R) (b_tx_hash b) w of
             (Err e, w') \<Rightarrow> (Err (stellar_to_core e), w')
           | (Ok None, w') \<Rightarrow> (Ok False, w')
           | (Ok (Some rec), w') \<Rightarrow>
               if \<not> tr_successful rec then (Ok False, w')
               else (case envelope_from_xdr_base64 L (tr_envelope_xdr rec) of
                 Err _ \<Rightarrow> (Ok False, w')
               | Ok env \<Rightarrow>
                   (case decode_single_payment env of
                      Err _ \<Rightarrow> (Ok False, w')
                    | Ok d \<Rightarrow>
                        (Ok (d1_source d = source \<and> d1_dest d = dest \<and> d1_amount d = b_amount_stroops b \<and>
                             d1_memo d = mem \<and> d1_seq_num d = b_seq_num b \<and> d1_fee d = b_fee b \<and>
                             asset_is (d1_asset d) ''USDC'' issuer), w')))))"

definition stellar_payment_rail ::
    "stellar_lib \<Rightarrow> stellar_json \<Rightarrow> ('w \<Rightarrow> u64) \<Rightarrow> 'w stellar_rail \<Rightarrow> 'w payment_rail" where
  "stellar_payment_rail L J now R =
     \<lparr> rail_id = RAIL_ID_STELLAR,
       capabilities = sr_capabilities R,
       rail_quote = stellar_quote now R,
       rail_charge = stellar_charge L J now R,
       rail_verify = stellar_verify L J R,
       rail_validate_destination = stellar_validate L,
       rail_refund = default_refund,
       rail_verify_webhook = default_verify_webhook \<rparr>"

section \<open>Facts\<close>

lemma stellar_payment_rail_sel [simp]:
  "rail_id (stellar_payment_rail L J now R) = RAIL_ID_STELLAR"
  "capabilities (stellar_payment_rail L J now R) = sr_capabilities R"
  "rail_quote (stellar_payment_rail L J now R) = stellar_quote now R"
  "rail_charge (stellar_payment_rail L J now R) = stellar_charge L J now R"
  "rail_verify (stellar_payment_rail L J now R) = stellar_verify L J R"
  "rail_validate_destination (stellar_payment_rail L J now R) = stellar_validate L"
  "rail_refund (stellar_payment_rail L J now R) = default_refund"
  by (simp_all add: stellar_payment_rail_def)

lemma from_strkey_Ok_iff: "from_strkey L s = Ok pk \<longleftrightarrow> strkey_decode L s = Some pk"
  by (auto simp: from_strkey_def split: option.splits)

lemma usdc_only_Ok_iff: "usdc_only c = Ok () \<longleftrightarrow> c = ''USDC''"
  by (simp add: usdc_only_def)

text \<open>The asset the rail pays in: the code padded to four bytes, and the issuer.\<close>

definition usdc :: "bytes \<Rightarrow> asset" where
  "usdc issuer = CreditAlphanum4 (as_bytes ''USDC'') issuer"

lemma usdc_asset_eq: "usdc_asset ''USDC'' issuer = Ok (usdc issuer)"
  by (simp add: usdc_asset_def asset_code4_def usdc_def xdr_pubkey_def is_ascii_alphanumeric_def
      is_ascii_alpha_def is_ascii_upper_def)

lemma asset_is_usdc: "asset_is a ''USDC'' issuer \<longleftrightarrow> a = usdc issuer"
  by (auto simp: asset_is_def asset_code4_def usdc_def xdr_pubkey_def is_ascii_alphanumeric_def
      is_ascii_alpha_def is_ascii_upper_def split: asset.splits)

lemma charge_guards_Ok_iff:
  "charge_guards L R req = Ok (signer, dest, issuer, ass, amount) \<longleftrightarrow>
     well_formed_request req \<and> pr_currency req = ''USDC'' \<and> sr_signer R = Some signer \<and>
     strkey_decode L (pr_destination req) = Some dest \<and>
     strkey_decode L (sc_usdc_issuer (sr_cfg R)) = Some issuer \<and>
     ass = usdc issuer \<and> amount = pr_amount_minor req \<and> unat (pr_amount_minor req) < 2 ^ 63"
  by (auto simp: charge_guards_def validate_Ok_iff usdc_only_Ok_iff from_strkey_Ok_iff usdc_asset_eq
      i64_try_from_u64_def split: if_splits)

lemma charge_guards_invalid:
  "pay_request_validate req = Err e \<Longrightarrow> charge_guards L R req = Err e"
  by (simp add: charge_guards_def)

lemma sign_and_encode_Ok_iff:
  "sign_and_encode L net signer tx = Ok (hash, sig, b64) \<longleftrightarrow>
     tx_hash L (network_id L (passphrase net)) tx = Ok hash \<and> sig = ed_sign L signer hash \<and>
     xdr_encode_envelope L (envelope tx (ed_pubkey L signer) sig) = Ok b64"
  by (auto simp: sign_and_encode_def Let_def keypair_sign_def keypair_pubkey_def envelope_to_xdr_base64_def)

lemma submit_checked_Ok_iff:
  "submit_checked L rpc failed b64 hash w = (Ok h, w') \<longleftrightarrow>
     (\<exists>s. rpc_submit_transaction rpc b64 w = (Ok s, w') \<and> su_successful s \<and> su_hash s = h \<and>
       h = hex_encode L hash)"
  by (auto simp: submit_checked_def split: prod.splits sum.splits if_splits)

text \<open>The binding a charge issues.\<close>

definition charge_binding ::
    "stellar_lib \<Rightarrow> 'w stellar_rail \<Rightarrow> pay_request \<Rightarrow> keypair \<Rightarrow> pubkey \<Rightarrow> i64 \<Rightarrow> string \<Rightarrow> bytes \<Rightarrow> stellar_binding" where
  "charge_binding L R req signer issuer seq h sig =
     \<lparr> b_chain = ''stellar'', b_network_passphrase = passphrase (sc_network (sr_cfg R)),
       b_tx_hash = h, b_source = strkey_encode L (ed_pubkey L signer),
       b_destination = pr_destination req, b_asset_code = ''USDC'',
       b_asset_issuer = strkey_encode L issuer, b_amount_stroops = pr_amount_minor req, b_seq_num = seq,
       b_fee = sc_base_fee_stroops (sr_cfg R),
       b_memo_hash = hex_encode L (memo_hash L RAIL_ID_STELLAR (strkey_encode L (ed_pubkey L signer))
         (pr_destination req) (pr_reference req)),
       b_signature = hex_encode L sig \<rparr>"

lemma stellar_charge_Ok:
  assumes "stellar_charge L J now R req w = (Ok r, w')"
  obtains signer dest issuer seq w1 hash sig b64 s where
    "charge_guards L R req = Ok (signer, dest, issuer, usdc issuer, pr_amount_minor req)"
    "load_next_seq (sr_rpc R) (strkey_encode L (ed_pubkey L signer)) w = (Ok seq, w1)"
    "sign_and_encode L (sc_network (sr_cfg R)) signer
       (build_transaction (ed_pubkey L signer) dest (usdc issuer) (pr_amount_minor req) seq
         (sc_base_fee_stroops (sr_cfg R))
         (memo_hash L RAIL_ID_STELLAR (strkey_encode L (ed_pubkey L signer)) (pr_destination req)
           (pr_reference req))) = Ok (hash, sig, b64)"
    "rpc_submit_transaction (sr_rpc R) b64 w1 = (Ok s, w')" "su_successful s"
    "su_hash s = hex_encode L hash"
    "binding_to_vec J (charge_binding L R req signer issuer seq (su_hash s) sig) = Ok (r_proof r)"
    "r_rail_id r = RAIL_ID_STELLAR" "r_amount_minor r = pr_amount_minor req"
    "r_currency r = pr_currency req" "r_reference r = pr_reference req"
proof -
  obtain signer dest issuer ass amount where g:
      "charge_guards L R req = Ok (signer, dest, issuer, ass, amount)"
    using assms by (cases "charge_guards L R req") (auto simp: stellar_charge_def)
  then have am: "ass = usdc issuer" "amount = pr_amount_minor req" by (simp_all add: charge_guards_Ok_iff)
  let ?src = "ed_pubkey L signer"
  obtain seq w1 where l: "load_next_seq (sr_rpc R) (strkey_encode L ?src) w = (Ok seq, w1)"
    using assms g
    by (cases "load_next_seq (sr_rpc R) (strkey_encode L ?src) w"; cases "fst (load_next_seq (sr_rpc R) (strkey_encode L ?src) w)")
      (auto simp: stellar_charge_def to_strkey_def keypair_pubkey_def)
  let ?tx = "build_transaction ?src dest (usdc issuer) (pr_amount_minor req) seq
      (sc_base_fee_stroops (sr_cfg R))
      (memo_hash L RAIL_ID_STELLAR (strkey_encode L ?src) (pr_destination req) (pr_reference req))"
  obtain hash sig b64 where se: "sign_and_encode L (sc_network (sr_cfg R)) signer ?tx = Ok (hash, sig, b64)"
    using assms g l am
    by (cases "sign_and_encode L (sc_network (sr_cfg R)) signer ?tx")
      (auto simp: stellar_charge_def to_strkey_def keypair_pubkey_def Let_def)
  let ?sub = "submit_checked L (sr_rpc R) ''stellar transaction failed on submission'' b64 hash w1"
  obtain h where sc: "?sub = (Ok h, w')" and b:
      "map_err (\<lambda>e. Rail (''encode receipt proof: '' @ e))
         (binding_to_vec J (charge_binding L R req signer issuer seq h sig)) = Ok (r_proof r)"
    and r: "r_rail_id r = RAIL_ID_STELLAR" "r_amount_minor r = pr_amount_minor req"
      "r_currency r = pr_currency req" "r_reference r = pr_reference req"
    using assms g l se am
    by (cases ?sub; cases "fst ?sub")
      (auto simp: stellar_charge_def to_strkey_def keypair_pubkey_def Let_def charge_binding_def split: sum.splits)
  from sc obtain s where "rpc_submit_transaction (sr_rpc R) b64 w1 = (Ok s, w')" "su_successful s"
      "su_hash s = h" "h = hex_encode L hash"
    by (auto simp: submit_checked_Ok_iff)
  with that g l se b r am show ?thesis by simp
qed

lemma load_next_seq_Ok_iff:
  "load_next_seq rpc a w = (Ok n, w') \<longleftrightarrow>
     (\<exists>s. rpc_load_sequence rpc a w = (Ok s, w') \<and> checked_add_i64 s 1 = Some n)"
  by (auto simp: load_next_seq_def split: prod.splits sum.splits)

lemma sized_array_Some_iff [simp]: "sized_array n bs = Some x \<longleftrightarrow> x = bs \<and> length bs = n"
  by (auto simp: sized_array_def)

text \<open>The transaction a binding claims, and everything the offline steps establish about it.\<close>

definition binding_tx :: "stellar_binding \<Rightarrow> pubkey \<Rightarrow> pubkey \<Rightarrow> pubkey \<Rightarrow> bytes \<Rightarrow> transaction" where
  "binding_tx b source dest issuer mem =
     build_transaction source dest (usdc issuer) (b_amount_stroops b) (b_seq_num b) (b_fee b) mem"

lemma verify_offline_Some_iff:
  "verify_offline L J R r = Some (b, source, dest, issuer, mem) \<longleftrightarrow>
     r_rail_id r = RAIL_ID_STELLAR \<and> r_currency r = ''USDC'' \<and>
     binding_from_slice J (r_proof r) = Some b \<and> b_chain b = ''stellar'' \<and>
     b_network_passphrase b = passphrase (sc_network (sr_cfg R)) \<and>
     strkey_decode L (sc_usdc_issuer (sr_cfg R)) = Some issuer \<and>
     b_asset_code b = ''USDC'' \<and> b_asset_issuer b = strkey_encode L issuer \<and>
     b_amount_stroops b = r_amount_minor r \<and>
     b_memo_hash b = hex_encode L (memo_hash L RAIL_ID_STELLAR (b_source b) (b_destination b) (r_reference r)) \<and>
     strkey_decode L (b_source b) = Some source \<and> strkey_decode L (b_destination b) = Some dest \<and>
     hex_decode L (b_memo_hash b) = Some mem \<and> length mem = 32 \<and>
     (\<exists>sig hash. hex_decode L (b_signature b) = Some sig \<and> length sig = 64 \<and>
       tx_hash L (network_id L (b_network_passphrase b)) (binding_tx b source dest issuer mem) = Ok hash \<and>
       hex_decode L (b_tx_hash b) = Some hash \<and> ed_point L source \<and> ed_verify L source hash sig)"
  (is "?lhs \<longleftrightarrow> ?rhs")
proof
  assume ?lhs
  then show ?rhs
    by (auto simp: verify_offline_def Option.bind_eq_Some_conv usdc_asset_eq to_strkey_def binding_tx_def
        keypair_verify_def Let_def split: if_splits sum.splits)
next
  assume ?rhs
  then show ?lhs
    by (auto simp: verify_offline_def Option.bind_eq_Some_conv usdc_asset_eq to_strkey_def binding_tx_def
        keypair_verify_def Let_def)
qed

definition hex_laws :: "stellar_lib \<Rightarrow> bool" where
  "hex_laws L \<longleftrightarrow> (\<forall>bs. hex_decode L (hex_encode L bs) = Some bs)"

lemma verify_offline_memo:
  assumes "verify_offline L J R r = Some (b, source, dest, issuer, mem)" "hex_laws L"
  shows "mem = memo_hash L RAIL_ID_STELLAR (b_source b) (b_destination b) (r_reference r)"
proof -
  have "b_memo_hash b = hex_encode L (memo_hash L RAIL_ID_STELLAR (b_source b) (b_destination b) (r_reference r))"
    "hex_decode L (b_memo_hash b) = Some mem"
    using iffD1 [OF verify_offline_Some_iff assms(1)] by blast+
  with assms(2) show ?thesis by (simp add: hex_laws_def)
qed

lemma build_transaction_eq:
  "build_transaction s d a amt seq fee mem =
     payment_tx s [\<lparr> pl_dest = d, pl_asset = a, pl_amount = amt \<rparr>] seq fee mem NoPreconditions"
  by (simp add: build_transaction_def build_transaction_with_preconditions_eq payment_tx_def)

text \<open>Horizon's answer for a hash: a successful transaction whose envelope decodes to \<open>env\<close>.\<close>

definition horizon_shows ::
    "stellar_lib \<Rightarrow> 'w stellar_rpc \<Rightarrow> string \<Rightarrow> 'w \<Rightarrow> tx_envelope \<Rightarrow> 'w \<Rightarrow> bool" where
  "horizon_shows L rpc h w env w' \<longleftrightarrow>
     (\<exists>rec. rpc_get_transaction rpc h w = (Ok (Some rec), w') \<and> tr_successful rec \<and>
       xdr_decode_envelope L (tr_envelope_xdr rec) = Ok env)"

text \<open>The single payment with whatever preconditions and signatures, which the decoder leaves open.\<close>

definition pays_once :: "tx_envelope \<Rightarrow> pubkey \<Rightarrow> pubkey \<Rightarrow> asset \<Rightarrow> i64 \<Rightarrow> i64 \<Rightarrow> u32 \<Rightarrow> bytes \<Rightarrow> bool" where
  "pays_once env source dest ass amount seq fee mem \<longleftrightarrow>
     0 < sint amount \<and>
     (\<exists>cond sigs. env = TxV1
        \<lparr> tx_source = Ed25519 source, tx_fee = fee, tx_seq_num = seq, tx_cond = cond, tx_memo = MemoHash mem,
          tx_operations = [\<lparr> op_source = None, op_body = Payment (Ed25519 dest) ass amount \<rparr>] \<rparr> sigs)"

lemma decode_single_pays_once:
  "decode_single_payment env = Ok d \<longleftrightarrow>
     pays_once env (d1_source d) (d1_dest d) (d1_asset d) (d1_amount d) (d1_seq_num d) (d1_fee d) (d1_memo d)"
  by (simp add: decode_single_payment_Ok_iff pays_once_def build_transaction_with_preconditions_eq
      payment_op_def muxed_def)

lemma pays_once_decodes:
  "pays_once env source dest ass amount seq fee mem \<longleftrightarrow>
     decode_single_payment env = Ok \<lparr> d1_source = source, d1_seq_num = seq, d1_fee = fee, d1_dest = dest,
       d1_asset = ass, d1_amount = amount, d1_memo = mem \<rparr>"
  by (simp add: decode_single_pays_once)

lemma stellar_verify_True_iff:
  "stellar_verify L J R r w = (Ok True, w') \<longleftrightarrow>
     (\<exists>b source dest issuer mem env. verify_offline L J R r = Some (b, source, dest, issuer, mem) \<and>
       horizon_shows L (sr_rpc R) (b_tx_hash b) w env w' \<and>
       pays_once env source dest (usdc issuer) (b_amount_stroops b) (b_seq_num b) (b_fee b) mem)"
  (is "?lhs \<longleftrightarrow> ?rhs")
proof
  assume lhs: ?lhs
  then obtain b source dest issuer mem where
      off: "verify_offline L J R r = Some (b, source, dest, issuer, mem)"
    by (cases "verify_offline L J R r") (auto simp: stellar_verify_def)
  with lhs obtain rec where rec: "rpc_get_transaction (sr_rpc R) (b_tx_hash b) w = (Ok (Some rec), w')"
      "tr_successful rec"
    by (auto simp: stellar_verify_def split: prod.splits sum.splits option.splits if_splits)
  with lhs off obtain env d where env: "xdr_decode_envelope L (tr_envelope_xdr rec) = Ok env"
      "decode_single_payment env = Ok d"
      "d1_source d = source \<and> d1_dest d = dest \<and> d1_amount d = b_amount_stroops b \<and>
       d1_memo d = mem \<and> d1_seq_num d = b_seq_num b \<and> d1_fee d = b_fee b \<and> d1_asset d = usdc issuer"
    by (auto simp: stellar_verify_def envelope_from_xdr_base64_def asset_is_usdc split: sum.splits)
  with off rec show ?rhs
    by (intro exI [of _ b] exI [of _ source] exI [of _ dest] exI [of _ issuer] exI [of _ mem] exI [of _ env])
      (auto simp: horizon_shows_def decode_single_pays_once)
next
  assume ?rhs
  then obtain b source dest issuer mem env where
      "verify_offline L J R r = Some (b, source, dest, issuer, mem)"
      "horizon_shows L (sr_rpc R) (b_tx_hash b) w env w'"
      "pays_once env source dest (usdc issuer) (b_amount_stroops b) (b_seq_num b) (b_fee b) mem"
    by blast
  then show ?lhs
    by (auto simp: stellar_verify_def horizon_shows_def pays_once_decodes envelope_from_xdr_base64_def
        asset_is_usdc)
qed

text \<open>The time a receipt claims is not part of what is verified.\<close>

lemma stellar_verify_ignores_time:
  "stellar_verify L J R (r\<lparr> r_settled_at_unix := t \<rparr>) w = stellar_verify L J R r w"
  by (cases r) (simp only: stellar_verify_def verify_offline_def receipt.update_convs receipt.select_convs)

text \<open>The rail meets the contract of the trait, whatever the network does.\<close>

interpretation stellar: final_rail "stellar_payment_rail L J now R" "\<lambda>_. True"
  for L J and now :: "'w \<Rightarrow> u64" and R
proof unfold_locales
  fix req :: pay_request and e and w w' :: 'w and r q
  show "rail_quote (stellar_payment_rail L J now R) req w = (Err e, w)" if "pay_request_validate req = Err e"
    using that by (simp add: stellar_quote_def)
  show "rail_charge (stellar_payment_rail L J now R) req w = (Err e, w)" if "pay_request_validate req = Err e"
    using that by (simp add: stellar_charge_def charge_guards_invalid)
  show "r_rail_id r = rail_id (stellar_payment_rail L J now R)" "r_reference r = pr_reference req"
    if "rail_charge (stellar_payment_rail L J now R) req w = (Ok r, w')"
    using that by (auto elim!: stellar_charge_Ok)
  show "q_rail_id q = rail_id (stellar_payment_rail L J now R) \<and> q_amount_minor q = pr_amount_minor req"
    "q_currency q = pr_currency req"
    if "rail_quote (stellar_payment_rail L J now R) req w = (Ok q, w')"
    using that by (auto simp: stellar_quote_def split: sum.splits)
  show "rail_verify (stellar_payment_rail L J now R) r w = (Ok False, w)"
    if "r_rail_id r \<noteq> rail_id (stellar_payment_rail L J now R)"
    using that by (simp add: stellar_verify_def verify_offline_def)
qed (simp_all add: stellar_validate_honest stellar_validate_blank default_refund_def)

section \<open>What the libraries and Horizon are relied on for\<close>

definition key_laws :: "stellar_lib \<Rightarrow> bool" where
  "key_laws L \<longleftrightarrow>
     (\<forall>k. strkey_decode L (strkey_encode L (ed_pubkey L k)) = Some (ed_pubkey L k) \<and> ed_point L (ed_pubkey L k)) \<and>
     (\<forall>k msg. length (ed_sign L k msg) = 64 \<and> ed_verify L (ed_pubkey L k) msg (ed_sign L k msg)) \<and>
     (\<forall>x. length (sha256 L x) = 32)"

definition codec_laws :: "stellar_lib \<Rightarrow> stellar_json \<Rightarrow> bool" where
  "codec_laws L J \<longleftrightarrow>
     (\<forall>env s. xdr_encode_envelope L env = Ok s \<longrightarrow> xdr_decode_envelope L s = Ok env) \<and>
     (\<forall>b v. binding_to_vec J b = Ok v \<longrightarrow> binding_from_slice J v = Some b) \<and>
     (\<forall>b v. split_to_vec J b = Ok v \<longrightarrow> split_from_slice J v = Some b)"

text \<open>A transaction Horizon accepted is on record under its hash, as it was submitted.\<close>

definition horizon_keeps :: "'w stellar_rpc \<Rightarrow> bool" where
  "horizon_keeps rpc \<longleftrightarrow>
     (\<forall>b64 w s w'. rpc_submit_transaction rpc b64 w = (Ok s, w') \<longrightarrow> su_successful s \<longrightarrow>
       (\<exists>rec w''. rpc_get_transaction rpc (su_hash s) w' = (Ok (Some rec), w'') \<and>
          tr_successful rec \<and> tr_envelope_xdr rec = b64))"

lemma charge_offline:
  assumes "hex_laws L" "key_laws L" "codec_laws L J"
    and g: "charge_guards L R req = Ok (signer, dest, issuer, usdc issuer, pr_amount_minor req)"
    and se: "sign_and_encode L (sc_network (sr_cfg R)) signer
       (build_transaction (ed_pubkey L signer) dest (usdc issuer) (pr_amount_minor req) seq
         (sc_base_fee_stroops (sr_cfg R)) mem) = Ok (hash, sig, b64)"
    and mem: "mem = memo_hash L RAIL_ID_STELLAR (strkey_encode L (ed_pubkey L signer)) (pr_destination req)
           (pr_reference req)"
    and b: "binding_to_vec J (charge_binding L R req signer issuer seq (hex_encode L hash) sig) = Ok (r_proof r)"
    and r: "r_rail_id r = RAIL_ID_STELLAR" "r_amount_minor r = pr_amount_minor req"
      "r_currency r = pr_currency req" "r_reference r = pr_reference req"
  shows "verify_offline L J R r = Some (charge_binding L R req signer issuer seq (hex_encode L hash) sig,
    ed_pubkey L signer, dest, issuer, mem)"
proof -
  let ?b = "charge_binding L R req signer issuer seq (hex_encode L hash) sig"
  have dec: "binding_from_slice J (r_proof r) = Some ?b" using b assms(3) by (simp add: codec_laws_def)
  have key: "strkey_decode L (strkey_encode L (ed_pubkey L signer)) = Some (ed_pubkey L signer)"
      "ed_point L (ed_pubkey L signer)" "\<And>m. length (ed_sign L signer m) = 64"
      "\<And>m. ed_verify L (ed_pubkey L signer) m (ed_sign L signer m)" "\<And>x. length (sha256 L x) = 32"
    using assms(2) by (simp_all add: key_laws_def)
  have hex: "\<And>bs. hex_decode L (hex_encode L bs) = Some bs" using assms(1) by (simp add: hex_laws_def)
  show ?thesis
    unfolding verify_offline_Some_iff
    using dec key hex g se r
    by (simp add: charge_guards_Ok_iff sign_and_encode_Ok_iff charge_binding_def binding_tx_def mem memo_hash_def)
qed

lemma charge_then_verify:
  assumes "hex_laws L" "key_laws L" "codec_laws L J" "horizon_keeps (sr_rpc R)"
    and "stellar_charge L J now R req w = (Ok r, w')"
  shows "\<exists>w''. stellar_verify L J R r w' = (Ok True, w'')"
  using assms(5)
proof (rule stellar_charge_Ok)
  fix signer dest issuer seq w1 hash sig b64 s
  let ?src = "ed_pubkey L signer"
  let ?mem = "memo_hash L RAIL_ID_STELLAR (strkey_encode L ?src) (pr_destination req) (pr_reference req)"
  let ?b = "charge_binding L R req signer issuer seq (hex_encode L hash) sig"
  let ?tx = "build_transaction ?src dest (usdc issuer) (pr_amount_minor req) seq (sc_base_fee_stroops (sr_cfg R)) ?mem"
  assume g: "charge_guards L R req = Ok (signer, dest, issuer, usdc issuer, pr_amount_minor req)"
    and se: "sign_and_encode L (sc_network (sr_cfg R)) signer ?tx = Ok (hash, sig, b64)"
    and sub: "rpc_submit_transaction (sr_rpc R) b64 w1 = (Ok s, w')" "su_successful s"
      "su_hash s = hex_encode L hash"
    and enc: "binding_to_vec J (charge_binding L R req signer issuer seq (su_hash s) sig) = Ok (r_proof r)"
    and r: "r_rail_id r = RAIL_ID_STELLAR" "r_amount_minor r = pr_amount_minor req"
      "r_currency r = pr_currency req" "r_reference r = pr_reference req"
  from enc sub(3) have off: "verify_offline L J R r = Some (?b, ?src, dest, issuer, ?mem)"
    by (intro charge_offline [OF assms(1-3) g se refl _ r]) simp
  obtain rec w'' where rec: "rpc_get_transaction (sr_rpc R) (su_hash s) w' = (Ok (Some rec), w'')"
      "tr_successful rec" "tr_envelope_xdr rec = b64"
    using assms(4) sub(1,2) unfolding horizon_keeps_def by blast
  have "xdr_encode_envelope L (envelope ?tx ?src sig) = Ok b64"
    using iffD1 [OF sign_and_encode_Ok_iff se] by blast
  then have env: "xdr_decode_envelope L b64 = Ok (envelope ?tx ?src sig)"
    using assms(3) unfolding codec_laws_def by blast
  have "well_formed_request req" "unat (pr_amount_minor req) < 2 ^ 63"
    using g by (auto simp only: charge_guards_Ok_iff)
  then have "0 < sint (pr_amount_minor req)"
    using well_formed_pos [of req] sint_of_small [of "pr_amount_minor req"] by linarith
  then have "pays_once (envelope ?tx ?src sig) ?src dest (usdc issuer) (b_amount_stroops ?b) (b_seq_num ?b) (b_fee ?b) ?mem"
    by (simp add: pays_once_def envelope_def build_transaction_eq payment_tx_def payment_op_def muxed_def
        charge_binding_def)
  moreover have "horizon_shows L (sr_rpc R) (b_tx_hash ?b) w' (envelope ?tx ?src sig) w''"
    using rec env sub(3) by (simp add: horizon_shows_def charge_binding_def)
  ultimately show ?thesis
    unfolding stellar_verify_True_iff using off by blast
qed

section \<open>A concrete Horizon and concrete libraries\<close>

text \<open>
  For the examples: hex and StrKey as the bytes themselves, a toy digest and signature, and codecs
  that know the one envelope and the one proof of the example. Horizon's world is the last envelope
  it took.
\<close>

definition fill :: "nat \<Rightarrow> bytes \<Rightarrow> bytes" where "fill n bs = take n (bs @ replicate n 0)"

definition char_bytes :: "bytes \<Rightarrow> string" where "char_bytes bs = map (\<lambda>b. char_of (unat b)) bs"

definition toy_strkey :: "bytes \<Rightarrow> string" where "toy_strkey pk = CHR ''G'' # char_bytes pk"

definition toy_strkey_decode :: "string \<Rightarrow> bytes option" where
  "toy_strkey_decode s = (case s of c # t \<Rightarrow> if c = CHR ''G'' then Some (as_bytes t) else None | [] \<Rightarrow> None)"

definition toy_lib :: "tx_envelope option \<Rightarrow> stellar_lib" where
  "toy_lib known =
     \<lparr> sha256 = fill 32, hex_encode = char_bytes, hex_decode = (\<lambda>s. Some (as_bytes s)),
       strkey_encode = toy_strkey, strkey_decode = toy_strkey_decode, seed_decode = (\<lambda>_. None),
       strkey_parse = (\<lambda>_. None), ed_point = (\<lambda>_. True),
       xdr_signature_payload = (\<lambda>net tx. Ok [1, 2, 3]),
       xdr_encode_envelope = (\<lambda>env. if known = Some env then Ok ''AAAA'' else Err ''unknown''),
       xdr_decode_envelope = (\<lambda>s. case known of Some env \<Rightarrow> if s = ''AAAA'' then Ok env else Err ''unknown''
          | None \<Rightarrow> Err ''unknown''),
       ed_pubkey = fill 32, ed_sign = (\<lambda>k m. fill 64 (fill 32 k @ m)),
       ed_verify = (\<lambda>pk m s. s = fill 64 (pk @ m)) \<rparr>"

definition toy_json :: "stellar_binding option \<Rightarrow> stellar_split_binding option \<Rightarrow> stellar_json" where
  "toy_json known split =
     \<lparr> binding_to_vec = (\<lambda>b. if known = Some b then Ok [1] else Err ''unknown''),
       binding_from_slice = (\<lambda>v. if v = [1] then known else None),
       split_to_vec = (\<lambda>b. if split = Some b then Ok [2] else Err ''unknown''),
       split_from_slice = (\<lambda>v. if v = [2] then split else None) \<rparr>"

lemma byte_of_char_of: "byte_of (char_of (unat (b :: u8))) = b"
proof -
  have "unat b < 256" using unsigned_less [of b, where ?'a = nat] by simp
  then show ?thesis by (simp add: byte_of_def)
qed

lemma as_bytes_char_bytes [simp]: "as_bytes (char_bytes bs) = bs"
  by (induction bs) (simp_all add: as_bytes_def char_bytes_def byte_of_char_of)

lemma length_fill [simp]: "length (fill n bs) = n"
  by (simp add: fill_def)

lemma toy_laws:
  "hex_laws (toy_lib env)" "key_laws (toy_lib env)" "codec_laws (toy_lib env) (toy_json b s)"
  by (auto simp: hex_laws_def key_laws_def codec_laws_def toy_lib_def toy_json_def toy_strkey_def
      toy_strkey_decode_def split: if_splits)

definition toy_horizon :: "string \<Rightarrow> string stellar_rpc" where
  "toy_horizon h =
     \<lparr> rpc_load_sequence = (\<lambda>_ w. (Ok 41, w)), rpc_load_account_holdings = (\<lambda>_ w. (Ok None, w)),
       rpc_submit_transaction = (\<lambda>b64 w. (Ok \<lparr> su_hash = h, su_ledger = 7, su_successful = True \<rparr>, b64)),
       rpc_get_transaction = (\<lambda>h' w. if h' = h
          then (Ok (Some \<lparr> tr_successful = True, tr_ledger = 7, tr_envelope_xdr = w \<rparr>), w) else (Ok None, w)) \<rparr>"

lemma toy_horizon_keeps: "horizon_keeps (toy_horizon h)"
  by (auto simp: horizon_keeps_def toy_horizon_def)

definition toy_rail :: "string stellar_rail" where
  "toy_rail = with_signer
     (stellar_new (config_testnet (toy_strkey (fill 32 [5]))) (toy_horizon (char_bytes (fill 32 [1, 2, 3]))))
     (fill 32 [9])"

definition toy_request :: pay_request where
  "toy_request = \<lparr> pr_amount_minor = 500, pr_currency = ''USDC'', pr_destination = toy_strkey (fill 32 [8]),
     pr_reference = ''INV-1'' \<rparr>"

definition toy_memo :: bytes where
  "toy_memo = memo_hash (toy_lib None) ''stellar'' (toy_strkey (fill 32 [9])) (toy_strkey (fill 32 [8])) ''INV-1''"

definition toy_envelope :: tx_envelope where
  "toy_envelope = envelope
     (build_transaction (fill 32 [9]) (fill 32 [8]) (usdc (fill 32 [5])) 500 42 100 toy_memo)
     (fill 32 [9]) (fill 64 (fill 32 [9] @ fill 32 [1, 2, 3]))"

definition toy_binding :: stellar_binding where
  "toy_binding = charge_binding (toy_lib None) toy_rail toy_request (fill 32 [9]) (fill 32 [5]) 42
     (char_bytes (fill 32 [1, 2, 3])) (fill 64 (fill 32 [9] @ fill 32 [1, 2, 3]))"

definition toy_receipt :: receipt where
  "toy_receipt = \<lparr> r_rail_id = ''stellar'', r_amount_minor = 500, r_currency = ''USDC'', r_reference = ''INV-1'',
     r_proof = [1], r_settled_at_unix = 1700000000 \<rparr>"

lemma fill_fill [simp]: "fill n (fill n bs) = fill n bs"
  by (simp add: fill_def)

lemma toy_strkey_round [simp]: "toy_strkey_decode (toy_strkey pk) = Some pk"
  by (simp add: toy_strkey_def toy_strkey_decode_def)

lemma toy_request_ok: "well_formed_request toy_request"
  by (simp add: well_formed_request_def toy_request_def toy_strkey_def not_blank_Cons graphic_def)

lemma toy_rail_sel [simp]:
  "sr_cfg toy_rail = config_testnet (toy_strkey (fill 32 [5]))"
  "sr_rpc toy_rail = toy_horizon (char_bytes (fill 32 [1, 2, 3]))" "sr_signer toy_rail = Some (fill 32 [9])"
  by (simp_all add: toy_rail_def with_signer_def stellar_new_def)

lemma toy_memo_eq:
  "memo_hash (toy_lib env) RAIL_ID_STELLAR (to_strkey (toy_lib env) (keypair_pubkey (toy_lib env) (fill 32 [9])))
     (pr_destination toy_request) (pr_reference toy_request) = toy_memo"
  by (simp add: memo_hash_def toy_memo_def toy_lib_def RAIL_ID_STELLAR_def toy_request_def to_strkey_def
      keypair_pubkey_def)

lemma toy_sign:
  "sign_and_encode (toy_lib (Some toy_envelope)) Testnet (fill 32 [9])
     (build_transaction (keypair_pubkey (toy_lib (Some toy_envelope)) (fill 32 [9])) (fill 32 [8])
       (usdc (fill 32 [5])) 500 42 100 toy_memo)
   = Ok (fill 32 [1, 2, 3], fill 64 (fill 32 [9] @ fill 32 [1, 2, 3]), ''AAAA'')"
  by (simp add: sign_and_encode_Ok_iff tx_hash_def signing_payload_def keypair_pubkey_def)
    (simp add: toy_lib_def toy_envelope_def)

lemma toy_submit:
  "submit_checked (toy_lib env) (toy_horizon (char_bytes (fill 32 [1, 2, 3]))) failed b64 (fill 32 [1, 2, 3]) w
   = (Ok (char_bytes (fill 32 [1, 2, 3])), b64)"
  by (simp add: submit_checked_def toy_horizon_def) (simp add: toy_lib_def)

lemma toy_charge:
  "stellar_charge (toy_lib (Some toy_envelope)) (toy_json (Some toy_binding) s) (\<lambda>_. 1700000000) toy_rail toy_request []
     = (Ok toy_receipt, ''AAAA'')"
proof -
  let ?L = "toy_lib (Some toy_envelope)"
  have g: "charge_guards ?L toy_rail toy_request =
      Ok (fill 32 [9], fill 32 [8], fill 32 [5], usdc (fill 32 [5]), 500)"
    unfolding charge_guards_Ok_iff using toy_request_ok
    by (simp add: toy_request_def config_testnet_def) (simp add: toy_lib_def)
  have l: "load_next_seq (toy_horizon (char_bytes (fill 32 [1, 2, 3]))) a w = (Ok 42, w)" for a w
    by (simp add: load_next_seq_Ok_iff toy_horizon_def checked_add_i64_def)
  have cfg: "sc_network (sr_cfg toy_rail) = Testnet" "sc_base_fee_stroops (sr_cfg toy_rail) = 100"
    by (simp_all add: config_testnet_def)
  have b: "toy_binding =
      \<lparr> b_chain = ''stellar'', b_network_passphrase = passphrase Testnet,
        b_tx_hash = char_bytes (fill 32 [1, 2, 3]),
        b_source = to_strkey ?L (keypair_pubkey ?L (fill 32 [9])),
        b_destination = pr_destination toy_request, b_asset_code = ''USDC'',
        b_asset_issuer = to_strkey ?L (fill 32 [5]), b_amount_stroops = 500, b_seq_num = 42, b_fee = 100,
        b_memo_hash = hex_encode ?L toy_memo,
        b_signature = hex_encode ?L (fill 64 (fill 32 [9] @ fill 32 [1, 2, 3])) \<rparr>"
    by (simp add: toy_binding_def charge_binding_def config_testnet_def toy_request_def to_strkey_def
        keypair_pubkey_def) (simp add: toy_lib_def memo_hash_def toy_memo_def RAIL_ID_STELLAR_def)
  have j: "binding_to_vec (toy_json (Some toy_binding) s) toy_binding = Ok [1]" by (simp add: toy_json_def)
  show ?thesis
    unfolding stellar_charge_def g cfg toy_memo_eq prod.case sum.case Let_def toy_rail_sel(2) l toy_sign
      toy_submit b [symmetric] j
    by (simp add: toy_receipt_def RAIL_ID_STELLAR_def toy_request_def)
qed

section \<open>Properties\<close>

text \<open>
  C3: a receipt that verifies is a payment on the ledger. Horizon reports a successful transaction
  under the proof's hash whose envelope, decoded, is one payment of exactly the receipt's amount in
  this rail's USDC to the account the proof names, carrying the memo that binds that payee and the
  receipt's reference; and the payer signed that very transaction for this rail's network.
\<close>

theorem stellar_verify_sound:
  assumes "stellar_verify L J R r w = (Ok True, w')" "hex_laws L"
  shows "\<exists>b source dest issuer env sig hash.
    r_rail_id r = ''stellar'' \<and> r_currency r = ''USDC'' \<and> binding_from_slice J (r_proof r) = Some b \<and>
    strkey_decode L (b_source b) = Some source \<and> strkey_decode L (b_destination b) = Some dest \<and>
    strkey_decode L (sc_usdc_issuer (sr_cfg R)) = Some issuer \<and>
    horizon_shows L (sr_rpc R) (b_tx_hash b) w env w' \<and>
    pays_once env source dest (usdc issuer) (r_amount_minor r) (b_seq_num b) (b_fee b)
      (memo_hash L ''stellar'' (b_source b) (b_destination b) (r_reference r)) \<and>
    tx_hash L (network_id L (passphrase (sc_network (sr_cfg R))))
      (build_transaction source dest (usdc issuer) (r_amount_minor r) (b_seq_num b) (b_fee b)
        (memo_hash L ''stellar'' (b_source b) (b_destination b) (r_reference r))) = Ok hash \<and>
    hex_decode L (b_tx_hash b) = Some hash \<and> ed_verify L source hash sig"
proof -
  obtain b source dest issuer mem env where
      off: "verify_offline L J R r = Some (b, source, dest, issuer, mem)"
    and h: "horizon_shows L (sr_rpc R) (b_tx_hash b) w env w'"
    and p: "pays_once env source dest (usdc issuer) (b_amount_stroops b) (b_seq_num b) (b_fee b) mem"
    using assms(1) unfolding stellar_verify_True_iff by blast
  note o = iffD1 [OF verify_offline_Some_iff off]
  have m: "mem = memo_hash L ''stellar'' (b_source b) (b_destination b) (r_reference r)"
    using verify_offline_memo [OF off assms(2)] by (simp add: RAIL_ID_STELLAR_def)
  from o obtain sig hash where
      "tx_hash L (network_id L (b_network_passphrase b)) (binding_tx b source dest issuer mem) = Ok hash"
      "hex_decode L (b_tx_hash b) = Some hash" "ed_verify L source hash sig"
    by blast
  then show ?thesis
    using o h p unfolding m binding_tx_def RAIL_ID_STELLAR_def
    by (intro exI [of _ b] exI [of _ source] exI [of _ dest] exI [of _ issuer] exI [of _ env] exI [of _ sig]
        exI [of _ hash]) simp
qed

text \<open>
  C5: what the rail charges it can verify. If Horizon keeps what it accepted, a receipt returned by
  \<open>charge\<close> verifies on the same rail right after it.
\<close>

theorem stellar_charge_verifies:
  assumes "hex_laws L" "key_laws L" "codec_laws L J" "horizon_keeps (sr_rpc R)"
    and "stellar_charge L J now R req w = (Ok r, w')"
  shows "\<exists>w''. stellar_verify L J R r w' = (Ok True, w'')"
  using assms by (rule charge_then_verify)

theorem stellar_charge_verifies_witness:
  "\<exists>w''. stellar_verify (toy_lib (Some toy_envelope)) (toy_json (Some toy_binding) None) toy_rail toy_receipt ''AAAA''
     = (Ok True, w'')"
  by (rule stellar_charge_verifies [OF toy_laws _ toy_charge]) (simp add: toy_horizon_keeps)

theorem stellar_verify_sound_witness:
  "\<exists>b env. binding_from_slice (toy_json (Some toy_binding) None) [1] = Some b \<and>
     pays_once env (fill 32 [9]) (fill 32 [8]) (usdc (fill 32 [5])) 500 (b_seq_num b) (b_fee b)
       (memo_hash (toy_lib (Some toy_envelope)) ''stellar'' (b_source b) (b_destination b) ''INV-1'')"
proof -
  obtain w'' where "stellar_verify (toy_lib (Some toy_envelope)) (toy_json (Some toy_binding) None) toy_rail
      toy_receipt ''AAAA'' = (Ok True, w'')"
    using charge_then_verify [OF toy_laws _ toy_charge] toy_horizon_keeps by auto
  from stellar_verify_sound [OF this toy_laws(1)] obtain b source dest issuer env where
    v: "binding_from_slice (toy_json (Some toy_binding) None) [1] = Some b"
      "strkey_decode (toy_lib (Some toy_envelope)) (b_source b) = Some source"
      "strkey_decode (toy_lib (Some toy_envelope)) (b_destination b) = Some dest"
      "strkey_decode (toy_lib (Some toy_envelope)) (sc_usdc_issuer (sr_cfg toy_rail)) = Some issuer"
      "pays_once env source dest (usdc issuer) 500 (b_seq_num b) (b_fee b)
        (memo_hash (toy_lib (Some toy_envelope)) ''stellar'' (b_source b) (b_destination b) ''INV-1'')"
    by (auto simp: toy_receipt_def)
  have "b = toy_binding" using v(1) by (simp add: toy_json_def)
  with v(2,3,4) have "source = fill 32 [9]" "dest = fill 32 [8]" "issuer = fill 32 [5]"
    by (simp_all add: toy_lib_def toy_binding_def charge_binding_def config_testnet_def toy_request_def)
  with v show ?thesis by blast
qed

text \<open>
  C4: one payment vouches for one receipt. If two receipts verify against the same Horizon answer,
  through proofs naming the same transaction hash, then they agree on amount and reference, and their
  proofs on payer and payee, unless SHA-256 collides on the two memo inputs.
\<close>

theorem one_payment_one_receipt:
  assumes "stellar_verify L J R r w = (Ok True, w1)" "stellar_verify L J R r' w = (Ok True, w2)"
    and "binding_from_slice J (r_proof r) = Some b" "binding_from_slice J (r_proof r') = Some b'"
    and "b_tx_hash b = b_tx_hash b'" "hex_laws L"
    and "list_all sized [b_source b, b_destination b, r_reference r]"
    and "list_all sized [b_source b', b_destination b', r_reference r']"
  shows "r_amount_minor r = r_amount_minor r' \<and>
    (r_reference r = r_reference r' \<and> b_source b = b_source b' \<and> b_destination b = b_destination b' \<or>
     collides L (pay_preimage ''stellar'' (b_source b) (b_destination b) (r_reference r))
       (pay_preimage ''stellar'' (b_source b') (b_destination b') (r_reference r')))"
proof -
  obtain c source dest issuer mem env where
      off: "verify_offline L J R r = Some (c, source, dest, issuer, mem)"
    and h: "horizon_shows L (sr_rpc R) (b_tx_hash c) w env w1"
    and p: "pays_once env source dest (usdc issuer) (b_amount_stroops c) (b_seq_num c) (b_fee c) mem"
    using assms(1) unfolding stellar_verify_True_iff by blast
  obtain c' source' dest' issuer' mem' env' where
      off': "verify_offline L J R r' = Some (c', source', dest', issuer', mem')"
    and h': "horizon_shows L (sr_rpc R) (b_tx_hash c') w env' w2"
    and p': "pays_once env' source' dest' (usdc issuer') (b_amount_stroops c') (b_seq_num c') (b_fee c') mem'"
    using assms(2) unfolding stellar_verify_True_iff by blast
  have c: "binding_from_slice J (r_proof r) = Some c" "b_amount_stroops c = r_amount_minor r"
    and c': "binding_from_slice J (r_proof r') = Some c'" "b_amount_stroops c' = r_amount_minor r'"
    using iffD1 [OF verify_offline_Some_iff off] iffD1 [OF verify_offline_Some_iff off'] by blast+
  with assms(3,4) have cb: "c = b" "c' = b'" by simp_all
  with h h' assms(5) have "env' = env" by (auto simp: horizon_shows_def)
  with p p' have same: "b_amount_stroops c = b_amount_stroops c'" "mem = mem'" by (auto simp: pays_once_def)
  have "memo_hash L ''stellar'' (b_source b) (b_destination b) (r_reference r) =
      memo_hash L ''stellar'' (b_source b') (b_destination b') (r_reference r')"
    using verify_offline_memo [OF off assms(6)] verify_offline_memo [OF off' assms(6)] same cb
    by (simp add: RAIL_ID_STELLAR_def)
  moreover have "sized ''stellar''" by (simp add: sized_def)
  ultimately have "r_reference r = r_reference r' \<and> b_source b = b_source b' \<and> b_destination b = b_destination b' \<or>
     collides L (pay_preimage ''stellar'' (b_source b) (b_destination b) (r_reference r))
       (pay_preimage ''stellar'' (b_source b') (b_destination b') (r_reference r'))"
    using assms(7,8) pay_preimage_inject [of "''stellar''" "b_source b" "b_destination b" "r_reference r"
        "''stellar''" "b_source b'" "b_destination b'" "r_reference r'"]
    by (auto simp: memo_hash_def collides_def)
  with same c(2) c'(2) show ?thesis by simp
qed

theorem one_payment_one_receipt_witness:
  "r_reference toy_receipt = r_reference (toy_receipt\<lparr> r_settled_at_unix := 0 \<rparr>) \<or>
   collides (toy_lib (Some toy_envelope))
     (pay_preimage ''stellar'' (b_source toy_binding) (b_destination toy_binding) ''INV-1'')
     (pay_preimage ''stellar'' (b_source toy_binding) (b_destination toy_binding) ''INV-1'')"
proof -
  let ?L = "toy_lib (Some toy_envelope)" and ?J = "toy_json (Some toy_binding) None"
  obtain w'' where v: "stellar_verify ?L ?J toy_rail toy_receipt ''AAAA'' = (Ok True, w'')"
    using charge_then_verify [OF toy_laws _ toy_charge] toy_horizon_keeps by auto
  have v': "stellar_verify ?L ?J toy_rail (toy_receipt\<lparr> r_settled_at_unix := 0 \<rparr>) ''AAAA'' = (Ok True, w'')"
    using v by (simp only: stellar_verify_ignores_time)
  have j: "binding_from_slice ?J (r_proof toy_receipt) = Some toy_binding"
    "binding_from_slice ?J (r_proof (toy_receipt\<lparr> r_settled_at_unix := 0 \<rparr>)) = Some toy_binding"
    by (simp_all add: toy_json_def toy_receipt_def)
  have s: "list_all sized [b_source toy_binding, b_destination toy_binding, r_reference toy_receipt]"
    by (simp add: sized_def toy_binding_def charge_binding_def toy_request_def toy_strkey_def char_bytes_def
        toy_receipt_def) (simp add: toy_lib_def toy_strkey_def char_bytes_def)
  from one_payment_one_receipt [OF v v' j refl toy_laws(1) s] s show ?thesis
    by (simp add: toy_receipt_def)
qed

end
