(* ===== verification/Chains.thy ===== *)
theory Chains
  imports Core_Mock Stellar_Rail
begin

text \<open>
  Rails composed with the failover chain of \<open>patala-core\<close>. A rail settles if the receipt it has just
  returned verifies; a chain of rails that settle settles, because it hands a receipt back to the rail
  that issued it. The instance is the chain of a Stellar rail with offline rails behind it.
\<close>

locale settling_rail = rail_contract +
  assumes charge_verifies:
    "good w \<Longrightarrow> rail_charge R req w = (Ok r, w') \<Longrightarrow> \<exists>w''. rail_verify R r w' = (Ok True, w'')"
begin

text \<open>What the rail charged, no rail of another name can claim.\<close>

lemma only_issuer_verifies:
  assumes "good w" "rail_charge R req w = (Ok r, w')" "rail_base S good" "rail_id S \<noteq> rail_id R"
  shows "rail_verify S r w' = (Ok False, w') \<and> (\<exists>w''. rail_verify R r w' = (Ok True, w''))"
  using rail_base.verify_foreign [OF assms(3)] charge_names_rail [OF assms(1,2)] charge_verifies [OF assms(1,2)]
    assms(4) by simp

end

interpretation settling_mock: settling_rail "mock_payment_rail now m" "\<lambda>_. True"
  for now :: "'w \<Rightarrow> u64" and m
proof unfold_locales
  fix req and w w' :: 'w and r
  assume "rail_charge (mock_payment_rail now m) req w = (Ok r, w')"
  then show "\<exists>w''. rail_verify (mock_payment_rail now m) r w' = (Ok True, w'')"
    using mock_charge_Ok [of now m req w r w'] by (auto simp: mock_verify_def)
qed

lemma stellar_settles:
  assumes "hex_laws L" "key_laws L" "codec_laws L J" "horizon_keeps (sr_rpc R)"
  shows "settling_rail (stellar_payment_rail L J now R) (\<lambda>_. True)"
proof (rule settling_rail.intro)
  show "settling_rail_axioms (stellar_payment_rail L J now R) (\<lambda>_. True)"
    using charge_then_verify [OF assms] by unfold_locales simp
qed (rule stellar.rail_contract_axioms)

lemma settling_chain_charge_verifies:
  assumes chain: "failover_chain f good" and settles: "\<And>R. R \<in> set (fo_rails f) \<Longrightarrow> settling_rail R good"
    and ids: "distinct (map rail_id (fo_rails f))"
    and ok: "good w" "failover_charge f req w = (Ok r, w')"
  shows "\<exists>w''. failover_verify f r w' = (Ok True, w'')"
proof -
  obtain i w2 where i: "i < length (fo_rails f)" and w2: "good w2" and ch: "rail_charge (fo_rails f ! i) req w2 = (Ok r, w')"
    using failover_chain.charge_Ok_origin [OF chain ok] by metis
  note R = nth_mem [OF i]
  have "r_rail_id r = rail_id (fo_rails f ! i)"
    using rail_core.charge_names_rail [OF rail_base.axioms(1) [OF failover_chain.nth_base [OF chain i]] w2 ch] .
  then have "failover_verify f r w' = rail_verify (fo_rails f ! i) r w'"
    by (simp add: failover_verify_def verify_on_find find_distinct_id [OF ids R])
  then show ?thesis using settling_rail.charge_verifies [OF settles [OF R] w2 ch] by simp
qed

text \<open>The first rail in the policy's order is always asked, and its receipt is the chain's.\<close>

lemma first_rail_charges:
  assumes "fo_policy f (fo_rails f) req w = (i # js, w1)" "i < length (fo_rails f)"
    and "rail_charge (fo_rails f ! i) req w1 = (Ok r, w')"
  shows "failover_charge f req w = (Ok r, w')"
  using assms by (simp add: failover_charge_def make_plan_def plan_loop_spec plan_spec_def in_range_def Let_def)

section \<open>A ledger with offline rails behind it\<close>

definition ledger_chain ::
    "stellar_lib \<Rightarrow> stellar_json \<Rightarrow> ('w \<Rightarrow> u64) \<Rightarrow> 'w stellar_rail \<Rightarrow> mock_rail list \<Rightarrow> 'w routing_policy \<Rightarrow> bool \<Rightarrow>
     'w failover_rail" where
  "ledger_chain L J now R ms policy allow =
     allow_cross_class
       (failover_with_policy (stellar_payment_rail L J now R # map (mock_payment_rail now) ms) policy) allow"

lemma ledger_chain_sel [simp]:
  "fo_rails (ledger_chain L J now R ms policy allow) = stellar_payment_rail L J now R # map (mock_payment_rail now) ms"
  "fo_policy (ledger_chain L J now R ms policy allow) = policy"
  "fo_allow_cross_class (ledger_chain L J now R ms policy allow) = allow"
  by (simp_all add: ledger_chain_def allow_cross_class_def failover_with_policy_def)

interpretation ledger_chain: failover_chain "ledger_chain L J now R ms policy allow" "\<lambda>_. True"
  for L J and now :: "'w \<Rightarrow> u64" and R ms policy allow
  by (rule failover_chain.intro) (auto intro: mock.rail_contract_axioms stellar.rail_contract_axioms)

text \<open>
  C8: what a chain charges, the chain verifies. Take a Stellar rail with any offline rails behind it,
  all of different names, any routing policy and either setting of the opt-in. Whichever rail took the
  charge, the receipt goes back to that rail and verifies right away, if Horizon keeps what it accepted.
\<close>

theorem chain_charge_verifies:
  assumes "hex_laws L" "key_laws L" "codec_laws L J" "horizon_keeps (sr_rpc R)"
    and "distinct (''stellar'' # map m_id ms)"
    and "failover_charge (ledger_chain L J now R ms policy allow) req w = (Ok r, w')"
  shows "\<exists>w''. failover_verify (ledger_chain L J now R ms policy allow) r w' = (Ok True, w'')"
proof (rule settling_chain_charge_verifies [OF ledger_chain.failover_chain_axioms _ _ TrueI assms(6)])
  fix S assume "S \<in> set (fo_rails (ledger_chain L J now R ms policy allow))"
  then show "settling_rail S (\<lambda>_. True)"
    using stellar_settles [OF assms(1-4)] settling_mock.settling_rail_axioms by auto
next
  have "map (\<lambda>m. rail_id (mock_payment_rail now m)) ms = map m_id ms" by simp
  with assms(5) show "distinct (map rail_id (fo_rails (ledger_chain L J now R ms policy allow)))"
    by (simp add: RAIL_ID_STELLAR_def comp_def)
qed

text \<open>The example: Horizon takes the payment, and the offline rail behind is not needed.\<close>

definition toy_chain :: "string failover_rail" where
  "toy_chain = ledger_chain (toy_lib (Some toy_envelope)) (toy_json (Some toy_binding) None) (\<lambda>_. 1700000000)
     toy_rail [mock_new ''mock'' NonCustodialFinal [''USDC'']] in_order_policy False"

lemma toy_chain_charge: "failover_charge toy_chain toy_request [] = (Ok toy_receipt, ''AAAA'')"
  by (rule first_rail_charges [of toy_chain toy_request "[]" 0 "[1]" "[]"])
    (simp_all add: toy_chain_def in_order_policy_def toy_charge)

theorem chain_charge_verifies_witness: "\<exists>w''. failover_verify toy_chain toy_receipt ''AAAA'' = (Ok True, w'')"
  unfolding toy_chain_def
  by (rule chain_charge_verifies [OF toy_laws _ _ toy_chain_charge [unfolded toy_chain_def]])
    (simp_all add: toy_horizon_keeps mock_new_def Let_def)

end
