(* ===== verification/Fiat_Currency.thy ===== *)
theory Fiat_Currency
  imports Core_Types
begin

text \<open>
  \<open>patala-fiat/src/currency.rs\<close>: the ISO-4217 table with its exponents, the lookups, and the two
  conversions between minor units and decimal strings. The conversions are inverse to each
  other, and the parser accepts exactly the decimal strings of the currency's precision.
\<close>

datatype currency_error =
    InvalidCurrency string
  | UnknownCurrency string
  | InvalidAmount string

fun currency_error_display :: "currency_error \<Rightarrow> string" where
  "currency_error_display (InvalidCurrency c) =
     ''invalid currency code '' @ debug_str c @ '' (must be a 3-letter ISO-4217 code)''"
| "currency_error_display (UnknownCurrency c) = ''unknown currency code '' @ debug_str c"
| "currency_error_display (InvalidAmount m) = ''invalid amount: '' @ m"

record currency_info =
  ci_code :: string
  ci_exponent :: u8
  ci_name :: string

abbreviation currency_row :: "string \<Rightarrow> u8 \<Rightarrow> string \<Rightarrow> currency_info" where
  "currency_row c e n \<equiv> \<lparr> ci_code = c, ci_exponent = e, ci_name = n \<rparr>"

definition CURRENCY_DEFS :: "currency_info list" where
  "CURRENCY_DEFS = [
     currency_row ''AED'' 2 ''United Arab Emirates Dirham'',
     currency_row ''AFN'' 2 ''Afghan Afghani'',
     currency_row ''ALL'' 2 ''Albanian Lek'',
     currency_row ''AMD'' 2 ''Armenian Dram'',
     currency_row ''ANG'' 2 ''Netherlands Antillean Guilder'',
     currency_row ''AOA'' 2 ''Angolan Kwanza'',
     currency_row ''ARS'' 2 ''Argentine Peso'',
     currency_row ''AUD'' 2 ''Australian Dollar'',
     currency_row ''AWG'' 2 ''Aruban Florin'',
     currency_row ''AZN'' 2 ''Azerbaijani Manat'',
     currency_row ''BAM'' 2 ''Bosnia-Herzegovina Convertible Mark'',
     currency_row ''BBD'' 2 ''Barbadian Dollar'',
     currency_row ''BDT'' 2 ''Bangladeshi Taka'',
     currency_row ''BGN'' 2 ''Bulgarian Lev'',
     currency_row ''BHD'' 3 ''Bahraini Dinar'',
     currency_row ''BIF'' 0 ''Burundian Franc'',
     currency_row ''BMD'' 2 ''Bermudian Dollar'',
     currency_row ''BND'' 2 ''Brunei Dollar'',
     currency_row ''BOB'' 2 ''Bolivian Boliviano'',
     currency_row ''BRL'' 2 ''Brazilian Real'',
     currency_row ''BSD'' 2 ''Bahamian Dollar'',
     currency_row ''BTN'' 2 ''Bhutanese Ngultrum'',
     currency_row ''BWP'' 2 ''Botswana Pula'',
     currency_row ''BYN'' 2 ''Belarusian Ruble'',
     currency_row ''BZD'' 2 ''Belize Dollar'',
     currency_row ''CAD'' 2 ''Canadian Dollar'',
     currency_row ''CDF'' 2 ''Congolese Franc'',
     currency_row ''CHF'' 2 ''Swiss Franc'',
     currency_row ''CLP'' 0 ''Chilean Peso'',
     currency_row ''CNY'' 2 ''Chinese Yuan'',
     currency_row ''COP'' 2 ''Colombian Peso'',
     currency_row ''CRC'' 2 ''Costa Rican Colon'',
     currency_row ''CUP'' 2 ''Cuban Peso'',
     currency_row ''CVE'' 2 ''Cape Verdean Escudo'',
     currency_row ''CZK'' 2 ''Czech Koruna'',
     currency_row ''DJF'' 0 ''Djiboutian Franc'',
     currency_row ''DKK'' 2 ''Danish Krone'',
     currency_row ''DOP'' 2 ''Dominican Peso'',
     currency_row ''DZD'' 2 ''Algerian Dinar'',
     currency_row ''EGP'' 2 ''Egyptian Pound'',
     currency_row ''ETB'' 2 ''Ethiopian Birr'',
     currency_row ''EUR'' 2 ''Euro'',
     currency_row ''FJD'' 2 ''Fijian Dollar'',
     currency_row ''GBP'' 2 ''British Pound Sterling'',
     currency_row ''GEL'' 2 ''Georgian Lari'',
     currency_row ''GHS'' 2 ''Ghanaian Cedi'',
     currency_row ''GMD'' 2 ''Gambian Dalasi'',
     currency_row ''GNF'' 0 ''Guinean Franc'',
     currency_row ''GTQ'' 2 ''Guatemalan Quetzal'',
     currency_row ''GYD'' 2 ''Guyanese Dollar'',
     currency_row ''HKD'' 2 ''Hong Kong Dollar'',
     currency_row ''HNL'' 2 ''Honduran Lempira'',
     currency_row ''HTG'' 2 ''Haitian Gourde'',
     currency_row ''HUF'' 2 ''Hungarian Forint'',
     currency_row ''IDR'' 2 ''Indonesian Rupiah'',
     currency_row ''ILS'' 2 ''Israeli New Shekel'',
     currency_row ''INR'' 2 ''Indian Rupee'',
     currency_row ''IQD'' 3 ''Iraqi Dinar'',
     currency_row ''IRR'' 2 ''Iranian Rial'',
     currency_row ''ISK'' 0 ''Icelandic Krona'',
     currency_row ''JMD'' 2 ''Jamaican Dollar'',
     currency_row ''JOD'' 3 ''Jordanian Dinar'',
     currency_row ''JPY'' 0 ''Japanese Yen'',
     currency_row ''KES'' 2 ''Kenyan Shilling'',
     currency_row ''KGS'' 2 ''Kyrgyzstani Som'',
     currency_row ''KHR'' 2 ''Cambodian Riel'',
     currency_row ''KMF'' 0 ''Comorian Franc'',
     currency_row ''KRW'' 0 ''South Korean Won'',
     currency_row ''KWD'' 3 ''Kuwaiti Dinar'',
     currency_row ''KYD'' 2 ''Cayman Islands Dollar'',
     currency_row ''KZT'' 2 ''Kazakhstani Tenge'',
     currency_row ''LAK'' 2 ''Lao Kip'',
     currency_row ''LBP'' 2 ''Lebanese Pound'',
     currency_row ''LKR'' 2 ''Sri Lankan Rupee'',
     currency_row ''LRD'' 2 ''Liberian Dollar'',
     currency_row ''LSL'' 2 ''Lesotho Loti'',
     currency_row ''LYD'' 3 ''Libyan Dinar'',
     currency_row ''MAD'' 2 ''Moroccan Dirham'',
     currency_row ''MDL'' 2 ''Moldovan Leu'',
     currency_row ''MGA'' 2 ''Malagasy Ariary'',
     currency_row ''MKD'' 2 ''Macedonian Denar'',
     currency_row ''MMK'' 2 ''Myanmar Kyat'',
     currency_row ''MNT'' 2 ''Mongolian Tugrik'',
     currency_row ''MOP'' 2 ''Macanese Pataca'',
     currency_row ''MRU'' 2 ''Mauritanian Ouguiya'',
     currency_row ''MUR'' 2 ''Mauritian Rupee'',
     currency_row ''MVR'' 2 ''Maldivian Rufiyaa'',
     currency_row ''MWK'' 2 ''Malawian Kwacha'',
     currency_row ''MXN'' 2 ''Mexican Peso'',
     currency_row ''MYR'' 2 ''Malaysian Ringgit'',
     currency_row ''MZN'' 2 ''Mozambican Metical'',
     currency_row ''NAD'' 2 ''Namibian Dollar'',
     currency_row ''NGN'' 2 ''Nigerian Naira'',
     currency_row ''NIO'' 2 ''Nicaraguan Cordoba'',
     currency_row ''NOK'' 2 ''Norwegian Krone'',
     currency_row ''NPR'' 2 ''Nepalese Rupee'',
     currency_row ''NZD'' 2 ''New Zealand Dollar'',
     currency_row ''OMR'' 3 ''Omani Rial'',
     currency_row ''PAB'' 2 ''Panamanian Balboa'',
     currency_row ''PEN'' 2 ''Peruvian Sol'',
     currency_row ''PGK'' 2 ''Papua New Guinean Kina'',
     currency_row ''PHP'' 2 ''Philippine Peso'',
     currency_row ''PKR'' 2 ''Pakistani Rupee'',
     currency_row ''PLN'' 2 ''Polish Zloty'',
     currency_row ''PYG'' 0 ''Paraguayan Guarani'',
     currency_row ''QAR'' 2 ''Qatari Riyal'',
     currency_row ''RON'' 2 ''Romanian Leu'',
     currency_row ''RSD'' 2 ''Serbian Dinar'',
     currency_row ''RUB'' 2 ''Russian Ruble'',
     currency_row ''RWF'' 0 ''Rwandan Franc'',
     currency_row ''SAR'' 2 ''Saudi Riyal'',
     currency_row ''SBD'' 2 ''Solomon Islands Dollar'',
     currency_row ''SCR'' 2 ''Seychellois Rupee'',
     currency_row ''SDG'' 2 ''Sudanese Pound'',
     currency_row ''SEK'' 2 ''Swedish Krona'',
     currency_row ''SGD'' 2 ''Singapore Dollar'',
     currency_row ''SLE'' 2 ''Sierra Leonean Leone'',
     currency_row ''SOS'' 2 ''Somali Shilling'',
     currency_row ''SRD'' 2 ''Surinamese Dollar'',
     currency_row ''SSP'' 2 ''South Sudanese Pound'',
     currency_row ''STN'' 2 ''Sao Tome and Principe Dobra'',
     currency_row ''SZL'' 2 ''Eswatini Lilangeni'',
     currency_row ''THB'' 2 ''Thai Baht'',
     currency_row ''TJS'' 2 ''Tajikistani Somoni'',
     currency_row ''TMT'' 2 ''Turkmenistani Manat'',
     currency_row ''TND'' 3 ''Tunisian Dinar'',
     currency_row ''TOP'' 2 ''Tongan Pa'anga'',
     currency_row ''TRY'' 2 ''Turkish Lira'',
     currency_row ''TTD'' 2 ''Trinidad and Tobago Dollar'',
     currency_row ''TWD'' 2 ''New Taiwan Dollar'',
     currency_row ''TZS'' 2 ''Tanzanian Shilling'',
     currency_row ''UAH'' 2 ''Ukrainian Hryvnia'',
     currency_row ''UGX'' 0 ''Ugandan Shilling'',
     currency_row ''USD'' 2 ''United States Dollar'',
     currency_row ''UYU'' 2 ''Uruguayan Peso'',
     currency_row ''UZS'' 2 ''Uzbekistani Som'',
     currency_row ''VES'' 2 ''Venezuelan Bolivar Soberano'',
     currency_row ''VND'' 0 ''Vietnamese Dong'',
     currency_row ''VUV'' 0 ''Vanuatu Vatu'',
     currency_row ''WST'' 2 ''Samoan Tala'',
     currency_row ''XAF'' 0 ''Central African CFA Franc'',
     currency_row ''XCD'' 2 ''East Caribbean Dollar'',
     currency_row ''XOF'' 0 ''West African CFA Franc'',
     currency_row ''XPF'' 0 ''CFP Franc'',
     currency_row ''YER'' 2 ''Yemeni Rial'',
     currency_row ''ZAR'' 2 ''South African Rand'',
     currency_row ''ZMW'' 2 ''Zambian Kwacha''
   ]"

text \<open>The table is collected into a \<open>HashMap\<close>, where a later row would replace an earlier one.\<close>

definition currency_table :: "string \<rightharpoonup> currency_info" where
  "currency_table = map_of (map (\<lambda>c. (ci_code c, c)) (rev CURRENCY_DEFS))"

definition normalize_code :: "string \<Rightarrow> currency_error + string" where
  "normalize_code code0 =
     (let c = to_ascii_uppercase (trim code0) in
      if length c \<noteq> 3 \<or> \<not> list_all is_ascii_upper c then Err (InvalidCurrency code0) else Ok c)"

definition lookup_currency :: "string \<Rightarrow> currency_error + currency_info" where
  "lookup_currency code0 =
     rbind (normalize_code code0) (\<lambda>norm. ok_or (UnknownCurrency norm) (currency_table norm))"

definition exponent :: "string \<Rightarrow> currency_error + u8" where
  "exponent code0 = rbind (lookup_currency code0) (\<lambda>i. Ok (ci_exponent i))"

definition validate_currency :: "string \<Rightarrow> currency_error + unit" where
  "validate_currency code0 = rbind (lookup_currency code0) (\<lambda>_. Ok ())"

definition normalize_currency :: "string \<Rightarrow> currency_error + string" where
  "normalize_currency code0 = rbind (lookup_currency code0) (\<lambda>i. Ok (ci_code i))"

definition currency_name :: "string \<Rightarrow> currency_error + string" where
  "currency_name code0 = rbind (lookup_currency code0) (\<lambda>i. Ok (ci_name i))"

definition supported_currencies :: "string list" where
  "supported_currencies = map ci_code CURRENCY_DEFS"

section \<open>Conversions\<close>

definition minor_to_major_string :: "u64 \<Rightarrow> string \<Rightarrow> currency_error + string" where
  "minor_to_major_string amount_minor currency =
     rbind (exponent currency) (\<lambda>e.
       let ex = unat e in
       if ex = 0 then Ok (dec_of_nat (unat amount_minor))
       else
         let divisor = (10 :: u64) ^ ex;
             whole = amount_minor div divisor;
             frac = amount_minor mod divisor
         in Ok (dec_of_nat (unat whole) @ ''.'' @ pad_left ex (dec_of_nat (unat frac))))"

definition malformed_amount :: "string \<Rightarrow> currency_error" where
  "malformed_amount trimmed = InvalidAmount (''malformed amount string '' @ debug_str trimmed)"

text \<open>The end of the parser: both parts as numbers, combined with checked arithmetic.\<close>

definition parse_units :: "string \<Rightarrow> nat \<Rightarrow> string \<Rightarrow> string \<Rightarrow> currency_error + u64" where
  "parse_units trimmed ex whole_part frac_digits =
     rbind (ok_or (malformed_amount trimmed) (parse_u64 whole_part)) (\<lambda>whole_n.
     rbind (if ex > 0 then ok_or (malformed_amount trimmed) (parse_u64 frac_digits) else Ok 0)
       (\<lambda>frac_n.
         ok_or (InvalidAmount (''amount string '' @ debug_str trimmed @ '' overflows u64''))
           (Option.bind (checked_mul_u whole_n (10 ^ ex)) (\<lambda>w. checked_add_u w frac_n))))"

definition major_string_to_minor :: "string \<Rightarrow> string \<Rightarrow> currency_error + u64" where
  "major_string_to_minor s currency =
     (let trimmed = trim s in
      if trimmed = [] then Err (InvalidAmount ''empty amount string'')
      else case strip_prefix ''-'' trimmed of
        Some stripped \<Rightarrow>
          Err (InvalidAmount (''negative amount '' @ debug_str (''-'' @ stripped) @ '' is not valid''))
      | None \<Rightarrow>
          rbind (exponent currency) (\<lambda>e.
            let ex = unat e;
                (whole0, frac_part) =
                  (case split_once CHR ''.'' trimmed of
                     Some (w, f) \<Rightarrow> (w, Some f) | None \<Rightarrow> (trimmed, None));
                whole_part = (if whole0 = [] then ''0'' else whole0)
            in if \<not> all_digits whole_part then Err (malformed_amount trimmed)
               else
                 rbind
                   (case frac_part of
                      Some f \<Rightarrow>
                        if \<not> all_digits f then Err (malformed_amount trimmed)
                        else if length f > ex then
                          Err (InvalidAmount (''amount string '' @ debug_str trimmed @
                            '' has more fractional digits than '' @ to_ascii_uppercase (trim currency) @
                            [CHR 0x27] @ ''s '' @ dec_of_nat ex @ ''-decimal exponent''))
                        else Ok (pad_right ex f)
                    | None \<Rightarrow> Ok (replicate ex CHR ''0''))
                   (\<lambda>frac_digits. parse_units trimmed ex whole_part frac_digits)))"

section \<open>The table\<close>

definition code_rank :: "string \<Rightarrow> nat" where
  "code_rank s = foldl (\<lambda>n c. 256 * n + code c) 0 s"

definition row_ok :: "currency_info \<Rightarrow> bool" where
  "row_ok i \<longleftrightarrow> length (ci_code i) = 3 \<and> list_all is_ascii_upper (ci_code i) \<and> ci_exponent i \<le> 3"

lemma rows_ok: "list_all row_ok CURRENCY_DEFS"
  unfolding CURRENCY_DEFS_def
  by (simp add: row_ok_def is_ascii_upper_def)

fun increasing :: "nat list \<Rightarrow> bool" where
  "increasing (a # b # xs) = (a < b \<and> increasing (b # xs))"
| "increasing _ = True"

lemma increasing_sorted_wrt: "increasing xs \<Longrightarrow> sorted_wrt (<) xs"
  by (induction xs rule: increasing.induct) (auto dest: order.strict_trans)

lemma ranks_increasing: "increasing (map code_rank (map ci_code CURRENCY_DEFS))"
  unfolding CURRENCY_DEFS_def by (simp add: code_rank_def)

lemma distinct_codes: "distinct (map ci_code CURRENCY_DEFS)"
  using increasing_sorted_wrt [OF ranks_increasing]
  by (auto simp: strict_sorted_iff distinct_map inj_on_def)

lemma currency_table_iff: "currency_table c = Some i \<longleftrightarrow> i \<in> set CURRENCY_DEFS \<and> ci_code i = c"
proof -
  have "distinct (map fst (map (\<lambda>c. (ci_code c, c)) (rev CURRENCY_DEFS)))"
    using distinct_codes by (simp add: comp_def rev_map [symmetric])
  then show ?thesis
    by (auto simp: currency_table_def map_of_eq_Some_iff)
qed

lemma row_ok_member: "i \<in> set CURRENCY_DEFS \<Longrightarrow> row_ok i"
  using rows_ok by (simp add: list_all_iff)

lemma normalize_code_Ok_iff:
  "normalize_code c = Ok d \<longleftrightarrow> d = to_ascii_uppercase (trim c) \<and> length d = 3 \<and> list_all is_ascii_upper d"
  by (auto simp: normalize_code_def Let_def)

lemma lookup_currency_Ok_iff:
  "lookup_currency c = Ok i \<longleftrightarrow> i \<in> set CURRENCY_DEFS \<and> ci_code i = to_ascii_uppercase (trim c)"
  using row_ok_member [of i]
  by (auto simp: lookup_currency_def normalize_code_Ok_iff currency_table_iff row_ok_def)

lemma exponent_Ok_le: "exponent c = Ok e \<Longrightarrow> unat e \<le> 3"
  by (auto simp: exponent_def lookup_currency_Ok_iff row_ok_def word_le_nat_alt dest!: row_ok_member)

lemma pow10_u64: "n \<le> 3 \<Longrightarrow> unat ((10 :: u64) ^ n) = 10 ^ n"
  by (auto simp: le_Suc_eq numeral_3_eq_3)

section \<open>The parser\<close>

text \<open>
  What a decimal string denotes at precision \<open>e\<close>: digits \<open>w\<close>, then optionally a point and at
  most \<open>e\<close> digits \<open>f\<close>, with the value in units of \<open>10 ^ -e\<close>.
\<close>

definition denotes :: "nat \<Rightarrow> string \<Rightarrow> nat \<Rightarrow> bool" where
  "denotes e t n \<longleftrightarrow>
     (\<exists>w f. (t = w \<and> f = [] \<or> t = w @ CHR ''.'' # f) \<and> all_digits w \<and> all_digits f \<and> length f \<le> e \<and>
        n = nat_of_digits (w @ f) * 10 ^ (e - length f))"

lemma digits_no_point: "all_digits w \<Longrightarrow> CHR ''.'' \<notin> set w"
  by (auto simp: all_digits_def list_all_iff is_ascii_digit_def)

lemma all_digits_Nil [simp]: "all_digits []" "all_digits ''0''"
  by (simp_all add: all_digits_def is_ascii_digit_def)

lemma denotes_no_minus: "denotes e t n \<Longrightarrow> strip_prefix ''-'' t = None"
  by (cases t) (auto simp: denotes_def all_digits_def is_ascii_digit_def Cons_eq_append_conv)

lemma split_denotes:
  "(\<exists>w f. (case split_once CHR ''.'' t of None \<Rightarrow> (t, []) | Some p \<Rightarrow> p) = (w, f) \<and>
      all_digits w \<and> all_digits f \<and> length f \<le> e \<and> P w f) \<longleftrightarrow>
   (\<exists>w f. (t = w \<and> f = [] \<or> t = w @ CHR ''.'' # f) \<and> all_digits w \<and> all_digits f \<and> length f \<le> e \<and> P w f)"
proof (cases "split_once CHR ''.'' t")
  case None
  then have "t \<noteq> w @ CHR ''.'' # f" for w f by (auto simp: split_once_None_iff)
  with None show ?thesis by simp
next
  case (Some p)
  obtain a b where p: "p = (a, b)" by fastforce
  with Some have t: "t = a @ CHR ''.'' # b" "CHR ''.'' \<notin> set a" by (simp_all add: split_once_Some_iff)
  have "w = a \<and> f = b" if "all_digits w" "t = w @ CHR ''.'' # f" for w f
    using Some p that by (auto simp: split_once_append digits_no_point)
  moreover have "\<not> (all_digits w \<and> t = w)" for w
    using t digits_no_point [of w] by (metis in_set_conv_decomp)
  ultimately show ?thesis using t Some p by auto
qed

lemma nat_of_digits_zero_char [simp]: "nat_of_digits ''0'' = 0"
  by (simp add: nat_of_digits_def digit_val_def)

text \<open>The arithmetic at the end of the parser.\<close>

lemma combine_units:
  assumes "e \<le> 3" "unat fr < 10 ^ e"
  shows "Option.bind (checked_mul_u (wh :: u64) (10 ^ e)) (\<lambda>w. checked_add_u w fr) = Some a \<longleftrightarrow>
    unat a = unat wh * 10 ^ e + unat fr"
proof -
  have "\<exists>m :: u64. unat m = unat wh * 10 ^ e" if "unat a = unat wh * 10 ^ e + unat fr"
    using that unat_lt_u64 [of a] by (intro u64_of_nat_ex) linarith
  then show ?thesis
    by (simp only: bind_eq_Some_conv checked_add_u_Some_iff checked_mul_u_Some_iff pow10_u64 [OF assms(1)])
      metis
qed

lemma parse_whole_iff:
  "all_digits w \<Longrightarrow> parse_u64 (if w = [] then ''0'' else w) = Some a \<longleftrightarrow> unat a = nat_of_digits w"
  by (auto simp: parse_u64_digits word_unat_eq_iff unat_of_nat) (metis unat_lt_u64_numeral)

lemma parse_frac_iff:
  assumes "all_digits f" "length f \<le> e" "e \<le> 3"
  shows "(if e > 0 then ok_or err (parse_u64 (pad_right e f)) else Ok 0) = Ok b \<longleftrightarrow>
    unat b = nat_of_digits f * 10 ^ (e - length f)"
proof (cases "e = 0")
  case False
  then have "pad_right e f \<noteq> []" by (auto simp: pad_right_def)
  with False assms show ?thesis
    using parse_whole_iff [of "pad_right e f" b] by (simp add: nat_of_digits_pad_right)
qed (use assms in \<open>auto simp: word_unat_eq_iff\<close>)

lemma frac_less:
  assumes "all_digits f" "length f \<le> e"
  shows "nat_of_digits f * 10 ^ (e - length f) < 10 ^ e"
proof -
  have "nat_of_digits f * 10 ^ (e - length f) < 10 ^ length f * 10 ^ (e - length f)"
    using nat_of_digits_less [OF assms(1)] by simp
  also have "\<dots> = 10 ^ e" using assms(2) by (simp flip: power_add)
  finally show ?thesis .
qed

lemma parse_units_iff:
  assumes "all_digits w" "all_digits f" "length f \<le> e" "e \<le> 3"
  shows "parse_units t e (if w = [] then ''0'' else w) (pad_right e f) = Ok a \<longleftrightarrow>
    unat a = nat_of_digits (w @ f) * 10 ^ (e - length f)"
    (is "?L \<longleftrightarrow> ?R")
proof -
  let ?w = "nat_of_digits w" and ?f = "nat_of_digits f * 10 ^ (e - length f)"
  have v: "nat_of_digits (w @ f) * 10 ^ (e - length f) = ?w * 10 ^ e + ?f"
    using assms(3) by (simp add: nat_of_digits_append algebra_simps flip: power_add)
  have "?L \<longleftrightarrow> (\<exists>wh. unat wh = ?w \<and> (\<exists>fr. unat fr = ?f \<and>
      Option.bind (checked_mul_u wh (10 ^ e)) (\<lambda>m. checked_add_u m fr) = Some a))"
    by (simp only: parse_units_def rbind_Inr_iff ok_or_Inr_iff parse_whole_iff [OF assms(1)]
        parse_frac_iff [OF assms(2-4)])
  also have "\<dots> \<longleftrightarrow> (\<exists>wh. unat (wh :: u64) = ?w \<and> (\<exists>fr. unat (fr :: u64) = ?f \<and> unat a = unat wh * 10 ^ e + unat fr))"
    by (intro ex_cong1 conj_cong refl combine_units) (simp_all add: frac_less assms)
  also have "\<dots> \<longleftrightarrow> ?R"
  proof
    assume R: ?R
    have "?w * 1 \<le> ?w * 10 ^ e" by (intro mult_le_mono2) simp
    then have "?w < 2 ^ 64" "?f < 2 ^ 64"
      using R v unat_lt_u64 [of a] by linarith+
    then obtain wh fr :: u64 where "unat wh = ?w" "unat fr = ?f"
      using u64_of_nat_ex by metis
    then show "\<exists>wh. unat (wh :: u64) = ?w \<and> (\<exists>fr. unat (fr :: u64) = ?f \<and> unat a = unat wh * 10 ^ e + unat fr)"
      using R v by metis
  qed (use v in auto)
  finally show ?thesis .
qed

text \<open>The parser on a string already split at its first point.\<close>

lemma major_string_to_minor_split:
  assumes e: "exponent currency = Ok e" and t: "trim s \<noteq> []" "strip_prefix ''-'' (trim s) = None"
  shows "major_string_to_minor s currency = Ok a \<longleftrightarrow>
    (\<exists>w f. (case split_once CHR ''.'' (trim s) of None \<Rightarrow> (trim s, []) | Some p \<Rightarrow> p) = (w, f) \<and>
       all_digits w \<and> all_digits f \<and> length f \<le> unat e \<and>
       unat a = nat_of_digits (w @ f) * 10 ^ (unat e - length f))"
proof (cases "split_once CHR ''.'' (trim s)")
  case None
  have pad: "replicate (unat e) CHR ''0'' = pad_right (unat e) []" by (simp add: pad_right_def)
  show ?thesis
    using parse_units_iff [of "trim s" "[]" "unat e"] exponent_Ok_le [OF e] t
    by (simp add: major_string_to_minor_def Let_def e None pad)
next
  case (Some p)
  obtain w f where p: "p = (w, f)" by fastforce
  have w: "all_digits (if w = [] then ''0'' else w) \<longleftrightarrow> all_digits w" by simp
  show ?thesis
    using parse_units_iff [of w f "unat e"] exponent_Ok_le [OF e] t w
    by (simp only: major_string_to_minor_def Let_def e Some p rbind.simps prod.case option.case if_False) auto
qed

lemma digits_graphic: "all_digits s \<Longrightarrow> list_all graphic s"
  by (auto simp: all_digits_def list_all_iff digit_graphic)

lemma major_string_to_minor_iff:
  "major_string_to_minor s currency = Ok a \<longleftrightarrow>
     (\<exists>e. exponent currency = Ok e \<and> trim s \<noteq> [] \<and> denotes (unat e) (trim s) (unat a))"
proof (cases "exponent currency")
  case (Inl er)
  then show ?thesis by (auto simp: major_string_to_minor_def Let_def split: option.splits)
next
  case (Inr e)
  consider (empty) "trim s = []" | (neg) r where "trim s = ''-'' @ r"
    | (other) "trim s \<noteq> []" "strip_prefix ''-'' (trim s) = None"
    by (cases "strip_prefix ''-'' (trim s)") (auto simp: strip_prefix_Some_iff)
  then show ?thesis
  proof cases
    case empty
    then show ?thesis by (simp add: major_string_to_minor_def)
  next
    case neg
    then have "strip_prefix ''-'' (trim s) = Some r" by (simp add: strip_prefix_Some_iff)
    moreover from this have "\<not> denotes k (trim s) n" for k n
      using denotes_no_minus by fastforce
    ultimately show ?thesis by (simp add: major_string_to_minor_def Let_def)
  next
    case other
    have "(\<exists>w f. (case split_once CHR ''.'' (trim s) of None \<Rightarrow> (trim s, []) | Some p \<Rightarrow> p) = (w, f) \<and>
        all_digits w \<and> all_digits f \<and> length f \<le> unat e \<and>
        unat a = nat_of_digits (w @ f) * 10 ^ (unat e - length f)) \<longleftrightarrow> denotes (unat e) (trim s) (unat a)"
      unfolding denotes_def by (rule split_denotes)
    then show ?thesis
      using major_string_to_minor_split [OF Inr other] other Inr by simp
  qed
qed

lemma upper_usd: "to_ascii_uppercase ''usd'' = ''USD''"
  by code_simp

lemma upper_USD: "to_ascii_uppercase (trim ''usd'') = ''USD''" "to_ascii_uppercase (trim ''USD'') = ''USD''"
  by (simp_all add: trim_graphic graphic_def upper_usd) code_simp

lemma exponent_USD: "exponent ''usd'' = Ok 2" "exponent ''USD'' = Ok 2"
proof -
  have "currency_row ''USD'' 2 ''United States Dollar'' \<in> set CURRENCY_DEFS"
    by (simp add: CURRENCY_DEFS_def)
  then have "lookup_currency ''usd'' = Ok (currency_row ''USD'' 2 ''United States Dollar'')"
    "lookup_currency ''USD'' = Ok (currency_row ''USD'' 2 ''United States Dollar'')"
    by (simp_all add: lookup_currency_Ok_iff upper_USD)
  then show "exponent ''usd'' = Ok 2" "exponent ''USD'' = Ok 2" by (simp_all add: exponent_def)
qed

lemma missing_digits_accepted:
  "major_string_to_minor ''.'' ''usd'' = Ok 0" "major_string_to_minor ''5.'' ''usd'' = Ok 500"
  "major_string_to_minor ''.5'' ''usd'' = Ok 50"
proof -
  have blanks: "trim ''.'' = ''.''" "trim ''5.'' = ''5.''" "trim ''.5'' = ''.5''"
    by (simp_all add: trim_graphic graphic_def)
  have "denotes 2 ''.'' 0" "denotes 2 ''5.'' 500" "denotes 2 ''.5'' 50"
    unfolding denotes_def
      apply (rule exI [of _ "[]"], rule exI [of _ "[]"], simp)
     apply (rule exI [of _ "''5''"], rule exI [of _ "[]"], code_simp)
    apply (rule exI [of _ "[]"], rule exI [of _ "''5''"], code_simp)
    done
  then show "major_string_to_minor ''.'' ''usd'' = Ok 0" "major_string_to_minor ''5.'' ''usd'' = Ok 500"
    "major_string_to_minor ''.5'' ''usd'' = Ok 50"
    by (simp_all add: major_string_to_minor_iff exponent_USD blanks)
qed

section \<open>Properties\<close>

text \<open>
  C33: the amount parser accepts, up to surrounding blanks, exactly some digits, or some digits, a point
  and at most as many digits as the currency's precision, and gives their exact value: never rounded,
  truncated or wrapped. Anything else (a sign, a letter, an extra digit after the point, an unknown
  currency, a value beyond \<open>u64\<close>) is an error. This is wider than the function's documentation, which
  promises to fail on all but a plain decimal number: beside the point the digits may be missing on
  either side or on both, so \<open>5.\<close> and \<open>.5\<close> are amounts, and a lone point is read as zero.
\<close>

theorem major_string_to_minor_exact:
  "(major_string_to_minor s currency = Ok a \<longleftrightarrow>
      (\<exists>e. exponent currency = Ok e \<and> trim s \<noteq> [] \<and> denotes (unat e) (trim s) (unat a))) \<and>
   major_string_to_minor ''.'' ''usd'' = Ok 0 \<and> major_string_to_minor ''5.'' ''usd'' = Ok 500 \<and>
   major_string_to_minor ''.5'' ''usd'' = Ok 50"
  by (intro conjI major_string_to_minor_iff missing_digits_accepted)

lemma major_of_printed:
  assumes "minor_to_major_string a currency = Ok s"
  shows "major_string_to_minor s currency = Ok a"
proof -
  from assms obtain e where e: "exponent currency = Ok e"
    by (cases "exponent currency") (auto simp: minor_to_major_string_def)
  define n where "n = unat a"
  define k where "k = unat e"
  have k: "k \<le> 3" unfolding k_def by (rule exponent_Ok_le [OF e])
  have "denotes k s n \<and> list_all graphic s \<and> s \<noteq> []"
  proof (cases "k = 0")
    case True
    then have s: "s = dec_of_nat n"
      using assms by (simp add: minor_to_major_string_def e k_def n_def Let_def)
    moreover have "denotes k (dec_of_nat n) n" unfolding denotes_def
      by (rule exI [of _ "dec_of_nat n"], rule exI [of _ "[]"]) (simp add: True)
    ultimately show ?thesis by (simp add: digits_graphic)
  next
    case False
    define f where "f = pad_left k (dec_of_nat (n mod 10 ^ k))"
    have s: "s = dec_of_nat (n div 10 ^ k) @ CHR ''.'' # f"
      using assms False k
      by (simp add: minor_to_major_string_def e k_def n_def f_def Let_def unat_div unat_mod pow10_u64)
    have len: "length f = k"
      using False length_dec_of_nat_le [of "n mod 10 ^ k" k] by (simp add: f_def pad_left_def)
    have "all_digits f" by (simp add: f_def)
    moreover have "nat_of_digits (dec_of_nat (n div 10 ^ k) @ f) = n"
      using len by (simp add: nat_of_digits_append f_def) (rule div_mult_mod_eq)
    ultimately have "denotes k s n" unfolding denotes_def s
      by - (rule exI [of _ "dec_of_nat (n div 10 ^ k)"], rule exI [of _ f], simp add: len)
    moreover have "list_all graphic s"
      by (simp add: s f_def digits_graphic) (simp add: graphic_def)
    ultimately show ?thesis by (simp add: s)
  qed
  then show ?thesis
    using major_string_to_minor_iff [of s currency a] e by (simp add: trim_graphic k_def n_def)
qed

text \<open>
  C34: printing an amount and parsing it back gives the amount, for every \<open>u64\<close> and every
  currency of the table.
\<close>

theorem minor_major_round_trip:
  assumes "minor_to_major_string a currency = Ok s"
  shows "major_string_to_minor s currency = Ok a"
  using assms by (rule major_of_printed)

lemma dec_digits: "dec_of_nat 12 = ''12''" "dec_of_nat 5 = ''5''"
  by code_simp+

theorem minor_major_round_trip_witness: "major_string_to_minor ''12.05'' ''usd'' = Ok 1205"
proof (rule minor_major_round_trip)
  show "minor_to_major_string 1205 ''usd'' = Ok ''12.05''"
    by (simp add: minor_to_major_string_def exponent_USD dec_digits pad_left_def)
qed

text \<open>
  A currency code is known exactly when its trimmed, upper-cased form is a code of the table,
  and then the row found is the only one with that code, of three upper-case letters and with
  at most three decimals.
\<close>

theorem currency_lookup_exact:
  "lookup_currency c = Ok i \<longleftrightarrow>
     i \<in> set CURRENCY_DEFS \<and> to_ascii_uppercase (trim c) = ci_code i \<and> length (ci_code i) = 3 \<and>
     list_all is_ascii_upper (ci_code i) \<and> unat (ci_exponent i) \<le> 3 \<and>
     filter (\<lambda>j. ci_code j = ci_code i) CURRENCY_DEFS = [i]"
proof -
  have "filter (\<lambda>j. g j = g i) xs = [i]" if "i \<in> set xs" "distinct (map g xs)"
    for g :: "currency_info \<Rightarrow> string" and xs
    using that by (induction xs) (auto simp: filter_empty_conv image_iff)
  from this [OF _ distinct_codes] show ?thesis
    using row_ok_member [of i]
    by (auto simp: lookup_currency_Ok_iff row_ok_def word_le_nat_alt)
qed

text \<open>A normalized code is in normal form.\<close>

lemma normalize_currency_idem:
  assumes "normalize_currency c = Ok d" shows "normalize_currency d = Ok d"
proof -
  from assms obtain i where i: "i \<in> set CURRENCY_DEFS" "ci_code i = d"
    by (auto simp: normalize_currency_def lookup_currency_Ok_iff)
  then have d: "list_all is_ascii_upper d" using row_ok_member by (auto simp: row_ok_def)
  then have "list_all graphic d"
    by (auto simp: list_all_iff is_ascii_upper_def graphic_def)
  moreover have "to_ascii_uppercase d = d"
    using d by (induction d) (auto simp: to_ascii_uppercase_def to_upper_def is_ascii_upper_def is_ascii_lower_def)
  ultimately show ?thesis
    using i by (auto simp: normalize_currency_def lookup_currency_Ok_iff trim_graphic)
qed

end
