(* ===== verification/Fiat_Destination.thy ===== *)
theory Fiat_Destination
  imports Core_Rail
begin

text \<open>
  \<open>patala-fiat/src/destination.rs\<close>: what the fiat rails say offline about the three things their
  processors use \<open>destination\<close> for (a redirect URL, a buyer's e-mail address, nothing), with the
  recognition of wallet addresses and private keys pasted into the wrong field. None of them
  ever accepts a destination, and a disclosed key is never repeated.
\<close>

section \<open>Recognition by shape\<close>

definition BASE58_ALPHABET :: string where
  "BASE58_ALPHABET = ''123456789ABCDEFGHJKLMNPQRSTUVWXYZabcdefghijkmnopqrstuvwxyz''"

definition is_base32 :: "string \<Rightarrow> bool" where
  "is_base32 s \<longleftrightarrow> list_all (\<lambda>c. is_ascii_alpha c \<or> (50 \<le> code c \<and> code c \<le> 55)) s"

definition all_base58 :: "string \<Rightarrow> bool" where
  "all_base58 s \<longleftrightarrow> list_all (\<lambda>c. c \<in> set BASE58_ALPHABET) s"

definition looks_like_a_secret_key :: "string \<Rightarrow> bool" where
  "looks_like_a_secret_key dest \<longleftrightarrow>
     length dest = 56 \<and> (starts_with ''S'' dest \<or> starts_with ''s'' dest) \<and> is_base32 dest"

definition first_upper :: "string \<Rightarrow> char option" where
  "first_upper s = (case s of [] \<Rightarrow> None | c # _ \<Rightarrow> Some (to_upper c))"

definition looks_like_stellar :: "string \<Rightarrow> string option" where
  "looks_like_stellar dest =
     (if \<not> is_base32 dest then None
      else if first_upper dest = Some CHR ''G'' \<and> length dest = 56
        then Some (''a Stellar account address (G'' @ ellipsis @ '')'')
      else if first_upper dest = Some CHR ''C'' \<and> length dest = 56
        then Some (''a Stellar contract address (C'' @ ellipsis @ '')'')
      else if first_upper dest = Some CHR ''M'' \<and> length dest = 69
        then Some (''a Stellar muxed account address (M'' @ ellipsis @ '')'')
      else None)"

definition looks_like_hex :: "string \<Rightarrow> string option" where
  "looks_like_hex dest =
     (case or_else (strip_prefix ''0x'' dest) (strip_prefix ''0X'' dest) of
        None \<Rightarrow> None
      | Some hex \<Rightarrow>
          if \<not> list_all is_ascii_hexdigit hex then None
          else if length hex = 40 then Some ''an Ethereum/EVM address''
          else if length hex = 64 then Some ''a Sui or Aptos address''
          else None)"

definition looks_like_bech32 :: "string \<Rightarrow> string option" where
  "looks_like_bech32 dest =
     (case or_else (or_else (strip_prefix ''bc1'' dest) (strip_prefix ''tb1'' dest)) (strip_prefix ''bcrt1'' dest) of
        None \<Rightarrow> None
      | Some rest \<Rightarrow>
          if rest \<noteq> [] \<and> list_all (\<lambda>b. is_ascii_lower b \<or> is_ascii_digit b) rest
          then Some (''a bech32 Bitcoin address (bc1'' @ ellipsis @ '')'') else None)"

definition looks_like_a_wallet_address :: "string \<Rightarrow> string option" where
  "looks_like_a_wallet_address dest =
     (let len = length dest in
      if (len = 43 \<or> len = 44) \<and> all_base58 dest then Some ''a Solana wallet address''
      else case looks_like_stellar dest of
        Some what \<Rightarrow> Some what
      | None \<Rightarrow>
          (case looks_like_hex dest of
             Some what \<Rightarrow> Some what
           | None \<Rightarrow>
               if 26 \<le> len \<and> len \<le> 35 \<and> (starts_with ''1'' dest \<or> starts_with ''3'' dest) \<and> all_base58 dest
               then Some ''a legacy Bitcoin address''
               else looks_like_bech32 dest))"

section \<open>Refusals every rail shares\<close>

definition SECRET_SEED_WARNING :: string where
  "SECRET_SEED_WARNING =
     ''STOP '' @ em_dash @ '' this is not a destination, it is a Stellar SECRET SEED (S'' @ ellipsis @
     ''). You have just pasted a PRIVATE KEY into a payment field. Treat it as disclosed: create a new '' @
     ''account, move everything the old key controls to it, and never use the old key '' @
     ''again. patala has not logged the value and this message does not repeat it, but '' @
     ''wherever you copied it from may have. Nothing on this rail ever wants a key or an '' @
     ''address of any kind.''"

definition common_refusals :: "string \<Rightarrow> string \<Rightarrow> string \<Rightarrow> destination_verdict option" where
  "common_refusals rid dest fld =
     (if blank dest then
        Some (malformed rid
          (''an empty destination is not usable on any rail; on the '' @ rid @ '' rail this field is '' @ fld))
      else if looks_like_a_secret_key dest then Some (malformed rid SECRET_SEED_WARNING)
      else case looks_like_a_wallet_address dest of
        Some what \<Rightarrow>
          Some (wrong_network rid
            (''this looks like '' @ what @ '', and the '' @ rid @ '' rail does not pay to wallet addresses '' @
             ''at all '' @ em_dash @ '' it is a custodial fiat rail, and its `destination` is '' @ fld @
             ''. Nothing sent through this rail arrives at a blockchain address. If you meant to pay '' @
             ''someone on-chain, use a crypto rail (patala-solana, patala-stellar); if you '' @
             ''meant to give a customer their money back on THIS rail, that is `refund`, which '' @
             ''sends it back the way it came and needs no destination.''))
      | None \<Rightarrow> None)"

definition processor_owns_this :: "string \<Rightarrow> string" where
  "processor_owns_this rid =
     ''Beyond that nothing more can be checked offline: what this string means is the '' @ rid @
     '' processor's to decide, not patala's, and this rail can neither accept nor '' @
     ''reject it on the processor's behalf. A human must confirm it.''"

section \<open>URLs and e-mail addresses\<close>

definition parse_absolute_http_url :: "string \<Rightarrow> string + bool" where
  "parse_absolute_http_url s =
     (case (case strip_prefix ''https://'' s of
              Some r \<Rightarrow> Inr (False, r)
            | None \<Rightarrow>
                (case strip_prefix ''http://'' s of
                   Some r \<Rightarrow> Inr (True, r)
                 | None \<Rightarrow>
                     if contains_str ''://'' s
                     then Inl ''its scheme is neither http nor https; a browser cannot be redirected to it''
                     else Inl ''it has no scheme at all, so it is not an absolute URL'')) of
        Inl why \<Rightarrow> Err why
      | Inr (is_http, rest) \<Rightarrow>
          if has_whitespace_or_control s then Err ''it contains whitespace, so it is not a single URL''
          else
            let authority = hd (split_on (\<lambda>c. c = CHR ''/'' \<or> c = CHR ''?'' \<or> c = CHR ''#'') rest);
                host = last (split_on (\<lambda>c. c = CHR ''@'') authority)
            in if host = [] then Err ''it has a scheme but no host'' else Ok is_http)"

definition check_email_shape :: "string \<Rightarrow> string + unit" where
  "check_email_shape s =
     (if has_whitespace_or_control s then Err ''it contains whitespace''
      else case split_on (\<lambda>c. c = CHR ''@'') s of
        [local_part, domain_part] \<Rightarrow>
          if local_part = [] then Err ''there is nothing before the `@`''
          else if domain_part = [] then Err ''there is nothing after the `@`''
          else if CHR ''.'' \<notin> set domain_part \<or> hd domain_part = CHR ''.'' \<or> last domain_part = CHR ''.''
            then Err ''the part after the `@` is not a domain name''
          else Ok ()
      | _ \<Rightarrow> Err ''an email address has exactly one `@` and this does not'')"

section \<open>The three checks\<close>

definition redirect_url :: "string \<Rightarrow> string \<Rightarrow> destination_verdict" where
  "redirect_url rid dest =
     (let fld = ''the URL the buyer's browser returns to after checkout'' in
      case common_refusals rid dest fld of
        Some refusal \<Rightarrow> refusal
      | None \<Rightarrow>
          (case parse_absolute_http_url (trim dest) of
             Err why \<Rightarrow>
               malformed rid
                 (''the '' @ rid @ '' rail uses `destination` as '' @ fld @ '', and every processor in '' @
                  ''this crate documents that field as an absolute URL '' @ em_dash @ '' but '' @ why @
                  ''. Pass the full URL the buyer should land on, scheme and all, e.g. '' @
                  ''`https://shop.example.com/orders/1234/thanks`.'')
           | Ok insecure \<Rightarrow>
               let security_note =
                     (if insecure then
                        '' Note that this is a plain `http://` URL: processors generally accept one only in test '' @
                        ''mode, and a buyer returning from a payment over http is a real exposure '' @ em_dash @
                        '' use https in production.''
                      else [])
               in unknown rid
                 (''this is a well-formed absolute URL, which is what the '' @ rid @ '' rail sends this '' @
                  ''field as '' @ em_dash @ '' it is where the BUYER'S BROWSER lands after checkout, not an address '' @
                  ''money is sent to, so there is no payout destination here for a verdict to be about.'' @
                  security_note @ '' '' @ processor_owns_this rid)))"

definition buyer_email :: "string \<Rightarrow> string \<Rightarrow> destination_verdict" where
  "buyer_email rid dest =
     (let fld = ''the buyer's email address'' in
      case common_refusals rid dest fld of
        Some refusal \<Rightarrow> refusal
      | None \<Rightarrow>
          (case check_email_shape (trim dest) of
             Err why \<Rightarrow>
               malformed rid
                 (''the '' @ rid @ '' rail uses `destination` as '' @ fld @ '', which its processor requires '' @
                  ''to open a transaction '' @ em_dash @ '' but '' @ why @
                  ''. Pass the address the buyer's receipt should go to, e.g. `buyer@example.com`.'')
           | Ok _ \<Rightarrow>
               unknown rid
                 (''this has the shape of an email address, which is what the '' @ rid @ '' rail sends this '' @
                  ''field as '' @ em_dash @ '' it identifies the BUYER, it is not an address money is sent to, so there '' @
                  ''is no payout destination here for a verdict to be about. Whether the mailbox exists '' @
                  ''or belongs to the right person is not decidable offline either. '' @
                  processor_owns_this rid)))"

definition ignored :: "string \<Rightarrow> string \<Rightarrow> destination_verdict" where
  "ignored rid dest =
     (if blank dest then
        malformed rid
          (''an empty destination is refused by `PayRequest::validate()` on every rail, so the '' @ rid @
           '' rail cannot be charged with one '' @ em_dash @ '' even though it never reads the '' @
           ''field. Pass any non-empty placeholder.'')
      else
        unknown rid
          (''the '' @ rid @ '' rail never reads `destination` '' @ em_dash @ '' see its module docs '' @ em_dash @
           '' so this string cannot be right or wrong, and setting it steers nothing. It exists only because '' @
           ''`PayRequest::validate()` requires a non-empty one on every rail. If you expected it '' @
           ''to direct where the money goes, it does not: on this rail the processor settles to '' @
           ''the merchant account configured out of band, and giving a customer their money back '' @
           ''is `refund` (or the processor's own dashboard), never a charge to a destination.''))"

section \<open>Facts\<close>

lemma common_refusals_refuses: "common_refusals rid d fld = Some v \<Longrightarrow> is_refusal v \<and> honest_verdict rid v"
  by (auto simp: common_refusals_def split: if_splits option.splits)

lemma common_refusals_None_iff:
  "common_refusals rid d fld = None \<longleftrightarrow>
     \<not> blank d \<and> \<not> looks_like_a_secret_key d \<and> looks_like_a_wallet_address d = None"
  by (auto simp: common_refusals_def split: option.splits)

lemma fiat_verdicts_honest [simp]:
  "honest_verdict rid (redirect_url rid d)"
  "honest_verdict rid (buyer_email rid d)"
  "honest_verdict rid (ignored rid d)"
  using common_refusals_refuses
  by (auto simp: redirect_url_def buyer_email_def ignored_def Let_def split: option.splits sum.splits)

lemma fiat_verdicts_blank [simp]:
  "blank d \<Longrightarrow> is_refusal (redirect_url rid d)"
  "blank d \<Longrightarrow> is_refusal (buyer_email rid d)"
  "is_refusal (ignored rid d) = blank d"
  by (simp_all add: redirect_url_def buyer_email_def ignored_def common_refusals_def)

lemma parse_absolute_http_url_Ok:
  "parse_absolute_http_url s = Ok b \<longleftrightarrow>
     (\<exists>r. s = (if b then ''http://'' else ''https://'') @ r \<and> \<not> has_whitespace_or_control s \<and>
       last (split_on (\<lambda>c. c = CHR ''@'') (hd (split_on (\<lambda>c. c = CHR ''/'' \<or> c = CHR ''?'' \<or> c = CHR ''#'') r))) \<noteq> [])"
  by (cases "strip_prefix ''https://'' s"; cases "strip_prefix ''http://'' s")
    (auto simp: parse_absolute_http_url_def Let_def strip_prefix_Some_iff split: if_splits)

lemma check_email_shape_Ok:
  "check_email_shape s = Ok () \<longleftrightarrow>
     \<not> has_whitespace_or_control s \<and>
     (\<exists>l d. s = l @ CHR ''@'' # d \<and> CHR ''@'' \<notin> set l \<and> CHR ''@'' \<notin> set d \<and> l \<noteq> [] \<and>
       CHR ''.'' \<in> set d \<and> hd d \<noteq> CHR ''.'' \<and> last d \<noteq> CHR ''.'')"
proof -
  have two: "split_on (\<lambda>c. c = CHR ''@'') s = [l, d] \<longleftrightarrow>
      s = l @ CHR ''@'' # d \<and> CHR ''@'' \<notin> set l \<and> CHR ''@'' \<notin> set d" for l d
    by (auto simp: split_on_Cons_iff split_on_single_iff)
  show ?thesis
    unfolding two [symmetric] conj_assoc [symmetric]
    by (auto simp: check_email_shape_def two [symmetric] split: list.splits)
qed

lemma ws_head_space: "ws_head (CHR '' '' # s) = 1"
  by (cases "CHR '' '' # s" rule: ws_head.cases) (auto simp: ws1_def)

text \<open>A pasted seed with white space around it has another length, so it is not recognised.\<close>

lemma padded_seed_not_recognised:
  "looks_like_a_secret_key d \<Longrightarrow> common_refusals rid (CHR '' '' # d) fld \<noteq> Some (malformed rid SECRET_SEED_WARNING)"
proof -
  assume d: "looks_like_a_secret_key d"
  obtain c t where "d = c # t" "graphic c"
    using d by (cases d) (auto simp: looks_like_a_secret_key_def starts_with_iff graphic_def)
  then have "\<not> blank (CHR '' '' # d)"
    using not_blank_Cons [of c t] by (simp add: blank_def trim_def trim_start.simps [of "CHR '' '' # _"] ws_head_space)
  moreover have "\<not> looks_like_a_secret_key (CHR '' '' # d)"
    using d by (simp add: looks_like_a_secret_key_def)
  ultimately show ?thesis
    by (auto simp: common_refusals_def malformed_def wrong_network_def verdict_new_def split: option.splits)
qed

section \<open>Properties\<close>

text \<open>
  The redirect-URL check never accepts a destination, and it stops refusing one exactly when
  it is an absolute http or https URL: non-blank, no white space or control, a non-empty host, and
  neither a private key nor a wallet address by shape.
\<close>

theorem redirect_url_exact:
  "(dv_status (redirect_url rid d) = Unknown \<longleftrightarrow>
     looks_like_a_secret_key d = False \<and> looks_like_a_wallet_address d = None \<and>
     has_whitespace_or_control (trim d) = False \<and>
     (\<exists>r. (trim d = ''http://'' @ r \<or> trim d = ''https://'' @ r) \<and>
        last (split_on (\<lambda>c. c = CHR ''@'') (hd (split_on (\<lambda>c. c = CHR ''/'' \<or> c = CHR ''?'' \<or> c = CHR ''#'') r))) \<noteq> [])) \<and>
   is_refusal (redirect_url rid d) = (dv_status (redirect_url rid d) \<noteq> Unknown)"
proof (cases "common_refusals rid d ''the URL the buyer's browser returns to after checkout''")
  case (Some v)
  then have "is_refusal v" using common_refusals_refuses by blast
  moreover have "blank d \<or> looks_like_a_secret_key d \<or> looks_like_a_wallet_address d \<noteq> None"
    using Some common_refusals_None_iff [of rid d] by (metis option.distinct(1))
  ultimately show ?thesis
    using Some by (auto simp: redirect_url_def is_refusal_def blank_def split: destination_status.splits)
next
  case None
  have b: "\<not> blank d" "\<not> looks_like_a_secret_key d" "looks_like_a_wallet_address d = None"
    using None by (auto simp: common_refusals_None_iff)
  show ?thesis
  proof (cases "parse_absolute_http_url (trim d)")
    case (Inl why)
    then have "\<not> (\<exists>b. parse_absolute_http_url (trim d) = Ok b)" by simp
    with Inl None b show ?thesis
      unfolding parse_absolute_http_url_Ok
      by (auto simp: redirect_url_def Let_def all_bool_eq)
  next
    case (Inr h)
    from this [unfolded parse_absolute_http_url_Ok] Inr None b show ?thesis
      by (cases h) (auto simp: redirect_url_def Let_def)
  qed
qed

text \<open>
  The e-mail check never accepts a destination, and it stops refusing one exactly when the
  trimmed string has one \<open>@\<close> with something before it and a dotted name after it, no white
  space, and the shape of neither a private key nor a wallet address.
\<close>

theorem buyer_email_exact:
  "(dv_status (buyer_email rid d) = Unknown \<longleftrightarrow>
     looks_like_a_secret_key d = False \<and> looks_like_a_wallet_address d = None \<and>
     has_whitespace_or_control (trim d) = False \<and>
     (\<exists>l n. trim d = l @ CHR ''@'' # n \<and> CHR ''@'' \<notin> set (l @ n) \<and> l \<noteq> [] \<and>
        CHR ''.'' \<in> set n \<and> hd n \<noteq> CHR ''.'' \<and> last n \<noteq> CHR ''.'')) \<and>
   is_refusal (buyer_email rid d) = (dv_status (buyer_email rid d) \<noteq> Unknown)"
proof (cases "common_refusals rid d ''the buyer's email address''")
  case (Some v)
  then have "is_refusal v" using common_refusals_refuses by blast
  moreover have "blank d \<or> looks_like_a_secret_key d \<or> looks_like_a_wallet_address d \<noteq> None"
    using Some common_refusals_None_iff [of rid d] by (metis option.distinct(1))
  ultimately show ?thesis
    using Some by (auto simp: buyer_email_def is_refusal_def blank_def split: destination_status.splits)
next
  case None
  have b: "\<not> blank d" "\<not> looks_like_a_secret_key d" "looks_like_a_wallet_address d = None"
    using None by (auto simp: common_refusals_None_iff)
  show ?thesis
    using check_email_shape_Ok [of "trim d"] None b
    by (cases "check_email_shape (trim d)") (auto simp: buyer_email_def Let_def)
qed

text \<open>
  A disclosed private key is never repeated: whatever key of that shape is pasted, the URL and
  e-mail checks return one and the same refusal, so the verdict carries nothing of the key.
\<close>

theorem secret_key_never_repeated:
  assumes "looks_like_a_secret_key k" "looks_like_a_secret_key k'"
  shows "redirect_url rid k = redirect_url rid k' \<and> buyer_email rid k = buyer_email rid k' \<and>
    dv_status (redirect_url rid k) = Malformed \<and> dv_status (buyer_email rid k) = Malformed \<and>
    dv_reason (redirect_url rid k) = SECRET_SEED_WARNING"
proof -
  have "\<not> blank k" if "looks_like_a_secret_key k" for k
    using that not_blank_Cons by (cases k) (auto simp: looks_like_a_secret_key_def starts_with_iff graphic_def)
  moreover have "\<not> blank SECRET_SEED_WARNING"
    by (simp add: SECRET_SEED_WARNING_def not_blank_Cons graphic_def)
  ultimately show ?thesis
    using assms by (simp add: redirect_url_def buyer_email_def common_refusals_def Let_def malformed_def verdict_new_def)
qed

theorem secret_key_never_repeated_witness:
  "dv_reason (redirect_url ''stripe'' (replicate 56 CHR ''S'')) = SECRET_SEED_WARNING"
proof -
  have "looks_like_a_secret_key (replicate 56 CHR ''S'')" by code_simp
  from secret_key_never_repeated [OF this this, of "''stripe''"] show ?thesis by blast
qed

end
