(* ===== verification/Fiat_Manual.thy ===== *)
theory Fiat_Manual
  imports Fiat_Currency Fiat_Destination Core_Failover
begin

text \<open>
  \<open>patala-fiat/src/manual.rs\<close>: the offline rail an operator settles by hand. Its mutex-guarded map
  of records and the clock are fields of the world; each method holds the lock throughout, so it
  is one step. \<open>serde_json::to_vec\<close> of the proof, and an operator's own instructions function,
  are fields of the rail.
\<close>

definition RAIL_ID_MANUAL :: string where "RAIL_ID_MANUAL = ''manual''"

datatype manual_status = Pending | Paid | Failed

record manual_record =
  mr_reference :: string
  mr_amount_minor :: u64
  mr_currency :: string
  mr_status :: manual_status
  mr_instructions :: string
  mr_created_at_unix :: u64
  mr_marked_by :: string
  mr_marked_at_unix :: u64

record world =
  w_now :: u64
  w_manual :: "string \<rightharpoonup> manual_record"

text \<open>\<open>encode\<close>: the bytes of \<open>ManualProof { instructions }\<close>, as \<open>serde_json\<close> writes them.\<close>

record manual_rail =
  ml_instructions :: "pay_request \<Rightarrow> string result"
  ml_encode :: "string \<Rightarrow> bytes"

section \<open>Instructions\<close>

definition manual_currency_error :: "currency_error \<Rightarrow> error" where
  "manual_currency_error e = InvalidRequest (''manual: '' @ currency_error_display e)"

definition default_manual_instructions :: "pay_request \<Rightarrow> string result" where
  "default_manual_instructions req =
     rbind (map_err manual_currency_error
             (minor_to_major_string (pr_amount_minor req) (pr_currency req))) (\<lambda>major.
     rbind (map_err manual_currency_error (normalize_currency (pr_currency req))) (\<lambda>ccy.
       Ok (''Pay '' @ major @ '' '' @ ccy @ '', quoting order reference '' @ pr_reference req @
           ''. Ask the operator to confirm and mark this order paid once they've received it.'')))"

section \<open>The rail and the operator's actions\<close>

definition manual_capabilities :: rail_capabilities where
  "manual_capabilities =
     \<lparr> caps_class = CustodialReversible, reversible = False, requires_kyc = False, holds_funds = False,
       currencies = [], caps_settlement = Days 0, atomic_multi_party = False \<rparr>"

definition manual_new :: "(string \<Rightarrow> bytes) \<Rightarrow> (pay_request \<Rightarrow> string result) option \<Rightarrow> manual_rail" where
  "manual_new encode instructions_fn =
     \<lparr> ml_instructions =
         (case instructions_fn of None \<Rightarrow> default_manual_instructions | Some f \<Rightarrow> f),
       ml_encode = encode \<rparr>"

definition mark :: "string \<Rightarrow> string \<Rightarrow> manual_status \<Rightarrow> world \<Rightarrow> manual_record result \<times> world" where
  "mark reference0 marked_by0 status w =
     (let reference = trim reference0; marked_by = trim marked_by0 in
      if reference = [] then (Err (InvalidRequest ''manual: reference is required''), w)
      else if marked_by = [] then
        (Err (InvalidRequest
          ''manual: marked_by is required (this is an auditable action and needs an actor)''), w)
      else case w_manual w reference of
        None \<Rightarrow> (Err (InvalidRequest (''manual: unknown reference '' @ debug_str reference)), w)
      | Some rec \<Rightarrow>
          if status = Paid \<and> mr_status rec = Paid then (Ok rec, w)
          else
            let rec' = rec\<lparr> mr_status := status, mr_marked_by := marked_by, mr_marked_at_unix := w_now w \<rparr>
            in (Ok rec', w\<lparr> w_manual := (w_manual w)(reference \<mapsto> rec') \<rparr>))"

definition mark_paid :: "string \<Rightarrow> string \<Rightarrow> world \<Rightarrow> manual_record result \<times> world" where
  "mark_paid reference marked_by w = mark reference marked_by Paid w"

definition mark_failed :: "string \<Rightarrow> string \<Rightarrow> world \<Rightarrow> manual_record result \<times> world" where
  "mark_failed reference marked_by w = mark reference marked_by Failed w"

definition manual_record_of :: "string \<Rightarrow> world \<Rightarrow> manual_record option" where
  "manual_record_of reference w = w_manual w (trim reference)"

section \<open>The trait methods\<close>

definition manual_quote :: "pay_request \<Rightarrow> world \<Rightarrow> quote result \<times> world" where
  "manual_quote req w =
     (case rbind (pay_request_validate req) (\<lambda>_.
             map_err manual_currency_error (validate_currency (pr_currency req))) of
        Err e \<Rightarrow> (Err e, w)
      | Ok _ \<Rightarrow>
          (Ok \<lparr> q_rail_id = RAIL_ID_MANUAL, q_amount_minor = pr_amount_minor req,
                q_currency = pr_currency req, q_fee_minor = 0, q_total_minor = pr_amount_minor req,
                q_settlement = caps_settlement manual_capabilities,
                q_expires_at_unix = saturating_add_u (w_now w) 300 \<rparr>, w))"

definition manual_charge :: "manual_rail \<Rightarrow> pay_request \<Rightarrow> world \<Rightarrow> receipt result \<times> world" where
  "manual_charge m req w =
     (case rbind (pay_request_validate req) (\<lambda>_.
             map_err manual_currency_error (normalize_currency (pr_currency req))) of
        Err e \<Rightarrow> (Err e, w)
      | Ok ccy \<Rightarrow>
          (case w_manual w (pr_reference req) of
             Some existing \<Rightarrow>
               (Ok \<lparr> r_rail_id = RAIL_ID_MANUAL,
                     r_amount_minor = (if mr_status existing = Paid then mr_amount_minor existing else 0),
                     r_currency = mr_currency existing, r_reference = mr_reference existing,
                     r_proof = ml_encode m (mr_instructions existing),
                     r_settled_at_unix = mr_marked_at_unix existing \<rparr>, w)
           | None \<Rightarrow>
               (case ml_instructions m (req\<lparr> pr_currency := ccy \<rparr>) of
                  Err e \<Rightarrow> (Err e, w)
                | Ok instr \<Rightarrow>
                    if blank instr then (Err (InvalidRequest ''manual: instructions must not be empty''), w)
                    else
                      let rec = \<lparr> mr_reference = pr_reference req, mr_amount_minor = pr_amount_minor req,
                                  mr_currency = ccy, mr_status = Pending, mr_instructions = instr,
                                  mr_created_at_unix = w_now w, mr_marked_by = [], mr_marked_at_unix = 0 \<rparr>
                      in (Ok \<lparr> r_rail_id = RAIL_ID_MANUAL, r_amount_minor = 0, r_currency = ccy,
                               r_reference = pr_reference req, r_proof = ml_encode m instr,
                               r_settled_at_unix = 0 \<rparr>,
                          w\<lparr> w_manual := (w_manual w)(pr_reference req \<mapsto> rec) \<rparr>))))"

definition manual_verify :: "receipt \<Rightarrow> world \<Rightarrow> bool result \<times> world" where
  "manual_verify r w =
     (if r_rail_id r \<noteq> RAIL_ID_MANUAL then (Ok False, w)
      else case w_manual w (r_reference r) of
        None \<Rightarrow> (Ok False, w)
      | Some rec \<Rightarrow>
          if mr_status rec \<noteq> Paid then (Ok False, w)
          else if \<not> eq_ignore_ascii_case (mr_currency rec) (r_currency r) then (Ok False, w)
          else if mr_amount_minor rec < r_amount_minor r then (Ok False, w)
          else (Ok True, w))"

definition manual_payment_rail :: "manual_rail \<Rightarrow> world payment_rail" where
  "manual_payment_rail m =
     \<lparr> rail_id = RAIL_ID_MANUAL,
       capabilities = manual_capabilities,
       rail_quote = manual_quote,
       rail_charge = manual_charge m,
       rail_verify = manual_verify,
       rail_validate_destination = ignored RAIL_ID_MANUAL,
       rail_refund = default_refund,
       rail_verify_webhook = default_verify_webhook \<rparr>"

section \<open>The records\<close>

text \<open>
  What holds of every record the rail keeps: it is filed under its own reference, was made by a
  well-formed request in a currency of the table, and an order that was marked has a marker while
  a pending one has none.
\<close>

definition record_ok :: "string \<Rightarrow> manual_record \<Rightarrow> bool" where
  "record_ok ref rec \<longleftrightarrow>
     mr_reference rec = ref \<and> \<not> blank ref \<and> mr_amount_minor rec \<noteq> 0 \<and>
     normalize_currency (mr_currency rec) = Ok (mr_currency rec) \<and> \<not> blank (mr_instructions rec) \<and>
     (mr_status rec = Pending \<longrightarrow> mr_marked_by rec = [] \<and> mr_marked_at_unix rec = 0) \<and>
     (mr_status rec \<noteq> Pending \<longrightarrow> mr_marked_by rec \<noteq> [])"

definition records_ok :: "world \<Rightarrow> bool" where
  "records_ok w \<longleftrightarrow> (\<forall>ref rec. w_manual w ref = Some rec \<longrightarrow> record_ok ref rec)"

lemma manual_payment_rail_sel [simp]:
  "rail_id (manual_payment_rail m) = RAIL_ID_MANUAL"
  "capabilities (manual_payment_rail m) = manual_capabilities"
  "rail_quote (manual_payment_rail m) = manual_quote"
  "rail_charge (manual_payment_rail m) = manual_charge m"
  "rail_verify (manual_payment_rail m) = manual_verify"
  "rail_validate_destination (manual_payment_rail m) = ignored RAIL_ID_MANUAL"
  "rail_refund (manual_payment_rail m) = default_refund"
  by (simp_all add: manual_payment_rail_def)

text \<open>The two ways a charge can go: an order already on file, or a new pending one.\<close>

lemma manual_charge_cases:
  assumes "manual_charge m req w = (Ok r, w')"
  obtains (existing) rec where "well_formed_request req" "w_manual w (pr_reference req) = Some rec" "w' = w"
      "r = \<lparr> r_rail_id = RAIL_ID_MANUAL,
             r_amount_minor = (if mr_status rec = Paid then mr_amount_minor rec else 0),
             r_currency = mr_currency rec, r_reference = mr_reference rec,
             r_proof = ml_encode m (mr_instructions rec), r_settled_at_unix = mr_marked_at_unix rec \<rparr>"
    | (fresh) rec where "well_formed_request req" "w_manual w (pr_reference req) = None"
      "record_ok (pr_reference req) rec" "mr_status rec = Pending" "mr_amount_minor rec = pr_amount_minor req"
      "mr_created_at_unix rec = w_now w"
      "w' = w\<lparr> w_manual := (w_manual w)(pr_reference req \<mapsto> rec) \<rparr>"
      "r = \<lparr> r_rail_id = RAIL_ID_MANUAL, r_amount_minor = 0, r_currency = mr_currency rec,
             r_reference = pr_reference req, r_proof = ml_encode m (mr_instructions rec), r_settled_at_unix = 0 \<rparr>"
proof -
  from assms obtain ccy where wf: "well_formed_request req" and ccy: "normalize_currency (pr_currency req) = Ok ccy"
    by (auto simp: manual_charge_def validate_Ok_iff split: sum.splits)
  show thesis
  proof (cases "w_manual w (pr_reference req)")
    case (Some rec)
    with assms wf ccy existing show thesis
      by (simp add: manual_charge_def validate_Ok_iff [symmetric])
  next
    case None
    with assms wf ccy obtain instr where instr: "ml_instructions m (req\<lparr> pr_currency := ccy \<rparr>) = Ok instr" "\<not> blank instr"
      by (auto simp: manual_charge_def validate_Ok_iff [symmetric] split: sum.splits if_splits)
    define rec where "rec = \<lparr> mr_reference = pr_reference req, mr_amount_minor = pr_amount_minor req,
        mr_currency = ccy, mr_status = Pending, mr_instructions = instr,
        mr_created_at_unix = w_now w, mr_marked_by = [], mr_marked_at_unix = 0 \<rparr>"
    have "record_ok (pr_reference req) rec"
      using wf instr normalize_currency_idem [OF ccy] by (simp add: record_ok_def rec_def well_formed_request_def)
    with fresh [OF wf None] assms wf ccy None instr show thesis
      by (simp add: manual_charge_def validate_Ok_iff [symmetric] rec_def Let_def)
  qed
qed

lemma manual_charge_Err_world: "manual_charge m req w = (Err e, w') \<Longrightarrow> w' = w"
  by (auto simp: manual_charge_def Let_def split: sum.splits option.splits if_splits)

text \<open>A charge leaves every order on file as it is, and can add one for its own reference.\<close>

lemma manual_charge_frame:
  assumes "manual_charge m req w = (res, w')"
  shows "w_manual w ref = Some rec \<Longrightarrow> w_manual w' ref = Some rec"
    and "w_manual w ref = None \<Longrightarrow> w_manual w' ref = Some rec' \<Longrightarrow>
      ref = pr_reference req \<and> mr_status rec' = Pending \<and> record_ok ref rec'"
proof -
  have same: "w' = w" if "res = Err e" for e
    using assms that manual_charge_Err_world by simp
  show "w_manual w' ref = Some rec" if "w_manual w ref = Some rec"
    using assms that same by (cases res) (auto elim!: manual_charge_cases)
  show "ref = pr_reference req \<and> mr_status rec' = Pending \<and> record_ok ref rec'"
    if "w_manual w ref = None" "w_manual w' ref = Some rec'"
    using assms that same by (cases res) (auto elim!: manual_charge_cases split: if_splits)
qed

lemma manual_charge_records_ok: "records_ok w \<Longrightarrow> manual_charge m req w = (res, w') \<Longrightarrow> records_ok w'"
  unfolding records_ok_def using manual_charge_frame by (metis option.exhaust option.inject)

text \<open>The operator's action touches one order only.\<close>

lemma mark_cases:
  assumes "mark reference marked_by status w = (res, w')"
  obtains (refused) e where "res = Err e" "w' = w"
    | (again) rec where "w_manual w (trim reference) = Some rec" "status = Paid" "mr_status rec = Paid"
        "res = Ok rec" "w' = w"
    | (marked) rec rec' where "w_manual w (trim reference) = Some rec" "\<not> blank marked_by"
        "status = Paid \<Longrightarrow> mr_status rec \<noteq> Paid"
        "rec' = rec\<lparr> mr_status := status, mr_marked_by := trim marked_by, mr_marked_at_unix := w_now w \<rparr>"
        "res = Ok rec'" "w' = w\<lparr> w_manual := (w_manual w)(trim reference \<mapsto> rec') \<rparr>"
proof (cases "trim reference = [] \<or> trim marked_by = [] \<or> w_manual w (trim reference) = None")
  case True
  with assms refused show thesis by (auto simp: mark_def Let_def split: if_splits)
next
  case False
  then obtain rec where rec: "w_manual w (trim reference) = Some rec" by blast
  have ne: "trim reference \<noteq> []" "trim marked_by \<noteq> []" using False by auto
  let ?rec' = "rec\<lparr> mr_status := status, mr_marked_by := trim marked_by, mr_marked_at_unix := w_now w \<rparr>"
  show thesis
  proof (cases "status = Paid \<and> mr_status rec = Paid")
    case True
    then have "res = Ok rec" "w' = w" using assms rec ne by (simp_all add: mark_def Let_def)
    with again rec True show thesis by blast
  next
    case paid: False
    have "(res, w') = (Ok ?rec', w\<lparr> w_manual := (w_manual w)(trim reference \<mapsto> ?rec') \<rparr>)"
      using assms rec ne paid by (simp only: mark_def Let_def option.case if_False)
    then show thesis using marked [OF rec] ne paid by (simp add: blank_def)
  qed
qed

lemma mark_records_ok:
  assumes "records_ok w" "mark reference marked_by status w = (res, w')" "status \<noteq> Pending"
  shows "records_ok w'"
  using assms(2)
proof (cases rule: mark_cases)
  case (marked rec rec')
  then have "record_ok (trim reference) rec" "trim marked_by \<noteq> []"
    using assms(1) by (auto simp: records_ok_def blank_def)
  then have "record_ok (trim reference) rec'"
    using assms(3) marked by (simp add: record_ok_def)
  with marked assms(1) show ?thesis by (simp add: records_ok_def)
qed (use assms in auto)

text \<open>The rail meets the contract as long as its records are in order.\<close>

lemma manual_quote_world: "manual_quote req w = (res, w') \<Longrightarrow> w' = w"
  by (auto simp: manual_quote_def split: sum.splits)

interpretation manual: final_rail "manual_payment_rail m" records_ok
  for m
proof unfold_locales
  fix w req r w'
  assume "records_ok w" "rail_charge (manual_payment_rail m) req w = (Ok r, w')"
  then show "r_rail_id r = rail_id (manual_payment_rail m)" "r_reference r = pr_reference req"
    by (auto simp: records_ok_def record_ok_def elim!: manual_charge_cases)
next
  fix req w q w'
  assume "rail_quote (manual_payment_rail m) req w = (Ok q, w')"
  then show "q_rail_id q = rail_id (manual_payment_rail m) \<and> q_amount_minor q = pr_amount_minor req"
    "q_currency q = pr_currency req"
    by (auto simp: manual_quote_def split: sum.splits)
next
  fix w req qres w'
  assume "records_ok w" "rail_quote (manual_payment_rail m) req w = (qres, w')"
  then show "records_ok w'" by (auto dest: manual_quote_world)
qed (auto simp: manual_quote_def manual_charge_def manual_verify_def default_refund_def
      intro: manual_charge_records_ok)

section \<open>The rail over time\<close>

text \<open>
  What can happen to the rail's state: a charge, an operator's action, or time passing. Quotes,
  verifications and reads change nothing.
\<close>

inductive manual_step :: "manual_rail \<Rightarrow> world \<Rightarrow> world \<Rightarrow> bool" for m where
  step_charge: "manual_charge m req w = (res, w') \<Longrightarrow> manual_step m w w'"
| step_paid: "mark_paid reference marked_by w = (mres, w') \<Longrightarrow> manual_step m w w'"
| step_failed: "mark_failed reference marked_by w = (mres, w') \<Longrightarrow> manual_step m w w'"
| step_time: "manual_step m w (w\<lparr> w_now := t \<rparr>)"

definition manual_initial :: "u64 \<Rightarrow> world" where
  "manual_initial t = \<lparr> w_now = t, w_manual = Map.empty \<rparr>"

lemma manual_step_records_ok: "manual_step m w w' \<Longrightarrow> records_ok w \<Longrightarrow> records_ok w'"
proof (induction rule: manual_step.induct)
  case (step_charge req w res w')
  then show ?case using manual_charge_records_ok by blast
next
  case (step_paid reference marked_by w mres w')
  then show ?case by (auto simp: mark_paid_def intro: mark_records_ok)
next
  case (step_failed reference marked_by w mres w')
  then show ?case by (auto simp: mark_failed_def intro: mark_records_ok)
qed (simp add: records_ok_def)

lemma manual_steps_records_ok: "(manual_step m)\<^sup>*\<^sup>* w w' \<Longrightarrow> records_ok w \<Longrightarrow> records_ok w'"
proof (induction rule: rtranclp_induct)
  case (step y z)
  then show ?case using manual_step_records_ok by blast
qed

lemma records_ok_initial: "records_ok (manual_initial t)"
  by (simp add: records_ok_def manual_initial_def)

text \<open>What an order was opened with never changes; only its status and its audit fields do.\<close>

definition same_order :: "manual_record \<Rightarrow> manual_record \<Rightarrow> bool" where
  "same_order a b \<longleftrightarrow>
     mr_reference a = mr_reference b \<and> mr_amount_minor a = mr_amount_minor b \<and>
     mr_currency a = mr_currency b \<and> mr_instructions a = mr_instructions b \<and>
     mr_created_at_unix a = mr_created_at_unix b"

lemma same_order_refl [simp]: "same_order a a"
  by (simp add: same_order_def)

lemma mark_same_order:
  assumes "mark reference marked_by status w = (res, w')" "w_manual w ref = Some rec"
  shows "\<exists>rec'. w_manual w' ref = Some rec' \<and> same_order rec rec'"
  using assms(1)
proof (cases rule: mark_cases)
  case (refused e)
  then show ?thesis using assms(2) same_order_refl by blast
next
  case (again rec0)
  then show ?thesis using assms(2) same_order_refl by blast
next
  case (marked rec0 rec1)
  show ?thesis
  proof (cases "ref = trim reference")
    case True
    with marked assms(2) have "w_manual w' ref = Some rec1" "same_order rec rec1"
      by (simp_all add: same_order_def)
    then show ?thesis by blast
  next
    case False
    with marked assms(2) have "w_manual w' ref = Some rec" by simp
    then show ?thesis using same_order_refl by blast
  qed
qed

lemma manual_step_same_order:
  "manual_step m w w' \<Longrightarrow> w_manual w ref = Some rec \<Longrightarrow> \<exists>rec'. w_manual w' ref = Some rec' \<and> same_order rec rec'"
proof (induction rule: manual_step.induct)
  case (step_charge req w res w')
  then have "w_manual w' ref = Some rec" using manual_charge_frame(1) by blast
  then show ?case using same_order_refl by blast
next
  case (step_paid reference marked_by w mres w')
  then show ?case unfolding mark_paid_def by (rule mark_same_order)
next
  case (step_failed reference marked_by w mres w')
  then show ?case unfolding mark_failed_def by (rule mark_same_order)
qed (simp add: same_order_def)

lemma same_order_trans: "same_order a b \<Longrightarrow> same_order b c \<Longrightarrow> same_order a c"
  by (simp add: same_order_def)

lemma manual_steps_same_order:
  "(manual_step m)\<^sup>*\<^sup>* w w' \<Longrightarrow> w_manual w ref = Some rec \<Longrightarrow>
     \<exists>rec'. w_manual w' ref = Some rec' \<and> same_order rec rec'"
proof (induction rule: rtranclp_induct)
  case (step y z)
  then obtain rec' where "w_manual y ref = Some rec'" "same_order rec rec'" by blast
  with step.hyps(2) show ?case using manual_step_same_order same_order_trans by blast
qed simp

text \<open>A reference with white space around it is on file under a name no action can reach.\<close>

lemma mark_other:
  assumes "mark reference marked_by status w = (res, w')" "trim reference \<noteq> ref"
  shows "w_manual w' ref = w_manual w ref"
  using assms(1)
proof (cases rule: mark_cases)
  case (marked rec rec')
  then show ?thesis using assms(2) by simp
qed simp_all

definition never_marked :: "string \<Rightarrow> world \<Rightarrow> bool" where
  "never_marked ref w \<longleftrightarrow> (case w_manual w ref of None \<Rightarrow> True | Some rec \<Rightarrow> mr_status rec = Pending)"

lemma manual_step_never_marked:
  "manual_step m w w' \<Longrightarrow> (\<And>t. trim t \<noteq> ref) \<Longrightarrow> never_marked ref w \<Longrightarrow> never_marked ref w'"
proof (induction rule: manual_step.induct)
  case (step_charge req w res w')
  show ?case
  proof (cases "w_manual w ref")
    case None
    then show ?thesis
      using manual_charge_frame(2) [OF step_charge.hyps None] by (auto simp: never_marked_def split: option.split)
  next
    case (Some rec)
    with manual_charge_frame(1) [OF step_charge.hyps Some] step_charge.prems show ?thesis
      by (simp add: never_marked_def)
  qed
next
  case (step_paid reference marked_by w mres w')
  then have "w_manual w' ref = w_manual w ref" unfolding mark_paid_def using mark_other by blast
  with step_paid.prems show ?case by (simp add: never_marked_def)
next
  case (step_failed reference marked_by w mres w')
  then have "w_manual w' ref = w_manual w ref" unfolding mark_failed_def using mark_other by blast
  with step_failed.prems show ?case by (simp add: never_marked_def)
qed (simp add: never_marked_def)

lemma manual_steps_never_marked:
  assumes "(manual_step m)\<^sup>*\<^sup>* w w'" "trim ref \<noteq> ref" "never_marked ref w"
  shows "never_marked ref w'"
  using assms(1)
proof (induction rule: rtranclp_induct)
  case (step y z)
  have "trim t \<noteq> ref" for t using assms(2) trim_idem by metis
  with step show ?case using manual_step_never_marked by blast
qed (rule assms(3))

text \<open>Verification reads one record.\<close>

lemma manual_verify_True_iff:
  "manual_verify r w = (Ok True, w') \<longleftrightarrow>
     w' = w \<and> r_rail_id r = RAIL_ID_MANUAL \<and>
     (\<exists>rec. w_manual w (r_reference r) = Some rec \<and> mr_status rec = Paid \<and>
        eq_ignore_ascii_case (mr_currency rec) (r_currency r) \<and> r_amount_minor r \<le> mr_amount_minor rec)"
  by (auto simp: manual_verify_def not_less split: option.splits)

lemma manual_verify_total: "manual_verify r w = (Ok True, w) \<or> manual_verify r w = (Ok False, w)"
  by (auto simp: manual_verify_def split: option.splits)

lemma manual_verify_cong:
  "w_manual w' (r_reference r) = w_manual w (r_reference r) \<Longrightarrow>
     manual_verify r w = (Ok True, w) \<longleftrightarrow> manual_verify r w' = (Ok True, w')"
  by (simp add: manual_verify_True_iff)

section \<open>Properties\<close>

text \<open>
  C15: whatever sequence of charges, operator actions and clock readings the rail goes through,
  its records stay in order: each is filed under its own reference with a non-zero amount, a
  currency of the table and instructions, and carries a marker exactly when it was marked.
\<close>

theorem manual_records_invariant:
  assumes "(manual_step m)\<^sup>*\<^sup>* (manual_initial t) w" "w_manual w ref = Some rec"
  shows "record_ok ref rec"
  using manual_steps_records_ok [OF assms(1) records_ok_initial] assms(2) by (simp add: records_ok_def)

text \<open>
  C16: money counts as received only by an operator's say-so. If one step makes a receipt verify
  that did not verify before, that step is a successful \<open>mark_paid\<close> of that very reference with a
  non-blank marker.
\<close>

theorem manual_paid_only_by_operator:
  assumes step: "manual_step m w w'"
    and before: "manual_verify r w = (Ok False, w)" and after: "manual_verify r w' = (Ok True, w')"
  shows "\<exists>reference marked_by rec. trim reference = r_reference r \<and> \<not> blank marked_by \<and>
    mark_paid reference marked_by w = (Ok rec, w')"
proof -
  have changed: "w_manual w' (r_reference r) \<noteq> w_manual w (r_reference r)"
    using manual_verify_cong [of w' r w] before after by auto
  from after obtain rec' where rec': "w_manual w' (r_reference r) = Some rec'" "mr_status rec' = Paid"
    by (auto simp: manual_verify_True_iff)
  from step show ?thesis
  proof (cases rule: manual_step.cases)
    case (step_charge req res)
    with changed rec' manual_charge_frame [OF step_charge] show ?thesis
      by (cases "w_manual w (r_reference r)") auto
  next
    case (step_paid reference marked_by mres)
    then have mk: "mark reference marked_by Paid w = (mres, w')" by (simp add: mark_paid_def)
    then have ref: "trim reference = r_reference r" using changed mark_other by blast
    from mk show ?thesis
    proof (cases rule: mark_cases)
      case (marked rec0 rec1)
      with mk ref show ?thesis unfolding mark_paid_def by blast
    qed (use changed in auto)
  next
    case (step_failed reference marked_by mres)
    then have mk: "mark reference marked_by Failed w = (mres, w')" by (simp add: mark_failed_def)
    then have ref: "trim reference = r_reference r" using changed mark_other by blast
    from mk show ?thesis
    proof (cases rule: mark_cases)
      case (marked rec0 rec1)
      then have "w_manual w' (r_reference r) = Some rec1" "mr_status rec1 = Failed" using ref by simp_all
      with rec' show ?thesis by simp
    qed (use changed in auto)
  next
    case (step_time t)
    with changed show ?thesis by simp
  qed
qed

text \<open>
  The life of an order. A receipt of a new order does not verify; whatever happens in between,
  an operator's \<open>mark_paid\<close> of its reference then makes that same receipt verify, and a later
  \<open>mark_failed\<close> makes it stop.
\<close>

theorem manual_order_life:
  assumes ok: "records_ok w0"
    and ch: "manual_charge m req w0 = (Ok r, w1)"
    and between: "(manual_step m)\<^sup>*\<^sup>* w1 w2"
    and trimmed: "trim (pr_reference req) = pr_reference req"
    and paid: "mark_paid (pr_reference req) by1 w2 = (Ok rec, w3)"
  shows "(w_manual w0 (pr_reference req) = None \<longrightarrow> manual_verify r w1 = (Ok False, w1)) \<and>
    manual_verify r w3 = (Ok True, w3) \<and>
    (\<forall>by2 rec' w4. mark_failed (pr_reference req) by2 w3 = (Ok rec', w4) \<longrightarrow> manual_verify r w4 = (Ok False, w4))"
proof (intro conjI impI allI)
  let ?ref = "pr_reference req"
  have r: "r_rail_id r = RAIL_ID_MANUAL" "r_reference r = ?ref"
    using manual.charge_receipt [of w0 m req r w1] ok ch by simp_all
  obtain rec1 where rec1: "w_manual w1 ?ref = Some rec1" "r_currency r = mr_currency rec1"
      "r_amount_minor r \<le> mr_amount_minor rec1"
      "w_manual w0 ?ref = None \<longrightarrow> mr_status rec1 = Pending"
    using ch by (cases rule: manual_charge_cases) auto
  show "manual_verify r w1 = (Ok False, w1)" if "w_manual w0 ?ref = None"
    using that rec1 r manual_verify_total [of r w1] by (auto simp: manual_verify_True_iff)
  obtain rec2 where rec2: "w_manual w2 ?ref = Some rec2" "same_order rec1 rec2"
    using manual_steps_same_order [OF between rec1(1)] by blast
  have mk: "mark ?ref by1 Paid w2 = (Ok rec, w3)" using paid by (simp add: mark_paid_def)
  then have rec3: "w_manual w3 ?ref = Some rec \<and> mr_status rec = Paid \<and> same_order rec1 rec"
    by (cases rule: mark_cases) (use rec2 trimmed in \<open>auto simp: same_order_def\<close>)
  then show "manual_verify r w3 = (Ok True, w3)"
    using rec1 r by (simp add: manual_verify_True_iff same_order_def eq_ignore_ascii_case_def)
  show "manual_verify r w4 = (Ok False, w4)" if "mark_failed ?ref by2 w3 = (Ok rec', w4)" for by2 rec' w4
  proof -
    have "mark ?ref by2 Failed w3 = (Ok rec', w4)" using that by (simp add: mark_failed_def)
    then have "w_manual w4 ?ref = Some rec' \<and> mr_status rec' = Failed"
      by (cases rule: mark_cases) (use trimmed in auto)
    then show ?thesis
      using r manual_verify_total [of r w4] by (auto simp: manual_verify_True_iff)
  qed
qed

text \<open>
  Retrying a charge for a reference that is on file is idempotent at any later time: it
  changes nothing, and its receipt has the same instructions, currency and reference.
\<close>

theorem manual_charge_idempotent:
  assumes ok: "records_ok w0"
    and first: "manual_charge m req w0 = (Ok r, w1)" and between: "(manual_step m)\<^sup>*\<^sup>* w1 w2"
    and again: "manual_charge m req' w2 = (Ok r', w3)" "pr_reference req' = pr_reference req"
  shows "w3 = w2 \<and> r_proof r' = r_proof r \<and> r_currency r' = r_currency r \<and> r_reference r' = r_reference r"
proof -
  obtain rec1 where rec1: "w_manual w1 (pr_reference req) = Some rec1" "r_currency r = mr_currency rec1"
      "r_proof r = ml_encode m (mr_instructions rec1)" "r_reference r = mr_reference rec1"
    using first ok by (cases rule: manual_charge_cases) (auto simp: record_ok_def)
  obtain rec2 where rec2: "w_manual w2 (pr_reference req) = Some rec2" "same_order rec1 rec2"
    using manual_steps_same_order [OF between rec1(1)] by blast
  from again(1) show ?thesis
    by (cases rule: manual_charge_cases) (use rec1 rec2 again(2) in \<open>auto simp: same_order_def\<close>)
qed

text \<open>
  An order whose reference has white space around it can never be paid. Such a charge is
  accepted and filed under the reference as written, but the operator's actions trim theirs, so in
  every state the rail can reach the receipt does not verify.
\<close>

theorem manual_padded_reference_never_verifies:
  assumes "(manual_step m)\<^sup>*\<^sup>* (manual_initial t) w" "trim (r_reference r) \<noteq> r_reference r"
  shows "manual_verify r w = (Ok False, w)"
proof -
  have "never_marked (r_reference r) w"
    by (rule manual_steps_never_marked [OF assms]) (simp add: never_marked_def manual_initial_def)
  then show ?thesis
    using manual_verify_total [of r w]
    by (auto simp: manual_verify_True_iff never_marked_def split: option.splits)
qed

text \<open>
  The audit trail keeps the first \<open>mark_paid\<close>, whoever repeats it and whenever; a repeated
  \<open>mark_failed\<close> overwrites the marker and the time of the first.
\<close>

theorem manual_audit_trail:
  assumes "mark_paid ref by1 w = (Ok rec1, w1)" "mark_failed ref by3 w = (Ok rec3, w3)"
    and "trim ref' = trim ref" "\<not> blank by2"
  shows "mark_paid ref' by2 (w1\<lparr> w_now := t \<rparr>) = (Ok rec1, w1\<lparr> w_now := t \<rparr>) \<and>
    fst (mark_failed ref' by2 (w3\<lparr> w_now := t \<rparr>)) =
      Ok (rec3\<lparr> mr_marked_by := trim by2, mr_marked_at_unix := t \<rparr>)"
proof -
  have "mark ref by1 Paid w = (Ok rec1, w1)" using assms by (simp add: mark_paid_def)
  then have 1: "w_manual w1 (trim ref) = Some rec1 \<and> mr_status rec1 = Paid \<and> trim ref \<noteq> []"
    by (cases rule: mark_cases) (use assms in \<open>auto simp: mark_paid_def mark_def Let_def split: if_splits\<close>)
  have "mark ref by3 Failed w = (Ok rec3, w3)" using assms by (simp add: mark_failed_def)
  then have 3: "w_manual w3 (trim ref) = Some rec3 \<and> mr_status rec3 = Failed \<and> trim ref \<noteq> []"
    by (cases rule: mark_cases) (use assms in \<open>auto simp: mark_failed_def mark_def Let_def split: if_splits\<close>)
  from 1 3 show ?thesis
    using assms(3,4) by (simp add: mark_paid_def mark_failed_def mark_def blank_def Let_def)
qed

section \<open>The properties at a concrete order\<close>

definition demo_manual :: manual_rail where
  "demo_manual = manual_new as_bytes (Some (\<lambda>_. Ok ''Pay cash''))"

definition demo_order :: "string \<Rightarrow> pay_request" where
  "demo_order ref = \<lparr> pr_amount_minor = 500, pr_currency = ''usd'', pr_destination = ''x'', pr_reference = ref \<rparr>"

definition demo_pending :: "string \<Rightarrow> manual_record" where
  "demo_pending ref = \<lparr> mr_reference = ref, mr_amount_minor = 500, mr_currency = ''USD'', mr_status = Pending,
     mr_instructions = ''Pay cash'', mr_created_at_unix = 7, mr_marked_by = [], mr_marked_at_unix = 0 \<rparr>"

definition demo_manual_receipt :: "string \<Rightarrow> receipt" where
  "demo_manual_receipt ref = \<lparr> r_rail_id = RAIL_ID_MANUAL, r_amount_minor = 0, r_currency = ''USD'',
     r_reference = ref, r_proof = as_bytes ''Pay cash'', r_settled_at_unix = 0 \<rparr>"

lemma normalize_usd: "normalize_currency ''usd'' = Ok ''USD''"
  using exponent_USD by (auto simp: exponent_def normalize_currency_def lookup_currency_Ok_iff trim_graphic
      graphic_def upper_usd)

lemma demo_manual_charge:
  assumes "\<not> blank ref"
  shows "manual_charge demo_manual (demo_order ref) (manual_initial 7) =
    (Ok (demo_manual_receipt ref), (manual_initial 7)\<lparr> w_manual := [ref \<mapsto> demo_pending ref] \<rparr>)"
proof -
  have "\<not> blank ''Pay cash''" "\<not> blank ''usd''" "\<not> blank ''x''"
    by (simp_all add: not_blank_Cons graphic_def)
  then show ?thesis using assms
    by (simp add: manual_charge_def demo_order_def pay_request_validate_def normalize_usd manual_initial_def
        demo_manual_def manual_new_def demo_manual_receipt_def demo_pending_def Let_def)
qed

abbreviation (input) demo_w1 :: world where
  "demo_w1 \<equiv> (manual_initial 7)\<lparr> w_manual := [''A1'' \<mapsto> demo_pending ''A1''] \<rparr>"

lemma demo_trim: "trim ''A1'' = ''A1''" "trim ''bo'' = ''bo''" "\<not> blank ''bo''" "\<not> blank ''A1''" "trim '' A1'' = ''A1''"
  by (simp_all add: trim_graphic not_blank_graphic graphic_def) code_simp

definition demo_paid :: manual_record where
  "demo_paid = (demo_pending ''A1'')\<lparr> mr_status := Paid, mr_marked_by := ''bo'', mr_marked_at_unix := 7 \<rparr>"

definition demo_failed :: manual_record where
  "demo_failed = (demo_pending ''A1'')\<lparr> mr_status := Failed, mr_marked_by := ''bo'', mr_marked_at_unix := 7 \<rparr>"

lemma demo_mark:
  "mark_paid ''A1'' ''bo'' demo_w1 = (Ok demo_paid, demo_w1\<lparr> w_manual := [''A1'' \<mapsto> demo_paid] \<rparr>)"
  "mark_failed ''A1'' ''bo'' demo_w1 = (Ok demo_failed, demo_w1\<lparr> w_manual := [''A1'' \<mapsto> demo_failed] \<rparr>)"
  by (simp_all add: mark_paid_def mark_failed_def mark_def demo_trim Let_def demo_pending_def demo_paid_def
      demo_failed_def manual_initial_def)

lemma demo_charge_step: "manual_step demo_manual (manual_initial 7) demo_w1"
  by (rule step_charge [OF demo_manual_charge]) (simp add: demo_trim)

theorem manual_records_invariant_witness: "record_ok ''A1'' (demo_pending ''A1'')"
  by (rule manual_records_invariant [of demo_manual 7 demo_w1])
    (intro r_into_rtranclp demo_charge_step, simp)

theorem manual_paid_only_by_operator_witness:
  "\<exists>reference marked_by rec. trim reference = ''A1'' \<and> \<not> blank marked_by \<and>
     mark_paid reference marked_by demo_w1 = (Ok rec, demo_w1\<lparr> w_manual := [''A1'' \<mapsto> demo_paid] \<rparr>)"
  using manual_paid_only_by_operator [OF step_paid [OF demo_mark(1)], of "demo_manual_receipt ''A1''"]
  by (simp add: manual_verify_def demo_manual_receipt_def demo_paid_def demo_pending_def manual_initial_def
      eq_ignore_ascii_case_def)

theorem manual_order_life_witness:
  "manual_verify (demo_manual_receipt ''A1'') demo_w1 = (Ok False, demo_w1) \<and>
   manual_verify (demo_manual_receipt ''A1'') (demo_w1\<lparr> w_manual := [''A1'' \<mapsto> demo_paid] \<rparr>) =
     (Ok True, demo_w1\<lparr> w_manual := [''A1'' \<mapsto> demo_paid] \<rparr>)"
proof -
  have ref: "trim (pr_reference (demo_order ''A1'')) = pr_reference (demo_order ''A1'')"
    by (simp add: demo_order_def demo_trim)
  have paid: "mark_paid (pr_reference (demo_order ''A1'')) ''bo'' demo_w1 =
      (Ok demo_paid, demo_w1\<lparr> w_manual := [''A1'' \<mapsto> demo_paid] \<rparr>)"
    using demo_mark(1) by (simp add: demo_order_def)
  from manual_order_life [OF records_ok_initial demo_manual_charge [OF demo_trim(4)] rtranclp.rtrancl_refl ref paid]
  show ?thesis by (simp add: demo_order_def manual_initial_def)
qed

theorem manual_charge_idempotent_witness:
  "snd (manual_charge demo_manual (demo_order ''A1'') demo_w1) = demo_w1"
proof -
  have "manual_charge demo_manual (demo_order ''A1'') demo_w1 = (Ok (demo_manual_receipt ''A1''), demo_w1)"
    using demo_manual_charge [of "''A1''"]
    by (simp add: manual_charge_def demo_order_def manual_initial_def demo_trim demo_manual_receipt_def
        demo_pending_def demo_manual_def manual_new_def split: sum.splits)
  with manual_charge_idempotent [OF records_ok_initial demo_manual_charge rtranclp.rtrancl_refl this]
  show ?thesis by (simp add: demo_trim)
qed

theorem manual_padded_reference_never_verifies_witness:
  "manual_verify (demo_manual_receipt '' A1'') ((manual_initial 7)\<lparr> w_manual := ['' A1'' \<mapsto> demo_pending '' A1''] \<rparr>) =
     (Ok False, (manual_initial 7)\<lparr> w_manual := ['' A1'' \<mapsto> demo_pending '' A1''] \<rparr>)"
proof (rule manual_padded_reference_never_verifies)
  have "\<not> blank '' A1''" by (simp add: blank_def demo_trim)
  then show "(manual_step demo_manual)\<^sup>*\<^sup>* (manual_initial 7)
      ((manual_initial 7)\<lparr> w_manual := ['' A1'' \<mapsto> demo_pending '' A1''] \<rparr>)"
    by (intro r_into_rtranclp step_charge [OF demo_manual_charge])
qed (simp add: demo_manual_receipt_def demo_trim)

theorem manual_audit_trail_witness:
  "mark_paid '' A1'' ''bo'' (demo_w1\<lparr> w_manual := [''A1'' \<mapsto> demo_paid], w_now := 9 \<rparr>) =
     (Ok demo_paid, demo_w1\<lparr> w_manual := [''A1'' \<mapsto> demo_paid], w_now := 9 \<rparr>)"
  using manual_audit_trail [OF demo_mark, of "'' A1''" "''bo''" 9] by (simp add: demo_trim)

end
