(* ===== verification/Fiat_Registry.thy ===== *)
theory Fiat_Registry
  imports Fiat_Manual "HOL-Library.List_Lexorder" "HOL-Library.Char_ord"
begin

text \<open>
  \<open>patala-fiat/src/registry.rs\<close>: the registry of rails by id, with the enablement allowlist read
  from the environment and the selection by id, currency and settlement class. The \<open>HashMap\<close> is
  its list of entries, in some order: every operation that enumerates it sorts. Rust orders
  \<open>String\<close>s by their bytes, which is the lexicographic order of char lists.
\<close>

datatype registry_error =
    RailNotFound string
  | RailDisabled string
  | CurrencyNotSupported string string
  | EmptyRailId
  | AlreadyRegistered string

record capability_filter =
  cf_currency :: "string option"
  cf_class :: "rail_class option"

definition supports_currency :: "rail_capabilities \<Rightarrow> string \<Rightarrow> bool" where
  "supports_currency caps ccy =
     (if currencies caps = [] then True else list_ex (\<lambda>c. eq_ignore_ascii_case c ccy) (currencies caps))"

record 'w registry =
  reg_rails :: "(string \<times> 'w payment_rail) list"
  reg_enabled :: "string set option"

definition registry_new :: "'w registry" where
  "registry_new = \<lparr> reg_rails = [], reg_enabled = None \<rparr>"

text \<open>The loop of \<open>from_env\<close>: \<open>set\<close> and \<open>any\<close> are its mutable locals.\<close>

fun env_loop :: "string list \<Rightarrow> string set \<Rightarrow> bool \<Rightarrow> string set \<times> bool" where
  "env_loop [] names found = (names, found)"
| "env_loop (part # parts) names found =
     (let name = to_ascii_lowercase (trim part) in
      if name = [] then env_loop parts names found
      else env_loop parts (insert name names) True)"

definition from_env :: "string \<Rightarrow> 'w registry" where
  "from_env env =
     (let (names, found) = env_loop (split_on (\<lambda>c. c = CHR '','') env) {} False
      in \<lparr> reg_rails = [],
           reg_enabled = (if found then Some (insert RAIL_ID_MANUAL names) else None) \<rparr>)"

definition get_rail :: "'w registry \<Rightarrow> string \<Rightarrow> 'w payment_rail option" where
  "get_rail reg name = map_of (reg_rails reg) name"

definition register :: "'w registry \<Rightarrow> 'w payment_rail \<Rightarrow> (registry_error + unit) \<times> 'w registry" where
  "register reg R =
     (let name = trim (rail_id R) in
      if name = [] then (Err EmptyRailId, reg)
      else if get_rail reg name \<noteq> None then (Err (AlreadyRegistered name), reg)
      else (Ok (), reg\<lparr> reg_rails := (name, R) # reg_rails reg \<rparr>))"

definition registry_names :: "'w registry \<Rightarrow> string list" where
  "registry_names reg = sort (map fst (reg_rails reg))"

definition is_enabled :: "'w registry \<Rightarrow> string \<Rightarrow> bool" where
  "is_enabled reg name =
     (if name = RAIL_ID_MANUAL then True
      else case reg_enabled reg of None \<Rightarrow> True | Some names \<Rightarrow> to_ascii_lowercase name \<in> names)"

definition list_rails :: "'w registry \<Rightarrow> capability_filter \<Rightarrow> 'w payment_rail list" where
  "list_rails reg f =
     filter (\<lambda>R. case cf_class f of Some c \<Rightarrow> caps_class (capabilities R) = c | None \<Rightarrow> True)
       (filter (\<lambda>R. case cf_currency f of Some ccy \<Rightarrow> supports_currency (capabilities R) ccy | None \<Rightarrow> True)
         (filter (\<lambda>R. is_enabled reg (rail_id R))
           (sort_key rail_id (map snd (reg_rails reg)))))"

definition select_rail :: "'w registry \<Rightarrow> string \<Rightarrow> string option \<Rightarrow> registry_error + 'w payment_rail" where
  "select_rail reg name currency =
     rbind (ok_or (RailNotFound name) (get_rail reg name)) (\<lambda>R.
       if \<not> is_enabled reg name then Err (RailDisabled name)
       else case currency of
         Some ccy \<Rightarrow>
           if \<not> supports_currency (capabilities R) ccy then Err (CurrencyNotSupported name ccy) else Ok R
       | None \<Rightarrow> Ok R)"

section \<open>The registry's invariant\<close>

definition registry_ok :: "'w registry \<Rightarrow> bool" where
  "registry_ok reg \<longleftrightarrow>
     distinct (map fst (reg_rails reg)) \<and>
     (\<forall>(name, R) \<in> set (reg_rails reg). name = trim (rail_id R) \<and> name \<noteq> [])"

lemma registry_ok_new [simp]: "registry_ok registry_new" "registry_ok (from_env env)"
  by (simp_all add: registry_ok_def registry_new_def from_env_def split: prod.split)

lemma get_rail_iff: "registry_ok reg \<Longrightarrow> get_rail reg n = Some R \<longleftrightarrow> (n, R) \<in> set (reg_rails reg)"
  by (simp add: registry_ok_def get_rail_def)

lemma registry_ok_entry: "registry_ok reg \<Longrightarrow> get_rail reg n = Some R \<Longrightarrow> n = trim (rail_id R) \<and> n \<noteq> []"
  by (auto simp: get_rail_iff registry_ok_def)

lemma register_Ok:
  assumes "register reg R = (Ok (), reg')"
  shows "reg' = reg\<lparr> reg_rails := (trim (rail_id R), R) # reg_rails reg \<rparr>"
    "trim (rail_id R) \<noteq> []" "get_rail reg (trim (rail_id R)) = None"
  using assms by (auto simp: register_def Let_def split: if_splits)

lemma register_Err: "register reg R = (Err e, reg') \<Longrightarrow> reg' = reg"
  by (auto simp: register_def Let_def split: if_splits)

lemma register_ok:
  assumes "registry_ok reg" "register reg R = (res, reg')"
  shows "registry_ok reg'"
proof (cases res)
  case (Inr u)
  then have "register reg R = (Ok (), reg')" using assms(2) by simp
  from register_Ok [OF this] assms(1) show ?thesis
    by (auto simp: registry_ok_def get_rail_def map_of_eq_None_iff)
qed (use assms register_Err in blast)

text \<open>What the environment's list enables.\<close>

lemma env_loop_eq:
  "env_loop parts names found =
     (names \<union> {to_ascii_lowercase (trim p) | p. p \<in> set parts \<and> \<not> blank p},
      found \<or> (\<exists>p \<in> set parts. \<not> blank p))"
proof (induction parts names found rule: env_loop.induct)
  case (2 part parts names found)
  have "to_ascii_lowercase (trim part) = [] \<longleftrightarrow> blank part"
    by (simp add: blank_def to_ascii_lowercase_def)
  with 2 show ?case by (auto simp: Let_def)
qed simp

lemma is_enabled_from_env:
  "is_enabled (from_env env) n \<longleftrightarrow>
     n = RAIL_ID_MANUAL \<or> list_all blank (split_on (\<lambda>c. c = CHR '','') env) \<or>
     to_ascii_lowercase n = RAIL_ID_MANUAL \<or>
     list_ex (\<lambda>p. \<not> blank p \<and> to_ascii_lowercase (trim p) = to_ascii_lowercase n) (split_on (\<lambda>c. c = CHR '','') env)"
  by (simp add: is_enabled_def from_env_def env_loop_eq list_all_iff list_ex_iff) metis

lemma set_list_rails:
  "R \<in> set (list_rails reg f) \<longleftrightarrow>
     R \<in> snd ` set (reg_rails reg) \<and> is_enabled reg (rail_id R) \<and>
     (case cf_currency f of Some ccy \<Rightarrow> supports_currency (capabilities R) ccy | None \<Rightarrow> True) \<and>
     (case cf_class f of Some c \<Rightarrow> caps_class (capabilities R) = c | None \<Rightarrow> True)"
  by (auto simp: list_rails_def)

lemma select_rail_Ok_iff:
  "select_rail reg n ccy = Ok R \<longleftrightarrow>
     get_rail reg n = Some R \<and> is_enabled reg n \<and>
     (case ccy of Some c \<Rightarrow> supports_currency (capabilities R) c | None \<Rightarrow> True)"
  by (auto simp: select_rail_def split: option.splits if_splits)

text \<open>A rail whose id has white space around it is filed, and selected, under the trimmed id.\<close>

lemma lowercase_trim_neq: "trim s \<noteq> s \<Longrightarrow> to_ascii_lowercase (trim s) \<noteq> to_ascii_lowercase s"
proof
  assume ne: "trim s \<noteq> s" and "to_ascii_lowercase (trim s) = to_ascii_lowercase s"
  then have len: "length (trim s) = length s"
    by (metis length_map to_ascii_lowercase_def)
  obtain p q where s: "s = p @ trim s @ q" using trim_infix by blast
  then have "length s = length p + length (trim s) + length q"
    by (metis add.assoc length_append)
  with len have "p = []" "q = []" by simp_all
  with s ne show False by simp
qed

lemma padded_rail_selectable_not_listed:
  assumes "reg_rails reg = [(trim (rail_id R), R)]" "reg_enabled reg = Some {to_ascii_lowercase (trim (rail_id R))}"
    and "trim (rail_id R) \<noteq> rail_id R" "rail_id R \<noteq> RAIL_ID_MANUAL"
  shows "select_rail reg (trim (rail_id R)) None = Ok R" "list_rails reg f = []"
proof -
  show "select_rail reg (trim (rail_id R)) None = Ok R"
    using assms by (simp add: select_rail_Ok_iff get_rail_def is_enabled_def)
  have "\<not> is_enabled reg (rail_id R)"
    using assms lowercase_trim_neq [OF assms(3)] by (simp add: is_enabled_def)
  then show "list_rails reg f = []"
    using assms by (simp add: list_rails_def)
qed

section \<open>Properties\<close>

text \<open>
  Registration keeps the registry in order (distinct, non-empty, trimmed names). A rail that
  is accepted is found under its trimmed id and disturbs no other; a refusal is for an empty or a
  taken id and changes nothing, so an earlier rail can never be replaced.
\<close>

theorem register_correct:
  assumes "registry_ok reg" "register reg R = (res, reg')"
  shows "registry_ok reg' \<and>
    (case res of
       Ok _ \<Rightarrow> (\<forall>n. get_rail reg' n = (if n = trim (rail_id R) then Some R else get_rail reg n)) \<and>
         get_rail reg (trim (rail_id R)) = None
     | Err e \<Rightarrow> reg' = reg \<and>
         (e = EmptyRailId \<and> blank (rail_id R) \<or>
          e = AlreadyRegistered (trim (rail_id R)) \<and> get_rail reg (trim (rail_id R)) \<noteq> None))"
proof (cases res)
  case (Inl e)
  then show ?thesis using assms by (auto simp: register_def Let_def blank_def split: if_splits)
next
  case (Inr u)
  then have "register reg R = (Ok (), reg')" using assms(2) by simp
  from register_Ok [OF this] register_ok [OF assms] Inr show ?thesis
    by (simp add: get_rail_def)
qed

text \<open>
  The allowlist: a rail id is enabled exactly when it is the manual rail, or the environment
  names nothing at all, or it is named there up to case and surrounding white space.
\<close>

theorem enablement_exact:
  "is_enabled (from_env env) n \<longleftrightarrow>
     to_ascii_lowercase n = RAIL_ID_MANUAL \<or>
     list_all blank (split_on (\<lambda>c. c = CHR '','') env) \<or>
     list_ex (\<lambda>p. \<not> blank p \<and> to_ascii_lowercase (trim p) = to_ascii_lowercase n) (split_on (\<lambda>c. c = CHR '','') env)"
  unfolding is_enabled_from_env
  by (auto simp: RAIL_ID_MANUAL_def to_ascii_lowercase_def to_lower_def is_ascii_upper_def)

text \<open>
  Listing and selecting agree, for rails whose ids carry no surrounding white space: a rail is
  listed for a currency and class exactly when selecting its id for that currency returns it and
  its class matches; the list is strictly sorted by id, so it has no duplicates.
\<close>

theorem list_select_agree:
  assumes ok: "registry_ok reg" and ids: "list_all (\<lambda>(n, R). trim (rail_id R) = rail_id R) (reg_rails reg)"
  shows "(R \<in> set (list_rails reg f) \<longleftrightarrow>
      select_rail reg (rail_id R) (cf_currency f) = Ok R \<and>
      (case cf_class f of Some c \<Rightarrow> caps_class (capabilities R) = c | None \<Rightarrow> True)) \<and>
    sorted_wrt (<) (map rail_id (list_rails reg f))"
proof
  have entry: "n = rail_id R" if "(n, R) \<in> set (reg_rails reg)" for n R
  proof -
    have "n = trim (rail_id R)" using ok that unfolding registry_ok_def by blast
    moreover have "trim (rail_id R) = rail_id R" using ids that unfolding list_all_iff by blast
    ultimately show ?thesis by simp
  qed
  have "R \<in> snd ` set (reg_rails reg) \<longleftrightarrow> get_rail reg (rail_id R) = Some R"
  proof
    assume "R \<in> snd ` set (reg_rails reg)"
    then obtain n where "(n, R) \<in> set (reg_rails reg)" by auto
    then show "get_rail reg (rail_id R) = Some R" using entry get_rail_iff [OF ok] by blast
  next
    assume "get_rail reg (rail_id R) = Some R"
    then have "(rail_id R, R) \<in> set (reg_rails reg)" using get_rail_iff [OF ok] by blast
    then show "R \<in> snd ` set (reg_rails reg)" by (rule rev_image_eqI) simp
  qed
  then show "R \<in> set (list_rails reg f) \<longleftrightarrow>
      select_rail reg (rail_id R) (cf_currency f) = Ok R \<and>
      (case cf_class f of Some c \<Rightarrow> caps_class (capabilities R) = c | None \<Rightarrow> True)"
    by (auto simp: set_list_rails select_rail_Ok_iff)
  have "map fst (reg_rails reg) = map rail_id (map snd (reg_rails reg))"
    using entry by auto
  moreover have "distinct (map fst (reg_rails reg))" using ok by (simp add: registry_ok_def)
  ultimately have "distinct (map rail_id (map snd (reg_rails reg)))" by (simp only:)
  then have "distinct (map rail_id (sort_key rail_id (map snd (reg_rails reg))))"
    by (simp add: distinct_map [of rail_id] del: map_map)
  then have "sorted_wrt (<) (map rail_id (sort_key rail_id (map snd (reg_rails reg))))"
    by (simp add: strict_sorted_iff del: map_map)
  then show "sorted_wrt (<) (map rail_id (list_rails reg f))"
    by (simp add: list_rails_def sorted_wrt_map sorted_wrt_filter)
qed

section \<open>The properties at a concrete registry\<close>

definition demo_registry :: "world registry" where
  "demo_registry = snd (register registry_new (manual_payment_rail demo_manual))"

lemma manual_id_trim: "trim RAIL_ID_MANUAL = RAIL_ID_MANUAL" "RAIL_ID_MANUAL \<noteq> []"
  by (simp_all add: RAIL_ID_MANUAL_def trim_graphic graphic_def)

lemma demo_registry_eq:
  "register registry_new (manual_payment_rail demo_manual) = (Ok (), demo_registry)"
  "demo_registry = \<lparr> reg_rails = [(RAIL_ID_MANUAL, manual_payment_rail demo_manual)], reg_enabled = None \<rparr>"
  by (simp_all add: demo_registry_def register_def registry_new_def get_rail_def manual_id_trim)

theorem register_correct_witness:
  "registry_ok demo_registry \<and> get_rail demo_registry RAIL_ID_MANUAL = Some (manual_payment_rail demo_manual)"
  using register_correct [OF registry_ok_new(1) demo_registry_eq(1)] by (simp add: manual_id_trim)

theorem list_select_agree_witness:
  "select_rail demo_registry RAIL_ID_MANUAL (Some ''USD'') = Ok (manual_payment_rail demo_manual)"
proof -
  have "registry_ok demo_registry"
    using register_ok [OF registry_ok_new(1) demo_registry_eq(1)] .
  moreover have "list_all (\<lambda>(n, R). trim (rail_id R) = rail_id R) (reg_rails demo_registry)"
    by (simp add: demo_registry_eq(2) manual_id_trim)
  ultimately show ?thesis
    using list_select_agree [of demo_registry "manual_payment_rail demo_manual"
        "\<lparr> cf_currency = Some ''USD'', cf_class = None \<rparr>"]
    by (simp add: set_list_rails demo_registry_eq(2) is_enabled_def supports_currency_def manual_capabilities_def)
qed

end
