(* ===== verification/Json.thy ===== *)
theory Json
  imports Rust_Str
begin

text \<open>
  \<open>serde_json::Value\<close> and the accessors the sources call on it. An object is an association list, in
  which a key occurs once. A number is one of the three kinds \<open>Number\<close> has; a float is kept as its
  text, since the sources never compute with one.
\<close>

datatype json_number = PosInt u64 | NegInt i64 | Float string

datatype json =
    JNull
  | JBool bool
  | JNumber json_number
  | JString string
  | JArray "json list"
  | JObject "(string \<times> json) list"

fun jget :: "string \<Rightarrow> json \<Rightarrow> json option" where
  "jget k (JObject kvs) = map_of kvs k"
| "jget k _ = None"

fun as_str :: "json \<Rightarrow> string option" where
  "as_str (JString s) = Some s"
| "as_str _ = None"

fun as_bool :: "json \<Rightarrow> bool option" where
  "as_bool (JBool b) = Some b"
| "as_bool _ = None"

fun as_array :: "json \<Rightarrow> json list option" where
  "as_array (JArray vs) = Some vs"
| "as_array _ = None"

fun as_u64 :: "json \<Rightarrow> u64 option" where
  "as_u64 (JNumber (PosInt n)) = Some n"
| "as_u64 _ = None"

fun as_i64 :: "json \<Rightarrow> i64 option" where
  "as_i64 (JNumber (PosInt n)) = i64_try_from_u64 n"
| "as_i64 (JNumber (NegInt n)) = Some n"
| "as_i64 _ = None"

fun is_null :: "json \<Rightarrow> bool" where
  "is_null JNull \<longleftrightarrow> True"
| "is_null _ \<longleftrightarrow> False"

text \<open>\<open>v.get(k).and_then(as_str)\<close> and a chain of \<open>get\<close>s.\<close>

definition get_str :: "string \<Rightarrow> json \<Rightarrow> string option" where
  "get_str k v = Option.bind (jget k v) as_str"

fun jpath :: "string list \<Rightarrow> json \<Rightarrow> json option" where
  "jpath [] v = Some v"
| "jpath (k # ks) v = Option.bind (jget k v) (jpath ks)"

text \<open>\<open>str::parse::<i128>()\<close>\<close>

type_synonym i128 = "128 word"

definition parse_i128 :: "string \<Rightarrow> i128 option" where
  "parse_i128 s = map_option word_of_int (parse_signed 127 s)"

lemma is_null_iff: "is_null v \<longleftrightarrow> v = JNull"
  by (cases v) simp_all

lemma as_str_Some_iff [simp]: "as_str v = Some s \<longleftrightarrow> v = JString s"
  by (cases v) auto

lemma as_array_Some_iff [simp]: "as_array v = Some xs \<longleftrightarrow> v = JArray xs"
  by (cases v) auto

lemma as_bool_Some_iff [simp]: "as_bool v = Some b \<longleftrightarrow> v = JBool b"
  by (cases v) auto

end
