(* ===== verification/Http.thy ===== *)
theory Http
  imports Json
begin

text \<open>
  The HTTP client the rails are built on (\<open>reqwest\<close>) and the JSON text it carries (\<open>serde_json\<close>), as
  parameters: a client sends a request and observes the world, or fails with the message its error
  displays; a body is read or fails the same way. The one request builder every rail shares is a
  method, a URL, credentials, headers and a body.
\<close>

datatype http_body = NoBody | JsonBody json | FormBody "(string \<times> string) list" | RawBody bytes

datatype http_auth = NoAuth | BasicAuth string "string option" | BearerAuth string

record http_request =
  hq_method :: string
  hq_url :: string
  hq_auth :: http_auth
  hq_headers :: "(string \<times> string) list"
  hq_body :: http_body

record http_response =
  hr_status :: nat
  hr_headers :: "(string \<times> string) list"
  hr_body :: "string + bytes"

type_synonym 'w http_client = "http_request \<Rightarrow> 'w \<Rightarrow> (string + http_response) \<times> 'w"

text \<open>JSON text to a value (or the parser's message), a value to text, and \<open>Display for StatusCode\<close>.\<close>

record json_text =
  json_parse :: "bytes \<Rightarrow> string + json"
  json_show :: "json \<Rightarrow> string"
  status_show :: "nat \<Rightarrow> string"

definition is_success :: "http_response \<Rightarrow> bool" where
  "is_success r \<longleftrightarrow> 200 \<le> hr_status r \<and> hr_status r < 300"

text \<open>\<open>resp.json()\<close>\<close>

definition response_json :: "json_text \<Rightarrow> http_response \<Rightarrow> string + json" where
  "response_json T r = rbind (hr_body r) (json_parse T)"

definition http_get :: "string \<Rightarrow> http_request" where
  "http_get url = \<lparr> hq_method = ''GET'', hq_url = url, hq_auth = NoAuth, hq_headers = [], hq_body = NoBody \<rparr>"

definition http_post :: "string \<Rightarrow> http_body \<Rightarrow> http_request" where
  "http_post url body = \<lparr> hq_method = ''POST'', hq_url = url, hq_auth = NoAuth, hq_headers = [], hq_body = body \<rparr>"

lemma is_success_not_404: "is_success r \<Longrightarrow> hr_status r \<noteq> 404"
  by (simp add: is_success_def)

end
