(* ===== verification/Fiat_Http.thy ===== *)
theory Fiat_Http
  imports Http
begin

text \<open>
  \<open>patala-fiat/src/httpshared.rs\<close>: the size bound on bodies, the webhook signatures over HMAC and the
  constant-time comparison. The MACs and the hex and base64 decoders are the parameter \<open>H\<close>;
  \<open>verify_slice\<close> is equality with the MAC, and a key of any length is accepted, as HMAC does. The
  facts say what passes these gates, and that the XOR loop decides equality.
\<close>

record mac_lib =
  hmac_sha256 :: "bytes \<Rightarrow> bytes \<Rightarrow> bytes"
  hmac_sha512 :: "bytes \<Rightarrow> bytes \<Rightarrow> bytes"
  mac_hex_decode :: "string \<Rightarrow> bytes option"
  mac_base64_decode :: "string \<Rightarrow> bytes option"

definition DEFAULT_MAX_BODY_BYTES :: nat where
  "DEFAULT_MAX_BODY_BYTES = 2 ^ 20"

definition bounded_len_check :: "bytes \<Rightarrow> nat \<Rightarrow> string + unit" where
  "bounded_len_check body limit =
     (if limit < length body then Err ''payments: body exceeds size limit'' else Ok ())"

definition verify_hmac_hex ::
    "mac_lib \<Rightarrow> (bytes \<Rightarrow> bytes \<Rightarrow> bytes) \<Rightarrow> bytes \<Rightarrow> bytes \<Rightarrow> string \<Rightarrow> bool" where
  "verify_hmac_hex H mac secret payload hex_signature =
     (if secret = [] \<or> blank hex_signature then False
      else case mac_hex_decode H (trim hex_signature) of
        None \<Rightarrow> False
      | Some expected \<Rightarrow> mac secret payload = expected)"

definition verify_hmac_sha256_hex :: "mac_lib \<Rightarrow> bytes \<Rightarrow> bytes \<Rightarrow> string \<Rightarrow> bool" where
  "verify_hmac_sha256_hex H secret payload sig = verify_hmac_hex H (hmac_sha256 H) secret payload sig"

definition verify_hmac_sha512_hex :: "mac_lib \<Rightarrow> bytes \<Rightarrow> bytes \<Rightarrow> string \<Rightarrow> bool" where
  "verify_hmac_sha512_hex H secret payload sig = verify_hmac_hex H (hmac_sha512 H) secret payload sig"

definition verify_hmac_sha256_base64 :: "mac_lib \<Rightarrow> bytes \<Rightarrow> bytes \<Rightarrow> string \<Rightarrow> bool" where
  "verify_hmac_sha256_base64 H secret payload sig =
     (if secret = [] \<or> blank sig then False
      else case mac_base64_decode H (trim sig) of
        None \<Rightarrow> False
      | Some expected \<Rightarrow> hmac_sha256 H secret payload = expected)"

text \<open>The loop: \<open>diff |= x ^ y\<close> over the zipped bytes.\<close>

fun diff_loop :: "u8 \<Rightarrow> (u8 \<times> u8) list \<Rightarrow> u8" where
  "diff_loop diff [] = diff"
| "diff_loop diff ((x, y) # ps) = diff_loop (diff OR (x XOR y)) ps"

definition constant_time_eq :: "bytes \<Rightarrow> bytes \<Rightarrow> bool" where
  "constant_time_eq a b =
     (if length a \<noteq> length b then False else diff_loop 0 (zip a b) = 0)"

section \<open>Facts\<close>

lemma or_eq_0_u8: "(x OR y) = 0 \<longleftrightarrow> x = 0 \<and> y = (0 :: u8)"
  by (rule or_eq_0_iff)

lemma xor_eq_0_u8: "(x XOR y) = 0 \<longleftrightarrow> x = (y :: u8)"
  by (metis xor.assoc xor.comm_neutral xor.left_neutral xor_self_eq)

lemma diff_loop_0: "diff_loop d ps = 0 \<longleftrightarrow> d = 0 \<and> list_all (\<lambda>(x, y). x = y) ps"
  by (induction d ps rule: diff_loop.induct) (auto simp: or_eq_0_u8 xor_eq_0_u8)

lemma zip_all_eq: "length a = length b \<Longrightarrow> list_all (\<lambda>(x, y). x = y) (zip a b) \<longleftrightarrow> a = b"
  by (induction a b rule: list_induct2) auto

lemma constant_time_eq_iff: "constant_time_eq a b \<longleftrightarrow> a = b"
  by (cases "length a = length b") (auto simp: constant_time_eq_def diff_loop_0 zip_all_eq)

lemma verify_hmac_hex_iff:
  "verify_hmac_hex H mac secret payload sig \<longleftrightarrow>
     secret \<noteq> [] \<and> \<not> blank sig \<and> mac_hex_decode H (trim sig) = Some (mac secret payload)"
  by (auto simp: verify_hmac_hex_def split: option.splits)

lemma verify_hmac_sha256_base64_iff:
  "verify_hmac_sha256_base64 H secret payload sig \<longleftrightarrow>
     secret \<noteq> [] \<and> \<not> blank sig \<and> mac_base64_decode H (trim sig) = Some (hmac_sha256 H secret payload)"
  by (auto simp: verify_hmac_sha256_base64_def split: option.splits)

lemma bounded_len_check_Ok_iff: "bounded_len_check body n = Ok u \<longleftrightarrow> length body \<le> n"
  by (auto simp: bounded_len_check_def)

text \<open>
  The constant-time comparison decides equality: its accumulated XOR of the bytes is zero, with
  equal lengths, exactly when the two byte strings are the same.
\<close>

theorem constant_time_eq_is_equality: "constant_time_eq a b = (a = b)"
  by (rule constant_time_eq_iff)

end
