(* ===== verification/Fiat_Adapter.thy ===== *)
theory Fiat_Adapter
  imports Fiat_Http Fiat_Destination
begin

text \<open>
  What the network adapters of \<open>patala-fiat\<close> have in common. Every adapter carries its own copy of
  these helpers (reading its environment, checking a currency, refusing an unsafe path segment, one
  bounded HTTP exchange, the shape of a quote); here each is one definition with the adapter's name
  as an argument, and the locale states what every adapter promises as a rail.
\<close>

section \<open>Environment\<close>

type_synonym environment = "string \<Rightarrow> string option"

definition non_empty_env :: "environment \<Rightarrow> string \<Rightarrow> string result" where
  "non_empty_env env name =
     rbind (ok_or (InvalidRequest (''environment variable '' @ name @ '' is not set'')) (env name)) (\<lambda>v.
       if blank v then Err (InvalidRequest (''environment variable '' @ name @ '' is set but empty''))
       else Ok v)"

definition env_flag :: "environment \<Rightarrow> string \<Rightarrow> bool \<Rightarrow> bool" where
  "env_flag env name dflt =
     (case env name of Some s \<Rightarrow> eq_ignore_ascii_case s ''true'' | None \<Rightarrow> dflt)"

definition env_currencies :: "environment \<Rightarrow> string \<Rightarrow> string list \<Rightarrow> string list" where
  "env_currencies env name dflt =
     (case env name of
        None \<Rightarrow> dflt
      | Some s \<Rightarrow>
          if blank s then dflt
          else filter (\<lambda>c. c \<noteq> [])
            (map (\<lambda>c. to_ascii_uppercase (trim c)) (split_on (\<lambda>c. c = CHR '','') s)))"

definition parse_u8 :: "string \<Rightarrow> u8 option" where
  "parse_u8 s =
     (let ds = (case s of [] \<Rightarrow> [] | c # t \<Rightarrow> if c = CHR ''+'' then t else s)
      in if ds = [] \<or> \<not> all_digits ds then None
         else if nat_of_digits ds < 256 then Some (word_of_nat (nat_of_digits ds)) else None)"

definition env_u8 :: "environment \<Rightarrow> string \<Rightarrow> u8 \<Rightarrow> u8" where
  "env_u8 env name dflt = (case Option.bind (env name) parse_u8 of Some n \<Rightarrow> n | None \<Rightarrow> dflt)"

definition env_u64 :: "environment \<Rightarrow> string \<Rightarrow> u64 \<Rightarrow> u64" where
  "env_u64 env name dflt = (case Option.bind (env name) parse_u64 of Some n \<Rightarrow> n | None \<Rightarrow> dflt)"

text \<open>The variants the adapters have of these: a trimmed value, an optional one, a base URL without trailing slashes.\<close>

definition trimmed_env :: "environment \<Rightarrow> string \<Rightarrow> string result" where
  "trimmed_env env name = rbind (non_empty_env env name) (\<lambda>v. Ok (trim v))"

definition non_blank_env :: "environment \<Rightarrow> string \<Rightarrow> string option" where
  "non_blank_env env name =
     (case env name of Some s \<Rightarrow> (if blank s then None else Some s) | None \<Rightarrow> None)"

definition trim_end_slashes :: "string \<Rightarrow> string" where
  "trim_end_slashes s = rev (dropWhile (\<lambda>c. c = CHR ''/'') (rev s))"

definition env_base_url :: "environment \<Rightarrow> string \<Rightarrow> string \<Rightarrow> string" where
  "env_base_url env name dflt =
     (case env name of
        None \<Rightarrow> dflt
      | Some s \<Rightarrow> let t = trim_end_slashes (trim s) in if t = [] then dflt else t)"

definition parse_u32 :: "string \<Rightarrow> u32 option" where
  "parse_u32 s =
     (let ds = (case s of [] \<Rightarrow> [] | c # t \<Rightarrow> if c = CHR ''+'' then t else s)
      in if ds = [] \<or> \<not> all_digits ds then None
         else if nat_of_digits ds < 2 ^ 32 then Some (word_of_nat (nat_of_digits ds)) else None)"

section \<open>Requests\<close>

text \<open>\<open>what\<close> is the end of the message: the adapter and the kind of id.\<close>

definition safe_path_segment :: "string \<Rightarrow> string \<Rightarrow> string result" where
  "safe_path_segment what s =
     (if s = [] \<or> list_ex (\<lambda>c. c \<in> set ''/?# '' \<or> code c = 9 \<or> code c = 10 \<or> code c = 13) s \<or>
         \<not> list_all (\<lambda>c. code c < 128) s
      then Err (InvalidRequest (''value '' @ debug_str s @ '' is not a safe URL path segment for a '' @ what))
      else Ok s)"

definition currency_in :: "string list \<Rightarrow> string \<Rightarrow> bool" where
  "currency_in cs currency \<longleftrightarrow> list_ex (\<lambda>c. eq_ignore_ascii_case c currency) cs"

definition check_listed_currency :: "string \<Rightarrow> string list \<Rightarrow> string \<Rightarrow> unit result" where
  "check_listed_currency name cs currency =
     (if currency_in cs currency then Ok ()
      else Err (InvalidRequest (''rail '' @ name @ '' does not support currency '' @ currency)))"

text \<open>An empty list of currencies means that any is supported.\<close>

definition check_any_currency :: "string \<Rightarrow> string list \<Rightarrow> string \<Rightarrow> unit result" where
  "check_any_currency name cs currency =
     (if cs = [] then Ok () else check_listed_currency name cs currency)"

text \<open>One exchange: send, read the body, bound its size. The result is the body and the status.\<close>

definition exchange ::
    "string \<Rightarrow> string \<Rightarrow> 'w http_client \<Rightarrow> http_request \<Rightarrow> 'w \<Rightarrow> (bytes \<times> nat) result \<times> 'w" where
  "exchange name path C req w =
     (case C req w of
        (Err e, w') \<Rightarrow> (Err (Rail (name @ '': request to '' @ path @ '' failed: '' @ e)), w')
      | (Ok resp, w') \<Rightarrow>
          (rbind (map_err (\<lambda>e. Rail (name @ '': failed reading response body: '' @ e)) (hr_body resp)) (\<lambda>bs.
           rbind (map_err (\<lambda>e. Rail (name @ '': '' @ e)) (bounded_len_check bs DEFAULT_MAX_BODY_BYTES)) (\<lambda>_.
             Ok (bs, hr_status resp))), w'))"

text \<open>\<open>?\<close> after an \<open>await\<close>: an error ends the method in the world it happened in.\<close>

definition wbind :: "('e + 'a) \<times> 'w \<Rightarrow> ('a \<Rightarrow> 'w \<Rightarrow> ('e + 'b) \<times> 'w) \<Rightarrow> ('e + 'b) \<times> 'w" where
  "wbind m f = (case m of (Err e, w) \<Rightarrow> (Err e, w) | (Ok x, w) \<Rightarrow> f x w)"

definition wmap_err :: "('e \<Rightarrow> 'f) \<Rightarrow> ('e + 'a) \<times> 'w \<Rightarrow> ('f + 'a) \<times> 'w" where
  "wmap_err g m = (map_err g (fst m), snd m)"

lemma wbind_Ok_iff [simp]:
  "wbind m f = (Ok y, w') \<longleftrightarrow> (\<exists>x w. m = (Ok x, w) \<and> f x w = (Ok y, w'))"
  by (auto simp: wbind_def split: prod.splits sum.splits)

lemma wbind_pair [simp]: "wbind (Err e, w) f = (Err e, w)" "wbind (Ok x, w) f = f x w"
  by (simp_all add: wbind_def)

text \<open>What happens to the world does not depend on what is made of the answers.\<close>

lemma snd_wbind_cong: "(\<And>x w. snd (f x w) = snd (g x w)) \<Longrightarrow> snd (wbind m f) = snd (wbind m g)"
  by (auto simp: wbind_def split: prod.splits sum.splits)

lemma wmap_err_Ok_iff [simp]: "wmap_err g m = (Ok y, w) \<longleftrightarrow> m = (Ok y, w)"
  by (cases m) (auto simp: wmap_err_def)

definition ok_status :: "nat \<Rightarrow> bool" where
  "ok_status n \<longleftrightarrow> 200 \<le> n \<and> n < 300"

text \<open>An exchange whose body is only used on a success; \<open>classify\<close> makes an error of the others.\<close>

definition exchange_ok ::
    "string \<Rightarrow> string \<Rightarrow> (nat \<Rightarrow> bytes \<Rightarrow> error) \<Rightarrow> 'w http_client \<Rightarrow> http_request \<Rightarrow> 'w \<Rightarrow> bytes result \<times> 'w" where
  "exchange_ok name path classify C req w =
     (case exchange name path C req w of
        (Err e, w') \<Rightarrow> (Err e, w')
      | (Ok (body, status), w') \<Rightarrow> (if ok_status status then Ok body else Err (classify status body), w'))"

text \<open>Then parse; \<open>malformed_of\<close> makes an error of the parser's message.\<close>

definition fetch ::
    "string \<Rightarrow> string \<Rightarrow> (nat \<Rightarrow> bytes \<Rightarrow> error) \<Rightarrow> (string \<Rightarrow> error) \<Rightarrow> (bytes \<Rightarrow> string + 'a) \<Rightarrow>
     'w http_client \<Rightarrow> http_request \<Rightarrow> 'w \<Rightarrow> 'a result \<times> 'w" where
  "fetch name path classify malformed_of parse C req w =
     (case exchange_ok name path classify C req w of
        (Err e, w') \<Rightarrow> (Err e, w')
      | (Ok body, w') \<Rightarrow> (map_err malformed_of (parse body), w'))"

text \<open>The two errors an adapter makes of an answer: a status that is no success, and a body it cannot use.\<close>

definition unexpected_status :: "string \<Rightarrow> string option \<Rightarrow> nat \<Rightarrow> error" where
  "unexpected_status name message status =
     (let m = (case message of Some m \<Rightarrow> m | None \<Rightarrow> []);
          msg = (if m = [] then ''no message'' else m)
      in Rail (name @ '': unexpected API response status: http '' @ dec_of_nat status @ '': '' @ msg))"

definition malformed_response :: "string \<Rightarrow> string \<Rightarrow> error" where
  "malformed_response name detail = Rail (name @ '': malformed API response: '' @ detail)"

definition names_other_rail :: "string \<Rightarrow> receipt \<Rightarrow> error" where
  "names_other_rail name r =
     InvalidRequest (''receipt names rail '' @ debug_str (r_rail_id r) @ '', not '' @ debug_str name)"

text \<open>What \<open>new\<close> does last: build the client (\<open>client\<close> says whether that works), and the capabilities.\<close>

definition build_client :: "string \<Rightarrow> (u64 \<Rightarrow> string + unit) \<Rightarrow> u64 \<Rightarrow> unit result" where
  "build_client name client timeout =
     map_err (\<lambda>e. Rail (''failed building '' @ name @ '' http client: '' @ e)) (client timeout)"

definition custodial_caps :: "bool \<Rightarrow> bool \<Rightarrow> string list \<Rightarrow> settlement \<Rightarrow> rail_capabilities" where
  "custodial_caps refunds kyc cs settle =
     \<lparr> caps_class = CustodialReversible, reversible = refunds, requires_kyc = kyc, holds_funds = True,
       currencies = cs, caps_settlement = settle, atomic_multi_party = False \<rparr>"

definition require_non_empty :: "string \<Rightarrow> string \<Rightarrow> unit result" where
  "require_non_empty field value =
     (if blank value then Err (InvalidRequest (field @ '' must not be empty'')) else Ok ())"

text \<open>The last three tests of \<open>verify\<close>.\<close>

definition covers :: "bool \<Rightarrow> string \<Rightarrow> u64 \<Rightarrow> receipt \<Rightarrow> bool" where
  "covers settled currency amount r =
     (if \<not> settled then False
      else if \<not> eq_ignore_ascii_case currency (r_currency r) then False
      else if amount < r_amount_minor r then False
      else True)"

definition fiat_quote :: "string \<Rightarrow> settlement \<Rightarrow> u64 \<Rightarrow> u64 \<Rightarrow> string \<Rightarrow> quote" where
  "fiat_quote name settle now amount currency =
     \<lparr> q_rail_id = name, q_amount_minor = amount, q_currency = currency, q_fee_minor = 0,
       q_total_minor = amount, q_settlement = settle, q_expires_at_unix = saturating_add_u now 300 \<rparr>"

text \<open>A receipt for a checkout that has been created and not paid.\<close>

definition pending_receipt :: "string \<Rightarrow> string \<Rightarrow> string \<Rightarrow> bytes \<Rightarrow> receipt" where
  "pending_receipt name currency reference proof =
     \<lparr> r_rail_id = name, r_amount_minor = 0, r_currency = currency, r_reference = reference,
       r_proof = proof, r_settled_at_unix = 0 \<rparr>"

text \<open>\<open>(now_unix as i64 - ts).unsigned_abs() > tolerance\<close>, with the release build's wrap-around.\<close>

definition age_abs :: "u64 \<Rightarrow> i64 \<Rightarrow> nat" where
  "age_abs now ts = nat \<bar>sint (now - ts)\<bar>"

section \<open>The contract of an adapter\<close>

text \<open>
  A processor rail: its charges claim no money and no settlement time, and an event it makes of a
  delivery carries its name, and money only when settled.
\<close>

locale processor_core = rail_core +
  assumes charge_claims_nothing:
      "rail_charge R req w = (Ok r, w') \<Longrightarrow> r_amount_minor r = 0 \<and> r_settled_at_unix r = 0"
    and webhook_event_ok:
      "rail_verify_webhook R d w = (Ok ev, w') \<Longrightarrow> we_rail_id ev = rail_id R \<and> no_phantom_money ev"
begin

text \<open>So whoever gates on the receipt's amount gates on nothing: only \<open>verify\<close> says that money moved.\<close>

lemma receipt_is_pending:
  assumes "good w" "rail_charge R req w = (Ok r, w')"
  shows "r_rail_id r = rail_id R \<and> r_amount_minor r = 0 \<and> well_formed_request req"
  using charge_names_rail [OF assms] charge_claims_nothing [OF assms(2)] charge_Ok_well_formed [OF assms(2)]
  by simp

lemma unsettled_event_carries_nothing:
  "rail_verify_webhook R d w = (Ok ev, w') \<Longrightarrow> \<not> is_settled ev \<Longrightarrow> we_amount_minor ev = 0 \<and> we_currency ev = []"
  using webhook_event_ok [of d w ev w'] by (auto simp: no_phantom_money_def)

end

locale processor_rail = rail_base + processor_core

text \<open>
  The adapters that also keep the full contract of a rail (the request's reference and currency come
  back as they went) are rails in every respect.
\<close>

locale echoing_processor = processor_rail + rail_contract
begin

lemma receipt_echoes:
  "good w \<Longrightarrow> rail_charge R req w = (Ok r, w') \<Longrightarrow>
     r_rail_id r = rail_id R \<and> r_reference r = pr_reference req \<and> r_amount_minor r = 0 \<and> well_formed_request req"
  using receipt_is_pending charge_reference by blast

end

section \<open>Facts\<close>

text \<open>How an adapter of this crate is shown to be a processor rail.\<close>

lemma processor_coreI:
  assumes "\<And>req e w. pay_request_validate req = Err e \<Longrightarrow> rail_quote R req w = (Err e, w)"
    and "\<And>req e w. pay_request_validate req = Err e \<Longrightarrow> rail_charge R req w = (Err e, w)"
    and "\<And>req r w w'. rail_charge R req w = (Ok r, w') \<Longrightarrow>
           r_rail_id r = rail_id R \<and> r_amount_minor r = 0 \<and> r_settled_at_unix r = 0"
    and "\<And>req q w w'. rail_quote R req w = (Ok q, w') \<Longrightarrow>
           q_rail_id q = rail_id R \<and> q_amount_minor q = pr_amount_minor req"
    and "rail_validate_destination R \<in> {redirect_url (rail_id R), buyer_email (rail_id R), ignored (rail_id R)}"
    and "\<And>d ev w w'. rail_verify_webhook R d w = (Ok ev, w') \<Longrightarrow> we_rail_id ev = rail_id R \<and> no_phantom_money ev"
  shows "processor_core R (\<lambda>_. True)"
proof unfold_locales
  show "honest_verdict (rail_id R) (rail_validate_destination R d)"
    "blank d \<Longrightarrow> is_refusal (rail_validate_destination R d)" for d
    using assms(5) by (auto simp: fiat_verdicts_honest fiat_verdicts_blank)
qed (use assms in auto)

lemma processor_railI:
  assumes "\<And>r w. r_rail_id r \<noteq> rail_id R \<Longrightarrow> rail_verify R r w = (Ok False, w)"
    and "processor_core R (\<lambda>_. True)"
  shows "processor_rail R (\<lambda>_. True)"
  using assms
  by (intro processor_rail.intro rail_base.intro rail_base_axioms.intro) (auto dest: processor_core.axioms)

lemma covers_iff:
  "covers settled currency amount r \<longleftrightarrow>
     settled \<and> eq_ignore_ascii_case currency (r_currency r) \<and> r_amount_minor r \<le> amount"
  by (auto simp: covers_def)

lemma require_non_empty_Ok_iff: "require_non_empty f v = Ok u \<longleftrightarrow> \<not> blank v"
  by (simp add: require_non_empty_def)

lemma exchange_Ok_iff:
  "exchange name path C req w = (Ok (body, status), w') \<longleftrightarrow>
     (\<exists>resp. C req w = (Ok resp, w') \<and> hr_body resp = Ok body \<and> hr_status resp = status \<and>
        length body \<le> DEFAULT_MAX_BODY_BYTES)"
  by (auto simp: exchange_def bounded_len_check_Ok_iff split: prod.splits sum.splits)

text \<open>What a processor says: a success answer within bounds, parsed.\<close>

definition says ::
    "'w http_client \<Rightarrow> http_request \<Rightarrow> (bytes \<Rightarrow> string + 'a) \<Rightarrow> 'w \<Rightarrow> 'a \<Rightarrow> 'w \<Rightarrow> bool" where
  "says C req parse w x w' \<longleftrightarrow>
     (\<exists>resp body. C req w = (Ok resp, w') \<and> ok_status (hr_status resp) \<and> hr_body resp = Ok body \<and>
        length body \<le> DEFAULT_MAX_BODY_BYTES \<and> parse body = Ok x)"

lemma fetch_Ok_iff:
  "fetch name path classify m parse C req w = (Ok x, w') \<longleftrightarrow> says C req parse w x w'"
proof
  assume "fetch name path classify m parse C req w = (Ok x, w')"
  then obtain body status where "exchange name path C req w = (Ok (body, status), w')" "ok_status status"
      "parse body = Ok x"
    by (auto simp: fetch_def exchange_ok_def split: prod.splits sum.splits if_splits)
  then show "says C req parse w x w'" unfolding exchange_Ok_iff says_def by blast
next
  assume "says C req parse w x w'"
  then obtain body status where "exchange name path C req w = (Ok (body, status), w')" "ok_status status"
      "parse body = Ok x"
    unfolding exchange_Ok_iff says_def by blast
  then show "fetch name path classify m parse C req w = (Ok x, w')"
    by (simp add: fetch_def exchange_ok_def)
qed

text \<open>The element a search finds, and what comes before it.\<close>

lemma find_prefix: "list_all (\<lambda>i. \<not> P i) before \<Longrightarrow> P p \<Longrightarrow> find P (before @ p # after) = Some p"
  by (induction before) auto

lemma find_Some_split:
  "find P xs = Some p \<longleftrightarrow> (\<exists>before after. xs = before @ p # after \<and> list_all (\<lambda>i. \<not> P i) before \<and> P p)"
proof
  assume "find P xs = Some p"
  then obtain i where "i < length xs" "P (xs ! i)" "p = xs ! i" "\<forall>j<i. \<not> P (xs ! j)"
    by (auto simp: find_Some_iff)
  then have "xs = take i xs @ p # drop (Suc i) xs \<and> list_all (\<lambda>i. \<not> P i) (take i xs) \<and> P p"
    by (auto simp: id_take_nth_drop [symmetric] list_all_length)
  then show "\<exists>before after. xs = before @ p # after \<and> list_all (\<lambda>i. \<not> P i) before \<and> P p" by blast
qed (auto simp: find_prefix)

lemma find_filter: "find P (filter Q xs) = find (\<lambda>x. Q x \<and> P x) xs"
  by (induction xs) auto

text \<open>A caller that hands an error on and judges the answer.\<close>

lemma judged_fetch:
  "(case fetch name path classify m parse C req w of (Err e, w1) \<Rightarrow> (Err e, w1) | (Ok x, w1) \<Rightarrow> (Ok (f x), w1)) =
     (Ok y, w') \<longleftrightarrow> (\<exists>x. says C req parse w x w' \<and> f x = y)"
  unfolding fetch_Ok_iff [of name path classify m, symmetric] by (auto split: prod.splits sum.splits)

text \<open>A caller that hands an error on and goes on with the answer.\<close>

lemma fetch_then:
  "(case fetch name path classify m parse C req w of (Err e, w1) \<Rightarrow> (Err e, w1) | (Ok x, w1) \<Rightarrow> f x w1) =
     (Ok y, w') \<longleftrightarrow> (\<exists>x w1. says C req parse w x w1 \<and> f x w1 = (Ok y, w'))"
  unfolding fetch_Ok_iff [of name path classify m, symmetric] by (auto split: prod.splits sum.splits)

lemma guarded_Ok:
  "(case g of Err e \<Rightarrow> (Err e, w) | Ok x \<Rightarrow> f x) = (Ok y, w') \<longleftrightarrow> (\<exists>x. g = Ok x \<and> f x = (Ok y, w'))"
  by (cases g) auto

lemma guarded_False:
  "(case g of Err e \<Rightarrow> (Ok False, w) | Ok x \<Rightarrow> f x) = (Ok True, w') \<longleftrightarrow> (\<exists>x. g = Ok x \<and> f x = (Ok True, w'))"
  "(case p of None \<Rightarrow> (Ok False, w) | Some x \<Rightarrow> f x) = (Ok True, w') \<longleftrightarrow> (\<exists>x. p = Some x \<and> f x = (Ok True, w'))"
  by (cases g; auto) (cases p; auto)

lemma safe_path_segment_Ok_iff:
  "safe_path_segment what s = Ok t \<longleftrightarrow>
     t = s \<and> s \<noteq> [] \<and> list_all (\<lambda>c. code c < 128 \<and> c \<notin> set ''/?# '' \<and> code c \<noteq> 9 \<and> code c \<noteq> 10 \<and> code c \<noteq> 13) s"
  by (auto simp: safe_path_segment_def list_all_iff list_ex_iff)

lemma pending_receipt_sel [simp]:
  "r_rail_id (pending_receipt n c ref p) = n" "r_amount_minor (pending_receipt n c ref p) = 0"
  "r_currency (pending_receipt n c ref p) = c" "r_reference (pending_receipt n c ref p) = ref"
  "r_proof (pending_receipt n c ref p) = p" "r_settled_at_unix (pending_receipt n c ref p) = 0"
  by (simp_all add: pending_receipt_def)

lemma fiat_quote_sel [simp]:
  "q_rail_id (fiat_quote n s t a c) = n" "q_amount_minor (fiat_quote n s t a c) = a"
  "q_currency (fiat_quote n s t a c) = c"
  by (simp_all add: fiat_quote_def)

lemma case_result_pair:
  "(case m of (Err e, w') \<Rightarrow> (Err e, w') | (Ok x, w') \<Rightarrow> f x w') = (Ok y, w'') \<longleftrightarrow>
     (\<exists>x w'. m = (Ok x, w') \<and> f x w' = (Ok y, w''))"
  by (auto split: prod.splits sum.splits)

text \<open>A client on which every request succeeds with an empty body, to evaluate an adapter on.\<close>

definition yes_client :: "unit http_client" where
  "yes_client req w = (Ok \<lparr> hr_status = 200, hr_headers = [], hr_body = Ok [] \<rparr>, w)"

lemma says_yes_client [simp]: "says yes_client req parse w x w' \<longleftrightarrow> parse [] = Ok x \<and> w' = w"
  by (auto simp: says_def yes_client_def ok_status_def)

end
