(* ===== verification/Fiat_Stripe.thy ===== *)
theory Fiat_Stripe
  imports Fiat_Adapter
begin

text \<open>
  \<open>patala-fiat/src/stripe\<close>: amounts per currency, the evaluation of a Checkout session, the webhook
  signature, and the rail. The structures \<open>serde\<close> reads and writes go through the codec \<open>J\<close>; the HTTP
  client is \<open>C\<close> and the MACs are \<open>H\<close>.
\<close>

section \<open>Configuration\<close>

record stripe_config =
  st_secret_key :: string
  st_webhook_secret :: string
  st_requires_kyc :: bool
  st_currencies :: "string list"
  st_settlement_days :: u8
  st_timeout_secs :: u64

definition stripe_config_from_env :: "environment \<Rightarrow> stripe_config result" where
  "stripe_config_from_env env =
     rbind (non_empty_env env ''STRIPE_SECRET_KEY'') (\<lambda>secret_key.
     rbind (non_empty_env env ''STRIPE_WEBHOOK_SECRET'') (\<lambda>webhook_secret.
       Ok \<lparr> st_secret_key = secret_key, st_webhook_secret = webhook_secret,
            st_requires_kyc = env_flag env ''STRIPE_REQUIRES_KYC'' True,
            st_currencies = env_currencies env ''STRIPE_CURRENCIES'' [],
            st_settlement_days = env_u8 env ''STRIPE_SETTLEMENT_DAYS'' 2,
            st_timeout_secs = env_u64 env ''STRIPE_TIMEOUT_SECS'' 15 \<rparr>))"

section \<open>Amounts\<close>

definition STRIPE_FORCED_TWO_DECIMAL :: "string list" where
  "STRIPE_FORCED_TWO_DECIMAL = [''ISK'', ''UGX'']"

definition STRIPE_THREE_DECIMAL :: "string list" where
  "STRIPE_THREE_DECIMAL = [''KWD'', ''BHD'', ''JOD'', ''OMR'', ''TND'']"

definition stripe_contains :: "string list \<Rightarrow> string \<Rightarrow> bool" where
  "stripe_contains cs cur = list_ex (\<lambda>c. eq_ignore_ascii_case c cur) cs"

definition stripe_unsupported_currency :: "string \<Rightarrow> error" where
  "stripe_unsupported_currency cur =
     InvalidRequest (''stripe: '' @ cur @ '' is a three-decimal ISO-4217 currency, not verified against Stripe's documented amount semantics; refusing rather than guessing'')"

definition stripe_malformed :: "string \<Rightarrow> error" where
  "stripe_malformed detail = malformed_response ''stripe'' detail"

definition stripe_amount :: "u64 \<Rightarrow> string \<Rightarrow> u64 result" where
  "stripe_amount amount currency =
     (let cur = to_ascii_uppercase (trim currency) in
      if stripe_contains STRIPE_THREE_DECIMAL cur then Err (stripe_unsupported_currency cur)
      else if stripe_contains STRIPE_FORCED_TWO_DECIMAL cur then
        ok_or (InvalidRequest (''stripe: amount '' @ dec_of_nat (unat amount) @ '' overflows for '' @ cur))
          (checked_mul_u amount 100)
      else Ok amount)"

definition stripe_amount_to_minor :: "u64 \<Rightarrow> string \<Rightarrow> u64 result" where
  "stripe_amount_to_minor amount currency =
     (let cur = to_ascii_uppercase (trim currency) in
      if stripe_contains STRIPE_THREE_DECIMAL cur then Err (stripe_unsupported_currency cur)
      else if stripe_contains STRIPE_FORCED_TWO_DECIMAL cur then
        if amount mod 100 \<noteq> 0 then
          Err (stripe_malformed (cur @ '' amount '' @ dec_of_nat (unat amount) @
            '' is not a whole multiple of 100 as Stripe documents''))
        else Ok (amount div 100)
      else Ok amount)"

section \<open>Sessions\<close>

record stripe_session =
  ss_id :: string
  ss_payment_status :: string
  ss_amount_total :: u64
  ss_currency :: string
  ss_client_reference_id :: string
  ss_metadata :: "string \<rightharpoonup> string"
  ss_payment_intent :: "string option"

record session_outcome =
  so_reference :: string
  so_settled :: bool
  so_amount_minor :: u64
  so_currency :: string

definition evaluate_session :: "stripe_session \<Rightarrow> session_outcome result" where
  "evaluate_session s =
     (if ss_id s = [] then Err (stripe_malformed ''missing session id'')
      else
        rbind (if ss_client_reference_id s \<noteq> [] then Ok (ss_client_reference_id s)
               else case ss_metadata s ''patala_reference'' of
                 Some r \<Rightarrow> Ok r
               | None \<Rightarrow> Err (stripe_malformed ''session has no client_reference_id or patala_reference metadata to reconcile against''))
        (\<lambda>reference.
          let currency = to_ascii_uppercase (trim (ss_currency s)) in
          if ss_payment_status s = ''paid'' then
            if ss_amount_total s = 0 then
              Err (stripe_malformed ''payment_status=paid with non-positive amount_total'')
            else rbind (stripe_amount_to_minor (ss_amount_total s) currency) (\<lambda>amount.
              Ok \<lparr> so_reference = reference, so_settled = True, so_amount_minor = amount, so_currency = currency \<rparr>)
          else Ok \<lparr> so_reference = reference, so_settled = False, so_amount_minor = 0, so_currency = currency \<rparr>))"

section \<open>The codec\<close>

record stripe_charge_proof =
  sp_session_id :: string
  sp_status_at_charge :: string
  sp_redirect_url :: "string option"

record stripe_refund_proof =
  sr_refund_id :: string
  sr_status_at_refund :: string

record stripe_refund_response =
  rr_id :: string
  rr_status :: string
  rr_amount :: u64
  rr_currency :: string

record stripe_envelope =
  se_id :: string
  se_event_type :: string
  se_object :: json

record stripe_codec =
  stj_session :: "bytes \<Rightarrow> string + stripe_session"
  stj_session_value :: "json \<Rightarrow> string + stripe_session"
  stj_error_message :: "bytes \<Rightarrow> string option" \<comment> \<open>\<open>error.message\<close>, where the envelope parses\<close>
  stj_create :: "bytes \<Rightarrow> string + string \<times> string" \<comment> \<open>id and url\<close>
  stj_refund :: "bytes \<Rightarrow> string + stripe_refund_response"
  stj_envelope :: "bytes \<Rightarrow> string + stripe_envelope"
  stj_proof_to_bytes :: "stripe_charge_proof \<Rightarrow> bytes"
  stj_proof_from_bytes :: "bytes \<Rightarrow> stripe_charge_proof option"
  stj_refund_to_bytes :: "stripe_refund_proof \<Rightarrow> bytes"

definition stripe_classify_error :: "stripe_codec \<Rightarrow> nat \<Rightarrow> bytes \<Rightarrow> error" where
  "stripe_classify_error J status body =
     unexpected_status ''stripe'' (stj_error_message J body) status"

section \<open>Webhook\<close>

datatype stripe_webhook_error =
    StEmptyBody | StMissingSignature | StInvalidSignature | StStaleSignature
  | StMalformedResponse string | StUnhandledEvent string

fun stripe_webhook_error_display :: "stripe_webhook_error \<Rightarrow> string" where
  "stripe_webhook_error_display StEmptyBody = ''payments: stripe: empty request body''"
| "stripe_webhook_error_display StMissingSignature = ''payments: stripe: missing Stripe-Signature header''"
| "stripe_webhook_error_display StInvalidSignature = ''payments: stripe: invalid webhook signature''"
| "stripe_webhook_error_display StStaleSignature = ''payments: stripe: webhook timestamp outside replay tolerance''"
| "stripe_webhook_error_display (StMalformedResponse m) = ''payments: stripe: malformed API response: '' @ m"
| "stripe_webhook_error_display (StUnhandledEvent t) = ''payments: unhandled webhook event type: '' @ t"

text \<open>\<open>parse_signature_header\<close>: the last \<open>t\<close> and the last \<open>v1\<close> among the comma-separated pairs.\<close>

fun signature_parts :: "string list \<Rightarrow> string option \<Rightarrow> string option \<Rightarrow> string option \<times> string option" where
  "signature_parts [] ts v1 = (ts, v1)"
| "signature_parts (part # parts) ts v1 =
     (case split_once (CHR ''='') (trim part) of
        None \<Rightarrow> signature_parts parts ts v1
      | Some (k, v) \<Rightarrow>
          if k = ''t'' then signature_parts parts (Some v) v1
          else if k = ''v1'' then signature_parts parts ts (Some v)
          else signature_parts parts ts v1)"

definition parse_signature_header :: "string \<Rightarrow> stripe_webhook_error + string \<times> string" where
  "parse_signature_header hdr =
     (case signature_parts (split_on (\<lambda>c. c = CHR '','') hdr) None None of
        (Some t, Some v) \<Rightarrow> Ok (t, v)
      | _ \<Rightarrow> Err StInvalidSignature)"

definition SIGNATURE_TOLERANCE_SECS :: nat where "SIGNATURE_TOLERANCE_SECS = 300"

record stripe_webhook_event =
  sw_event_id :: string
  sw_reference :: string
  sw_settled :: bool
  sw_amount_minor :: u64
  sw_currency :: string

text \<open>What a delivery must get through before its body is read.\<close>

definition stripe_authenticate ::
    "mac_lib \<Rightarrow> string \<Rightarrow> bytes \<Rightarrow> string \<Rightarrow> u64 \<Rightarrow> stripe_webhook_error + unit" where
  "stripe_authenticate H secret body hdr0 now =
     (let hdr = trim hdr0 in
      if hdr = [] then Err StMissingSignature
      else if body = [] then Err StEmptyBody
      else
        rbind (parse_signature_header hdr) (\<lambda>(ts, v1).
        if \<not> verify_hmac_sha256_hex H (as_bytes secret) (as_bytes ts @ as_bytes ''.'' @ body) v1
        then Err StInvalidSignature
        else
          rbind (ok_or StInvalidSignature (parse_i64 ts)) (\<lambda>ts_unix.
            if SIGNATURE_TOLERANCE_SECS < age_abs now ts_unix then Err StStaleSignature else Ok ())))"

definition stripe_parse_event :: "stripe_codec \<Rightarrow> bytes \<Rightarrow> stripe_webhook_error + stripe_webhook_event" where
  "stripe_parse_event J body =
     rbind (map_err StMalformedResponse (stj_envelope J body)) (\<lambda>env.
     if se_event_type env \<noteq> ''checkout.session.completed'' \<and>
        se_event_type env \<noteq> ''checkout.session.async_payment_succeeded''
     then Err (StUnhandledEvent (se_event_type env))
     else
       rbind (map_err (\<lambda>e. StMalformedResponse (''event data.object: '' @ e)) (stj_session_value J (se_object env))) (\<lambda>s.
       rbind (map_err (\<lambda>e. StMalformedResponse (error_display e)) (evaluate_session s)) (\<lambda>out.
         Ok \<lparr> sw_event_id = (if se_id env = [] then ss_id s else se_id env), sw_reference = so_reference out,
              sw_settled = so_settled out, sw_amount_minor = so_amount_minor out, sw_currency = so_currency out \<rparr>)))"

definition stripe_verify_and_parse ::
    "mac_lib \<Rightarrow> stripe_codec \<Rightarrow> string \<Rightarrow> bytes \<Rightarrow> string \<Rightarrow> u64 \<Rightarrow> stripe_webhook_error + stripe_webhook_event" where
  "stripe_verify_and_parse H J secret body hdr now =
     rbind (stripe_authenticate H secret body hdr now) (\<lambda>_. stripe_parse_event J body)"

section \<open>The rail\<close>

definition STRIPE_API_BASE :: string where "STRIPE_API_BASE = ''https://api.stripe.com/v1''"

record stripe_rail =
  st_config :: stripe_config
  st_capabilities :: rail_capabilities
  st_base_url :: string

text \<open>\<open>client\<close> is what building the HTTP client with the timeout yields.\<close>

definition stripe_new :: "(u64 \<Rightarrow> string + unit) \<Rightarrow> stripe_config \<Rightarrow> stripe_rail result" where
  "stripe_new client config =
     rbind (require_non_empty ''secret_key'' (st_secret_key config)) (\<lambda>_.
     rbind (require_non_empty ''webhook_secret'' (st_webhook_secret config)) (\<lambda>_.
     rbind (build_client ''stripe'' client (st_timeout_secs config)) (\<lambda>_.
       Ok \<lparr> st_config = config,
            st_capabilities = custodial_caps True (st_requires_kyc config) (st_currencies config)
              (Days (st_settlement_days config)),
            st_base_url = STRIPE_API_BASE \<rparr>)))"

definition stripe_check_currency :: "stripe_rail \<Rightarrow> string \<Rightarrow> unit result" where
  "stripe_check_currency R currency =
     (if currencies (st_capabilities R) = [] then Ok ()
      else check_listed_currency ''stripe'' (currencies (st_capabilities R)) currency)"

definition stripe_request ::
    "stripe_rail \<Rightarrow> string \<Rightarrow> string \<Rightarrow> (string \<times> string) list option \<Rightarrow> string option \<Rightarrow> http_request" where
  "stripe_request R meth path form idempotency_key =
     \<lparr> hq_method = meth, hq_url = st_base_url R @ path, hq_auth = BasicAuth (st_secret_key (st_config R)) None,
       hq_headers = (case idempotency_key of Some key \<Rightarrow> [(''Idempotency-Key'', key)] | None \<Rightarrow> []) @
         [(''Accept'', ''application/json'')],
       hq_body = (case form of Some f \<Rightarrow> FormBody f | None \<Rightarrow> NoBody) \<rparr>"

definition stripe_fetch ::
    "stripe_codec \<Rightarrow> (bytes \<Rightarrow> string + 'a) \<Rightarrow> 'w http_client \<Rightarrow> stripe_rail \<Rightarrow> string \<Rightarrow> string \<Rightarrow>
     (string \<times> string) list option \<Rightarrow> string option \<Rightarrow> 'w \<Rightarrow> 'a result \<times> 'w" where
  "stripe_fetch J parse C R meth path form key w =
     fetch ''stripe'' path (stripe_classify_error J) stripe_malformed parse C (stripe_request R meth path form key) w"

definition stripe_quote :: "('w \<Rightarrow> u64) \<Rightarrow> stripe_rail \<Rightarrow> pay_request \<Rightarrow> 'w \<Rightarrow> quote result \<times> 'w" where
  "stripe_quote now R req w =
     (rbind (pay_request_validate req) (\<lambda>_.
      rbind (stripe_check_currency R (pr_currency req)) (\<lambda>_.
      rbind (stripe_amount (pr_amount_minor req) (pr_currency req)) (\<lambda>_.
        Ok (fiat_quote ''stripe'' (caps_settlement (st_capabilities R)) (now w) (pr_amount_minor req) (pr_currency req))))), w)"

definition stripe_charge_form :: "pay_request \<Rightarrow> string \<Rightarrow> u64 \<Rightarrow> (string \<times> string) list" where
  "stripe_charge_form req currency amount =
     [(''mode'', ''payment''),
      (''client_reference_id'', pr_reference req),
      (''line_items[0][quantity]'', ''1''),
      (''line_items[0][price_data][currency]'', to_ascii_lowercase currency),
      (''line_items[0][price_data][unit_amount]'', dec_of_nat (unat amount)),
      (''line_items[0][price_data][product_data][name]'', ''patala order '' @ pr_reference req),
      (''success_url'', pr_destination req),
      (''cancel_url'', pr_destination req),
      (''metadata[patala_reference]'', pr_reference req)]"

definition stripe_charge_guards :: "stripe_rail \<Rightarrow> pay_request \<Rightarrow> (string \<times> u64) result" where
  "stripe_charge_guards R req =
     rbind (pay_request_validate req) (\<lambda>_.
     rbind (stripe_check_currency R (pr_currency req)) (\<lambda>_.
       let currency = to_ascii_uppercase (trim (pr_currency req)) in
       rbind (stripe_amount (pr_amount_minor req) currency) (\<lambda>amount. Ok (currency, amount))))"

definition stripe_charge ::
    "stripe_codec \<Rightarrow> 'w http_client \<Rightarrow> stripe_rail \<Rightarrow> pay_request \<Rightarrow> 'w \<Rightarrow> receipt result \<times> 'w" where
  "stripe_charge J C R req w =
     (case stripe_charge_guards R req of
        Err e \<Rightarrow> (Err e, w)
      | Ok (currency, amount) \<Rightarrow>
          (case stripe_fetch J (stj_create J) C R ''POST'' ''/checkout/sessions''
              (Some (stripe_charge_form req currency amount)) (Some (''begin:'' @ pr_reference req)) w of
             (Err e, w') \<Rightarrow> (Err e, w')
           | (Ok (sid, url), w') \<Rightarrow>
               if sid = [] \<or> url = [] then (Err (stripe_malformed ''empty session id or url''), w')
               else
                 (Ok (pending_receipt ''stripe'' currency (pr_reference req)
                    (stj_proof_to_bytes J \<lparr> sp_session_id = sid, sp_status_at_charge = ''open'',
                       sp_redirect_url = Some url \<rparr>)), w')))"

text \<open>The session a receipt's proof names, if it may go into a path.\<close>

definition stripe_session_id :: "stripe_codec \<Rightarrow> receipt \<Rightarrow> string option" where
  "stripe_session_id J r =
     Option.bind (stj_proof_from_bytes J (r_proof r)) (\<lambda>p.
       case safe_path_segment ''stripe id'' (sp_session_id p) of Ok s \<Rightarrow> Some s | Err _ \<Rightarrow> None)"

definition stripe_session_settles :: "stripe_session \<Rightarrow> receipt \<Rightarrow> bool" where
  "stripe_session_settles s r =
     (case evaluate_session s of
        Err _ \<Rightarrow> False
      | Ok out \<Rightarrow> covers (so_settled out) (so_currency out) (so_amount_minor out) r)"

definition stripe_verify ::
    "stripe_codec \<Rightarrow> 'w http_client \<Rightarrow> stripe_rail \<Rightarrow> receipt \<Rightarrow> 'w \<Rightarrow> bool result \<times> 'w" where
  "stripe_verify J C R r w =
     (if r_rail_id r \<noteq> ''stripe'' then (Ok False, w)
      else case stripe_session_id J r of
        None \<Rightarrow> (Ok False, w)
      | Some sid \<Rightarrow>
          (case stripe_fetch J (stj_session J) C R ''GET'' (''/checkout/sessions/'' @ sid) None None w of
             (Err e, w') \<Rightarrow> (Err e, w')
           | (Ok s, w') \<Rightarrow> (Ok (stripe_session_settles s r), w')))"

definition stripe_refund_guards :: "stripe_codec \<Rightarrow> receipt \<Rightarrow> string result" where
  "stripe_refund_guards J r =
     (if r_rail_id r \<noteq> ''stripe'' then
        Err (names_other_rail ''stripe'' r)
      else
        rbind (ok_or (InvalidRequest ''receipt proof is not a stripe charge proof'') (stj_proof_from_bytes J (r_proof r)))
          (\<lambda>p. safe_path_segment ''stripe id'' (sp_session_id p)))"

definition stripe_refund_receipt :: "stripe_codec \<Rightarrow> u64 \<Rightarrow> receipt \<Rightarrow> stripe_refund_response \<Rightarrow> receipt result" where
  "stripe_refund_receipt J now r parsed =
     (let succeeded = (rr_status parsed = ''succeeded''); currency = to_ascii_uppercase (trim (rr_currency parsed)) in
      rbind (if succeeded then stripe_amount_to_minor (rr_amount parsed) currency else Ok 0) (\<lambda>amount.
        Ok \<lparr> r_rail_id = ''stripe'', r_amount_minor = amount, r_currency = currency, r_reference = r_reference r,
             r_proof = stj_refund_to_bytes J \<lparr> sr_refund_id = rr_id parsed, sr_status_at_refund = rr_status parsed \<rparr>,
             r_settled_at_unix = now \<rparr>))"

definition stripe_refund ::
    "stripe_codec \<Rightarrow> ('w \<Rightarrow> u64) \<Rightarrow> 'w http_client \<Rightarrow> stripe_rail \<Rightarrow> receipt \<Rightarrow> 'w \<Rightarrow> receipt result \<times> 'w" where
  "stripe_refund J now C R r w =
     (case stripe_refund_guards J r of
        Err e \<Rightarrow> (Err e, w)
      | Ok sid \<Rightarrow>
          (case stripe_fetch J (stj_session J) C R ''GET'' (''/checkout/sessions/'' @ sid) None None w of
             (Err e, w1) \<Rightarrow> (Err e, w1)
           | (Ok s, w1) \<Rightarrow>
               (case ss_payment_intent s of
                  Some intent \<Rightarrow>
                    if blank intent then
                      (Err (Rail ''stripe: session has no payment_intent to refund (payment not completed)''), w1)
                    else
                      (case stripe_fetch J (stj_refund J) C R ''POST'' ''/refunds'' (Some [(''payment_intent'', intent)]) None w1 of
                         (Err e, w2) \<Rightarrow> (Err e, w2)
                       | (Ok parsed, w2) \<Rightarrow> (stripe_refund_receipt J (now w2) r parsed, w2))
                | None \<Rightarrow>
                    (Err (Rail ''stripe: session has no payment_intent to refund (payment not completed)''), w1))))"

definition stripe_verify_webhook ::
    "mac_lib \<Rightarrow> stripe_codec \<Rightarrow> stripe_rail \<Rightarrow> webhook_delivery \<Rightarrow> 'w \<Rightarrow> webhook_event result \<times> 'w" where
  "stripe_verify_webhook H J R d w =
     (rbind (map_err (\<lambda>e. InvalidRequest (stripe_webhook_error_display e))
        (stripe_verify_and_parse H J (st_webhook_secret (st_config R)) (raw_body d)
          (header_or_empty d ''Stripe-Signature'') (now_unix d))) (\<lambda>ev.
        Ok (settlement_event ''stripe'' (sw_event_id ev) (sw_reference ev) (sw_settled ev) (sw_amount_minor ev)
          (sw_currency ev))), w)"

definition stripe_payment_rail ::
    "mac_lib \<Rightarrow> stripe_codec \<Rightarrow> ('w \<Rightarrow> u64) \<Rightarrow> 'w http_client \<Rightarrow> stripe_rail \<Rightarrow> 'w payment_rail" where
  "stripe_payment_rail H J now C R =
     \<lparr> rail_id = ''stripe'',
       capabilities = st_capabilities R,
       rail_quote = stripe_quote now R,
       rail_charge = stripe_charge J C R,
       rail_verify = stripe_verify J C R,
       rail_validate_destination = redirect_url ''stripe'',
       rail_refund = stripe_refund J now C R,
       rail_verify_webhook = stripe_verify_webhook H J R \<rparr>"

section \<open>Facts\<close>

lemma stripe_payment_rail_sel [simp]:
  "rail_id (stripe_payment_rail H J now C R) = ''stripe''"
  "rail_quote (stripe_payment_rail H J now C R) = stripe_quote now R"
  "rail_charge (stripe_payment_rail H J now C R) = stripe_charge J C R"
  "rail_verify (stripe_payment_rail H J now C R) = stripe_verify J C R"
  "rail_validate_destination (stripe_payment_rail H J now C R) = redirect_url ''stripe''"
  "rail_refund (stripe_payment_rail H J now C R) = stripe_refund J now C R"
  "rail_verify_webhook (stripe_payment_rail H J now C R) = stripe_verify_webhook H J R"
  by (simp_all add: stripe_payment_rail_def)

lemma stripe_charge_Ok:
  assumes "stripe_charge J C R req w = (Ok r, w')"
  obtains currency pb where "r = pending_receipt ''stripe'' currency (pr_reference req) pb"
  using assms by (auto simp: stripe_charge_def split: sum.splits prod.splits if_splits)

lemma stripe_processor_rail: "processor_rail (stripe_payment_rail H J now C R) (\<lambda>_. True)"
  by (intro processor_railI processor_coreI)
    (auto simp: stripe_quote_def stripe_charge_def stripe_charge_guards_def stripe_verify_def
      stripe_verify_webhook_def split: sum.splits prod.splits if_splits)

interpretation stripe: echoing_processor "stripe_payment_rail H J now C R" "\<lambda>_. True"
  for H J and now :: "'w \<Rightarrow> u64" and C R
  by (intro echoing_processor.intro rail_contract.intro rail_contract_axioms.intro stripe_processor_rail
      processor_rail.axioms(1) [OF stripe_processor_rail])
    (auto simp: stripe_quote_def elim: stripe_charge_Ok)

lemma evaluate_session_settled_iff:
  "evaluate_session s = Ok out \<and> so_settled out \<longleftrightarrow>
     ss_id s \<noteq> [] \<and> ss_payment_status s = ''paid'' \<and> ss_amount_total s \<noteq> 0 \<and>
     (\<exists>reference amount.
        (if ss_client_reference_id s \<noteq> [] then reference = ss_client_reference_id s
         else ss_metadata s ''patala_reference'' = Some reference) \<and>
        stripe_amount_to_minor (ss_amount_total s) (to_ascii_uppercase (trim (ss_currency s))) = Ok amount \<and>
        out = \<lparr> so_reference = reference, so_settled = True, so_amount_minor = amount,
                so_currency = to_ascii_uppercase (trim (ss_currency s)) \<rparr>)"
  by (auto simp: evaluate_session_def Let_def split: option.splits if_splits)

lemma stripe_session_id_Some_iff:
  "stripe_session_id J r = Some sid \<longleftrightarrow>
     (\<exists>p. stj_proof_from_bytes J (r_proof r) = Some p \<and> safe_path_segment ''stripe id'' (sp_session_id p) = Ok sid)"
proof (cases "stj_proof_from_bytes J (r_proof r)")
  case (Some p)
  then show ?thesis
    by (cases "safe_path_segment ''stripe id'' (sp_session_id p)") (auto simp: stripe_session_id_def)
qed (simp add: stripe_session_id_def)

lemma stripe_verify_True_iff:
  "stripe_verify J C R r w = (Ok True, w') \<longleftrightarrow>
     r_rail_id r = ''stripe'' \<and>
     (\<exists>sid s. stripe_session_id J r = Some sid \<and>
        says C (stripe_request R ''GET'' (''/checkout/sessions/'' @ sid) None None) (stj_session J) w s w' \<and>
        stripe_session_settles s r)"
  by (cases "stripe_session_id J r") (simp_all add: stripe_verify_def stripe_fetch_def judged_fetch)

lemma stripe_authenticate_Ok:
  "stripe_authenticate H secret body hdr now = Ok u \<longleftrightarrow>
     trim hdr \<noteq> [] \<and> body \<noteq> [] \<and>
     (\<exists>ts v1 ts_unix. parse_signature_header (trim hdr) = Ok (ts, v1) \<and>
        verify_hmac_sha256_hex H (as_bytes secret) (as_bytes ts @ as_bytes ''.'' @ body) v1 \<and>
        parse_i64 ts = Some ts_unix \<and> age_abs now ts_unix \<le> 300)"
  by (auto simp: stripe_authenticate_def Let_def SIGNATURE_TOLERANCE_SECS_def not_less)

text \<open>Multiplying by the factor and dividing it out again; \<open>100\<close> does not wrap.\<close>

lemma checked_mul_100_div: "checked_mul_u a 100 = Some s \<Longrightarrow> s mod 100 = 0 \<and> s div 100 = (a :: u64)"
  using unat_checked_mul_u [of a 100 s] by (auto simp: word_unat_eq_iff unat_mod_distrib unat_div_distrib)

lemma stripe_session_settles_iff:
  "stripe_session_settles s r \<longleftrightarrow>
     (\<exists>out. (evaluate_session s = Ok out \<and> so_settled out) \<and>
        eq_ignore_ascii_case (so_currency out) (r_currency r) \<and> r_amount_minor r \<le> so_amount_minor out)"
  by (cases "evaluate_session s") (auto simp: stripe_session_settles_def covers_iff)

text \<open>The session that settles: paid, with an id, a positive total and something to reconcile against.\<close>

lemma stripe_session_settles_exact:
  "stripe_session_settles s r \<longleftrightarrow>
     ss_id s \<noteq> [] \<and> ss_payment_status s = ''paid'' \<and> ss_amount_total s \<noteq> 0 \<and>
     \<not> (ss_client_reference_id s = [] \<and> ss_metadata s ''patala_reference'' = None) \<and>
     eq_ignore_ascii_case (to_ascii_uppercase (trim (ss_currency s))) (r_currency r) \<and>
     (\<exists>amount. stripe_amount_to_minor (ss_amount_total s) (to_ascii_uppercase (trim (ss_currency s))) = Ok amount \<and>
        r_amount_minor r \<le> amount)"
  unfolding stripe_session_settles_iff evaluate_session_settled_iff
  by (cases "ss_client_reference_id s = []") auto

section \<open>Properties\<close>

text \<open>
  C29: Stripe's \<open>verify\<close> says yes exactly when the receipt names this rail, its proof decodes to a
  session id that is safe in a path, and Stripe answers a GET of that very session, made with the
  configured key, with a session that is paid, is reconcilable, has a positive total in the receipt's
  currency, and is worth at least the receipt's amount.
\<close>

theorem stripe_verify_exact:
  "stripe_verify J C R r w = (Ok True, w') \<longleftrightarrow>
     r_rail_id r = ''stripe'' \<and>
     (\<exists>p sid s amount.
        stj_proof_from_bytes J (r_proof r) = Some p \<and> safe_path_segment ''stripe id'' (sp_session_id p) = Ok sid \<and>
        says C (stripe_request R ''GET'' (''/checkout/sessions/'' @ sid) None None) (stj_session J) w s w' \<and>
        ss_id s \<noteq> [] \<and> ss_payment_status s = ''paid'' \<and> ss_amount_total s \<noteq> 0 \<and>
        \<not> (ss_client_reference_id s = [] \<and> ss_metadata s ''patala_reference'' = None) \<and>
        eq_ignore_ascii_case (to_ascii_uppercase (trim (ss_currency s))) (r_currency r) \<and>
        stripe_amount_to_minor (ss_amount_total s) (to_ascii_uppercase (trim (ss_currency s))) = Ok amount \<and>
        r_amount_minor r \<le> amount)"
  unfolding stripe_verify_True_iff stripe_session_id_Some_iff stripe_session_settles_exact by blast

text \<open>
  The reference of a receipt plays no part in Stripe's verdict, although the session carries the
  reference it was created for: the proof of one paid session verifies under every order reference.
\<close>

theorem stripe_verify_ignores_reference:
  "stripe_verify J C R (r\<lparr> r_reference := other \<rparr>) w = stripe_verify J C R r w"
  by (simp add: stripe_verify_def stripe_session_id_def stripe_session_settles_def covers_def cong: option.case_cong sum.case_cong)

text \<open>
  C30: a delivery becomes an event exactly when its \<open>Stripe-Signature\<close> header yields a timestamp and a
  signature, the signature is the HMAC of timestamp, dot and raw body under the non-empty webhook
  secret, the timestamp is at most 300 seconds from now on either side, and the body parses as a
  completed checkout.
\<close>

theorem stripe_webhook_authentic:
  "stripe_verify_webhook H J R d w = (Ok ev, w') \<longleftrightarrow>
     (\<exists>ts sig ts_unix e.
        parse_signature_header (trim (header_or_empty d ''Stripe-Signature'')) = Ok (ts, sig) \<and>
        trim (header_or_empty d ''Stripe-Signature'') \<noteq> [] \<and> raw_body d \<noteq> [] \<and>
        st_webhook_secret (st_config R) \<noteq> [] \<and> \<not> blank sig \<and>
        mac_hex_decode H (trim sig) =
          Some (hmac_sha256 H (as_bytes (st_webhook_secret (st_config R))) (as_bytes ts @ as_bytes ''.'' @ raw_body d)) \<and>
        parse_i64 ts = Some ts_unix \<and> nat \<bar>sint (now_unix d - ts_unix)\<bar> \<le> 300 \<and>
        stripe_parse_event J (raw_body d) = Ok e \<and>
        ev = settlement_event ''stripe'' (sw_event_id e) (sw_reference e) (sw_settled e) (sw_amount_minor e) (sw_currency e)) \<and>
     w' = w"
  by (auto simp: stripe_verify_webhook_def stripe_verify_and_parse_def stripe_authenticate_Ok verify_hmac_sha256_hex_def
      verify_hmac_hex_iff age_abs_def as_bytes_def)

text \<open>
  An amount sent to Stripe and read back is the same amount, in every currency the rail accepts,
  the ones Stripe insists on in hundredths included.
\<close>

theorem stripe_amount_round_trip:
  "case stripe_amount a currency of Ok s \<Rightarrow> stripe_amount_to_minor s currency = Ok a | Err _ \<Rightarrow> True"
  by (cases "checked_mul_u a 100")
    (auto simp: stripe_amount_def stripe_amount_to_minor_def Let_def dest: checked_mul_100_div)

end
