(* ===== verification/Form_Encoding.thy ===== *)
theory Form_Encoding
  imports Rust_Str
begin

text \<open>
  Bytes to text and form encoding, as the adapters of \<open>patala-fiat\<close> that read form bodies carry them:
  \<open>str::from_utf8\<close> and \<open>from_utf8_lossy\<close> of the standard library (a string is its UTF-8 bytes), the
  percent decoder of \<open>mollie/webhook.rs\<close>, and the escaping of \<open>payfast/models.rs\<close>. The facts are the
  round trips.
\<close>

section \<open>UTF-8\<close>

definition string_of_bytes :: "bytes \<Rightarrow> string" where
  "string_of_bytes bs = map (\<lambda>b. char_of (unat b)) bs"

text \<open>
  What stands at the head of a byte string: a character of so many bytes, so many bytes that cannot
  start one, or the beginning of one that the end of the string cuts off.
\<close>

datatype utf8_head = Utf8Char nat | Utf8Bad nat | Utf8Cut

definition utf8_width :: "nat \<Rightarrow> nat" where
  "utf8_width b =
     (if b < 0x80 then 1 else if 0xC2 \<le> b \<and> b \<le> 0xDF then 2 else if 0xE0 \<le> b \<and> b \<le> 0xEF then 3
      else if 0xF0 \<le> b \<and> b \<le> 0xF4 then 4 else 0)"

definition utf8_cont :: "nat \<Rightarrow> bool" where
  "utf8_cont b \<longleftrightarrow> 0x80 \<le> b \<and> b \<le> 0xBF"

definition utf8_second :: "nat \<Rightarrow> nat \<Rightarrow> bool" where
  "utf8_second b c \<longleftrightarrow>
     utf8_cont c \<and> (b = 0xE0 \<longrightarrow> 0xA0 \<le> c) \<and> (b = 0xED \<longrightarrow> c \<le> 0x9F) \<and> (b = 0xF0 \<longrightarrow> 0x90 \<le> c) \<and> (b = 0xF4 \<longrightarrow> c \<le> 0x8F)"

fun utf8_rest :: "nat \<Rightarrow> nat \<Rightarrow> string \<Rightarrow> utf8_head" where
  "utf8_rest done 0 s = Utf8Char done"
| "utf8_rest done (Suc k) [] = Utf8Cut"
| "utf8_rest done (Suc k) (c # s) = (if utf8_cont (code c) then utf8_rest (Suc done) k s else Utf8Bad done)"

definition utf8_head_of :: "char \<Rightarrow> string \<Rightarrow> utf8_head" where
  "utf8_head_of c s =
     (let w = utf8_width (code c) in
      if w = 0 then Utf8Bad 1
      else if w = 1 then Utf8Char 1
      else case s of
        [] \<Rightarrow> Utf8Cut
      | d # t \<Rightarrow> if utf8_second (code c) (code d) then utf8_rest 2 (w - 2) t else Utf8Bad 1)"

text \<open>\<open>from_utf8\<close>: where the first error is, and how many bytes it has (none at a cut).\<close>

function utf8_error :: "nat \<Rightarrow> string \<Rightarrow> (nat \<times> nat option) option" where
  "utf8_error i [] = None"
| "utf8_error i (c # s) =
     (case utf8_head_of c s of
        Utf8Char n \<Rightarrow> utf8_error (i + n) (drop (n - 1) s)
      | Utf8Bad n \<Rightarrow> Some (i, Some n)
      | Utf8Cut \<Rightarrow> Some (i, None))"
  by pat_completeness auto
termination
  by (relation "measure (\<lambda>(i, s). length s)") auto

definition utf8_valid :: "string \<Rightarrow> bool" where
  "utf8_valid s \<longleftrightarrow> utf8_error 0 s = None"

fun utf8_error_display :: "nat \<times> nat option \<Rightarrow> string" where
  "utf8_error_display (i, Some n) =
     ''invalid utf-8 sequence of '' @ dec_of_nat n @ '' bytes from index '' @ dec_of_nat i"
| "utf8_error_display (i, None) = ''incomplete utf-8 byte sequence from index '' @ dec_of_nat i"

definition from_utf8 :: "bytes \<Rightarrow> string + string" where
  "from_utf8 bs =
     (let s = string_of_bytes bs in
      case utf8_error 0 s of Some e \<Rightarrow> Err (utf8_error_display e) | None \<Rightarrow> Ok s)"

text \<open>\<open>from_utf8_lossy\<close>: each error becomes U+FFFD.\<close>

definition REPLACEMENT :: string where
  "REPLACEMENT = [CHR 0xEF, CHR 0xBF, CHR 0xBD]"

function utf8_lossy :: "string \<Rightarrow> string" where
  "utf8_lossy [] = []"
| "utf8_lossy (c # s) =
     (case utf8_head_of c s of
        Utf8Char n \<Rightarrow> c # take (n - 1) s @ utf8_lossy (drop (n - 1) s)
      | Utf8Bad n \<Rightarrow> REPLACEMENT @ utf8_lossy (drop (n - 1) s)
      | Utf8Cut \<Rightarrow> REPLACEMENT)"
  by pat_completeness auto
termination
  by (relation "measure length") auto

section \<open>Percent escapes\<close>

definition hex_val :: "char \<Rightarrow> nat option" where
  "hex_val c =
     (if is_ascii_digit c then Some (code c - 48)
      else if is_ascii_upper c \<and> code c \<le> 70 then Some (code c - 55)
      else if is_ascii_lower c \<and> code c \<le> 102 then Some (code c - 87)
      else None)"

text \<open>\<open>u8::from_str_radix(_, 16)\<close> of two characters: a \<open>+\<close> may stand in front of one digit.\<close>

definition hex_byte :: "char \<Rightarrow> char \<Rightarrow> char option" where
  "hex_byte a b =
     (if a = CHR ''+'' then map_option char_of (hex_val b)
      else Option.bind (hex_val a) (\<lambda>x. map_option (\<lambda>y. char_of (16 * x + y)) (hex_val b)))"

text \<open>Mollie's decoder keeps an escape it cannot read.\<close>

function percent_decode_bytes :: "string \<Rightarrow> string" where
  "percent_decode_bytes [] = []"
| "percent_decode_bytes (c # s) =
     (if c = CHR ''+'' then CHR '' '' # percent_decode_bytes s
      else if c = CHR ''%'' \<and> 2 \<le> length s then
        (case hex_byte (s ! 0) (s ! 1) of
           Some b \<Rightarrow> b # percent_decode_bytes (drop 2 s)
         | None \<Rightarrow> c # percent_decode_bytes s)
      else c # percent_decode_bytes s)"
  by pat_completeness auto
termination
  by (relation "measure length") auto

definition percent_decode :: "string \<Rightarrow> string" where
  "percent_decode s = utf8_lossy (percent_decode_bytes s)"

text \<open>\<open>form_urlencoded::parse\<close>: the pairs of a body, in order.\<close>

definition form_pair :: "string \<Rightarrow> string \<times> string" where
  "form_pair pair =
     (case split_once (CHR ''='') pair of
        Some (k, v) \<Rightarrow> (percent_decode k, percent_decode v)
      | None \<Rightarrow> (percent_decode pair, percent_decode []))"

definition form_parse :: "string \<Rightarrow> (string \<times> string) list" where
  "form_parse s = map form_pair (filter (\<lambda>p. p \<noteq> []) (split_on (\<lambda>c. c = CHR ''&'') s))"

text \<open>PayFast's escaping, and its unescaping, which refuses what it cannot read.\<close>

definition upper_hex_digit :: "nat \<Rightarrow> char" where
  "upper_hex_digit d = (if d < 10 then char_of (48 + d) else char_of (55 + d))"

definition query_safe :: "char \<Rightarrow> bool" where
  "query_safe c \<longleftrightarrow> is_ascii_upper c \<or> is_ascii_lower c \<or> is_ascii_digit c \<or> c \<in> {CHR ''-'', CHR ''_'', CHR ''.'', CHR ''~''}"

definition query_escape_char :: "char \<Rightarrow> string" where
  "query_escape_char c =
     (if query_safe c then [c]
      else if c = CHR '' '' then ''+''
      else [CHR ''%'', upper_hex_digit (code c div 16), upper_hex_digit (code c mod 16)])"

definition query_escape :: "string \<Rightarrow> string" where
  "query_escape s = concat (map query_escape_char s)"

function query_unescape_bytes :: "string \<Rightarrow> string option" where
  "query_unescape_bytes [] = Some []"
| "query_unescape_bytes (c # s) =
     (if c = CHR ''+'' then map_option ((#) (CHR '' '')) (query_unescape_bytes s)
      else if c = CHR ''%'' then
        (if length s < 2 then None
         else case hex_byte (s ! 0) (s ! 1) of
           Some b \<Rightarrow> map_option ((#) b) (query_unescape_bytes (drop 2 s))
         | None \<Rightarrow> None)
      else map_option ((#) c) (query_unescape_bytes s))"
  by pat_completeness auto
termination
  by (relation "measure length") auto

definition query_unescape :: "string \<Rightarrow> string option" where
  "query_unescape s = Option.bind (query_unescape_bytes s) (\<lambda>t. if utf8_valid t then Some t else None)"

section \<open>Facts\<close>

lemma utf8_head_of_ascii: "code c < 128 \<Longrightarrow> utf8_head_of c s = Utf8Char 1"
  by (simp add: utf8_head_of_def utf8_width_def)

lemma utf8_error_ascii: "list_all (\<lambda>c. code c < 128) s \<Longrightarrow> utf8_error i s = None"
  by (induction s arbitrary: i) (simp_all add: utf8_head_of_ascii)

lemma utf8_lossy_valid: "utf8_error i s = None \<Longrightarrow> utf8_lossy s = s"
  by (induction i s rule: utf8_error.induct) (auto split: utf8_head.splits)

lemma hex_val_upper [simp]:
  assumes "d < 16"
  shows "hex_val (upper_hex_digit d) = Some d" "upper_hex_digit d \<noteq> CHR ''+''" "query_safe (upper_hex_digit d)"
proof -
  from assms consider "d < 10" | "d = 10" | "d = 11" | "d = 12" | "d = 13" | "d = 14" | "d = 15"
    by fastforce
  note cases = this
  show "hex_val (upper_hex_digit d) = Some d"
    by (rule cases) (simp_all add: hex_val_def upper_hex_digit_def is_ascii_digit_def is_ascii_upper_def)
  show "query_safe (upper_hex_digit d)"
    by (rule cases) (simp_all add: upper_hex_digit_def is_ascii_digit_def is_ascii_upper_def query_safe_def)
  then show "upper_hex_digit d \<noteq> CHR ''+''"
    by (auto simp: query_safe_def is_ascii_digit_def is_ascii_upper_def is_ascii_lower_def)
qed

lemma high_digit_less: "code c div 16 < 16"
  using code_less [of c] by (simp add: less_mult_imp_div_less)

lemma hex_byte_upper [simp]:
  "hex_byte (upper_hex_digit (code c div 16)) (upper_hex_digit (code c mod 16)) = Some c"
  using high_digit_less [of c] by (simp add: hex_byte_def)

lemma query_safe_plain: "query_safe c \<Longrightarrow> c \<noteq> CHR ''+'' \<and> c \<noteq> CHR ''%'' \<and> c \<noteq> CHR ''&'' \<and> c \<noteq> CHR ''=''"
  by (auto simp: query_safe_def is_ascii_digit_def is_ascii_upper_def is_ascii_lower_def)

lemma query_escape_simps [simp]:
  "query_escape [] = []" "query_escape (c # s) = query_escape_char c @ query_escape s"
  by (simp_all add: query_escape_def)

lemma query_unescape_bytes_escape [simp]: "query_unescape_bytes (query_escape s) = Some s"
  by (induction s) (auto simp: query_escape_char_def query_safe_plain)

lemma percent_decode_bytes_escape [simp]: "percent_decode_bytes (query_escape s) = s"
  by (induction s) (auto simp: query_escape_char_def query_safe_plain)

text \<open>An escaped text holds no separator, and is never empty unless the text was.\<close>

lemma set_query_escape: "x \<in> set (query_escape s) \<Longrightarrow> query_safe x \<or> x = CHR ''+'' \<or> x = CHR ''%''"
  using high_digit_less by (induction s) (auto simp: query_escape_char_def split: if_splits)

lemma query_escape_no_separator: "CHR ''&'' \<notin> set (query_escape s)" "CHR ''='' \<notin> set (query_escape s)"
  using set_query_escape query_safe_plain by fastforce+

lemma query_escape_Nil_iff [simp]: "query_escape s = [] \<longleftrightarrow> s = []"
  by (cases s) (auto simp: query_escape_char_def)

lemma query_unescape_escape: "query_unescape (query_escape s) = (if utf8_valid s then Some s else None)"
  by (simp add: query_unescape_def)

lemma percent_decode_escape: "utf8_valid s \<Longrightarrow> percent_decode (query_escape s) = s"
  by (simp add: percent_decode_def utf8_valid_def utf8_lossy_valid)

lemma byte_of_char_of_unat: "byte_of (char_of (unat (b :: u8))) = b"
proof -
  have "unat b < 256" using unsigned_less [of b, where ?'a = nat] by simp
  then show ?thesis by (simp add: byte_of_def)
qed

lemma string_of_bytes_as_bytes [simp]: "string_of_bytes (as_bytes s) = s" "as_bytes (string_of_bytes bs) = bs"
  by (simp_all add: string_of_bytes_def as_bytes_def comp_def byte_of_char_of_unat unat_byte_of map_idI)

lemma from_utf8_as_bytes: "from_utf8 (as_bytes s) = Ok t \<longleftrightarrow> utf8_valid s \<and> t = s"
  by (auto simp: from_utf8_def Let_def utf8_valid_def split: option.splits)

end
