(* ===== verification/Fiat_Paypal.thy ===== *)
theory Fiat_Paypal
  imports Fiat_Adapter Form_Encoding
begin

text \<open>
  \<open>patala-fiat/src/paypal\<close>: an order is created by \<open>charge\<close>, approved by the buyer, and captured by
  \<open>verify\<close>, which is where money moves. Every method starts by fetching an access token; a webhook is
  checked by asking PayPal. The structures \<open>serde\<close> reads and writes go through \<open>J\<close>.
\<close>

section \<open>Configuration\<close>

record paypal_config =
  pp_client_id :: string
  pp_client_secret :: string
  pp_webhook_id :: string
  pp_config_base_url :: string
  pp_requires_kyc :: bool
  pp_currencies :: "string list"
  pp_settlement_days :: u8
  pp_timeout_secs :: u64

definition LIVE_BASE_URL :: string where "LIVE_BASE_URL = ''https://api-m.paypal.com''"

definition SANDBOX_BASE_URL :: string where "SANDBOX_BASE_URL = ''https://api-m.sandbox.paypal.com''"

definition paypal_base_url :: "environment \<Rightarrow> string result" where
  "paypal_base_url env =
     (let e = to_ascii_lowercase (trim (case env ''PAYPAL_ENV'' of Some v \<Rightarrow> v | None \<Rightarrow> [])) in
      if e = ''live'' then Ok LIVE_BASE_URL
      else if e = ''sandbox'' then Ok SANDBOX_BASE_URL
      else Err (InvalidRequest
        (''environment variable PAYPAL_ENV must be exactly '' @ debug_str ''live'' @ '' or '' @ debug_str ''sandbox'')))"

definition paypal_config_from_env :: "environment \<Rightarrow> paypal_config result" where
  "paypal_config_from_env env =
     rbind (trimmed_env env ''PAYPAL_CLIENT_ID'') (\<lambda>client_id.
     rbind (trimmed_env env ''PAYPAL_CLIENT_SECRET'') (\<lambda>client_secret.
     rbind (trimmed_env env ''PAYPAL_WEBHOOK_ID'') (\<lambda>webhook_id.
     rbind (paypal_base_url env) (\<lambda>base_url.
       Ok \<lparr> pp_client_id = client_id, pp_client_secret = client_secret, pp_webhook_id = webhook_id,
            pp_config_base_url = base_url,
            pp_requires_kyc = env_flag env ''PAYPAL_REQUIRES_KYC'' True,
            pp_currencies = env_currencies env ''PAYPAL_CURRENCIES'' [],
            pp_settlement_days = env_u8 env ''PAYPAL_SETTLEMENT_DAYS'' 2,
            pp_timeout_secs = env_u64 env ''PAYPAL_TIMEOUT_SECS'' 15 \<rparr>))))"

section \<open>Amounts\<close>

definition PAYPAL_ZERO_DECIMAL :: "string list" where
  "PAYPAL_ZERO_DECIMAL = [''JPY'', ''HUF'', ''TWD'']"

definition PAYPAL_THREE_DECIMAL :: "string list" where
  "PAYPAL_THREE_DECIMAL = [''KWD'', ''BHD'', ''JOD'', ''OMR'', ''TND'']"

definition paypal_malformed :: "string \<Rightarrow> error" where
  "paypal_malformed detail = malformed_response ''paypal'' detail"

definition paypal_unsupported_currency :: "string \<Rightarrow> error" where
  "paypal_unsupported_currency cur =
     InvalidRequest (''paypal: three-decimal ISO-4217 currency '' @ debug_str cur @
       '' is not verified against PayPal's documented amount semantics; refusing rather than guessing'')"

definition paypal_amount_value :: "u64 \<Rightarrow> string \<Rightarrow> string result" where
  "paypal_amount_value amount_minor currency =
     (let cur = to_ascii_uppercase (trim currency) in
      if currency_in PAYPAL_THREE_DECIMAL cur then Err (paypal_unsupported_currency cur)
      else if currency_in PAYPAL_ZERO_DECIMAL cur then Ok (dec_of_nat (unat amount_minor))
      else Ok (dec_of_nat (unat (amount_minor div 100)) @ ''.'' @ pad_left 2 (dec_of_nat (unat (amount_minor mod 100)))))"

text \<open>
  The fraction is padded or cut to two bytes and parsed; a cut inside a multi-byte character panics, which
  is \<open>None\<close>. The sum at the end is not checked: it wraps in a release build.
\<close>

definition paypal_fraction :: "string \<Rightarrow> string option" where
  "paypal_fraction f =
     (let g = pad_right 2 f in
      if 2 < length g \<and> utf8_cont (code (g ! 2)) then None else Some (take 2 g))"

text \<open>\<open>None\<close> is the panic of the fraction, which the whole part's error comes before.\<close>

definition paypal_amount_value_to_minor :: "string \<Rightarrow> string \<Rightarrow> u64 result option" where
  "paypal_amount_value_to_minor val currency =
     (let cur = to_ascii_uppercase (trim currency) in
      if currency_in PAYPAL_THREE_DECIMAL cur then Some (Err (paypal_unsupported_currency cur))
      else
        let val' = trim val in
        if currency_in PAYPAL_ZERO_DECIMAL cur then
          Some (ok_or (paypal_malformed (''zero-decimal amount '' @ debug_str val' @ '' is not an integer'')) (parse_u64 val'))
        else
          let (whole_part, frac_part) =
            (case split_once (CHR ''.'') val' of Some (a, f) \<Rightarrow> (a, Some f) | None \<Rightarrow> (val', None)) in
          case parse_u64 whole_part of
            None \<Rightarrow> Some (Err (paypal_malformed (''amount '' @ debug_str val' @ '' has an invalid whole part'')))
          | Some whole \<Rightarrow>
              (case frac_part of
                 None \<Rightarrow> Some (Ok (whole * 100 + 0))
               | Some f \<Rightarrow>
                   map_option (\<lambda>g.
                     rbind (ok_or (paypal_malformed (''amount '' @ debug_str val' @ '' has an invalid fractional part''))
                       (parse_u64 g)) (\<lambda>frac. Ok (whole * 100 + frac))) (paypal_fraction f)))"

text \<open>Where a panic ends: \<open>aborted\<close> is the error the caller's runtime makes of it.\<close>

definition caught :: "error \<Rightarrow> 'a result option \<Rightarrow> 'a result" where
  "caught aborted x = (case x of None \<Rightarrow> Err aborted | Some res \<Rightarrow> res)"

lemma caught_Ok_iff [simp]: "caught aborted x = Ok a \<longleftrightarrow> x = Some (Ok a)"
  by (cases x) (simp_all add: caught_def)

section \<open>Wire shapes and codec\<close>

record paypal_capture =
  pc_id :: string
  pc_status :: string
  pc_currency_code :: string
  pc_value :: string

record purchase_unit =
  pu_reference_id :: string
  pu_custom_id :: string
  pu_captures :: "paypal_capture list"

record paypal_order =
  po_id :: string
  po_status :: string
  po_purchase_units :: "purchase_unit list"

record paypal_refunded =
  pd_id :: string
  pd_status :: string
  pd_currency_code :: string
  pd_value :: string

record paypal_capture_resource =
  pv_id :: string
  pv_status :: string
  pv_custom_id :: string
  pv_currency_code :: string
  pv_value :: string

record paypal_codec =
  ppj_error :: "bytes \<Rightarrow> (string \<times> string) option" \<comment> \<open>name and message\<close>
  ppj_token :: "bytes \<Rightarrow> string + string"
  ppj_created :: "bytes \<Rightarrow> string + string \<times> (string \<times> string) list" \<comment> \<open>id, and links as \<open>rel\<close> and \<open>href\<close>\<close>
  ppj_order :: "bytes \<Rightarrow> string + paypal_order"
  ppj_refund :: "bytes \<Rightarrow> string + paypal_refunded"
  ppj_json :: "bytes \<Rightarrow> string + json"
  ppj_verification :: "bytes \<Rightarrow> string + string"
  ppj_envelope :: "bytes \<Rightarrow> string + string \<times> string \<times> json" \<comment> \<open>id, event type and resource\<close>
  ppj_resource :: "json \<Rightarrow> string + paypal_capture_resource"
  ppj_proof_to_bytes :: "string \<Rightarrow> string option \<Rightarrow> bytes"
  ppj_proof_from_bytes :: "bytes \<Rightarrow> string option" \<comment> \<open>the order id\<close>
  ppj_refund_to_bytes :: "string \<Rightarrow> string \<Rightarrow> bytes"

definition paypal_classify_error :: "paypal_codec \<Rightarrow> nat \<Rightarrow> bytes \<Rightarrow> error" where
  "paypal_classify_error J status body =
     (let (name, message) = (case ppj_error J body of Some e \<Rightarrow> e | None \<Rightarrow> ([], []))
      in unexpected_status ''paypal'' (Some (if message \<noteq> [] then message else name)) status)"

section \<open>Webhook bodies\<close>

datatype paypal_webhook_error =
    PpMissingSignatureHeaders | PpInvalidSignature | PpUnexpectedStatus string | PpMalformedResponse string
  | PpUnhandledEvent string

fun paypal_webhook_error_display :: "paypal_webhook_error \<Rightarrow> string" where
  "paypal_webhook_error_display PpMissingSignatureHeaders =
     ''payments: paypal: missing one or more PAYPAL-TRANSMISSION-* headers''"
| "paypal_webhook_error_display PpInvalidSignature = ''payments: paypal: webhook signature verification failed''"
| "paypal_webhook_error_display (PpUnexpectedStatus m) = ''payments: paypal: unexpected API response status: '' @ m"
| "paypal_webhook_error_display (PpMalformedResponse m) = ''payments: paypal: malformed API response: '' @ m"
| "paypal_webhook_error_display (PpUnhandledEvent t) = ''payments: unhandled webhook event type: '' @ t"

record paypal_headers =
  ph_transmission_id :: string
  ph_transmission_time :: string
  ph_cert_url :: string
  ph_auth_algo :: string
  ph_transmission_sig :: string

definition all_present :: "paypal_headers \<Rightarrow> bool" where
  "all_present h \<longleftrightarrow> ph_transmission_id h \<noteq> [] \<and> ph_transmission_time h \<noteq> [] \<and> ph_cert_url h \<noteq> [] \<and>
     ph_auth_algo h \<noteq> [] \<and> ph_transmission_sig h \<noteq> []"

record capture_event =
  pq_event_id :: string
  pq_custom_id :: string
  pq_currency_code :: string
  pq_value :: string

definition parse_capture_completed :: "paypal_codec \<Rightarrow> bytes \<Rightarrow> paypal_webhook_error + capture_event" where
  "parse_capture_completed J body =
     rbind (map_err PpMalformedResponse (ppj_envelope J body)) (\<lambda>(eid, event_type, resource).
     if event_type \<noteq> ''PAYMENT.CAPTURE.COMPLETED'' then Err (PpUnhandledEvent event_type)
     else
       rbind (map_err (\<lambda>e. PpMalformedResponse (''event resource: '' @ e)) (ppj_resource J resource)) (\<lambda>c.
       if pv_status c \<noteq> ''COMPLETED'' then
         Err (PpMalformedResponse (''PAYMENT.CAPTURE.COMPLETED event carried resource.status='' @ debug_str (pv_status c)))
       else if pv_custom_id c = [] then
         Err (PpMalformedResponse ''capture resource has no custom_id to reconcile against'')
       else
         let event_id = (if eid \<noteq> [] then eid else pv_id c) in
         if event_id = [] then
           Err (PpMalformedResponse ''neither the event nor the capture resource has an id to deduplicate on'')
         else Ok \<lparr> pq_event_id = event_id, pq_custom_id = pv_custom_id c, pq_currency_code = pv_currency_code c,
                   pq_value = pv_value c \<rparr>))"

section \<open>The rail\<close>

record paypal_rail =
  pp_config :: paypal_config
  pp_capabilities :: rail_capabilities
  pp_base_url :: string

definition paypal_new :: "(u64 \<Rightarrow> string + unit) \<Rightarrow> paypal_config \<Rightarrow> paypal_rail result" where
  "paypal_new client config =
     rbind (require_non_empty ''client_id'' (pp_client_id config)) (\<lambda>_.
     rbind (require_non_empty ''client_secret'' (pp_client_secret config)) (\<lambda>_.
     rbind (require_non_empty ''webhook_id'' (pp_webhook_id config)) (\<lambda>_.
     rbind (require_non_empty ''base_url'' (pp_config_base_url config)) (\<lambda>_.
     rbind (build_client ''paypal'' client (pp_timeout_secs config)) (\<lambda>_.
       Ok \<lparr> pp_config = config,
            pp_capabilities = custodial_caps True (pp_requires_kyc config) (pp_currencies config)
              (Days (pp_settlement_days config)),
            pp_base_url = pp_config_base_url config \<rparr>)))))"

definition paypal_check_currency :: "paypal_rail \<Rightarrow> string \<Rightarrow> unit result" where
  "paypal_check_currency R currency =
     (if currencies (pp_capabilities R) = [] then Ok ()
      else check_listed_currency ''paypal'' (currencies (pp_capabilities R)) currency)"

definition token_request :: "paypal_rail \<Rightarrow> http_request" where
  "token_request R =
     \<lparr> hq_method = ''POST'', hq_url = pp_base_url R @ ''/v1/oauth2/token'',
       hq_auth = BasicAuth (pp_client_id (pp_config R)) (Some (pp_client_secret (pp_config R))),
       hq_headers = [(''Accept'', ''application/json'')], hq_body = FormBody [(''grant_type'', ''client_credentials'')] \<rparr>"

definition token_of_response :: "paypal_codec \<Rightarrow> http_response \<Rightarrow> string result" where
  "token_of_response J resp =
     rbind (map_err (\<lambda>e. Rail (''paypal: read token response: '' @ e)) (hr_body resp)) (\<lambda>bs.
     rbind (map_err (\<lambda>e. Rail (''paypal: '' @ e)) (bounded_len_check bs DEFAULT_MAX_BODY_BYTES)) (\<lambda>_.
     if \<not> ok_status (hr_status resp) then Err (Rail (''paypal: token endpoint http '' @ dec_of_nat (hr_status resp)))
     else
       rbind (map_err paypal_malformed (ppj_token J bs)) (\<lambda>token.
         if token = [] then Err (paypal_malformed ''empty access_token'') else Ok token)))"

definition fetch_access_token :: "paypal_codec \<Rightarrow> 'w http_client \<Rightarrow> paypal_rail \<Rightarrow> 'w \<Rightarrow> string result \<times> 'w" where
  "fetch_access_token J C R w =
     (case C (token_request R) w of
        (Err e, w') \<Rightarrow> (Err (Rail (''paypal: token request failed: '' @ e)), w')
      | (Ok resp, w') \<Rightarrow> (token_of_response J resp, w'))"

definition paypal_request :: "paypal_rail \<Rightarrow> string \<Rightarrow> string \<Rightarrow> string \<Rightarrow> http_body \<Rightarrow> http_request" where
  "paypal_request R token meth path body =
     \<lparr> hq_method = meth, hq_url = pp_base_url R @ path, hq_auth = NoAuth,
       hq_headers = [(''Authorization'', ''Bearer '' @ token), (''Accept'', ''application/json'')], hq_body = body \<rparr>"

text \<open>\<open>what\<close> is put before the parser's message; only the capture call has one.\<close>

definition paypal_fetch ::
    "paypal_codec \<Rightarrow> string \<Rightarrow> (bytes \<Rightarrow> string + 'a) \<Rightarrow> 'w http_client \<Rightarrow> paypal_rail \<Rightarrow> string \<Rightarrow> string \<Rightarrow> string \<Rightarrow>
     http_body \<Rightarrow> 'w \<Rightarrow> 'a result \<times> 'w" where
  "paypal_fetch J what parse C R token meth path body w =
     fetch ''paypal'' path (paypal_classify_error J) (\<lambda>e. paypal_malformed (what @ e)) parse C
       (paypal_request R token meth path body) w"

text \<open>The nested loops: the first completed capture of the first unit that has one.\<close>

fun find_completed_capture :: "purchase_unit list \<Rightarrow> (purchase_unit \<times> paypal_capture) option" where
  "find_completed_capture [] = None"
| "find_completed_capture (u # us) =
     (case find (\<lambda>c. pc_status c = ''COMPLETED'') (pu_captures u) of
        Some c \<Rightarrow> Some (u, c)
      | None \<Rightarrow> find_completed_capture us)"

definition unit_reference :: "purchase_unit \<Rightarrow> string" where
  "unit_reference u = (if pu_custom_id u \<noteq> [] then pu_custom_id u else pu_reference_id u)"

definition match_capture_for_receipt :: "paypal_order \<Rightarrow> receipt \<Rightarrow> (string \<times> u64) option result option" where
  "match_capture_for_receipt order r =
     (case find_completed_capture (po_purchase_units order) of
        None \<Rightarrow> Some (Err (paypal_malformed (''order '' @ po_id order @ '' has no COMPLETED capture'')))
      | Some (u, c) \<Rightarrow>
          if unit_reference u \<noteq> r_reference r then Some (Ok None)
          else
            let currency = to_ascii_uppercase (pc_currency_code c) in
            if \<not> eq_ignore_ascii_case currency (r_currency r) then Some (Ok None)
            else
              map_option (\<lambda>res. rbind res (\<lambda>amount.
                if amount = 0 then Err (paypal_malformed ''completed capture with non-positive amount'')
                else if amount < r_amount_minor r then Ok None
                else Ok (Some (pc_id c, amount)))) (paypal_amount_value_to_minor (pc_value c) currency))"

definition paypal_quote :: "('w \<Rightarrow> u64) \<Rightarrow> paypal_rail \<Rightarrow> pay_request \<Rightarrow> 'w \<Rightarrow> quote result \<times> 'w" where
  "paypal_quote now R req w =
     (rbind (pay_request_validate req) (\<lambda>_.
      rbind (paypal_check_currency R (pr_currency req)) (\<lambda>_.
        Ok (fiat_quote ''paypal'' (caps_settlement (pp_capabilities R)) (now w) (pr_amount_minor req) (pr_currency req)))), w)"

definition paypal_amount_json :: "string \<Rightarrow> string \<Rightarrow> json" where
  "paypal_amount_json currency val = JObject [(''currency_code'', JString currency), (''value'', JString val)]"

definition paypal_charge_body :: "pay_request \<Rightarrow> string \<Rightarrow> string \<Rightarrow> json" where
  "paypal_charge_body req currency val =
     JObject [(''intent'', JString ''CAPTURE''),
       (''purchase_units'', JArray [JObject [(''reference_id'', JString (pr_reference req)),
          (''custom_id'', JString (pr_reference req)), (''amount'', paypal_amount_json currency val)]]),
       (''application_context'', JObject [(''return_url'', JString (pr_destination req)),
          (''cancel_url'', JString (pr_destination req))])]"

definition paypal_charge_guards :: "paypal_rail \<Rightarrow> pay_request \<Rightarrow> (string \<times> string) result" where
  "paypal_charge_guards R req =
     rbind (pay_request_validate req) (\<lambda>_.
     rbind (paypal_check_currency R (pr_currency req)) (\<lambda>_.
       let currency = to_ascii_uppercase (trim (pr_currency req)) in
       rbind (paypal_amount_value (pr_amount_minor req) currency) (\<lambda>val. Ok (currency, val))))"

definition paypal_charge_receipt ::
    "paypal_codec \<Rightarrow> pay_request \<Rightarrow> string \<Rightarrow> string \<times> (string \<times> string) list \<Rightarrow> receipt result" where
  "paypal_charge_receipt J req currency parsed =
     (if fst parsed = [] then Err (paypal_malformed ''empty order id'')
      else case find (\<lambda>(rel, _). rel = ''approve'') (snd parsed) of
        None \<Rightarrow> Err (paypal_malformed ''no approve link in order response'')
      | Some (_, href) \<Rightarrow>
          Ok (pending_receipt ''paypal'' currency (pr_reference req) (ppj_proof_to_bytes J (fst parsed) (Some href))))"

definition paypal_charge ::
    "paypal_codec \<Rightarrow> 'w http_client \<Rightarrow> paypal_rail \<Rightarrow> pay_request \<Rightarrow> 'w \<Rightarrow> receipt result \<times> 'w" where
  "paypal_charge J C R req w =
     wbind (paypal_charge_guards R req, w) (\<lambda>(currency, val) w.
     wbind (fetch_access_token J C R w) (\<lambda>token w.
     wbind (paypal_fetch J [] (ppj_created J) C R token ''POST'' ''/v2/checkout/orders''
       (JsonBody (paypal_charge_body req currency val)) w) (\<lambda>parsed w.
       (paypal_charge_receipt J req currency parsed, w))))"

text \<open>The approved order is captured, and only then compared with the receipt.\<close>

definition matched :: "(string \<times> u64) option \<Rightarrow> bool" where
  "matched m \<longleftrightarrow> m \<noteq> None"

definition paypal_capture_and_match ::
    "error \<Rightarrow> paypal_codec \<Rightarrow> 'w http_client \<Rightarrow> paypal_rail \<Rightarrow> string \<Rightarrow> string \<Rightarrow> receipt \<Rightarrow> 'w \<Rightarrow> bool result \<times> 'w" where
  "paypal_capture_and_match aborted J C R token order_id r w =
     wbind (paypal_fetch J ''capture response: '' (ppj_order J) C R token ''POST''
       (''/v2/checkout/orders/'' @ order_id @ ''/capture'') (JsonBody (JObject [])) w) (\<lambda>captured w.
       if po_status captured \<noteq> ''COMPLETED'' then (Ok False, w)
       else (rbind (caught aborted (match_capture_for_receipt captured r)) (\<lambda>m. Ok (matched m)), w))"

definition paypal_judge_order ::
    "error \<Rightarrow> paypal_codec \<Rightarrow> 'w http_client \<Rightarrow> paypal_rail \<Rightarrow> string \<Rightarrow> string \<Rightarrow> receipt \<Rightarrow> paypal_order \<Rightarrow> 'w \<Rightarrow> bool result \<times> 'w" where
  "paypal_judge_order aborted J C R token order_id r order w =
     (if po_id order = [] then (Err (paypal_malformed ''missing order id''), w)
      else if po_status order = ''COMPLETED'' then (rbind (caught aborted (match_capture_for_receipt order r)) (\<lambda>m. Ok (matched m)), w)
      else if po_status order = ''APPROVED'' then paypal_capture_and_match aborted J C R token order_id r w
      else (Ok False, w))"

definition paypal_verify ::
    "error \<Rightarrow> paypal_codec \<Rightarrow> 'w http_client \<Rightarrow> paypal_rail \<Rightarrow> receipt \<Rightarrow> 'w \<Rightarrow> bool result \<times> 'w" where
  "paypal_verify aborted J C R r w =
     (if r_rail_id r \<noteq> ''paypal'' then (Ok False, w)
      else case ppj_proof_from_bytes J (r_proof r) of
        None \<Rightarrow> (Ok False, w)
      | Some p \<Rightarrow>
          wbind (safe_path_segment ''paypal id'' p, w) (\<lambda>order_id w.
          wbind (fetch_access_token J C R w) (\<lambda>token w.
          wbind (paypal_fetch J [] (ppj_order J) C R token ''GET'' (''/v2/checkout/orders/'' @ order_id) NoBody w) (\<lambda>order w.
            paypal_judge_order aborted J C R token order_id r order w))))"

definition paypal_refund_guards :: "paypal_codec \<Rightarrow> receipt \<Rightarrow> string result" where
  "paypal_refund_guards J r =
     (if r_rail_id r \<noteq> ''paypal'' then Err (names_other_rail ''paypal'' r)
      else
        rbind (ok_or (InvalidRequest ''receipt proof is not a paypal charge proof'') (ppj_proof_from_bytes J (r_proof r)))
          (\<lambda>p. safe_path_segment ''paypal id'' p))"

definition paypal_refund_target :: "paypal_order \<Rightarrow> receipt \<Rightarrow> (string \<times> string) result" where
  "paypal_refund_target order r =
     (case find_completed_capture (po_purchase_units order) of
        None \<Rightarrow> Err (Rail (''paypal: order '' @ po_id order @ '' has no COMPLETED capture to refund''))
      | Some (u, c) \<Rightarrow>
          if unit_reference u \<noteq> r_reference r then
            Err (Rail ''paypal: order's captured purchase unit does not match this receipt's reference'')
          else
            rbind (safe_path_segment ''paypal id'' (pc_id c)) (\<lambda>capture_id.
            rbind (paypal_amount_value (r_amount_minor r) (r_currency r)) (\<lambda>val. Ok (capture_id, val))))"

definition paypal_refund_receipt :: "paypal_codec \<Rightarrow> u64 \<Rightarrow> receipt \<Rightarrow> paypal_refunded \<Rightarrow> receipt result option" where
  "paypal_refund_receipt J now r parsed =
     (let currency = (if pd_currency_code parsed = [] then r_currency r else to_ascii_uppercase (pd_currency_code parsed)) in
      map_option (\<lambda>res. rbind res (\<lambda>amount.
          Ok \<lparr> r_rail_id = ''paypal'', r_amount_minor = amount, r_currency = currency, r_reference = r_reference r,
               r_proof = ppj_refund_to_bytes J (pd_id parsed) (pd_status parsed), r_settled_at_unix = now \<rparr>))
        (if pd_status parsed = ''COMPLETED'' then paypal_amount_value_to_minor (pd_value parsed) currency else Some (Ok 0)))"

definition paypal_refund ::
    "error \<Rightarrow> paypal_codec \<Rightarrow> ('w \<Rightarrow> u64) \<Rightarrow> 'w http_client \<Rightarrow> paypal_rail \<Rightarrow> receipt \<Rightarrow> 'w \<Rightarrow> receipt result \<times> 'w" where
  "paypal_refund aborted J now C R r w =
     wbind (paypal_refund_guards J r, w) (\<lambda>order_id w.
     wbind (fetch_access_token J C R w) (\<lambda>token w.
     wbind (paypal_fetch J [] (ppj_order J) C R token ''GET'' (''/v2/checkout/orders/'' @ order_id) NoBody w) (\<lambda>order w.
     wbind (paypal_refund_target order r, w) (\<lambda>(capture_id, val) w.
     wbind (paypal_fetch J [] (ppj_refund J) C R token ''POST'' (''/v2/payments/captures/'' @ capture_id @ ''/refund'')
       (JsonBody (JObject [(''amount'', paypal_amount_json (r_currency r) val)])) w) (\<lambda>parsed w.
       (caught aborted (paypal_refund_receipt J (now w) r parsed), w))))))"

text \<open>The verification of a delivery: PayPal is asked, and must say \<open>SUCCESS\<close>.\<close>

definition paypal_verification_body :: "paypal_rail \<Rightarrow> paypal_headers \<Rightarrow> json \<Rightarrow> json" where
  "paypal_verification_body R h body_json =
     JObject [(''transmission_id'', JString (ph_transmission_id h)), (''transmission_time'', JString (ph_transmission_time h)),
       (''cert_url'', JString (ph_cert_url h)), (''auth_algo'', JString (ph_auth_algo h)),
       (''transmission_sig'', JString (ph_transmission_sig h)), (''webhook_id'', JString (pp_webhook_id (pp_config R))),
       (''webhook_event'', body_json)]"

definition paypal_judge_verification ::
    "paypal_codec \<Rightarrow> bytes \<times> nat \<Rightarrow> paypal_webhook_error + unit" where
  "paypal_judge_verification J answer =
     (if \<not> ok_status (snd answer) then
        Err (PpUnexpectedStatus (''verify-webhook-signature http '' @ dec_of_nat (snd answer)))
      else
        rbind (map_err (\<lambda>e. PpMalformedResponse (''verify response: '' @ e)) (ppj_verification J (fst answer))) (\<lambda>s.
          if s \<noteq> ''SUCCESS'' then Err PpInvalidSignature else Ok ()))"

text \<open>The money of an event; \<open>Ok None\<close> is the panic of reading it.\<close>

definition paypal_event_amount :: "capture_event \<Rightarrow> paypal_webhook_error + (string \<times> u64) option" where
  "paypal_event_amount e =
     (let currency = to_ascii_uppercase (pq_currency_code e) in
      case paypal_amount_value_to_minor (pq_value e) currency of
        None \<Rightarrow> Ok None
      | Some res \<Rightarrow>
          rbind (map_err (\<lambda>m. PpMalformedResponse (error_display m)) res) (\<lambda>amount.
            if amount = 0 then Err (PpMalformedResponse ''non-positive amount'') else Ok (Some (currency, amount))))"

definition VERIFY_PATH :: string where "VERIFY_PATH = ''/v1/notifications/verify-webhook-signature''"

definition paypal_handle_webhook ::
    "paypal_codec \<Rightarrow> 'w http_client \<Rightarrow> paypal_rail \<Rightarrow> bytes \<Rightarrow> paypal_headers \<Rightarrow> 'w \<Rightarrow>
     (paypal_webhook_error + capture_event \<times> (string \<times> u64) option) \<times> 'w" where
  "paypal_handle_webhook J C R body h w =
     (if \<not> all_present h then (Err PpMissingSignatureHeaders, w)
      else
        wbind (map_err (\<lambda>_. PpMalformedResponse ''webhook body is not valid JSON'') (ppj_json J body), w) (\<lambda>body_json w.
        wbind (wmap_err (\<lambda>e. PpUnexpectedStatus (error_display e)) (fetch_access_token J C R w)) (\<lambda>token w.
        wbind (wmap_err (\<lambda>e. PpUnexpectedStatus (error_display e))
          (exchange ''paypal'' VERIFY_PATH C
            (paypal_request R token ''POST'' VERIFY_PATH (JsonBody (paypal_verification_body R h body_json))) w)) (\<lambda>answer w.
        (rbind (paypal_judge_verification J answer) (\<lambda>_.
         rbind (parse_capture_completed J body) (\<lambda>e.
         rbind (paypal_event_amount e) (\<lambda>m. Ok (e, m)))), w)))))"

definition paypal_delivery_headers :: "webhook_delivery \<Rightarrow> paypal_headers" where
  "paypal_delivery_headers d =
     \<lparr> ph_transmission_id = header_or_empty d ''PAYPAL-TRANSMISSION-ID'',
       ph_transmission_time = header_or_empty d ''PAYPAL-TRANSMISSION-TIME'',
       ph_cert_url = header_or_empty d ''PAYPAL-CERT-URL'', ph_auth_algo = header_or_empty d ''PAYPAL-AUTH-ALGO'',
       ph_transmission_sig = header_or_empty d ''PAYPAL-TRANSMISSION-SIG'' \<rparr>"

fun paypal_webhook_failure :: "paypal_webhook_error \<Rightarrow> error" where
  "paypal_webhook_failure (PpUnexpectedStatus m) = Rail (paypal_webhook_error_display (PpUnexpectedStatus m))"
| "paypal_webhook_failure e = InvalidRequest (paypal_webhook_error_display e)"

definition paypal_verify_webhook ::
    "error \<Rightarrow> paypal_codec \<Rightarrow> 'w http_client \<Rightarrow> paypal_rail \<Rightarrow> webhook_delivery \<Rightarrow> 'w \<Rightarrow> webhook_event result \<times> 'w" where
  "paypal_verify_webhook aborted J C R d w =
     wbind (wmap_err paypal_webhook_failure (paypal_handle_webhook J C R (raw_body d) (paypal_delivery_headers d) w))
       (\<lambda>(e, money) w.
         (case money of
            None \<Rightarrow> Err aborted
          | Some (currency, amount) \<Rightarrow>
              Ok (settlement_event ''paypal'' (pq_event_id e) (pq_custom_id e) True amount currency), w))"

definition paypal_payment_rail ::
    "error \<Rightarrow> paypal_codec \<Rightarrow> ('w \<Rightarrow> u64) \<Rightarrow> 'w http_client \<Rightarrow> paypal_rail \<Rightarrow> 'w payment_rail" where
  "paypal_payment_rail aborted J now C R =
     \<lparr> rail_id = ''paypal'',
       capabilities = pp_capabilities R,
       rail_quote = paypal_quote now R,
       rail_charge = paypal_charge J C R,
       rail_verify = paypal_verify aborted J C R,
       rail_validate_destination = redirect_url ''paypal'',
       rail_refund = paypal_refund aborted J now C R,
       rail_verify_webhook = paypal_verify_webhook aborted J C R \<rparr>"

section \<open>Facts\<close>

lemma paypal_charge_receipt_Ok:
  "paypal_charge_receipt J req currency parsed = Ok r \<Longrightarrow>
     \<exists>pb. r = pending_receipt ''paypal'' currency (pr_reference req) pb"
  by (auto simp: paypal_charge_receipt_def split: if_splits option.splits)

lemma paypal_processor_rail: "processor_rail (paypal_payment_rail aborted J now C R) (\<lambda>_. True)"
  by (intro processor_railI processor_coreI)
    (auto simp: paypal_payment_rail_def paypal_quote_def paypal_charge_def paypal_charge_guards_def
      paypal_verify_def paypal_verify_webhook_def dest!: paypal_charge_receipt_Ok split: option.splits)

interpretation paypal: echoing_processor "paypal_payment_rail aborted J now C R" "\<lambda>_. True"
  for aborted J and now :: "'w \<Rightarrow> u64" and C R
  by (intro echoing_processor.intro rail_contract.intro rail_contract_axioms.intro paypal_processor_rail
      processor_rail.axioms(1) [OF paypal_processor_rail])
    (auto simp: paypal_payment_rail_def paypal_quote_def paypal_charge_def dest!: paypal_charge_receipt_Ok)

lemma find_completed_capture_Some:
  "find_completed_capture us = Some (u, c) \<Longrightarrow> u \<in> set us \<and> c \<in> set (pu_captures u) \<and> pc_status c = ''COMPLETED''"
  by (induction us) (auto simp: find_Some_iff split: option.splits)

lemma match_capture_Some:
  "match_capture_for_receipt order r = Some (Ok m) \<and> matched m \<longleftrightarrow>
     (\<exists>u c amount. find_completed_capture (po_purchase_units order) = Some (u, c) \<and>
        unit_reference u = r_reference r \<and> eq_ignore_ascii_case (to_ascii_uppercase (pc_currency_code c)) (r_currency r) \<and>
        paypal_amount_value_to_minor (pc_value c) (to_ascii_uppercase (pc_currency_code c)) = Some (Ok amount) \<and>
        amount \<noteq> 0 \<and> r_amount_minor r \<le> amount \<and> m = Some (pc_id c, amount))"
proof (cases "find_completed_capture (po_purchase_units order)")
  case (Some uc)
  obtain u c where uc: "uc = (u, c)" by (cases uc)
  let ?x = "paypal_amount_value_to_minor (pc_value c) (to_ascii_uppercase (pc_currency_code c))"
  consider "?x = None" | e where "?x = Some (Err e)" | amount where "?x = Some (Ok amount)"
    by (metis not_None_eq sum.exhaust)
  then show ?thesis
    by cases (auto simp: match_capture_for_receipt_def matched_def Let_def Some uc not_less)
qed (simp add: match_capture_for_receipt_def)

text \<open>An order pays a receipt: its first completed capture is for the receipt's reference and covers it.\<close>

definition order_pays :: "paypal_order \<Rightarrow> receipt \<Rightarrow> bool" where
  "order_pays order r \<longleftrightarrow>
     (\<exists>u c amount. find_completed_capture (po_purchase_units order) = Some (u, c) \<and>
        unit_reference u = r_reference r \<and> eq_ignore_ascii_case (to_ascii_uppercase (pc_currency_code c)) (r_currency r) \<and>
        paypal_amount_value_to_minor (pc_value c) (to_ascii_uppercase (pc_currency_code c)) = Some (Ok amount) \<and>
        amount \<noteq> 0 \<and> r_amount_minor r \<le> amount)"

lemma match_capture_order_pays:
  "rbind (caught aborted (match_capture_for_receipt order r)) (\<lambda>m. Ok (matched m)) = Ok True \<longleftrightarrow> order_pays order r"
  unfolding order_pays_def using match_capture_Some [of order r] by simp metis

lemma paypal_fetch_Ok_iff:
  "paypal_fetch J what parse C R token meth path body w = (Ok x, w') \<longleftrightarrow>
     says C (paypal_request R token meth path body) parse w x w'"
  by (simp add: paypal_fetch_def fetch_Ok_iff)

lemma paypal_capture_True:
  "paypal_capture_and_match aborted J C R token oid r w = (Ok True, w') \<longleftrightarrow>
     (\<exists>captured. says C (paypal_request R token ''POST'' (''/v2/checkout/orders/'' @ oid @ ''/capture'') (JsonBody (JObject [])))
        (ppj_order J) w captured w' \<and> po_status captured = ''COMPLETED'' \<and> order_pays captured r)"
  unfolding paypal_capture_and_match_def
  by (auto simp: paypal_fetch_Ok_iff match_capture_order_pays simp del: rbind_Inr_iff)

lemma paypal_judge_True:
  "paypal_judge_order aborted J C R token oid r order w = (Ok True, w') \<longleftrightarrow>
     po_id order \<noteq> [] \<and>
     (po_status order = ''COMPLETED'' \<and> order_pays order r \<and> w' = w \<or>
      po_status order = ''APPROVED'' \<and> paypal_capture_and_match aborted J C R token oid r w = (Ok True, w'))"
  unfolding paypal_judge_order_def by (auto simp: match_capture_order_pays simp del: rbind_Inr_iff)

section \<open>Properties\<close>

text \<open>
  C31: PayPal's \<open>verify\<close> says yes exactly when the receipt names this rail, its proof decodes to an order
  id safe in a path, a token could be had, PayPal answers a GET of that order, and either the order is
  completed and pays the receipt, or it is approved, PayPal captures it on the spot, and the captured
  order is completed and pays the receipt: its first completed capture carries the receipt's reference
  and currency and a positive amount that covers the receipt's.
\<close>

theorem paypal_verify_exact:
  "paypal_verify aborted J C R r w = (Ok True, w') \<longleftrightarrow>
     r_rail_id r = ''paypal'' \<and>
     (\<exists>p oid token w1 order w2.
        ppj_proof_from_bytes J (r_proof r) = Some p \<and> safe_path_segment ''paypal id'' p = Ok oid \<and>
        fetch_access_token J C R w = (Ok token, w1) \<and>
        says C (paypal_request R token ''GET'' (''/v2/checkout/orders/'' @ oid) NoBody) (ppj_order J) w1 order w2 \<and>
        po_id order \<noteq> [] \<and>
        (po_status order = ''COMPLETED'' \<and> order_pays order r \<and> w' = w2 \<or>
         po_status order = ''APPROVED'' \<and>
           (\<exists>captured. says C (paypal_request R token ''POST'' (''/v2/checkout/orders/'' @ oid @ ''/capture'')
              (JsonBody (JObject []))) (ppj_order J) w2 captured w' \<and>
            po_status captured = ''COMPLETED'' \<and> order_pays captured r)))"
proof (cases "ppj_proof_from_bytes J (r_proof r)")
  case (Some p)
  have "paypal_verify aborted J C R r w = (Ok True, w') \<longleftrightarrow>
      r_rail_id r = ''paypal'' \<and>
      (\<exists>oid token w1 order w2. safe_path_segment ''paypal id'' p = Ok oid \<and> fetch_access_token J C R w = (Ok token, w1) \<and>
        says C (paypal_request R token ''GET'' (''/v2/checkout/orders/'' @ oid) NoBody) (ppj_order J) w1 order w2 \<and>
        paypal_judge_order aborted J C R token oid r order w2 = (Ok True, w'))"
    unfolding paypal_verify_def by (simp add: Some paypal_fetch_Ok_iff)
  then show ?thesis unfolding paypal_judge_True paypal_capture_True using Some by auto
qed (simp add: paypal_verify_def)

text \<open>
  What PayPal's \<open>verify\<close> does to the world does not depend on the reference, amount or currency the
  receipt claims: an approved order is captured, which is when the money moves, before anything about
  the receipt is compared, so a check that ends in a no has still taken the payment.
\<close>

theorem paypal_verify_captures_regardless:
  "snd (paypal_verify aborted J C R (r\<lparr> r_reference := reference, r_amount_minor := amount, r_currency := currency \<rparr>) w) =
   snd (paypal_verify aborted J C R r w)"
proof -
  let ?s = "r\<lparr> r_reference := reference, r_amount_minor := amount, r_currency := currency \<rparr>"
  have "snd (paypal_capture_and_match aborted J C R token oid ?s w) = snd (paypal_capture_and_match aborted J C R token oid r w)" for token oid w
    unfolding paypal_capture_and_match_def by (rule snd_wbind_cong) simp
  then have "snd (paypal_judge_order aborted J C R token oid ?s order w) = snd (paypal_judge_order aborted J C R token oid r order w)"
    for token oid order w
    by (simp add: paypal_judge_order_def)
  then show ?thesis
    unfolding paypal_verify_def by (auto intro!: snd_wbind_cong split: option.split)
qed

lemma dec_no_point: "CHR ''.'' \<notin> set (dec_of_nat n)"
  using all_digits_dec [of n] by (auto simp: all_digits_def list_all_iff is_ascii_digit_def)

lemma digits_all_graphic: "all_digits s \<Longrightarrow> list_all graphic s"
  by (auto simp: all_digits_def list_all_iff digit_graphic)

lemma length_two_digits: "n < 100 \<Longrightarrow> length (pad_left 2 (dec_of_nat n)) = 2"
  using length_dec_of_nat_le [of n 2] by (simp add: pad_left_def)

lemma parse_two_digits:
  assumes "unat m < 100"
  shows "paypal_fraction (pad_left 2 (dec_of_nat (unat (m :: u64)))) = Some (pad_left 2 (dec_of_nat (unat m)))"
    "parse_u64 (pad_left 2 (dec_of_nat (unat m))) = Some m"
proof -
  let ?s = "pad_left 2 (dec_of_nat (unat m))"
  have "length ?s = 2" using assms by (rule length_two_digits)
  then show "paypal_fraction ?s = Some ?s" by (simp add: paypal_fraction_def pad_right_def)
  have "?s \<noteq> []" using \<open>length ?s = 2\<close> by auto
  then show "parse_u64 ?s = Some m" using parse_u64_digits [of ?s] by simp
qed

lemma paypal_printed_amount:
  assumes "paypal_amount_value a currency = Ok s"
  shows "paypal_amount_value_to_minor s currency = Some (Ok a)"
proof (cases "currency_in PAYPAL_ZERO_DECIMAL (to_ascii_uppercase (trim currency))")
  case True
  with assms have "s = dec_of_nat (unat a)" "\<not> currency_in PAYPAL_THREE_DECIMAL (to_ascii_uppercase (trim currency))"
    by (auto simp: paypal_amount_value_def Let_def split: if_splits)
  with True show ?thesis
    by (simp add: paypal_amount_value_to_minor_def trim_graphic digits_all_graphic parse_u64_dec Let_def)
next
  case False
  define w f where "w = dec_of_nat (unat (a div 100))" and "f = pad_left 2 (dec_of_nat (unat (a mod 100)))"
  from assms False have s: "s = w @ CHR ''.'' # f"
    and cur: "\<not> currency_in PAYPAL_THREE_DECIMAL (to_ascii_uppercase (trim currency))"
    by (auto simp: paypal_amount_value_def w_def f_def Let_def split: if_splits)
  have "trim s = s"
    by (rule trim_graphic) (simp add: s w_def f_def digits_all_graphic, simp add: graphic_def)
  moreover have "split_once (CHR ''.'') s = Some (w, f)"
    by (simp add: s split_once_append w_def dec_no_point)
  moreover have "unat (a mod 100) < 100" by (simp add: unat_mod_distrib)
  then have "paypal_fraction f = Some f" "parse_u64 f = Some (a mod 100)"
    unfolding f_def by (rule parse_two_digits)+
  moreover have "parse_u64 w = Some (a div 100)" by (simp add: w_def parse_u64_dec)
  moreover have "a div 100 * 100 + a mod 100 = a" by (rule div_mult_mod_eq)
  ultimately show ?thesis using False cur
    by (simp add: paypal_amount_value_to_minor_def Let_def)
qed

text \<open>
  An amount written for PayPal and read back is the same amount, for every \<open>u64\<close> and every currency
  the rail accepts, with two decimals or none.
\<close>

theorem paypal_amount_round_trip:
  "case paypal_amount_value a currency of Ok s \<Rightarrow> paypal_amount_value_to_minor s currency = Some (Ok a) | Err _ \<Rightarrow> True"
  using paypal_printed_amount by (auto split: sum.split)

text \<open>The printed form of \<open>n\<close> hundredths, for any natural number and not only those a \<open>u64\<close> holds.\<close>

definition hundredths :: "nat \<Rightarrow> string" where
  "hundredths n = dec_of_nat (n div 100) @ ''.'' @ pad_left 2 (dec_of_nat (n mod 100))"

lemma parse_u64_of_nat: "n < 2 ^ 64 \<Longrightarrow> parse_u64 (dec_of_nat n) = Some (word_of_nat n)"
  using parse_u64_digits [of "dec_of_nat n"] by simp

lemma trim_hundredths: "trim (hundredths n) = hundredths n"
  by (rule trim_graphic) (simp_all add: hundredths_def digits_all_graphic graphic_def)

lemma hundredths_mod: "word_of_nat (n div 100) * 100 + word_of_nat (n mod 100) = (word_of_nat n :: u64)"
proof -
  have "word_of_nat (n div 100 * 100 + n mod 100) = (word_of_nat n :: u64)" by (simp only: div_mult_mod_eq)
  then show ?thesis by (simp only: of_nat_add of_nat_mult of_nat_numeral)
qed

text \<open>
  C40: an amount is read exactly, but modulo \<open>2 ^ 64\<close>. In a currency of two decimals the text of \<open>n\<close>
  hundredths is read as \<open>n\<close> as long as \<open>n\<close> fits a \<open>u64\<close>; beyond that, up to a hundred times as far, the
  unchecked sum of a release build makes it the little that is left over, and never an error.
\<close>

theorem paypal_amount_wraps:
  assumes "n div 100 < 2 ^ 64"
    and "\<not> currency_in (PAYPAL_ZERO_DECIMAL @ PAYPAL_THREE_DECIMAL) (to_ascii_uppercase (trim currency))"
  shows "\<exists>a. paypal_amount_value_to_minor (hundredths n) currency = Some (Ok a) \<and> unat a = n mod 2 ^ 64"
proof (intro exI conjI)
  have "split_once (CHR ''.'') (hundredths n) = Some (dec_of_nat (n div 100), pad_left 2 (dec_of_nat (n mod 100)))"
    by (simp add: hundredths_def split_once_append dec_no_point)
  moreover have "paypal_fraction (pad_left 2 (dec_of_nat (n mod 100))) = Some (pad_left 2 (dec_of_nat (n mod 100)))"
      "parse_u64 (pad_left 2 (dec_of_nat (n mod 100))) = Some (word_of_nat (n mod 100))"
    using parse_two_digits [of "word_of_nat (n mod 100)"] by (simp_all add: unsigned_of_nat take_bit_eq_mod)
  ultimately show "paypal_amount_value_to_minor (hundredths n) currency = Some (Ok (word_of_nat n))"
    using assms by (auto simp: paypal_amount_value_to_minor_def trim_hundredths parse_u64_of_nat hundredths_mod
        currency_in_def Let_def)
  show "unat (word_of_nat n :: u64) = n mod 2 ^ 64" by (simp add: unsigned_of_nat take_bit_eq_mod)
qed

lemma upper_USD_word: "to_ascii_uppercase (trim ''USD'') = ''USD''"
proof -
  have "trim ''USD'' = ''USD''" by (rule trim_graphic) (simp add: graphic_def)
  then show ?thesis by (simp add: to_ascii_uppercase_def to_upper_def is_ascii_lower_def)
qed

theorem paypal_amount_wraps_witness:
  "\<exists>a. paypal_amount_value_to_minor (hundredths 18446744073709551700) ''USD'' = Some (Ok a) \<and> unat a = 84"
proof -
  have "\<not> currency_in (PAYPAL_ZERO_DECIMAL @ PAYPAL_THREE_DECIMAL) (to_ascii_uppercase (trim ''USD''))"
    unfolding upper_USD_word by code_simp
  from paypal_amount_wraps [OF _ this, of 18446744073709551700] show ?thesis by simp
qed

end
