(* ===== verification/Fiat_Scales.thy ===== *)
theory Fiat_Scales
  imports Fiat_Stripe Fiat_Paypal Fiat_Currency
begin

text \<open>
  Where the amounts an adapter sends meet the currency table: \<open>stripe/models.rs\<close> and \<open>paypal/models.rs\<close>
  convert with lists of their own and do not consult \<open>currency.rs\<close>, whose exponents say what a request's
  minor units are. The theorems say for which currencies of the table the two agree on the money.
\<close>

section \<open>Codes\<close>

lemma upper_lowercase_inject:
  assumes "list_all is_ascii_upper a" "list_all is_ascii_upper b"
  shows "eq_ignore_ascii_case a b \<longleftrightarrow> a = b"
proof -
  have "to_lower c = to_lower d \<longleftrightarrow> c = d" if "is_ascii_upper c" "is_ascii_upper d" for c d
  proof -
    have "code c + 32 < 256" "code d + 32 < 256" using that by (simp_all add: is_ascii_upper_def)
    then have "code (to_lower c) = code c + 32" "code (to_lower d) = code d + 32"
      using that by (simp_all add: to_lower_def)
    then show ?thesis by (metis add_right_cancel of_char_eq_iff)
  qed
  with assms have "inj_on to_lower (set a \<union> set b)" by (intro inj_onI) (auto simp: list_all_iff)
  then show ?thesis
    unfolding eq_ignore_ascii_case_def to_ascii_lowercase_def by (auto dest: map_inj_on)
qed

lemma upper_fixed:
  assumes "list_all is_ascii_upper s"
  shows "to_ascii_uppercase (trim s) = s"
proof -
  have "list_all graphic s" using assms by (auto simp: list_all_iff is_ascii_upper_def graphic_def)
  moreover have "to_ascii_uppercase s = s"
    using assms by (induction s) (auto simp: to_ascii_uppercase_def to_upper_def is_ascii_upper_def is_ascii_lower_def)
  ultimately show ?thesis by (simp add: trim_graphic)
qed

lemma upper_in_list:
  assumes "list_all is_ascii_upper s" "list_all (list_all is_ascii_upper) cs"
  shows "list_ex (\<lambda>c. eq_ignore_ascii_case c s) cs \<longleftrightarrow> s \<in> set cs"
  using assms upper_lowercase_inject by (fastforce simp: list_all_iff list_ex_iff)

section \<open>Stripe\<close>

text \<open>Stripe's documented zero-decimal currencies: \<open>STRIPE_ZERO_DECIMAL\<close>, which the conversion never reads.\<close>

definition STRIPE_ZERO_DECIMAL :: "string list" where
  "STRIPE_ZERO_DECIMAL =
     [''BIF'', ''CLP'', ''DJF'', ''GNF'', ''JPY'', ''KMF'', ''KRW'', ''MGA'', ''PYG'', ''RWF'', ''VND'', ''VUV'',
      ''XAF'', ''XOF'', ''XPF'']"

definition stripe_decimals :: "string \<Rightarrow> nat" where
  "stripe_decimals cur = (if cur \<in> set STRIPE_ZERO_DECIMAL then 0 else 2)"

definition stripe_row_ok :: "currency_info \<Rightarrow> bool" where
  "stripe_row_ok i \<longleftrightarrow>
     ci_code i \<in> set STRIPE_THREE_DECIMAL \<or>
     (if ci_code i \<in> set STRIPE_FORCED_TWO_DECIMAL then ci_exponent i = 0 \<and> ci_code i \<notin> set STRIPE_ZERO_DECIMAL
      else if ci_code i \<in> {''MGA''} then ci_exponent i = 2 \<and> ci_code i \<in> set STRIPE_ZERO_DECIMAL
      else if ci_code i \<in> {''IQD'', ''LYD''} then ci_exponent i = 3 \<and> ci_code i \<notin> set STRIPE_ZERO_DECIMAL
      else if ci_code i \<in> set STRIPE_ZERO_DECIMAL then ci_exponent i = 0
      else ci_exponent i = 2)"

lemma stripe_rows_ok: "list_all stripe_row_ok CURRENCY_DEFS"
  unfolding CURRENCY_DEFS_def
  by (simp add: stripe_row_ok_def STRIPE_THREE_DECIMAL_def STRIPE_FORCED_TWO_DECIMAL_def STRIPE_ZERO_DECIMAL_def)

lemma stripe_lists_upper: "list_all (list_all is_ascii_upper) (STRIPE_THREE_DECIMAL @ STRIPE_FORCED_TWO_DECIMAL)"
  by (simp add: STRIPE_THREE_DECIMAL_def STRIPE_FORCED_TWO_DECIMAL_def is_ascii_upper_def)

lemma stripe_amount_row:
  assumes i: "i \<in> set CURRENCY_DEFS"
  shows "stripe_amount a (ci_code i) = Ok s \<longleftrightarrow>
     ci_code i \<notin> set STRIPE_THREE_DECIMAL \<and>
     (if ci_code i \<in> set STRIPE_FORCED_TWO_DECIMAL then checked_mul_u a 100 = Some s else s = a)"
proof -
  have up: "list_all is_ascii_upper (ci_code i)" using row_ok_member [OF i] by (simp add: row_ok_def)
  have "stripe_contains STRIPE_THREE_DECIMAL (ci_code i) \<longleftrightarrow> ci_code i \<in> set STRIPE_THREE_DECIMAL"
    "stripe_contains STRIPE_FORCED_TWO_DECIMAL (ci_code i) \<longleftrightarrow> ci_code i \<in> set STRIPE_FORCED_TWO_DECIMAL"
    unfolding stripe_contains_def by (rule upper_in_list [OF up]; use stripe_lists_upper in simp)+
  then show ?thesis by (auto simp: stripe_amount_def upper_fixed [OF up] Let_def)
qed

text \<open>
  What Stripe is asked for is worth what was requested, for every currency of the table that the
  rail sends except three: an amount in ariary (which Stripe counts in whole units and the table in
  hundredths) becomes a hundred times as much, and one in Iraqi or Libyan dinars (which the table counts
  in thousandths) ten times as much.
\<close>

theorem stripe_amount_worth:
  assumes "i \<in> set CURRENCY_DEFS" "stripe_amount a (ci_code i) = Ok s" "a \<noteq> 0"
  shows "unat s * 10 ^ unat (ci_exponent i) = unat a * 10 ^ stripe_decimals (ci_code i) \<longleftrightarrow>
     ci_code i \<notin> {''MGA'', ''IQD'', ''LYD''}"
proof -
  have a: "0 < unat a" using assms(3) by (simp add: unat_gt_0)
  have row: "stripe_row_ok i" using stripe_rows_ok assms(1) by (simp add: list_all_iff)
  from assms(1,2) have three: "ci_code i \<notin> set STRIPE_THREE_DECIMAL"
    and s: "if ci_code i \<in> set STRIPE_FORCED_TWO_DECIMAL then checked_mul_u a 100 = Some s else s = a"
    by (simp_all add: stripe_amount_row)
  consider (forced) "ci_code i \<in> set STRIPE_FORCED_TWO_DECIMAL" | (mga) "ci_code i = ''MGA''"
    | (dinar) "ci_code i \<in> {''IQD'', ''LYD''}"
    | (other) "ci_code i \<notin> set STRIPE_FORCED_TWO_DECIMAL" "ci_code i \<notin> {''MGA'', ''IQD'', ''LYD''}"
    by blast
  then show ?thesis
  proof cases
    case forced
    then have "unat s = unat a * 100" "ci_exponent i = 0" "ci_code i \<notin> set STRIPE_ZERO_DECIMAL"
      using s row three unat_checked_mul_u [of a 100 s] by (simp_all add: stripe_row_ok_def)
    moreover have "ci_code i \<notin> {''MGA'', ''IQD'', ''LYD''}" using forced by (auto simp: STRIPE_FORCED_TWO_DECIMAL_def)
    ultimately show ?thesis by (simp add: stripe_decimals_def)
  next
    case mga
    then show ?thesis using s row three a
      by (simp add: stripe_row_ok_def stripe_decimals_def STRIPE_FORCED_TWO_DECIMAL_def)
  next
    case dinar
    then show ?thesis using s row three a
      by (auto simp: stripe_row_ok_def stripe_decimals_def STRIPE_FORCED_TWO_DECIMAL_def)
  next
    case other
    then show ?thesis using s row three a
      by (simp add: stripe_row_ok_def stripe_decimals_def split: if_splits)
  qed
qed

lemma MGA_row: "currency_row ''MGA'' 2 ''Malagasy Ariary'' \<in> set CURRENCY_DEFS"
  by (simp add: CURRENCY_DEFS_def)

lemma stripe_amount_MGA: "stripe_amount 100 ''MGA'' = Ok 100"
  using stripe_amount_row [OF MGA_row, of 100 100]
  by (simp add: STRIPE_THREE_DECIMAL_def STRIPE_FORCED_TWO_DECIMAL_def)

theorem stripe_amount_worth_witness:
  "stripe_amount 100 ''MGA'' = Ok 100 \<and> unat (100 :: u64) * 10 ^ 2 \<noteq> unat (100 :: u64) * 10 ^ stripe_decimals ''MGA''"
  using stripe_amount_worth [OF MGA_row, of 100 100] by (simp add: stripe_amount_MGA)

section \<open>PayPal\<close>

definition paypal_row_ok :: "currency_info \<Rightarrow> bool" where
  "paypal_row_ok i \<longleftrightarrow>
     ci_code i \<in> set PAYPAL_THREE_DECIMAL \<or>
     (if ci_code i \<in> {''IQD'', ''LYD''} then ci_exponent i = 3 \<and> ci_code i \<notin> set PAYPAL_ZERO_DECIMAL
      else if ci_code i \<in> {''HUF'', ''TWD''} then ci_exponent i = 2 \<and> ci_code i \<in> set PAYPAL_ZERO_DECIMAL
      else if ci_exponent i = 0 then True
      else ci_exponent i = 2 \<and> ci_code i \<notin> set PAYPAL_ZERO_DECIMAL)"

lemma paypal_rows_ok: "list_all paypal_row_ok CURRENCY_DEFS"
  unfolding CURRENCY_DEFS_def
  by (simp add: paypal_row_ok_def PAYPAL_THREE_DECIMAL_def PAYPAL_ZERO_DECIMAL_def)

lemma paypal_lists_upper: "list_all (list_all is_ascii_upper) (PAYPAL_THREE_DECIMAL @ PAYPAL_ZERO_DECIMAL)"
  by (simp add: PAYPAL_THREE_DECIMAL_def PAYPAL_ZERO_DECIMAL_def is_ascii_upper_def)

lemma paypal_amount_row:
  assumes i: "i \<in> set CURRENCY_DEFS"
  shows "paypal_amount_value a (ci_code i) = Ok s \<longleftrightarrow>
     ci_code i \<notin> set PAYPAL_THREE_DECIMAL \<and>
     s = (if ci_code i \<in> set PAYPAL_ZERO_DECIMAL then dec_of_nat (unat a)
          else dec_of_nat (unat a div 100) @ CHR ''.'' # pad_left 2 (dec_of_nat (unat a mod 100)))"
proof -
  have up: "list_all is_ascii_upper (ci_code i)" using row_ok_member [OF i] by (simp add: row_ok_def)
  have "currency_in PAYPAL_THREE_DECIMAL (ci_code i) \<longleftrightarrow> ci_code i \<in> set PAYPAL_THREE_DECIMAL"
    "currency_in PAYPAL_ZERO_DECIMAL (ci_code i) \<longleftrightarrow> ci_code i \<in> set PAYPAL_ZERO_DECIMAL"
    unfolding currency_in_def by (rule upper_in_list [OF up]; use paypal_lists_upper in simp)+
  then show ?thesis
    by (auto simp: paypal_amount_value_def upper_fixed [OF up] Let_def unat_div_distrib unat_mod_distrib)
qed

text \<open>What the two shapes of a value denote at a precision of \<open>e\<close> decimals.\<close>

lemma denotes_integer: "denotes e (dec_of_nat n) m \<longleftrightarrow> m = n * 10 ^ e"
proof
  assume "denotes e (dec_of_nat n) m"
  then show "m = n * 10 ^ e"
    using digits_no_point [OF all_digits_dec [of n]] by (auto simp: denotes_def)
next
  assume "m = n * 10 ^ e"
  then show "denotes e (dec_of_nat n) m"
    unfolding denotes_def by (intro exI [of _ "dec_of_nat n"] exI [of _ "[]"]) simp
qed

lemma point_parts:
  assumes "w @ CHR ''.'' # f = w' @ CHR ''.'' # f'" "all_digits w" "all_digits w'"
  shows "w = w' \<and> f = f'"
  using assms digits_no_point split_once_append by (metis option.inject prod.inject)

lemma denotes_hundredths:
  "denotes e (dec_of_nat (n div 100) @ CHR ''.'' # pad_left 2 (dec_of_nat (n mod 100))) m \<longleftrightarrow> 2 \<le> e \<and> m = n * 10 ^ (e - 2)"
proof -
  let ?w = "dec_of_nat (n div 100)" and ?f = "pad_left 2 (dec_of_nat (n mod 100))"
  have len: "length ?f = 2" by (rule length_two_digits) simp
  have val: "nat_of_digits (?w @ ?f) = n"
    using len by (simp add: nat_of_digits_append)
  have plain: "?w @ CHR ''.'' # ?f \<noteq> w" if "all_digits w" for w
    using digits_no_point [OF that] by auto
  have "denotes e (?w @ CHR ''.'' # ?f) m \<longleftrightarrow> length ?f \<le> e \<and> m = nat_of_digits (?w @ ?f) * 10 ^ (e - length ?f)"
  proof
    assume "denotes e (?w @ CHR ''.'' # ?f) m"
    then obtain w f where t: "?w @ CHR ''.'' # ?f = w \<and> f = [] \<or> ?w @ CHR ''.'' # ?f = w @ CHR ''.'' # f"
        and d: "all_digits w" "length f \<le> e" "m = nat_of_digits (w @ f) * 10 ^ (e - length f)"
      unfolding denotes_def by blast
    from t plain [OF d(1)] have "?w @ CHR ''.'' # ?f = w @ CHR ''.'' # f" by blast
    then have "?w = w" "?f = f" using point_parts [of ?w ?f w f] d(1) by simp_all
    with d(2,3) show "length ?f \<le> e \<and> m = nat_of_digits (?w @ ?f) * 10 ^ (e - length ?f)" by simp
  next
    assume "length ?f \<le> e \<and> m = nat_of_digits (?w @ ?f) * 10 ^ (e - length ?f)"
    then show "denotes e (?w @ CHR ''.'' # ?f) m"
      unfolding denotes_def by (intro exI [of _ ?w] exI [of _ ?f]) simp
  qed
  then show ?thesis unfolding len val by simp
qed

text \<open>
  The decimal string PayPal is sent denotes, at the precision the table gives the currency, the
  amount that was requested, for every currency of the table that the rail sends except these: forint and
  Taiwan dollars, whose hundredths are sent as whole units, so a hundred times as much; Iraqi and Libyan
  dinars, whose thousandths are sent as hundredths; and the table's zero-decimal currencies other than
  yen, which are sent with two decimals they do not have.
\<close>

theorem paypal_amount_worth:
  assumes "i \<in> set CURRENCY_DEFS" "paypal_amount_value a (ci_code i) = Ok s" "a \<noteq> 0"
  shows "denotes (unat (ci_exponent i)) s (unat a) \<longleftrightarrow>
     \<not> (ci_code i \<in> {''HUF'', ''TWD'', ''IQD'', ''LYD''} \<or> ci_exponent i = 0 \<and> ci_code i \<noteq> ''JPY'')"
proof -
  have a: "0 < unat a" using assms(3) by (simp add: unat_gt_0)
  have row: "paypal_row_ok i" using paypal_rows_ok assms(1) by (simp add: list_all_iff)
  from assms(1,2) have three: "ci_code i \<notin> set PAYPAL_THREE_DECIMAL"
    and s: "s = (if ci_code i \<in> set PAYPAL_ZERO_DECIMAL then dec_of_nat (unat a)
          else dec_of_nat (unat a div 100) @ CHR ''.'' # pad_left 2 (dec_of_nat (unat a mod 100)))"
    by (simp_all add: paypal_amount_row)
  show ?thesis
  proof (cases "ci_code i \<in> set PAYPAL_ZERO_DECIMAL")
    case True
    moreover have "Suc 0 = 10 ^ unat (ci_exponent i) \<longleftrightarrow> ci_exponent i = 0"
      by (cases "unat (ci_exponent i)") (auto simp: unat_eq_zero)
    ultimately have "denotes (unat (ci_exponent i)) s (unat a) \<longleftrightarrow> ci_exponent i = 0"
      using a by (simp add: s denotes_integer)
    moreover from True have "ci_code i \<in> {''JPY'', ''HUF'', ''TWD''}" by (auto simp: PAYPAL_ZERO_DECIMAL_def)
    ultimately show ?thesis using row three True by (auto simp: paypal_row_ok_def split: if_splits)
  next
    case False
    then have "denotes (unat (ci_exponent i)) s (unat a) \<longleftrightarrow>
        2 \<le> unat (ci_exponent i) \<and> unat a = unat a * 10 ^ (unat (ci_exponent i) - 2)"
      by (simp add: s denotes_hundredths)
    moreover from False have "ci_code i \<notin> {''JPY'', ''HUF'', ''TWD''}" by (auto simp: PAYPAL_ZERO_DECIMAL_def)
    ultimately show ?thesis using row three False a by (auto simp: paypal_row_ok_def split: if_splits)
  qed
qed

lemma HUF_row: "currency_row ''HUF'' 2 ''Hungarian Forint'' \<in> set CURRENCY_DEFS"
  by (simp add: CURRENCY_DEFS_def)

lemma paypal_amount_HUF: "paypal_amount_value 100 ''HUF'' = Ok (dec_of_nat 100)"
  using paypal_amount_row [OF HUF_row, of 100 "dec_of_nat 100"]
  by (simp add: PAYPAL_THREE_DECIMAL_def PAYPAL_ZERO_DECIMAL_def)

theorem paypal_amount_worth_witness:
  "paypal_amount_value 100 ''HUF'' = Ok (dec_of_nat 100) \<and> \<not> denotes 2 (dec_of_nat 100) 100"
  using paypal_amount_worth [OF HUF_row, of 100 "dec_of_nat 100"] by (simp add: paypal_amount_HUF)

end
