(* ===== verification/Stellar_Recurring.thy ===== *)
theory Stellar_Recurring
  imports Stellar_Tx
begin

text \<open>
  \<open>patala-stellar/src/recurring.rs\<close>: the plan of pre-signed instalments on a dedicated account, its
  cancellation, and the offline oracle of the validity rule. The last sections run a plan against
  an account whose sequence moves as the module's documentation states the ledger's rule, and show
  what the plan is for: instalments execute in order, spaced in time, and none after a
  cancellation.
\<close>

definition MAX_INSTALMENTS :: nat where "MAX_INSTALMENTS = 3650"

record recurring_plan =
  rp_source :: bytes
  rp_dest :: bytes
  rp_asset :: asset
  rp_amount :: i64
  rp_base_seq :: i64
  rp_count :: u32
  rp_base_fee :: u32
  rp_age_step :: u64
  rp_gap_step :: u32
  rp_rail_id :: string
  rp_source_strkey :: string
  rp_dest_strkey :: string
  rp_reference :: string

definition validate_shape :: "recurring_plan \<Rightarrow> stellar_error + unit" where
  "validate_shape P =
     (if rp_count P = 0 then Err (Config ''a recurring plan needs at least one instalment'')
      else if unat (rp_count P) > MAX_INSTALMENTS then
        Err (Config (dec_of_nat (unat (rp_count P)) @ '' instalments exceeds this crate's sanity cap of '' @
          dec_of_nat MAX_INSTALMENTS @ '' (not a protocol limit '' @ em_dash @
          '' raise MAX_INSTALMENTS if you genuinely need more)''))
      else if sint (rp_amount P) \<le> 0 then
        Err (Config (''instalment amount must be strictly positive, got '' @ dec_of_int (sint (rp_amount P))))
      else Ok ())"

definition build_instalment :: "stellar_lib \<Rightarrow> recurring_plan \<Rightarrow> u32 \<Rightarrow> stellar_error + transaction" where
  "build_instalment L P idx =
     rbind (validate_shape P) (\<lambda>_.
       if idx = 0 \<or> unat idx > unat (rp_count P) then
         Err (Config (''instalment '' @ dec_of_nat (unat idx) @ '' is out of range for a '' @
           dec_of_nat (unat (rp_count P)) @ ''-instalment plan''))
       else
         rbind (ok_or
             (Config (''base_seq '' @ dec_of_int (sint (rp_base_seq P)) @ '' + instalment '' @
               dec_of_nat (unat idx) @ '' overflows i64''))
             (checked_add_i64 (rp_base_seq P) (ucast idx))) (\<lambda>seq_num.
           let (age, gap) = (if idx = 1 then (0, 0) else (rp_age_step P, rp_gap_step P));
               cond = V2 \<lparr> pc_time_bounds = None, pc_ledger_bounds = None, pc_min_seq_num = None,
                 pc_min_seq_age = age, pc_min_seq_ledger_gap = gap, pc_extra_signers = [] \<rparr>;
               mem = recurring_memo_hash L (rp_rail_id P) (rp_source_strkey P) (rp_dest_strkey P)
                 (rp_reference P) (rp_base_seq P) idx (rp_count P)
           in Ok (build_transaction_with_preconditions (rp_source P) (rp_dest P) (rp_asset P)
                (rp_amount P) seq_num (rp_base_fee P) mem cond)))"

definition build_all_instalments :: "stellar_lib \<Rightarrow> recurring_plan \<Rightarrow> stellar_error + transaction list" where
  "build_all_instalments L P =
     rbind (validate_shape P) (\<lambda>_.
       traverse (build_instalment L P) (map word_of_nat [1..<Suc (unat (rp_count P))]))"

definition build_cancel_transaction ::
    "stellar_lib \<Rightarrow> recurring_plan \<Rightarrow> i64 \<Rightarrow> u32 \<Rightarrow> stellar_error + transaction" where
  "build_cancel_transaction L P current_seq fee =
     rbind (validate_shape P) (\<lambda>_.
     rbind (ok_or
         (Config (''base_seq '' @ dec_of_int (sint (rp_base_seq P)) @ '' + count '' @
           dec_of_nat (unat (rp_count P)) @ '' overflows i64''))
         (checked_add_i64 (rp_base_seq P) (ucast (rp_count P)))) (\<lambda>bump_to.
     rbind (ok_or (Config ''current_seq + 1 overflows i64'') (checked_add_i64 current_seq 1)) (\<lambda>cancel_seq.
       Ok (build_bump_sequence_transaction (rp_source P) cancel_seq fee bump_to
            (cancel_memo_hash L (rp_rail_id P) (rp_source_strkey P) (rp_reference P) (rp_base_seq P))))))"

definition would_be_valid ::
    "preconditions \<Rightarrow> i64 \<Rightarrow> i64 \<Rightarrow> u64 \<Rightarrow> u32 \<Rightarrow> u64 \<Rightarrow> u32 \<Rightarrow> bool" where
  "would_be_valid cond tx_seq account_seq account_seqtime account_seqledger now_time now_ledger =
     (case cond of
        V2 v2 \<Rightarrow>
          (let seq_ok = (case pc_min_seq_num v2 of
                 Some m \<Rightarrow> sint m \<le> sint account_seq \<and> sint account_seq < sint tx_seq
               | None \<Rightarrow> account_seq = tx_seq - 1);
               age_ok = unat now_time \<ge> unat (saturating_add_u account_seqtime (pc_min_seq_age v2));
               gap_ok = unat now_ledger \<ge> unat (saturating_add_u account_seqledger (pc_min_seq_ledger_gap v2))
           in seq_ok \<and> age_ok \<and> gap_ok)
      | _ \<Rightarrow> False)"

section \<open>Facts\<close>

definition plan_ok :: "recurring_plan \<Rightarrow> bool" where
  "plan_ok P \<longleftrightarrow> 0 < unat (rp_count P) \<and> unat (rp_count P) \<le> MAX_INSTALMENTS \<and> 0 < sint (rp_amount P)"

lemma validate_shape_Ok_iff: "validate_shape P = Ok () \<longleftrightarrow> plan_ok P"
  by (auto simp: validate_shape_def plan_ok_def unat_gt_0)

lemma sint_ucast_u32: "sint (ucast (n :: u32) :: i64) = int (unat n)"
proof -
  have "unat n < 2 ^ 32" using unsigned_less [of n, where ?'a = nat] by simp
  then have "unat (ucast n :: i64) = unat n"
    by (simp add: unsigned_ucast_eq take_bit_nat_eq_self)
  with \<open>unat n < 2 ^ 32\<close> show ?thesis by (simp add: sint_i64_cases)
qed

lemma checked_add_i64_Some_iff:
  "checked_add_i64 a b = Some c \<longleftrightarrow> sint c = sint a + sint b"
proof
  assume "sint c = sint a + sint b"
  then have "- (2 ^ 63) \<le> sint a + sint b" "sint a + sint b < 2 ^ 63"
    using sint_range_i64 [of c] by simp_all
  moreover from this have "sint (a + b) = sint c"
    using \<open>sint c = sint a + sint b\<close> sint_add_i64 by simp
  ultimately show "checked_add_i64 a b = Some c"
    by (simp add: checked_add_i64_def sint_eq_iff_i64)
qed (rule sint_checked_add_i64)

text \<open>The preconditions of an instalment: none to wait for on the first, the fixed floor on the others.\<close>

definition instalment_cond :: "recurring_plan \<Rightarrow> u32 \<Rightarrow> preconditions_v2" where
  "instalment_cond P idx =
     \<lparr> pc_time_bounds = None, pc_ledger_bounds = None, pc_min_seq_num = None,
       pc_min_seq_age = (if idx = 1 then 0 else rp_age_step P),
       pc_min_seq_ledger_gap = (if idx = 1 then 0 else rp_gap_step P), pc_extra_signers = [] \<rparr>"

lemma build_instalment_Ok_iff:
  "build_instalment L P idx = Ok tx \<longleftrightarrow>
     plan_ok P \<and> 1 \<le> unat idx \<and> unat idx \<le> unat (rp_count P) \<and>
     (\<exists>seq. sint seq = sint (rp_base_seq P) + int (unat idx) \<and>
       tx = build_transaction_with_preconditions (rp_source P) (rp_dest P) (rp_asset P) (rp_amount P) seq
         (rp_base_fee P)
         (recurring_memo_hash L (rp_rail_id P) (rp_source_strkey P) (rp_dest_strkey P) (rp_reference P)
           (rp_base_seq P) idx (rp_count P))
         (V2 (instalment_cond P idx)))"
proof -
  have z: "idx = 0 \<longleftrightarrow> unat idx = 0" by (simp add: unat_eq_zero)
  show ?thesis
    by (auto simp: build_instalment_def validate_shape_Ok_iff checked_add_i64_Some_iff sint_ucast_u32
        instalment_cond_def z not_less Suc_le_eq)
qed

lemma build_instalment_Ok:
  assumes "build_instalment L P idx = Ok tx"
  shows "plan_ok P" "1 \<le> unat idx" "unat idx \<le> unat (rp_count P)"
    "sint (tx_seq_num tx) = sint (rp_base_seq P) + int (unat idx)" "tx_cond tx = V2 (instalment_cond P idx)"
  using assms by (auto simp: build_instalment_Ok_iff build_transaction_with_preconditions_eq)

lemma build_cancel_Ok:
  assumes "build_cancel_transaction L P cur fee = Ok tx"
  obtains bump where "plan_ok P" "sint bump = sint (rp_base_seq P) + int (unat (rp_count P))"
    "sint (tx_seq_num tx) = sint cur + 1"
    "tx_operations tx = [\<lparr> op_source = None, op_body = BumpSequence bump \<rparr>]"
  using assms
  by (auto simp: build_cancel_transaction_def validate_shape_Ok_iff checked_add_i64_Some_iff sint_ucast_u32
      build_bump_sequence_transaction_eq)

lemma sint_minus_1: "- (2 ^ 63) < sint (x :: i64) \<Longrightarrow> sint (x - 1) = sint x - 1"
proof -
  assume "- (2 ^ 63) < sint x"
  moreover have "sint x < 2 ^ 63" by (rule sint_range_i64)
  ultimately have "sint (x + (- 1)) = sint x + sint (- 1 :: i64)"
    by (intro sint_add_i64) simp_all
  then show ?thesis by simp
qed

text \<open>Validity of an instalment, in numbers.\<close>

lemma instalment_valid_iff:
  assumes "build_instalment L P idx = Ok tx"
  shows "would_be_valid (tx_cond tx) (tx_seq_num tx) aseq atime aledger now ledger \<longleftrightarrow>
    sint aseq = sint (rp_base_seq P) + int (unat idx) - 1 \<and>
    (idx = 1 \<longrightarrow> unat atime \<le> unat now \<and> unat aledger \<le> unat ledger) \<and>
    (idx \<noteq> 1 \<longrightarrow>
       min (unat atime + unat (rp_age_step P)) (2 ^ 64 - 1) \<le> unat now \<and>
       min (unat aledger + unat (rp_gap_step P)) (2 ^ 32 - 1) \<le> unat ledger)"
proof -
  note b = build_instalment_Ok [OF assms]
  have "sint (tx_seq_num tx - 1) = sint (tx_seq_num tx) - 1"
    using b(2,4) sint_range_i64(1) [of "rp_base_seq P"] by (intro sint_minus_1) linarith
  then have "aseq = tx_seq_num tx - 1 \<longleftrightarrow> sint aseq = sint (rp_base_seq P) + int (unat idx) - 1"
    using b(4) by (simp flip: sint_eq_iff_i64)
  moreover have "min (unat atime) (2 ^ 64 - 1) = unat atime"
    by (rule min_absorb1) (use unat_lt_u64 [of atime] in linarith)
  moreover have "min (unat aledger) (2 ^ 32 - 1) = unat aledger"
    using unsigned_less [of aledger, where ?'a = nat] by (intro min_absorb1) simp
  ultimately show ?thesis
    by (auto simp: b(5) would_be_valid_def instalment_cond_def unat_saturating_add_u)
qed

section \<open>A plan on its account\<close>

text \<open>
  The dedicated account as the module's documentation describes the ledger: a transaction that
  executes moves the account's sequence to its own and stamps it with the closing time and ledger,
  and a \<open>BUMP_SEQUENCE\<close> then raises it if its target is higher. \<open>sc_done\<close> lists the executed
  instalments with their times.
\<close>

record schedule =
  sc_seq :: i64
  sc_seqtime :: u64
  sc_seqledger :: u32
  sc_now :: u64
  sc_ledger :: u32
  sc_done :: "(u32 \<times> u64) list"

definition after_execution :: "schedule \<Rightarrow> i64 \<Rightarrow> schedule" where
  "after_execution s seq = s\<lparr> sc_seq := seq, sc_seqtime := sc_now s, sc_seqledger := sc_ledger s \<rparr>"

inductive schedule_step :: "stellar_lib \<Rightarrow> recurring_plan \<Rightarrow> schedule \<Rightarrow> schedule \<Rightarrow> bool" for L P where
  execute:
    "build_instalment L P idx = Ok tx \<Longrightarrow>
     would_be_valid (tx_cond tx) (tx_seq_num tx) (sc_seq s) (sc_seqtime s) (sc_seqledger s) (sc_now s) (sc_ledger s) \<Longrightarrow>
     schedule_step L P s ((after_execution s (tx_seq_num tx))\<lparr> sc_done := sc_done s @ [(idx, sc_now s)] \<rparr>)"
| cancel:
    "build_cancel_transaction L P (sc_seq s) fee = Ok tx \<Longrightarrow>
     tx_operations tx = [\<lparr> op_source = None, op_body = BumpSequence bump \<rparr>] \<Longrightarrow>
     schedule_step L P s
       (after_execution s (if sint bump > sint (tx_seq_num tx) then bump else tx_seq_num tx))"
| pass_time:
    "unat (sc_now s) \<le> unat now \<Longrightarrow> unat (sc_ledger s) \<le> unat ledger \<Longrightarrow>
     schedule_step L P s (s\<lparr> sc_now := now, sc_ledger := ledger \<rparr>)"

definition schedule_start :: "recurring_plan \<Rightarrow> u64 \<Rightarrow> u32 \<Rightarrow> schedule" where
  "schedule_start P now ledger =
     \<lparr> sc_seq = rp_base_seq P, sc_seqtime = now, sc_seqledger = ledger, sc_now = now, sc_ledger = ledger,
       sc_done = [] \<rparr>"

text \<open>Every gap between consecutive executions is at least the step.\<close>

fun spaced :: "nat \<Rightarrow> u64 list \<Rightarrow> bool" where
  "spaced d (t # t' # ts) = (min (unat t + d) (2 ^ 64 - 1) \<le> unat t' \<and> spaced d (t' # ts))"
| "spaced d _ = True"

lemma spaced_snoc:
  "spaced d (ts @ [t]) \<longleftrightarrow> spaced d ts \<and> (ts = [] \<or> min (unat (last ts) + d) (2 ^ 64 - 1) \<le> unat t)"
  by (induction d ts rule: spaced.induct) auto

text \<open>
  The invariant: the executed instalments are the first ones in order, properly spaced, and the
  account stands either right behind the last of them or, after a cancellation, past the plan.
\<close>

definition cancelled :: "recurring_plan \<Rightarrow> schedule \<Rightarrow> bool" where
  "cancelled P s \<longleftrightarrow> sint (sc_seq s) \<ge> sint (rp_base_seq P) + int (unat (rp_count P))"

definition schedule_ok :: "recurring_plan \<Rightarrow> schedule \<Rightarrow> bool" where
  "schedule_ok P s \<longleftrightarrow>
     map (unat \<circ> fst) (sc_done s) = [1..<Suc (length (sc_done s))] \<and>
     length (sc_done s) \<le> unat (rp_count P) \<and>
     spaced (unat (rp_age_step P)) (map snd (sc_done s)) \<and>
     (cancelled P s \<or>
      sint (sc_seq s) = sint (rp_base_seq P) + int (length (sc_done s)) \<and>
      (sc_done s \<noteq> [] \<longrightarrow> sc_seqtime s = snd (last (sc_done s))))"

lemma instalment_not_cancelled:
  assumes "build_instalment L P idx = Ok tx"
    and "would_be_valid (tx_cond tx) (tx_seq_num tx) (sc_seq s) (sc_seqtime s) (sc_seqledger s) (sc_now s) (sc_ledger s)"
  shows "\<not> cancelled P s"
proof -
  have "sint (sc_seq s) = sint (rp_base_seq P) + int (unat idx) - 1"
    using assms(2) instalment_valid_iff [OF assms(1)] by blast
  then show ?thesis
    unfolding cancelled_def using build_instalment_Ok(3) [OF assms(1)] by linarith
qed

lemma schedule_step_ok:
  assumes "schedule_step L P s s'" "schedule_ok P s"
  shows "schedule_ok P s'"
  using assms(1)
proof (cases rule: schedule_step.cases)
  case (execute idx tx)
  note b = build_instalment_Ok [OF execute(2)]
  have live: "\<not> cancelled P s" by (rule instalment_not_cancelled [OF execute(2,3)])
  let ?k = "length (sc_done s)"
  have seq: "sint (sc_seq s) = sint (rp_base_seq P) + int ?k"
    and time: "sc_done s \<noteq> [] \<Longrightarrow> sc_seqtime s = snd (last (sc_done s))"
    using assms(2) live by (auto simp: schedule_ok_def)
  have v: "sint (sc_seq s) = sint (rp_base_seq P) + int (unat idx) - 1"
    "idx \<noteq> 1 \<longrightarrow> min (unat (sc_seqtime s) + unat (rp_age_step P)) (2 ^ 64 - 1) \<le> unat (sc_now s)"
    using execute(3) by (simp_all add: instalment_valid_iff [OF execute(2)])
  with seq have idx: "unat idx = Suc ?k" by linarith
  then have gap: "sc_done s = [] \<or>
      min (unat (last (map snd (sc_done s))) + unat (rp_age_step P)) (2 ^ 64 - 1) \<le> unat (sc_now s)"
    using v(2) time by (cases "sc_done s = []") (auto simp: last_map)
  show ?thesis
    using assms(2) b(3,4) idx gap
    by (auto simp: schedule_ok_def execute(1) after_execution_def spaced_snoc)
next
  case (cancel fee tx bump)
  obtain bump' where c: "sint bump' = sint (rp_base_seq P) + int (unat (rp_count P))"
      "tx_operations tx = [\<lparr> op_source = None, op_body = BumpSequence bump' \<rparr>]"
    by (rule build_cancel_Ok [OF cancel(2)])
  with cancel(3) have "bump = bump'" by simp
  with c have "cancelled P s'" by (auto simp: cancelled_def cancel(1) after_execution_def)
  then show ?thesis using assms(2) by (simp add: schedule_ok_def cancel(1) after_execution_def)
next
  case (pass_time now ledger)
  then show ?thesis using assms(2) by (simp add: schedule_ok_def cancelled_def)
qed

lemma schedule_start_ok: "schedule_ok P (schedule_start P now ledger)"
  by (simp add: schedule_ok_def schedule_start_def)

lemma schedule_steps_ok:
  "(schedule_step L P)\<^sup>*\<^sup>* s s' \<Longrightarrow> schedule_ok P s \<Longrightarrow> schedule_ok P s'"
proof (induction rule: rtranclp_induct)
  case (step y z)
  then show ?case using schedule_step_ok by blast
qed

text \<open>A cancelled account stays cancelled and executes nothing.\<close>

lemma cancelled_step:
  assumes "schedule_step L P s s'" "cancelled P s"
  shows "cancelled P s' \<and> sc_done s' = sc_done s"
  using assms(1)
proof (cases rule: schedule_step.cases)
  case (execute idx tx)
  with instalment_not_cancelled [OF execute(2,3)] assms(2) show ?thesis by simp
next
  case (cancel fee tx bump)
  have "sint (tx_seq_num tx) = sint (sc_seq s) + 1"
    using build_cancel_Ok [OF cancel(2)] by blast
  then show ?thesis using assms(2) by (auto simp: cancelled_def cancel(1) after_execution_def)
next
  case (pass_time now ledger)
  then show ?thesis using assms(2) by (simp add: cancelled_def)
qed

lemma cancelled_steps:
  "(schedule_step L P)\<^sup>*\<^sup>* s s' \<Longrightarrow> cancelled P s \<Longrightarrow> cancelled P s' \<and> sc_done s' = sc_done s"
proof (induction rule: rtranclp_induct)
  case (step y z)
  then show ?case using cancelled_step by metis
qed simp

section \<open>The whole plan\<close>

definition instalment_tx :: "stellar_lib \<Rightarrow> recurring_plan \<Rightarrow> nat \<Rightarrow> transaction" where
  "instalment_tx L P i =
     \<lparr> tx_source = Ed25519 (rp_source P), tx_fee = rp_base_fee P,
       tx_seq_num = rp_base_seq P + word_of_nat i, tx_cond = V2 (instalment_cond P (word_of_nat i)),
       tx_memo = MemoHash (recurring_memo_hash L (rp_rail_id P) (rp_source_strkey P) (rp_dest_strkey P)
         (rp_reference P) (rp_base_seq P) (word_of_nat i) (rp_count P)),
       tx_operations = [payment_op
         \<lparr> pl_dest = rp_dest P, pl_asset = rp_asset P, pl_amount = rp_amount P \<rparr>] \<rparr>"

definition plan_fits :: "recurring_plan \<Rightarrow> bool" where
  "plan_fits P \<longleftrightarrow> plan_ok P \<and> sint (rp_base_seq P) + int (unat (rp_count P)) < 2 ^ 63"

lemma unat_u32_of_nat: "n < 2 ^ 32 \<Longrightarrow> unat (word_of_nat n :: u32) = n"
  by (simp add: unat_of_nat)

lemma unat_u64_of_nat: "n < 2 ^ 64 \<Longrightarrow> unat (word_of_nat n :: u64) = n"
  by (simp add: unat_of_nat)

lemma count_le: "plan_ok P \<Longrightarrow> i \<le> unat (rp_count P) \<Longrightarrow> i < 2 ^ 32"
  by (simp add: plan_ok_def MAX_INSTALMENTS_def)

lemma sint_seq_of_instalment:
  assumes "plan_fits P" "i \<le> unat (rp_count P)"
  shows "sint (rp_base_seq P + word_of_nat i) = sint (rp_base_seq P) + int i"
proof -
  have i: "i \<le> 3650" using assms by (simp add: plan_fits_def plan_ok_def MAX_INSTALMENTS_def)
  then have "unat (word_of_nat i :: i64) = i" by (simp add: unat_of_nat)
  with i have s: "sint (word_of_nat i :: i64) = int i" by (simp add: sint_i64_cases)
  have "sint (rp_base_seq P) + int i < 2 ^ 63"
    using assms unfolding plan_fits_def by linarith
  then show ?thesis
    using sint_range_i64(1) [of "rp_base_seq P"] by (subst sint_add_i64) (simp_all add: s)
qed

lemma build_instalment_fits:
  assumes "plan_fits P" "1 \<le> i" "i \<le> unat (rp_count P)"
  shows "build_instalment L P (word_of_nat i) = Ok (instalment_tx L P i)"
proof -
  have "plan_ok P" using assms(1) by (simp add: plan_fits_def)
  have u: "unat (word_of_nat i :: u32) = i"
    by (rule unat_u32_of_nat) (rule count_le [OF \<open>plan_ok P\<close> assms(3)])
  show ?thesis
    unfolding build_instalment_Ok_iff u
    using \<open>plan_ok P\<close> assms(2,3) sint_seq_of_instalment [OF assms(1,3)]
    by (auto simp: instalment_tx_def build_transaction_with_preconditions_eq)
qed

lemma build_all_instalments_Ok_iff:
  "build_all_instalments L P = Ok txs \<longleftrightarrow>
     plan_fits P \<and> txs = map (instalment_tx L P) [1..<Suc (unat (rp_count P))]"
proof
  assume *: "plan_fits P \<and> txs = map (instalment_tx L P) [1..<Suc (unat (rp_count P))]"
  then have "traverse (\<lambda>i. build_instalment L P (word_of_nat i)) [1..<Suc (unat (rp_count P))] = Ok txs"
    using traverse_map [where f = "\<lambda>i. build_instalment L P (word_of_nat i)" and g = "instalment_tx L P"
        and xs = "[1..<Suc (unat (rp_count P))]"] by (simp add: build_instalment_fits del: upt_Suc)
  with * show "build_all_instalments L P = Ok txs"
    by (simp add: build_all_instalments_def validate_shape_Ok_iff plan_fits_def traverse_Inr_iff
        list_all2_map1 del: upt_Suc)
next
  let ?n = "unat (rp_count P)"
  assume *: "build_all_instalments L P = Ok txs"
  then have ok: "plan_ok P"
    and tr: "list_all2 (\<lambda>i. \<lambda>tx. build_instalment L P (word_of_nat i) = Ok tx) [1..<Suc ?n] txs"
    by (simp_all add: build_all_instalments_def validate_shape_Ok_iff traverse_Inr_iff list_all2_map1 del: upt_Suc)
  have "1 \<le> ?n" using ok by (simp add: plan_ok_def)
  moreover have u: "unat (word_of_nat ?n :: u32) = ?n"
    by (rule unat_u32_of_nat) (rule count_le [OF ok order_refl])
  moreover have "?n - 1 < length [1..<Suc ?n]" using \<open>1 \<le> ?n\<close> by simp
  ultimately have "build_instalment L P (word_of_nat ?n) = Ok (txs ! (?n - 1))"
    using list_all2_nthD [OF tr, of "?n - 1"] by (simp del: upt_Suc)
  from build_instalment_Ok(4) [OF this] have fits: "plan_fits P"
    using ok sint_range_i64(2) [of "tx_seq_num (txs ! (?n - 1))"] unfolding plan_fits_def u by linarith
  have "list_all2 (\<lambda>i tx. tx = instalment_tx L P i) [1..<Suc ?n] txs"
    using tr by (auto simp: list_all2_conv_all_nth simp del: upt_Suc of_nat_Suc
        dest!: spec simp: build_instalment_fits [OF fits])
  then have "txs = map (instalment_tx L P) [1..<Suc ?n]"
    by (auto simp: list_all2_conv_all_nth intro!: nth_equalityI simp del: upt_Suc)
  with fits show "plan_fits P \<and> txs = map (instalment_tx L P) [1..<Suc ?n]" by simp
qed

text \<open>A plan that fits can always be carried out: waiting out the floor makes the next instalment valid.\<close>

definition on_track :: "recurring_plan \<Rightarrow> nat \<Rightarrow> nat \<Rightarrow> nat \<Rightarrow> schedule \<Rightarrow> bool" where
  "on_track P t l k s \<longleftrightarrow>
     sint (sc_seq s) = sint (rp_base_seq P) + int k \<and> length (sc_done s) = k \<and>
     sc_seqtime s = sc_now s \<and> sc_seqledger s = sc_ledger s \<and>
     unat (sc_now s) = t + (k - 1) * unat (rp_age_step P) \<and>
     unat (sc_ledger s) = l + (k - 1) * unat (rp_gap_step P)"

lemma on_track_wait:
  assumes "on_track P t l k s" "k < unat (rp_count P)"
    and t: "t + unat (rp_count P) * unat (rp_age_step P) < 2 ^ 64"
    and l: "l + unat (rp_count P) * unat (rp_gap_step P) < 2 ^ 32"
  obtains now ledger where "schedule_step L P s (s\<lparr> sc_now := now, sc_ledger := ledger \<rparr>)"
    "unat now = t + k * unat (rp_age_step P)" "unat ledger = l + k * unat (rp_gap_step P)"
    "unat now = unat (sc_now s) + (if k = 0 then 0 else unat (rp_age_step P))"
    "unat ledger = unat (sc_ledger s) + (if k = 0 then 0 else unat (rp_gap_step P))"
proof -
  define a where "a = (if k = 0 then 0 else unat (rp_age_step P))"
  define g where "g = (if k = 0 then 0 else unat (rp_gap_step P))"
  let ?A = "unat (rp_age_step P)" and ?G = "unat (rp_gap_step P)" and ?n = "unat (rp_count P)"
  have "k * ?A \<le> ?n * ?A" "k * ?G \<le> ?n * ?G" using assms(2) by simp_all
  moreover have ka: "(k - 1) * ?A + a = k * ?A" "(k - 1) * ?G + g = k * ?G"
    by (cases k; simp add: a_def g_def)+
  ultimately have bt: "unat (sc_now s) + a = t + k * ?A" "t + k * ?A < 2 ^ 64"
    and bl: "unat (sc_ledger s) + g = l + k * ?G" "l + k * ?G < 2 ^ 32"
    using assms(1) t l unfolding on_track_def by linarith+
  define now ledger where "now = (word_of_nat (unat (sc_now s) + a) :: u64)"
    and "ledger = (word_of_nat (unat (sc_ledger s) + g) :: u32)"
  have un: "unat now = unat (sc_now s) + a"
    unfolding now_def by (rule unat_u64_of_nat) (use bt in linarith)
  have ul: "unat ledger = unat (sc_ledger s) + g"
    unfolding ledger_def by (rule unat_u32_of_nat) (use bl in linarith)
  have "schedule_step L P s (s\<lparr> sc_now := now, sc_ledger := ledger \<rparr>)"
    by (rule schedule_step.pass_time) (simp_all add: un ul)
  then show thesis
    by (rule that) (use un ul bt(1) bl(1) in \<open>simp_all only: a_def g_def\<close>)
qed

lemma on_track_step:
  assumes "plan_fits P" "on_track P t l k s" "k < unat (rp_count P)"
    and "t + unat (rp_count P) * unat (rp_age_step P) < 2 ^ 64"
    and "l + unat (rp_count P) * unat (rp_gap_step P) < 2 ^ 32"
  shows "\<exists>s'. (schedule_step L P)\<^sup>*\<^sup>* s s' \<and> on_track P t l (Suc k) s'"
proof -
  let ?A = "unat (rp_age_step P)" and ?G = "unat (rp_gap_step P)"
  obtain now ledger where one: "schedule_step L P s (s\<lparr> sc_now := now, sc_ledger := ledger \<rparr>)"
    and at: "unat now = t + k * ?A" "unat ledger = l + k * ?G"
    and un: "unat now = unat (sc_now s) + (if k = 0 then 0 else ?A)"
    and ul: "unat ledger = unat (sc_ledger s) + (if k = 0 then 0 else ?G)"
    by (rule on_track_wait [OF assms(2-5)])
  define s1 where "s1 = s\<lparr> sc_now := now, sc_ledger := ledger \<rparr>"
  note one = one [folded s1_def]
  let ?i = "word_of_nat (Suc k) :: u32" and ?tx = "instalment_tx L P (Suc k)"
  have b: "build_instalment L P ?i = Ok ?tx"
    by (rule build_instalment_fits [OF assms(1)]) (use assms(3) in simp_all)
  have ui: "unat ?i = Suc k"
    using assms(1,3) by (intro unat_u32_of_nat count_le [of P]) (simp_all add: plan_fits_def)
  have i1: "?i = 1 \<longleftrightarrow> k = 0"
    using ui by (metis One_nat_def nat.inject of_nat_1 unat_1)
  have "would_be_valid (tx_cond ?tx) (tx_seq_num ?tx) (sc_seq s1) (sc_seqtime s1) (sc_seqledger s1) (sc_now s1) (sc_ledger s1)"
    unfolding instalment_valid_iff [OF b] ui i1
  proof (intro conjI impI)
    have same: "sc_seq s1 = sc_seq s" "sc_seqtime s1 = sc_now s" "sc_seqledger s1 = sc_ledger s"
      "sc_now s1 = now" "sc_ledger s1 = ledger"
      using assms(2) by (simp_all add: s1_def on_track_def)
    have "sint (sc_seq s) = sint (rp_base_seq P) + int k" using assms(2) by (simp add: on_track_def)
    then show "sint (sc_seq s1) = sint (rp_base_seq P) + int (Suc k) - 1" by (simp add: same)
    show "unat (sc_seqtime s1) \<le> unat (sc_now s1)" "unat (sc_seqledger s1) \<le> unat (sc_ledger s1)"
      unfolding same un ul by simp_all
    assume "k \<noteq> 0"
    then show "min (unat (sc_seqtime s1) + ?A) (2 ^ 64 - 1) \<le> unat (sc_now s1)"
        "min (unat (sc_seqledger s1) + ?G) (2 ^ 32 - 1) \<le> unat (sc_ledger s1)"
      unfolding same un ul by (simp_all only: if_False min.cobounded1)
  qed
  from schedule_step.execute [OF b this]
  have "schedule_step L P s1 ((after_execution s1 (tx_seq_num ?tx))\<lparr> sc_done := sc_done s1 @ [(?i, sc_now s1)] \<rparr>)"
    (is "schedule_step L P s1 ?s2") .
  with one have "(schedule_step L P)\<^sup>*\<^sup>* s ?s2"
    by (rule converse_rtranclp_into_rtranclp [OF _ r_into_rtranclp])
  moreover have "sint (tx_seq_num ?tx) = sint (rp_base_seq P) + int (Suc k)"
    unfolding build_instalment_Ok(4) [OF b] ui ..
  moreover have "length (sc_done s) = k" using assms(2) by (simp only: on_track_def)
  ultimately have "(schedule_step L P)\<^sup>*\<^sup>* s ?s2 \<and> on_track P t l (Suc k) ?s2"
    using at by (simp only: on_track_def) (simp add: after_execution_def s1_def)
  then show ?thesis by blast
qed

lemma on_track_reachable:
  assumes "plan_fits P" "k \<le> unat (rp_count P)"
    and "unat now + unat (rp_count P) * unat (rp_age_step P) < 2 ^ 64"
    and "unat ledger + unat (rp_count P) * unat (rp_gap_step P) < 2 ^ 32"
  shows "\<exists>s. (schedule_step L P)\<^sup>*\<^sup>* (schedule_start P now ledger) s \<and> on_track P (unat now) (unat ledger) k s"
  using assms(2)
proof (induction k)
  case 0
  have "on_track P (unat now) (unat ledger) 0 (schedule_start P now ledger)"
    by (simp add: on_track_def schedule_start_def)
  then show ?case by blast
next
  case (Suc k)
  then obtain s where s: "(schedule_step L P)\<^sup>*\<^sup>* (schedule_start P now ledger) s"
      "on_track P (unat now) (unat ledger) k s" by auto
  have "k < unat (rp_count P)" using Suc.prems by simp
  from on_track_step [OF assms(1) s(2) this assms(3,4)] s(1) show ?case by (meson rtranclp_trans)
qed

lemma schedule_ok_done:
  "schedule_ok P s \<Longrightarrow> map (unat \<circ> fst) (sc_done s) = [1..<Suc (length (sc_done s))]"
  by (simp add: schedule_ok_def)

section \<open>Properties\<close>

definition demo_plan :: recurring_plan where
  "demo_plan = \<lparr> rp_source = [9], rp_dest = [8], rp_asset = CreditAlphanum4 [85, 83, 68, 67] [7], rp_amount = 500, rp_base_seq = 100,
     rp_count = 3, rp_base_fee = 100, rp_age_step = 3600, rp_gap_step = 10, rp_rail_id = ''stellar-rec'',
     rp_source_strkey = ''GA'', rp_dest_strkey = ''GB'', rp_reference = ''rent'' \<rparr>"

lemma demo_plan_sel [simp]:
  "rp_count demo_plan = 3" "rp_age_step demo_plan = 3600" "rp_gap_step demo_plan = 10"
  by (simp_all add: demo_plan_def)

lemma first_three: "[Suc 0..<4] = [Suc 0, 2, 3]"
  by (simp add: upt_rec)

lemma demo_plan_fits: "plan_fits demo_plan"
  by (simp add: plan_fits_def plan_ok_def MAX_INSTALMENTS_def demo_plan_def)

text \<open>
  \<open>build_all_instalments\<close> succeeds exactly when the plan has 1 to 3650 instalments of a positive
  amount and its last sequence number fits an \<open>i64\<close>; it then returns the instalments in order, the
  \<open>i\<close>-th with sequence \<open>base + i\<close>, the plan's payment, a memo binding \<open>i\<close> and the count, no floor on
  the first and the plan's age and ledger floor on every other.
\<close>

theorem build_all_instalments_exact:
  "build_all_instalments L P = Ok txs \<longleftrightarrow>
     1 \<le> unat (rp_count P) \<and> unat (rp_count P) \<le> 3650 \<and> 0 < sint (rp_amount P) \<and>
     sint (rp_base_seq P) + int (unat (rp_count P)) < 2 ^ 63 \<and>
     txs = map (\<lambda>i.
       \<lparr> tx_source = Ed25519 (rp_source P), tx_fee = rp_base_fee P,
         tx_seq_num = rp_base_seq P + word_of_nat i,
         tx_cond = V2 \<lparr> pc_time_bounds = None, pc_ledger_bounds = None, pc_min_seq_num = None,
           pc_min_seq_age = (if (word_of_nat i :: u32) = 1 then 0 else rp_age_step P),
           pc_min_seq_ledger_gap = (if (word_of_nat i :: u32) = 1 then 0 else rp_gap_step P),
           pc_extra_signers = [] \<rparr>,
         tx_memo = MemoHash (recurring_memo_hash L (rp_rail_id P) (rp_source_strkey P) (rp_dest_strkey P)
           (rp_reference P) (rp_base_seq P) (word_of_nat i) (rp_count P)),
         tx_operations = [payment_op
           \<lparr> pl_dest = rp_dest P, pl_asset = rp_asset P, pl_amount = rp_amount P \<rparr>] \<rparr>)
       [1..<Suc (unat (rp_count P))]"
  unfolding build_all_instalments_Ok_iff plan_fits_def plan_ok_def MAX_INSTALMENTS_def
    instalment_tx_def [abs_def] instalment_cond_def Suc_le_eq One_nat_def by blast

text \<open>
  C12: whatever is submitted and whenever, on the dedicated account the executed instalments are
  always the first \<open>k\<close> of the plan in order, each once, never more than the count, and two
  consecutive ones are at least the age floor apart.
\<close>

theorem instalments_in_order_and_spaced:
  assumes "(schedule_step L P)\<^sup>*\<^sup>* (schedule_start P now ledger) s"
  shows "map (unat \<circ> fst) (sc_done s) = [1..<Suc (length (sc_done s))] \<and>
    length (sc_done s) \<le> unat (rp_count P) \<and>
    spaced (unat (rp_age_step P)) (map snd (sc_done s))"
  using schedule_steps_ok [OF assms schedule_start_ok] by (simp only: schedule_ok_def)

theorem instalments_in_order_and_spaced_witness:
  "\<exists>s :: schedule. map (unat \<circ> fst) (sc_done s) = [1, 2, 3] \<and> spaced 3600 (map snd (sc_done s))"
proof -
  obtain s where r: "(schedule_step undefined demo_plan)\<^sup>*\<^sup>* (schedule_start demo_plan 1000 50) s"
    and "on_track demo_plan 1000 50 3 s"
    using on_track_reachable [OF demo_plan_fits, of 3 1000 50 undefined] by auto
  then have "length (sc_done s) = 3" by (simp add: on_track_def)
  with instalments_in_order_and_spaced [OF r]
  have "map (unat \<circ> fst) (sc_done s) = [1, 2, 3] \<and> spaced 3600 (map snd (sc_done s))"
    by (simp add: first_three del: upt_Suc)
  then show ?thesis by (intro exI [of _ s])
qed

text \<open>
  C13: once a cancellation has executed, whatever the state it executed in, no instalment of the plan
  ever executes again.
\<close>

theorem cancellation_is_final:
  assumes "build_cancel_transaction L P (sc_seq s) fee = Ok tx"
    and "tx_operations tx = [\<lparr> op_source = None, op_body = BumpSequence bump \<rparr>]"
    and "(schedule_step L P)\<^sup>*\<^sup>*
      (after_execution s (if sint bump > sint (tx_seq_num tx) then bump else tx_seq_num tx)) s'"
  shows "sc_done s' = sc_done s"
proof -
  have "sint bump = sint (rp_base_seq P) + int (unat (rp_count P))"
    using build_cancel_Ok [OF assms(1)] assms(2) by auto
  then have "cancelled P (after_execution s (if sint bump > sint (tx_seq_num tx) then bump else tx_seq_num tx))"
    by (auto simp: cancelled_def after_execution_def)
  from cancelled_steps [OF assms(3) this] show ?thesis by (simp add: after_execution_def)
qed

theorem cancellation_is_final_witness:
  "let s = schedule_start demo_plan 1000 50 in
   \<forall>s'. (schedule_step undefined demo_plan)\<^sup>*\<^sup>* (after_execution s 103) s' \<longrightarrow> sc_done s' = []"
proof -
  let ?s = "schedule_start demo_plan 1000 50"
  obtain tx where tx: "build_cancel_transaction undefined demo_plan (sc_seq ?s) 100 = Ok tx"
      "tx_operations tx = [\<lparr> op_source = None, op_body = BumpSequence 103 \<rparr>]" "tx_seq_num tx = 101"
    by (simp add: build_cancel_transaction_def validate_shape_def demo_plan_def schedule_start_def
        MAX_INSTALMENTS_def checked_add_i64_def build_bump_sequence_transaction_eq)
  from cancellation_is_final [OF tx(1,2)] show ?thesis
    by (auto simp: tx(3) schedule_start_def demo_plan_def)
qed

text \<open>
  C14: a plan that fits and whose floors do not run past the clocks is not stuck: some run of the
  account executes every instalment.
\<close>

theorem plan_can_complete:
  assumes "plan_fits P"
    and "unat now + unat (rp_count P) * unat (rp_age_step P) < 2 ^ 64"
    and "unat ledger + unat (rp_count P) * unat (rp_gap_step P) < 2 ^ 32"
  shows "\<exists>s. (schedule_step L P)\<^sup>*\<^sup>* (schedule_start P now ledger) s \<and>
    map (unat \<circ> fst) (sc_done s) = [1..<Suc (unat (rp_count P))]"
proof -
  obtain s where s: "(schedule_step L P)\<^sup>*\<^sup>* (schedule_start P now ledger) s"
      "on_track P (unat now) (unat ledger) (unat (rp_count P)) s"
    using on_track_reachable [OF assms(1) order_refl assms(2,3)] by blast
  from schedule_ok_done [OF schedule_steps_ok [OF s(1) schedule_start_ok]] s show ?thesis
    by (auto simp: on_track_def)
qed

theorem plan_can_complete_witness:
  "\<exists>s. (schedule_step undefined demo_plan)\<^sup>*\<^sup>* (schedule_start demo_plan 1000 50) s \<and>
     map (unat \<circ> fst) (sc_done s) = [1, 2, 3]"
  using plan_can_complete [OF demo_plan_fits, of 1000 50 undefined]
  by (simp add: first_three del: upt_Suc)

end
