(* ===== verification/Stellar_Split.thy ===== *)
theory Stellar_Split
  imports Stellar_Rail
begin

text \<open>
  The atomic split of \<open>patala-stellar/src/lib.rs\<close>: \<open>charge_split\<close> pays every leg in one transaction,
  \<open>verify_split\<close> checks such a receipt. The steps to the network are those of the single payment,
  in \<open>Stellar_Rail\<close>.
\<close>

record split_leg =
  sl_destination :: string
  sl_amount_minor :: u64

definition split_leg_new :: "string \<Rightarrow> u64 \<Rightarrow> split_leg" where
  "split_leg_new destination amount_minor =
     \<lparr> sl_destination = destination, sl_amount_minor = amount_minor \<rparr>"

section \<open>Charging\<close>

text \<open>The loop that resolves the legs, with their index for the refusal's text.\<close>

fun resolve_legs ::
    "stellar_lib \<Rightarrow> asset \<Rightarrow> split_leg list \<Rightarrow> nat \<Rightarrow> (payment_leg list \<times> (string \<times> i64) list) result" where
  "resolve_legs L ass [] i = Ok ([], [])"
| "resolve_legs L ass (leg # legs) i =
     rbind (map_err
         (\<lambda>e. InvalidRequest (''leg '' @ dec_of_nat i @ '': destination is not a valid stellar address: '' @
           stellar_error_display e))
         (from_strkey L (sl_destination leg))) (\<lambda>dest.
     rbind (ok_or
         (InvalidRequest (''leg '' @ dec_of_nat i @ '': amount_minor exceeds Stellar's i64 range''))
         (i64_try_from_u64 (sl_amount_minor leg))) (\<lambda>amount.
     rbind (resolve_legs L ass legs (i + 1)) (\<lambda>(payment_legs, leg_pairs).
       Ok (\<lparr> pl_dest = dest, pl_asset = ass, pl_amount = amount \<rparr> # payment_legs,
           (sl_destination leg, amount) # leg_pairs))))"

definition split_guards ::
    "stellar_lib \<Rightarrow> 'w stellar_rail \<Rightarrow> split_leg list \<Rightarrow> string \<Rightarrow>
     (keypair \<times> pubkey \<times> payment_leg list \<times> (string \<times> i64) list) result" where
  "split_guards L R legs reference =
     (if blank reference then Err (InvalidRequest ''reference must not be empty'')
      else
        rbind (ok_or
            (Rail (''stellar rail holds no signing key; it is verify-only (configure one with '' @
              ''`with_signer`/`from_env` to charge_split)''))
            (sr_signer R)) (\<lambda>signer.
        rbind (map_err (\<lambda>e. Rail (''configured usdc_issuer is invalid: '' @ stellar_error_display e))
            (from_strkey L (sc_usdc_issuer (sr_cfg R)))) (\<lambda>issuer.
        rbind (map_err stellar_to_core (usdc_asset ''USDC'' issuer)) (\<lambda>ass.
        rbind (resolve_legs L ass legs 0) (\<lambda>(payment_legs, leg_pairs).
          Ok (signer, issuer, payment_legs, leg_pairs))))))"

text \<open>The fee bid and the transaction, built before signing.\<close>

definition build_split ::
    "stellar_lib \<Rightarrow> 'w stellar_rail \<Rightarrow> pubkey \<Rightarrow> payment_leg list \<Rightarrow> i64 \<Rightarrow> bytes \<Rightarrow> (u32 \<times> transaction) result" where
  "build_split L R source payment_legs next_seq mem =
     rbind (map_err stellar_to_core
         (total_fee (sc_base_fee_stroops (sr_cfg R)) (length payment_legs))) (\<lambda>fee.
     rbind (map_err stellar_to_core
         (build_payment_transaction source payment_legs next_seq (sc_base_fee_stroops (sr_cfg R)) mem)) (\<lambda>utx.
       Ok (fee, utx)))"

definition charge_split ::
    "stellar_lib \<Rightarrow> stellar_json \<Rightarrow> ('w \<Rightarrow> u64) \<Rightarrow> 'w stellar_rail \<Rightarrow> split_leg list \<Rightarrow> string \<Rightarrow> 'w \<Rightarrow>
     receipt result \<times> 'w" where
  "charge_split L J now R legs reference w =
     (case split_guards L R legs reference of
        Err e \<Rightarrow> (Err e, w)
      | Ok (signer, issuer, payment_legs, leg_pairs) \<Rightarrow>
          let source = keypair_pubkey L signer in
          (case load_next_seq (sr_rpc R) (to_strkey L source) w of
             (Err e, w1) \<Rightarrow> (Err e, w1)
           | (Ok next_seq, w1) \<Rightarrow>
               let mem = split_memo_hash L RAIL_ID_STELLAR (to_strkey L source) reference leg_pairs in
               (case rbind (build_split L R source payment_legs next_seq mem) (\<lambda>(fee, utx).
                       rbind (sign_and_encode L (sc_network (sr_cfg R)) signer utx) (\<lambda>(hash, sig, b64).
                         Ok (fee, hash, sig, b64))) of
                  Err e \<Rightarrow> (Err e, w1)
                | Ok (fee, hash, sig, b64) \<Rightarrow>
                    (case submit_checked L (sr_rpc R) ''stellar split transaction failed on submission'' b64 hash w1 of
                       (Err e, w2) \<Rightarrow> (Err e, w2)
                     | (Ok submitted_hash, w2) \<Rightarrow>
                         (case rbind (map_err stellar_to_core (total_amount payment_legs)) (\<lambda>tot.
                                 let binding =
                                   \<lparr> s_chain = ''stellar'',
                                     s_network_passphrase = passphrase (sc_network (sr_cfg R)),
                                     s_tx_hash = submitted_hash,
                                     s_source = to_strkey L source,
                                     s_asset_code = ''USDC'',
                                     s_asset_issuer = to_strkey L issuer,
                                     s_legs = leg_pairs,
                                     s_seq_num = next_seq,
                                     s_fee = fee,
                                     s_memo_hash = hex_encode L mem,
                                     s_signature = hex_encode L sig \<rparr>
                                 in rbind (map_err (\<lambda>e. Rail (''encode receipt proof: '' @ e)) (split_to_vec J binding))
                                      (\<lambda>proof. Ok (tot, proof))) of
                            Err e \<Rightarrow> (Err e, w2)
                          | Ok (tot, proof) \<Rightarrow>
                              (Ok \<lparr> r_rail_id = RAIL_ID_STELLAR, r_amount_minor = tot, r_currency = ''USDC'',
                                    r_reference = reference, r_proof = proof, r_settled_at_unix = now w2 \<rparr>, w2))))))"

section \<open>Verifying\<close>

text \<open>The checked sum over the binding's legs.\<close>

fun sum_pairs :: "(string \<times> i64) list \<Rightarrow> i64 \<Rightarrow> i64 option" where
  "sum_pairs [] tot = Some tot"
| "sum_pairs ((d, amount) # legs) tot =
     (case checked_add_i64 tot amount of None \<Rightarrow> None | Some t \<Rightarrow> sum_pairs legs t)"

fun pair_legs :: "stellar_lib \<Rightarrow> asset \<Rightarrow> (string \<times> i64) list \<Rightarrow> payment_leg list option" where
  "pair_legs L ass [] = Some []"
| "pair_legs L ass ((d, amount) # legs) =
     (case strkey_decode L d of
        None \<Rightarrow> None
      | Some dest \<Rightarrow>
          map_option ((#) \<lparr> pl_dest = dest, pl_asset = ass, pl_amount = amount \<rparr>) (pair_legs L ass legs))"

definition verify_split_offline ::
    "stellar_lib \<Rightarrow> stellar_json \<Rightarrow> 'w stellar_rail \<Rightarrow> receipt \<Rightarrow>
     (stellar_split_binding \<times> pubkey \<times> pubkey \<times> bytes) option" where
  "verify_split_offline L J R r =
     (if r_rail_id r \<noteq> RAIL_ID_STELLAR then None
      else if r_currency r \<noteq> ''USDC'' then None
      else Option.bind (split_from_slice J (r_proof r)) (\<lambda>b.
        if s_chain b \<noteq> ''stellar'' then None
        else if s_network_passphrase b \<noteq> passphrase (sc_network (sr_cfg R)) then None
        else Option.bind (strkey_decode L (sc_usdc_issuer (sr_cfg R))) (\<lambda>issuer.
          if s_asset_code b \<noteq> ''USDC'' \<or> s_asset_issuer b \<noteq> to_strkey L issuer then None
          else if s_legs b = [] then None
          else Option.bind (sum_pairs (s_legs b) 0) (\<lambda>tot.
            if tot \<noteq> r_amount_minor r then None
            else if s_memo_hash b \<noteq>
                hex_encode L (split_memo_hash L RAIL_ID_STELLAR (s_source b) (r_reference r) (s_legs b)) then None
            else
              Option.bind (strkey_decode L (s_source b)) (\<lambda>source.
              case usdc_asset (s_asset_code b) issuer of
                Err _ \<Rightarrow> None
              | Ok ass \<Rightarrow>
                Option.bind (pair_legs L ass (s_legs b)) (\<lambda>payment_legs.
                Option.bind (Option.bind (hex_decode L (s_memo_hash b)) (sized_array 32)) (\<lambda>mem.
                Option.bind (Option.bind (hex_decode L (s_signature b)) (sized_array 64)) (\<lambda>sig.
                if length payment_legs \<ge> 2 ^ 32 \<or> length payment_legs = 0 then None
                else
                  let per_op_fee = s_fee b div word_of_nat (length payment_legs) in
                  (case build_payment_transaction source payment_legs (s_seq_num b) per_op_fee mem of
                     Err _ \<Rightarrow> None
                   | Ok rebuilt \<Rightarrow>
                       (case tx_hash L (network_id L (s_network_passphrase b)) rebuilt of
                          Err _ \<Rightarrow> None
                        | Ok recomputed \<Rightarrow>
                            Option.bind (hex_decode L (s_tx_hash b)) (\<lambda>claimed.
                              if claimed \<noteq> recomputed then None
                              else if \<not> keypair_verify L source recomputed sig then None
                              else Some (b, source, issuer, mem))))))))))))"

text \<open>The loop that compares the decoded legs with the binding's, in order; the lengths agree.\<close>

fun legs_match :: "stellar_lib \<Rightarrow> pubkey \<Rightarrow> (string \<times> i64) list \<Rightarrow> payment_leg list \<Rightarrow> bool" where
  "legs_match L issuer [] ds = True"
| "legs_match L issuer ((dest_str, amount) # legs) [] = False"
| "legs_match L issuer ((dest_str, amount) # legs) (d # ds) =
     (case strkey_decode L dest_str of
        None \<Rightarrow> False
      | Some dest \<Rightarrow>
          if pl_dest d \<noteq> dest \<or> pl_amount d \<noteq> amount \<or> \<not> asset_is (pl_asset d) ''USDC'' issuer then False
          else legs_match L issuer legs ds)"

definition verify_split ::
    "stellar_lib \<Rightarrow> stellar_json \<Rightarrow> 'w stellar_rail \<Rightarrow> receipt \<Rightarrow> 'w \<Rightarrow> bool result \<times> 'w" where
  "verify_split L J R r w =
     (case verify_split_offline L J R r of
        None \<Rightarrow> (Ok False, w)
      | Some (b, source, issuer, mem) \<Rightarrow>
          (case rpc_get_transaction (sr_rpc R) (s_tx_hash b) w of
             (Err e, w') \<Rightarrow> (Err (stellar_to_core e), w')
           | (Ok None, w') \<Rightarrow> (Ok False, w')
           | (Ok (Some rec), w') \<Rightarrow>
               if \<not> tr_successful rec then (Ok False, w')
               else (case envelope_from_xdr_base64 L (tr_envelope_xdr rec) of
                 Err _ \<Rightarrow> (Ok False, w')
               | Ok env \<Rightarrow>
                   (case decode_payments env of
                      Err _ \<Rightarrow> (Ok False, w')
                    | Ok d \<Rightarrow>
                        if length (dp_legs d) \<noteq> length (s_legs b) \<or> dp_source d \<noteq> source \<or> dp_memo d \<noteq> mem \<or>
                           dp_seq_num d \<noteq> s_seq_num b \<or> dp_fee d \<noteq> s_fee b
                        then (Ok False, w')
                        else (Ok (legs_match L issuer (s_legs b) (dp_legs d)), w')))))"

section \<open>Facts\<close>

text \<open>A leg of the transaction carries out a (destination, amount) pair.\<close>

definition carries :: "stellar_lib \<Rightarrow> asset \<Rightarrow> string \<times> i64 \<Rightarrow> payment_leg \<Rightarrow> bool" where
  "carries L ass p l \<longleftrightarrow>
     strkey_decode L (fst p) = Some (pl_dest l) \<and> pl_asset l = ass \<and> pl_amount l = snd p"

lemma carries_Pair [simp]:
  "carries L ass (d, a) l \<longleftrightarrow> strkey_decode L d = Some (pl_dest l) \<and> pl_asset l = ass \<and> pl_amount l = a"
  by (simp add: carries_def)

lemma leg_eqI: "pl_dest l = d \<Longrightarrow> pl_asset l = a \<Longrightarrow> pl_amount l = m \<Longrightarrow>
    \<lparr> pl_dest = d, pl_asset = a, pl_amount = m \<rparr> = (l :: payment_leg)"
  by (cases l) simp

lemma pair_legs_Some_iff: "pair_legs L ass ps = Some legs \<longleftrightarrow> list_all2 (carries L ass) ps legs"
proof (induction L ass ps arbitrary: legs rule: pair_legs.induct)
  case (2 L ass d amount ps)
  show ?case
  proof (cases "strkey_decode L d")
    case None
    then show ?thesis by (simp add: list_all2_Cons1)
  next
    case (Some dest)
    with 2 show ?thesis
      by (auto simp: list_all2_Cons1 leg_eqI)
  qed
qed auto

lemma legs_match_iff:
  "length ps = length ds \<Longrightarrow> legs_match L issuer ps ds \<longleftrightarrow> list_all2 (carries L (usdc issuer)) ps ds"
proof (induction L issuer ps ds rule: legs_match.induct)
  case (3 L issuer dest_str amount legs d ds)
  then show ?case by (auto simp: asset_is_usdc split: option.splits)
qed auto

lemma sum_pairs_eq:
  "list_all2 (carries L ass) ps legs \<Longrightarrow> sum_pairs ps t = Some tot \<longleftrightarrow> total_loop legs i t = Ok tot"
proof (induction ps t arbitrary: legs i rule: sum_pairs.induct)
  case (2 d amount ps t)
  then obtain l ls where "legs = l # ls" "pl_amount l = amount" "list_all2 (carries L ass) ps ls"
    by (auto simp: list_all2_Cons1)
  with 2 show ?case by (auto split: option.splits)
qed auto

lemma carries_det: "list_all2 (carries L ass) ps ls \<Longrightarrow> list_all2 (carries L ass) ps ls' \<Longrightarrow> ls = ls'"
  by (metis pair_legs_Some_iff option.inject)

lemma verify_split_offline_Some:
  assumes "verify_split_offline L J R r = Some (b, source, issuer, mem)"
  obtains legs tot rebuilt hash sig where
    "r_rail_id r = RAIL_ID_STELLAR" "r_currency r = ''USDC''" "split_from_slice J (r_proof r) = Some b"
    "s_network_passphrase b = passphrase (sc_network (sr_cfg R))"
    "strkey_decode L (sc_usdc_issuer (sr_cfg R)) = Some issuer"
    "sum_pairs (s_legs b) 0 = Some (r_amount_minor r)"
    "s_memo_hash b = hex_encode L (split_memo_hash L RAIL_ID_STELLAR (s_source b) (r_reference r) (s_legs b))"
    "strkey_decode L (s_source b) = Some source" "list_all2 (carries L (usdc issuer)) (s_legs b) legs"
    "hex_decode L (s_memo_hash b) = Some mem"
    "build_payment_transaction source legs (s_seq_num b) (s_fee b div word_of_nat (length legs)) mem = Ok rebuilt"
    "tx_hash L (network_id L (s_network_passphrase b)) rebuilt = Ok hash"
    "hex_decode L (s_tx_hash b) = Some hash" "ed_verify L source hash sig"
  using assms
  by (auto simp: verify_split_offline_def Option.bind_eq_Some_conv to_strkey_def keypair_verify_def Let_def
      usdc_asset_eq pair_legs_Some_iff split: if_splits sum.splits)

lemma verify_split_True:
  assumes "verify_split L J R r w = (Ok True, w')"
  obtains b source issuer mem env d where
    "verify_split_offline L J R r = Some (b, source, issuer, mem)"
    "horizon_shows L (sr_rpc R) (s_tx_hash b) w env w'" "decode_payments env = Ok d"
    "dp_source d = source" "dp_memo d = mem" "dp_seq_num d = s_seq_num b" "dp_fee d = s_fee b"
    "list_all2 (carries L (usdc issuer)) (s_legs b) (dp_legs d)"
proof -
  obtain b source issuer mem where
      off: "verify_split_offline L J R r = Some (b, source, issuer, mem)"
    using assms by (cases "verify_split_offline L J R r") (auto simp: verify_split_def)
  with assms obtain rec where rec: "rpc_get_transaction (sr_rpc R) (s_tx_hash b) w = (Ok (Some rec), w')"
      "tr_successful rec"
    by (auto simp: verify_split_def split: prod.splits sum.splits option.splits if_splits)
  with assms off obtain env d where env: "xdr_decode_envelope L (tr_envelope_xdr rec) = Ok env"
      "decode_payments env = Ok d" "length (s_legs b) = length (dp_legs d)" "dp_source d = source"
      "dp_memo d = mem" "dp_seq_num d = s_seq_num b" "dp_fee d = s_fee b"
      "legs_match L issuer (s_legs b) (dp_legs d)"
    by (auto simp: verify_split_def envelope_from_xdr_base64_def split: sum.splits if_splits)
  with rec off that show ?thesis by (auto simp: horizon_shows_def legs_match_iff)
qed

text \<open>The bundle a verified receipt stands for, as Horizon shows it.\<close>

lemma verify_split_shows:
  assumes "verify_split L J R r w = (Ok True, w')" "hex_laws L"
  obtains b source issuer legs env cond sigs where
    "split_from_slice J (r_proof r) = Some b" "r_rail_id r = RAIL_ID_STELLAR" "r_currency r = ''USDC''"
    "strkey_decode L (s_source b) = Some source" "strkey_decode L (sc_usdc_issuer (sr_cfg R)) = Some issuer"
    "list_all2 (carries L (usdc issuer)) (s_legs b) legs"
    "horizon_shows L (sr_rpc R) (s_tx_hash b) w env w'"
    "env = TxV1 (payment_tx source legs (s_seq_num b) (s_fee b)
      (split_memo_hash L RAIL_ID_STELLAR (s_source b) (r_reference r) (s_legs b)) cond) sigs"
    "payable legs" "leg_sum legs = int (unat (r_amount_minor r))"
proof -
  obtain b source issuer mem env d where v: "verify_split_offline L J R r = Some (b, source, issuer, mem)"
      "horizon_shows L (sr_rpc R) (s_tx_hash b) w env w'" "decode_payments env = Ok d"
      "dp_source d = source" "dp_memo d = mem" "dp_seq_num d = s_seq_num b" "dp_fee d = s_fee b"
      "list_all2 (carries L (usdc issuer)) (s_legs b) (dp_legs d)"
    using assms(1) by (rule verify_split_True)
  from v(1) show ?thesis
  proof (rule verify_split_offline_Some)
    fix legs tot rebuilt hash sig
    assume o: "r_rail_id r = RAIL_ID_STELLAR" "r_currency r = ''USDC''" "split_from_slice J (r_proof r) = Some b"
      "strkey_decode L (sc_usdc_issuer (sr_cfg R)) = Some issuer"
      "sum_pairs (s_legs b) 0 = Some (r_amount_minor r)"
      "s_memo_hash b = hex_encode L (split_memo_hash L RAIL_ID_STELLAR (s_source b) (r_reference r) (s_legs b))"
      "strkey_decode L (s_source b) = Some source" "hex_decode L (s_memo_hash b) = Some mem"
    have mem: "mem = split_memo_hash L RAIL_ID_STELLAR (s_source b) (r_reference r) (s_legs b)"
      using o(6,8) assms(2) by (simp add: hex_laws_def)
    have "total_amount (dp_legs d) = Ok (r_amount_minor r)"
      using o(5) sum_pairs_eq [OF v(8)] by (simp add: total_amount_def)
    then have sum: "leg_sum (dp_legs d) = sint (r_amount_minor r)" by (simp add: total_amount_sum)
    from v(3) obtain cond sigs where pay: "payable (dp_legs d)"
        "env = TxV1 (payment_tx source (dp_legs d) (s_seq_num b) (s_fee b) mem cond) sigs"
      unfolding decode_payments_Ok_iff v(4-7) by blast
    have "0 \<le> leg_sum (dp_legs d)" using pay(1) by (simp add: payable_def leg_sum_nonneg)
    with sum have "leg_sum (dp_legs d) = int (unat (r_amount_minor r))"
      by (simp only: sint_nonneg)
    then show ?thesis
      by (rule that [OF o(3,1,2,7,4) v(8,2) pay(2) [unfolded mem] pay(1)])
  qed
qed

text \<open>Charging a split: what a receipt comes from.\<close>

lemma resolve_legs_Ok:
  "resolve_legs L ass legs i = Ok (pls, ps) \<Longrightarrow>
     list_all2 (carries L ass) ps pls \<and> ps = map (\<lambda>l. (sl_destination l, sl_amount_minor l)) legs \<and>
     list_all (\<lambda>l. unat (sl_amount_minor l) < 2 ^ 63) legs"
proof (induction L ass legs i arbitrary: pls ps rule: resolve_legs.induct)
  case (2 L ass leg legs i)
  then show ?case by (auto simp: from_strkey_Ok_iff i64_try_from_u64_def split: if_splits)
qed auto

definition split_binding ::
    "stellar_lib \<Rightarrow> 'w stellar_rail \<Rightarrow> keypair \<Rightarrow> pubkey \<Rightarrow> (string \<times> i64) list \<Rightarrow> string \<Rightarrow> i64 \<Rightarrow> u32 \<Rightarrow>
     string \<Rightarrow> bytes \<Rightarrow> stellar_split_binding" where
  "split_binding L R signer issuer ps reference seq fee h sig =
     \<lparr> s_chain = ''stellar'', s_network_passphrase = passphrase (sc_network (sr_cfg R)), s_tx_hash = h,
       s_source = strkey_encode L (ed_pubkey L signer), s_asset_code = ''USDC'',
       s_asset_issuer = strkey_encode L issuer, s_legs = ps, s_seq_num = seq, s_fee = fee,
       s_memo_hash = hex_encode L (split_memo_hash L RAIL_ID_STELLAR (strkey_encode L (ed_pubkey L signer)) reference ps),
       s_signature = hex_encode L sig \<rparr>"

lemma split_guards_Ok:
  assumes "split_guards L R legs reference = Ok (signer, issuer, pls, ps)"
  shows "\<not> blank reference" "sr_signer R = Some signer"
    "strkey_decode L (sc_usdc_issuer (sr_cfg R)) = Some issuer"
    "list_all2 (carries L (usdc issuer)) ps pls" "ps = map (\<lambda>l. (sl_destination l, sl_amount_minor l)) legs"
  using assms
  by (auto simp: split_guards_def from_strkey_Ok_iff usdc_asset_eq split: if_splits dest!: resolve_legs_Ok)

lemma build_split_Ok:
  assumes "build_split L R source pls seq mem = Ok (fee, utx)"
  shows "build_payment_transaction source pls seq (sc_base_fee_stroops (sr_cfg R)) mem = Ok utx"
    "unat fee = unat (sc_base_fee_stroops (sr_cfg R)) * length pls" "payable pls"
    "utx = payment_tx source pls seq fee mem NoPreconditions"
proof -
  have b: "build_payment_transaction source pls seq (sc_base_fee_stroops (sr_cfg R)) mem = Ok utx"
    and f: "total_fee (sc_base_fee_stroops (sr_cfg R)) (length pls) = Ok fee"
    using assms by (auto simp: build_split_def)
  from f show u: "unat fee = unat (sc_base_fee_stroops (sr_cfg R)) * length pls" by (simp add: total_fee_Ok_iff)
  from b show "payable pls" by (simp add: build_payment_transaction_Ok_iff)
  from b obtain fee' where "unat fee' = unat (sc_base_fee_stroops (sr_cfg R)) * length pls"
      "utx = payment_tx source pls seq fee' mem NoPreconditions"
    by (auto simp: build_payment_transaction_Ok_iff)
  with u show "utx = payment_tx source pls seq fee mem NoPreconditions"
    by (metis word_unat_eq_iff)
qed (use assms in \<open>auto simp: build_split_def\<close>)

lemma charge_split_Ok:
  assumes "charge_split L J now R legs reference w = (Ok r, w')"
  obtains signer issuer pls ps seq w1 fee utx hash sig b64 s where
    "split_guards L R legs reference = Ok (signer, issuer, pls, ps)"
    "build_split L R (ed_pubkey L signer) pls seq
       (split_memo_hash L RAIL_ID_STELLAR (strkey_encode L (ed_pubkey L signer)) reference ps) = Ok (fee, utx)"
    "sign_and_encode L (sc_network (sr_cfg R)) signer utx = Ok (hash, sig, b64)"
    "rpc_submit_transaction (sr_rpc R) b64 w1 = (Ok s, w')" "su_successful s"
    "su_hash s = hex_encode L hash" "total_amount pls = Ok (r_amount_minor r)"
    "split_to_vec J (split_binding L R signer issuer ps reference seq fee (su_hash s) sig) = Ok (r_proof r)"
    "r_rail_id r = RAIL_ID_STELLAR" "r_currency r = ''USDC''" "r_reference r = reference"
proof -
  obtain signer issuer pls ps where g: "split_guards L R legs reference = Ok (signer, issuer, pls, ps)"
    using assms by (cases "split_guards L R legs reference") (auto simp: charge_split_def)
  let ?src = "ed_pubkey L signer"
  let ?mem = "split_memo_hash L RAIL_ID_STELLAR (strkey_encode L ?src) reference ps"
  let ?load = "load_next_seq (sr_rpc R) (strkey_encode L ?src) w"
  obtain seq w1 where l: "?load = (Ok seq, w1)"
    using assms g by (cases ?load; cases "fst ?load") (auto simp: charge_split_def to_strkey_def keypair_pubkey_def)
  let ?prep = "rbind (build_split L R ?src pls seq ?mem) (\<lambda>(fee, utx).
      rbind (sign_and_encode L (sc_network (sr_cfg R)) signer utx) (\<lambda>(hash, sig, b64).
        Ok (fee, hash, sig, b64)))"
  obtain fee hash sig b64 where p: "?prep = Ok (fee, hash, sig, b64)"
    using assms g l by (cases ?prep) (auto simp: charge_split_def to_strkey_def keypair_pubkey_def Let_def)
  then obtain utx where b: "build_split L R ?src pls seq ?mem = Ok (fee, utx)"
      "sign_and_encode L (sc_network (sr_cfg R)) signer utx = Ok (hash, sig, b64)"
    by auto
  let ?sub = "submit_checked L (sr_rpc R) ''stellar split transaction failed on submission'' b64 hash w1"
  obtain h where sc: "?sub = (Ok h, w')" and t: "total_amount pls = Ok (r_amount_minor r)"
      "split_to_vec J (split_binding L R signer issuer ps reference seq fee h sig) = Ok (r_proof r)"
      "r_rail_id r = RAIL_ID_STELLAR" "r_currency r = ''USDC''" "r_reference r = reference"
    using assms g l p
    by (cases ?sub; cases "fst ?sub")
      (auto simp: charge_split_def to_strkey_def keypair_pubkey_def Let_def split_binding_def split: sum.splits)
  from sc obtain s where "rpc_submit_transaction (sr_rpc R) b64 w1 = (Ok s, w')" "su_successful s"
      "su_hash s = h" "h = hex_encode L hash"
    by (auto simp: submit_checked_Ok_iff)
  with that g b t show ?thesis by simp
qed

lemma fee_per_leg:
  assumes "unat (fee :: u32) = unat base * n" "0 < n" "n < 2 ^ 32"
  shows "fee div word_of_nat n = (base :: u32)"
proof -
  have "unat (word_of_nat n :: u32) = n" using assms(3) by (simp add: unat_of_nat)
  with assms show ?thesis by (simp add: word_unat_eq_iff unat_div_distrib)
qed

lemma charge_split_offline:
  assumes laws: "hex_laws L" "key_laws L" "codec_laws L J"
    and g: "split_guards L R legs reference = Ok (signer, issuer, pls, ps)"
    and b: "build_split L R (ed_pubkey L signer) pls seq mem = Ok (fee, utx)"
    and se: "sign_and_encode L (sc_network (sr_cfg R)) signer utx = Ok (hash, sig, b64)"
    and mem: "mem = split_memo_hash L RAIL_ID_STELLAR (strkey_encode L (ed_pubkey L signer)) reference ps"
    and t: "total_amount pls = Ok (r_amount_minor r)"
    and p: "split_to_vec J (split_binding L R signer issuer ps reference seq fee (hex_encode L hash) sig) = Ok (r_proof r)"
    and r: "r_rail_id r = RAIL_ID_STELLAR" "r_currency r = ''USDC''" "r_reference r = reference"
  shows "verify_split_offline L J R r = Some
    (split_binding L R signer issuer ps reference seq fee (hex_encode L hash) sig, ed_pubkey L signer, issuer, mem)"
proof -
  let ?b = "split_binding L R signer issuer ps reference seq fee (hex_encode L hash) sig"
  note g = split_guards_Ok [OF g] and bs = build_split_Ok [OF b]
  have dec: "split_from_slice J (r_proof r) = Some ?b" using p laws(3) by (simp add: codec_laws_def)
  have key: "strkey_decode L (strkey_encode L (ed_pubkey L signer)) = Some (ed_pubkey L signer)"
      "ed_point L (ed_pubkey L signer)" "\<And>m. length (ed_sign L signer m) = 64"
      "\<And>m. ed_verify L (ed_pubkey L signer) m (ed_sign L signer m)" "\<And>x. length (sha256 L x) = 32"
    using laws(2) by (simp_all add: key_laws_def)
  have hex: "\<And>bs. hex_decode L (hex_encode L bs) = Some bs" using laws(1) by (simp add: hex_laws_def)
  have n: "0 < length pls" "length pls < 2 ^ 32" using bs(3) by (simp_all add: payable_def MAX_OPERATIONS_def)
  have ps: "ps \<noteq> []" using g(4) n(1) by auto
  have per: "fee div word_of_nat (length pls) = sc_base_fee_stroops (sr_cfg R)"
    by (rule fee_per_leg [OF bs(2) n])
  have tot: "sum_pairs ps 0 = Some (r_amount_minor r)"
    using t sum_pairs_eq [OF g(4)] by (simp add: total_amount_def)
  have legs: "pair_legs L (usdc issuer) ps = Some pls" using g(4) by (simp add: pair_legs_Some_iff)
  have h: "tx_hash L (network_id L (passphrase (sc_network (sr_cfg R)))) utx = Ok hash" "sig = ed_sign L signer hash"
    using iffD1 [OF sign_and_encode_Ok_iff se] by blast+
  have m: "length mem = 32" by (simp add: mem split_memo_hash_def key(5))
  show ?thesis
    unfolding verify_split_offline_def
    using dec key hex g(3) ps per tot legs h m n bs(1) r
    by (simp add: split_binding_def usdc_asset_eq to_strkey_def keypair_verify_def Let_def sized_array_def
        flip: mem)
qed

lemma charge_split_then_verify:
  assumes "hex_laws L" "key_laws L" "codec_laws L J" "horizon_keeps (sr_rpc R)"
    and "charge_split L J now R legs reference w = (Ok r, w')"
  shows "\<exists>w''. verify_split L J R r w' = (Ok True, w'')"
  using assms(5)
proof (rule charge_split_Ok)
  fix signer issuer pls ps seq w1 fee utx hash sig b64 s
  let ?src = "ed_pubkey L signer"
  let ?mem = "split_memo_hash L RAIL_ID_STELLAR (strkey_encode L ?src) reference ps"
  let ?b = "split_binding L R signer issuer ps reference seq fee (hex_encode L hash) sig"
  assume g: "split_guards L R legs reference = Ok (signer, issuer, pls, ps)"
    and b: "build_split L R ?src pls seq ?mem = Ok (fee, utx)"
    and se: "sign_and_encode L (sc_network (sr_cfg R)) signer utx = Ok (hash, sig, b64)"
    and sub: "rpc_submit_transaction (sr_rpc R) b64 w1 = (Ok s, w')" "su_successful s"
      "su_hash s = hex_encode L hash"
    and t: "total_amount pls = Ok (r_amount_minor r)"
    and p: "split_to_vec J (split_binding L R signer issuer ps reference seq fee (su_hash s) sig) = Ok (r_proof r)"
    and r: "r_rail_id r = RAIL_ID_STELLAR" "r_currency r = ''USDC''" "r_reference r = reference"
  have off: "verify_split_offline L J R r = Some (?b, ?src, issuer, ?mem)"
    using charge_split_offline [OF assms(1-3) g b se refl t _ r] p sub(3) by simp
  obtain rec w'' where rec: "rpc_get_transaction (sr_rpc R) (su_hash s) w' = (Ok (Some rec), w'')"
      "tr_successful rec" "tr_envelope_xdr rec = b64"
    using assms(4) sub(1,2) unfolding horizon_keeps_def by blast
  note bs = build_split_Ok [OF b]
  have "xdr_encode_envelope L (envelope utx ?src sig) = Ok b64"
    using iffD1 [OF sign_and_encode_Ok_iff se] by blast
  then have env: "xdr_decode_envelope L b64 = Ok (envelope utx ?src sig)"
    using assms(3) unfolding codec_laws_def by blast
  let ?d = "\<lparr> dp_source = ?src, dp_seq_num = seq, dp_fee = fee, dp_memo = ?mem, dp_legs = pls \<rparr>"
  have d: "decode_payments (envelope utx ?src sig) = Ok ?d"
    unfolding decode_payments_Ok_iff using bs(3,4) by (auto simp: envelope_def)
  have c: "list_all2 (carries L (usdc issuer)) ps pls" by (rule split_guards_Ok(4) [OF g])
  have hash: "s_tx_hash ?b = su_hash s" by (simp add: split_binding_def sub(3))
  have len: "length pls = length ps" using list_all2_lengthD [OF c] by simp
  have "verify_split L J R r w' = (Ok True, w'')"
    using off rec env d c len
    by (simp add: verify_split_def hash envelope_from_xdr_base64_def legs_match_iff split_binding_def sub(3))
  then show ?thesis ..
qed

section \<open>A concrete split\<close>

definition toy_legs :: "split_leg list" where
  "toy_legs = [split_leg_new (toy_strkey (fill 32 [8])) 700, split_leg_new (toy_strkey (fill 32 [6])) 300]"

definition toy_pairs :: "(string \<times> i64) list" where
  "toy_pairs = [(toy_strkey (fill 32 [8]), 700), (toy_strkey (fill 32 [6]), 300)]"

definition toy_payment_legs :: "payment_leg list" where
  "toy_payment_legs =
     [\<lparr> pl_dest = fill 32 [8], pl_asset = usdc (fill 32 [5]), pl_amount = 700 \<rparr>,
      \<lparr> pl_dest = fill 32 [6], pl_asset = usdc (fill 32 [5]), pl_amount = 300 \<rparr>]"

definition toy_split_memo :: bytes where
  "toy_split_memo = split_memo_hash (toy_lib None) ''stellar'' (toy_strkey (fill 32 [9])) ''INV-2'' toy_pairs"

definition toy_split_envelope :: tx_envelope where
  "toy_split_envelope = envelope
     (payment_tx (fill 32 [9]) toy_payment_legs 42 200 toy_split_memo NoPreconditions)
     (fill 32 [9]) (fill 64 (fill 32 [9] @ fill 32 [1, 2, 3]))"

definition toy_split_binding :: stellar_split_binding where
  "toy_split_binding = split_binding (toy_lib None) toy_rail (fill 32 [9]) (fill 32 [5]) toy_pairs ''INV-2'' 42 200
     (char_bytes (fill 32 [1, 2, 3])) (fill 64 (fill 32 [9] @ fill 32 [1, 2, 3]))"

definition toy_split_receipt :: receipt where
  "toy_split_receipt = \<lparr> r_rail_id = ''stellar'', r_amount_minor = 1000, r_currency = ''USDC'',
     r_reference = ''INV-2'', r_proof = [2], r_settled_at_unix = 1700000000 \<rparr>"

lemma toy_charge_split:
  "charge_split (toy_lib (Some toy_split_envelope)) (toy_json None (Some toy_split_binding)) (\<lambda>_. 1700000000) toy_rail
     toy_legs ''INV-2'' [] = (Ok toy_split_receipt, ''AAAA'')"
proof -
  let ?L = "toy_lib (Some toy_split_envelope)"
  have ref: "\<not> blank ''INV-2''" by (simp add: not_blank_Cons graphic_def)
  have dec: "strkey_decode ?L = toy_strkey_decode" by (simp add: toy_lib_def)
  have res: "resolve_legs ?L (usdc (fill 32 [5])) toy_legs 0 = Ok (toy_payment_legs, toy_pairs)"
    by (simp add: toy_legs_def split_leg_new_def from_strkey_def dec i64_try_from_u64_def toy_payment_legs_def
        toy_pairs_def)
  have g: "split_guards ?L toy_rail toy_legs ''INV-2'' = Ok (fill 32 [9], fill 32 [5], toy_payment_legs, toy_pairs)"
    using ref res by (simp add: split_guards_def from_strkey_def dec config_testnet_def usdc_asset_eq)
  have l: "load_next_seq (toy_horizon (char_bytes (fill 32 [1, 2, 3]))) a w = (Ok 42, w)" for a w
    by (simp add: load_next_seq_Ok_iff toy_horizon_def checked_add_i64_def)
  have cfg: "sc_network (sr_cfg toy_rail) = Testnet" "sc_base_fee_stroops (sr_cfg toy_rail) = 100"
    by (simp_all add: config_testnet_def)
  have src: "keypair_pubkey ?L (fill 32 [9]) = fill 32 [9]" by (simp add: keypair_pubkey_def toy_lib_def)
  have mem: "split_memo_hash ?L RAIL_ID_STELLAR (to_strkey ?L (fill 32 [9])) ''INV-2'' toy_pairs = toy_split_memo"
    by (simp add: split_memo_hash_def toy_split_memo_def RAIL_ID_STELLAR_def to_strkey_def toy_lib_def)
  let ?tx = "payment_tx (fill 32 [9]) toy_payment_legs 42 200 toy_split_memo NoPreconditions"
  have b: "build_split ?L toy_rail (fill 32 [9]) toy_payment_legs 42 toy_split_memo = Ok (200, ?tx)"
    by (simp add: build_split_def config_testnet_def total_fee_def checked_mul_u_def toy_payment_legs_def
        build_payment_transaction_def MAX_OPERATIONS_def total_amount_def checked_add_i64_def
        transaction_from_ops_def payment_tx_def muxed_def)
  have se: "sign_and_encode ?L Testnet (fill 32 [9]) ?tx =
      Ok (fill 32 [1, 2, 3], fill 64 (fill 32 [9] @ fill 32 [1, 2, 3]), ''AAAA'')"
    by (simp add: sign_and_encode_Ok_iff tx_hash_def signing_payload_def)
      (simp add: toy_lib_def toy_split_envelope_def)
  have tot: "total_amount toy_payment_legs = Ok 1000"
    by (simp add: total_amount_def toy_payment_legs_def checked_add_i64_def)
  have bind: "toy_split_binding =
      \<lparr> s_chain = ''stellar'', s_network_passphrase = passphrase Testnet,
        s_tx_hash = char_bytes (fill 32 [1, 2, 3]), s_source = to_strkey ?L (fill 32 [9]),
        s_asset_code = ''USDC'', s_asset_issuer = to_strkey ?L (fill 32 [5]), s_legs = toy_pairs,
        s_seq_num = 42, s_fee = 200, s_memo_hash = hex_encode ?L toy_split_memo,
        s_signature = hex_encode ?L (fill 64 (fill 32 [9] @ fill 32 [1, 2, 3])) \<rparr>"
    by (simp add: toy_split_binding_def split_binding_def config_testnet_def to_strkey_def)
      (simp add: toy_lib_def split_memo_hash_def toy_split_memo_def RAIL_ID_STELLAR_def)
  have j: "split_to_vec (toy_json None (Some toy_split_binding)) toy_split_binding = Ok [2]"
    by (simp add: toy_json_def)
  show ?thesis
    unfolding charge_split_def g cfg src mem prod.case sum.case Let_def toy_rail_sel(2) l b rbind.simps se
      toy_submit tot map_err.simps bind [symmetric] j
    by (simp add: toy_split_receipt_def RAIL_ID_STELLAR_def)
qed

section \<open>Properties\<close>

text \<open>
  C6: a split receipt that verifies is one bundle on the ledger. Under the proof's hash Horizon shows
  a successful transaction of the named payer whose operations are, in order, one USDC payment per
  pair of the proof, each of a positive amount to the account the pair names; their sum is exactly the
  receipt's amount, and the memo binds all of them, their order and the receipt's reference.
\<close>

theorem verify_split_sound:
  assumes "verify_split L J R r w = (Ok True, w')" "hex_laws L"
  shows "\<exists>b source issuer legs env cond sigs.
    split_from_slice J (r_proof r) = Some b \<and> r_rail_id r = ''stellar'' \<and> r_currency r = ''USDC'' \<and>
    strkey_decode L (s_source b) = Some source \<and> strkey_decode L (sc_usdc_issuer (sr_cfg R)) = Some issuer \<and>
    list_all2 (carries L (usdc issuer)) (s_legs b) legs \<and>
    horizon_shows L (sr_rpc R) (s_tx_hash b) w env w' \<and>
    env = TxV1
      \<lparr> tx_source = Ed25519 source, tx_fee = s_fee b, tx_seq_num = s_seq_num b, tx_cond = cond,
        tx_memo = MemoHash (split_memo_hash L ''stellar'' (s_source b) (r_reference r) (s_legs b)),
        tx_operations = map payment_op legs \<rparr> sigs \<and>
    legs \<noteq> [] \<and> length legs \<le> 100 \<and> list_all positive_leg legs \<and>
    sum_list (map (\<lambda>l. sint (pl_amount l)) legs) = int (unat (r_amount_minor r))"
  using assms
proof (rule verify_split_shows)
  fix b source issuer legs env cond sigs
  assume "split_from_slice J (r_proof r) = Some b" "r_rail_id r = RAIL_ID_STELLAR" "r_currency r = ''USDC''"
    "strkey_decode L (s_source b) = Some source" "strkey_decode L (sc_usdc_issuer (sr_cfg R)) = Some issuer"
    "list_all2 (carries L (usdc issuer)) (s_legs b) legs"
    "horizon_shows L (sr_rpc R) (s_tx_hash b) w env w'"
    "env = TxV1 (payment_tx source legs (s_seq_num b) (s_fee b)
      (split_memo_hash L RAIL_ID_STELLAR (s_source b) (r_reference r) (s_legs b)) cond) sigs"
    "payable legs" "leg_sum legs = int (unat (r_amount_minor r))"
  then show ?thesis
    unfolding payment_tx_def payable_def MAX_OPERATIONS_def RAIL_ID_STELLAR_def leg_sum_def by blast
qed

text \<open>
  C7: what \<open>charge_split\<close> charges \<open>verify_split\<close> accepts, if Horizon keeps what it took.
\<close>

theorem charge_split_verifies:
  assumes "hex_laws L" "key_laws L" "codec_laws L J" "horizon_keeps (sr_rpc R)"
    and "charge_split L J now R legs reference w = (Ok r, w')"
  shows "\<exists>w''. verify_split L J R r w' = (Ok True, w'')"
  using assms by (rule charge_split_then_verify)

theorem charge_split_verifies_witness:
  "\<exists>w''. verify_split (toy_lib (Some toy_split_envelope)) (toy_json None (Some toy_split_binding)) toy_rail
     toy_split_receipt ''AAAA'' = (Ok True, w'')"
  by (rule charge_split_verifies [OF toy_laws _ toy_charge_split]) (simp add: toy_horizon_keeps)

theorem verify_split_sound_witness:
  "\<exists>legs. list_all2 (carries (toy_lib (Some toy_split_envelope)) (usdc (fill 32 [5]))) toy_pairs legs \<and>
     sum_list (map (\<lambda>l. sint (pl_amount l)) legs) = 1000"
proof -
  let ?L = "toy_lib (Some toy_split_envelope)" and ?J = "toy_json None (Some toy_split_binding)"
  obtain w'' where "verify_split ?L ?J toy_rail toy_split_receipt ''AAAA'' = (Ok True, w'')"
    using charge_split_then_verify [OF toy_laws _ toy_charge_split] toy_horizon_keeps by auto
  from verify_split_sound [OF this toy_laws(1)] obtain b issuer legs where
    v: "split_from_slice ?J (r_proof toy_split_receipt) = Some b"
      "strkey_decode ?L (sc_usdc_issuer (sr_cfg toy_rail)) = Some issuer"
      "list_all2 (carries ?L (usdc issuer)) (s_legs b) legs"
      "sum_list (map (\<lambda>l. sint (pl_amount l)) legs) = int (unat (r_amount_minor toy_split_receipt))"
    by blast
  have "b = toy_split_binding" using v(1) by (simp add: toy_json_def toy_split_receipt_def)
  moreover have "issuer = fill 32 [5]" using v(2) by (simp add: toy_lib_def config_testnet_def)
  ultimately show ?thesis
    using v(3,4) by (auto simp: toy_split_receipt_def toy_split_binding_def split_binding_def)
qed

end
