(* ===== verification/Stellar_Horizon.thy ===== *)
theory Stellar_Horizon
  imports Stellar_Rpc Http
begin

text \<open>
  \<open>HorizonRpc\<close> of \<open>patala-stellar/src/rpc.rs\<close>: the real client behind the \<open>StellarRpc\<close> seam, over an
  HTTP client \<open>C\<close> and JSON text \<open>T\<close>. What counts as an answer: 404 is one where the trait says the
  account or transaction may be missing, every other failure is an error.
\<close>

section \<open>The client\<close>

fun strip_slashes_rev :: "string \<Rightarrow> string" where
  "strip_slashes_rev [] = []"
| "strip_slashes_rev (c # s) = (if c = CHR ''/'' then strip_slashes_rev s else c # s)"

definition horizon_new :: "string \<Rightarrow> string" where
  "horizon_new base_url = rev (strip_slashes_rev (rev base_url))"

text \<open>The answer's JSON where the status is a success; \<open>what\<close> names the request in the messages.\<close>

definition success_json :: "json_text \<Rightarrow> string \<Rightarrow> http_response \<Rightarrow> stellar_error + json" where
  "success_json T what resp =
     (if \<not> is_success resp then Err (Rpc (what @ '': HTTP '' @ status_show T (hr_status resp)))
      else map_err (\<lambda>e. Rpc (what @ '': bad JSON: '' @ e)) (response_json T resp))"

definition horizon_load_sequence ::
    "json_text \<Rightarrow> 'w http_client \<Rightarrow> string \<Rightarrow> string \<Rightarrow> 'w \<Rightarrow> (stellar_error + i64) \<times> 'w" where
  "horizon_load_sequence T C base account w =
     (case C (http_get (base @ ''/accounts/'' @ account)) w of
        (Err e, w') \<Rightarrow> (Err (Rpc (''GET /accounts: '' @ e)), w')
      | (Ok resp, w') \<Rightarrow>
          (rbind (success_json T ''GET /accounts'' resp) (\<lambda>v.
             ok_or (Rpc ''GET /accounts: no sequence'') (Option.bind (get_str ''sequence'' v) parse_i64)), w'))"

definition i64_max :: i64 where "i64_max = word_of_int (2 ^ 63 - 1)"

definition holding_of :: "json \<Rightarrow> stellar_error + asset_holding" where
  "holding_of b =
     (let is_native = (get_str ''asset_type'' b = Some ''native'') in
      rbind (rbind (ok_or (Rpc ''GET /accounts: balance not a string'') (get_str ''balance'' b)) parse_stroops) (\<lambda>balance.
      rbind (if is_native then Ok i64_max
             else case get_str ''limit'' b of Some l \<Rightarrow> parse_stroops l | None \<Rightarrow> Ok i64_max) (\<lambda>limit.
        Ok \<lparr> ah_is_native = is_native,
             ah_asset_code = (case get_str ''asset_code'' b of Some c \<Rightarrow> c | None \<Rightarrow> []),
             ah_asset_issuer = (case get_str ''asset_issuer'' b of Some i \<Rightarrow> i | None \<Rightarrow> []),
             ah_balance_stroops = balance,
             ah_limit_stroops = limit,
             ah_is_authorized = (is_native \<or>
               (case Option.bind (jget ''is_authorized'' b) as_bool of Some x \<Rightarrow> x | None \<Rightarrow> False)) \<rparr>)))"

definition horizon_load_account_holdings ::
    "json_text \<Rightarrow> 'w http_client \<Rightarrow> string \<Rightarrow> string \<Rightarrow> 'w \<Rightarrow> (stellar_error + asset_holding list option) \<times> 'w" where
  "horizon_load_account_holdings T C base account w =
     (case C (http_get (base @ ''/accounts/'' @ account)) w of
        (Err e, w') \<Rightarrow> (Err (Rpc (''GET /accounts: '' @ e)), w')
      | (Ok resp, w') \<Rightarrow>
          if hr_status resp = 404 then (Ok None, w')
          else
            (rbind (success_json T ''GET /accounts'' resp) (\<lambda>v.
             rbind (ok_or (Rpc ''GET /accounts: no balances array'') (Option.bind (jget ''balances'' v) as_array)) (\<lambda>balances.
             rbind (traverse holding_of balances) (\<lambda>out. Ok (Some out)))), w'))"

definition submit_result_of :: "json \<Rightarrow> stellar_error + submit_result" where
  "submit_result_of v =
     rbind (ok_or (Rpc ''POST /transactions: no hash'') (get_str ''hash'' v)) (\<lambda>hash.
     rbind (ok_or (Rpc ''POST /transactions: no ledger'') (Option.bind (jget ''ledger'' v) as_u64)) (\<lambda>ledger.
       Ok \<lparr> su_hash = hash, su_ledger = ucast ledger,
            su_successful = (case Option.bind (jget ''successful'' v) as_bool of Some b \<Rightarrow> b | None \<Rightarrow> True) \<rparr>))"

definition horizon_submit_transaction ::
    "json_text \<Rightarrow> 'w http_client \<Rightarrow> string \<Rightarrow> string \<Rightarrow> 'w \<Rightarrow> (stellar_error + submit_result) \<times> 'w" where
  "horizon_submit_transaction T C base envelope_xdr_b64 w =
     (case C (http_post (base @ ''/transactions'') (FormBody [(''tx'', envelope_xdr_b64)])) w of
        (Err e, w') \<Rightarrow> (Err (Rpc (''POST /transactions: '' @ e)), w')
      | (Ok resp, w') \<Rightarrow>
          (rbind (map_err (\<lambda>e. Rpc (''POST /transactions: bad JSON: '' @ e)) (response_json T resp)) (\<lambda>v.
             if \<not> is_success resp then
               Err (Rpc (''POST /transactions: HTTP '' @ status_show T (hr_status resp) @ '': '' @ json_show T v))
             else submit_result_of v), w'))"

definition tx_record_of :: "json \<Rightarrow> stellar_error + tx_record" where
  "tx_record_of v =
     rbind (ok_or (Rpc ''GET /transactions/{hash}: no successful'') (Option.bind (jget ''successful'' v) as_bool)) (\<lambda>ok.
     rbind (ok_or (Rpc ''GET /transactions/{hash}: no ledger'') (Option.bind (jget ''ledger'' v) as_u64)) (\<lambda>ledger.
     rbind (ok_or (Rpc ''GET /transactions/{hash}: no envelope_xdr'') (get_str ''envelope_xdr'' v)) (\<lambda>xdr.
       Ok \<lparr> tr_successful = ok, tr_ledger = ucast ledger, tr_envelope_xdr = xdr \<rparr>)))"

definition horizon_get_transaction ::
    "json_text \<Rightarrow> 'w http_client \<Rightarrow> string \<Rightarrow> string \<Rightarrow> 'w \<Rightarrow> (stellar_error + tx_record option) \<times> 'w" where
  "horizon_get_transaction T C base tx_hash_hex w =
     (case C (http_get (base @ ''/transactions/'' @ tx_hash_hex)) w of
        (Err e, w') \<Rightarrow> (Err (Rpc (''GET /transactions/{hash}: '' @ e)), w')
      | (Ok resp, w') \<Rightarrow>
          if hr_status resp = 404 then (Ok None, w')
          else
            (rbind (success_json T ''GET /transactions/{hash}'' resp) (\<lambda>v.
             rbind (tx_record_of v) (\<lambda>r. Ok (Some r))), w'))"

definition horizon_rpc :: "json_text \<Rightarrow> 'w http_client \<Rightarrow> string \<Rightarrow> 'w stellar_rpc" where
  "horizon_rpc T C base =
     \<lparr> rpc_load_sequence = horizon_load_sequence T C base,
       rpc_load_account_holdings = horizon_load_account_holdings T C base,
       rpc_submit_transaction = horizon_submit_transaction T C base,
       rpc_get_transaction = horizon_get_transaction T C base \<rparr>"

section \<open>Facts\<close>

text \<open>An account or transaction is missing only on a 404, and nothing is shown but from a success.\<close>

lemma horizon_get_transaction_Ok_iff:
  "horizon_get_transaction T C base h w = (Ok res, w') \<longleftrightarrow>
     (\<exists>resp. C (http_get (base @ ''/transactions/'' @ h)) w = (Ok resp, w') \<and>
        (case res of
           None \<Rightarrow> hr_status resp = 404
         | Some r \<Rightarrow> is_success resp \<and> (\<exists>v. response_json T resp = Ok v \<and> tx_record_of v = Ok r)))"
proof -
  obtain a w1 where c: "C (http_get (base @ ''/transactions/'' @ h)) w = (a, w1)" by (cases "C (http_get (base @ ''/transactions/'' @ h)) w")
  show ?thesis
  proof (cases a)
    case (Inl e)
    then show ?thesis using c by (simp add: horizon_get_transaction_def)
  next
    case (Inr resp)
    then show ?thesis
      using c is_success_not_404 [of resp]
      by (cases "hr_status resp = 404"; cases res)
        (auto simp: horizon_get_transaction_def success_json_def)
  qed
qed

end
