(* ===== verification/Solana_Tx.thy ===== *)
theory Solana_Tx
  imports Core_Rail "HOL-Library.Multiset"
begin

text \<open>
  \<open>patala-solana/src/tx.rs\<close>: addresses, program-derived addresses, the two instructions a payment
  consists of, the legacy message format, the wire transaction and its base64. The libraries the
  source calls (\<open>bs58\<close>, \<open>sha2\<close>, \<open>blake3\<close>, \<open>hex\<close>, \<open>ed25519_dalek\<close>, \<open>curve25519_dalek\<close>) are a record of
  functions, the parameter \<open>S\<close>. The last sections read a message back and show that nothing of the
  instructions is lost.
\<close>

section \<open>Errors and libraries\<close>

datatype solana_error = SolRpc string | SolBadAddress string | SolDerivation | SolConfig string

fun solana_error_display :: "solana_error \<Rightarrow> string" where
  "solana_error_display (SolRpc m) = ''solana rpc: '' @ m"
| "solana_error_display (SolBadAddress m) = ''not a valid solana address: '' @ m"
| "solana_error_display SolDerivation = ''could not derive associated token address''"
| "solana_error_display (SolConfig m) = ''solana rail misconfigured: '' @ m"

definition solana_to_core :: "solana_error \<Rightarrow> error" where
  "solana_to_core e = Rail (solana_error_display e)"

record solana_lib =
  sol_sha256 :: "bytes \<Rightarrow> bytes"
  sol_blake3 :: "bytes \<Rightarrow> bytes"
  sol_hex_encode :: "bytes \<Rightarrow> string"
  bs58_decode :: "string \<Rightarrow> bytes option"
  bs58_encode :: "bytes \<Rightarrow> string"
  on_curve :: "bytes \<Rightarrow> bool"
  sol_pubkey :: "bytes \<Rightarrow> bytes"
  sol_sign :: "bytes \<Rightarrow> bytes \<Rightarrow> bytes"

section \<open>Addresses\<close>

definition TOKEN_PROGRAM_ID :: string where
  "TOKEN_PROGRAM_ID = ''TokenkegQfeZyiNwAJbNbGKPFXCWuBvf9Ss623VQ5DA''"
definition ASSOCIATED_TOKEN_PROGRAM_ID :: string where
  "ASSOCIATED_TOKEN_PROGRAM_ID = ''ATokenGPvbdGVxr1b2hvZbsiqW5xWH25efTNsLJA8knL''"
definition MEMO_PROGRAM_ID :: string where
  "MEMO_PROGRAM_ID = ''MemoSq4gqABAXKb96qnH8TysNcWxMyWCqXgDLGmfcHr''"
definition USDC_MAINNET_MINT :: string where
  "USDC_MAINNET_MINT = ''EPjFWdd5AufqSSqeM2qN1xzybapC8G4wEGGkZwyTDt1v''"
definition USDC_DEVNET_MINT :: string where
  "USDC_DEVNET_MINT = ''4zMMC9srt5Ri5X14GAgXhaHii3GnPAEERYPJgZJDncDU''"
definition USDC_DECIMALS_solana :: u8 where "USDC_DECIMALS_solana = 6"

definition pubkey_from_base58 :: "solana_lib \<Rightarrow> string \<Rightarrow> solana_error + bytes" where
  "pubkey_from_base58 S s =
     (case bs58_decode S s of
        None \<Rightarrow> Err (SolBadAddress s)
      | Some raw \<Rightarrow> if length raw = 32 then Ok raw else Err (SolBadAddress s))"

definition pubkey_to_base58 :: "solana_lib \<Rightarrow> bytes \<Rightarrow> string" where
  "pubkey_to_base58 S k = bs58_encode S k"

definition is_on_curve :: "solana_lib \<Rightarrow> bytes \<Rightarrow> bool" where
  "is_on_curve S bs = on_curve S bs"

text \<open>The loop over the bumps, from 255 down.\<close>

fun bump_loop :: "solana_lib \<Rightarrow> bytes list \<Rightarrow> bytes \<Rightarrow> u8 list \<Rightarrow> solana_error + bytes \<times> u8" where
  "bump_loop S seeds program [] = Err SolDerivation"
| "bump_loop S seeds program (bump # bumps) =
     (let out = sol_sha256 S (concat seeds @ [bump] @ program @ as_bytes ''ProgramDerivedAddress'')
      in if \<not> is_on_curve S out then Ok (out, bump) else bump_loop S seeds program bumps)"

definition find_program_address :: "solana_lib \<Rightarrow> bytes list \<Rightarrow> bytes \<Rightarrow> solana_error + bytes \<times> u8" where
  "find_program_address S seeds program = bump_loop S seeds program (rev (map word_of_nat [0..<256]))"

definition associated_token_address :: "solana_lib \<Rightarrow> bytes \<Rightarrow> bytes \<Rightarrow> solana_error + bytes" where
  "associated_token_address S owner mint =
     rbind (pubkey_from_base58 S TOKEN_PROGRAM_ID) (\<lambda>token.
     rbind (pubkey_from_base58 S ASSOCIATED_TOKEN_PROGRAM_ID) (\<lambda>ata_program.
     rbind (find_program_address S [owner, token, mint] ata_program) (\<lambda>(addr, bump). Ok addr)))"

section \<open>Instructions\<close>

record instruction =
  ix_program :: bytes
  ix_accounts :: "(bytes \<times> bool \<times> bool) list" \<comment> \<open>key, signer, writable\<close>
  ix_data :: bytes

text \<open>The program ids are valid constants, so the \<open>expect\<close> on decoding them cannot fail.\<close>

definition transfer_checked ::
    "solana_lib \<Rightarrow> bytes \<Rightarrow> bytes \<Rightarrow> bytes \<Rightarrow> bytes \<Rightarrow> u64 \<Rightarrow> u8 \<Rightarrow> instruction" where
  "transfer_checked S source_ata mint dest_ata authority amount decimals =
     \<lparr> ix_program = projr (pubkey_from_base58 S TOKEN_PROGRAM_ID),
       ix_accounts = [(source_ata, False, True), (mint, False, False), (dest_ata, False, True),
         (authority, True, False)],
       ix_data = [12] @ u64_to_le_bytes amount @ [decimals] \<rparr>"

definition memo_ix :: "solana_lib \<Rightarrow> bytes \<Rightarrow> string \<Rightarrow> instruction" where
  "memo_ix S signer note =
     \<lparr> ix_program = projr (pubkey_from_base58 S MEMO_PROGRAM_ID),
       ix_accounts = [(signer, True, False)], ix_data = as_bytes note \<rparr>"

section \<open>The message\<close>

function compact_u16 :: "nat \<Rightarrow> bytes" where
  "compact_u16 v =
     (if v div 128 = 0 then [word_of_nat (v mod 128)]
      else (word_of_nat (v mod 128) OR 0x80) # compact_u16 (v div 128))"
  by auto
termination by (relation "measure id") auto

declare compact_u16.simps [simp del]

text \<open>The closure \<open>add\<close>: merge the flags into the first entry with this key, or append one.\<close>

fun add_key :: "bytes \<Rightarrow> bool \<Rightarrow> bool \<Rightarrow> (bytes \<times> bool \<times> bool) list \<Rightarrow> (bytes \<times> bool \<times> bool) list" where
  "add_key k signer writable [] = [(k, signer, writable)]"
| "add_key k signer writable ((k', s, w) # keys) =
     (if k' = k then (k', s \<or> signer, w \<or> writable) # keys
      else (k', s, w) # add_key k signer writable keys)"

definition collect_keys :: "bytes \<Rightarrow> instruction list \<Rightarrow> (bytes \<times> bool \<times> bool) list" where
  "collect_keys payer ixs =
     (let accounts = foldl (\<lambda>keys (k, s, w). add_key k s w keys) [(payer, True, True)]
            (concat (map ix_accounts ixs))
      in foldl (\<lambda>keys ix. add_key (ix_program ix) False False keys) accounts ixs)"

definition rank :: "bytes \<times> bool \<times> bool \<Rightarrow> nat" where
  "rank e = (case snd e of (True, True) \<Rightarrow> 0 | (True, False) \<Rightarrow> 1 | (False, True) \<Rightarrow> 2 | (False, False) \<Rightarrow> 3)"

definition ordered_keys :: "bytes \<Rightarrow> instruction list \<Rightarrow> (bytes \<times> bool \<times> bool) list" where
  "ordered_keys payer ixs = sort_key rank (collect_keys payer ixs)"

text \<open>\<open>keys.iter().position(..).unwrap() as u8\<close>; every key looked up was collected.\<close>

fun position :: "bytes \<Rightarrow> (bytes \<times> bool \<times> bool) list \<Rightarrow> nat" where
  "position k [] = 0"
| "position k (e # keys) = (if fst e = k then 0 else Suc (position k keys))"

definition index_of :: "(bytes \<times> bool \<times> bool) list \<Rightarrow> bytes \<Rightarrow> u8" where
  "index_of keys k = word_of_nat (position k keys)"

definition serialize_ix :: "(bytes \<times> bool \<times> bool) list \<Rightarrow> instruction \<Rightarrow> bytes" where
  "serialize_ix keys ix =
     [index_of keys (ix_program ix)] @ compact_u16 (length (ix_accounts ix)) @
     map (\<lambda>a. index_of keys (fst a)) (ix_accounts ix) @
     compact_u16 (length (ix_data ix)) @ ix_data ix"

definition serialize_message :: "bytes \<Rightarrow> instruction list \<Rightarrow> bytes \<Rightarrow> bytes" where
  "serialize_message payer ixs recent_blockhash =
     (let keys = ordered_keys payer ixs;
          num_signers = word_of_nat (length (filter (\<lambda>(k, s, w). s) keys));
          num_readonly_signed = word_of_nat (length (filter (\<lambda>(k, s, w). s \<and> \<not> w) keys));
          num_readonly_unsigned = word_of_nat (length (filter (\<lambda>(k, s, w). \<not> s \<and> \<not> w) keys))
      in [num_signers, num_readonly_signed, num_readonly_unsigned] @
         compact_u16 (length keys) @ concat (map fst keys) @ recent_blockhash @
         compact_u16 (length ixs) @ concat (map (serialize_ix keys) ixs))"

definition wire_transaction :: "bytes \<Rightarrow> bytes \<Rightarrow> bytes" where
  "wire_transaction signature message = compact_u16 1 @ signature @ message"

section \<open>Base64\<close>

definition BASE64_ALPHABET :: string where
  "BASE64_ALPHABET = ''ABCDEFGHIJKLMNOPQRSTUVWXYZabcdefghijklmnopqrstuvwxyz0123456789+/''"

definition sextet :: "u32 \<Rightarrow> char" where
  "sextet n = BASE64_ALPHABET ! unat (n AND 63)"

definition chunk_word :: "u8 \<Rightarrow> u8 \<Rightarrow> u8 \<Rightarrow> u32" where
  "chunk_word x y z = push_bit 16 (ucast x) OR push_bit 8 (ucast y) OR ucast z"

fun b64 :: "bytes \<Rightarrow> string" where
  "b64 (x # y # z # bs) =
     (let n = chunk_word x y z
      in [sextet (drop_bit 18 n), sextet (drop_bit 12 n), sextet (drop_bit 6 n), sextet n] @ b64 bs)"
| "b64 [x, y] =
     (let n = chunk_word x y 0
      in [sextet (drop_bit 18 n), sextet (drop_bit 12 n), sextet (drop_bit 6 n), CHR ''=''])"
| "b64 [x] =
     (let n = chunk_word x 0 0 in [sextet (drop_bit 18 n), sextet (drop_bit 12 n), CHR ''='', CHR ''=''])"
| "b64 [] = []"

section \<open>Facts: variable-length numbers\<close>

fun parse_compact :: "bytes \<Rightarrow> (nat \<times> bytes) option" where
  "parse_compact [] = None"
| "parse_compact (b # bs) =
     (if unat b < 128 then Some (unat b, bs)
      else map_option (\<lambda>(v, rest). (unat b - 128 + 128 * v, rest)) (parse_compact bs))"

lemma or_128: "list_all (\<lambda>x. unat (word_of_nat x OR (0x80 :: u8)) = x + 128) [0..<128]"
  by code_simp

lemma unat_or_128: "x < 128 \<Longrightarrow> unat (word_of_nat x OR (0x80 :: u8)) = x + 128"
  using or_128 by (simp add: list_all_iff del: upt_conv_Cons)

lemma unat_u8_of_nat: "x < 256 \<Longrightarrow> unat (word_of_nat x :: u8) = x"
  by (simp add: unat_of_nat)

lemma parse_compact_compact: "parse_compact (compact_u16 v @ rest) = Some (v, rest)"
proof (induction v rule: compact_u16.induct)
  case (1 v)
  have m: "v mod 128 < 128" by simp
  show ?case
  proof (cases "v div 128 = 0")
    case True
    then have "v < 128" by (simp add: div_eq_0_iff)
    then show ?thesis using True by (simp add: compact_u16.simps [of v] unat_u8_of_nat)
  next
    case False
    then show ?thesis
      using 1 [OF False] by (simp add: compact_u16.simps [of v] unat_or_128 [OF m])
  qed
qed

section \<open>Facts: the account table\<close>

lemma map_of_add_key:
  "map_of (add_key k s w keys) = (map_of keys)(k \<mapsto> (case map_of keys k of
     None \<Rightarrow> (s, w) | Some (s', w') \<Rightarrow> (s' \<or> s, w' \<or> w)))"
  by (induction k s w keys rule: add_key.induct) (auto split: option.splits)

lemma set_add_key: "fst ` set (add_key k s w keys) = insert k (fst ` set keys)"
  by (induction k s w keys rule: add_key.induct) auto

lemma distinct_add_key: "distinct (map fst keys) \<Longrightarrow> distinct (map fst (add_key k s w keys))"
proof (induction k s w keys rule: add_key.induct)
  case (2 k signer writable k' s w keys)
  then show ?case
    using set_add_key [of k signer writable keys] by auto
qed simp

lemma hd_add_key: "keys \<noteq> [] \<Longrightarrow> fst (hd keys) = fst (hd (add_key k s w keys)) \<and> add_key k s w keys \<noteq> []"
  by (induction k s w keys rule: add_key.induct) auto

definition add_all :: "(bytes \<times> bool \<times> bool) list \<Rightarrow> (bytes \<times> bool \<times> bool) list \<Rightarrow> (bytes \<times> bool \<times> bool) list" where
  "add_all = foldl (\<lambda>keys (k, s, w). add_key k s w keys)"

text \<open>Everything that goes into the table, in order.\<close>

definition wanted :: "bytes \<Rightarrow> instruction list \<Rightarrow> (bytes \<times> bool \<times> bool) list" where
  "wanted payer ixs =
     (payer, True, True) # concat (map ix_accounts ixs) @ map (\<lambda>ix. (ix_program ix, False, False)) ixs"

lemma collect_keys_eq: "collect_keys payer ixs = add_all [] (wanted payer ixs)"
proof -
  have "foldl (\<lambda>keys ix. add_key (ix_program ix) False False keys) acc ixs =
      add_all acc (map (\<lambda>ix. (ix_program ix, False, False)) ixs)" for acc
    by (induction ixs arbitrary: acc) (simp_all add: add_all_def)
  then show ?thesis by (simp add: collect_keys_def wanted_def add_all_def)
qed

lemma map_of_add_all:
  "map_of (add_all [] T) k =
     (if k \<in> fst ` set T then Some (\<exists>w. (k, True, w) \<in> set T, \<exists>s. (k, s, True) \<in> set T) else None)"
proof (induction T rule: rev_induct)
  case (snoc e T)
  obtain k' s w where e: "e = (k', s, w)" by (cases e)
  have "map_of (add_all [] (T @ [e])) k = map_of (add_key k' s w (add_all [] T)) k"
    by (simp add: add_all_def e)
  then show ?case
    using snoc by (cases "k = k'") (auto simp: map_of_add_key e image_iff split: option.splits)
qed (simp add: add_all_def)

lemma distinct_add_all: "distinct (map fst keys) \<Longrightarrow> distinct (map fst (add_all keys T))"
  by (induction T arbitrary: keys) (auto simp: add_all_def distinct_add_key)

lemma hd_add_all: "keys \<noteq> [] \<Longrightarrow> fst (hd (add_all keys T)) = fst (hd keys) \<and> add_all keys T \<noteq> []"
proof (induction T arbitrary: keys)
  case (Cons e T)
  obtain k s w where e: "e = (k, s, w)" by (cases e)
  from hd_add_key [OF Cons.prems, of k s w] Cons.IH [of "add_key k s w keys"] show ?case
    by (simp add: add_all_def e)
qed (simp add: add_all_def)

text \<open>What a key needs: a signature, or to be written.\<close>

definition needs_signature :: "bytes \<Rightarrow> instruction list \<Rightarrow> bytes \<Rightarrow> bool" where
  "needs_signature payer ixs k \<longleftrightarrow> k = payer \<or> list_ex (\<lambda>ix. list_ex (\<lambda>a. fst a = k \<and> fst (snd a)) (ix_accounts ix)) ixs"

definition needs_write :: "bytes \<Rightarrow> instruction list \<Rightarrow> bytes \<Rightarrow> bool" where
  "needs_write payer ixs k \<longleftrightarrow> k = payer \<or> list_ex (\<lambda>ix. list_ex (\<lambda>a. fst a = k \<and> snd (snd a)) (ix_accounts ix)) ixs"

lemma list_ex_flag:
  "list_ex (\<lambda>a. fst a = k \<and> fst (snd a)) xs \<longleftrightarrow> (\<exists>w. (k, True, w) \<in> set xs)"
  "list_ex (\<lambda>a. fst a = k \<and> snd (snd a)) xs \<longleftrightarrow> (\<exists>s. (k, s, True) \<in> set xs)"
  by (induction xs) auto

lemma needs_signature_iff:
  "needs_signature payer ixs k \<longleftrightarrow> k = payer \<or> (\<exists>w. \<exists>ix\<in>set ixs. (k, True, w) \<in> set (ix_accounts ix))"
  unfolding needs_signature_def list_ex_flag unfolding list_ex_iff by meson

lemma needs_write_iff:
  "needs_write payer ixs k \<longleftrightarrow> k = payer \<or> (\<exists>s. \<exists>ix\<in>set ixs. (k, s, True) \<in> set (ix_accounts ix))"
  unfolding needs_write_def list_ex_flag unfolding list_ex_iff by meson

lemma wanted_flags:
  "(\<exists>w. (k, True, w) \<in> set (wanted payer ixs)) \<longleftrightarrow> needs_signature payer ixs k"
  "(\<exists>s. (k, s, True) \<in> set (wanted payer ixs)) \<longleftrightarrow> needs_write payer ixs k"
proof -
  have "(k, s, w) \<in> set (wanted payer ixs) \<longleftrightarrow> (k = payer \<and> s \<and> w) \<or>
      (\<exists>ix\<in>set ixs. (k, s, w) \<in> set (ix_accounts ix)) \<or> (\<not> s \<and> \<not> w \<and> (\<exists>ix\<in>set ixs. k = ix_program ix))" for s w
    by (auto simp: wanted_def)
  then show "(\<exists>w. (k, True, w) \<in> set (wanted payer ixs)) \<longleftrightarrow> needs_signature payer ixs k"
    "(\<exists>s. (k, s, True) \<in> set (wanted payer ixs)) \<longleftrightarrow> needs_write payer ixs k"
    unfolding needs_signature_iff needs_write_iff by blast+
qed

lemma ordered_keys_facts:
  defines "keys \<equiv> \<lambda>payer ixs. ordered_keys payer ixs"
  shows "distinct (map fst (keys payer ixs))"
    "set (keys payer ixs) = (\<lambda>k. (k, needs_signature payer ixs k, needs_write payer ixs k)) ` (fst ` set (wanted payer ixs))"
    "sorted (map rank (keys payer ixs))"
proof -
  let ?c = "collect_keys payer ixs"
  have d: "distinct (map fst ?c)" by (simp add: collect_keys_eq distinct_add_all)
  have p: "mset (keys payer ixs) = mset ?c" by (simp add: keys_def ordered_keys_def)
  then have "mset (map fst (keys payer ixs)) = mset (map fst ?c)" by simp
  with d show "distinct (map fst (keys payer ixs))" by (metis mset_eq_imp_distinct_iff)
  have "set (keys payer ixs) = set ?c" using p by (metis set_mset_mset)
  moreover have "(k, f) \<in> set ?c \<longleftrightarrow> map_of ?c k = Some f" for k f
    using d by (simp add: map_of_eq_Some_iff)
  ultimately have m: "(k, f) \<in> set (keys payer ixs) \<longleftrightarrow> k \<in> fst ` set (wanted payer ixs) \<and>
      f = (needs_signature payer ixs k, needs_write payer ixs k)" for k f
    by (simp add: collect_keys_eq map_of_add_all wanted_flags) blast
  show "set (keys payer ixs) =
      (\<lambda>k. (k, needs_signature payer ixs k, needs_write payer ixs k)) ` (fst ` set (wanted payer ixs))"
    (is "_ = ?f ` ?A")
  proof (rule set_eqI)
    fix e show "e \<in> set (keys payer ixs) \<longleftrightarrow> e \<in> ?f ` ?A"
      using m [of "fst e" "snd e"] by (cases e) (simp only: fst_conv snd_conv image_iff [of _ ?f], blast)
  qed
  show "sorted (map rank (keys payer ixs))" by (simp add: keys_def ordered_keys_def)
qed

lemma rank_le:
  "rank (k, s, w) \<le> 0 \<longleftrightarrow> s \<and> w" "rank (k, s, w) \<le> 1 \<longleftrightarrow> s" "rank (k, s, w) \<le> 2 \<longleftrightarrow> s \<or> w"
  by (cases s; cases w; simp add: rank_def)+

text \<open>In a list sorted by \<open>f\<close>, the elements with \<open>f \<le> c\<close> are the first ones.\<close>

lemma sorted_prefix:
  fixes f :: "'a \<Rightarrow> nat"
  assumes "sorted (map f xs)" "i < length xs"
  shows "f (xs ! i) \<le> c \<longleftrightarrow> i < length (filter (\<lambda>x. f x \<le> c) xs)"
  using assms
proof (induction xs arbitrary: i)
  case (Cons x xs)
  show ?case
  proof (cases "f x \<le> c")
    case True
    then show ?thesis using Cons by (cases i) auto
  next
    case False
    then have "filter (\<lambda>x. f x \<le> c) xs = []" using Cons.prems(1) by (auto simp: filter_empty_conv)
    moreover have "\<not> f ((x # xs) ! i) \<le> c"
      using False Cons.prems by (cases i) (auto simp: all_set_conv_all_nth dest: nth_mem)
    ultimately show ?thesis using False by simp
  qed
qed simp

lemma position_nth:
  assumes "k \<in> fst ` set keys"
  shows "position k keys < length keys \<and> fst (keys ! position k keys) = k"
  using assms by (induction keys) auto

text \<open>The flags the header's three counts give to an index.\<close>

definition header_flags :: "nat \<Rightarrow> nat \<Rightarrow> nat \<Rightarrow> nat \<Rightarrow> nat \<Rightarrow> bool \<times> bool" where
  "header_flags n signers ro_signed ro_unsigned i =
     (i < signers, i < signers - ro_signed \<or> signers \<le> i \<and> i < n - ro_unsigned)"

lemma header_flags_right:
  assumes "i < length (ordered_keys payer ixs)"
  defines "keys \<equiv> ordered_keys payer ixs"
  shows "header_flags (length keys) (length (filter (\<lambda>(k, s, w). s) keys))
      (length (filter (\<lambda>(k, s, w). s \<and> \<not> w) keys)) (length (filter (\<lambda>(k, s, w). \<not> s \<and> \<not> w) keys)) i
    = snd (keys ! i)"
proof -
  have i: "i < length keys" using assms by simp
  have s: "sorted (map rank keys)" unfolding keys_def by (rule ordered_keys_facts(3))
  obtain k sg wr where e: "keys ! i = (k, sg, wr)" by (cases "keys ! i")
  have c1: "filter (\<lambda>e. rank e \<le> 1) keys = filter (\<lambda>(k, s, w). s) keys"
    by (rule filter_cong) (auto simp: rank_le [unfolded One_nat_def])
  have "length (filter (\<lambda>(k, s, w). s) keys) =
      length (filter (\<lambda>e. rank e \<le> 0) keys) + length (filter (\<lambda>(k, s, w). s \<and> \<not> w) keys)"
    by (induction keys) (auto simp: rank_def split: bool.splits)
  then have c0: "length (filter (\<lambda>e. rank e \<le> 0) keys) =
      length (filter (\<lambda>(k, s, w). s) keys) - length (filter (\<lambda>(k, s, w). s \<and> \<not> w) keys)" by simp
  have "length keys = length (filter (\<lambda>e. rank e \<le> 2) keys) + length (filter (\<lambda>(k, s, w). \<not> s \<and> \<not> w) keys)"
    by (induction keys) (auto simp: rank_def split: bool.splits)
  then have c2: "length (filter (\<lambda>e. rank e \<le> 2) keys) =
      length keys - length (filter (\<lambda>(k, s, w). \<not> s \<and> \<not> w) keys)" by simp
  have "sg \<and> wr \<longleftrightarrow> i < length (filter (\<lambda>e. rank e \<le> 0) keys)"
    "sg \<longleftrightarrow> i < length (filter (\<lambda>(k, s, w). s) keys)"
    "sg \<or> wr \<longleftrightarrow> i < length (filter (\<lambda>e. rank e \<le> 2) keys)"
    using sorted_prefix [OF s i, of 0] sorted_prefix [OF s i, of 1] sorted_prefix [OF s i, of 2]
    unfolding e rank_le c1 by simp_all
  then show ?thesis
    unfolding header_flags_def e c0 c2 by auto
qed

section \<open>Reading a message back\<close>

fun take_n :: "nat \<Rightarrow> bytes \<Rightarrow> (bytes \<times> bytes) option" where
  "take_n n bs = (if n \<le> length bs then Some (take n bs, drop n bs) else None)"

fun parse_keys :: "nat \<Rightarrow> bytes \<Rightarrow> (bytes list \<times> bytes) option" where
  "parse_keys 0 bs = Some ([], bs)"
| "parse_keys (Suc n) bs = Option.bind (take_n 32 bs) (\<lambda>(k, rest).
     map_option (\<lambda>(ks, r). (k # ks, r)) (parse_keys n rest))"

text \<open>An account index means a key and the flags the header gives to its place.\<close>

definition account_at :: "(nat \<Rightarrow> bool \<times> bool) \<Rightarrow> bytes list \<Rightarrow> u8 \<Rightarrow> (bytes \<times> bool \<times> bool) option" where
  "account_at fl ks i = (if unat i < length ks then Some (ks ! unat i, fl (unat i)) else None)"

fun all_some :: "'a option list \<Rightarrow> 'a list option" where
  "all_some [] = Some []"
| "all_some (None # xs) = None"
| "all_some (Some x # xs) = map_option ((#) x) (all_some xs)"

definition parse_ix ::
    "(nat \<Rightarrow> bool \<times> bool) \<Rightarrow> bytes list \<Rightarrow> bytes \<Rightarrow> (instruction \<times> bytes) option" where
  "parse_ix fl ks bs =
     (case bs of [] \<Rightarrow> None | p # r0 \<Rightarrow>
        Option.bind (account_at fl ks p) (\<lambda>prog.
        Option.bind (parse_compact r0) (\<lambda>(n, r1).
        Option.bind (take_n n r1) (\<lambda>(idx, r2).
        Option.bind (all_some (map (account_at fl ks) idx)) (\<lambda>accs.
        Option.bind (parse_compact r2) (\<lambda>(m, r3).
        map_option (\<lambda>(d, r4). (\<lparr> ix_program = fst prog, ix_accounts = accs, ix_data = d \<rparr>, r4))
          (take_n m r3)))))))"

fun parse_ixs ::
    "(nat \<Rightarrow> bool \<times> bool) \<Rightarrow> bytes list \<Rightarrow> nat \<Rightarrow> bytes \<Rightarrow> (instruction list \<times> bytes) option" where
  "parse_ixs fl ks 0 bs = Some ([], bs)"
| "parse_ixs fl ks (Suc n) bs = Option.bind (parse_ix fl ks bs) (\<lambda>(ix, rest).
     map_option (\<lambda>(ixs, r). (ix # ixs, r)) (parse_ixs fl ks n rest))"

text \<open>A whole message: the fee payer (the account at index 0), the blockhash, the instructions.\<close>

definition parse_message :: "bytes \<Rightarrow> (bytes \<times> bytes \<times> instruction list) option" where
  "parse_message bs =
     (case bs of
        signers # ro_signed # ro_unsigned # r0 \<Rightarrow>
          Option.bind (parse_compact r0) (\<lambda>(n, r1).
          Option.bind (parse_keys n r1) (\<lambda>(ks, r2).
          Option.bind (take_n 32 r2) (\<lambda>(blockhash, r3).
          Option.bind (parse_compact r3) (\<lambda>(m, r4).
          Option.bind (parse_ixs (header_flags n (unat signers) (unat ro_signed) (unat ro_unsigned)) ks m r4)
            (\<lambda>(ixs, r5). if r5 = [] \<and> ks \<noteq> [] then Some (hd ks, blockhash, ixs) else None)))))
      | _ \<Rightarrow> None)"

text \<open>What a compiled instruction means: each account carries the flags merged over the whole
  transaction.\<close>

definition merged :: "bytes \<Rightarrow> instruction list \<Rightarrow> instruction \<Rightarrow> instruction" where
  "merged payer ixs ix = ix \<lparr> ix_accounts :=
     map (\<lambda>a. (fst a, needs_signature payer ixs (fst a), needs_write payer ixs (fst a))) (ix_accounts ix) \<rparr>"

lemma take_n_append: "take_n (length xs) (xs @ ys) = Some (xs, ys)"
  by simp

lemma parse_keys_concat:
  assumes "list_all (\<lambda>k. length k = 32) ks"
  shows "parse_keys (length ks) (concat ks @ rest) = Some (ks, rest)"
  using assms
proof (induction ks)
  case (Cons k ks)
  then have "take_n 32 (k @ concat ks @ rest) = Some (k, concat ks @ rest)"
    using take_n_append [of k] by simp
  then show ?case using Cons by (simp del: take_n.simps)
qed simp

lemma all_some_map_Some: "all_some (map (\<lambda>x. Some (f x)) xs) = Some (map f xs)"
  by (induction xs) simp_all

lemma in_ordered_keys:
  "e \<in> set (ordered_keys payer ixs) \<Longrightarrow> e = (fst e, needs_signature payer ixs (fst e), needs_write payer ixs (fst e))"
  by (auto simp: ordered_keys_facts(2))

definition flags_ok :: "(nat \<Rightarrow> bool \<times> bool) \<Rightarrow> (bytes \<times> bool \<times> bool) list \<Rightarrow> bool" where
  "flags_ok fl keys \<longleftrightarrow> (\<forall>i < length keys. fl i = snd (keys ! i))"

lemma hd_ordered_keys: "fst (hd (ordered_keys payer ixs)) = payer \<and> ordered_keys payer ixs \<noteq> []"
proof -
  let ?c = "collect_keys payer ixs"
  have "?c = add_all [(payer, True, True)] (tl (wanted payer ixs))"
    by (simp add: collect_keys_eq wanted_def add_all_def)
  with hd_add_all [of "[(payer, True, True)]" "tl (wanted payer ixs)"]
  have c: "fst (hd ?c) = payer" "?c \<noteq> []" by simp_all
  then obtain e es where es: "?c = e # es" "fst e = payer" by (cases ?c) auto
  have "set (ordered_keys payer ixs) = set ?c" by (simp add: ordered_keys_def)
  then have "e \<in> set (ordered_keys payer ixs)" by (simp add: es(1))
  then have "e = (payer, needs_signature payer ixs payer, needs_write payer ixs payer)"
    using in_ordered_keys es(2) by metis
  then have "rank e = 0" by (simp add: needs_signature_def needs_write_def rank_def)
  then have "ordered_keys payer ixs = e # sort_key rank es"
    by (simp add: ordered_keys_def es(1) insort_is_Cons)
  then show ?thesis using es(2) by simp
qed

lemma account_at_index:
  assumes flags: "flags_ok fl (ordered_keys payer ixs)"
    and few: "length (ordered_keys payer ixs) < 256"
    and k: "k \<in> fst ` set (wanted payer ixs)"
  shows "account_at fl (map fst (ordered_keys payer ixs)) (index_of (ordered_keys payer ixs) k) =
    Some (k, needs_signature payer ixs k, needs_write payer ixs k)"
proof -
  let ?keys = "ordered_keys payer ixs"
  have "k \<in> fst ` set ?keys" unfolding ordered_keys_facts(2) using k by force
  from position_nth [OF this] have p: "position k ?keys < length ?keys" "fst (?keys ! position k ?keys) = k"
    by simp_all
  then have "?keys ! position k ?keys \<in> set ?keys" by simp
  from in_ordered_keys [OF this] have
    "?keys ! position k ?keys = (k, needs_signature payer ixs k, needs_write payer ixs k)"
    unfolding p(2) .
  moreover have "unat (index_of ?keys k) = position k ?keys"
    using p(1) few by (simp add: index_of_def unat_u8_of_nat)
  ultimately show ?thesis using p flags by (simp add: account_at_def flags_ok_def)
qed

lemma parse_serialize_ix:
  assumes flags: "flags_ok fl (ordered_keys payer ixs)"
    and few: "length (ordered_keys payer ixs) < 256"
    and ix: "ix \<in> set ixs"
  shows "parse_ix fl (map fst (ordered_keys payer ixs)) (serialize_ix (ordered_keys payer ixs) ix @ rest) =
    Some (merged payer ixs ix, rest)"
proof -
  let ?keys = "ordered_keys payer ixs"
  note at = account_at_index [OF flags few]
  have p: "ix_program ix \<in> fst ` set (wanted payer ixs)" using ix by (force simp: wanted_def)
  have a: "fst a \<in> fst ` set (wanted payer ixs)" if "a \<in> set (ix_accounts ix)" for a
    using ix that by (auto simp: wanted_def intro: rev_image_eqI)
  have "map (account_at fl (map fst ?keys)) (map (\<lambda>a. index_of ?keys (fst a)) (ix_accounts ix)) =
      map (\<lambda>a. Some (fst a, needs_signature payer ixs (fst a), needs_write payer ixs (fst a))) (ix_accounts ix)"
    by (simp add: at a)
  then have accs: "all_some (map (account_at fl (map fst ?keys)) (map (\<lambda>a. index_of ?keys (fst a)) (ix_accounts ix))) =
      Some (ix_accounts (merged payer ixs ix))"
    by (simp only: all_some_map_Some) (simp add: merged_def)
  have t1: "take_n (length (ix_accounts ix)) (map (\<lambda>a. index_of ?keys (fst a)) (ix_accounts ix) @ r) =
      Some (map (\<lambda>a. index_of ?keys (fst a)) (ix_accounts ix), r)" for r
    using take_n_append [of "map (\<lambda>a. index_of ?keys (fst a)) (ix_accounts ix)" r] by simp
  show ?thesis
    using accs
    by (simp add: parse_ix_def serialize_ix_def at [OF p] parse_compact_compact t1 take_n_append
        merged_def del: take_n.simps map_map)
qed

lemma parse_serialize_ixs:
  assumes flags: "flags_ok fl (ordered_keys payer ixs)"
    and few: "length (ordered_keys payer ixs) < 256"
    and sub: "set xs \<subseteq> set ixs"
  shows "parse_ixs fl (map fst (ordered_keys payer ixs)) (length xs)
      (concat (map (serialize_ix (ordered_keys payer ixs)) xs) @ rest) = Some (map (merged payer ixs) xs, rest)"
  using sub by (induction xs) (simp_all add: parse_serialize_ix [OF flags few])

lemma header_flags_ok:
  defines "keys \<equiv> \<lambda>payer ixs. ordered_keys payer ixs"
  shows "flags_ok (header_flags (length (keys payer ixs)) (length (filter (\<lambda>(k, s, w). s) (keys payer ixs)))
      (length (filter (\<lambda>(k, s, w). s \<and> \<not> w) (keys payer ixs)))
      (length (filter (\<lambda>(k, s, w). \<not> s \<and> \<not> w) (keys payer ixs)))) (keys payer ixs)"
  unfolding flags_ok_def keys_def by (blast intro: header_flags_right)

lemma parse_serialize_message:
  assumes len: "list_all (\<lambda>e. length (fst e) = 32) (wanted payer ixs)" "length blockhash = 32"
    and few: "length (ordered_keys payer ixs) < 256"
  shows "parse_message (serialize_message payer ixs blockhash) =
    Some (payer, blockhash, map (merged payer ixs) ixs)"
proof -
  let ?keys = "ordered_keys payer ixs"
  have small: "unat (word_of_nat (length (filter P ?keys)) :: u8) = length (filter P ?keys)" for P
    using few length_filter_le [of P ?keys] by (intro unat_u8_of_nat) linarith
  have ks: "list_all (\<lambda>k. length k = 32) (map fst ?keys)"
    using len(1) by (auto simp: list_all_iff ordered_keys_facts(2))
  have k: "parse_keys (length ?keys) (concat (map fst ?keys) @ rest) = Some (map fst ?keys, rest)" for rest
    using parse_keys_concat [OF ks] by simp
  have bh: "take_n 32 (blockhash @ rest) = Some (blockhash, rest)" for rest
    using take_n_append [of blockhash rest] len(2) by simp
  have hd: "hd (map fst ?keys) = payer" "?keys \<noteq> []"
    using hd_ordered_keys [of payer ixs] by (simp_all add: hd_map)
  note p = parse_serialize_ixs [where rest = "[]", OF header_flags_ok few subset_refl, unfolded append_Nil2]
  show ?thesis
    by (simp add: parse_message_def serialize_message_def Let_def parse_compact_compact k bh small p hd
        del: take_n.simps)
qed

section \<open>Reading base64 back\<close>

fun index_in :: "char \<Rightarrow> string \<Rightarrow> nat" where
  "index_in c [] = 0"
| "index_in c (d # s) = (if c = d then 0 else Suc (index_in c s))"

definition sextet_value :: "char \<Rightarrow> nat" where
  "sextet_value c = index_in c BASE64_ALPHABET"

definition quad_value :: "char \<Rightarrow> char \<Rightarrow> char \<Rightarrow> char \<Rightarrow> nat" where
  "quad_value a b c d = ((sextet_value a * 64 + sextet_value b) * 64 + sextet_value c) * 64 + sextet_value d"

fun unb64 :: "string \<Rightarrow> bytes" where
  "unb64 (a # b # c # d # s) =
     (if c = CHR ''='' then [word_of_nat (quad_value a b CHR ''A'' CHR ''A'' div 65536)]
      else if d = CHR ''='' then
        (let n = quad_value a b c CHR ''A'' in [word_of_nat (n div 65536), word_of_nat (n div 256 mod 256)])
      else
        (let n = quad_value a b c d
         in [word_of_nat (n div 65536), word_of_nat (n div 256 mod 256), word_of_nat (n mod 256)] @ unb64 s))"
| "unb64 _ = []"

lemma alphabet_index: "list_all (\<lambda>i. sextet_value (BASE64_ALPHABET ! i) = i \<and> BASE64_ALPHABET ! i \<noteq> CHR ''='') [0..<64]"
  by code_simp

lemma unat_low6: "unat (n AND 63 :: u32) = unat n mod 64"
proof -
  have "n AND 63 = take_bit 6 n" by (simp add: take_bit_eq_mask mask_eq_exp_minus_1)
  then show ?thesis by (simp add: unsigned_take_bit_eq) (simp add: take_bit_eq_mod)
qed

lemma sextet_value_sextet: "sextet_value (sextet n) = unat n mod 64" "sextet n \<noteq> CHR ''=''"
proof -
  have "unat n mod 64 \<in> set [0..<64]" by simp
  from this [THEN alphabet_index [unfolded list_all_iff, THEN bspec]]
  show "sextet_value (sextet n) = unat n mod 64" "sextet n \<noteq> CHR ''=''"
    by (simp_all add: sextet_def unat_low6)
qed

lemma unat_chunk: "unat (chunk_word x y z) = unat x * 65536 + unat y * 256 + unat z"
proof -
  have b: "unat x < 256" "unat y < 256" "unat z < 256"
    using unsigned_less [of x] unsigned_less [of y] unsigned_less [of z] by simp_all
  have u: "unat (ucast x :: u32) = unat x" "unat (ucast y :: u32) = unat y" "unat (ucast z :: u32) = unat z"
    using b by (simp_all add: unsigned_ucast_eq take_bit_nat_eq_self_iff)
  have 1: "unat (push_bit 8 (ucast y :: u32)) = unat y * 256"
    using b by (simp add: push_bit_eq_mult unat_mult_lem [THEN iffD1] u)
  have 2: "unat (push_bit 16 (ucast x :: u32)) = unat x * 65536"
    using b by (simp add: push_bit_eq_mult unat_mult_lem [THEN iffD1] u)
  have "push_bit 8 (ucast y :: u32) OR ucast z = push_bit 8 (ucast y) + ucast z"
    by (rule disjunctive_add [symmetric]) (auto simp: bit_simps dest!: bit_imp_le_length)
  moreover have "push_bit 16 (ucast x :: u32) OR (push_bit 8 (ucast y) OR ucast z) =
      push_bit 16 (ucast x) + (push_bit 8 (ucast y) OR ucast z)"
    by (rule disjunctive_add [symmetric]) (auto simp: bit_simps dest!: bit_imp_le_length)
  ultimately show ?thesis
    using b by (simp add: chunk_word_def or.assoc unat_add_lem [THEN iffD1] 1 2 u)
qed

lemma mod_24:
  "(m :: nat) mod 16777216 = ((m div 262144 mod 64 * 64 + m div 4096 mod 64) * 64 + m div 64 mod 64) * 64 + m mod 64"
  using mod_mult2_eq [of m 64 262144] mod_mult2_eq [of "m div 64" 64 4096] mod_mult2_eq [of "m div 4096" 64 64]
  by (simp add: div_mult2_eq [symmetric])

lemma quad_chunk:
  defines "q \<equiv> \<lambda>n k. sextet (drop_bit k n)"
  shows "quad_value (q n 18) (q n 12) (q n 6) (sextet n) = unat n mod 16777216"
proof -
  have "unat (drop_bit k n) = unat n div 2 ^ k" for k
    unfolding unat_drop_bit_eq by (rule drop_bit_eq_div)
  then show ?thesis
    unfolding q_def quad_value_def sextet_value_sextet mod_24 by simp
qed

lemma quad_chunk_padded:
  defines "q \<equiv> \<lambda>n k. sextet (drop_bit k n)"
  shows "unat n mod 64 = 0 \<Longrightarrow> quad_value (q n 18) (q n 12) (q n 6) CHR ''A'' = unat n mod 16777216"
    "unat n mod 4096 = 0 \<Longrightarrow> quad_value (q n 18) (q n 12) CHR ''A'' CHR ''A'' = unat n mod 16777216"
proof -
  have A: "sextet_value CHR ''A'' = 0" by code_simp
  have d: "unat (drop_bit k n) = unat n div 2 ^ k" for k
    unfolding unat_drop_bit_eq by (rule drop_bit_eq_div)
  show "quad_value (q n 18) (q n 12) (q n 6) CHR ''A'' = unat n mod 16777216" if "unat n mod 64 = 0"
    using that unfolding q_def quad_value_def sextet_value_sextet mod_24 A by (simp add: d)
  show "quad_value (q n 18) (q n 12) CHR ''A'' CHR ''A'' = unat n mod 16777216" if "unat n mod 4096 = 0"
  proof -
    have "unat n mod 64 = 0" "unat n div 64 mod 64 = 0"
      using that mod_mult2_eq [of "unat n" 64 64] by simp_all
    then show ?thesis
      unfolding q_def quad_value_def sextet_value_sextet mod_24 A by (simp add: d)
  qed
qed

lemma three_bytes:
  "word_of_nat ((unat x * 65536 + unat y * 256 + unat z) mod 16777216 div 65536) = (x :: u8)"
  "word_of_nat ((unat x * 65536 + unat y * 256 + unat z) mod 16777216 div 256 mod 256) = (y :: u8)"
  "word_of_nat ((unat x * 65536 + unat y * 256 + unat z) mod 16777216 mod 256) = (z :: u8)"
proof -
  have b: "unat x < 256" "unat y < 256" "unat z < 256"
    using unsigned_less [of x] unsigned_less [of y] unsigned_less [of z] by simp_all
  then have "(unat x * 65536 + unat y * 256 + unat z) mod 16777216 = unat x * 65536 + unat y * 256 + unat z"
    by simp
  moreover have "(unat x * 65536 + unat y * 256 + unat z) div 65536 = unat x"
    using b div_mult_self3 [of 65536 "unat x" "unat y * 256 + unat z"] by (simp add: add.assoc)
  moreover have "unat x * 65536 + unat y * 256 + unat z = unat z + (unat x * 256 + unat y) * 256" by simp
  then have "(unat x * 65536 + unat y * 256 + unat z) div 256 mod 256 = unat y"
    "(unat x * 65536 + unat y * 256 + unat z) mod 256 = unat z"
    using b by (simp_all only: div_mult_self1 mod_mult_self1) simp_all
  ultimately show
    "word_of_nat ((unat x * 65536 + unat y * 256 + unat z) mod 16777216 div 65536) = x"
    "word_of_nat ((unat x * 65536 + unat y * 256 + unat z) mod 16777216 div 256 mod 256) = y"
    "word_of_nat ((unat x * 65536 + unat y * 256 + unat z) mod 16777216 mod 256) = z"
    by simp_all
qed

lemmas two_bytes = three_bytes [where z = 0, simplified unsigned_0 add_0_right]
lemmas one_byte = two_bytes [where y = 0, simplified unsigned_0 mult_zero_left add_0_right]

lemma unb64_b64: "unb64 (b64 bs) = bs"
proof (induction bs rule: b64.induct)
  case (1 x y z bs)
  then show ?case
    by (simp add: Let_def sextet_value_sextet(2) quad_chunk unat_chunk three_bytes two_bytes one_byte)
next
  case (2 x y)
  have "unat (chunk_word x y 0) mod 64 = 0"
    using mod_mult_self2_is_0 [of "unat x * 1024 + unat y * 4" 64] by (simp add: unat_chunk)
  from quad_chunk_padded(1) [OF this] show ?case
    by (simp add: Let_def sextet_value_sextet(2) unat_chunk two_bytes)
next
  case (3 x)
  have "unat (chunk_word x 0 0) mod 4096 = 0"
    using mod_mult_self2_is_0 [of "unat x * 16" 4096] by (simp add: unat_chunk)
  from quad_chunk_padded(2) [OF this] show ?case
    by (simp add: Let_def sextet_value_sextet(2) unat_chunk one_byte)
qed simp

section \<open>The wire\<close>

text \<open>A submitted transaction: one signature, then the message.\<close>

definition parse_wire :: "string \<Rightarrow> (bytes \<times> bytes \<times> bytes \<times> instruction list) option" where
  "parse_wire s =
     Option.bind (parse_compact (unb64 s)) (\<lambda>(n, r0).
     Option.bind (take_n 64 r0) (\<lambda>(signature, r1).
     if n = 1 then map_option (Pair signature) (parse_message r1) else None))"

lemma solana_wire_readable_lemma:
  assumes "list_all (\<lambda>e. length (fst e) = 32) (wanted payer ixs)" "length blockhash = 32"
    and "length (ordered_keys payer ixs) < 256" "length signature = 64"
  shows "parse_wire (b64 (wire_transaction signature (serialize_message payer ixs blockhash))) =
    Some (signature, payer, blockhash, map (merged payer ixs) ixs)"
proof -
  have "take_n 64 (signature @ rest) = Some (signature, rest)" for rest
    using take_n_append [of signature rest] assms(4) by simp
  then show ?thesis
    using parse_serialize_message [OF assms(1-3)]
    by (simp add: parse_wire_def wire_transaction_def unb64_b64 parse_compact_compact del: take_n.simps)
qed

text \<open>
  Nothing of a payment is lost on the wire: reading back the base64 that
  \<open>sendTransaction\<close> is given yields the signature, the fee payer, the blockhash and the
  instructions, with each account's signer and writable flags merged over the transaction, for
  every transaction of fewer than 256 distinct 32-byte keys.
\<close>

theorem solana_wire_readable:
  assumes "list_all (\<lambda>e. length (fst e) = 32) (wanted payer ixs)" "length blockhash = 32"
    and "length (ordered_keys payer ixs) < 256" "length signature = 64"
  shows "parse_wire (b64 (wire_transaction signature (serialize_message payer ixs blockhash))) =
    Some (signature, payer, blockhash, map (merged payer ixs) ixs)"
  using assms by (rule solana_wire_readable_lemma)

definition sample_ix :: instruction where
  "sample_ix = \<lparr> ix_program = replicate 32 9,
     ix_accounts = [(replicate 32 2, False, True), (replicate 32 1, True, False)], ix_data = [12, 7] \<rparr>"

theorem solana_wire_readable_witness:
  "parse_wire (b64 (wire_transaction (replicate 64 5) (serialize_message (replicate 32 1) [sample_ix] (replicate 32 3)))) =
    Some (replicate 64 5, replicate 32 1, replicate 32 3,
      [\<lparr> ix_program = replicate 32 9,
         ix_accounts = [(replicate 32 2, False, True), (replicate 32 1, True, True)], ix_data = [12, 7] \<rparr>])"
proof -
  have k: "list_all (\<lambda>e. length (fst e) = 32) (wanted (replicate 32 1) [sample_ix])" by code_simp
  have n: "length (ordered_keys (replicate 32 1) [sample_ix]) < 256" by code_simp
  have m: "map (merged (replicate 32 1) [sample_ix]) [sample_ix] =
      [\<lparr> ix_program = replicate 32 9,
         ix_accounts = [(replicate 32 2, False, True), (replicate 32 1, True, True)], ix_data = [12, 7] \<rparr>]"
    by code_simp
  show ?thesis
    unfolding m [symmetric] by (rule solana_wire_readable [OF k _ n]) simp_all
qed

section \<open>Program-derived addresses\<close>

definition pda_candidate :: "solana_lib \<Rightarrow> bytes list \<Rightarrow> bytes \<Rightarrow> nat \<Rightarrow> bytes" where
  "pda_candidate S seeds program n =
     sol_sha256 S (concat seeds @ [word_of_nat n] @ program @ as_bytes ''ProgramDerivedAddress'')"

lemma bump_loop_down:
  "n \<le> 256 \<Longrightarrow> bump_loop S seeds program (rev (map word_of_nat [0..<n])) = Ok (out, b) \<longleftrightarrow>
     unat b < n \<and> out = pda_candidate S seeds program (unat b) \<and> \<not> on_curve S out \<and>
     list_all (\<lambda>i. on_curve S (pda_candidate S seeds program i)) [Suc (unat b)..<n]"
proof (induction n)
  case (Suc n)
  let ?h = "pda_candidate S seeds program"
  have u: "unat (word_of_nat n :: u8) = n" using Suc.prems by (simp add: unat_u8_of_nat)
  have w: "b = word_of_nat n \<longleftrightarrow> unat b = n" using u by (metis word_of_nat_eq_iff word_unat_eq_iff)
  show ?case
  proof (cases "on_curve S (?h n)")
    case False
    have "unat b < Suc n \<and> out = ?h (unat b) \<and> list_all (\<lambda>i. on_curve S (?h i)) [Suc (unat b)..<Suc n]
        \<longleftrightarrow> unat b = n \<and> out = ?h n"
      using False by (auto simp: list_all_iff less_Suc_eq)
    then show ?thesis
      using False w by (auto simp: is_on_curve_def pda_candidate_def Let_def)
  next
    case True
    then have "unat b < Suc n \<and> out = ?h (unat b) \<and> \<not> on_curve S out \<and>
        list_all (\<lambda>i. on_curve S (?h i)) [Suc (unat b)..<Suc n] \<longleftrightarrow>
      unat b < n \<and> out = ?h (unat b) \<and> \<not> on_curve S out \<and>
        list_all (\<lambda>i. on_curve S (?h i)) [Suc (unat b)..<n]"
      by (auto simp: list_all_iff less_Suc_eq)
    moreover have "bump_loop S seeds program (rev (map word_of_nat [0..<Suc n])) =
        bump_loop S seeds program (rev (map word_of_nat [0..<n]))"
      using True by (simp add: is_on_curve_def pda_candidate_def Let_def)
    ultimately show ?thesis using Suc by simp
  qed
qed simp

text \<open>
  C36: A program-derived address is the hash at the highest bump that falls off the curve: the
  search returns a pair exactly when the address is that bump's hash, is not a signable key, and
  every higher bump's hash is one.
\<close>

theorem find_program_address_exact:
  "find_program_address S seeds program = Ok (out, b) \<longleftrightarrow>
     out = pda_candidate S seeds program (unat b) \<and> \<not> is_on_curve S out \<and>
     list_all (\<lambda>i. is_on_curve S (pda_candidate S seeds program i)) [Suc (unat b)..<256]"
  using bump_loop_down [of 256 S seeds program out b] unsigned_less [of b, where ?'a = nat]
  by (simp add: find_program_address_def is_on_curve_def)

lemma associated_token_address_off_curve:
  assumes "associated_token_address S owner mint = Ok a"
  shows "\<not> is_on_curve S a"
  using assms bump_loop_down [of 256 S _ _ a]
  by (auto simp: associated_token_address_def find_program_address_def is_on_curve_def split: prod.splits)

end
