(* ===== verification/Solana_Destination.thy ===== *)
theory Solana_Destination
  imports Solana_Tx
begin

text \<open>
  \<open>patala-solana/src/destination.rs\<close>: the offline check of a Solana destination, with the accounts
  nobody can be paid at, the formats of other chains and the refusal of a pasted private key. The
  facts say which destinations get which status, and that what is structurally valid is something
  a charge can pay.
\<close>

section \<open>Tables\<close>

definition RAIL_ID_SOLANA :: string where "RAIL_ID_SOLANA = ''solana''"

definition BASE58_ALPHABET_solana :: string where
  "BASE58_ALPHABET_solana = ''123456789ABCDEFGHJKLMNPQRSTUVWXYZabcdefghijkmnopqrstuvwxyz''"

definition base58_lookalike :: "char \<Rightarrow> string option" where
  "base58_lookalike c =
     (if c = CHR ''0'' then Some (''the digit 0 is not in the base58 alphabet '' @ em_dash @
        '' did you mean the letter O? (base58 omits both, so re-copy the address rather than guessing)'')
      else if c = CHR ''O'' then Some (''the letter O is not in the base58 alphabet '' @ em_dash @
        '' did you mean the digit 0? (base58 omits both, so re-copy the address rather than guessing)'')
      else if c = CHR ''I'' then Some (''the capital I is not in the base58 alphabet '' @ em_dash @
        '' did you mean a lowercase l or the digit 1? (base58 omits I and l, so re-copy the address rather than guessing)'')
      else if c = CHR ''l'' then Some (''the lowercase l is not in the base58 alphabet '' @ em_dash @
        '' did you mean a capital I or the digit 1? (base58 omits I and l, so re-copy the address rather than guessing)'')
      else None)"

definition WELL_KNOWN_ACCOUNTS :: "(string \<times> string) list" where
  "WELL_KNOWN_ACCOUNTS = [
      (''11111111111111111111111111111111'',
       ''the System Program (the all-zeroes account id)''),
      (''TokenkegQfeZyiNwAJbNbGKPFXCWuBvf9Ss623VQ5DA'',
       ''the SPL Token program''),
      (''TokenzQdBNbLqP5VEhdkAS6EPFLC1PHnBqCXEpPxuEb'',
       ''the SPL Token-2022 program''),
      (''ATokenGPvbdGVxr1b2hvZbsiqW5xWH25efTNsLJA8knL'',
       ''the Associated Token Account program''),
      (''MemoSq4gqABAXKb96qnH8TysNcWxMyWCqXgDLGmfcHr'',
       ''the SPL Memo v3 program''),
      (''ComputeBudget111111111111111111111111111111'',
       ''the Compute Budget program''),
      (''Stake11111111111111111111111111111111111111'',
       ''the Stake program''),
      (''Vote111111111111111111111111111111111111111'',
       ''the Vote program''),
      (''SysvarRent111111111111111111111111111111111'',
       ''the Rent sysvar''),
      (''SysvarC1ock11111111111111111111111111111111'',
       ''the Clock sysvar''),
      (''1nc1nerator11111111111111111111111111111111'',
       (''the incinerator '' @ em_dash @ '' anything sent here is burned, permanently and by design'')),
      (USDC_MAINNET_MINT,
       ''the mainnet-beta USDC mint account itself, not a wallet holding USDC''),
      (USDC_DEVNET_MINT,
       ''the devnet USDC mint account itself, not a wallet holding USDC''),
      (''So11111111111111111111111111111111111111112'',
       ''the Wrapped SOL mint account itself, not a wallet'')]"

section \<open>Other chains\<close>

datatype foreign = OtherChain string | StellarSecretSeed

definition is_upper_base32 :: "string \<Rightarrow> bool" where
  "is_upper_base32 s \<longleftrightarrow> s \<noteq> [] \<and> list_all (\<lambda>b. is_ascii_upper b \<or> (50 \<le> code b \<and> code b \<le> 55)) s"

definition strkey_kind :: "char \<Rightarrow> nat \<Rightarrow> foreign option" where
  "strkey_kind c len =
     (if c = CHR ''S'' \<and> len = 56 then Some StellarSecretSeed
      else if c = CHR ''G'' \<and> len = 56 then Some (OtherChain (''a Stellar account address (G'' @ ellipsis @ '')''))
      else if c = CHR ''C'' \<and> len = 56 then Some (OtherChain (''a Stellar/Soroban contract address (C'' @ ellipsis @ '')''))
      else if c = CHR ''T'' \<and> len = 56 then Some (OtherChain (''a Stellar pre-authorized-transaction signer (T'' @ ellipsis @ '')''))
      else if c = CHR ''X'' \<and> len = 56 then Some (OtherChain (''a Stellar hash-x signer (X'' @ ellipsis @ '')''))
      else if c = CHR ''M'' \<and> len = 69 then Some (OtherChain (''a Stellar muxed account address (M'' @ ellipsis @ '')''))
      else if c = CHR ''P'' \<and> 56 \<le> len then Some (OtherChain (''a Stellar signed-payload signer (P'' @ ellipsis @ '')''))
      else None)"

definition bitcoin_format :: "solana_lib \<Rightarrow> string \<Rightarrow> foreign option" where
  "bitcoin_format S dest =
     (let len = length dest in
      if len = 43 \<or> len = 44 then None
      else if 26 \<le> len \<and> len \<le> 35 \<and> (starts_with ''1'' dest \<or> starts_with ''3'' dest) \<and>
          map_option length (bs58_decode S dest) = Some 25
        then Some (OtherChain ''a legacy Bitcoin address'')
      else case or_else (or_else (strip_prefix ''bc1'' dest) (strip_prefix ''tb1'' dest)) (strip_prefix ''bcrt1'' dest) of
          Some rest \<Rightarrow>
            if rest \<noteq> [] \<and> list_all (\<lambda>b. is_ascii_lower b \<or> is_ascii_digit b) rest
            then Some (OtherChain (''a bech32 Bitcoin address (bc1'' @ ellipsis @ '')'')) else None
        | None \<Rightarrow> None)"

definition hex_format :: "string \<Rightarrow> foreign option" where
  "hex_format dest =
     (case or_else (strip_prefix ''0x'' dest) (strip_prefix ''0X'' dest) of
        Some hex \<Rightarrow>
          if list_all is_ascii_hexdigit hex then
            (if length hex = 40 then Some (OtherChain ''an Ethereum/EVM address (0x + 40 hex characters)'')
             else if length hex = 64 then Some (OtherChain ''a Sui or Aptos address (0x + 64 hex characters)'')
             else None)
          else None
      | None \<Rightarrow> None)"

definition foreign_format_solana :: "solana_lib \<Rightarrow> string \<Rightarrow> foreign option" where
  "foreign_format_solana S dest =
     or_else (or_else (if is_upper_base32 dest then strkey_kind (hd dest) (length dest) else None)
       (bitcoin_format S dest)) (hex_format dest)"

section \<open>The check\<close>

definition secret_seed_refusal_solana :: "string \<Rightarrow> destination_verdict" where
  "secret_seed_refusal_solana what =
     malformed RAIL_ID_SOLANA
       (''STOP '' @ em_dash @ '' this is not an address, it is '' @ what @ ''. You have just pasted a PRIVATE KEY into '' @
        ''a destination field. Treat it as disclosed: create a new account, move everything '' @
        ''the old key controls to it, and never use the old key again. patala has not logged '' @
        ''the value and this message does not repeat it, but wherever you copied it from may '' @
        ''have. The address you want is the PUBLIC one derived from that key.'')"

text \<open>The checks after the shape of other chains has been ruled out.\<close>

definition validate_base58 :: "solana_lib \<Rightarrow> string \<Rightarrow> destination_verdict" where
  "validate_base58 S dest =
     (case dropWhile (\<lambda>c. c \<in> set BASE58_ALPHABET_solana) dest of
        bad # rest \<Rightarrow>
          malformed RAIL_ID_SOLANA
            (''this is not a Solana address: '' @
             (case base58_lookalike bad of Some m \<Rightarrow> m
              | None \<Rightarrow> ''the character '' @ debug_char_lit (first_char (bad # rest)) @
                  '' is not in the base58 alphabet Solana addresses use'') @ ''.'')
      | [] \<Rightarrow>
          (case pubkey_from_base58 S dest of
             Err _ \<Rightarrow>
               malformed RAIL_ID_SOLANA
                 (''this is base58 but it decodes to '' @
                  (case bs58_decode S dest of Some v \<Rightarrow> dec_of_nat (length v) @ '' bytes''
                   | None \<Rightarrow> ''something base58 could not decode at all'') @
                  ''; a Solana address is exactly 32 '' @
                  ''bytes, which is always 43 or 44 characters. A string of the wrong length is '' @
                  ''usually an address for a different chain, or one that lost characters when '' @
                  ''it was copied.'')
           | Ok key \<Rightarrow>
               if \<not> is_on_curve S key then
                 not_a_wallet RAIL_ID_SOLANA
                   (''this is a valid 32-byte Solana account id, but it is not on the ed25519 curve, so '' @
                    ''no private key can exist for it '' @ em_dash @ '' it is a program-derived address (a program's own '' @
                    ''account, or an associated token account). If it is an associated token account, '' @
                    ''note that this rail derives the recipient's token account from their WALLET address '' @
                    ''itself: give it the wallet, not the token account, or the transfer is built against '' @
                    ''the token account of a token account and the funds are unreachable.'')
               else
                 structurally_valid RAIL_ID_SOLANA
                   (''this is a well-formed Solana address: 32 bytes of base58, on the ed25519 curve, and not '' @
                    ''a program or mint this rail knows of. That is every check possible without asking the '' @
                    ''chain a question '' @ em_dash @ '' whether the account exists, is rent-exempt, or already holds a USDC '' @
                    ''token account are all chain queries, and whether the person on the other end can '' @
                    ''actually be credited on it is not knowable at all. Confirm with them before paying.'')))"

definition solana_validate :: "solana_lib \<Rightarrow> string \<Rightarrow> destination_verdict" where
  "solana_validate S dest =
     (if blank dest then malformed RAIL_ID_SOLANA ''an empty destination is not an address on any rail''
      else if trim dest \<noteq> dest then malformed RAIL_ID_SOLANA
        (''this address has leading or trailing whitespace, which came from the copy rather '' @
         ''than from the address '' @ em_dash @ '' remove it and check nothing else was picked up with it'')
      else case map_of WELL_KNOWN_ACCOUNTS dest of
        Some what \<Rightarrow> not_a_wallet RAIL_ID_SOLANA
          (''this is '' @ what @ ''. It is a real Solana account, but no one holds a key for it and '' @
           ''nothing sent to it can be recovered '' @ em_dash @ '' by the recipient, by you, or by anyone. '' @
           ''Ask for the recipient's own wallet address.'')
      | None \<Rightarrow>
          (case foreign_format_solana S dest of
             Some StellarSecretSeed \<Rightarrow> secret_seed_refusal_solana (''a Stellar secret seed (S'' @ ellipsis @ '')'')
           | Some (OtherChain what) \<Rightarrow> wrong_network RAIL_ID_SOLANA
               (''this looks like '' @ what @ '', not a Solana address. The solana rail pays SPL USDC '' @
                ''on Solana only; funds sent using an address from another chain do not arrive '' @
                ''on that chain, they simply do not arrive. Ask for the recipient's Solana '' @
                ''wallet address '' @ em_dash @ '' 32 bytes of base58, 43 or 44 characters.'')
           | None \<Rightarrow> validate_base58 S dest))"

section \<open>Facts\<close>

lemma validate_base58_honest [simp]: "honest_verdict RAIL_ID_SOLANA (validate_base58 S d)"
  by (simp add: validate_base58_def split: list.splits sum.splits)

lemma solana_validate_honest: "honest_verdict RAIL_ID_SOLANA (solana_validate S d)"
  by (simp add: solana_validate_def secret_seed_refusal_solana_def split: option.splits foreign.splits)

lemma solana_validate_blank: "blank d \<Longrightarrow> is_refusal (solana_validate S d)"
  by (simp add: solana_validate_def)

lemma pubkey_from_base58_Ok_iff: "pubkey_from_base58 S s = Ok k \<longleftrightarrow> bs58_decode S s = Some k \<and> length k = 32"
  by (auto simp: pubkey_from_base58_def split: option.splits)

lemma dropWhile_Nil_iff: "dropWhile P xs = [] \<longleftrightarrow> list_all P xs"
  by (induction xs) auto

lemma validate_base58_status:
  "dv_status (validate_base58 S d) =
     (if list_all (\<lambda>c. c \<in> set BASE58_ALPHABET_solana) d then
        case pubkey_from_base58 S d of
          Ok key \<Rightarrow> if is_on_curve S key then StructurallyValid else NotAWallet
        | Err _ \<Rightarrow> Malformed
      else Malformed)"
proof (cases "list_all (\<lambda>c. c \<in> set BASE58_ALPHABET_solana) d")
  case True
  have "dropWhile (\<lambda>c. c \<in> set BASE58_ALPHABET_solana) d = []"
    using True by (simp only: dropWhile_Nil_iff)
  then show ?thesis
    unfolding validate_base58_def if_P [OF True]
    by (simp only: list.case) (simp split: sum.split)
next
  case False
  then have "dropWhile (\<lambda>c. c \<in> set BASE58_ALPHABET_solana) d \<noteq> []" by (simp only: dropWhile_Nil_iff) simp
  then obtain b r where "dropWhile (\<lambda>c. c \<in> set BASE58_ALPHABET_solana) d = b # r"
    by (cases "dropWhile (\<lambda>c. c \<in> set BASE58_ALPHABET_solana) d") simp_all
  then show ?thesis unfolding validate_base58_def using False by simp
qed

section \<open>Properties\<close>

text \<open>
  The status of a Solana destination, exactly: whitespace is refused, an exact well-known
  account is named before any shape is tried, a shape of another chain before the alphabet, and
  only 32 bytes of base58 on the curve are structurally valid.
\<close>

theorem solana_validate_exact:
  "dv_status (solana_validate S d) =
     (if \<not> blank d \<and> trim d = d then
        if d \<in> fst ` set WELL_KNOWN_ACCOUNTS then NotAWallet
        else case foreign_format_solana S d of
          Some StellarSecretSeed \<Rightarrow> Malformed
        | Some (OtherChain _) \<Rightarrow> WrongNetwork
        | None \<Rightarrow>
            if list_all (\<lambda>c. c \<in> set BASE58_ALPHABET_solana) d then
              case pubkey_from_base58 S d of
                Ok key \<Rightarrow> if is_on_curve S key then StructurallyValid else NotAWallet
              | Err _ \<Rightarrow> Malformed
            else Malformed
      else Malformed)"
proof (cases "map_of WELL_KNOWN_ACCOUNTS d")
  case None
  then have "d \<notin> fst ` set WELL_KNOWN_ACCOUNTS" by (simp add: map_of_eq_None_iff)
  with None show ?thesis
    by (simp add: solana_validate_def secret_seed_refusal_solana_def validate_base58_status
        split: option.split foreign.split)
next
  case (Some what)
  then have "d \<in> fst ` set WELL_KNOWN_ACCOUNTS" by (metis domI dom_map_of_conv_image_fst)
  with Some show ?thesis by (simp add: solana_validate_def)
qed

end
