(* ===== verification/Solana_Rail.thy ===== *)
theory Solana_Rail
  imports Solana_Destination Json
begin

text \<open>
  \<open>patala-solana/src/lib.rs\<close>, \<open>keys.rs\<close> and the RPC seam of \<open>rpc.rs\<close>: the cluster and commitment
  names, the memo that binds a payment to its reference, and the rail's quote, charge and verify.
  The JSON a node answers with is a \<open>serde_json::Value\<close>; the receipt's proof goes through the codec
  \<open>J\<close>. Token amounts are 128-bit words, whose arithmetic wraps as the release build's does.
\<close>

section \<open>Clusters and commitments\<close>

datatype cluster = MainnetBeta | Devnet | TestnetSolana | Localnet

definition cluster_parse :: "string \<Rightarrow> cluster result" where
  "cluster_parse s =
     (if s = ''mainnet-beta'' \<or> s = ''mainnet'' then Ok MainnetBeta
      else if s = ''devnet'' then Ok Devnet
      else if s = ''testnet'' then Ok TestnetSolana
      else if s = ''localnet'' \<or> s = ''local'' then Ok Localnet
      else Err (solana_to_core (SolConfig (''unknown cluster '' @ debug_str s))))"

definition cluster_is_mainnet :: "cluster \<Rightarrow> bool" where
  "cluster_is_mainnet c \<longleftrightarrow> c = MainnetBeta"

datatype commitment = Confirmed | Finalized

definition commitment_parse :: "string \<Rightarrow> commitment result" where
  "commitment_parse s =
     (if s = ''confirmed'' then Ok Confirmed
      else if s = ''finalized'' then Ok Finalized
      else if s = ''processed'' then
        Err (solana_to_core (SolConfig ''commitment 'processed' can be rolled back and is not accepted''))
      else Err (solana_to_core (SolConfig (''unknown commitment '' @ debug_str s))))"

fun commitment_as_str :: "commitment \<Rightarrow> string" where
  "commitment_as_str Confirmed = ''confirmed''"
| "commitment_as_str Finalized = ''finalized''"

fun commitment_settlement :: "commitment \<Rightarrow> settlement" where
  "commitment_settlement Confirmed = Seconds 1"
| "commitment_settlement Finalized = Seconds 13"

record solana_config =
  so_rpc_url :: string
  so_cluster :: cluster
  so_commitment :: commitment
  so_usdc_mint :: bytes

definition config_devnet :: "solana_lib \<Rightarrow> string \<Rightarrow> solana_config" where
  "config_devnet S url =
     \<lparr> so_rpc_url = url, so_cluster = Devnet, so_commitment = Confirmed,
       so_usdc_mint = projr (pubkey_from_base58 S USDC_DEVNET_MINT) \<rparr>"

definition config_mainnet :: "solana_lib \<Rightarrow> string \<Rightarrow> solana_config" where
  "config_mainnet S url =
     \<lparr> so_rpc_url = url, so_cluster = MainnetBeta, so_commitment = Finalized,
       so_usdc_mint = projr (pubkey_from_base58 S USDC_MAINNET_MINT) \<rparr>"

definition mint_base58 :: "solana_lib \<Rightarrow> solana_config \<Rightarrow> string" where
  "mint_base58 S cfg = pubkey_to_base58 S (so_usdc_mint cfg)"

section \<open>Keys\<close>

definition sol_from_bytes :: "bytes \<Rightarrow> solana_error + bytes" where
  "sol_from_bytes bs =
     (if length bs = 64 then Ok (take 32 bs)
      else if length bs = 32 then Ok bs
      else Err (SolConfig (''keypair must be 32 or 64 bytes, got '' @ dec_of_nat (length bs))))"

text \<open>
  \<open>from_env\<close>, given the two variables (where set), what reading a path yields (or the reason it
  failed) and the parser of a JSON byte array. A keypair is its 32-byte seed.
\<close>

definition sol_from_env ::
    "solana_lib \<Rightarrow> (string \<Rightarrow> string + string) \<Rightarrow> (string \<Rightarrow> bytes option) \<Rightarrow> string option \<Rightarrow> string option \<Rightarrow>
     solana_error + bytes option" where
  "sol_from_env S read_file json_bytes path_var key_var =
     (case path_var of
        Some path \<Rightarrow>
          rbind (map_err (\<lambda>e. SolConfig (''SOLANA_KEYPAIR_PATH '' @ path @ '': '' @ e)) (read_file path)) (\<lambda>raw.
          rbind (ok_or (SolConfig (''SOLANA_KEYPAIR_PATH '' @ path @ '': not a JSON byte array'')) (json_bytes raw)) (\<lambda>bs.
          rbind (sol_from_bytes bs) (\<lambda>k. Ok (Some k))))
      | None \<Rightarrow>
          (case key_var of
             Some b58 \<Rightarrow>
               rbind (ok_or (SolConfig ''SOLANA_KEYPAIR: not base58'') (bs58_decode S (trim b58))) (\<lambda>bs.
               rbind (sol_from_bytes bs) (\<lambda>k. Ok (Some k)))
           | None \<Rightarrow> Ok None))"

section \<open>The binding\<close>

definition binding_preimage :: "bytes \<Rightarrow> string \<Rightarrow> bytes" where
  "binding_preimage payer reference =
     as_bytes ''patala-solana-pay-v1'' @ payer @ u64_to_le_bytes (word_of_nat (length reference)) @ as_bytes reference"

definition binding_reference :: "solana_lib \<Rightarrow> bytes \<Rightarrow> string \<Rightarrow> bytes" where
  "binding_reference S payer reference = sol_blake3 S (binding_preimage payer reference)"

definition binding_memo :: "solana_lib \<Rightarrow> bytes \<Rightarrow> string \<Rightarrow> string" where
  "binding_memo S payer reference = ''patala:v1:'' @ sol_hex_encode S (binding_reference S payer reference)"

record solana_binding =
  sb_chain :: string
  sb_tx_signature :: string
  sb_mint :: string
  sb_payer :: string
  sb_destination :: string
  sb_reference :: string

record solana_json =
  sol_binding_to_vec :: "solana_binding \<Rightarrow> string + bytes"
  sol_binding_from_slice :: "bytes \<Rightarrow> solana_binding option"

section \<open>The rail\<close>

record 'w solana_rpc =
  sol_get_transaction :: "string \<Rightarrow> string \<Rightarrow> 'w \<Rightarrow> (solana_error + json option) \<times> 'w"
  sol_get_latest_blockhash :: "string \<Rightarrow> 'w \<Rightarrow> (solana_error + string) \<times> 'w"
  sol_send_transaction :: "string \<Rightarrow> 'w \<Rightarrow> (solana_error + string) \<times> 'w"

record 'w solana_rail =
  sl_cfg :: solana_config
  sl_rpc :: "'w solana_rpc"
  sl_signer :: "bytes option"
  sl_capabilities :: rail_capabilities

definition solana_new :: "solana_config \<Rightarrow> 'w solana_rpc \<Rightarrow> 'w solana_rail" where
  "solana_new cfg rpc =
     \<lparr> sl_cfg = cfg, sl_rpc = rpc, sl_signer = None,
       sl_capabilities = \<lparr> caps_class = NonCustodialFinal, reversible = False, requires_kyc = False,
         holds_funds = False, currencies = [''USDC''], caps_settlement = commitment_settlement (so_commitment cfg),
         atomic_multi_party = False \<rparr> \<rparr>"

definition sol_with_signer :: "'w solana_rail \<Rightarrow> bytes \<Rightarrow> 'w solana_rail" where
  "sol_with_signer R k = R\<lparr> sl_signer := Some k \<rparr>"

definition sol_rail_from_env ::
    "solana_error + bytes option \<Rightarrow> solana_config \<Rightarrow> 'w solana_rpc \<Rightarrow> 'w solana_rail result" where
  "sol_rail_from_env env cfg rpc =
     rbind (map_err solana_to_core env) (\<lambda>k.
       Ok (case k of Some k \<Rightarrow> sol_with_signer (solana_new cfg rpc) k | None \<Rightarrow> solana_new cfg rpc))"

definition signer_pubkey :: "solana_lib \<Rightarrow> 'w solana_rail \<Rightarrow> bytes option" where
  "signer_pubkey S R = map_option (sol_pubkey S) (sl_signer R)"

definition solana_usdc_only :: "string \<Rightarrow> unit result" where
  "solana_usdc_only currency =
     (if currency \<noteq> ''USDC'' then
        Err (InvalidRequest (''solana rail only supports USDC, got '' @ currency))
      else Ok ())"

definition solana_quote ::
    "('w \<Rightarrow> u64) \<Rightarrow> 'w solana_rail \<Rightarrow> pay_request \<Rightarrow> 'w \<Rightarrow> quote result \<times> 'w" where
  "solana_quote now R req w =
     (case rbind (pay_request_validate req) (\<lambda>_. solana_usdc_only (pr_currency req)) of
        Err e \<Rightarrow> (Err e, w)
      | Ok _ \<Rightarrow>
          (Ok \<lparr> q_rail_id = RAIL_ID_SOLANA, q_amount_minor = pr_amount_minor req,
                q_currency = pr_currency req, q_fee_minor = 0, q_total_minor = pr_amount_minor req,
                q_settlement = caps_settlement (sl_capabilities R),
                q_expires_at_unix = saturating_add_u (now w) 60 \<rparr>, w))"

text \<open>What \<open>charge\<close> establishes before it goes to the network.\<close>

definition solana_charge_guards ::
    "solana_lib \<Rightarrow> 'w solana_rail \<Rightarrow> pay_request \<Rightarrow> (bytes \<times> bytes) result" where
  "solana_charge_guards S R req =
     rbind (pay_request_validate req) (\<lambda>_.
     rbind (solana_usdc_only (pr_currency req)) (\<lambda>_.
     rbind (ok_or
         (Rail (''solana rail holds no signing key; it is verify-only (configure one with '' @
           ''`with_signer`/`from_env` to charge)''))
         (sl_signer R)) (\<lambda>signer.
     rbind (map_err
         (\<lambda>e. InvalidRequest (''destination is not a valid solana address: '' @ solana_error_display e))
         (pubkey_from_base58 S (pr_destination req))) (\<lambda>dest. Ok (signer, dest)))))"

text \<open>The two instructions of a charge, memo first, and the signed wire transaction.\<close>

definition charge_instructions ::
    "solana_lib \<Rightarrow> bytes \<Rightarrow> bytes \<Rightarrow> bytes \<Rightarrow> bytes \<Rightarrow> pay_request \<Rightarrow> instruction list" where
  "charge_instructions S payer mint source dest_ata req =
     [memo_ix S payer (binding_memo S payer (pr_reference req)),
      transfer_checked S source mint dest_ata payer (pr_amount_minor req) USDC_DECIMALS_solana]"

definition charge_wire ::
    "solana_lib \<Rightarrow> bytes \<Rightarrow> bytes \<Rightarrow> bytes \<Rightarrow> pay_request \<Rightarrow> string \<Rightarrow> string result" where
  "charge_wire S signer dest mint req blockhash =
     rbind (ok_or (Rail ''blockhash is not 32 bytes'')
         (Option.bind (bs58_decode S blockhash) (\<lambda>v. if length v = 32 then Some v else None))) (\<lambda>bh.
     let payer = sol_pubkey S signer in
     rbind (map_err solana_to_core (associated_token_address S payer mint)) (\<lambda>source.
     rbind (map_err solana_to_core (associated_token_address S dest mint)) (\<lambda>dest_ata.
       let message = serialize_message payer (charge_instructions S payer mint source dest_ata req) bh
       in Ok (b64 (wire_transaction (sol_sign S signer message) message)))))"

definition solana_charge ::
    "solana_lib \<Rightarrow> solana_json \<Rightarrow> ('w \<Rightarrow> u64) \<Rightarrow> 'w solana_rail \<Rightarrow> pay_request \<Rightarrow> 'w \<Rightarrow> receipt result \<times> 'w" where
  "solana_charge S J now R req w =
     (case solana_charge_guards S R req of
        Err e \<Rightarrow> (Err e, w)
      | Ok (signer, dest) \<Rightarrow>
          let payer = sol_pubkey S signer in
          (case sol_get_latest_blockhash (sl_rpc R) (commitment_as_str (so_commitment (sl_cfg R))) w of
             (Err e, w1) \<Rightarrow> (Err (solana_to_core e), w1)
           | (Ok blockhash, w1) \<Rightarrow>
               (case charge_wire S signer dest (so_usdc_mint (sl_cfg R)) req blockhash of
                  Err e \<Rightarrow> (Err e, w1)
                | Ok wire \<Rightarrow>
                    (case sol_send_transaction (sl_rpc R) wire w1 of
                       (Err e, w2) \<Rightarrow> (Err (solana_to_core e), w2)
                     | (Ok signature, w2) \<Rightarrow>
                         let binding =
                           \<lparr> sb_chain = ''solana'', sb_tx_signature = signature,
                             sb_mint = mint_base58 S (sl_cfg R), sb_payer = pubkey_to_base58 S payer,
                             sb_destination = pr_destination req,
                             sb_reference = sol_hex_encode S (binding_reference S payer (pr_reference req)) \<rparr> in
                         (case map_err (\<lambda>e. Rail (''encode receipt proof: '' @ e)) (sol_binding_to_vec J binding) of
                            Err e \<Rightarrow> (Err e, w2)
                          | Ok proof \<Rightarrow>
                              (Ok \<lparr> r_rail_id = RAIL_ID_SOLANA, r_amount_minor = pr_amount_minor req,
                                    r_currency = pr_currency req, r_reference = pr_reference req,
                                    r_proof = proof, r_settled_at_unix = now w2 \<rparr>, w2))))))"

section \<open>Reading a transaction\<close>

definition is_memo_of :: "string \<Rightarrow> json \<Rightarrow> bool" where
  "is_memo_of want ix \<longleftrightarrow>
     get_str ''program'' ix = Some ''spl-memo'' \<and> get_str ''parsed'' ix = Some want"

definition scan_memo :: "json option \<Rightarrow> string \<Rightarrow> bool" where
  "scan_memo ixs want =
     (case Option.bind ixs as_array of Some arr \<Rightarrow> list_ex (is_memo_of want) arr | None \<Rightarrow> False)"

definition memo_matches :: "json \<Rightarrow> string \<Rightarrow> bool" where
  "memo_matches txn want =
     (if scan_memo (jpath [''transaction'', ''message'', ''instructions''] txn) want then True
      else case Option.bind (jpath [''meta'', ''innerInstructions''] txn) as_array of
        Some groups \<Rightarrow> list_ex (\<lambda>g. scan_memo (jget ''instructions'' g) want) groups
      | None \<Rightarrow> False)"

fun add_delta :: "string \<Rightarrow> i128 \<Rightarrow> (string \<times> i128) list \<Rightarrow> (string \<times> i128) list" where
  "add_delta owner d [] = [(owner, d)]"
| "add_delta owner d ((o', d') # ds) =
     (if o' = owner then (o', d' + d) # ds else (o', d') # add_delta owner d ds)"

text \<open>The body of the closure's loop: owner and amount of a balance, once its mint is the one asked for.\<close>

definition balance_owner :: "json \<Rightarrow> string result" where
  "balance_owner e = ok_or (Rail ''token balance without owner'') (get_str ''owner'' e)"

definition balance_amount :: "json \<Rightarrow> i128 result" where
  "balance_amount e =
     rbind (ok_or (Rail ''token balance without amount'')
       (Option.bind (jget ''uiTokenAmount'' e) (get_str ''amount''))) (\<lambda>text.
     ok_or (Rail ''token amount is not an integer'') (parse_i128 text))"

fun apply_balances ::
    "string \<Rightarrow> i128 \<Rightarrow> json list \<Rightarrow> (string \<times> i128) list \<Rightarrow> (string \<times> i128) list result" where
  "apply_balances mint sign [] ds = Ok ds"
| "apply_balances mint sign (e # es) ds =
     (if get_str ''mint'' e \<noteq> Some mint then apply_balances mint sign es ds
      else
        rbind (balance_owner e) (\<lambda>owner.
        rbind (balance_amount e) (\<lambda>amount.
        apply_balances mint sign es (add_delta owner (sign * amount) ds))))"

definition balances_of :: "string \<Rightarrow> json \<Rightarrow> json list" where
  "balances_of key meta = (case Option.bind (jget key meta) as_array of Some arr \<Rightarrow> arr | None \<Rightarrow> [])"

definition mint_deltas :: "json \<Rightarrow> string \<Rightarrow> (string \<times> i128) list result" where
  "mint_deltas txn mint =
     rbind (ok_or (Rail ''transaction has no meta'') (jget ''meta'' txn)) (\<lambda>meta.
     rbind (apply_balances mint (-1) (balances_of ''preTokenBalances'' meta) []) (\<lambda>ds.
     apply_balances mint 1 (balances_of ''postTokenBalances'' meta) ds))"

section \<open>Verifying\<close>

text \<open>Steps 1 and 2, which need no network: the binding and the payer it names.\<close>

definition solana_verify_offline ::
    "solana_lib \<Rightarrow> solana_json \<Rightarrow> 'w solana_rail \<Rightarrow> receipt \<Rightarrow> (solana_binding \<times> bytes) option" where
  "solana_verify_offline S J R r =
     (if r_rail_id r \<noteq> RAIL_ID_SOLANA then None
      else if r_currency r \<noteq> ''USDC'' then None
      else Option.bind (sol_binding_from_slice J (r_proof r)) (\<lambda>b.
        if sb_chain b \<noteq> ''solana'' then None
        else if sb_mint b \<noteq> mint_base58 S (sl_cfg R) then None
        else case pubkey_from_base58 S (sb_payer b) of
          Err _ \<Rightarrow> None
        | Ok payer \<Rightarrow>
            if sb_reference b \<noteq> sol_hex_encode S (binding_reference S payer (r_reference r)) then None
            else Some (b, payer)))"

definition status_ok :: "commitment \<Rightarrow> json \<Rightarrow> bool" where
  "status_ok c txn =
     (case get_str ''confirmationStatus'' txn of
        None \<Rightarrow> True
      | Some status \<Rightarrow>
          (case c of Confirmed \<Rightarrow> status = ''confirmed'' \<or> status = ''finalized'' | Finalized \<Rightarrow> status = ''finalized''))"

definition signed_by :: "json \<Rightarrow> string \<Rightarrow> bool" where
  "signed_by txn want =
     (case Option.bind (jpath [''transaction'', ''message'', ''accountKeys''] txn) as_array of
        Some keys \<Rightarrow>
          list_ex (\<lambda>k. get_str ''pubkey'' k = Some want \<and> Option.bind (jget ''signer'' k) as_bool = Some True) keys
      | None \<Rightarrow> False)"

definition delta_of :: "(string \<times> i128) list \<Rightarrow> string \<Rightarrow> i128" where
  "delta_of ds who = (case map_of ds who of Some d \<Rightarrow> d | None \<Rightarrow> 0)"

definition deltas_ok :: "(string \<times> i128) list \<Rightarrow> string \<Rightarrow> string \<Rightarrow> u64 \<Rightarrow> bool" where
  "deltas_ok ds dest payer amount =
     (let expected = [(dest, ucast amount), (payer, - ucast amount)]
      in list_all (\<lambda>(who, want). delta_of ds who = want) expected \<and>
         \<not> list_ex (\<lambda>(who, d). d \<noteq> 0 \<and> \<not> list_ex (\<lambda>(e, _). e = who) expected) ds)"

definition judge_transaction ::
    "solana_lib \<Rightarrow> 'w solana_rail \<Rightarrow> receipt \<Rightarrow> solana_binding \<Rightarrow> bytes \<Rightarrow> json \<Rightarrow> bool result" where
  "judge_transaction S R r b payer txn =
     (case jpath [''meta'', ''err''] txn of
        None \<Rightarrow> Ok False
      | Some e \<Rightarrow>
          if \<not> is_null e then Ok False
          else if \<not> status_ok (so_commitment (sl_cfg R)) txn then Ok False
          else if \<not> signed_by txn (pubkey_to_base58 S payer) then Ok False
          else if \<not> memo_matches txn (binding_memo S payer (r_reference r)) then Ok False
          else
            rbind (mint_deltas txn (mint_base58 S (sl_cfg R))) (\<lambda>ds.
              Ok (deltas_ok ds (sb_destination b) (pubkey_to_base58 S payer) (r_amount_minor r))))"

definition solana_verify ::
    "solana_lib \<Rightarrow> solana_json \<Rightarrow> 'w solana_rail \<Rightarrow> receipt \<Rightarrow> 'w \<Rightarrow> bool result \<times> 'w" where
  "solana_verify S J R r w =
     (case solana_verify_offline S J R r of
        None \<Rightarrow> (Ok False, w)
      | Some (b, payer) \<Rightarrow>
          (case sol_get_transaction (sl_rpc R) (sb_tx_signature b) (commitment_as_str (so_commitment (sl_cfg R))) w of
             (Err e, w') \<Rightarrow> (Err (solana_to_core e), w')
           | (Ok None, w') \<Rightarrow> (Ok False, w')
           | (Ok (Some txn), w') \<Rightarrow> (judge_transaction S R r b payer txn, w')))"

definition solana_payment_rail ::
    "solana_lib \<Rightarrow> solana_json \<Rightarrow> ('w \<Rightarrow> u64) \<Rightarrow> 'w solana_rail \<Rightarrow> 'w payment_rail" where
  "solana_payment_rail S J now R =
     \<lparr> rail_id = RAIL_ID_SOLANA,
       capabilities = sl_capabilities R,
       rail_quote = solana_quote now R,
       rail_charge = solana_charge S J now R,
       rail_verify = solana_verify S J R,
       rail_validate_destination = solana_validate S,
       rail_refund = default_refund,
       rail_verify_webhook = default_verify_webhook \<rparr>"

section \<open>Facts\<close>

text \<open>The rail honours the contract of the trait, and its settlement is final.\<close>

lemma solana_payment_rail_sel [simp]:
  "rail_id (solana_payment_rail S J now R) = RAIL_ID_SOLANA"
  "capabilities (solana_payment_rail S J now R) = sl_capabilities R"
  "rail_quote (solana_payment_rail S J now R) = solana_quote now R"
  "rail_charge (solana_payment_rail S J now R) = solana_charge S J now R"
  "rail_verify (solana_payment_rail S J now R) = solana_verify S J R"
  "rail_validate_destination (solana_payment_rail S J now R) = solana_validate S"
  "rail_refund (solana_payment_rail S J now R) = default_refund"
  by (simp_all add: solana_payment_rail_def)

lemma solana_charge_receipt:
  "solana_charge S J now R req w = (Ok r, w') \<Longrightarrow>
     r_rail_id r = RAIL_ID_SOLANA \<and> r_reference r = pr_reference req \<and>
     r_amount_minor r = pr_amount_minor req \<and> r_currency r = pr_currency req"
  by (auto simp: solana_charge_def Let_def split: sum.splits prod.splits)

lemma solana_quote_facts:
  "solana_quote now R req w = (Ok q, w') \<Longrightarrow>
     q_rail_id q = RAIL_ID_SOLANA \<and> q_amount_minor q = pr_amount_minor req \<and> q_currency q = pr_currency req"
  by (auto simp: solana_quote_def split: sum.splits)

interpretation solana: final_rail "solana_payment_rail S J now R" "\<lambda>_. True"
  by unfold_locales
    (simp_all add: solana_quote_def solana_charge_def solana_charge_guards_def solana_verify_def
      solana_verify_offline_def solana_validate_honest solana_validate_blank solana_charge_receipt
      solana_quote_facts default_refund_def)

section \<open>Balance changes\<close>

text \<open>What the balances of a list say of an owner, in one mint.\<close>

fun owner_total :: "string \<Rightarrow> string \<Rightarrow> json list \<Rightarrow> i128" where
  "owner_total mint who [] = 0"
| "owner_total mint who (e # es) =
     (if get_str ''mint'' e = Some mint \<and> balance_owner e = Ok who
      then (case balance_amount e of Ok a \<Rightarrow> a | Err _ \<Rightarrow> 0) else 0) + owner_total mint who es"

definition net_change :: "string \<Rightarrow> json \<Rightarrow> string \<Rightarrow> i128" where
  "net_change mint txn who =
     (case jget ''meta'' txn of
        None \<Rightarrow> 0
      | Some meta \<Rightarrow>
          owner_total mint who (balances_of ''postTokenBalances'' meta) -
          owner_total mint who (balances_of ''preTokenBalances'' meta))"

lemma delta_of_add: "delta_of (add_delta owner d ds) who = delta_of ds who + (if who = owner then d else 0)"
  by (induction owner d ds rule: add_delta.induct) (auto simp: delta_of_def)

lemma set_add_delta: "fst ` set (add_delta owner d ds) = insert owner (fst ` set ds)"
  by (induction owner d ds rule: add_delta.induct) auto

lemma distinct_add_delta: "distinct (map fst ds) \<Longrightarrow> distinct (map fst (add_delta owner d ds))"
proof (induction owner d ds rule: add_delta.induct)
  case (2 owner d o' d' ds)
  then show ?case using set_add_delta [of owner d ds] by auto
qed simp

lemma apply_balances_Ok:
  assumes "apply_balances mint s es ds = Ok ds'"
  shows "delta_of ds' who = delta_of ds who + s * owner_total mint who es"
    and "distinct (map fst ds) \<Longrightarrow> distinct (map fst ds')"
  using assms
  by (induction mint s es ds rule: apply_balances.induct)
    (auto simp: delta_of_add distinct_add_delta algebra_simps split: if_splits)

lemma mint_deltas_Ok:
  assumes "mint_deltas txn mint = Ok ds"
  shows "delta_of ds who = net_change mint txn who" "distinct (map fst ds)"
proof -
  obtain meta ds1 where m: "jget ''meta'' txn = Some meta"
    "apply_balances mint (-1) (balances_of ''preTokenBalances'' meta) [] = Ok ds1"
    "apply_balances mint 1 (balances_of ''postTokenBalances'' meta) ds1 = Ok ds"
    using assms by (auto simp: mint_deltas_def)
  show "delta_of ds who = net_change mint txn who"
    using apply_balances_Ok(1) [OF m(2), of who] apply_balances_Ok(1) [OF m(3), of who] m(1)
    by (simp add: net_change_def delta_of_def)
  show "distinct (map fst ds)"
    using apply_balances_Ok(2) [OF m(2)] apply_balances_Ok(2) [OF m(3)] by simp
qed

lemma list_ex_fst: "list_ex (\<lambda>(e, _). e = who) xs \<longleftrightarrow> who \<in> fst ` set xs"
  by (induction xs) auto

text \<open>No 64-bit amount but zero is its own negation in 128 bits.\<close>

lemma unat_ucast_i128: "unat (ucast (a :: u64) :: i128) = unat a"
  by (simp add: unsigned_ucast_eq take_bit_nat_eq_self_iff less_trans [OF unat_lt_u64])

lemma minus_self_i128: "- (ucast (a :: u64) :: i128) = ucast a \<longleftrightarrow> a = 0"
proof
  assume h: "- (ucast a :: i128) = ucast a"
  have "unat (ucast a :: i128) = unat a" by (rule unat_ucast_i128)
  moreover have "(ucast a :: i128) + ucast a = 0" using h by (simp add: eq_neg_iff_add_eq_0)
  then have "unat ((ucast a :: i128) + ucast a) = 0" by simp
  ultimately have "2 * unat a mod 2 ^ 128 = 0" by (simp add: unat_word_ariths)
  moreover have "2 * unat a < 2 * 2 ^ 64" using unat_lt_u64 [of a] by linarith
  then have "2 * unat a < 2 ^ 128" by (rule less_trans) simp
  ultimately have "unat a = 0" by simp
  then show "a = 0" by (simp add: unat_eq_0)
qed simp

lemma delta_of_nz: "delta_of ds who \<noteq> 0 \<Longrightarrow> (who, delta_of ds who) \<in> set ds"
  by (auto simp: delta_of_def dest: map_of_SomeD split: option.splits)

lemma delta_of_in: "distinct (map fst ds) \<Longrightarrow> (who, d) \<in> set ds \<Longrightarrow> delta_of ds who = d"
  by (simp add: delta_of_def)

lemma two_owners:
  "D p = x \<and> D q = y \<and> (\<forall>o'. o' \<noteq> p \<and> o' \<noteq> q \<longrightarrow> D o' = z) \<longleftrightarrow>
     (\<forall>o'. D o' = (if o' = p then x else if o' = q then y else z)) \<and> (p = q \<longrightarrow> y = x)"
  (is "?L \<longleftrightarrow> ?R")
proof
  assume l: ?L
  then have "p = q \<longrightarrow> y = x" by blast
  with l show ?R by simp
next
  assume r: ?R
  have "D p = x" "D q = y" using spec [OF conjunct1 [OF r], of p] spec [OF conjunct1 [OF r], of q] r
    by (auto split: if_splits)
  with r show ?L by simp
qed

lemma deltas_ok_iff:
  assumes "distinct (map fst ds)"
  shows "deltas_ok ds dest payer a \<longleftrightarrow>
    (\<forall>who. delta_of ds who = (if who = dest then ucast a else if who = payer then - ucast a else 0)) \<and>
    \<not> (dest = payer \<and> a \<noteq> 0)"
    (is "_ \<longleftrightarrow> ?R")
proof -
  have strangers: "\<not> list_ex (\<lambda>(who, d). d \<noteq> 0 \<and> \<not> list_ex (\<lambda>(e, _). e = who) [(dest, x), (payer, y)]) ds \<longleftrightarrow>
      (\<forall>who. who \<noteq> dest \<and> who \<noteq> payer \<longrightarrow> delta_of ds who = 0)" (is "?L \<longleftrightarrow> ?Z") for x y :: i128
  proof
    assume l: ?L
    show ?Z
    proof (intro allI impI, rule ccontr)
      fix who assume w: "who \<noteq> dest \<and> who \<noteq> payer" "delta_of ds who \<noteq> 0"
      from delta_of_nz [OF w(2)] l w show False by (auto simp: list_ex_iff)
    qed
  next
    assume z: ?Z
    have "d = 0 \<or> who = dest \<or> who = payer" if "(who, d) \<in> set ds" for who d
      using delta_of_in [OF assms that] z by auto
    then show ?L by (auto simp: list_ex_iff)
  qed
  show ?thesis
    unfolding deltas_ok_def Let_def strangers
    using two_owners [of "delta_of ds" dest "ucast a" payer "- ucast a"] minus_self_i128 [of a] by simp
qed

section \<open>What a verified receipt means\<close>

text \<open>
  A transaction that pays: executed without error, at the required commitment, signed by the payer,
  carrying the memo, and with the receipt's amount from payer to payee as its only net change in
  the mint.
\<close>

definition transaction_pays ::
    "commitment \<Rightarrow> string \<Rightarrow> json \<Rightarrow> string \<Rightarrow> string \<Rightarrow> string \<Rightarrow> u64 \<Rightarrow> bool" where
  "transaction_pays c mint txn payer dest memo amount \<longleftrightarrow>
     jpath [''meta'', ''err''] txn = Some JNull \<and> status_ok c txn \<and> signed_by txn payer \<and>
     memo_matches txn memo \<and>
     (\<forall>who. net_change mint txn who =
        (if who = dest then ucast amount else if who = payer then - ucast amount else 0)) \<and>
     \<not> (dest = payer \<and> amount \<noteq> 0)"

lemma judge_transaction_True_iff:
  "judge_transaction S R r b payer txn = Ok True \<longleftrightarrow>
     transaction_pays (so_commitment (sl_cfg R)) (mint_base58 S (sl_cfg R)) txn
       (pubkey_to_base58 S payer) (sb_destination b) (binding_memo S payer (r_reference r)) (r_amount_minor r) \<and>
     mint_deltas txn (mint_base58 S (sl_cfg R)) \<in> range Inr"
proof (cases "mint_deltas txn (mint_base58 S (sl_cfg R))")
  case (Inl e)
  then show ?thesis by (auto simp: judge_transaction_def split: option.splits)
next
  case (Inr ds)
  note d = mint_deltas_Ok [OF Inr]
  have "deltas_ok ds (sb_destination b) (pubkey_to_base58 S payer) (r_amount_minor r) \<longleftrightarrow>
    (\<forall>who. net_change (mint_base58 S (sl_cfg R)) txn who =
        (if who = sb_destination b then ucast (r_amount_minor r)
         else if who = pubkey_to_base58 S payer then - ucast (r_amount_minor r) else 0)) \<and>
    \<not> (sb_destination b = pubkey_to_base58 S payer \<and> r_amount_minor r \<noteq> 0)"
    unfolding deltas_ok_iff [OF d(2)] d(1) ..
  then show ?thesis
    unfolding judge_transaction_def transaction_pays_def Inr
    by (simp add: is_null_iff split: option.split)
qed

lemma solana_verify_offline_Some_iff:
  "solana_verify_offline S J R r = Some (b, payer) \<longleftrightarrow>
     r_rail_id r = RAIL_ID_SOLANA \<and> r_currency r = ''USDC'' \<and> sol_binding_from_slice J (r_proof r) = Some b \<and>
     sb_chain b = ''solana'' \<and> sb_mint b = mint_base58 S (sl_cfg R) \<and> pubkey_from_base58 S (sb_payer b) = Ok payer \<and>
     sb_reference b = sol_hex_encode S (binding_reference S payer (r_reference r))"
proof (cases "sol_binding_from_slice J (r_proof r)")
  case None
  then show ?thesis by (simp add: solana_verify_offline_def)
next
  case (Some y)
  then show ?thesis by (cases "pubkey_from_base58 S (sb_payer y)") (auto simp: solana_verify_offline_def)
qed

lemma solana_verify_True_iff:
  "solana_verify S J R r w = (Ok True, w') \<longleftrightarrow>
     (\<exists>b payer txn. solana_verify_offline S J R r = Some (b, payer) \<and>
        sol_get_transaction (sl_rpc R) (sb_tx_signature b) (commitment_as_str (so_commitment (sl_cfg R))) w =
          (Ok (Some txn), w') \<and>
        judge_transaction S R r b payer txn = Ok True)"
  by (auto simp: solana_verify_def split: option.splits prod.splits sum.splits)

text \<open>
  C9: a receipt verifies on the Solana rail only if its proof names a transaction that the node
  shows as executed without error at the rail's commitment, signed by the payer, carrying the memo
  derived from payer and reference, and whose net effect in the rail's mint is exactly the
  receipt's amount from the payer to the destination, with every other owner unchanged; and never
  for a positive amount a wallet pays to itself.
\<close>

theorem solana_verify_sound:
  assumes "solana_verify S J R r w = (Ok True, w')"
  shows "\<exists>b payer txn. r_rail_id r = RAIL_ID_SOLANA \<and> r_currency r = ''USDC'' \<and>
    sol_binding_from_slice J (r_proof r) = Some b \<and> pubkey_from_base58 S (sb_payer b) = Ok payer \<and>
    sb_mint b = mint_base58 S (sl_cfg R) \<and>
    sol_get_transaction (sl_rpc R) (sb_tx_signature b) (commitment_as_str (so_commitment (sl_cfg R))) w =
      (Ok (Some txn), w') \<and>
    transaction_pays (so_commitment (sl_cfg R)) (sb_mint b) txn (pubkey_to_base58 S payer) (sb_destination b)
      (binding_memo S payer (r_reference r)) (r_amount_minor r)"
  using assms unfolding solana_verify_True_iff solana_verify_offline_Some_iff judge_transaction_True_iff
  by metis

section \<open>A concrete node\<close>

text \<open>
  Libraries that evaluate: base58 and hex are the characters themselves (a program id is cut to 32),
  the hashes are injective enough to tell references apart, and the node shows one transaction, in
  which a payer moves 500 to a payee and signs two memos.
\<close>

definition chars_of :: "bytes \<Rightarrow> string" where
  "chars_of bs = map (\<lambda>b. char_of (unat b)) bs"

definition toy_solana :: solana_lib where
  "toy_solana =
     \<lparr> sol_sha256 = (\<lambda>bs. take 32 (rev bs @ replicate 32 0)), sol_blake3 = id, sol_hex_encode = chars_of,
       bs58_decode = (\<lambda>s. Some (take 32 (as_bytes s))), bs58_encode = chars_of,
       on_curve = (\<lambda>bs. take 1 bs \<noteq> as_bytes ''s''), sol_pubkey = (\<lambda>k. take 32 (k @ replicate 32 0)), sol_sign = (\<lambda>_ _. replicate 64 7) \<rparr>"

definition toy_payer :: string where "toy_payer = replicate 32 CHR ''P''"
definition toy_payee :: string where "toy_payee = replicate 32 CHR ''Q''"
definition toy_mint :: string where "toy_mint = replicate 32 CHR ''M''"

definition balance :: "string \<Rightarrow> string \<Rightarrow> json" where
  "balance owner amount =
     JObject [(''mint'', JString toy_mint), (''owner'', JString owner),
       (''uiTokenAmount'', JObject [(''amount'', JString amount)])]"

definition memo_json :: "string \<Rightarrow> json" where
  "memo_json note = JObject [(''program'', JString ''spl-memo''), (''parsed'', JString note)]"

definition payment_json :: "string list \<Rightarrow> json" where
  "payment_json notes =
     JObject [
       (''meta'', JObject [(''err'', JNull),
          (''preTokenBalances'', JArray [balance toy_payer ''900'', balance toy_payee ''0'']),
          (''postTokenBalances'', JArray [balance toy_payer ''400'', balance toy_payee ''500''])]),
       (''transaction'', JObject [(''message'', JObject [
          (''accountKeys'', JArray [JObject [(''pubkey'', JString toy_payer), (''signer'', JBool True)]]),
          (''instructions'', JArray (map memo_json notes))])])]"

definition toy_solana_binding :: "string \<Rightarrow> solana_binding" where
  "toy_solana_binding reference =
     \<lparr> sb_chain = ''solana'', sb_tx_signature = ''sig'', sb_mint = toy_mint, sb_payer = toy_payer,
       sb_destination = toy_payee,
       sb_reference = sol_hex_encode toy_solana (binding_reference toy_solana (as_bytes toy_payer) reference) \<rparr>"

text \<open>The proof of a toy receipt is its reference.\<close>

definition toy_solana_json :: solana_json where
  "toy_solana_json =
     \<lparr> sol_binding_to_vec = (\<lambda>_. Ok [1]), sol_binding_from_slice = (\<lambda>bs. Some (toy_solana_binding (chars_of bs))) \<rparr>"

definition toy_solana_rail :: "string list \<Rightarrow> unit solana_rail" where
  "toy_solana_rail notes =
     sol_with_signer (solana_new
       \<lparr> so_rpc_url = [], so_cluster = Localnet, so_commitment = Confirmed, so_usdc_mint = as_bytes toy_mint \<rparr>
       \<lparr> sol_get_transaction = (\<lambda>_ _ w. (Ok (Some (payment_json notes)), w)),
         sol_get_latest_blockhash = (\<lambda>_ w. (Ok (replicate 32 CHR ''h''), w)),
         sol_send_transaction = (\<lambda>_ w. (Ok ''sig'', w)) \<rparr>) (as_bytes toy_payer)"

definition toy_solana_receipt :: "string \<Rightarrow> receipt" where
  "toy_solana_receipt reference =
     \<lparr> r_rail_id = ''solana'', r_amount_minor = 500, r_currency = ''USDC'', r_reference = reference,
       r_proof = as_bytes reference, r_settled_at_unix = 0 \<rparr>"

definition toy_note :: "string \<Rightarrow> string" where
  "toy_note reference = binding_memo toy_solana (as_bytes toy_payer) reference"

lemma toy_amounts:
  "parse_i128 ''900'' = Some 900" "parse_i128 ''0'' = Some 0" "parse_i128 ''400'' = Some 400"
  "parse_i128 ''500'' = Some 500"
  by (simp_all add: parse_i128_def parse_signed_def all_digits_def is_ascii_digit_def nat_of_digits_def digit_val_def)

lemma toy_owners: "toy_payer \<noteq> toy_payee"
  by (simp add: toy_payer_def toy_payee_def)

lemma toy_balance:
  "get_str ''mint'' (balance owner amount) = Some toy_mint"
  "balance_owner (balance owner amount) = Ok owner"
  "parse_i128 amount = Some a \<Longrightarrow> balance_amount (balance owner amount) = Ok a"
  by (simp_all add: balance_def get_str_def balance_owner_def balance_amount_def)

lemma toy_mint_deltas:
  "mint_deltas (payment_json notes) toy_mint = Ok [(toy_payer, -500), (toy_payee, 500)]"
  by (simp add: mint_deltas_def payment_json_def balances_of_def toy_balance toy_amounts toy_owners)

lemma memo_json_iff: "is_memo_of want (memo_json note) \<longleftrightarrow> note = want"
  by (simp add: is_memo_of_def memo_json_def get_str_def)

lemma toy_memo_matches: "memo_matches (payment_json notes) want \<longleftrightarrow> want \<in> set notes"
proof -
  have "list_ex (is_memo_of want) (map memo_json ns) \<longleftrightarrow> want \<in> set ns" for ns
    by (induction ns) (auto simp: memo_json_iff)
  then show ?thesis by (simp add: memo_matches_def payment_json_def scan_memo_def)
qed

lemma chars_of_as_bytes: "chars_of (as_bytes s) = s"
  by (induction s) (simp_all add: chars_of_def as_bytes_def unat_byte_of)

lemma toy_solana_rail_sel:
  "sol_get_transaction (sl_rpc (toy_solana_rail ns)) h c w = (Ok (Some (payment_json ns)), w)"
  "mint_base58 S (sl_cfg (toy_solana_rail ns)) = bs58_encode S (as_bytes toy_mint)"
  by (simp_all add: toy_solana_rail_def sol_with_signer_def solana_new_def mint_base58_def pubkey_to_base58_def)

lemma toy_judges:
  "judge_transaction toy_solana (toy_solana_rail notes) (toy_solana_receipt reference)
     (toy_solana_binding reference) (as_bytes toy_payer) (payment_json notes) = Ok (toy_note reference \<in> set notes)"
proof -
  have p: "pubkey_to_base58 toy_solana (as_bytes toy_payer) = toy_payer"
    and m: "mint_base58 toy_solana (sl_cfg (toy_solana_rail notes)) = toy_mint"
    by (simp_all add: pubkey_to_base58_def mint_base58_def toy_solana_def chars_of_as_bytes
        toy_solana_rail_def sol_with_signer_def solana_new_def)
  have s: "signed_by (payment_json notes) toy_payer" "status_ok c (payment_json notes)" for c
    by (simp_all add: signed_by_def status_ok_def payment_json_def get_str_def)
  have e: "jpath [''meta'', ''err''] (payment_json notes) = Some JNull" by (simp add: payment_json_def)
  have d: "deltas_ok [(toy_payer, -500), (toy_payee, 500)] toy_payee toy_payer 500"
    using toy_owners by (simp add: deltas_ok_def delta_of_def)
  show ?thesis
    unfolding judge_transaction_def e p m toy_mint_deltas
    by (simp add: s toy_memo_matches toy_note_def d toy_solana_receipt_def)
      (simp add: toy_solana_binding_def d)
qed

lemma toy_offline:
  "solana_verify_offline toy_solana toy_solana_json (toy_solana_rail notes') (toy_solana_receipt reference) =
     Some (toy_solana_binding reference, as_bytes toy_payer)"
  unfolding solana_verify_offline_Some_iff pubkey_from_base58_Ok_iff
  by (simp add: toy_solana_receipt_def toy_solana_json_def RAIL_ID_SOLANA_def toy_solana_binding_def
      toy_solana_rail_sel chars_of_as_bytes) (simp add: toy_solana_def toy_payer_def chars_of_as_bytes)

lemma toy_verify:
  "solana_verify toy_solana toy_solana_json (toy_solana_rail notes) (toy_solana_receipt reference) () =
     (Ok (toy_note reference \<in> set notes), ())"
  by (simp add: solana_verify_def toy_offline toy_judges toy_solana_rail_sel)

theorem solana_verify_sound_witness:
  "\<exists>b payer txn. sol_binding_from_slice toy_solana_json (r_proof (toy_solana_receipt ''A'')) = Some b \<and>
     pubkey_from_base58 toy_solana (sb_payer b) = Ok payer \<and>
     transaction_pays Confirmed (sb_mint b) txn (pubkey_to_base58 toy_solana payer) (sb_destination b)
       (binding_memo toy_solana payer ''A'') 500"
proof -
  have "solana_verify toy_solana toy_solana_json (toy_solana_rail [toy_note ''A'']) (toy_solana_receipt ''A'') () =
      (Ok True, ())" by (simp add: toy_verify)
  from solana_verify_sound [OF this] show ?thesis
    by (simp add: toy_solana_rail_def sol_with_signer_def solana_new_def) (simp add: toy_solana_receipt_def, blast)
qed

text \<open>
  One transfer can redeem two receipts. The memo check asks for some memo with the derived text,
  so a payer who signs a transaction with two memos, of two references, holds two receipts that
  both verify for one net payment of 500.
\<close>

theorem two_memos_two_receipts:
  "solana_verify toy_solana toy_solana_json (toy_solana_rail [toy_note first, toy_note second])
     (toy_solana_receipt first) () = (Ok True, ()) \<and>
   solana_verify toy_solana toy_solana_json (toy_solana_rail [toy_note first, toy_note second])
     (toy_solana_receipt second) () = (Ok True, ()) \<and>
   net_change toy_mint (payment_json [toy_note first, toy_note second]) toy_payer = - 500"
  using mint_deltas_Ok(1) [OF toy_mint_deltas [of "[toy_note first, toy_note second]"], of toy_payer]
  by (simp add: toy_verify delta_of_def)

section \<open>One memo, one receipt\<close>

definition single_memo :: "json \<Rightarrow> bool" where
  "single_memo txn \<longleftrightarrow> (\<forall>m m'. memo_matches txn m \<longrightarrow> memo_matches txn m' \<longrightarrow> m = m')"

definition collides_blake3 :: "solana_lib \<Rightarrow> bytes \<Rightarrow> bytes \<Rightarrow> bool" where
  "collides_blake3 S x y \<longleftrightarrow> x \<noteq> y \<and> sol_blake3 S x = sol_blake3 S y"

lemma binding_preimage_inject:
  assumes "length p = 32" "length p' = 32" "binding_preimage p r = binding_preimage p' r'"
  shows "p = p' \<and> r = r'"
  using assms by (auto simp: binding_preimage_def)

lemma ucast_u64_i128_inject: "(ucast (a :: u64) :: i128) = ucast b \<longleftrightarrow> a = b"
proof
  assume "(ucast a :: i128) = ucast b"
  then have "unat (ucast a :: i128) = unat (ucast b :: i128)" by simp
  then have "unat a = unat b" unfolding unat_ucast_i128 .
  then show "a = b" by (simp only: word_unat_eq_iff)
qed simp

lemma transaction_pays_once:
  assumes "transaction_pays c mint txn p d m a" "transaction_pays c mint txn p d' m' a'"
  shows "a = a' \<and> (d = d' \<or> a = 0)"
proof -
  have n: "net_change mint txn who = (if who = d then ucast a else if who = p then - ucast a else 0)"
    and n': "net_change mint txn who = (if who = d' then ucast a' else if who = p then - ucast a' else 0)" for who
    using assms by (simp_all only: transaction_pays_def)
  have z: "d = p \<Longrightarrow> a = 0" "d' = p \<Longrightarrow> a' = 0" using assms by (auto simp: transaction_pays_def)
  have u: "(ucast x :: i128) = 0 \<longleftrightarrow> x = 0" for x :: u64 using ucast_u64_i128_inject [of x 0] by simp
  show ?thesis
  proof (cases "d = d'")
    case True
    then show ?thesis using n [of d] n' [of d] ucast_u64_i128_inject by simp
  next
    case False
    have "a = 0" using n [of d] n' [of d] False z(1) u by (cases "d = p") auto
    moreover have "a' = 0" using n [of d'] n' [of d'] False z(2) u by (cases "d' = p") auto
    ultimately show ?thesis by simp
  qed
qed

lemma hex_inject_memo:
  assumes "inj (sol_hex_encode S)" "binding_memo S p r = binding_memo S p' r'"
    and "length p = 32" "length p' = 32"
  shows "p = p' \<and> r = r' \<or> collides_blake3 S (binding_preimage p r) (binding_preimage p' r')"
proof -
  have "sol_blake3 S (binding_preimage p r) = sol_blake3 S (binding_preimage p' r')"
    using assms(1,2) by (simp add: binding_memo_def binding_reference_def inj_eq)
  then show ?thesis
    using binding_preimage_inject [OF assms(3,4)] by (auto simp: collides_blake3_def)
qed

text \<open>
  C10: where the transaction carries a single memo, one payment vouches for one receipt: two receipts
  that verify through it agree on payer, reference and amount, and on the payee unless the amount is
  zero, or BLAKE3 collides on the two binding inputs.
\<close>

theorem single_memo_one_receipt:
  assumes "solana_verify_offline S J R r = Some (b, p)" "judge_transaction S R r b p txn = Ok True"
    and "solana_verify_offline S J R r' = Some (b', p')" "judge_transaction S R r' b' p' txn = Ok True"
    and "single_memo txn" "inj (sol_hex_encode S)"
  shows "p = p' \<and> r_reference r = r_reference r' \<and> r_amount_minor r = r_amount_minor r' \<and>
      (sb_destination b = sb_destination b' \<or> r_amount_minor r = 0) \<or>
    collides_blake3 S (binding_preimage p (r_reference r)) (binding_preimage p' (r_reference r'))"
proof -
  note pays = assms(2,4) [unfolded judge_transaction_True_iff, THEN conjunct1]
  have "memo_matches txn (binding_memo S p (r_reference r))" "memo_matches txn (binding_memo S p' (r_reference r'))"
    using pays by (simp_all add: transaction_pays_def)
  then have m: "binding_memo S p (r_reference r) = binding_memo S p' (r_reference r')"
    using assms(5) by (simp add: single_memo_def)
  have l: "length p = 32" "length p' = 32"
    using assms(1,3) by (simp_all add: solana_verify_offline_Some_iff pubkey_from_base58_Ok_iff)
  from hex_inject_memo [OF assms(6) m l] show ?thesis
    using transaction_pays_once [OF pays(1)] pays(2) by auto
qed

lemma inj_chars_of: "inj chars_of"
proof (rule injI)
  fix x y assume "chars_of x = chars_of y"
  then have "as_bytes (chars_of x) = as_bytes (chars_of y)" by simp
  moreover have "as_bytes (chars_of z) = z" for z
    by (induction z) (simp_all add: chars_of_def as_bytes_def byte_of_def unsigned_less [where ?'a = nat and ?'b = 8, simplified])
  ultimately show "x = y" by simp
qed

theorem single_memo_one_receipt_witness:
  "r_reference (toy_solana_receipt ''A'') = r_reference (toy_solana_receipt ''A''\<lparr> r_settled_at_unix := 9 \<rparr>) \<or>
   collides_blake3 toy_solana (binding_preimage (as_bytes toy_payer) ''A'') (binding_preimage (as_bytes toy_payer) ''A'')"
proof -
  let ?R = "toy_solana_rail [toy_note ''A'']" and ?r = "toy_solana_receipt ''A''"
  have o: "solana_verify_offline toy_solana toy_solana_json ?R ?r = Some (toy_solana_binding ''A'', as_bytes toy_payer)"
    by (rule toy_offline)
  have j: "judge_transaction toy_solana ?R ?r (toy_solana_binding ''A'') (as_bytes toy_payer) (payment_json [toy_note ''A''])
      = Ok True" by (simp add: toy_judges)
  have o': "solana_verify_offline toy_solana toy_solana_json ?R (?r\<lparr> r_settled_at_unix := 9 \<rparr>) =
      Some (toy_solana_binding ''A'', as_bytes toy_payer)"
    using o unfolding solana_verify_offline_Some_iff by simp
  have j': "judge_transaction toy_solana ?R (?r\<lparr> r_settled_at_unix := 9 \<rparr>) (toy_solana_binding ''A'')
      (as_bytes toy_payer) (payment_json [toy_note ''A'']) = Ok True"
    using j unfolding judge_transaction_True_iff by simp
  have s: "single_memo (payment_json [toy_note ''A''])" by (simp add: single_memo_def toy_memo_matches)
  have h: "inj (sol_hex_encode toy_solana)" by (simp add: toy_solana_def inj_chars_of)
  from single_memo_one_receipt [OF o j o' j' s h] show ?thesis by (simp add: toy_solana_receipt_def)
qed

section \<open>What a charge sends\<close>

text \<open>The sizes the libraries document, and the two program ids that must decode.\<close>

definition solana_laws :: "solana_lib \<Rightarrow> bool" where
  "solana_laws S \<longleftrightarrow>
     (\<forall>x. length (sol_sha256 S x) = 32) \<and> (\<forall>k. length (sol_pubkey S k) = 32) \<and>
     (\<forall>k m. length (sol_sign S k m) = 64) \<and>
     list_all (\<lambda>p. map_option length (bs58_decode S p) = Some 32)
       [TOKEN_PROGRAM_ID, ASSOCIATED_TOKEN_PROGRAM_ID, MEMO_PROGRAM_ID]"

lemma program_id_decodes:
  assumes "solana_laws S" "p \<in> set [TOKEN_PROGRAM_ID, ASSOCIATED_TOKEN_PROGRAM_ID, MEMO_PROGRAM_ID]"
  shows "\<exists>k. pubkey_from_base58 S p = Ok k \<and> length k = 32"
proof -
  have "map_option length (bs58_decode S p) = Some 32"
    using assms unfolding solana_laws_def list_all_iff by blast
  then show ?thesis by (auto simp: pubkey_from_base58_def)
qed

lemma length_ordered_keys: "length (ordered_keys payer ixs) \<le> length (wanted payer ixs)"
proof -
  have a: "length (add_key k s w keys) \<le> Suc (length keys)" for k s w keys
    by (induction k s w keys rule: add_key.induct) simp_all
  have "length (add_all keys T) \<le> length keys + length T" for keys T
  proof (induction T arbitrary: keys)
    case (Cons e T)
    obtain k s w where e: "e = (k, s, w)" by (cases e)
    show ?case
      using Cons [of "add_key k s w keys"] a [of k s w keys] by (simp add: add_all_def e)
  qed (simp add: add_all_def)
  from this [of "[]" "wanted payer ixs"] show ?thesis
    by (simp add: ordered_keys_def collect_keys_eq)
qed

lemma find_program_address_sized:
  assumes "solana_laws S" "find_program_address S seeds p = Ok (a, b)"
  shows "length a = 32"
  using assms bump_loop_down [of 256 S seeds p a b]
  by (simp add: find_program_address_def pda_candidate_def solana_laws_def)

lemma associated_token_address_sized:
  assumes "solana_laws S" "associated_token_address S owner mint = Ok a"
  shows "length a = 32"
  using assms find_program_address_sized [OF assms(1)]
  by (auto simp: associated_token_address_def split: prod.splits)

lemma charge_wire_readable:
  assumes "solana_laws S" "length mint = 32" "charge_wire S signer dest mint req blockhash = Ok wire"
  shows "\<exists>source dest_ata bh.
    associated_token_address S (sol_pubkey S signer) mint = Ok source \<and>
    associated_token_address S dest mint = Ok dest_ata \<and> bs58_decode S blockhash = Some bh \<and>
    parse_wire wire =
      (let payer = sol_pubkey S signer; ixs = charge_instructions S payer mint source dest_ata req
       in Some (sol_sign S signer (serialize_message payer ixs bh), payer, bh, map (merged payer ixs) ixs))"
proof -
  let ?payer = "sol_pubkey S signer"
  obtain bh source dest_ata where
      bh: "bs58_decode S blockhash = Some bh" "length bh = 32"
    and at: "associated_token_address S ?payer mint = Ok source" "associated_token_address S dest mint = Ok dest_ata"
    and w: "wire = (let message = serialize_message ?payer (charge_instructions S ?payer mint source dest_ata req) bh
        in b64 (wire_transaction (sol_sign S signer message) message))"
    using assms(3) by (auto simp: charge_wire_def Let_def Option.bind_eq_Some_conv split: if_splits)
  let ?ixs = "charge_instructions S ?payer mint source dest_ata req"
  obtain token memo where ids: "pubkey_from_base58 S TOKEN_PROGRAM_ID = Ok token" "length token = 32"
      "pubkey_from_base58 S MEMO_PROGRAM_ID = Ok memo" "length memo = 32"
    using program_id_decodes [OF assms(1), of TOKEN_PROGRAM_ID] program_id_decodes [OF assms(1), of MEMO_PROGRAM_ID]
    by auto
  have sized: "length ?payer = 32" "length source = 32" "length dest_ata = 32"
    "length (sol_sign S signer m) = 64" for m
    using assms(1) associated_token_address_sized [OF assms(1) at(1)] associated_token_address_sized [OF assms(1) at(2)]
    by (simp_all add: solana_laws_def)
  have k: "list_all (\<lambda>e. length (fst e) = 32) (wanted ?payer ?ixs)"
    by (simp add: wanted_def charge_instructions_def memo_ix_def transfer_checked_def ids sized assms(2))
  have n: "length (ordered_keys ?payer ?ixs) < 256"
    using length_ordered_keys [of ?payer ?ixs]
    by (simp add: wanted_def charge_instructions_def memo_ix_def transfer_checked_def)
  from solana_wire_readable_lemma [OF k bh(2) n sized(4)] bh(1) at w show ?thesis
    by (auto simp: Let_def)
qed

text \<open>
  C11: what the Solana rail sends is what it was asked to pay. Where a charge returns a receipt, the
  wire transaction it submitted reads back as the memo of payer and reference and a checked transfer
  of exactly the requested amount, from the payer's token account to the destination's, paid for by the
  rail's own key, which signed that very message, and nothing else.
\<close>

theorem solana_charge_sends:
  assumes "solana_laws S" "length (so_usdc_mint (sl_cfg R)) = 32"
    and "solana_charge S J now R req w = (Ok r, w')"
  shows "\<exists>signer dest source dest_ata bh wire signature w1.
    sl_signer R = Some signer \<and> pubkey_from_base58 S (pr_destination req) = Ok dest \<and>
    associated_token_address S (sol_pubkey S signer) (so_usdc_mint (sl_cfg R)) = Ok source \<and>
    associated_token_address S dest (so_usdc_mint (sl_cfg R)) = Ok dest_ata \<and>
    sol_send_transaction (sl_rpc R) wire w1 = (Ok signature, w') \<and>
    parse_wire wire =
      (let payer = sol_pubkey S signer;
           ixs = [memo_ix S payer (binding_memo S payer (pr_reference req)),
             transfer_checked S source (so_usdc_mint (sl_cfg R)) dest_ata payer (pr_amount_minor req) 6]
       in Some (sol_sign S signer (serialize_message payer ixs bh), payer, bh, map (merged payer ixs) ixs))"
proof -
  obtain signer dest blockhash w1 wire signature where
      g: "solana_charge_guards S R req = Ok (signer, dest)"
    and c: "charge_wire S signer dest (so_usdc_mint (sl_cfg R)) req blockhash = Ok wire"
    and s: "sol_send_transaction (sl_rpc R) wire w1 = (Ok signature, w')"
    using assms(3) by (auto simp: solana_charge_def Let_def split: sum.splits prod.splits)
  have "sl_signer R = Some signer" "pubkey_from_base58 S (pr_destination req) = Ok dest"
    using g by (auto simp: solana_charge_guards_def)
  with charge_wire_readable [OF assms(1,2) c] s show ?thesis
    unfolding charge_instructions_def USDC_DECIMALS_solana_def by blast
qed

lemma toy_solana_laws: "solana_laws toy_solana"
proof -
  have "min n 32 + (32 - n) = (32 :: nat)" for n by (simp add: min_def)
  then show ?thesis
    unfolding solana_laws_def toy_solana_def
    by (simp add: TOKEN_PROGRAM_ID_def ASSOCIATED_TOKEN_PROGRAM_ID_def MEMO_PROGRAM_ID_def)
qed

theorem solana_charge_sends_witness:
  "\<exists>source dest_ata bh wire signature (w1 :: unit).
     sol_send_transaction (sl_rpc (toy_solana_rail [])) wire w1 = (Ok signature, ()) \<and>
     parse_wire wire =
      (let payer = as_bytes toy_payer;
           ixs = [memo_ix toy_solana payer (binding_memo toy_solana payer ''A''),
             transfer_checked toy_solana source (as_bytes toy_mint) dest_ata payer 500 6]
       in Some (replicate 64 7, payer, bh, map (merged payer ixs) ixs))"
proof -
  let ?S = toy_solana and ?R = "toy_solana_rail []"
  let ?req = "\<lparr> pr_amount_minor = 500, pr_currency = ''USDC'', pr_destination = toy_payee, pr_reference = ''A'' \<rparr>"
  have R: "sl_signer ?R = Some (as_bytes toy_payer)" "so_usdc_mint (sl_cfg ?R) = as_bytes toy_mint"
    "sol_get_latest_blockhash (sl_rpc ?R) c w = (Ok (replicate 32 CHR ''h''), w)"
    "sol_send_transaction (sl_rpc ?R) x w = (Ok ''sig'', w)" for c x w
    by (simp_all add: toy_solana_rail_def sol_with_signer_def solana_new_def)
  have v: "pay_request_validate ?req = Ok ()"
    using not_blank_graphic [of toy_payee]
    by (simp add: validate_Ok_iff well_formed_request_def not_blank_Cons graphic_def)
      (simp add: toy_payee_def list_all_iff graphic_def)
  have k: "pubkey_from_base58 ?S s = Ok (take 32 (as_bytes s))" if "32 \<le> length s" for s
    using that by (simp add: pubkey_from_base58_def toy_solana_def)
  have g: "solana_charge_guards ?S ?R ?req = Ok (as_bytes toy_payer, as_bytes toy_payee)"
    using v k [of toy_payee] by (simp add: solana_charge_guards_def R solana_usdc_only_def) (simp add: toy_payee_def)
  have "\<not> on_curve ?S (pda_candidate ?S seeds prog (unat (255 :: u8)))" for seeds prog
    by (simp add: pda_candidate_def toy_solana_def as_bytes_def)
  then have f: "find_program_address ?S seeds prog = Ok (pda_candidate ?S seeds prog 255, 255)" for seeds prog
    using bump_loop_down [of 256 ?S seeds prog "pda_candidate ?S seeds prog 255" 255]
    by (simp add: find_program_address_def)
  have a: "\<exists>x. associated_token_address ?S owner mint = Ok x" for owner mint
    by (simp add: associated_token_address_def k TOKEN_PROGRAM_ID_def ASSOCIATED_TOKEN_PROGRAM_ID_def f)
  obtain x y where xy: "associated_token_address ?S (as_bytes toy_payer) (as_bytes toy_mint) = Ok x"
    "associated_token_address ?S (as_bytes toy_payee) (as_bytes toy_mint) = Ok y" using a by blast
  have p: "sol_pubkey ?S (as_bytes toy_payer) = as_bytes toy_payer" "sol_sign ?S z m = replicate 64 7" for z m
    by (simp_all add: toy_solana_def toy_payer_def)
  have "bs58_decode ?S (replicate 32 CHR ''h'') = Some (as_bytes (replicate 32 CHR ''h''))"
    by (simp add: toy_solana_def)
  then have "\<exists>wire. charge_wire ?S (as_bytes toy_payer) (as_bytes toy_payee) (as_bytes toy_mint) ?req
      (replicate 32 CHR ''h'') = Ok wire"
    unfolding charge_wire_def by (simp add: p xy Let_def)
  then obtain r where "solana_charge ?S toy_solana_json (\<lambda>_. 0) ?R ?req () = (Ok r, ())"
    unfolding solana_charge_def g by (auto simp: R Let_def toy_solana_json_def)
  from solana_charge_sends [OF toy_solana_laws _ this] show ?thesis
    by (simp add: R p) (fastforce simp: toy_mint_def)
qed

end
