(* ===== verification/Solana_Http.thy ===== *)
theory Solana_Http
  imports Solana_Rail Http
begin

text \<open>
  \<open>HttpRpc\<close> of \<open>patala-solana/src/rpc.rs\<close>: the JSON-RPC client behind the \<open>SolanaRpc\<close> seam, over an HTTP
  client \<open>C\<close> and JSON text \<open>T\<close>.
\<close>

definition rpc_body :: "string \<Rightarrow> json \<Rightarrow> json" where
  "rpc_body meth params =
     JObject [(''jsonrpc'', JString ''2.0''), (''id'', JNumber (PosInt 1)), (''method'', JString meth),
       (''params'', params)]"

definition rpc_result :: "json_text \<Rightarrow> string \<Rightarrow> http_response \<Rightarrow> solana_error + json" where
  "rpc_result T meth resp =
     (if \<not> is_success resp then Err (SolRpc (meth @ '': HTTP '' @ status_show T (hr_status resp)))
      else
        rbind (map_err (\<lambda>e. SolRpc (meth @ '': bad JSON: '' @ e)) (response_json T resp)) (\<lambda>v.
          case jget ''error'' v of
            Some err \<Rightarrow> Err (SolRpc (meth @ '': '' @ json_show T err))
          | None \<Rightarrow> ok_or (SolRpc (meth @ '': no result'')) (jget ''result'' v)))"

definition rpc_call ::
    "json_text \<Rightarrow> 'w http_client \<Rightarrow> string \<Rightarrow> string \<Rightarrow> json \<Rightarrow> 'w \<Rightarrow> (solana_error + json) \<times> 'w" where
  "rpc_call T C url meth params w =
     (case C (http_post url (JsonBody (rpc_body meth params))) w of
        (Err e, w') \<Rightarrow> (Err (SolRpc (meth @ '': '' @ e)), w')
      | (Ok resp, w') \<Rightarrow> (rpc_result T meth resp, w'))"

definition http_get_transaction ::
    "json_text \<Rightarrow> 'w http_client \<Rightarrow> string \<Rightarrow> string \<Rightarrow> string \<Rightarrow> 'w \<Rightarrow> (solana_error + json option) \<times> 'w" where
  "http_get_transaction T C url signature commitment w =
     (case rpc_call T C url ''getTransaction''
         (JArray [JString signature, JObject [(''encoding'', JString ''jsonParsed''),
            (''commitment'', JString commitment), (''maxSupportedTransactionVersion'', JNumber (PosInt 0))]]) w of
        (Err e, w') \<Rightarrow> (Err e, w')
      | (Ok result, w') \<Rightarrow> if is_null result then (Ok None, w') else (Ok (Some result), w'))"

definition http_get_latest_blockhash ::
    "json_text \<Rightarrow> 'w http_client \<Rightarrow> string \<Rightarrow> string \<Rightarrow> 'w \<Rightarrow> (solana_error + string) \<times> 'w" where
  "http_get_latest_blockhash T C url commitment w =
     (case rpc_call T C url ''getLatestBlockhash''
         (JArray [JObject [(''commitment'', JString commitment)]]) w of
        (Err e, w') \<Rightarrow> (Err e, w')
      | (Ok result, w') \<Rightarrow>
          (ok_or (SolRpc ''getLatestBlockhash: no blockhash'')
            (Option.bind (jpath [''value'', ''blockhash''] result) as_str), w'))"

definition http_send_transaction ::
    "json_text \<Rightarrow> 'w http_client \<Rightarrow> string \<Rightarrow> string \<Rightarrow> 'w \<Rightarrow> (solana_error + string) \<times> 'w" where
  "http_send_transaction T C url wire_base64 w =
     (case rpc_call T C url ''sendTransaction''
         (JArray [JString wire_base64, JObject [(''encoding'', JString ''base64'')]]) w of
        (Err e, w') \<Rightarrow> (Err e, w')
      | (Ok result, w') \<Rightarrow> (ok_or (SolRpc ''sendTransaction: no signature'') (as_str result), w'))"

definition http_rpc :: "json_text \<Rightarrow> 'w http_client \<Rightarrow> string \<Rightarrow> 'w solana_rpc" where
  "http_rpc T C url =
     \<lparr> sol_get_transaction = http_get_transaction T C url,
       sol_get_latest_blockhash = http_get_latest_blockhash T C url,
       sol_send_transaction = http_send_transaction T C url \<rparr>"

section \<open>Facts\<close>

lemma rpc_result_Ok_iff:
  "rpc_result T meth resp = Ok res \<longleftrightarrow>
     is_success resp \<and>
     (\<exists>v. response_json T resp = Ok v \<and> jget ''error'' v = None \<and> jget ''result'' v = Some res)"
  by (auto simp: rpc_result_def split: option.splits)

lemma rpc_call_Ok_iff:
  "rpc_call T C url meth params w = (Ok res, w') \<longleftrightarrow>
     (\<exists>resp. C (http_post url (JsonBody (rpc_body meth params))) w = (Ok resp, w') \<and>
        rpc_result T meth resp = Ok res)"
  by (auto simp: rpc_call_def split: prod.splits sum.splits)

text \<open>A transaction is shown to the rail only as the result of a successful, error-free answer.\<close>

lemma http_get_transaction_shown:
  assumes "http_get_transaction T C url sg c w = (Ok (Some txn), w')"
  shows "\<exists>req resp v. C req w = (Ok resp, w') \<and> is_success resp \<and> response_json T resp = Ok v \<and>
    jget ''error'' v = None \<and> jget ''result'' v = Some txn"
  using assms
  by (auto simp: http_get_transaction_def rpc_call_Ok_iff rpc_result_Ok_iff split: prod.splits sum.splits if_splits)

end
