(* ===== verification/Sidecar.thy ===== *)
theory Sidecar
  imports Core_Mock Fiat_Http
begin

text \<open>
  \<open>patala-sidecar\<close>: the local HTTP server in front of the rails. The token gate (\<open>auth.rs\<close>), the
  registry (\<open>registry.rs\<close>), the handlers and their error mapping (\<open>api.rs\<close>) and the application that
  wires them (\<open>lib.rs\<close>, \<open>main.rs\<close>). The web framework is the parameter \<open>L\<close>: what its extractors make
  of a request and how a header value becomes text; its routing table is the type of endpoints. A
  response carries the value its JSON encodes. The facts: what passes the gate and that nothing else
  reaches a rail, that the sidecar's own credentials never do, which answers are a 200, and a charge
  and its verification through the server the process starts with.
\<close>

section \<open>Requests and responses\<close>

text \<open>A request as the framework hands it on: header names are lower case, values are bytes.\<close>

record incoming =
  in_headers :: "(string \<times> bytes) list"
  in_query :: string
  in_body :: bytes

datatype api_body =
    BText string
  | BCapabilities rail_capabilities
  | BQuote quote
  | BReceipt receipt
  | BValid bool
  | BVerdict destination_verdict bool \<comment> \<open>\<open>verdict\<close>, \<open>is_refusal\<close>\<close>
  | BEvent webhook_event
  | BError string string \<comment> \<open>\<open>error\<close>, \<open>kind\<close>\<close>
  | BRejection string \<comment> \<open>of an extractor of the framework\<close>

record response =
  rs_status :: nat
  rs_body :: api_body

record web_lib =
  to_str :: "bytes \<Rightarrow> string option"
  json_pay_request :: "incoming \<Rightarrow> response + pay_request"
  json_receipt :: "incoming \<Rightarrow> response + receipt"
  query_map :: "incoming \<Rightarrow> response + (string \<times> string) list"
  destination_of_json :: "bytes \<Rightarrow> string + string"

section \<open>The token gate\<close>

definition TOKEN_ENV_VAR :: string where "TOKEN_ENV_VAR = ''PATALA_SIDECAR_TOKEN''"

definition token_from_env :: "(string \<Rightarrow> string option) \<Rightarrow> string + string" where
  "token_from_env env =
     (case env TOKEN_ENV_VAR of
        Some v \<Rightarrow>
          if \<not> blank v then Ok v
          else Err (TOKEN_ENV_VAR @ '' is set but empty; refusing to start unauthenticated'')
      | None \<Rightarrow>
          Err (TOKEN_ENV_VAR @ '' is not set; refusing to start unauthenticated. Set it to a random local secret, e.g.: export '' @
            TOKEN_ENV_VAR @ ''=$(openssl rand -hex 32)''))"

definition token_matches :: "string \<Rightarrow> string \<Rightarrow> bool" where
  "token_matches token presented =
     (let expected = as_bytes token; given = as_bytes presented in
      if length expected \<noteq> length given then False else diff_loop 0 (zip expected given) = 0)"

definition presented_token :: "web_lib \<Rightarrow> incoming \<Rightarrow> string option" where
  "presented_token L q =
     Option.bind (Option.bind (map_of (in_headers q) ''authorization'') (to_str L)) (strip_prefix ''Bearer '')"

definition require_token ::
    "web_lib \<Rightarrow> string \<Rightarrow> incoming \<Rightarrow> (incoming \<Rightarrow> 'w \<Rightarrow> response \<times> 'w) \<Rightarrow> 'w \<Rightarrow> response \<times> 'w" where
  "require_token L token q run w =
     (case presented_token L q of
        Some p \<Rightarrow> if token_matches token p then run q w else (\<lparr> rs_status = 401, rs_body = BText ''unauthorized'' \<rparr>, w)
      | None \<Rightarrow> (\<lparr> rs_status = 401, rs_body = BText ''unauthorized'' \<rparr>, w))"

section \<open>The registry\<close>

type_synonym 'w rail_map = "string \<rightharpoonup> 'w payment_rail"

definition default_registry :: "('w \<Rightarrow> u64) \<Rightarrow> 'w rail_map" where
  "default_registry now =
     [''mock'' \<mapsto> mock_payment_rail now (mock_new ''mock'' NonCustodialFinal [''USDC'', ''USD''])]"

section \<open>Errors\<close>

datatype api_error = UnknownRail string | Core error

fun api_error_response :: "api_error \<Rightarrow> response" where
  "api_error_response (UnknownRail i) =
     \<lparr> rs_status = 404, rs_body = BError (''no rail is registered under id '' @ debug_str i) ''unknown_rail'' \<rparr>"
| "api_error_response (Core (InvalidRequest m)) = \<lparr> rs_status = 400, rs_body = BError m ''invalid_request'' \<rparr>"
| "api_error_response (Core (Unsupported p)) =
     \<lparr> rs_status = 501, rs_body = BError (p @ '' is not supported by this rail'') ''unsupported'' \<rparr>"
| "api_error_response (Core (Rail m)) = \<lparr> rs_status = 502, rs_body = BError m ''rail_error'' \<rparr>"
| "api_error_response (Core (CrossClassFailover a b)) =
     \<lparr> rs_status = 409,
       rs_body = BError (''failover from '' @ debug_rail_class a @ '' to '' @ debug_rail_class b @ '' was not opted into'')
         ''cross_class_failover'' \<rparr>"
| "api_error_response (Core AllRailsFailed) =
     \<lparr> rs_status = 502, rs_body = BError ''no rail satisfied the request'' ''all_rails_failed'' \<rparr>"

definition respond :: "(api_error + api_body) \<Rightarrow> response" where
  "respond r = (case r of Err e \<Rightarrow> api_error_response e | Ok b \<Rightarrow> \<lparr> rs_status = 200, rs_body = b \<rparr>)"

section \<open>Handlers\<close>

definition lookup_rail :: "'w rail_map \<Rightarrow> string \<Rightarrow> api_error + 'w payment_rail" where
  "lookup_rail reg i = ok_or (UnknownRail i) (reg i)"

text \<open>A handler that asks the rail of the path, hands its errors on and wraps its answer.\<close>

definition ask ::
    "'w rail_map \<Rightarrow> string \<Rightarrow> ('w payment_rail \<Rightarrow> 'w \<Rightarrow> 'a result \<times> 'w) \<Rightarrow> ('a \<Rightarrow> api_body) \<Rightarrow> 'w \<Rightarrow>
     (api_error + api_body) \<times> 'w" where
  "ask reg i f wrap w =
     (case lookup_rail reg i of
        Err e \<Rightarrow> (Err e, w)
      | Ok R \<Rightarrow> (case f R w of (Err e, w') \<Rightarrow> (Err (Core e), w') | (Ok x, w') \<Rightarrow> (Ok (wrap x), w')))"

definition healthz :: response where
  "healthz = \<lparr> rs_status = 200, rs_body = BText ''ok'' \<rparr>"

definition api_capabilities :: "'w rail_map \<Rightarrow> string \<Rightarrow> 'w \<Rightarrow> (api_error + api_body) \<times> 'w" where
  "api_capabilities reg i w = (rbind (lookup_rail reg i) (\<lambda>R. Ok (BCapabilities (capabilities R))), w)"

definition api_quote :: "'w rail_map \<Rightarrow> string \<Rightarrow> pay_request \<Rightarrow> 'w \<Rightarrow> (api_error + api_body) \<times> 'w" where
  "api_quote reg i req w = ask reg i (\<lambda>R. rail_quote R req) BQuote w"

definition api_charge :: "'w rail_map \<Rightarrow> string \<Rightarrow> pay_request \<Rightarrow> 'w \<Rightarrow> (api_error + api_body) \<times> 'w" where
  "api_charge reg i req w = ask reg i (\<lambda>R. rail_charge R req) BReceipt w"

definition api_verify :: "'w rail_map \<Rightarrow> string \<Rightarrow> receipt \<Rightarrow> 'w \<Rightarrow> (api_error + api_body) \<times> 'w" where
  "api_verify reg i r w = ask reg i (\<lambda>R. rail_verify R r) BValid w"

definition verdict_body :: "destination_verdict \<Rightarrow> api_body" where
  "verdict_body v = BVerdict v (is_refusal v)"

definition api_validate_destination ::
    "web_lib \<Rightarrow> 'w rail_map \<Rightarrow> string \<Rightarrow> bytes \<Rightarrow> 'w \<Rightarrow> (api_error + api_body) \<times> 'w" where
  "api_validate_destination L reg i body w =
     (rbind (lookup_rail reg i) (\<lambda>R.
      rbind (map_err (\<lambda>e. Core (InvalidRequest
          (''expected a JSON object with a single string field '' @ debug_str ''destination'' @ '': '' @ e)))
        (destination_of_json L body)) (\<lambda>dest.
      Ok (verdict_body (rail_validate_destination R dest)))), w)"

definition NEVER_FORWARD :: "string list" where
  "NEVER_FORWARD = [''authorization'', ''proxy-authorization'', ''cookie'']"

definition forwarded :: "web_lib \<Rightarrow> (string \<times> bytes) list \<Rightarrow> (string \<times> string) list" where
  "forwarded L hs =
     List.map_filter (\<lambda>(name, val).
       if name \<in> set NEVER_FORWARD then None else map_option (\<lambda>v. (name, v)) (to_str L val)) hs"

text \<open>The clock reads \<open>None\<close> before the epoch.\<close>

definition unix_seconds :: "u64 option \<Rightarrow> api_error + u64" where
  "unix_seconds t =
     ok_or (Core (Rail (''patala-sidecar: the system clock is before the unix epoch, so a webhook's replay window cannot be '' @
       ''checked. Refusing the delivery rather than checking it against a fabricated time.''))) t"

definition api_webhook ::
    "web_lib \<Rightarrow> ('w \<Rightarrow> u64 option) \<Rightarrow> 'w rail_map \<Rightarrow> string \<Rightarrow> (string \<times> string) list \<Rightarrow> incoming \<Rightarrow> 'w \<Rightarrow>
     (api_error + api_body) \<times> 'w" where
  "api_webhook L clock reg i ps q w =
     (case lookup_rail reg i of
        Err e \<Rightarrow> (Err e, w)
      | Ok R \<Rightarrow>
          (case unix_seconds (clock w) of
             Err e \<Rightarrow> (Err e, w)
           | Ok now \<Rightarrow>
               let d = with_query (with_headers (delivery_new (in_body q) now) (forwarded L (in_headers q))) ps
               in (case rail_verify_webhook R d w of
                     (Err e, w') \<Rightarrow> (Err (Core e), w')
                   | (Ok ev, w') \<Rightarrow> (Ok (BEvent ev), w'))))"

section \<open>The application\<close>

text \<open>The routes of \<open>app\<close>; the rail id is a parameter of the path.\<close>

datatype endpoint =
    Healthz
  | Capabilities string
  | Quote string
  | Charge string
  | Verify string
  | ValidateDestination string
  | Webhook string

definition answer :: "(api_error + api_body) \<times> 'w \<Rightarrow> response \<times> 'w" where
  "answer m = (respond (fst m), snd m)"

text \<open>A request whose extractor fails is answered by the framework, and no handler runs.\<close>

definition extracted :: "(response + 'a) \<Rightarrow> ('a \<Rightarrow> 'w \<Rightarrow> response \<times> 'w) \<Rightarrow> 'w \<Rightarrow> response \<times> 'w" where
  "extracted x f w = (case x of Err rej \<Rightarrow> (rej, w) | Ok v \<Rightarrow> f v w)"

fun handle :: "web_lib \<Rightarrow> ('w \<Rightarrow> u64 option) \<Rightarrow> 'w rail_map \<Rightarrow> endpoint \<Rightarrow> incoming \<Rightarrow> 'w \<Rightarrow> response \<times> 'w" where
  "handle L clock reg Healthz q w = (healthz, w)"
| "handle L clock reg (Capabilities i) q w = answer (api_capabilities reg i w)"
| "handle L clock reg (Quote i) q w = extracted (json_pay_request L q) (\<lambda>req w. answer (api_quote reg i req w)) w"
| "handle L clock reg (Charge i) q w = extracted (json_pay_request L q) (\<lambda>req w. answer (api_charge reg i req w)) w"
| "handle L clock reg (Verify i) q w = extracted (json_receipt L q) (\<lambda>r w. answer (api_verify reg i r w)) w"
| "handle L clock reg (ValidateDestination i) q w = answer (api_validate_destination L reg i (in_body q) w)"
| "handle L clock reg (Webhook i) q w = extracted (query_map L q) (\<lambda>ps w. answer (api_webhook L clock reg i ps q w)) w"

definition app ::
    "web_lib \<Rightarrow> ('w \<Rightarrow> u64 option) \<Rightarrow> 'w rail_map \<Rightarrow> string \<Rightarrow> endpoint \<Rightarrow> incoming \<Rightarrow> 'w \<Rightarrow> response \<times> 'w" where
  "app L clock reg token ep q w =
     (if ep = Healthz then (healthz, w) else require_token L token q (handle L clock reg ep) w)"

text \<open>\<open>main\<close>: the port, and refusing to start without a token.\<close>

definition DEFAULT_PORT :: nat where "DEFAULT_PORT = 8420"

definition parse_u16 :: "string \<Rightarrow> nat option" where
  "parse_u16 s =
     (let ds = (case s of [] \<Rightarrow> [] | c # t \<Rightarrow> if c = CHR ''+'' then t else s)
      in if ds = [] \<or> \<not> all_digits ds then None
         else if nat_of_digits ds < 2 ^ 16 then Some (nat_of_digits ds) else None)"

definition sidecar_port :: "(string \<Rightarrow> string option) \<Rightarrow> nat" where
  "sidecar_port env =
     (case Option.bind (env ''PATALA_SIDECAR_PORT'') parse_u16 of Some p \<Rightarrow> p | None \<Rightarrow> DEFAULT_PORT)"

definition sidecar_main ::
    "web_lib \<Rightarrow> ('w \<Rightarrow> u64 option) \<Rightarrow> ('w \<Rightarrow> u64) \<Rightarrow> (string \<Rightarrow> string option) \<Rightarrow>
     string + nat \<times> (endpoint \<Rightarrow> incoming \<Rightarrow> 'w \<Rightarrow> response \<times> 'w)" where
  "sidecar_main L clock now env =
     rbind (map_err (\<lambda>msg. ''patala-sidecar: refusing to start: '' @ msg) (token_from_env env)) (\<lambda>token.
       Ok (sidecar_port env, app L clock (default_registry now) token))"

section \<open>Facts\<close>

lemma token_matches_iff: "token_matches t p \<longleftrightarrow> t = p"
proof -
  have "token_matches t p \<longleftrightarrow> constant_time_eq (as_bytes t) (as_bytes p)"
    by (simp add: token_matches_def constant_time_eq_def)
  then show ?thesis by (simp add: constant_time_eq_iff)
qed

lemma app_unauthorized:
  "ep \<noteq> Healthz \<Longrightarrow> presented_token L q \<noteq> Some token \<Longrightarrow>
     app L clock reg token ep q w = (\<lparr> rs_status = 401, rs_body = BText ''unauthorized'' \<rparr>, w)"
  by (auto simp: app_def require_token_def token_matches_iff split: option.splits)

lemma app_authorized:
  "presented_token L q = Some token \<Longrightarrow> app L clock reg token ep q w = handle L clock reg ep q w"
  by (auto simp: app_def require_token_def token_matches_iff)

lemma api_error_never_200: "rs_status (api_error_response e) \<in> {400, 404, 409, 501, 502}"
  by (cases e rule: api_error_response.cases) simp_all

lemma respond_200_iff: "rs_status (respond r) = 200 \<longleftrightarrow> (\<exists>b. r = Ok b)"
proof (cases r)
  case (Inl e)
  then show ?thesis using api_error_never_200 [of e] by (auto simp: respond_def)
qed (simp add: respond_def)

lemma ask_Ok_iff:
  "ask reg i f wrap w = (Ok b, w') \<longleftrightarrow> (\<exists>R x. reg i = Some R \<and> f R w = (Ok x, w') \<and> b = wrap x)"
  by (cases "reg i") (auto simp: ask_def lookup_rail_def split: prod.splits sum.splits)

lemma respond_eq_200: "respond r = \<lparr> rs_status = 200, rs_body = b \<rparr> \<longleftrightarrow> r = Ok b"
proof
  assume a: "respond r = \<lparr> rs_status = 200, rs_body = b \<rparr>"
  then have "rs_status (respond r) = 200" by simp
  then obtain b' where "r = Ok b'" unfolding respond_200_iff by blast
  with a show "r = Ok b" by (simp add: respond_def)
qed (simp add: respond_def)

text \<open>An extractor of the framework never answers with a 200.\<close>

definition rejects :: "web_lib \<Rightarrow> bool" where
  "rejects L \<longleftrightarrow>
     (\<forall>q rej. (json_pay_request L q = Err rej \<or> json_receipt L q = Err rej \<or> query_map L q = Err rej) \<longrightarrow>
        400 \<le> rs_status rej)"

lemma answer_eq_200: "answer m = (\<lparr> rs_status = 200, rs_body = b \<rparr>, w') \<longleftrightarrow> m = (Ok b, w')"
  by (cases m) (auto simp: answer_def respond_eq_200)

lemma extracted_eq_200:
  "(\<And>rej. x = Err rej \<Longrightarrow> rs_status rej \<noteq> 200) \<Longrightarrow>
     extracted x f w = (\<lparr> rs_status = 200, rs_body = b \<rparr>, w') \<longleftrightarrow>
       (\<exists>v. x = Ok v \<and> f v w = (\<lparr> rs_status = 200, rs_body = b \<rparr>, w'))"
  by (cases x) (auto simp: extracted_def)

text \<open>What a rail finds in a forwarded delivery.\<close>

lemma header_with_query [simp]: "header (with_query d ps) n = header d n"
  by (simp add: header_def with_query_frame)

lemma header_delivery_new [simp]: "header (delivery_new b t) n = None"
  by (simp add: header_def delivery_new_def)

lemma forwarded_Cons:
  "forwarded L ((name, val) # hs) =
     (if name \<in> set NEVER_FORWARD then forwarded L hs
      else case to_str L val of None \<Rightarrow> forwarded L hs | Some v \<Rightarrow> (name, v) # forwarded L hs)"
  by (auto simp: forwarded_def List.map_filter_simps split: option.splits)

lemma forwarded_Nil: "forwarded L [] = []"
  by (simp add: forwarded_def List.map_filter_simps)

lemma forwarded_append: "forwarded L (hs @ hs') = forwarded L hs @ forwarded L hs'"
  by (induction hs) (auto simp: forwarded_Cons forwarded_Nil split: option.splits)

lemma forwarded_names: "fst ` set (forwarded L hs) \<subseteq> fst ` set hs - set NEVER_FORWARD"
proof (induction hs)
  case (Cons h hs)
  then show ?case by (cases h) (auto simp: forwarded_Cons split: option.splits if_splits)
qed (simp add: forwarded_Nil)

lemma find_None_forwarded:
  assumes "\<And>name val. (name, val) \<in> set hs \<Longrightarrow> to_ascii_lowercase name = name"
    and "to_ascii_lowercase n \<in> set NEVER_FORWARD"
  shows "find (\<lambda>(k, v). eq_ignore_ascii_case n k) (rev (forwarded L hs)) = None"
proof -
  have "\<not> eq_ignore_ascii_case n k" if "(k, v) \<in> set (forwarded L hs)" for k v
  proof -
    from that forwarded_names [of L hs] obtain val where "(k, val) \<in> set hs" "k \<notin> set NEVER_FORWARD" by force
    with assms show ?thesis by (metis eq_ignore_ascii_case_def)
  qed
  then show ?thesis by (auto simp: find_None_iff)
qed

text \<open>
  The headers a request presents as text, which is all a rail may see; and what a rail finds among those
  forwarded: nothing under a name that is kept back, the last text under any other.
\<close>

definition text_headers :: "web_lib \<Rightarrow> incoming \<Rightarrow> (string \<times> string) list" where
  "text_headers L q = [(name, v). (name, val) \<leftarrow> in_headers q, Some v \<leftarrow> [to_str L val]]"

lemma find_forwarded:
  assumes "\<And>name val. (name, val) \<in> set (in_headers q) \<Longrightarrow> to_ascii_lowercase name = name"
    and "to_ascii_lowercase n \<notin> set NEVER_FORWARD"
  shows "map_option snd (find (\<lambda>(k, v). eq_ignore_ascii_case n k) (rev (forwarded L (in_headers q)))) =
    map_of (rev (text_headers L q)) (to_ascii_lowercase n)"
proof -
  have "map_option snd (find (\<lambda>(k, v). eq_ignore_ascii_case n k) (rev (forwarded L hs))) =
      map_of (rev [(name, v). (name, val) \<leftarrow> hs, Some v \<leftarrow> [to_str L val]]) (to_ascii_lowercase n)"
    if "\<forall>(name, val) \<in> set hs. to_ascii_lowercase name = name" for hs
    using that
  proof (induction hs rule: rev_induct)
    case (snoc h hs)
    then show ?case
      using assms(2)
      by (cases h) (auto simp: forwarded_append forwarded_Cons forwarded_Nil eq_ignore_ascii_case_def split: option.splits)
  qed (simp add: forwarded_Nil)
  moreover have "\<forall>(name, val) \<in> set (in_headers q). to_ascii_lowercase name = name" using assms(1) by blast
  ultimately show ?thesis unfolding text_headers_def by blast
qed

section \<open>A directory of rails\<close>

text \<open>
  What the handlers rely on: every rail is filed under its own id and is a rail that can verify. Then
  an answer of the server speaks of the rail the path names.
\<close>

locale rail_directory =
  fixes reg :: "'w rail_map" and good :: "'w \<Rightarrow> bool"
  assumes filed: "reg i = Some R \<Longrightarrow> rail_id R = i"
    and served: "reg i = Some R \<Longrightarrow> rail_base R good"
begin

lemma verified_names_path: "api_verify reg i r w = (Ok (BValid True), w') \<Longrightarrow> r_rail_id r = i"
  using filed rail_base.verify_True_names_rail [OF served] by (auto simp: api_verify_def ask_Ok_iff)

lemma charged_names_path:
  assumes "good w" "api_charge reg i req w = (Ok (BReceipt r), w')"
  shows "r_rail_id r = i \<and> good w' \<and> well_formed_request req"
proof -
  from assms(2) obtain R where R: "reg i = Some R" "rail_charge R req w = (Ok r, w')"
    by (auto simp: api_charge_def ask_Ok_iff)
  note core = rail_base.axioms(1) [OF served [OF R(1)]]
  show ?thesis
    using rail_core.charge_names_rail [OF core assms(1) R(2)] rail_core.charge_good [OF core assms(1) R(2)]
      rail_core.charge_Ok_well_formed [OF core R(2)] filed [OF R(1)] by simp
qed

lemma verdict_names_path:
  "api_validate_destination L reg i body w = (Ok (BVerdict v f), w') \<Longrightarrow> honest_verdict i v \<and> f = is_refusal v"
  using filed rail_core.verdict_honest [OF rail_base.axioms(1) [OF served]]
  by (auto simp: api_validate_destination_def lookup_rail_def verdict_body_def)

end

lemma m_id_mock_new [simp]: "m_id (mock_new i c cs) = i"
  by (simp add: mock_new_def Let_def)

lemma default_registry_Some_iff:
  "default_registry now i = Some R \<longleftrightarrow>
     i = ''mock'' \<and> R = mock_payment_rail now (mock_new ''mock'' NonCustodialFinal [''USDC'', ''USD''])"
  by (auto simp: default_registry_def)

interpretation sidecar: rail_directory "default_registry now" "\<lambda>_. True"
  for now :: "'w \<Rightarrow> u64"
  by (rule rail_directory.intro) (auto simp: default_registry_Some_iff intro: mock.rail_base_axioms)

section \<open>Properties\<close>

text \<open>
  The token gate decides by the token alone. The liveness route always answers; on every other
  route a request whose first \<open>authorization\<close> header reads as \<open>Bearer\<close> and exactly the token goes to
  its handler, and every other request is the same 401 and leaves the world as it was, whatever the
  registry holds.
\<close>

theorem sidecar_gate_exact:
  "app L clock reg token ep q w =
     (if ep = Healthz then (\<lparr> rs_status = 200, rs_body = BText ''ok'' \<rparr>, w)
      else if (\<exists>val s. map_of (in_headers q) ''authorization'' = Some val \<and> to_str L val = Some s \<and>
                 strip_prefix ''Bearer '' s = Some token)
      then handle L clock reg ep q w
      else (\<lparr> rs_status = 401, rs_body = BText ''unauthorized'' \<rparr>, w))"
proof -
  have "(\<exists>val s. map_of (in_headers q) ''authorization'' = Some val \<and> to_str L val = Some s \<and>
            strip_prefix ''Bearer '' s = Some token) \<longleftrightarrow> presented_token L q = Some token"
    by (auto simp: presented_token_def bind_eq_Some_conv)
  then show ?thesis
    by (cases "ep = Healthz")
      (auto simp: app_def healthz_def require_token_def token_matches_iff split: option.splits)
qed

text \<open>
  C26: the sidecar's own credentials never reach a rail. An authenticated webhook request is handed to
  the rail of its path as a delivery with the body byte for byte, the time the clock read and the
  query the framework parsed, where a repeated name has its last value. No spelling of
  \<open>Authorization\<close>, \<open>Proxy-Authorization\<close> or \<open>Cookie\<close> finds anything in it, and any other header
  name finds the last value of that name that is text. The rail's answer comes back as it is. The
  framework's header names are lower case.
\<close>

theorem sidecar_credentials_never_forwarded:
  assumes "presented_token L q = Some token" "query_map L q = Ok ps" "reg i = Some R" "clock w = Some t"
    and "\<And>name val. (name, val) \<in> set (in_headers q) \<Longrightarrow> to_ascii_lowercase name = name"
  shows "\<exists>d. app L clock reg token (Webhook i) q w =
       answer (case rail_verify_webhook R d w of
                 (Err e, w') \<Rightarrow> (Err (Core e), w') | (Ok ev, w') \<Rightarrow> (Ok (BEvent ev), w')) \<and>
     raw_body d = in_body q \<and> Core_Webhook.now_unix d = t \<and> (\<forall>k. query_param d k = map_of (rev ps) k) \<and>
     (\<forall>n. header d n =
        (if to_ascii_lowercase n \<in> {''authorization'', ''proxy-authorization'', ''cookie''} then None
         else map_of (rev (text_headers L q)) (to_ascii_lowercase n)))"
proof (intro exI conjI allI)
  let ?d = "with_query (with_headers (delivery_new (in_body q) t) (forwarded L (in_headers q))) ps"
  show "app L clock reg token (Webhook i) q w =
      answer (case rail_verify_webhook R ?d w of
                 (Err e, w') \<Rightarrow> (Err (Core e), w') | (Ok ev, w') \<Rightarrow> (Ok (BEvent ev), w'))"
    using assms by (simp add: app_authorized extracted_def api_webhook_def lookup_rail_def unix_seconds_def Let_def)
  show "raw_body ?d = in_body q" "Core_Webhook.now_unix ?d = t"
    by (simp_all add: with_query_frame with_headers_frame delivery_new_def)
  show "query_param ?d k = map_of (rev ps) k" for k
    by (simp add: query_param_def query_with_query with_headers_frame delivery_new_def)
  show "header ?d n = (if to_ascii_lowercase n \<in> {''authorization'', ''proxy-authorization'', ''cookie''} then None
      else map_of (rev (text_headers L q)) (to_ascii_lowercase n))" for n
    using find_None_forwarded [of "in_headers q" n L] find_forwarded [of q n L] assms(5)
    by (auto simp: header_with_headers NEVER_FORWARD_def split: option.splits)
qed

definition sidecar_toy_request :: pay_request where
  "sidecar_toy_request = \<lparr> pr_amount_minor = 5, pr_currency = ''USD'', pr_destination = ''d'', pr_reference = ''r'' \<rparr>"

definition toy_issued :: receipt where
  "toy_issued =
     (let m = mock_new ''mock'' NonCustodialFinal [''USDC'', ''USD''];
          r = \<lparr> r_rail_id = m_id m, r_amount_minor = 5, r_currency = ''USD'', r_reference = ''r'', r_proof = [],
                r_settled_at_unix = 9 \<rparr>
      in r\<lparr> r_proof := keyed_digest (m_key m) (signing_bytes (m_id m) r) \<rparr>)"

lemma toy_issued_genuine:
  "mock_charge (\<lambda>_. 9) (mock_new ''mock'' NonCustodialFinal [''USDC'', ''USD'']) sidecar_toy_request () = (Ok toy_issued, ())"
proof -
  have "pay_request_validate sidecar_toy_request = Ok ()"
    by (simp add: validate_Ok_iff well_formed_request_def sidecar_toy_request_def not_blank_Cons graphic_def)
  moreover have "currency_supported (mock_new ''mock'' NonCustodialFinal [''USDC'', ''USD'']) ''USD''"
    "\<not> m_fail (mock_new ''mock'' NonCustodialFinal [''USDC'', ''USD''])"
    by (simp_all add: currency_supported_def mock_new_def Let_def)
  ultimately show ?thesis
    by (simp add: mock_charge_def toy_issued_def Let_def) (simp add: sidecar_toy_request_def)
qed

definition toy_web :: web_lib where
  "toy_web =
     \<lparr> to_str = \<lambda>_. Some ''Bearer t'', json_pay_request = \<lambda>_. Ok sidecar_toy_request, json_receipt = \<lambda>_. Ok toy_issued,
       query_map = \<lambda>_. Ok [(''k'', ''v'')], destination_of_json = \<lambda>_. Ok ''d'' \<rparr>"

definition toy_incoming :: incoming where
  "toy_incoming = \<lparr> in_headers = [(''authorization'', [])], in_query = [], in_body = [1] \<rparr>"

lemma toy_presented: "presented_token toy_web toy_incoming = Some ''t''"
  by (simp add: presented_token_def toy_web_def toy_incoming_def)

theorem sidecar_credentials_never_forwarded_witness:
  "\<exists>d. app toy_web (\<lambda>_. Some 9) (default_registry (\<lambda>_. 9)) ''t'' (Webhook ''mock'') toy_incoming () =
       answer (case rail_verify_webhook
                   (mock_payment_rail (\<lambda>_. 9) (mock_new ''mock'' NonCustodialFinal [''USDC'', ''USD''])) d () of
                 (Err e, w') \<Rightarrow> (Err (Core e), w') | (Ok ev, w') \<Rightarrow> (Ok (BEvent ev), w')) \<and>
     raw_body d = in_body toy_incoming \<and> Core_Webhook.now_unix d = 9 \<and> (\<forall>k. query_param d k = map_of (rev [(''k'', ''v'')]) k) \<and>
     (\<forall>n. header d n = (if to_ascii_lowercase n \<in> {''authorization'', ''proxy-authorization'', ''cookie''} then None
         else map_of (rev (text_headers toy_web toy_incoming)) (to_ascii_lowercase n)))"
proof (rule sidecar_credentials_never_forwarded [OF toy_presented])
  show "query_map toy_web toy_incoming = Ok [(''k'', ''v'')]" by (simp add: toy_web_def)
  show "to_ascii_lowercase name = name" if "(name, val) \<in> set (in_headers toy_incoming)" for name val
    using that by (simp add: toy_incoming_def to_ascii_lowercase_def to_lower_def is_ascii_upper_def)
qed (simp_all add: default_registry_def)

text \<open>
  C25: a positive answer of the server is the rail's own. With extractors that reject with an error
  status, the verify route answers 200 with \<open>valid: true\<close> exactly when the request bears the token,
  its body is a receipt, a rail is registered under the path's id and that rail's \<open>verify\<close> said yes;
  no error, missing rail or failed parse is ever answered like that.
\<close>

theorem sidecar_valid_iff_rail_verifies:
  assumes "rejects L"
  shows "app L clock reg token (Verify i) q w = (\<lparr> rs_status = 200, rs_body = BValid True \<rparr>, w') \<longleftrightarrow>
     presented_token L q = Some token \<and>
     (\<exists>r R. json_receipt L q = Ok r \<and> reg i = Some R \<and> rail_verify R r w = (Ok True, w'))"
proof (cases "presented_token L q = Some token")
  case True
  have rej: "rs_status rej \<noteq> 200" if "json_receipt L q = Err rej" for rej
  proof -
    have "400 \<le> rs_status rej" using assms that unfolding rejects_def by blast
    then show ?thesis by simp
  qed
  show ?thesis
    by (auto simp: True app_authorized extracted_eq_200 [OF rej] answer_eq_200 api_verify_def ask_Ok_iff)
qed (simp add: app_unauthorized)

lemma toy_web_rejects: "rejects toy_web"
  by (simp add: rejects_def toy_web_def)

theorem sidecar_valid_iff_rail_verifies_witness:
  "app toy_web (\<lambda>_. Some 9) (default_registry (\<lambda>_. 9)) ''t'' (Verify ''mock'') toy_incoming () =
     (\<lparr> rs_status = 200, rs_body = BValid True \<rparr>, ())"
  unfolding sidecar_valid_iff_rail_verifies [OF toy_web_rejects]
  using mock_charge_verifies [OF toy_issued_genuine, of "()"]
  by (simp add: toy_presented default_registry_def) (simp add: toy_web_def)

text \<open>
  Through the server the process starts with, a charge and its verification agree. Whatever
  receipt an authenticated charge on the registered rail answered with, sending that receipt to the
  verify route with the token, at any later time, answers 200 with \<open>valid: true\<close>.
\<close>

theorem sidecar_charge_then_verify:
  assumes "rejects L" "presented_token L q1 = Some token" "presented_token L q2 = Some token"
    and "app L clock (default_registry now) token (Charge i) q1 w = (\<lparr> rs_status = 200, rs_body = BReceipt r \<rparr>, w1)"
    and "json_receipt L q2 = Ok r"
  shows "app L clock (default_registry now) token (Verify i) q2 w2 = (\<lparr> rs_status = 200, rs_body = BValid True \<rparr>, w2)"
proof -
  have rej: "rs_status rej \<noteq> 200" if "json_pay_request L q1 = Err rej" for rej
  proof -
    have "400 \<le> rs_status rej" using assms(1) that unfolding rejects_def by blast
    then show ?thesis by simp
  qed
  from assms(4) obtain req R where "default_registry now i = Some R" "rail_charge R req w = (Ok r, w1)"
    by (auto simp: app_authorized [OF assms(2)] extracted_eq_200 [OF rej] answer_eq_200 api_charge_def ask_Ok_iff)
  then have reg: "i = ''mock''"
      "mock_charge now (mock_new ''mock'' NonCustodialFinal [''USDC'', ''USD'']) req w = (Ok r, w1)"
    by (auto simp: default_registry_Some_iff)
  from mock_charge_verifies [OF reg(2), of w2] show ?thesis
    by (simp add: app_authorized [OF assms(3)] extracted_def assms(5) answer_def respond_def api_verify_def ask_def
        lookup_rail_def reg(1) default_registry_def)
qed

lemma sidecar_toy_charge:
  "app toy_web (\<lambda>_. Some 9) (default_registry (\<lambda>_. 9)) ''t'' (Charge ''mock'') toy_incoming () =
     (\<lparr> rs_status = 200, rs_body = BReceipt toy_issued \<rparr>, ())"
  by (simp add: app_authorized [OF toy_presented] extracted_def answer_def respond_def api_charge_def ask_def
      lookup_rail_def default_registry_def)
    (simp add: toy_web_def toy_issued_genuine)

theorem sidecar_charge_then_verify_witness:
  "app toy_web (\<lambda>_. Some 9) (default_registry (\<lambda>_. 9)) ''t'' (Verify ''mock'') toy_incoming () =
     (\<lparr> rs_status = 200, rs_body = BValid True \<rparr>, ())"
  by (rule sidecar_charge_then_verify [OF toy_web_rejects toy_presented toy_presented sidecar_toy_charge])
    (simp add: toy_web_def)

end
