(* ===== verification/Hyperswitch_Rail.thy ===== *)
theory Hyperswitch_Rail
  imports Fiat_Adapter Form_Encoding
begin

text \<open>
  \<open>patala-hyperswitch\<close>: one rail in front of a self-hosted Hyperswitch instance. Configuration and
  its redacted rendering, the wire types, the webhook signature, and every method of the rail over
  an HTTP client \<open>C\<close>; the structures \<open>serde\<close> reads and writes go through \<open>J\<close>, which also displays a
  status code. The facts: the full contract of a rail, when exactly \<open>verify\<close> says yes, that it never
  does for the receipt of a payment that was pending, and that rendering a configuration shows
  nothing of its secrets.
\<close>

section \<open>Configuration\<close>

record hs_config =
  hs_base_url :: string
  hs_api_key :: string
  hs_connector :: "string option"
  hs_webhook_secret :: "string option"
  hs_requires_kyc :: bool
  hs_currencies :: "string list"
  hs_settlement_days :: u8
  hs_timeout_secs :: u64

definition hs_config_from_env :: "environment \<Rightarrow> hs_config result" where
  "hs_config_from_env env =
     rbind (non_empty_env env ''HYPERSWITCH_BASE_URL'') (\<lambda>base_url.
     rbind (non_empty_env env ''HYPERSWITCH_API_KEY'') (\<lambda>api_key.
       Ok \<lparr> hs_base_url = trim_end_slashes base_url, hs_api_key = api_key,
            hs_connector = non_blank_env env ''HYPERSWITCH_CONNECTOR'',
            hs_webhook_secret = non_blank_env env ''HYPERSWITCH_WEBHOOK_SECRET'',
            hs_requires_kyc = env_flag env ''HYPERSWITCH_REQUIRES_KYC'' True,
            hs_currencies = env_currencies env ''HYPERSWITCH_CURRENCIES'' [''USD''],
            hs_settlement_days = env_u8 env ''HYPERSWITCH_SETTLEMENT_DAYS'' 2,
            hs_timeout_secs = env_u64 env ''HYPERSWITCH_TIMEOUT_SECS'' 30 \<rparr>))"

text \<open>\<open>Debug for HyperswitchConfig\<close>, with what \<open>{:?}\<close> makes of an option and of a list.\<close>

definition redacted :: "bool \<Rightarrow> string" where
  "redacted present = (if present then ''<redacted>'' else ''<unset>'')"

fun debug_opt :: "string option \<Rightarrow> string" where
  "debug_opt None = ''None''"
| "debug_opt (Some s) = ''Some('' @ debug_str s @ '')''"

fun comma_sep :: "string list \<Rightarrow> string" where
  "comma_sep [] = []"
| "comma_sep [s] = s"
| "comma_sep (s # t # ss) = s @ '', '' @ comma_sep (t # ss)"

definition debug_strs :: "string list \<Rightarrow> string" where
  "debug_strs ss = ''['' @ comma_sep (map debug_str ss) @ '']''"

definition debug_bool :: "bool \<Rightarrow> string" where
  "debug_bool b = (if b then ''true'' else ''false'')"

definition hs_config_debug :: "hs_config \<Rightarrow> string" where
  "hs_config_debug c =
     ''HyperswitchConfig { base_url: '' @ debug_str (hs_base_url c) @
     '', api_key: '' @ debug_str (redacted (hs_api_key c \<noteq> [])) @
     '', connector: '' @ debug_opt (hs_connector c) @
     '', webhook_secret: '' @ debug_str (redacted (hs_webhook_secret c \<noteq> None)) @
     '', requires_kyc: '' @ debug_bool (hs_requires_kyc c) @
     '', currencies: '' @ debug_strs (hs_currencies c) @
     '', settlement_days: '' @ dec_of_nat (unat (hs_settlement_days c)) @
     '', timeout_secs: '' @ dec_of_nat (unat (hs_timeout_secs c)) @ '' }''"

section \<open>Wire types\<close>

datatype intent_status =
    IsSucceeded | IsFailed | IsCancelled | IsCancelledPostCapture | IsProcessing | IsRequiresCustomerAction
  | IsRequiresMerchantAction | IsRequiresPaymentMethod | IsRequiresConfirmation | IsRequiresCapture
  | IsPartiallyCaptured | IsPartiallyCapturedAndCapturable | IsPartiallyAuthorizedAndRequiresCapture
  | IsPartiallyCapturedAndProcessing | IsConflicted | IsExpired | IsReview

definition hs_is_settled_success :: "intent_status \<Rightarrow> bool" where
  "hs_is_settled_success s = (case s of IsSucceeded \<Rightarrow> True | _ \<Rightarrow> False)"

datatype refund_status = RsSucceeded | RsFailed | RsPending | RsReview

record hs_refund_response =
  hr_refund_id :: string
  hr_payment_id :: string
  hr_amount :: u64
  hr_currency :: string
  hr_refund_status :: refund_status

text \<open>\<open>next_action\<close> is kept as the redirect URL it may carry.\<close>

record hs_payment =
  hp_payment_id :: string
  hp_status :: intent_status
  hp_amount :: u64
  hp_amount_received :: "u64 option"
  hp_currency :: string
  hp_next_action :: "string option option"
  hp_refunds :: "hs_refund_response list option"

record hs_error_response =
  he_error_type :: "string option"
  he_message :: "string option"

record hs_charge_proof =
  hc_payment_id :: string
  hc_status_at_charge :: intent_status
  hc_redirect_to_url :: "string option"

record hs_refund_proof =
  hf_refund_id :: string
  hf_payment_id :: string
  hf_status_at_refund :: refund_status

record hs_codec =
  hsj_payment :: "bytes \<Rightarrow> string + hs_payment"
  hsj_refund :: "bytes \<Rightarrow> string + hs_refund_response"
  hsj_error :: "bytes \<Rightarrow> hs_error_response option"
  hsj_proof_to_bytes :: "hs_charge_proof \<Rightarrow> bytes"
  hsj_proof_from_bytes :: "bytes \<Rightarrow> hs_charge_proof option"
  hsj_refund_to_bytes :: "hs_refund_proof \<Rightarrow> bytes"
  hsj_status_show :: "nat \<Rightarrow> string"

section \<open>Webhook signature\<close>

definition hs_verify_webhook_signature :: "mac_lib \<Rightarrow> bytes \<Rightarrow> bytes \<Rightarrow> string \<Rightarrow> bool" where
  "hs_verify_webhook_signature H secret body signature_header =
     (if secret = [] \<or> blank signature_header then False
      else case mac_hex_decode H (trim signature_header) of
        None \<Rightarrow> False
      | Some expected_bytes \<Rightarrow> hmac_sha512 H secret body = expected_bytes)"

section \<open>The rail\<close>

record hs_rail =
  hs_cfg :: hs_config
  hs_capabilities :: rail_capabilities

definition hs_new :: "(u64 \<Rightarrow> string + unit) \<Rightarrow> hs_config \<Rightarrow> hs_rail result" where
  "hs_new client config =
     rbind (require_non_empty ''base_url'' (hs_base_url config)) (\<lambda>_.
     rbind (require_non_empty ''api_key'' (hs_api_key config)) (\<lambda>_.
     if hs_currencies config = [] then Err (InvalidRequest ''currencies must not be empty'')
     else
       rbind (build_client ''hyperswitch'' client (hs_timeout_secs config)) (\<lambda>_.
         Ok \<lparr> hs_cfg = config,
              hs_capabilities = custodial_caps True (hs_requires_kyc config) (hs_currencies config)
                (Days (hs_settlement_days config)) \<rparr>)))"

definition hs_check_currency :: "hs_rail \<Rightarrow> string \<Rightarrow> unit result" where
  "hs_check_currency R currency = check_listed_currency ''hyperswitch'' (currencies (hs_capabilities R)) currency"

definition hs_request :: "hs_rail \<Rightarrow> string \<Rightarrow> string \<Rightarrow> http_body \<Rightarrow> http_request" where
  "hs_request R meth path body =
     \<lparr> hq_method = meth, hq_url = hs_base_url (hs_cfg R) @ path, hq_auth = NoAuth,
       hq_headers = [(''api-key'', hs_api_key (hs_cfg R))], hq_body = body \<rparr>"

text \<open>The first \<open>n\<close> characters of a string, which take one leading byte and its continuation bytes each.\<close>

function take_chars :: "nat \<Rightarrow> string \<Rightarrow> string" where
  "take_chars 0 s = []"
| "take_chars (Suc n) [] = []"
| "take_chars (Suc n) (c # s) =
     c # takeWhile (\<lambda>d. utf8_cont (code d)) s @ take_chars n (dropWhile (\<lambda>d. utf8_cont (code d)) s)"
  by pat_completeness auto
termination by (relation "measure fst") auto

definition hs_error_message :: "hs_codec \<Rightarrow> bytes \<Rightarrow> string" where
  "hs_error_message J bs =
     (case Option.bind (hsj_error J bs)
          (\<lambda>e. case he_message e of Some m \<Rightarrow> Some m | None \<Rightarrow> he_error_type e) of
        Some m \<Rightarrow> m
      | None \<Rightarrow> take_chars 300 (utf8_lossy (string_of_bytes bs)))"

definition hs_parse_response :: "hs_codec \<Rightarrow> (bytes \<Rightarrow> string + 'a) \<Rightarrow> http_response \<Rightarrow> 'a result" where
  "hs_parse_response J parse resp =
     rbind (map_err (\<lambda>e. Rail (''failed reading hyperswitch response body: '' @ e)) (hr_body resp)) (\<lambda>bs.
     if \<not> is_success resp then
       Err (Rail (''hyperswitch returned HTTP '' @ hsj_status_show J (hr_status resp) @ '': '' @ hs_error_message J bs))
     else
       map_err (\<lambda>e. Rail (''failed decoding hyperswitch response ('' @ dec_of_nat (length bs) @ '' bytes): '' @ e))
         (parse bs))"

text \<open>\<open>get\<close> and \<open>post\<close>: both send, name the path when the sending fails, and read the answer.\<close>

definition hs_send ::
    "hs_codec \<Rightarrow> (bytes \<Rightarrow> string + 'a) \<Rightarrow> 'w http_client \<Rightarrow> hs_rail \<Rightarrow> string \<Rightarrow> string \<Rightarrow> http_body \<Rightarrow> 'w \<Rightarrow>
     'a result \<times> 'w" where
  "hs_send J parse C R meth path body w =
     (case C (hs_request R meth path body) w of
        (Err e, w') \<Rightarrow> (Err (Rail (''hyperswitch request to '' @ path @ '' failed: '' @ e)), w')
      | (Ok resp, w') \<Rightarrow> (hs_parse_response J parse resp, w'))"

definition hs_validate_destination :: "string \<Rightarrow> destination_verdict" where
  "hs_validate_destination dest =
     (if blank dest then
        malformed ''hyperswitch''
          (''an empty destination is not a usable Hyperswitch payment_token, and '' @
           ''`PayRequest::validate()` refuses one on every rail'')
      else
        unknown ''hyperswitch''
          (''the hyperswitch rail passes `destination` through as Hyperswitch's `payment_token` '' @ em_dash @
           '' a reference to a payment method tokenized out of band, NOT an address money is '' @
           ''sent to. Its format is defined by the self-hosted Hyperswitch instance and its '' @
           ''connector, not by patala, and Hyperswitch's own OpenAPI spec gives it no '' @
           ''grammar to check against; so this rail deliberately makes no format check '' @
           ''rather than guess one and refuse a token a live instance would have accepted. '' @
           ''A human, or the instance itself, must confirm this token. Note also that money '' @
           ''does not travel to this string: to give a customer their money back on this '' @
           ''rail, call `refund`.''))"

definition hs_quote :: "('w \<Rightarrow> u64) \<Rightarrow> hs_rail \<Rightarrow> pay_request \<Rightarrow> 'w \<Rightarrow> quote result \<times> 'w" where
  "hs_quote now R req w =
     (rbind (pay_request_validate req) (\<lambda>_.
      rbind (hs_check_currency R (pr_currency req)) (\<lambda>_.
        Ok (fiat_quote ''hyperswitch'' (caps_settlement (hs_capabilities R)) (now w) (pr_amount_minor req)
          (pr_currency req)))), w)"

definition hs_create_body :: "hs_rail \<Rightarrow> pay_request \<Rightarrow> json" where
  "hs_create_body R req =
     JObject ([(''amount'', JNumber (PosInt (pr_amount_minor req))), (''currency'', JString (pr_currency req)),
       (''confirm'', JBool True), (''payment_token'', JString (pr_destination req)),
       (''payment_id'', JString (pr_reference req))] @
       (case hs_connector (hs_cfg R) of None \<Rightarrow> [] | Some c \<Rightarrow> [(''connector'', JArray [JString c])]))"

definition hs_charge_guards :: "hs_rail \<Rightarrow> pay_request \<Rightarrow> unit result" where
  "hs_charge_guards R req =
     rbind (pay_request_validate req) (\<lambda>_.
     rbind (hs_check_currency R (pr_currency req)) (\<lambda>_.
     rbind (safe_path_segment ''hyperswitch id'' (pr_reference req)) (\<lambda>_. Ok ())))"

definition hs_charge_receipt :: "hs_codec \<Rightarrow> u64 \<Rightarrow> pay_request \<Rightarrow> hs_payment \<Rightarrow> receipt" where
  "hs_charge_receipt J now req p =
     (let amount = (if hs_is_settled_success (hp_status p)
                    then (case hp_amount_received p of Some a \<Rightarrow> a | None \<Rightarrow> hp_amount p) else 0);
          pf = \<lparr> hc_payment_id = hp_payment_id p, hc_status_at_charge = hp_status p,
                 hc_redirect_to_url = Option.bind (hp_next_action p) (\<lambda>n. n) \<rparr>
      in \<lparr> r_rail_id = ''hyperswitch'', r_amount_minor = amount, r_currency = hp_currency p,
           r_reference = pr_reference req, r_proof = hsj_proof_to_bytes J pf, r_settled_at_unix = now \<rparr>)"

definition hs_charge ::
    "hs_codec \<Rightarrow> ('w \<Rightarrow> u64) \<Rightarrow> 'w http_client \<Rightarrow> hs_rail \<Rightarrow> pay_request \<Rightarrow> 'w \<Rightarrow> receipt result \<times> 'w" where
  "hs_charge J now C R req w =
     (case hs_charge_guards R req of
        Err e \<Rightarrow> (Err e, w)
      | Ok _ \<Rightarrow>
          (case hs_send J (hsj_payment J) C R ''POST'' ''/payments'' (JsonBody (hs_create_body R req)) w of
             (Err e, w') \<Rightarrow> (Err e, w')
           | (Ok p, w') \<Rightarrow> (Ok (hs_charge_receipt J (now w') req p), w')))"

text \<open>The payment a receipt's proof names, if it may go into a path.\<close>

definition hs_payment_id :: "hs_codec \<Rightarrow> receipt \<Rightarrow> string option" where
  "hs_payment_id J r =
     Option.bind (hsj_proof_from_bytes J (r_proof r)) (\<lambda>p.
       case safe_path_segment ''hyperswitch id'' (hc_payment_id p) of Ok s \<Rightarrow> Some s | Err _ \<Rightarrow> None)"

text \<open>\<open>sum\<close> of the successful refunds, with the release build's wrap-around.\<close>

definition hs_refunded :: "hs_payment \<Rightarrow> u64" where
  "hs_refunded p =
     sum_list (map hr_amount (filter (\<lambda>f. hr_refund_status f = RsSucceeded)
       (case hp_refunds p of Some fs \<Rightarrow> fs | None \<Rightarrow> [])))"

definition hs_settles :: "hs_payment \<Rightarrow> receipt \<Rightarrow> bool" where
  "hs_settles p r =
     (if hp_currency p \<noteq> r_currency r then False
      else if \<not> hs_is_settled_success (hp_status p) then False
      else
        let moved = (case hp_amount_received p of Some a \<Rightarrow> a | None \<Rightarrow> 0) in
        if moved < r_amount_minor r then False
        else if r_amount_minor r \<le> hs_refunded p then False
        else True)"

definition hs_verify ::
    "hs_codec \<Rightarrow> 'w http_client \<Rightarrow> hs_rail \<Rightarrow> receipt \<Rightarrow> 'w \<Rightarrow> bool result \<times> 'w" where
  "hs_verify J C R r w =
     (if r_rail_id r \<noteq> ''hyperswitch'' then (Ok False, w)
      else case hs_payment_id J r of
        None \<Rightarrow> (Ok False, w)
      | Some pid \<Rightarrow>
          (case hs_send J (hsj_payment J) C R ''GET'' (''/payments/'' @ pid @ ''?force_sync=true'') NoBody w of
             (Err e, w') \<Rightarrow> (Err e, w')
           | (Ok p, w') \<Rightarrow> (Ok (hs_settles p r), w')))"

definition hs_refund_guards :: "hs_codec \<Rightarrow> receipt \<Rightarrow> string result" where
  "hs_refund_guards J r =
     (if r_rail_id r \<noteq> ''hyperswitch'' then Err (names_other_rail ''hyperswitch'' r)
      else
        rbind (ok_or (InvalidRequest ''receipt proof is not a hyperswitch charge proof'')
            (hsj_proof_from_bytes J (r_proof r))) (\<lambda>p.
        rbind (safe_path_segment ''hyperswitch id'' (hc_payment_id p)) (\<lambda>_. Ok (hc_payment_id p))))"

definition hs_refund_body :: "string \<Rightarrow> receipt \<Rightarrow> json" where
  "hs_refund_body pid r =
     JObject [(''payment_id'', JString pid), (''amount'', JNumber (PosInt (r_amount_minor r)))]"

definition hs_refund_receipt :: "hs_codec \<Rightarrow> u64 \<Rightarrow> receipt \<Rightarrow> hs_refund_response \<Rightarrow> receipt" where
  "hs_refund_receipt J now r f =
     \<lparr> r_rail_id = ''hyperswitch'',
       r_amount_minor = (if hr_refund_status f = RsSucceeded then hr_amount f else 0),
       r_currency = hr_currency f, r_reference = r_reference r,
       r_proof = hsj_refund_to_bytes J \<lparr> hf_refund_id = hr_refund_id f, hf_payment_id = hr_payment_id f,
         hf_status_at_refund = hr_refund_status f \<rparr>,
       r_settled_at_unix = now \<rparr>"

definition hs_refund ::
    "hs_codec \<Rightarrow> ('w \<Rightarrow> u64) \<Rightarrow> 'w http_client \<Rightarrow> hs_rail \<Rightarrow> receipt \<Rightarrow> 'w \<Rightarrow> receipt result \<times> 'w" where
  "hs_refund J now C R r w =
     (case hs_refund_guards J r of
        Err e \<Rightarrow> (Err e, w)
      | Ok pid \<Rightarrow>
          (case hs_send J (hsj_refund J) C R ''POST'' ''/refunds'' (JsonBody (hs_refund_body pid r)) w of
             (Err e, w') \<Rightarrow> (Err e, w')
           | (Ok f, w') \<Rightarrow> (Ok (hs_refund_receipt J (now w') r f), w')))"

definition hs_verify_webhook ::
    "mac_lib \<Rightarrow> hs_rail \<Rightarrow> webhook_delivery \<Rightarrow> 'w \<Rightarrow> webhook_event result \<times> 'w" where
  "hs_verify_webhook H R d w =
     (case hs_webhook_secret (hs_cfg R) of
        None \<Rightarrow> (Err (Unsupported ''verify_webhook (no HYPERSWITCH_WEBHOOK_SECRET configured)''), w)
      | Some secret \<Rightarrow>
          if secret = [] then
            (Err (Unsupported ''verify_webhook (no HYPERSWITCH_WEBHOOK_SECRET configured)''), w)
          else
            let signature = trim (header_or_empty d ''X-Webhook-Signature-512'') in
            if \<not> hs_verify_webhook_signature H (as_bytes secret) (raw_body d) signature
            then (Err (InvalidRequest ''hyperswitch: webhook signature did not verify''), w)
            else (Ok (unconfirmed ''hyperswitch'' signature []), w))"

definition hs_payment_rail ::
    "mac_lib \<Rightarrow> hs_codec \<Rightarrow> ('w \<Rightarrow> u64) \<Rightarrow> 'w http_client \<Rightarrow> hs_rail \<Rightarrow> 'w payment_rail" where
  "hs_payment_rail H J now C R =
     \<lparr> rail_id = ''hyperswitch'',
       capabilities = hs_capabilities R,
       rail_quote = hs_quote now R,
       rail_charge = hs_charge J now C R,
       rail_verify = hs_verify J C R,
       rail_validate_destination = hs_validate_destination,
       rail_refund = hs_refund J now C R,
       rail_verify_webhook = hs_verify_webhook H R \<rparr>"

section \<open>Facts\<close>

lemma hs_send_Ok_iff:
  "hs_send J parse C R meth path body w = (Ok x, w') \<longleftrightarrow>
     (\<exists>resp bs. C (hs_request R meth path body) w = (Ok resp, w') \<and> is_success resp \<and> hr_body resp = Ok bs \<and>
        parse bs = Ok x)"
  by (auto simp: hs_send_def hs_parse_response_def split: prod.splits sum.splits if_splits)

lemma hs_charge_Ok:
  "hs_charge J now C R req w = (Ok r, w') \<longleftrightarrow>
     (\<exists>p. hs_charge_guards R req = Ok () \<and>
        hs_send J (hsj_payment J) C R ''POST'' ''/payments'' (JsonBody (hs_create_body R req)) w = (Ok p, w') \<and>
        r = hs_charge_receipt J (now w') req p)"
  by (auto simp: hs_charge_def guarded_Ok case_result_pair)

lemma hs_charge_receipt_sel [simp]:
  "r_rail_id (hs_charge_receipt J t req p) = ''hyperswitch''"
  "r_reference (hs_charge_receipt J t req p) = pr_reference req"
  "r_currency (hs_charge_receipt J t req p) = hp_currency p"
  by (simp_all add: hs_charge_receipt_def Let_def)

lemma hs_charge_receipt_pending [simp]:
  "\<not> hs_is_settled_success (hp_status p) \<Longrightarrow> r_amount_minor (hs_charge_receipt J t req p) = 0"
  by (simp add: hs_charge_receipt_def Let_def)

interpretation hyperswitch: rail_contract "hs_payment_rail H J now C R" "\<lambda>_. True"
  for H J and now :: "'w \<Rightarrow> u64" and C R
proof unfold_locales
  show "honest_verdict (rail_id (hs_payment_rail H J now C R)) (rail_validate_destination (hs_payment_rail H J now C R) d)" for d
    by (simp add: hs_payment_rail_def hs_validate_destination_def)
qed (auto simp: hs_payment_rail_def hs_quote_def hs_charge_def hs_charge_guards_def hs_verify_def hs_validate_destination_def
      split: sum.splits prod.splits if_splits)

lemma hs_payment_id_Some_iff:
  "hs_payment_id J r = Some pid \<longleftrightarrow>
     (\<exists>p. hsj_proof_from_bytes J (r_proof r) = Some p \<and> safe_path_segment ''hyperswitch id'' (hc_payment_id p) = Ok pid)"
proof (cases "hsj_proof_from_bytes J (r_proof r)")
  case (Some p)
  then show ?thesis
    by (cases "safe_path_segment ''hyperswitch id'' (hc_payment_id p)") (auto simp: hs_payment_id_def)
qed (simp add: hs_payment_id_def)

lemma hs_settles_iff:
  "hs_settles p r \<longleftrightarrow>
     hp_currency p = r_currency r \<and> hp_status p = IsSucceeded \<and>
     r_amount_minor r \<le> (case hp_amount_received p of Some a \<Rightarrow> a | None \<Rightarrow> 0) \<and> hs_refunded p < r_amount_minor r"
  by (cases "hp_status p") (auto simp: hs_settles_def hs_is_settled_success_def Let_def)

lemma hs_verify_True_iff:
  "hs_verify J C R r w = (Ok True, w') \<longleftrightarrow>
     r_rail_id r = ''hyperswitch'' \<and>
     (\<exists>pid p. hs_payment_id J r = Some pid \<and>
        hs_send J (hsj_payment J) C R ''GET'' (''/payments/'' @ pid @ ''?force_sync=true'') NoBody w = (Ok p, w') \<and>
        hs_settles p r)"
  by (auto simp: hs_verify_def guarded_False case_result_pair)

lemma hs_nothing_never_verifies: "r_amount_minor r = 0 \<Longrightarrow> hs_verify J C R r w \<noteq> (Ok True, w')"
  by (auto simp: hs_verify_True_iff hs_settles_iff)

lemma hs_webhook_Ok:
  "hs_verify_webhook H R d w = (Ok ev, w') \<longleftrightarrow>
     (\<exists>secret sig. hs_webhook_secret (hs_cfg R) = Some secret \<and> secret \<noteq> [] \<and>
        sig = trim (header_or_empty d ''X-Webhook-Signature-512'') \<and>
        hs_verify_webhook_signature H (as_bytes secret) (raw_body d) sig \<and>
        ev = unconfirmed ''hyperswitch'' sig [] \<and> w' = w)"
  by (auto simp: hs_verify_webhook_def Let_def split: option.splits if_splits)

text \<open>Two configurations that differ in their secrets alone, and both have them or not, render alike.\<close>

lemma hs_debug_secret_free:
  "k \<noteq> [] \<Longrightarrow> k' \<noteq> [] \<Longrightarrow>
     hs_config_debug (c\<lparr> hs_api_key := k, hs_webhook_secret := Some s \<rparr>) =
     hs_config_debug (c\<lparr> hs_api_key := k', hs_webhook_secret := Some s' \<rparr>)"
  by (simp add: hs_config_debug_def)

text \<open>The trailing slash is only trimmed where the configuration comes from the environment.\<close>

lemma hs_from_env_no_trailing_slash:
  "hs_config_from_env env = Ok c \<Longrightarrow> hs_base_url c = u @ [x] \<Longrightarrow> x \<noteq> CHR ''/''"
proof -
  assume "hs_config_from_env env = Ok c" "hs_base_url c = u @ [x]"
  then obtain b where "rev (dropWhile (\<lambda>c. c = CHR ''/'') (rev b)) = u @ [x]"
    by (auto simp: hs_config_from_env_def trim_end_slashes_def)
  then have "dropWhile (\<lambda>c. c = CHR ''/'') (rev b) = x # rev u"
    by (metis rev_rev_ident rev.simps(2) rev_append append_Nil)
  then show "x \<noteq> CHR ''/''" by (simp add: dropWhile_eq_Cons_conv)
qed

lemma hs_new_keeps_base_url: "hs_new client c = Ok R \<Longrightarrow> hs_base_url (hs_cfg R) = hs_base_url c"
  by (auto simp: hs_new_def split: if_splits)

section \<open>Properties\<close>

text \<open>
  C28: Hyperswitch's \<open>verify\<close> says yes exactly when the receipt names this rail, its proof decodes to
  a payment id that is safe in a path, the instance answers a forced sync of that payment with a
  success, and the payment has succeeded in the receipt's very currency, has received at least the
  receipt's amount, and its successful refunds add up (modulo \<open>2 ^ 64\<close>) to less than that amount.
\<close>

theorem hyperswitch_verify_exact:
  "hs_verify J C R r w = (Ok True, w') \<longleftrightarrow>
     r_rail_id r = ''hyperswitch'' \<and>
     (\<exists>pf pid p resp bs.
        hsj_proof_from_bytes J (r_proof r) = Some pf \<and>
        safe_path_segment ''hyperswitch id'' (hc_payment_id pf) = Ok pid \<and>
        C (hs_request R ''GET'' (''/payments/'' @ pid @ ''?force_sync=true'') NoBody) w = (Ok resp, w') \<and>
        is_success resp \<and> hr_body resp = Ok bs \<and> hsj_payment J bs = Ok p \<and>
        hp_currency p = r_currency r \<and> hp_status p = IsSucceeded \<and>
        r_amount_minor r \<le> (case hp_amount_received p of Some a \<Rightarrow> a | None \<Rightarrow> 0) \<and>
        hs_refunded p < r_amount_minor r)"
  unfolding hs_verify_True_iff hs_send_Ok_iff hs_settles_iff hs_payment_id_Some_iff by blast

text \<open>
  The receipt of a payment that had not succeeded when it was charged can never verify, in any
  later world, with any client and whatever the instance then says: it claims no money, and
  \<open>verify\<close> asks that the refunds be less than what it claims.
\<close>

theorem hyperswitch_pending_never_verifies:
  assumes "hs_send J (hsj_payment J) C R ''POST'' ''/payments'' (JsonBody (hs_create_body R req)) w = (Ok p, w1)"
    and "\<not> hs_is_settled_success (hp_status p)"
    and "hs_charge J now C R req w = (Ok r, w1)"
  shows "hs_verify J' C' R' r w2 \<noteq> (Ok True, w3)"
proof (rule hs_nothing_never_verifies)
  from assms show "r_amount_minor r = 0" by (auto simp: hs_charge_Ok)
qed

definition toy_hs :: hs_rail where
  "toy_hs =
     \<lparr> hs_cfg = \<lparr> hs_base_url = ''u'', hs_api_key = ''k'', hs_connector = None, hs_webhook_secret = None,
         hs_requires_kyc = True, hs_currencies = [''USD''], hs_settlement_days = 2, hs_timeout_secs = 30 \<rparr>,
       hs_capabilities = custodial_caps True True [''USD''] (Days 2) \<rparr>"

definition toy_hs_payment :: "intent_status \<Rightarrow> hs_payment" where
  "toy_hs_payment s =
     \<lparr> hp_payment_id = ''p'', hp_status = s, hp_amount = 500, hp_amount_received = Some 500, hp_currency = ''USD'',
       hp_next_action = None, hp_refunds = None \<rparr>"

definition toy_hs_codec :: "intent_status \<Rightarrow> hs_codec" where
  "toy_hs_codec s =
     \<lparr> hsj_payment = \<lambda>_. Ok (toy_hs_payment s), hsj_refund = \<lambda>_. Err [], hsj_error = \<lambda>_. None,
       hsj_proof_to_bytes = \<lambda>_. [],
       hsj_proof_from_bytes = \<lambda>_. Some \<lparr> hc_payment_id = ''p'', hc_status_at_charge = s, hc_redirect_to_url = None \<rparr>,
       hsj_refund_to_bytes = \<lambda>_. [], hsj_status_show = \<lambda>_. [] \<rparr>"

definition toy_hs_request :: pay_request where
  "toy_hs_request = \<lparr> pr_amount_minor = 500, pr_currency = ''USD'', pr_destination = ''t'', pr_reference = ''p'' \<rparr>"

lemma toy_hs_send:
  "hs_send (toy_hs_codec s) (hsj_payment (toy_hs_codec s)) yes_client R m path b w = (Ok (toy_hs_payment s), w)"
  by (simp add: hs_send_def yes_client_def hs_parse_response_def is_success_def toy_hs_codec_def)

lemma toy_hs_guards: "hs_charge_guards toy_hs toy_hs_request = Ok ()"
  by (simp add: hs_charge_guards_def toy_hs_def toy_hs_request_def pay_request_validate_def not_blank_Cons graphic_def
      hs_check_currency_def check_listed_currency_def currency_in_def custodial_caps_def safe_path_segment_def
      eq_ignore_ascii_case_def)

lemma toy_hs_charge:
  "hs_charge (toy_hs_codec s) (\<lambda>_. 7) yes_client toy_hs toy_hs_request () =
     (Ok (hs_charge_receipt (toy_hs_codec s) 7 toy_hs_request (toy_hs_payment s)), ())"
  by (simp add: hs_charge_Ok toy_hs_guards toy_hs_send)

theorem hyperswitch_pending_never_verifies_witness:
  "hs_verify (toy_hs_codec IsSucceeded) yes_client toy_hs
     (hs_charge_receipt (toy_hs_codec IsProcessing) 7 toy_hs_request (toy_hs_payment IsProcessing)) () \<noteq> (Ok True, ())"
  by (rule hyperswitch_pending_never_verifies [OF toy_hs_send _ toy_hs_charge])
    (simp add: toy_hs_payment_def hs_is_settled_success_def)

text \<open>The same payment, charged when it had already succeeded, verifies.\<close>

lemma hyperswitch_settled_verifies:
  "hs_verify (toy_hs_codec IsSucceeded) yes_client toy_hs
     (hs_charge_receipt (toy_hs_codec IsSucceeded) 7 toy_hs_request (toy_hs_payment IsSucceeded)) () = (Ok True, ())"
  by (auto simp: hs_verify_True_iff hs_settles_iff toy_hs_send hs_payment_id_Some_iff)
    (simp_all add: toy_hs_codec_def toy_hs_payment_def hs_charge_receipt_def hs_is_settled_success_def hs_refunded_def
      safe_path_segment_def)

end
