(* ===== verification/Uniffi.thy ===== *)
theory Uniffi
  imports Core_Mock Solana_Http Stellar_Rail Stellar_Horizon Hyperswitch_Rail "HOL-Library.Multiset"
begin

text \<open>
  \<open>patala-uniffi/src/lib.rs\<close>: the object the language bindings hold. Every type that crosses has a
  mirror with its conversions, \<open>PatalaRail\<close> wraps one rail and forwards each call, and there is a
  constructor for each rail. The runtime that drives a call to its end and the wiping of seeds have no
  counterpart. A binding has no refund.
\<close>

section \<open>Mirror types\<close>

datatype ffi_rail_class = FCustodialReversible | FNonCustodialFinal

fun rail_class_from :: "rail_class \<Rightarrow> ffi_rail_class" where
  "rail_class_from CustodialReversible = FCustodialReversible"
| "rail_class_from NonCustodialFinal = FNonCustodialFinal"

fun core_rail_class :: "ffi_rail_class \<Rightarrow> rail_class" where
  "core_rail_class FCustodialReversible = CustodialReversible"
| "core_rail_class FNonCustodialFinal = NonCustodialFinal"

datatype ffi_settlement = FInstant | FSeconds u32 | FDays u8

fun settlement_from :: "settlement \<Rightarrow> ffi_settlement" where
  "settlement_from Instant = FInstant"
| "settlement_from (Seconds s) = FSeconds s"
| "settlement_from (Days d) = FDays d"

record ffi_capabilities =
  fc_rail_class :: ffi_rail_class
  fc_reversible :: bool
  fc_requires_kyc :: bool
  fc_holds_funds :: bool
  fc_currencies :: "string list"
  fc_settlement :: ffi_settlement
  fc_atomic_multi_party :: bool

definition capabilities_from :: "rail_capabilities \<Rightarrow> ffi_capabilities" where
  "capabilities_from c =
     \<lparr> fc_rail_class = rail_class_from (caps_class c), fc_reversible = reversible c, fc_requires_kyc = requires_kyc c,
       fc_holds_funds = holds_funds c, fc_currencies = currencies c,
       fc_settlement = settlement_from (caps_settlement c), fc_atomic_multi_party = atomic_multi_party c \<rparr>"

record ffi_pay_request =
  fp_amount_minor :: u64
  fp_currency :: string
  fp_destination :: string
  fp_reference :: string

definition core_pay_request :: "ffi_pay_request \<Rightarrow> pay_request" where
  "core_pay_request r =
     \<lparr> pr_amount_minor = fp_amount_minor r, pr_currency = fp_currency r, pr_destination = fp_destination r,
       pr_reference = fp_reference r \<rparr>"

record ffi_quote =
  fq_rail_id :: string
  fq_amount_minor :: u64
  fq_currency :: string
  fq_fee_minor :: u64
  fq_total_minor :: u64
  fq_settlement :: ffi_settlement
  fq_expires_at_unix :: u64

definition quote_from :: "quote \<Rightarrow> ffi_quote" where
  "quote_from q =
     \<lparr> fq_rail_id = q_rail_id q, fq_amount_minor = q_amount_minor q, fq_currency = q_currency q,
       fq_fee_minor = q_fee_minor q, fq_total_minor = q_total_minor q,
       fq_settlement = settlement_from (q_settlement q), fq_expires_at_unix = q_expires_at_unix q \<rparr>"

record ffi_receipt =
  fr_rail_id :: string
  fr_amount_minor :: u64
  fr_currency :: string
  fr_reference :: string
  fr_proof :: bytes
  fr_settled_at_unix :: u64

definition receipt_from :: "receipt \<Rightarrow> ffi_receipt" where
  "receipt_from r =
     \<lparr> fr_rail_id = r_rail_id r, fr_amount_minor = r_amount_minor r, fr_currency = r_currency r,
       fr_reference = r_reference r, fr_proof = r_proof r, fr_settled_at_unix = r_settled_at_unix r \<rparr>"

definition core_receipt :: "ffi_receipt \<Rightarrow> receipt" where
  "core_receipt r =
     \<lparr> r_rail_id = fr_rail_id r, r_amount_minor = fr_amount_minor r, r_currency = fr_currency r,
       r_reference = fr_reference r, r_proof = fr_proof r, r_settled_at_unix = fr_settled_at_unix r \<rparr>"

text \<open>The two \<open>HashMap\<close>s are lists, in the order in which they are iterated.\<close>

record ffi_delivery =
  fd_raw_body :: bytes
  fd_headers :: "(string \<times> string) list"
  fd_query :: "(string \<times> string) list option"
  fd_now_unix :: u64

definition core_delivery :: "ffi_delivery \<Rightarrow> webhook_delivery" where
  "core_delivery d =
     (let core = with_headers (delivery_new (fd_raw_body d) (fd_now_unix d)) (fd_headers d) in
      case fd_query d of Some q \<Rightarrow> with_query core q | None \<Rightarrow> core)"

datatype ffi_webhook_status = FSettled | FNotSettled | FUnconfirmed

fun webhook_status_from :: "webhook_status \<Rightarrow> ffi_webhook_status" where
  "webhook_status_from Settled = FSettled"
| "webhook_status_from NotSettled = FNotSettled"
| "webhook_status_from Unconfirmed = FUnconfirmed"

record ffi_webhook_event =
  fe_rail_id :: string
  fe_event_id :: string
  fe_reference :: string
  fe_object_id :: string
  fe_status :: ffi_webhook_status
  fe_amount_minor :: u64
  fe_currency :: string

definition webhook_event_from :: "webhook_event \<Rightarrow> ffi_webhook_event" where
  "webhook_event_from e =
     \<lparr> fe_rail_id = we_rail_id e, fe_event_id = we_event_id e, fe_reference = we_reference e,
       fe_object_id = we_object_id e, fe_status = webhook_status_from (we_status e),
       fe_amount_minor = we_amount_minor e, fe_currency = we_currency e \<rparr>"

datatype ffi_destination_status = FMalformed | FWrongNetwork | FNotAWallet | FStructurallyValid | FUnknown

fun destination_status_from :: "destination_status \<Rightarrow> ffi_destination_status" where
  "destination_status_from Malformed = FMalformed"
| "destination_status_from WrongNetwork = FWrongNetwork"
| "destination_status_from NotAWallet = FNotAWallet"
| "destination_status_from StructurallyValid = FStructurallyValid"
| "destination_status_from Unknown = FUnknown"

record ffi_destination_verdict =
  fv_rail_id :: string
  fv_status :: ffi_destination_status
  fv_reason :: string
  fv_human_must_confirm :: bool
  fv_exchange_deposit_caveat :: string
  fv_is_refusal :: bool

definition verdict_from :: "destination_verdict \<Rightarrow> ffi_destination_verdict" where
  "verdict_from v =
     \<lparr> fv_rail_id = dv_rail_id v, fv_status = destination_status_from (dv_status v), fv_reason = dv_reason v,
       fv_human_must_confirm = human_must_confirm v, fv_exchange_deposit_caveat = exchange_deposit_caveat v,
       fv_is_refusal = is_refusal v \<rparr>"

definition exported_caveat :: string where
  "exported_caveat = EXCHANGE_DEPOSIT_CAVEAT"

section \<open>Errors\<close>

datatype patala_error =
    PUnsupported string
  | PRail string
  | PInvalidRequest string
  | PCrossClassFailover ffi_rail_class ffi_rail_class
  | PAllRailsFailed

fun debug_ffi_rail_class :: "ffi_rail_class \<Rightarrow> string" where
  "debug_ffi_rail_class FCustodialReversible = ''CustodialReversible''"
| "debug_ffi_rail_class FNonCustodialFinal = ''NonCustodialFinal''"

fun patala_error_display :: "patala_error \<Rightarrow> string" where
  "patala_error_display (PUnsupported operation) = operation @ '' is not supported by this rail''"
| "patala_error_display (PRail detail) = ''rail error: '' @ detail"
| "patala_error_display (PInvalidRequest detail) = ''invalid request: '' @ detail"
| "patala_error_display (PCrossClassFailover a b) =
     ''failover from a '' @ debug_ffi_rail_class a @ '' rail to a '' @ debug_ffi_rail_class b @
     '' rail would cross the settlement-class boundary''"
| "patala_error_display PAllRailsFailed = ''no rail satisfied the request''"

fun patala_error_from :: "error \<Rightarrow> patala_error" where
  "patala_error_from (Unsupported op) = PUnsupported op"
| "patala_error_from (Rail detail) = PRail detail"
| "patala_error_from (InvalidRequest detail) = PInvalidRequest detail"
| "patala_error_from (CrossClassFailover a b) = PCrossClassFailover (rail_class_from a) (rail_class_from b)"
| "patala_error_from AllRailsFailed = PAllRailsFailed"

section \<open>Seeds\<close>

definition seed32 :: "bytes \<Rightarrow> string \<Rightarrow> patala_error + bytes" where
  "seed32 bs rail =
     (if length bs = 32 then Ok bs
      else Err (PInvalidRequest (rail @ '' keypair seed must be exactly 32 bytes, got '' @ dec_of_nat (length bs))))"

definition with_seed32 :: "bytes \<Rightarrow> string \<Rightarrow> (bytes \<Rightarrow> 'a) \<Rightarrow> patala_error + 'a" where
  "with_seed32 seed rail build = rbind (seed32 seed rail) (\<lambda>bs. Ok (build bs))"

section \<open>The object\<close>

record 'w patala_rail =
  pt_inner :: "'w payment_rail"

definition as_payment_rail :: "'w patala_rail \<Rightarrow> 'w payment_rail" where
  "as_payment_rail P = pt_inner P"

definition mock_object :: "('w \<Rightarrow> u64) \<Rightarrow> mock_rail \<Rightarrow> bool \<Rightarrow> 'w patala_rail" where
  "mock_object now m fail = \<lparr> pt_inner = mock_payment_rail now (if fail then failing m else m) \<rparr>"

definition patala_new_mock ::
    "('w \<Rightarrow> u64) \<Rightarrow> string \<Rightarrow> ffi_rail_class \<Rightarrow> string list \<Rightarrow> u64 \<Rightarrow> bool \<Rightarrow> 'w patala_rail" where
  "patala_new_mock now i cls ccys fee fail =
     mock_object now (with_fee_minor (mock_new i (core_rail_class cls) ccys) fee) fail"

definition patala_new_mock_without_destination_checks ::
    "('w \<Rightarrow> u64) \<Rightarrow> string \<Rightarrow> ffi_rail_class \<Rightarrow> string list \<Rightarrow> u64 \<Rightarrow> bool \<Rightarrow> 'w patala_rail" where
  "patala_new_mock_without_destination_checks now i cls ccys fee fail =
     mock_object now (without_destination_checks (with_fee_minor (mock_new i (core_rail_class cls) ccys) fee)) fail"

definition patala_id :: "'w patala_rail \<Rightarrow> string" where
  "patala_id P = rail_id (pt_inner P)"

definition patala_capabilities :: "'w patala_rail \<Rightarrow> ffi_capabilities" where
  "patala_capabilities P = capabilities_from (capabilities (pt_inner P))"

text \<open>\<open>.map(T::from).map_err(PatalaError::from)\<close>\<close>

definition crossed :: "('a \<Rightarrow> 'b) \<Rightarrow> 'a result \<times> 'w \<Rightarrow> (patala_error + 'b) \<times> 'w" where
  "crossed f x = (case x of (Ok a, w) \<Rightarrow> (Ok (f a), w) | (Err e, w) \<Rightarrow> (Err (patala_error_from e), w))"

definition patala_quote :: "'w patala_rail \<Rightarrow> ffi_pay_request \<Rightarrow> 'w \<Rightarrow> (patala_error + ffi_quote) \<times> 'w" where
  "patala_quote P req w = crossed quote_from (rail_quote (pt_inner P) (core_pay_request req) w)"

definition patala_charge :: "'w patala_rail \<Rightarrow> ffi_pay_request \<Rightarrow> 'w \<Rightarrow> (patala_error + ffi_receipt) \<times> 'w" where
  "patala_charge P req w = crossed receipt_from (rail_charge (pt_inner P) (core_pay_request req) w)"

definition patala_verify :: "'w patala_rail \<Rightarrow> ffi_receipt \<Rightarrow> 'w \<Rightarrow> (patala_error + bool) \<times> 'w" where
  "patala_verify P r w = crossed (\<lambda>valid. valid) (rail_verify (pt_inner P) (core_receipt r) w)"

definition patala_verify_webhook ::
    "'w patala_rail \<Rightarrow> ffi_delivery \<Rightarrow> 'w \<Rightarrow> (patala_error + ffi_webhook_event) \<times> 'w" where
  "patala_verify_webhook P d w = crossed webhook_event_from (rail_verify_webhook (pt_inner P) (core_delivery d) w)"

definition patala_validate_destination :: "'w patala_rail \<Rightarrow> string \<Rightarrow> ffi_destination_verdict" where
  "patala_validate_destination P dest = verdict_from (rail_validate_destination (pt_inner P) dest)"

section \<open>Constructors of the real rails\<close>

definition patala_new_solana ::
    "solana_lib \<Rightarrow> solana_json \<Rightarrow> json_text \<Rightarrow> ('w \<Rightarrow> u64) \<Rightarrow> 'w http_client \<Rightarrow>
     string \<Rightarrow> string \<Rightarrow> bytes option \<Rightarrow> patala_error + 'w patala_rail" where
  "patala_new_solana S J T now C rpc_url cluster keypair_seed =
     rbind (if cluster = ''devnet'' then Ok (config_devnet S rpc_url)
            else if cluster = ''mainnet'' \<or> cluster = ''mainnet-beta'' then Ok (config_mainnet S rpc_url)
            else Err (PInvalidRequest (''unknown solana cluster '' @ debug_str cluster @ ''; use '' @
                   debug_str ''devnet'' @ '' or '' @ debug_str ''mainnet''))) (\<lambda>cfg.
     let rail = solana_new cfg (http_rpc T C rpc_url) in
     rbind (case keypair_seed of
              None \<Rightarrow> Ok rail
            | Some seed \<Rightarrow> with_seed32 seed ''solana'' (sol_with_signer rail)) (\<lambda>rail.
       Ok \<lparr> pt_inner = solana_payment_rail S J now rail \<rparr>))"

definition patala_new_stellar ::
    "stellar_lib \<Rightarrow> stellar_json \<Rightarrow> json_text \<Rightarrow> ('w \<Rightarrow> u64) \<Rightarrow> 'w http_client \<Rightarrow>
     string \<Rightarrow> string \<Rightarrow> string option \<Rightarrow> bytes option \<Rightarrow> patala_error + 'w patala_rail" where
  "patala_new_stellar L J T now C horizon_url network usdc_issuer keypair_seed =
     rbind (if network = ''testnet'' then
              rbind (ok_or (PInvalidRequest (''stellar network '' @ debug_str ''testnet'' @
                       '' requires usdc_issuer (the testnet issuer rotates and has no fixed default)'')) usdc_issuer) (\<lambda>issuer.
                Ok (config_testnet issuer))
            else if network = ''public'' \<or> network = ''mainnet'' then Ok config_public
            else Err (PInvalidRequest (''unknown stellar network '' @ debug_str network @ ''; use '' @
                   debug_str ''testnet'' @ '' or '' @ debug_str ''public''))) (\<lambda>cfg.
     let rail = stellar_new cfg (horizon_rpc T C (horizon_new horizon_url)) in
     rbind (case keypair_seed of
              None \<Rightarrow> Ok rail
            | Some seed \<Rightarrow> with_seed32 seed ''stellar'' (with_signer rail)) (\<lambda>rail.
       Ok \<lparr> pt_inner = stellar_payment_rail L J now rail \<rparr>))"

definition patala_new_hyperswitch ::
    "mac_lib \<Rightarrow> hs_codec \<Rightarrow> ('w \<Rightarrow> u64) \<Rightarrow> 'w http_client \<Rightarrow> (u64 \<Rightarrow> string + unit) \<Rightarrow>
     string \<Rightarrow> string \<Rightarrow> string option \<Rightarrow> string option \<Rightarrow> bool \<Rightarrow> string list \<Rightarrow> u8 \<Rightarrow> u64 \<Rightarrow>
     patala_error + 'w patala_rail" where
  "patala_new_hyperswitch H J now C client base_url api_key connector webhook_secret kyc ccys settlement_days timeout =
     rbind (map_err patala_error_from (hs_new client
         \<lparr> hs_base_url = base_url, hs_api_key = api_key, hs_connector = connector, hs_webhook_secret = webhook_secret,
           hs_requires_kyc = kyc, hs_currencies = ccys, hs_settlement_days = settlement_days,
           hs_timeout_secs = timeout \<rparr>)) (\<lambda>rail.
       Ok \<lparr> pt_inner = hs_payment_rail H J now C rail \<rparr>)"

section \<open>Facts\<close>

lemma core_rail_class_from [simp]:
  "core_rail_class (rail_class_from c) = c" "rail_class_from (core_rail_class f) = f"
  by (cases c; simp) (cases f; simp)

lemma core_receipt_from [simp]: "core_receipt (receipt_from r) = r" "receipt_from (core_receipt f) = f"
  by (simp_all add: core_receipt_def receipt_from_def)

lemma settlement_from_inject [simp]: "settlement_from a = settlement_from b \<longleftrightarrow> a = b"
  by (cases a; cases b) simp_all

lemma rail_class_from_inject [simp]: "rail_class_from a = rail_class_from b \<longleftrightarrow> a = b"
  by (cases a; cases b) simp_all

lemma webhook_status_from_inject [simp]: "webhook_status_from a = webhook_status_from b \<longleftrightarrow> a = b"
  by (cases a; cases b) simp_all

lemma destination_status_from_inject [simp]: "destination_status_from a = destination_status_from b \<longleftrightarrow> a = b"
  by (cases a; cases b) simp_all

lemma patala_error_from_inject [simp]: "patala_error_from a = patala_error_from b \<longleftrightarrow> a = b"
  by (cases a; cases b) simp_all

lemma mirrors_inject [simp]:
  "quote_from q = quote_from q' \<longleftrightarrow> q = q'"
  "receipt_from r = receipt_from r' \<longleftrightarrow> r = r'"
  "webhook_event_from e = webhook_event_from e' \<longleftrightarrow> e = e'"
  "verdict_from v = verdict_from v' \<longleftrightarrow> v = v'"
  by (auto simp: quote_from_def receipt_from_def webhook_event_from_def verdict_from_def
      intro: quote.equality receipt.equality webhook_event.equality destination_verdict.equality)

text \<open>The mirror's errors read as the core's, but for the advice on crossing classes.\<close>

lemma patala_error_display_from:
  "(\<And>a b. e \<noteq> CrossClassFailover a b) \<Longrightarrow> patala_error_display (patala_error_from e) = error_display e"
  by (cases e) auto

lemma with_seed32_Ok_iff: "with_seed32 seed rail build = Ok x \<longleftrightarrow> length seed = 32 \<and> x = build seed"
  by (auto simp: with_seed32_def seed32_def)

lemma seed32_error_same_length:
  "length a = length b \<Longrightarrow> seed32 a rail = Err e \<Longrightarrow> seed32 b rail = Err e"
  by (auto simp: seed32_def split: if_splits)

lemma headers_with_headers:
  "headers (with_headers d hs) = headers d ++ map_of (rev (map (apfst to_ascii_lowercase) hs))"
  unfolding with_headers_def
proof (induction hs rule: rev_induct)
  case (snoc h hs)
  then show ?case by (cases h) (auto simp: with_header_def map_add_def fun_eq_iff)
qed simp

section \<open>Sessions\<close>

text \<open>What a caller does with an object, what it is told, and the same of the rail inside.\<close>

datatype patala_op =
    PId
  | PCapabilities
  | PQuote ffi_pay_request
  | PCharge ffi_pay_request
  | PVerify ffi_receipt
  | PWebhook ffi_delivery
  | PValidate string

datatype patala_answer =
    PNamed string
  | PCapable ffi_capabilities
  | PQuoted "patala_error + ffi_quote"
  | PCharged "patala_error + ffi_receipt"
  | PVerified "patala_error + bool"
  | PEvent "patala_error + ffi_webhook_event"
  | PVerdict ffi_destination_verdict

datatype core_op =
    CId
  | CCapabilities
  | CQuote pay_request
  | CCharge pay_request
  | CVerify receipt
  | CWebhook webhook_delivery
  | CValidate string

datatype core_answer =
    CNamed string
  | CCapable rail_capabilities
  | CQuoted "quote result"
  | CCharged "receipt result"
  | CVerified "bool result"
  | CEvent "webhook_event result"
  | CVerdict destination_verdict

fun patala_step :: "'w patala_rail \<Rightarrow> patala_op \<Rightarrow> 'w \<Rightarrow> patala_answer \<times> 'w" where
  "patala_step P PId w = (PNamed (patala_id P), w)"
| "patala_step P PCapabilities w = (PCapable (patala_capabilities P), w)"
| "patala_step P (PQuote q) w = apfst PQuoted (patala_quote P q w)"
| "patala_step P (PCharge q) w = apfst PCharged (patala_charge P q w)"
| "patala_step P (PVerify r) w = apfst PVerified (patala_verify P r w)"
| "patala_step P (PWebhook d) w = apfst PEvent (patala_verify_webhook P d w)"
| "patala_step P (PValidate d) w = (PVerdict (patala_validate_destination P d), w)"

fun core_step :: "'w payment_rail \<Rightarrow> core_op \<Rightarrow> 'w \<Rightarrow> core_answer \<times> 'w" where
  "core_step R CId w = (CNamed (rail_id R), w)"
| "core_step R CCapabilities w = (CCapable (capabilities R), w)"
| "core_step R (CQuote q) w = apfst CQuoted (rail_quote R q w)"
| "core_step R (CCharge q) w = apfst CCharged (rail_charge R q w)"
| "core_step R (CVerify r) w = apfst CVerified (rail_verify R r w)"
| "core_step R (CWebhook d) w = apfst CEvent (rail_verify_webhook R d w)"
| "core_step R (CValidate d) w = (CVerdict (rail_validate_destination R d), w)"

fun session :: "('o \<Rightarrow> 'w \<Rightarrow> 'a \<times> 'w) \<Rightarrow> 'o list \<Rightarrow> 'w \<Rightarrow> 'a list \<times> 'w" where
  "session step [] w = ([], w)"
| "session step (x # xs) w = (let (a, w1) = step x w; (as, w2) = session step xs w1 in (a # as, w2))"

section \<open>When two sides say the same\<close>

text \<open>
  The correspondence of the two sides, stated field by field and without the conversions: a value of the
  binding says the same as one of the core if the fields of one name agree. Headers agree up to the ASCII
  case of their names, of two alike the later counts; and a refusal is one of three verdicts.
\<close>

definition same_class :: "ffi_rail_class \<Rightarrow> rail_class \<Rightarrow> bool" where
  "same_class a b \<longleftrightarrow>
     (a, b) \<in> {(FCustodialReversible, CustodialReversible), (FNonCustodialFinal, NonCustodialFinal)}"

fun same_settlement :: "ffi_settlement \<Rightarrow> settlement \<Rightarrow> bool" where
  "same_settlement FInstant c = (c = Instant)"
| "same_settlement (FSeconds n) c = (c = Seconds n)"
| "same_settlement (FDays n) c = (c = Days n)"

definition same_capabilities :: "ffi_capabilities \<Rightarrow> rail_capabilities \<Rightarrow> bool" where
  "same_capabilities a c \<longleftrightarrow>
     same_class (fc_rail_class a) (caps_class c) \<and> fc_reversible a = reversible c \<and>
     fc_requires_kyc a = requires_kyc c \<and> fc_holds_funds a = holds_funds c \<and> fc_currencies a = currencies c \<and>
     same_settlement (fc_settlement a) (caps_settlement c) \<and> fc_atomic_multi_party a = atomic_multi_party c"

definition same_request :: "ffi_pay_request \<Rightarrow> pay_request \<Rightarrow> bool" where
  "same_request a c \<longleftrightarrow>
     fp_amount_minor a = pr_amount_minor c \<and> fp_currency a = pr_currency c \<and>
     fp_destination a = pr_destination c \<and> fp_reference a = pr_reference c"

definition same_quote :: "ffi_quote \<Rightarrow> quote \<Rightarrow> bool" where
  "same_quote a c \<longleftrightarrow>
     fq_rail_id a = q_rail_id c \<and> fq_amount_minor a = q_amount_minor c \<and> fq_currency a = q_currency c \<and>
     fq_fee_minor a = q_fee_minor c \<and> fq_total_minor a = q_total_minor c \<and>
     same_settlement (fq_settlement a) (q_settlement c) \<and> fq_expires_at_unix a = q_expires_at_unix c"

definition same_receipt :: "ffi_receipt \<Rightarrow> receipt \<Rightarrow> bool" where
  "same_receipt a c \<longleftrightarrow>
     fr_rail_id a = r_rail_id c \<and> fr_amount_minor a = r_amount_minor c \<and> fr_currency a = r_currency c \<and>
     fr_reference a = r_reference c \<and> fr_proof a = r_proof c \<and> fr_settled_at_unix a = r_settled_at_unix c"

definition same_delivery :: "ffi_delivery \<Rightarrow> webhook_delivery \<Rightarrow> bool" where
  "same_delivery a c \<longleftrightarrow>
     fd_raw_body a = raw_body c \<and> fd_now_unix a = now_unix c \<and>
     headers c = map_of (rev (map (\<lambda>(k, v). (to_ascii_lowercase k, v)) (fd_headers a))) \<and>
     query c = (case fd_query a of None \<Rightarrow> Map.empty | Some ps \<Rightarrow> map_of (rev ps))"

definition same_event :: "ffi_webhook_event \<Rightarrow> webhook_event \<Rightarrow> bool" where
  "same_event a c \<longleftrightarrow>
     fe_rail_id a = we_rail_id c \<and> fe_event_id a = we_event_id c \<and> fe_reference a = we_reference c \<and>
     fe_object_id a = we_object_id c \<and>
     (fe_status a, we_status c) \<in> {(FSettled, Settled), (FNotSettled, NotSettled), (FUnconfirmed, Unconfirmed)} \<and>
     fe_amount_minor a = we_amount_minor c \<and> fe_currency a = we_currency c"

definition same_verdict :: "ffi_destination_verdict \<Rightarrow> destination_verdict \<Rightarrow> bool" where
  "same_verdict a c \<longleftrightarrow>
     fv_rail_id a = dv_rail_id c \<and> fv_reason a = dv_reason c \<and>
     (fv_status a, dv_status c) \<in> {(FMalformed, Malformed), (FWrongNetwork, WrongNetwork), (FNotAWallet, NotAWallet),
        (FStructurallyValid, StructurallyValid), (FUnknown, Unknown)} \<and>
     fv_human_must_confirm a = human_must_confirm c \<and> fv_exchange_deposit_caveat a = exchange_deposit_caveat c \<and>
     fv_is_refusal a = (dv_status c \<in> {Malformed, WrongNetwork, NotAWallet})"

fun same_error :: "patala_error \<Rightarrow> error \<Rightarrow> bool" where
  "same_error (PUnsupported m) e = (e = Unsupported m)"
| "same_error (PRail m) e = (e = Rail m)"
| "same_error (PInvalidRequest m) e = (e = InvalidRequest m)"
| "same_error (PCrossClassFailover a b) e =
     (\<exists>c d. e = CrossClassFailover c d \<and> same_class a c \<and> same_class b d)"
| "same_error PAllRailsFailed e = (e = AllRailsFailed)"

fun same_op :: "patala_op \<Rightarrow> core_op \<Rightarrow> bool" where
  "same_op PId y = (y = CId)"
| "same_op PCapabilities y = (y = CCapabilities)"
| "same_op (PQuote q) y = (\<exists>c. y = CQuote c \<and> same_request q c)"
| "same_op (PCharge q) y = (\<exists>c. y = CCharge c \<and> same_request q c)"
| "same_op (PVerify r) y = (\<exists>c. y = CVerify c \<and> same_receipt r c)"
| "same_op (PWebhook d) y = (\<exists>c. y = CWebhook c \<and> same_delivery d c)"
| "same_op (PValidate d) y = (y = CValidate d)"

fun same_answer :: "patala_answer \<Rightarrow> core_answer \<Rightarrow> bool" where
  "same_answer (PNamed i) y = (y = CNamed i)"
| "same_answer (PCapable a) y = (\<exists>c. y = CCapable c \<and> same_capabilities a c)"
| "same_answer (PQuoted a) y = (\<exists>c. y = CQuoted c \<and> rel_sum same_error same_quote a c)"
| "same_answer (PCharged a) y = (\<exists>c. y = CCharged c \<and> rel_sum same_error same_receipt a c)"
| "same_answer (PVerified a) y = (\<exists>c. y = CVerified c \<and> rel_sum same_error (=) a c)"
| "same_answer (PEvent a) y = (\<exists>c. y = CEvent c \<and> rel_sum same_error same_event a c)"
| "same_answer (PVerdict a) y = (\<exists>c. y = CVerdict c \<and> same_verdict a c)"

text \<open>The conversions keep the correspondence: out of the core always, into it because it decides the value.\<close>

lemma same_class_from: "same_class (rail_class_from c) c"
  by (cases c) (simp_all add: same_class_def)

lemma same_settlement_from: "same_settlement (settlement_from c) c"
  by (cases c) simp_all

lemma same_error_from: "same_error (patala_error_from e) e"
  by (cases e) (simp_all add: same_class_from)

lemma same_from:
  "same_capabilities (capabilities_from k) k" "same_quote (quote_from q) q" "same_receipt (receipt_from r) r"
  "same_event (webhook_event_from e) e" "same_verdict (verdict_from v) v"
proof -
  show "same_event (webhook_event_from e) e"
    by (cases "we_status e") (simp_all add: same_event_def webhook_event_from_def)
  show "same_verdict (verdict_from v) v"
    by (cases "dv_status v") (simp_all add: same_verdict_def verdict_from_def is_refusal_def)
qed (simp_all add: same_capabilities_def capabilities_from_def same_quote_def quote_from_def same_receipt_def
    receipt_from_def same_class_from same_settlement_from)

lemma same_core:
  "same_request q c \<longleftrightarrow> core_pay_request q = c" "same_receipt r d \<longleftrightarrow> core_receipt r = d"
  by (cases q; cases c; auto simp: same_request_def core_pay_request_def)
    (cases r; cases d; auto simp: same_receipt_def core_receipt_def)

lemma same_core_delivery: "same_delivery d c \<Longrightarrow> core_delivery d = c"
  by (rule webhook_delivery.equality)
    (simp_all add: same_delivery_def core_delivery_def Let_def headers_with_headers query_with_query with_query_frame
      with_headers_frame delivery_new_def apfst_def map_prod_def split: option.split)

lemma crossed_same: "(\<And>a. same (f a) a) \<Longrightarrow> rel_sum same_error same (fst (crossed f x)) (fst x) \<and> snd (crossed f x) = snd x"
  by (cases x; cases "fst x") (auto simp: crossed_def same_error_from)

lemmas crossed_from = crossed_same [of same_quote quote_from, OF same_from(2)]
  crossed_same [of same_receipt receipt_from, OF same_from(3)] crossed_same [of "(=)" "\<lambda>v. v", OF refl]
  crossed_same [of same_event webhook_event_from, OF same_from(4)]

lemma patala_step_same:
  assumes "same_op x y"
  shows "same_answer (fst (patala_step P x w)) (fst (core_step (as_payment_rail P) y w)) \<and>
    snd (patala_step P x w) = snd (core_step (as_payment_rail P) y w)"
  using assms
  by (cases x) (auto simp: as_payment_rail_def patala_id_def patala_capabilities_def patala_quote_def patala_charge_def
      patala_verify_def patala_verify_webhook_def patala_validate_destination_def same_core same_from crossed_from
      dest!: same_core_delivery)

lemma session_same:
  assumes "list_all2 same_op xs ys"
  shows "list_all2 same_answer (fst (session (patala_step P) xs w)) (fst (session (core_step (as_payment_rail P)) ys w)) \<and>
    snd (session (patala_step P) xs w) = snd (session (core_step (as_payment_rail P)) ys w)"
  using assms
proof (induction arbitrary: w rule: list_all2_induct)
  case (Cons x xs y ys)
  show ?case
    using patala_step_same [OF Cons(1), of P w] Cons(3) [of "snd (core_step (as_payment_rail P) y w)"]
    by (simp add: Let_def case_prod_beta)
qed simp

text \<open>What a caller is told leaves no doubt about what the rail answered.\<close>

lemma same_unique:
  "same_class a b \<Longrightarrow> same_class a b' \<Longrightarrow> b = b'" "same_settlement s t \<Longrightarrow> same_settlement s t' \<Longrightarrow> t = t'"
  by (auto simp: same_class_def) (cases s; simp)

lemma same_error_unique: "same_error a e \<Longrightarrow> same_error a e' \<Longrightarrow> e = e'"
  by (cases a) (auto dest: same_unique)

lemma same_records_unique:
  "same_capabilities k c \<Longrightarrow> same_capabilities k c' \<Longrightarrow> c = c'"
  "same_quote q d \<Longrightarrow> same_quote q d' \<Longrightarrow> d = d'"
  "same_receipt r e \<Longrightarrow> same_receipt r e' \<Longrightarrow> e = e'"
  "same_event v f \<Longrightarrow> same_event v f' \<Longrightarrow> f = f'"
  "same_verdict u g \<Longrightarrow> same_verdict u g' \<Longrightarrow> g = g'"
proof -
  show "same_capabilities k c \<Longrightarrow> same_capabilities k c' \<Longrightarrow> c = c'"
    by (cases c; cases c') (auto simp: same_capabilities_def dest: same_unique)
  show "same_quote q d \<Longrightarrow> same_quote q d' \<Longrightarrow> d = d'"
    by (cases d; cases d') (auto simp: same_quote_def dest: same_unique)
  show "same_receipt r e \<Longrightarrow> same_receipt r e' \<Longrightarrow> e = e'" by (simp add: same_core)
  show "same_event v f \<Longrightarrow> same_event v f' \<Longrightarrow> f = f'" by (cases f; cases f') (auto simp: same_event_def)
  show "same_verdict u g \<Longrightarrow> same_verdict u g' \<Longrightarrow> g = g'" by (cases g; cases g') (auto simp: same_verdict_def)
qed

lemma rel_sum_unique:
  "(\<And>x y y'. same x y \<Longrightarrow> same x y' \<Longrightarrow> y = y') \<Longrightarrow> rel_sum same_error same a c \<Longrightarrow> rel_sum same_error same a c' \<Longrightarrow> c = c'"
  by (cases a; cases c; cases c') (auto dest: same_error_unique)

lemma same_answer_unique: "same_answer a c \<Longrightarrow> same_answer a c' \<Longrightarrow> c = c'"
proof (cases a)
  case (PQuoted x)
  then show "same_answer a c \<Longrightarrow> same_answer a c' \<Longrightarrow> c = c'"
    using rel_sum_unique [OF same_records_unique(2)] by auto
next
  case (PCharged x)
  then show "same_answer a c \<Longrightarrow> same_answer a c' \<Longrightarrow> c = c'"
    using rel_sum_unique [OF same_records_unique(3)] by auto
next
  case (PVerified x)
  have "rel_sum same_error (=) x y \<Longrightarrow> rel_sum same_error (=) x y' \<Longrightarrow> y = y'" for y y'
    by (rule rel_sum_unique [of "(=)"]) simp_all
  with PVerified show "same_answer a c \<Longrightarrow> same_answer a c' \<Longrightarrow> c = c'" by auto
next
  case (PEvent x)
  then show "same_answer a c \<Longrightarrow> same_answer a c' \<Longrightarrow> c = c'"
    using rel_sum_unique [OF same_records_unique(4)] by auto
qed (auto dest: same_records_unique)

lemma same_answers_unique:
  "list_all2 same_answer xs ys \<Longrightarrow> list_all2 same_answer xs zs \<Longrightarrow> zs = ys"
proof (induction arbitrary: zs rule: list_all2_induct)
  case (Cons x xs y ys)
  then obtain z zs' where z: "zs = z # zs'" "same_answer x z" "list_all2 same_answer xs zs'"
    by (auto simp: list_all2_Cons1)
  show ?case
    unfolding z(1) by (rule arg_cong2 [of _ _ _ _ Cons, OF same_answer_unique [OF z(2) Cons.hyps(1)] Cons.IH [OF z(3)]])
qed simp

section \<open>Properties\<close>

text \<open>
  C17: an object of the bindings refines the rail it wraps. Ask the object anything, and ask the rail the
  same in its own types, where the same is said field by field and not by the object's conversions: each
  amount, destination, reference, header and byte of a proof under its own name. Then the two sequences of
  calls leave the same world, and every answer of the object says the same as the rail's, with each fee,
  total, status and error under its own name; and no answer says the same as two different ones of a rail.
\<close>

theorem patala_object_refines_rail:
  assumes "list_all2 same_op xs ys"
    and "session (patala_step P) xs w = (answers, w1)"
    and "session (core_step (as_payment_rail P)) ys w = (core_answers, w2)"
  shows "w1 = w2 \<and> list_all2 same_answer answers core_answers \<and>
    (list_all2 same_answer answers others \<longrightarrow> others = core_answers)"
proof (intro conjI impI)
  show same: "w1 = w2" "list_all2 same_answer answers core_answers"
    using session_same [OF assms(1), of P w] assms(2,3) by simp_all
  assume "list_all2 same_answer answers others"
  with same(2) show "others = core_answers" by (rule same_answers_unique)
qed

definition toy_object :: "unit patala_rail" where
  "toy_object = patala_new_mock (\<lambda>_. 9) ''m'' FNonCustodialFinal [''USD''] 3 False"

theorem patala_object_refines_rail_witness:
  "list_all2 same_answer
     (fst (session (patala_step toy_object)
       [PQuote \<lparr> fp_amount_minor = 5, fp_currency = ''USD'', fp_destination = ''d'', fp_reference = ''r'' \<rparr>, PValidate ''x''] ()))
     (fst (session (core_step (as_payment_rail toy_object))
       [CQuote \<lparr> pr_amount_minor = 5, pr_currency = ''USD'', pr_destination = ''d'', pr_reference = ''r'' \<rparr>, CValidate ''x''] ()))"
  (is "list_all2 same_answer (fst ?a) (fst ?c)")
proof -
  have "list_all2 same_op
      [PQuote \<lparr> fp_amount_minor = 5, fp_currency = ''USD'', fp_destination = ''d'', fp_reference = ''r'' \<rparr>, PValidate ''x'']
      [CQuote \<lparr> pr_amount_minor = 5, pr_currency = ''USD'', pr_destination = ''d'', pr_reference = ''r'' \<rparr>, CValidate ''x'']"
    by (simp add: same_request_def)
  from patala_object_refines_rail [OF this prod.collapse [symmetric] prod.collapse [symmetric]]
  show ?thesis by (rule conjunct1 [OF conjunct2])
qed

text \<open>
  The order in which a binding's header map is iterated, which its hash fixes and nobody chooses,
  does not matter to the delivery a rail authenticates, as long as no two header names agree up to ASCII
  case. The hypothesis is needed: of two names that do, the one iterated last is the one that is seen.
\<close>

theorem delivery_ignores_header_order:
  assumes "mset hs' = mset (fd_headers d)" "distinct (map (to_ascii_lowercase \<circ> fst) (fd_headers d))"
  shows "core_delivery (d\<lparr> fd_headers := hs' \<rparr>) = core_delivery d"
proof -
  let ?low = "map (apfst to_ascii_lowercase)"
  have perm: "mset (?low hs') = mset (?low (fd_headers d))"
    using assms(1) by simp
  have low: "distinct (map fst (?low (fd_headers d)))"
    using assms(2) by (simp add: comp_def)
  then have "distinct (map fst (?low hs'))"
    using perm by (metis mset_map mset_eq_imp_distinct_iff)
  then have "map_of (rev (?low hs')) = map_of (rev (?low (fd_headers d)))"
    using low mset_eq_setD [OF perm] by (subst map_of_inject_set) (simp_all flip: rev_map)
  then have "with_headers c hs' = with_headers c (fd_headers d)" for c
    by (intro webhook_delivery.equality) (simp_all add: headers_with_headers with_headers_frame)
  then show ?thesis by (simp add: core_delivery_def)
qed

definition toy_delivery :: ffi_delivery where
  "toy_delivery = \<lparr> fd_raw_body = [1], fd_headers = [(''A'', ''x''), (''b'', ''y'')], fd_query = None, fd_now_unix = 7 \<rparr>"

theorem delivery_ignores_header_order_witness:
  "core_delivery (toy_delivery\<lparr> fd_headers := [(''b'', ''y''), (''A'', ''x'')] \<rparr>) = core_delivery toy_delivery"
proof (rule delivery_ignores_header_order)
  show "mset [(''b'', ''y''), (''A'', ''x'')] = mset (fd_headers toy_delivery)"
    by (simp add: toy_delivery_def add_mset_commute)
  show "distinct (map (to_ascii_lowercase \<circ> fst) (fd_headers toy_delivery))"
    by (simp add: toy_delivery_def) code_simp
qed

lemma delivery_header_order_matters:
  "core_delivery (toy_delivery\<lparr> fd_headers := [(''A'', ''x''), (''a'', ''y'')] \<rparr>) \<noteq>
   core_delivery (toy_delivery\<lparr> fd_headers := [(''a'', ''y''), (''A'', ''x'')] \<rparr>)"
proof
  assume "core_delivery (toy_delivery\<lparr> fd_headers := [(''A'', ''x''), (''a'', ''y'')] \<rparr>) =
    core_delivery (toy_delivery\<lparr> fd_headers := [(''a'', ''y''), (''A'', ''x'')] \<rparr>)"
  moreover have "header (core_delivery (toy_delivery\<lparr> fd_headers := [(''A'', ''x''), (''a'', ''y'')] \<rparr>)) ''a'' = Some ''y''"
    "header (core_delivery (toy_delivery\<lparr> fd_headers := [(''a'', ''y''), (''A'', ''x'')] \<rparr>)) ''a'' = Some ''x''"
    by code_simp+
  ultimately show False by simp
qed

end
