(* ===== verification/Fiat_Paystack.thy ===== *)
theory Fiat_Paystack
  imports Fiat_Adapter
begin

text \<open>
  \<open>patala-fiat/src/paystack\<close>. Paystack's own transaction reference is the key of everything: \<open>verify\<close>
  and \<open>refund\<close> ask about the receipt's reference and never read its proof. The destination is the
  buyer's email. The structures \<open>serde\<close> reads and writes go through the codec \<open>J\<close>.
\<close>

section \<open>Configuration\<close>

definition PAYSTACK_CURRENCIES :: "string list" where
  "PAYSTACK_CURRENCIES = [''NGN'', ''GHS'', ''ZAR'', ''KES'', ''USD'']"

record paystack_config =
  ps_secret_key :: string
  ps_requires_kyc :: bool
  ps_currencies :: "string list"
  ps_settlement_days :: u8
  ps_timeout_secs :: u64

definition paystack_config_from_env :: "environment \<Rightarrow> paystack_config result" where
  "paystack_config_from_env env =
     rbind (non_empty_env env ''PAYSTACK_SECRET_KEY'') (\<lambda>secret_key.
       Ok \<lparr> ps_secret_key = secret_key,
            ps_requires_kyc = env_flag env ''PAYSTACK_REQUIRES_KYC'' True,
            ps_currencies = env_currencies env ''PAYSTACK_CURRENCIES'' PAYSTACK_CURRENCIES,
            ps_settlement_days = env_u8 env ''PAYSTACK_SETTLEMENT_DAYS'' 2,
            ps_timeout_secs = env_u64 env ''PAYSTACK_TIMEOUT_SECS'' 15 \<rparr>)"

section \<open>Wire shapes and codec\<close>

record paystack_initialized =
  pi_status :: bool
  pi_authorization_url :: string
  pi_access_code :: string
  pi_reference :: string

record paystack_transaction =
  pt_id :: i64
  pt_status :: string
  pt_reference :: string
  pt_amount :: u64
  pt_currency :: string

record paystack_refunded =
  pf_status :: bool
  pf_amount :: u64
  pf_currency :: string
  pf_data_status :: string

record paystack_codec =
  psj_error_message :: "bytes \<Rightarrow> string option"
  psj_initialize :: "bytes \<Rightarrow> string + paystack_initialized"
  psj_verify :: "bytes \<Rightarrow> string + bool \<times> paystack_transaction" \<comment> \<open>\<open>status\<close> and \<open>data\<close>\<close>
  psj_refund :: "bytes \<Rightarrow> string + paystack_refunded"
  psj_event :: "bytes \<Rightarrow> string + string \<times> paystack_transaction" \<comment> \<open>\<open>event\<close> and \<open>data\<close>\<close>
  psj_proof_to_bytes :: "string \<Rightarrow> string \<Rightarrow> bytes" \<comment> \<open>authorization url and access code\<close>

definition paystack_classify_error :: "paystack_codec \<Rightarrow> nat \<Rightarrow> bytes \<Rightarrow> error" where
  "paystack_classify_error J status body = unexpected_status ''paystack'' (psj_error_message J body) status"

definition paystack_malformed :: "string \<Rightarrow> error" where
  "paystack_malformed detail = malformed_response ''paystack'' detail"

definition is_settled_success :: "string \<Rightarrow> bool" where
  "is_settled_success status \<longleftrightarrow> status = ''success''"

section \<open>Webhook\<close>

datatype paystack_webhook_error =
    PsMissingSignature | PsInvalidSignature | PsMalformedResponse string | PsUnhandledEvent string

fun paystack_webhook_error_display :: "paystack_webhook_error \<Rightarrow> string" where
  "paystack_webhook_error_display PsMissingSignature = ''payments: paystack: missing webhook signature''"
| "paystack_webhook_error_display PsInvalidSignature = ''payments: paystack: invalid webhook signature''"
| "paystack_webhook_error_display (PsMalformedResponse m) = ''payments: paystack: malformed API response: '' @ m"
| "paystack_webhook_error_display (PsUnhandledEvent t) = ''payments: unhandled webhook event type: '' @ t"

record paystack_event =
  pe_event_id :: string
  pe_reference :: string
  pe_amount_minor :: u64
  pe_currency :: string

definition paystack_verify_and_parse ::
    "mac_lib \<Rightarrow> paystack_codec \<Rightarrow> string \<Rightarrow> bytes \<Rightarrow> string \<Rightarrow> paystack_webhook_error + paystack_event" where
  "paystack_verify_and_parse H J secret body signature_header =
     (let sig = trim signature_header in
      if sig = [] then Err PsMissingSignature
      else if \<not> verify_hmac_sha512_hex H (as_bytes secret) body sig then Err PsInvalidSignature
      else
        rbind (map_err PsMalformedResponse (psj_event J body)) (\<lambda>(event, d).
        if event \<noteq> ''charge.success'' then Err (PsUnhandledEvent event)
        else if pt_status d \<noteq> ''success'' then
          Err (PsMalformedResponse (''charge.success event carried data.status='' @ debug_str (pt_status d)))
        else if pt_reference d = [] \<or> pt_amount d = 0 then
          Err (PsMalformedResponse ''missing reference or non-positive amount'')
        else if pt_id d = 0 then
          Err (PsMalformedResponse ''no data.id: this delivery carries no id to deduplicate on'')
        else
          Ok \<lparr> pe_event_id = dec_of_int (sint (pt_id d)), pe_reference = pt_reference d,
               pe_amount_minor = pt_amount d, pe_currency = pt_currency d \<rparr>))"

section \<open>The rail\<close>

definition PAYSTACK_API_BASE :: string where "PAYSTACK_API_BASE = ''https://api.paystack.co''"

record paystack_rail =
  ps_config :: paystack_config
  ps_capabilities :: rail_capabilities
  ps_base_url :: string

definition paystack_new :: "(u64 \<Rightarrow> string + unit) \<Rightarrow> paystack_config \<Rightarrow> paystack_rail result" where
  "paystack_new client config =
     rbind (require_non_empty ''secret_key'' (ps_secret_key config)) (\<lambda>_.
     rbind (if ps_currencies config = [] then Err (InvalidRequest ''currencies must not be empty'') else Ok ()) (\<lambda>_.
     rbind (build_client ''paystack'' client (ps_timeout_secs config)) (\<lambda>_.
       Ok \<lparr> ps_config = config,
            ps_capabilities = custodial_caps True (ps_requires_kyc config) (ps_currencies config)
              (Days (ps_settlement_days config)),
            ps_base_url = PAYSTACK_API_BASE \<rparr>)))"

definition paystack_check_currency :: "paystack_rail \<Rightarrow> string \<Rightarrow> unit result" where
  "paystack_check_currency R currency = check_listed_currency ''paystack'' (currencies (ps_capabilities R)) currency"

definition paystack_request :: "paystack_rail \<Rightarrow> string \<Rightarrow> string \<Rightarrow> http_body \<Rightarrow> http_request" where
  "paystack_request R meth path body =
     \<lparr> hq_method = meth, hq_url = ps_base_url R @ path, hq_auth = NoAuth,
       hq_headers = [(''Authorization'', ''Bearer '' @ ps_secret_key (ps_config R)), (''Accept'', ''application/json'')],
       hq_body = body \<rparr>"

definition paystack_fetch ::
    "paystack_codec \<Rightarrow> (bytes \<Rightarrow> string + 'a) \<Rightarrow> 'w http_client \<Rightarrow> paystack_rail \<Rightarrow> string \<Rightarrow> string \<Rightarrow>
     http_body \<Rightarrow> 'w \<Rightarrow> 'a result \<times> 'w" where
  "paystack_fetch J parse C R meth path body w =
     fetch ''paystack'' path (paystack_classify_error J) paystack_malformed parse C (paystack_request R meth path body) w"

definition paystack_quote :: "('w \<Rightarrow> u64) \<Rightarrow> paystack_rail \<Rightarrow> pay_request \<Rightarrow> 'w \<Rightarrow> quote result \<times> 'w" where
  "paystack_quote now R req w =
     (rbind (pay_request_validate req) (\<lambda>_.
      rbind (paystack_check_currency R (pr_currency req)) (\<lambda>_.
        Ok (fiat_quote ''paystack'' (caps_settlement (ps_capabilities R)) (now w) (pr_amount_minor req) (pr_currency req)))), w)"

definition paystack_charge_body :: "string \<Rightarrow> pay_request \<Rightarrow> string \<Rightarrow> json" where
  "paystack_charge_body email req currency =
     JObject [(''email'', JString email), (''amount'', JNumber (PosInt (pr_amount_minor req))),
       (''reference'', JString (pr_reference req)), (''currency'', JString currency)]"

definition paystack_charge_guards :: "paystack_rail \<Rightarrow> pay_request \<Rightarrow> (string \<times> string) result" where
  "paystack_charge_guards R req =
     rbind (pay_request_validate req) (\<lambda>_.
     rbind (paystack_check_currency R (pr_currency req)) (\<lambda>_.
       let email = trim (pr_destination req) in
       if email = [] then Err (InvalidRequest ''paystack: destination (used as the buyer email) is required'')
       else Ok (email, to_ascii_uppercase (trim (pr_currency req)))))"

definition paystack_charge_receipt :: "paystack_codec \<Rightarrow> string \<Rightarrow> pay_request \<Rightarrow> paystack_initialized \<Rightarrow> receipt" where
  "paystack_charge_receipt J currency req parsed =
     pending_receipt ''paystack'' currency
       (if pi_reference parsed = [] then pr_reference req else pi_reference parsed)
       (psj_proof_to_bytes J (pi_authorization_url parsed) (pi_access_code parsed))"

definition paystack_charge ::
    "paystack_codec \<Rightarrow> 'w http_client \<Rightarrow> paystack_rail \<Rightarrow> pay_request \<Rightarrow> 'w \<Rightarrow> receipt result \<times> 'w" where
  "paystack_charge J C R req w =
     (case paystack_charge_guards R req of
        Err e \<Rightarrow> (Err e, w)
      | Ok (email, currency) \<Rightarrow>
          (case paystack_fetch J (psj_initialize J) C R ''POST'' ''/transaction/initialize''
              (JsonBody (paystack_charge_body email req currency)) w of
             (Err e, w') \<Rightarrow> (Err e, w')
           | (Ok parsed, w') \<Rightarrow>
               if \<not> pi_status parsed \<or> pi_authorization_url parsed = [] then
                 (Err (paystack_malformed ''status=false or empty authorization_url''), w')
               else
                 (Ok (paystack_charge_receipt J currency req parsed), w')))"

definition paystack_settles :: "string \<Rightarrow> bool \<times> paystack_transaction \<Rightarrow> receipt \<Rightarrow> bool" where
  "paystack_settles reference parsed r =
     (if \<not> fst parsed then False
      else if pt_reference (snd parsed) \<noteq> [] \<and> pt_reference (snd parsed) \<noteq> reference then False
      else covers (is_settled_success (pt_status (snd parsed))) (pt_currency (snd parsed)) (pt_amount (snd parsed)) r)"

definition paystack_verify ::
    "paystack_codec \<Rightarrow> 'w http_client \<Rightarrow> paystack_rail \<Rightarrow> receipt \<Rightarrow> 'w \<Rightarrow> bool result \<times> 'w" where
  "paystack_verify J C R r w =
     (if r_rail_id r \<noteq> ''paystack'' then (Ok False, w)
      else case safe_path_segment ''paystack reference'' (r_reference r) of
        Err _ \<Rightarrow> (Ok False, w)
      | Ok reference \<Rightarrow>
          (case paystack_fetch J (psj_verify J) C R ''GET'' (''/transaction/verify/'' @ reference) NoBody w of
             (Err e, w') \<Rightarrow> (Err e, w')
           | (Ok parsed, w') \<Rightarrow> (Ok (paystack_settles reference parsed r), w')))"

definition paystack_refund_body :: "string \<Rightarrow> receipt \<Rightarrow> json" where
  "paystack_refund_body reference r =
     JObject [(''transaction'', JString reference), (''amount'', JNumber (PosInt (r_amount_minor r)))]"

definition paystack_refund_receipt :: "u64 \<Rightarrow> receipt \<Rightarrow> paystack_refunded \<Rightarrow> receipt" where
  "paystack_refund_receipt now r parsed =
     (let succeeded = (pf_data_status parsed = ''processed'');
          currency = to_ascii_uppercase (trim (pf_currency parsed))
      in \<lparr> r_rail_id = ''paystack'', r_amount_minor = (if succeeded then pf_amount parsed else 0),
           r_currency = (if currency = [] then r_currency r else currency), r_reference = r_reference r,
           r_proof = [], r_settled_at_unix = now \<rparr>)"

definition paystack_refund ::
    "paystack_codec \<Rightarrow> ('w \<Rightarrow> u64) \<Rightarrow> 'w http_client \<Rightarrow> paystack_rail \<Rightarrow> receipt \<Rightarrow> 'w \<Rightarrow> receipt result \<times> 'w" where
  "paystack_refund J now C R r w =
     (if r_rail_id r \<noteq> ''paystack'' then (Err (names_other_rail ''paystack'' r), w)
      else case safe_path_segment ''paystack reference'' (r_reference r) of
        Err e \<Rightarrow> (Err e, w)
      | Ok reference \<Rightarrow>
          (case paystack_fetch J (psj_refund J) C R ''POST'' ''/refund'' (JsonBody (paystack_refund_body reference r)) w of
             (Err e, w') \<Rightarrow> (Err e, w')
           | (Ok parsed, w') \<Rightarrow>
               if \<not> pf_status parsed then (Err (paystack_malformed ''refund request returned status=false''), w')
               else (Ok (paystack_refund_receipt (now w') r parsed), w')))"

definition paystack_verify_webhook ::
    "mac_lib \<Rightarrow> paystack_codec \<Rightarrow> paystack_rail \<Rightarrow> webhook_delivery \<Rightarrow> 'w \<Rightarrow> webhook_event result \<times> 'w" where
  "paystack_verify_webhook H J R d w =
     (rbind (map_err (\<lambda>e. InvalidRequest (paystack_webhook_error_display e))
        (paystack_verify_and_parse H J (ps_secret_key (ps_config R)) (raw_body d)
          (header_or_empty d ''X-Paystack-Signature''))) (\<lambda>ev.
        Ok (settlement_event ''paystack'' (pe_event_id ev) (pe_reference ev) True (pe_amount_minor ev) (pe_currency ev))), w)"

definition paystack_payment_rail ::
    "mac_lib \<Rightarrow> paystack_codec \<Rightarrow> ('w \<Rightarrow> u64) \<Rightarrow> 'w http_client \<Rightarrow> paystack_rail \<Rightarrow> 'w payment_rail" where
  "paystack_payment_rail H J now C R =
     \<lparr> rail_id = ''paystack'',
       capabilities = ps_capabilities R,
       rail_quote = paystack_quote now R,
       rail_charge = paystack_charge J C R,
       rail_verify = paystack_verify J C R,
       rail_validate_destination = buyer_email ''paystack'',
       rail_refund = paystack_refund J now C R,
       rail_verify_webhook = paystack_verify_webhook H J R \<rparr>"

section \<open>Facts\<close>

lemma paystack_charge_Ok:
  "paystack_charge J C R req w = (Ok r, w') \<longleftrightarrow>
     (\<exists>email currency parsed.
        paystack_charge_guards R req = Ok (email, currency) \<and>
        says C (paystack_request R ''POST'' ''/transaction/initialize'' (JsonBody (paystack_charge_body email req currency)))
          (psj_initialize J) w parsed w' \<and>
        pi_status parsed \<and> pi_authorization_url parsed \<noteq> [] \<and>
        r = paystack_charge_receipt J currency req parsed)"
  unfolding paystack_charge_def paystack_fetch_def by (auto simp: guarded_Ok fetch_then)

lemma paystack_verify_True_iff:
  "paystack_verify J C R r w = (Ok True, w') \<longleftrightarrow>
     r_rail_id r = ''paystack'' \<and>
     (\<exists>reference parsed. safe_path_segment ''paystack reference'' (r_reference r) = Ok reference \<and>
        says C (paystack_request R ''GET'' (''/transaction/verify/'' @ reference) NoBody) (psj_verify J) w parsed w' \<and>
        paystack_settles reference parsed r)"
  by (auto simp: paystack_verify_def paystack_fetch_def guarded_False judged_fetch)

interpretation paystack: processor_rail "paystack_payment_rail H J now C R" "\<lambda>_. True"
  for H J and now :: "'w \<Rightarrow> u64" and C R
  by (intro processor_railI processor_coreI)
    (auto simp: paystack_payment_rail_def paystack_quote_def paystack_charge_def paystack_charge_receipt_def
      paystack_charge_guards_def
      paystack_verify_def paystack_verify_webhook_def Let_def split: sum.splits prod.splits if_splits)

lemma paystack_authenticated_event:
  "paystack_verify_and_parse H J secret body hdr = Ok e \<longleftrightarrow>
     trim hdr \<noteq> [] \<and> verify_hmac_sha512_hex H (as_bytes secret) body (trim hdr) \<and>
     (\<exists>d. psj_event J body = Ok (''charge.success'', d) \<and> pt_status d = ''success'' \<and>
        pt_reference d \<noteq> [] \<and> pt_amount d \<noteq> 0 \<and> pt_id d \<noteq> 0 \<and>
        e = \<lparr> pe_event_id = dec_of_int (sint (pt_id d)), pe_reference = pt_reference d,
              pe_amount_minor = pt_amount d, pe_currency = pt_currency d \<rparr>)"
  by (auto simp: paystack_verify_and_parse_def Let_def split: if_splits prod.splits)

lemma paystack_event_id_nonempty: "paystack_verify_and_parse H J secret body hdr = Ok e \<Longrightarrow> pe_event_id e \<noteq> []"
  by (auto simp: paystack_authenticated_event dec_of_int_def split: if_splits)

section \<open>Properties\<close>

text \<open>
  Paystack's \<open>verify\<close> says yes exactly when the receipt names this rail, its reference is safe in a
  path, and Paystack answers a GET of that reference, made with the configured key, with a successful
  transaction of that reference in the receipt's currency and worth at least the receipt's amount. The
  proof of the receipt plays no part.
\<close>

theorem paystack_verify_exact:
  "paystack_verify J C R r w = (Ok True, w') \<longleftrightarrow>
     r_rail_id r = ''paystack'' \<and>
     (\<exists>reference d. safe_path_segment ''paystack reference'' (r_reference r) = Ok reference \<and>
        says C (paystack_request R ''GET'' (''/transaction/verify/'' @ reference) NoBody) (psj_verify J) w (True, d) w' \<and>
        pt_reference d \<in> {[], reference} \<and> pt_status d = ''success'' \<and>
        eq_ignore_ascii_case (pt_currency d) (r_currency r) \<and> r_amount_minor r \<le> pt_amount d)"
  by (auto simp: paystack_verify_True_iff paystack_settles_def covers_iff is_settled_success_def split: if_splits)

text \<open>
  A refund of the very receipt that \<open>charge\<close> handed out asks Paystack for nothing: the receipt's
  amount is zero, and the refund request carries the receipt's amount, so any refund of it that succeeds
  was the answer to a request for zero.
\<close>

theorem paystack_refund_of_charge_asks_for_zero:
  assumes "paystack_charge J C R req w = (Ok r, w')"
    and "paystack_refund J now C R r w1 = (Ok refunded, w2)"
  shows "\<exists>parsed. says C (paystack_request R ''POST'' ''/refund''
           (JsonBody (JObject [(''transaction'', JString (r_reference r)), (''amount'', JNumber (PosInt 0))])))
           (psj_refund J) w1 parsed w2"
  using assms
  by (auto simp: paystack_charge_Ok paystack_charge_receipt_def paystack_refund_def paystack_fetch_def guarded_Ok
      fetch_then safe_path_segment_Ok_iff paystack_refund_body_def split: if_splits)

definition toy_paystack :: paystack_rail where
  "toy_paystack =
     \<lparr> ps_config = \<lparr> ps_secret_key = ''k'', ps_requires_kyc = True, ps_currencies = [''NGN''], ps_settlement_days = 2,
         ps_timeout_secs = 15 \<rparr>,
       ps_capabilities = custodial_caps True True [''NGN''] (Days 2), ps_base_url = [] \<rparr>"

definition toy_paystack_codec :: paystack_codec where
  "toy_paystack_codec =
     \<lparr> psj_error_message = (\<lambda>_. None),
       psj_initialize = (\<lambda>_. Ok \<lparr> pi_status = True, pi_authorization_url = ''u'', pi_access_code = [], pi_reference = ''ref'' \<rparr>),
       psj_verify = (\<lambda>_. Err []),
       psj_refund = (\<lambda>_. Ok \<lparr> pf_status = True, pf_amount = 0, pf_currency = [], pf_data_status = ''processed'' \<rparr>),
       psj_event = (\<lambda>_. Err []), psj_proof_to_bytes = (\<lambda>_ _. []) \<rparr>"

definition toy_paystack_request :: pay_request where
  "toy_paystack_request =
     \<lparr> pr_amount_minor = 5000, pr_currency = ''NGN'', pr_destination = ''a@b.c'', pr_reference = ''ord'' \<rparr>"

lemma toy_paystack_charge:
  "paystack_charge toy_paystack_codec yes_client toy_paystack toy_paystack_request () =
     (Ok (pending_receipt ''paystack'' ''NGN'' ''ref'' []), ())"
proof -
  have "paystack_charge_guards toy_paystack toy_paystack_request = Ok (''a@b.c'', ''NGN'')"
    by code_simp
  then show ?thesis
    by (auto simp: paystack_charge_Ok toy_paystack_codec_def paystack_charge_receipt_def)
qed

theorem paystack_refund_of_charge_asks_for_zero_witness:
  "\<exists>parsed. says yes_client (paystack_request toy_paystack ''POST'' ''/refund''
     (JsonBody (JObject [(''transaction'', JString ''ref''), (''amount'', JNumber (PosInt 0))])))
     (psj_refund toy_paystack_codec) () parsed ()"
proof -
  let ?r = "pending_receipt ''paystack'' ''NGN'' ''ref'' []"
  have "safe_path_segment ''paystack reference'' ''ref'' = Ok ''ref''" by code_simp
  then have "\<exists>refunded. paystack_refund toy_paystack_codec (\<lambda>_. 0) yes_client toy_paystack ?r () = (Ok refunded, ())"
    by (auto simp: paystack_refund_def paystack_fetch_def guarded_Ok fetch_then toy_paystack_codec_def)
  then show ?thesis
    using paystack_refund_of_charge_asks_for_zero [OF toy_paystack_charge] by fastforce
qed

text \<open>The receipt's reference is Paystack's when it names one, not the caller's.\<close>

lemma paystack_reference_not_echoed:
  "fst (paystack_charge toy_paystack_codec yes_client toy_paystack toy_paystack_request ()) =
     Ok (pending_receipt ''paystack'' ''NGN'' ''ref'' []) \<and> pr_reference toy_paystack_request = ''ord''"
  by (simp add: toy_paystack_charge) (simp add: toy_paystack_request_def)

end
