(* ===== verification/Fiat_Hosted.thy ===== *)
theory Fiat_Hosted
  imports Fiat_Adapter Fiat_Currency Form_Encoding
begin

text \<open>
  What the adapters with a hosted checkout repeat beyond \<open>Fiat_Adapter\<close>: the guards of a charge whose
  amount travels as a decimal string, fetching an object by its id, a \<open>verify\<close> that reads the receipt's
  proof, fetches and judges, and the percent-encoding of a value in a query.
\<close>

text \<open>The price of a quote that costs nothing: the request's checks, then the same amount.\<close>

definition hosted_quote ::
    "string \<Rightarrow> (string \<Rightarrow> unit result) \<Rightarrow> (pay_request \<Rightarrow> unit result) \<Rightarrow> settlement \<Rightarrow> ('w \<Rightarrow> u64) \<Rightarrow> pay_request \<Rightarrow> 'w \<Rightarrow>
     quote result \<times> 'w" where
  "hosted_quote name check_currency check_amount settle now req w =
     (rbind (pay_request_validate req) (\<lambda>_.
      rbind (check_currency (pr_currency req)) (\<lambda>_.
      rbind (check_amount req) (\<lambda>_.
        Ok (fiat_quote name settle (now w) (pr_amount_minor req) (pr_currency req))))), w)"

definition no_check :: "pay_request \<Rightarrow> unit result" where
  "no_check req = Ok ()"

text \<open>The guards of a charge: the normalised currency and the amount as a decimal string.\<close>

definition major_charge_guards ::
    "(currency_error \<Rightarrow> error) \<Rightarrow> (string \<Rightarrow> unit result) \<Rightarrow> pay_request \<Rightarrow> (string \<times> string) result" where
  "major_charge_guards refused check_currency req =
     rbind (pay_request_validate req) (\<lambda>_.
     rbind (check_currency (pr_currency req)) (\<lambda>_.
       let currency = to_ascii_uppercase (trim (pr_currency req)) in
       rbind (map_err refused (minor_to_major_string (pr_amount_minor req) currency)) (\<lambda>amount. Ok (currency, amount))))"

definition refused_as :: "string \<Rightarrow> currency_error \<Rightarrow> error" where
  "refused_as name e = InvalidRequest (name @ '': '' @ currency_error_display e)"

text \<open>Fetching an object whose id stands in the path; \<open>oid\<close> reads the id of the answer.\<close>

definition fetch_object ::
    "string \<Rightarrow> string \<Rightarrow> (nat \<Rightarrow> bytes \<Rightarrow> error) \<Rightarrow> (string \<Rightarrow> error) \<Rightarrow> (bytes \<Rightarrow> string + 'a) \<Rightarrow>
     ('a \<Rightarrow> string) \<Rightarrow> string \<Rightarrow> 'w http_client \<Rightarrow> (string \<Rightarrow> http_request) \<Rightarrow> string \<Rightarrow> string \<Rightarrow> 'w \<Rightarrow> 'a result \<times> 'w" where
  "fetch_object name what classify malformed_of parse oid missing C get prefix ident w =
     (case safe_path_segment what ident of
        Err e \<Rightarrow> (Err e, w)
      | Ok i \<Rightarrow>
          (case fetch name (prefix @ i) classify malformed_of parse C (get (prefix @ i)) w of
             (Err e, w') \<Rightarrow> (Err e, w')
           | (Ok x, w') \<Rightarrow> if oid x = [] then (Err (malformed_of missing), w') else (Ok x, w')))"

text \<open>A receipt of another rail, or with a proof that cannot be read, is no; then fetch and judge.\<close>

definition proof_verify ::
    "string \<Rightarrow> (bytes \<Rightarrow> 'p option) \<Rightarrow> ('p \<Rightarrow> 'w \<Rightarrow> 'a result \<times> 'w) \<Rightarrow> ('a \<Rightarrow> receipt \<Rightarrow> bool result) \<Rightarrow>
     receipt \<Rightarrow> 'w \<Rightarrow> bool result \<times> 'w" where
  "proof_verify name proof_of get judge r w =
     (if r_rail_id r \<noteq> name then (Ok False, w)
      else case proof_of (r_proof r) of
        None \<Rightarrow> (Ok False, w)
      | Some pf \<Rightarrow> wbind (get pf w) (\<lambda>x w'. (judge x r, w')))"

text \<open>\<open>urlencode\<close>: everything but the unreserved characters becomes an escape.\<close>

definition percent_encode_char :: "char \<Rightarrow> string" where
  "percent_encode_char c =
     (if query_safe c then [c]
      else [CHR ''%'', upper_hex_digit (code c div 16), upper_hex_digit (code c mod 16)])"

definition percent_encode :: "string \<Rightarrow> string" where
  "percent_encode s = concat (map percent_encode_char s)"

text \<open>\<open>values.get(key).unwrap_or("")\<close>\<close>

definition form_value :: "(string \<rightharpoonup> string) \<Rightarrow> string \<Rightarrow> string" where
  "form_value form key = (case form key of Some v \<Rightarrow> v | None \<Rightarrow> [])"

text \<open>\<open>Display for serde_json::Number\<close>\<close>

fun number_to_string :: "json_number \<Rightarrow> string" where
  "number_to_string (PosInt n) = dec_of_nat (unat n)"
| "number_to_string (NegInt n) = dec_of_int (sint n)"
| "number_to_string (Float t) = t"

section \<open>Facts\<close>

lemma hosted_quote_invalid:
  "pay_request_validate req = Err e \<Longrightarrow> hosted_quote name cc ca settle now req w = (Err e, w)"
  by (simp add: hosted_quote_def)

lemma hosted_quote_Ok:
  "hosted_quote name cc ca settle now req w = (Ok q, w') \<Longrightarrow>
     q_rail_id q = name \<and> q_amount_minor q = pr_amount_minor req \<and> q_currency q = pr_currency req \<and> w' = w"
  by (auto simp: hosted_quote_def)

lemma major_charge_guards_invalid:
  "pay_request_validate req = Err e \<Longrightarrow> major_charge_guards refused cc req = Err e"
  by (simp add: major_charge_guards_def)

lemma major_charge_guards_Ok_iff:
  "major_charge_guards refused cc req = Ok (currency, amount) \<longleftrightarrow>
     pay_request_validate req = Ok () \<and> cc (pr_currency req) = Ok () \<and>
     currency = to_ascii_uppercase (trim (pr_currency req)) \<and>
     minor_to_major_string (pr_amount_minor req) currency = Ok amount"
  by (auto simp: major_charge_guards_def Let_def)

lemma fetch_object_Ok_iff:
  "fetch_object name what cl m parse oid missing C get prefix ident w = (Ok x, w') \<longleftrightarrow>
     safe_path_segment what ident = Ok ident \<and>
     says C (get (prefix @ ident)) parse w x w' \<and> oid x \<noteq> []"
  unfolding fetch_object_def guarded_Ok by (auto simp: fetch_then safe_path_segment_Ok_iff)

lemma proof_verify_foreign: "r_rail_id r \<noteq> name \<Longrightarrow> proof_verify name pf get judge r w = (Ok False, w)"
  by (simp add: proof_verify_def)

lemma proof_verify_True_iff:
  "proof_verify name proof_of get judge r w = (Ok True, w') \<longleftrightarrow>
     r_rail_id r = name \<and>
     (\<exists>pf x. proof_of (r_proof r) = Some pf \<and> get pf w = (Ok x, w') \<and> judge x r = Ok True)"
  by (auto simp: proof_verify_def guarded_False)

text \<open>An encoded value is read back by a form decoder, and holds no separator.\<close>

lemma percent_encode_simps [simp]:
  "percent_encode [] = []" "percent_encode (c # s) = percent_encode_char c @ percent_encode s"
  by (simp_all add: percent_encode_def)

lemma percent_decode_bytes_percent_encode [simp]: "percent_decode_bytes (percent_encode s) = s"
  by (induction s) (auto simp: percent_encode_char_def query_safe_plain)

lemma percent_encode_inject: "percent_encode s = percent_encode t \<longleftrightarrow> s = t"
  using percent_decode_bytes_percent_encode [of s] percent_decode_bytes_percent_encode [of t] by metis

lemma set_percent_encode: "x \<in> set (percent_encode s) \<Longrightarrow> query_safe x \<or> x = CHR ''%''"
  using high_digit_less by (induction s) (auto simp: percent_encode_char_def split: if_splits)

lemma percent_encode_no_separator:
  "CHR ''&'' \<notin> set (percent_encode s)" "CHR ''='' \<notin> set (percent_encode s)" "CHR ''+'' \<notin> set (percent_encode s)"
  using set_percent_encode query_safe_plain by fastforce+

section \<open>A codec for examples\<close>

text \<open>Texts one after the other, each marked character by character: what is read is what was written.\<close>

fun mark_text :: "string \<Rightarrow> bytes" where
  "mark_text [] = [0]"
| "mark_text (c # s) = 1 # byte_of c # mark_text s"

fun read_text :: "bytes \<Rightarrow> (string \<times> bytes) option" where
  "read_text (m # bs) =
     (if m = 0 then Some ([], bs)
      else case bs of
        [] \<Rightarrow> None
      | b # bs' \<Rightarrow> map_option (\<lambda>(s, r). (char_of (unat b) # s, r)) (read_text bs'))"
| "read_text [] = None"

lemma read_mark_text [simp]: "read_text (mark_text s @ bs) = Some (s, bs)"
  by (induction s) (simp_all add: unat_byte_of)

lemma read_mark_text_Nil [simp]: "read_text (mark_text s) = Some (s, [])"
  using read_mark_text [of s "[]"] by simp

end
