(* ===== verification/Fiat_Adyen.thy ===== *)
theory Fiat_Adyen
  imports Fiat_Hosted Json
begin

text \<open>
  \<open>patala-fiat/src/adyen\<close>: payment links that cannot be looked up, so \<open>verify\<close> is unsupported and the
  notification is the only word on a settlement. Its MAC is over eight fields joined by colons. The
  structures \<open>serde\<close> reads and writes go through \<open>J\<close>, the decoding of the hex key is the parameter \<open>hex\<close>.
\<close>

section \<open>Configuration\<close>

record adyen_config =
  ad_cfg_api_key :: string
  ad_cfg_merchant_account :: string
  ad_hmac_key_hex :: string
  ad_api_base_url :: string
  ad_requires_kyc :: bool
  ad_currencies :: "string list"
  ad_settlement_days :: u8
  ad_timeout_secs :: u64

definition adyen_config_from_env :: "environment \<Rightarrow> adyen_config result" where
  "adyen_config_from_env env =
     rbind (non_empty_env env ''ADYEN_API_KEY'') (\<lambda>api_key.
     rbind (non_empty_env env ''ADYEN_MERCHANT_ACCOUNT'') (\<lambda>merchant_account.
     rbind (non_empty_env env ''ADYEN_HMAC_KEY'') (\<lambda>hmac_key_hex.
     rbind (non_empty_env env ''ADYEN_API_BASE_URL'') (\<lambda>api_base_url.
       Ok \<lparr> ad_cfg_api_key = api_key, ad_cfg_merchant_account = merchant_account, ad_hmac_key_hex = hmac_key_hex,
            ad_api_base_url = api_base_url, ad_requires_kyc = env_flag env ''ADYEN_REQUIRES_KYC'' True,
            ad_currencies = env_currencies env ''ADYEN_CURRENCIES'' [],
            ad_settlement_days = env_u8 env ''ADYEN_SETTLEMENT_DAYS'' 2,
            ad_timeout_secs = env_u64 env ''ADYEN_TIMEOUT_SECS'' 15 \<rparr>))))"

section \<open>Amounts and notifications\<close>

definition ADYEN_NON_ISO_STANDARD :: "string list" where
  "ADYEN_NON_ISO_STANDARD = [''CLP'', ''CVE'', ''IDR'', ''ISK'']"

definition adyen_unsupported_currency :: "string \<Rightarrow> error" where
  "adyen_unsupported_currency cur =
     InvalidRequest (''adyen: '' @ cur @ '' needs Adyen's non-ISO-standard minor-unit handling, which this adapter has not verified precisely; refusing rather than guessing'')"

definition adyen_amount :: "u64 \<Rightarrow> string \<Rightarrow> u64 result" where
  "adyen_amount amount currency =
     (let cur = to_ascii_uppercase (trim currency) in
      if currency_in ADYEN_NON_ISO_STANDARD cur then Err (adyen_unsupported_currency cur) else Ok amount)"

definition adyen_malformed :: "string \<Rightarrow> error" where
  "adyen_malformed detail = malformed_response ''adyen'' detail"

record adyen_item =
  ai_hmac_signature :: string
  ai_value :: u64
  ai_currency :: string
  ai_event_code :: string
  ai_merchant_reference :: string
  ai_original_reference :: string
  ai_psp_reference :: string
  ai_success :: string

record adyen_proof =
  ap_payment_link_id :: string
  ap_psp_reference :: "string option"
  ap_redirect_url :: "string option"

record adyen_codec =
  adj_error :: "bytes \<Rightarrow> (string \<times> string) option" \<comment> \<open>message and error code\<close>
  adj_link :: "bytes \<Rightarrow> string + string \<times> string" \<comment> \<open>id and URL\<close>
  adj_refund :: "bytes \<Rightarrow> string + string \<times> string" \<comment> \<open>\<open>pspReference\<close> and status\<close>
  adj_notification :: "bytes \<Rightarrow> string + adyen_item list"
  adj_proof_to_bytes :: "adyen_proof \<Rightarrow> bytes"
  adj_proof_from_bytes :: "bytes \<Rightarrow> adyen_proof option"
  adj_refund_to_bytes :: "string \<times> string \<Rightarrow> bytes"

definition adyen_classify_error :: "adyen_codec \<Rightarrow> nat \<Rightarrow> bytes \<Rightarrow> error" where
  "adyen_classify_error J status body =
     (let (message, error_code) = (case adj_error J body of Some e \<Rightarrow> e | None \<Rightarrow> ([], []));
          msg = (if message = [] then ''no message'' else message)
      in Rail (''adyen: unexpected API response status: http '' @ dec_of_nat status @ '': '' @ msg @
           '' (errorCode='' @ error_code @ '')''))"

section \<open>Webhook\<close>

datatype adyen_webhook_error = AdMissingSignature | AdInvalidSignature | AdMalformedResponse string | AdUnhandledEvent string

fun adyen_webhook_error_display :: "adyen_webhook_error \<Rightarrow> string" where
  "adyen_webhook_error_display AdMissingSignature = ''payments: adyen: notification item has no additionalData.hmacSignature''"
| "adyen_webhook_error_display AdInvalidSignature = ''payments: adyen: invalid HMAC signature''"
| "adyen_webhook_error_display (AdMalformedResponse m) = ''payments: adyen: malformed API response: '' @ m"
| "adyen_webhook_error_display (AdUnhandledEvent t) = ''payments: unhandled webhook event type: '' @ t"

record adyen_event =
  ae_event_id :: string
  ae_reference :: string
  ae_settled :: bool
  ae_amount_minor :: u64
  ae_currency :: string
  ae_psp_reference :: string

fun join :: "string \<Rightarrow> string list \<Rightarrow> string" where
  "join sep [] = []"
| "join sep [x] = x"
| "join sep (x # y # xs) = x @ sep @ join sep (y # xs)"

definition adyen_signed_fields :: "adyen_item \<Rightarrow> string list" where
  "adyen_signed_fields item =
     [ai_psp_reference item, ai_original_reference item, [], ai_merchant_reference item,
      dec_of_nat (unat (ai_value item)), ai_currency item, ai_event_code item, ai_success item]"

definition verify_item_hmac :: "mac_lib \<Rightarrow> adyen_item \<Rightarrow> bytes \<Rightarrow> adyen_webhook_error + unit" where
  "verify_item_hmac H item key =
     (let given = trim (ai_hmac_signature item) in
      if given = [] then Err AdMissingSignature
      else if verify_hmac_sha256_base64 H key (as_bytes (join '':'' (adyen_signed_fields item))) given then Ok ()
      else Err AdInvalidSignature)"

text \<open>One turn of the loop: the error to remember, or the event to return.\<close>

definition adyen_judge_item :: "mac_lib \<Rightarrow> bytes \<Rightarrow> adyen_item \<Rightarrow> adyen_webhook_error + adyen_event" where
  "adyen_judge_item H key item =
     rbind (verify_item_hmac H item key) (\<lambda>_.
       if ai_event_code item \<noteq> ''AUTHORISATION'' then Err (AdUnhandledEvent (ai_event_code item))
       else if ai_merchant_reference item = [] then Err (AdMalformedResponse ''missing merchantReference'')
       else if ai_psp_reference item = [] then
         Err (AdMalformedResponse ''no pspReference: this notificationItem carries no id to deduplicate on'')
       else
         let currency = to_ascii_uppercase (trim (ai_currency item)) in
         if ai_success item = ''true'' then
           if ai_value item = 0 then Err (AdMalformedResponse ''success=true with non-positive amount'')
           else Ok \<lparr> ae_event_id = ai_psp_reference item, ae_reference = ai_merchant_reference item, ae_settled = True,
                     ae_amount_minor = ai_value item, ae_currency = currency, ae_psp_reference = ai_psp_reference item \<rparr>
         else Ok \<lparr> ae_event_id = ai_psp_reference item, ae_reference = ai_merchant_reference item, ae_settled = False,
                   ae_amount_minor = 0, ae_currency = currency, ae_psp_reference = ai_psp_reference item \<rparr>)"

fun adyen_item_loop :: "mac_lib \<Rightarrow> bytes \<Rightarrow> adyen_webhook_error \<Rightarrow> adyen_item list \<Rightarrow> adyen_webhook_error + adyen_event" where
  "adyen_item_loop H key last_err [] = Err last_err"
| "adyen_item_loop H key last_err (item # items) =
     (case adyen_judge_item H key item of
        Err e \<Rightarrow> adyen_item_loop H key e items
      | Ok ev \<Rightarrow> Ok ev)"

definition adyen_verify_and_parse :: "mac_lib \<Rightarrow> adyen_codec \<Rightarrow> bytes \<Rightarrow> bytes \<Rightarrow> adyen_webhook_error + adyen_event" where
  "adyen_verify_and_parse H J key body =
     rbind (map_err AdMalformedResponse (adj_notification J body)) (\<lambda>items.
       if items = [] then Err (AdMalformedResponse ''no notificationItems'')
       else adyen_item_loop H key (AdMalformedResponse ''no notificationItems produced a settlement result'') items)"

section \<open>The rail\<close>

record adyen_rail =
  ad_api_key :: string
  ad_merchant_account :: string
  ad_hmac_key :: bytes
  ad_capabilities :: rail_capabilities
  ad_base_url :: string

definition adyen_new ::
    "(string \<Rightarrow> string + bytes) \<Rightarrow> (u64 \<Rightarrow> string + unit) \<Rightarrow> adyen_config \<Rightarrow> adyen_rail result" where
  "adyen_new hex client config =
     rbind (require_non_empty ''api_key'' (ad_cfg_api_key config)) (\<lambda>_.
     rbind (require_non_empty ''merchant_account'' (ad_cfg_merchant_account config)) (\<lambda>_.
     rbind (require_non_empty ''hmac_key_hex'' (ad_hmac_key_hex config)) (\<lambda>_.
     rbind (require_non_empty ''api_base_url'' (ad_api_base_url config)) (\<lambda>_.
     rbind (map_err (\<lambda>e. InvalidRequest (''hmac_key_hex is not valid hex: '' @ e)) (hex (trim (ad_hmac_key_hex config)))) (\<lambda>key.
     rbind (build_client ''adyen'' client (ad_timeout_secs config)) (\<lambda>_.
       Ok \<lparr> ad_api_key = ad_cfg_api_key config, ad_merchant_account = ad_cfg_merchant_account config,
            ad_hmac_key = key,
            ad_capabilities = custodial_caps True (ad_requires_kyc config) (ad_currencies config)
              (Days (ad_settlement_days config)),
            ad_base_url = trim_end_slashes (ad_api_base_url config) \<rparr>))))))"

definition adyen_check_currency :: "adyen_rail \<Rightarrow> string \<Rightarrow> unit result" where
  "adyen_check_currency R currency = check_any_currency ''adyen'' (currencies (ad_capabilities R)) currency"

definition adyen_request :: "adyen_rail \<Rightarrow> string \<Rightarrow> string \<Rightarrow> http_body \<Rightarrow> http_request" where
  "adyen_request R meth path body =
     \<lparr> hq_method = meth, hq_url = ad_base_url R @ path, hq_auth = NoAuth,
       hq_headers = [(''X-API-Key'', ad_api_key R), (''Content-Type'', ''application/json''), (''Accept'', ''application/json'')],
       hq_body = body \<rparr>"

definition adyen_fetch ::
    "adyen_codec \<Rightarrow> (bytes \<Rightarrow> string + 'a) \<Rightarrow> 'w http_client \<Rightarrow> adyen_rail \<Rightarrow> string \<Rightarrow> string \<Rightarrow>
     http_body \<Rightarrow> 'w \<Rightarrow> 'a result \<times> 'w" where
  "adyen_fetch J parse C R meth path body w =
     fetch ''adyen'' path (adyen_classify_error J) adyen_malformed parse C (adyen_request R meth path body) w"

definition adyen_quote :: "('w \<Rightarrow> u64) \<Rightarrow> adyen_rail \<Rightarrow> pay_request \<Rightarrow> 'w \<Rightarrow> quote result \<times> 'w" where
  "adyen_quote now R req w =
     hosted_quote ''adyen'' (adyen_check_currency R)
       (\<lambda>req. rbind (adyen_amount (pr_amount_minor req) (pr_currency req)) (\<lambda>_. Ok ()))
       (caps_settlement (ad_capabilities R)) now req w"

definition adyen_charge_guards :: "adyen_rail \<Rightarrow> pay_request \<Rightarrow> (string \<times> u64) result" where
  "adyen_charge_guards R req =
     rbind (pay_request_validate req) (\<lambda>_.
     rbind (adyen_check_currency R (pr_currency req)) (\<lambda>_.
       let currency = to_ascii_uppercase (trim (pr_currency req)) in
       rbind (adyen_amount (pr_amount_minor req) currency) (\<lambda>amount. Ok (currency, amount))))"

definition adyen_charge_body :: "adyen_rail \<Rightarrow> pay_request \<Rightarrow> string \<Rightarrow> u64 \<Rightarrow> json" where
  "adyen_charge_body R req currency amount =
     JObject [(''amount'', JObject [(''value'', JNumber (PosInt amount)), (''currency'', JString currency)]),
       (''reference'', JString (pr_reference req)), (''returnUrl'', JString (pr_destination req)),
       (''merchantAccount'', JString (ad_merchant_account R))]"

definition adyen_charge ::
    "adyen_codec \<Rightarrow> 'w http_client \<Rightarrow> adyen_rail \<Rightarrow> pay_request \<Rightarrow> 'w \<Rightarrow> receipt result \<times> 'w" where
  "adyen_charge J C R req w =
     (case adyen_charge_guards R req of
        Err e \<Rightarrow> (Err e, w)
      | Ok (currency, amount) \<Rightarrow>
          (case adyen_fetch J (adj_link J) C R ''POST'' ''/paymentLinks''
              (JsonBody (adyen_charge_body R req currency amount)) w of
             (Err e, w') \<Rightarrow> (Err e, w')
           | (Ok (link_id, url), w') \<Rightarrow>
               if link_id = [] \<or> url = [] then (Err (adyen_malformed ''empty payment link id or url''), w')
               else (Ok (pending_receipt ''adyen'' currency (pr_reference req)
                       (adj_proof_to_bytes J \<lparr> ap_payment_link_id = link_id, ap_psp_reference = None,
                          ap_redirect_url = Some url \<rparr>)), w')))"

definition adyen_verify :: "receipt \<Rightarrow> 'w \<Rightarrow> bool result \<times> 'w" where
  "adyen_verify r w =
     (Err (Unsupported ''verify (Adyen's Pay by Link resource cannot be looked up by merchant reference; rely on the AUTHORISATION webhook via crate::adyen::webhook::verify_and_parse as the authoritative settlement signal)''), w)"

definition adyen_refund_guards :: "adyen_codec \<Rightarrow> receipt \<Rightarrow> (string \<times> string \<times> u64) result" where
  "adyen_refund_guards J r =
     (if r_rail_id r \<noteq> ''adyen'' then Err (names_other_rail ''adyen'' r)
      else
        rbind (ok_or (InvalidRequest ''receipt proof is not an adyen charge proof'') (adj_proof_from_bytes J (r_proof r))) (\<lambda>pf.
        rbind (case ap_psp_reference pf of
            Some psp \<Rightarrow> if \<not> blank psp then Ok psp else
              Err (Rail ''adyen: receipt has no psp_reference -- refund requires a receipt whose proof was updated from a verified AUTHORISATION webhook (see proof.rs module docs)'')
          | None \<Rightarrow>
              Err (Rail ''adyen: receipt has no psp_reference -- refund requires a receipt whose proof was updated from a verified AUTHORISATION webhook (see proof.rs module docs)'')) (\<lambda>psp.
        rbind (safe_path_segment ''adyen id'' psp) (\<lambda>psp_reference.
          let currency = to_ascii_uppercase (trim (r_currency r)) in
          rbind (adyen_amount (r_amount_minor r) currency) (\<lambda>amount. Ok (psp_reference, currency, amount))))))"

definition adyen_refund_body :: "adyen_rail \<Rightarrow> receipt \<Rightarrow> string \<Rightarrow> u64 \<Rightarrow> json" where
  "adyen_refund_body R r currency amount =
     JObject [(''amount'', JObject [(''value'', JNumber (PosInt amount)), (''currency'', JString currency)]),
       (''merchantAccount'', JString (ad_merchant_account R)), (''reference'', JString (r_reference r))]"

definition adyen_refund ::
    "adyen_codec \<Rightarrow> 'w http_client \<Rightarrow> adyen_rail \<Rightarrow> receipt \<Rightarrow> 'w \<Rightarrow> receipt result \<times> 'w" where
  "adyen_refund J C R r w =
     (case adyen_refund_guards J r of
        Err e \<Rightarrow> (Err e, w)
      | Ok (psp, currency, amount) \<Rightarrow>
          (case adyen_fetch J (adj_refund J) C R ''POST'' (''/payments/'' @ psp @ ''/refunds'')
              (JsonBody (adyen_refund_body R r currency amount)) w of
             (Err e, w') \<Rightarrow> (Err e, w')
           | (Ok parsed, w') \<Rightarrow>
               (Ok (pending_receipt ''adyen'' currency (r_reference r) (adj_refund_to_bytes J parsed)), w')))"

definition adyen_verify_webhook ::
    "mac_lib \<Rightarrow> adyen_codec \<Rightarrow> adyen_rail \<Rightarrow> webhook_delivery \<Rightarrow> 'w \<Rightarrow> webhook_event result \<times> 'w" where
  "adyen_verify_webhook H J R d w =
     (rbind (map_err (\<lambda>e. InvalidRequest (adyen_webhook_error_display e))
        (adyen_verify_and_parse H J (ad_hmac_key R) (raw_body d))) (\<lambda>ev.
        Ok (with_object_id (settlement_event ''adyen'' (ae_event_id ev) (ae_reference ev) (ae_settled ev)
          (ae_amount_minor ev) (ae_currency ev)) (ae_psp_reference ev))), w)"

definition adyen_payment_rail ::
    "mac_lib \<Rightarrow> adyen_codec \<Rightarrow> ('w \<Rightarrow> u64) \<Rightarrow> 'w http_client \<Rightarrow> adyen_rail \<Rightarrow> 'w payment_rail" where
  "adyen_payment_rail H J now C R =
     \<lparr> rail_id = ''adyen'',
       capabilities = ad_capabilities R,
       rail_quote = adyen_quote now R,
       rail_charge = adyen_charge J C R,
       rail_verify = adyen_verify,
       rail_validate_destination = redirect_url ''adyen'',
       rail_refund = adyen_refund J C R,
       rail_verify_webhook = adyen_verify_webhook H J R \<rparr>"

section \<open>Facts\<close>

lemma adyen_charge_Ok:
  "adyen_charge J C R req w = (Ok r, w') \<longleftrightarrow>
     (\<exists>currency amount link_id url. adyen_charge_guards R req = Ok (currency, amount) \<and>
        says C (adyen_request R ''POST'' ''/paymentLinks'' (JsonBody (adyen_charge_body R req currency amount)))
          (adj_link J) w (link_id, url) w' \<and>
        link_id \<noteq> [] \<and> url \<noteq> [] \<and>
        r = pending_receipt ''adyen'' currency (pr_reference req)
              (adj_proof_to_bytes J \<lparr> ap_payment_link_id = link_id, ap_psp_reference = None, ap_redirect_url = Some url \<rparr>))"
  unfolding adyen_charge_def adyen_fetch_def guarded_Ok by (auto simp: fetch_then)

text \<open>It cannot verify, not even say no to another rail's receipt, so it keeps only the core contract.\<close>

interpretation adyen: processor_core "adyen_payment_rail H J now C R" "\<lambda>_. True"
  for H J and now :: "'w \<Rightarrow> u64" and C R
  by (intro processor_coreI)
    (auto simp: adyen_payment_rail_def adyen_quote_def hosted_quote_invalid adyen_charge_def adyen_charge_guards_def
      adyen_verify_webhook_def dest: hosted_quote_Ok split: sum.splits prod.splits if_splits)

lemma adyen_never_verifies: "adyen_verify r w \<noteq> (Ok b, w')"
  by (simp add: adyen_verify_def)

text \<open>A refund of a charge's own receipt is refused before any exchange: its proof has no reference yet.\<close>

lemma adyen_fresh_receipt_not_refundable:
  assumes "adyen_charge J C R req w = (Ok r, w')"
    and "\<And>pf. adj_proof_from_bytes J (adj_proof_to_bytes J pf) = Some pf"
  shows "\<exists>e. adyen_refund J C R r w1 = (Err e, w1)"
  using assms by (auto simp: adyen_charge_Ok adyen_refund_def adyen_refund_guards_def)

lemma adyen_judge_item_Ok_iff:
  "adyen_judge_item H key item = Ok ev \<longleftrightarrow>
     verify_item_hmac H item key = Ok () \<and> ai_event_code item = ''AUTHORISATION'' \<and> ai_merchant_reference item \<noteq> [] \<and>
     ai_psp_reference item \<noteq> [] \<and> (ai_success item = ''true'' \<longrightarrow> ai_value item \<noteq> 0) \<and>
     ev = \<lparr> ae_event_id = ai_psp_reference item, ae_reference = ai_merchant_reference item,
            ae_settled = (ai_success item = ''true''),
            ae_amount_minor = (if ai_success item = ''true'' then ai_value item else 0),
            ae_currency = to_ascii_uppercase (trim (ai_currency item)), ae_psp_reference = ai_psp_reference item \<rparr>"
  by (cases "verify_item_hmac H item key"; cases "ai_success item = ''true''")
    (auto simp: adyen_judge_item_def Let_def)

text \<open>The loop returns the event of the first item that has one.\<close>

lemma adyen_item_loop_Ok_iff:
  "adyen_item_loop H key le items = Ok ev \<longleftrightarrow>
     (\<exists>item. find (\<lambda>i. \<exists>e. adyen_judge_item H key i = Ok e) items = Some item \<and> adyen_judge_item H key item = Ok ev)"
  by (induction items arbitrary: le) (auto split: sum.splits)

lemma adyen_webhook_Ok_iff:
  "adyen_verify_and_parse H J key body = Ok ev \<longleftrightarrow>
     (\<exists>items item. adj_notification J body = Ok items \<and>
        find (\<lambda>i. \<exists>e. adyen_judge_item H key i = Ok e) items = Some item \<and> adyen_judge_item H key item = Ok ev)"
proof (cases "adj_notification J body")
  case (Inr items)
  then show ?thesis
    by (cases "items = []") (simp_all add: adyen_verify_and_parse_def adyen_item_loop_Ok_iff)
qed (simp add: adyen_verify_and_parse_def)

text \<open>Fields without a colon are determined by what is signed.\<close>

lemma join_inject:
  assumes "length xs = length ys" "list_all (\<lambda>x. c \<notin> set x) xs" "list_all (\<lambda>y. c \<notin> set y) ys"
    and "join [c] xs = join [c] ys"
  shows "xs = ys"
  using assms
proof (induction xs ys rule: list_induct2)
  case (Cons x xs y ys)
  show ?case
  proof (cases xs)
    case Nil
    then show ?thesis using Cons.prems Cons.hyps by auto
  next
    case (Cons x' xs')
    then obtain y' ys' where ys: "ys = y' # ys'" using Cons.hyps by (cases ys) auto
    have "x @ c # join [c] xs = y @ c # join [c] ys" "c \<notin> set x" "c \<notin> set y"
      using Cons.prems Cons ys by auto
    then have "x = y \<and> join [c] xs = join [c] ys"
      by (metis Pair_inject option.inject split_once_append)
    then show ?thesis using Cons.IH Cons.prems by simp
  qed
qed simp

lemma dec_no_colon: "CHR '':'' \<notin> set (dec_of_nat n)"
proof
  assume "CHR '':'' \<in> set (dec_of_nat n)"
  then have "is_ascii_digit (CHR '':'')" using all_digits_dec [of n] by (simp add: all_digits_def list_all_iff)
  then show False by (simp add: is_ascii_digit_def)
qed

lemma dec_of_nat_inject: "dec_of_nat m = dec_of_nat n \<longleftrightarrow> m = n"
  by (metis nat_of_digits_dec)

section \<open>Properties\<close>

definition no_colons :: "adyen_item \<Rightarrow> bool" where
  "no_colons item \<longleftrightarrow> list_all (\<lambda>f. CHR '':'' \<notin> set f) (adyen_signed_fields item)"

text \<open>
  What Adyen signed is what the item says, as long as no field holds a colon: two items whose fields
  have none and that carry the same signed text agree in everything an event is made of. The hypothesis
  is needed, for the code joins the fields as they are: an order reference such as \<open>A:9:EUR\<close> makes one
  signed text of two different settlements.
\<close>

theorem adyen_signature_binds_fields:
  assumes "no_colons i" "no_colons k"
    and "join '':'' (adyen_signed_fields i) = join '':'' (adyen_signed_fields k)"
  shows "ai_psp_reference i = ai_psp_reference k \<and> ai_merchant_reference i = ai_merchant_reference k \<and>
     ai_value i = ai_value k \<and> ai_currency i = ai_currency k \<and> ai_event_code i = ai_event_code k \<and>
     ai_success i = ai_success k"
proof -
  have "length (adyen_signed_fields i) = length (adyen_signed_fields k)" by (simp add: adyen_signed_fields_def)
  then have "adyen_signed_fields i = adyen_signed_fields k"
    using assms unfolding no_colons_def by (rule join_inject)
  then show ?thesis by (simp add: adyen_signed_fields_def dec_of_nat_inject word_unat_eq_iff)
qed

definition toy_adyen_item :: "string \<Rightarrow> u64 \<Rightarrow> string \<Rightarrow> adyen_item" where
  "toy_adyen_item reference amount currency =
     \<lparr> ai_hmac_signature = ''s'', ai_value = amount, ai_currency = currency, ai_event_code = ''AUTHORISATION'',
       ai_merchant_reference = reference, ai_original_reference = [], ai_psp_reference = ''P'', ai_success = ''true'' \<rparr>"

text \<open>Nothing else of the item is signed, so the witness varies the signature itself.\<close>

theorem adyen_signature_binds_fields_witness:
  "ai_value (toy_adyen_item ''A'' 9 ''EUR'') = ai_value ((toy_adyen_item ''A'' 9 ''EUR'')\<lparr> ai_hmac_signature := ''t'' \<rparr>)"
proof -
  have "no_colons (toy_adyen_item ''A'' 9 ''EUR'')"
    "no_colons ((toy_adyen_item ''A'' 9 ''EUR'')\<lparr> ai_hmac_signature := ''t'' \<rparr>)"
    by (simp_all add: no_colons_def adyen_signed_fields_def toy_adyen_item_def dec_no_colon)
  from adyen_signature_binds_fields [OF this] show ?thesis
    by (simp add: adyen_signed_fields_def toy_adyen_item_def)
qed

text \<open>
  The signature does not say which settlement it is of. An authorisation of 5 EUR for the order
  reference \<open>A:9:EUR\<close> and one of 9 units of a currency \<open>EUR:5:EUR\<close> for the order \<open>A\<close> have the same signed
  text, so under every key, MAC and signature the rail accepts both or neither.
\<close>

theorem adyen_signed_text_is_ambiguous:
  "verify_item_hmac H (toy_adyen_item ''A:9:EUR'' 5 ''EUR'') key = verify_item_hmac H (toy_adyen_item ''A'' 9 ''EUR:5:EUR'') key \<and>
   (adyen_judge_item H key (toy_adyen_item ''A:9:EUR'' 5 ''EUR'') =
      Ok \<lparr> ae_event_id = ''P'', ae_reference = ''A:9:EUR'', ae_settled = True, ae_amount_minor = 5, ae_currency = ''EUR'',
           ae_psp_reference = ''P'' \<rparr> \<longleftrightarrow>
    adyen_judge_item H key (toy_adyen_item ''A'' 9 ''EUR:5:EUR'') =
      Ok \<lparr> ae_event_id = ''P'', ae_reference = ''A'', ae_settled = True, ae_amount_minor = 9, ae_currency = ''EUR:5:EUR'',
           ae_psp_reference = ''P'' \<rparr>)"
proof -
  have d: "dec_of_nat 5 = ''5''" "dec_of_nat 9 = ''9''" by code_simp+
  have j: "join '':'' (adyen_signed_fields (toy_adyen_item ''A:9:EUR'' 5 ''EUR'')) =
      join '':'' (adyen_signed_fields (toy_adyen_item ''A'' 9 ''EUR:5:EUR''))"
    by (simp add: adyen_signed_fields_def toy_adyen_item_def d)
  have sig: "ai_hmac_signature (toy_adyen_item ref a c) = ''s''" for ref a c
    by (simp add: toy_adyen_item_def)
  have v: "verify_item_hmac H (toy_adyen_item ''A:9:EUR'' 5 ''EUR'') key = verify_item_hmac H (toy_adyen_item ''A'' 9 ''EUR:5:EUR'') key"
    by (simp only: verify_item_hmac_def j sig)
  have u: "to_ascii_uppercase (trim ''EUR'') = ''EUR''" "to_ascii_uppercase (trim ''EUR:5:EUR'') = ''EUR:5:EUR''"
    by (simp_all add: trim_graphic graphic_def) code_simp+
  from v show ?thesis
    by (simp add: adyen_judge_item_Ok_iff) (simp add: toy_adyen_item_def u)
qed

end
