(* ===== verification/Fiat_Btcpay.thy ===== *)
theory Fiat_Btcpay
  imports Fiat_Adapter Fiat_Currency
begin

text \<open>
  \<open>patala-fiat/src/btcpay\<close>: a self-hosted BTCPay Server, the adapter of the crate whose settlement
  is final and in nobody's custody. An invoice is charged; its state decides, and an overpaid or
  inconsistent one is an error for a human. A webhook names an invoice and claims nothing. The
  structures \<open>serde\<close> reads and writes go through \<open>J\<close>.
\<close>

section \<open>Configuration\<close>

record btcpay_config =
  bt_cfg_base_url :: string
  bt_api_key :: string
  bt_store_id :: string
  bt_webhook_secret :: string
  bt_requires_kyc :: bool
  bt_currencies :: "string list"
  bt_settlement_seconds :: "u32 option"
  bt_timeout_secs :: u64

definition btcpay_config_from_env :: "environment \<Rightarrow> btcpay_config result" where
  "btcpay_config_from_env env =
     rbind (trimmed_env env ''BTCPAY_BASE_URL'') (\<lambda>base_url.
     rbind (trimmed_env env ''BTCPAY_API_KEY'') (\<lambda>api_key.
     rbind (trimmed_env env ''BTCPAY_STORE_ID'') (\<lambda>store_id.
     rbind (trimmed_env env ''BTCPAY_WEBHOOK_SECRET'') (\<lambda>webhook_secret.
       Ok \<lparr> bt_cfg_base_url = trim_end_slashes base_url, bt_api_key = api_key, bt_store_id = store_id,
            bt_webhook_secret = webhook_secret,
            bt_requires_kyc = env_flag env ''BTCPAY_REQUIRES_KYC'' False,
            bt_currencies = env_currencies env ''BTCPAY_CURRENCIES'' [],
            bt_settlement_seconds = Option.bind (env ''BTCPAY_SETTLEMENT_SECONDS'') parse_u32,
            bt_timeout_secs = env_u64 env ''BTCPAY_TIMEOUT_SECS'' 20 \<rparr>))))"

section \<open>Invoices\<close>

record btcpay_invoice =
  bi_id :: string
  bi_amount :: string
  bi_currency :: string
  bi_status :: string
  bi_additional_status :: string
  bi_checkout_link :: string

datatype invoice_state = InvPaid | InvPending | InvFailed | InvOverpaid | InvInconsistent

definition classify_invoice_state :: "string \<Rightarrow> string \<Rightarrow> invoice_state" where
  "classify_invoice_state status additional =
     (if status = ''Settled'' then
        if additional \<in> {[], ''None'', ''Marked'', ''PaidLate''} then InvPaid
        else if additional = ''PaidOver'' then InvOverpaid
        else InvInconsistent
      else if status \<in> {''New'', ''Processing''} then InvPending
      else if status \<in> {''Expired'', ''Invalid''} then InvFailed
      else InvFailed)"

definition btcpay_malformed :: "string \<Rightarrow> error" where
  "btcpay_malformed detail = malformed_response ''btcpay'' detail"

record btcpay_codec =
  btj_error_message :: "bytes \<Rightarrow> string option"
  btj_invoice :: "bytes \<Rightarrow> string + btcpay_invoice"
  btj_event :: "bytes \<Rightarrow> string + string \<times> string" \<comment> \<open>event type and invoice id\<close>
  btj_proof_to_bytes :: "string \<times> string \<Rightarrow> bytes" \<comment> \<open>invoice id and checkout link\<close>
  btj_proof_from_bytes :: "bytes \<Rightarrow> (string \<times> string) option"

definition btcpay_classify_error :: "btcpay_codec \<Rightarrow> nat \<Rightarrow> bytes \<Rightarrow> error" where
  "btcpay_classify_error J status body = unexpected_status ''btcpay'' (btj_error_message J body) status"

section \<open>Webhook\<close>

datatype btcpay_webhook_error = BtMissingSignature | BtInvalidSignature | BtMalformedResponse string | BtUnhandledEvent string

fun btcpay_webhook_error_display :: "btcpay_webhook_error \<Rightarrow> string" where
  "btcpay_webhook_error_display BtMissingSignature = ''payments: btcpay: missing BTCPay-Sig webhook header''"
| "btcpay_webhook_error_display BtInvalidSignature = ''payments: btcpay: invalid BTCPay-Sig webhook signature''"
| "btcpay_webhook_error_display (BtMalformedResponse m) = ''payments: btcpay: malformed API response: '' @ m"
| "btcpay_webhook_error_display (BtUnhandledEvent t) = ''payments: unhandled webhook event type: '' @ t"

text \<open>The event is the invoice's id, as its own id and as the object's.\<close>

definition btcpay_verify_and_extract ::
    "mac_lib \<Rightarrow> btcpay_codec \<Rightarrow> string \<Rightarrow> bytes \<Rightarrow> string \<Rightarrow> btcpay_webhook_error + string" where
  "btcpay_verify_and_extract H J secret body signature_header =
     (let hdr = trim signature_header in
      if hdr = [] then Err BtMissingSignature
      else case strip_prefix ''sha256='' hdr of
        None \<Rightarrow> Err BtInvalidSignature
      | Some hex_sig \<Rightarrow>
          if \<not> verify_hmac_sha256_hex H (as_bytes secret) body hex_sig then Err BtInvalidSignature
          else
            rbind (map_err BtMalformedResponse (btj_event J body)) (\<lambda>(event_type, invoice_id).
              if \<not> starts_with ''Invoice'' event_type then Err (BtUnhandledEvent event_type)
              else if invoice_id = [] then Err (BtMalformedResponse ''missing invoiceId'')
              else Ok invoice_id))"

section \<open>The rail\<close>

record btcpay_rail =
  bt_config :: btcpay_config
  bt_capabilities :: rail_capabilities
  bt_base_url :: string

definition btcpay_caps :: "btcpay_config \<Rightarrow> rail_capabilities" where
  "btcpay_caps config =
     \<lparr> caps_class = NonCustodialFinal, reversible = False, requires_kyc = bt_requires_kyc config, holds_funds = False,
       currencies = bt_currencies config,
       caps_settlement = (case bt_settlement_seconds config of Some secs \<Rightarrow> Seconds secs | None \<Rightarrow> Instant),
       atomic_multi_party = False \<rparr>"

definition btcpay_new :: "(u64 \<Rightarrow> string + unit) \<Rightarrow> btcpay_config \<Rightarrow> btcpay_rail result" where
  "btcpay_new client config =
     rbind (require_non_empty ''base_url'' (bt_cfg_base_url config)) (\<lambda>_.
     rbind (require_non_empty ''api_key'' (bt_api_key config)) (\<lambda>_.
     rbind (require_non_empty ''store_id'' (bt_store_id config)) (\<lambda>_.
     rbind (require_non_empty ''webhook_secret'' (bt_webhook_secret config)) (\<lambda>_.
     rbind (build_client ''btcpay'' client (bt_timeout_secs config)) (\<lambda>_.
       Ok \<lparr> bt_config = config, bt_capabilities = btcpay_caps config, bt_base_url = bt_cfg_base_url config \<rparr>)))))"

definition btcpay_check_currency :: "btcpay_rail \<Rightarrow> string \<Rightarrow> unit result" where
  "btcpay_check_currency R currency = check_any_currency ''btcpay'' (currencies (bt_capabilities R)) currency"

definition btcpay_request :: "btcpay_rail \<Rightarrow> string \<Rightarrow> string \<Rightarrow> http_body \<Rightarrow> http_request" where
  "btcpay_request R meth path body =
     \<lparr> hq_method = meth, hq_url = bt_base_url R @ path, hq_auth = NoAuth,
       hq_headers = [(''Authorization'', ''token '' @ bt_api_key (bt_config R)), (''Accept'', ''application/json'')],
       hq_body = body \<rparr>"

definition btcpay_fetch ::
    "btcpay_codec \<Rightarrow> 'w http_client \<Rightarrow> btcpay_rail \<Rightarrow> string \<Rightarrow> string \<Rightarrow> http_body \<Rightarrow> 'w \<Rightarrow>
     btcpay_invoice result \<times> 'w" where
  "btcpay_fetch J C R meth path body w =
     fetch ''btcpay'' path (btcpay_classify_error J) btcpay_malformed (btj_invoice J) C (btcpay_request R meth path body) w"

definition invoices_path :: "btcpay_rail \<Rightarrow> string" where
  "invoices_path R = ''/api/v1/stores/'' @ bt_store_id (bt_config R) @ ''/invoices''"

definition fetch_invoice ::
    "btcpay_codec \<Rightarrow> 'w http_client \<Rightarrow> btcpay_rail \<Rightarrow> string \<Rightarrow> 'w \<Rightarrow> btcpay_invoice result \<times> 'w" where
  "fetch_invoice J C R invoice_id w =
     (case safe_path_segment ''btcpay id'' invoice_id of
        Err e \<Rightarrow> (Err e, w)
      | Ok iid \<Rightarrow>
          (case btcpay_fetch J C R ''GET'' (invoices_path R @ ''/'' @ iid) NoBody w of
             (Err e, w') \<Rightarrow> (Err e, w')
           | (Ok ivc, w') \<Rightarrow> if bi_id ivc = [] then (Err (btcpay_malformed ''empty invoice id''), w') else (Ok ivc, w')))"

definition btcpay_quote :: "('w \<Rightarrow> u64) \<Rightarrow> btcpay_rail \<Rightarrow> pay_request \<Rightarrow> 'w \<Rightarrow> quote result \<times> 'w" where
  "btcpay_quote now R req w =
     (rbind (pay_request_validate req) (\<lambda>_.
      rbind (btcpay_check_currency R (pr_currency req)) (\<lambda>_.
        Ok (fiat_quote ''btcpay'' (caps_settlement (bt_capabilities R)) (now w) (pr_amount_minor req) (pr_currency req)))), w)"

definition btcpay_charge_guards :: "btcpay_rail \<Rightarrow> pay_request \<Rightarrow> (string \<times> string) result" where
  "btcpay_charge_guards R req =
     rbind (pay_request_validate req) (\<lambda>_.
     rbind (btcpay_check_currency R (pr_currency req)) (\<lambda>_.
       let currency = to_ascii_uppercase (trim (pr_currency req)) in
       rbind (map_err (\<lambda>e. InvalidRequest (''btcpay: '' @ currency_error_display e))
         (minor_to_major_string (pr_amount_minor req) currency)) (\<lambda>amount. Ok (currency, amount))))"

definition btcpay_charge_body :: "pay_request \<Rightarrow> string \<Rightarrow> string \<Rightarrow> json" where
  "btcpay_charge_body req currency amount =
     JObject [(''amount'', JString amount), (''currency'', JString currency),
       (''metadata'', JObject [(''orderId'', JString (pr_reference req))])]"

definition btcpay_charge ::
    "btcpay_codec \<Rightarrow> 'w http_client \<Rightarrow> btcpay_rail \<Rightarrow> pay_request \<Rightarrow> 'w \<Rightarrow> receipt result \<times> 'w" where
  "btcpay_charge J C R req w =
     (case btcpay_charge_guards R req of
        Err e \<Rightarrow> (Err e, w)
      | Ok (currency, amount) \<Rightarrow>
          (case btcpay_fetch J C R ''POST'' (invoices_path R) (JsonBody (btcpay_charge_body req currency amount)) w of
             (Err e, w') \<Rightarrow> (Err e, w')
           | (Ok ivc, w') \<Rightarrow>
               if bi_id ivc = [] \<or> bi_checkout_link ivc = [] then (Err (btcpay_malformed ''empty id or checkoutLink''), w')
               else (Ok (pending_receipt ''btcpay'' currency (pr_reference req)
                       (btj_proof_to_bytes J (bi_id ivc, bi_checkout_link ivc))), w')))"

text \<open>The amount is parsed whatever the state says.\<close>

definition judge_invoice :: "btcpay_invoice \<Rightarrow> receipt \<Rightarrow> bool result" where
  "judge_invoice ivc r =
     rbind (map_err (\<lambda>e. btcpay_malformed (currency_error_display e))
       (major_string_to_minor (bi_amount ivc) (bi_currency ivc))) (\<lambda>amount.
     case classify_invoice_state (bi_status ivc) (bi_additional_status ivc) of
       InvPaid \<Rightarrow> Ok (covers True (bi_currency ivc) amount r)
     | InvPending \<Rightarrow> Ok False
     | InvFailed \<Rightarrow> Ok False
     | InvOverpaid \<Rightarrow>
         Err (Rail (''btcpay: invoice reports an overpayment (additionalStatus=PaidOver) -- check the '' @
           ''BTCPay dashboard and refund/credit the difference manually; this adapter will not '' @
           ''guess the received amount''))
     | InvInconsistent \<Rightarrow>
         Err (Rail (''btcpay: invoice reported an inconsistent status/additionalStatus combination: '' @
           ''status='' @ debug_str (bi_status ivc) @ '' additionalStatus='' @ debug_str (bi_additional_status ivc))))"

definition btcpay_verify ::
    "btcpay_codec \<Rightarrow> 'w http_client \<Rightarrow> btcpay_rail \<Rightarrow> receipt \<Rightarrow> 'w \<Rightarrow> bool result \<times> 'w" where
  "btcpay_verify J C R r w =
     (if r_rail_id r \<noteq> ''btcpay'' then (Ok False, w)
      else case btj_proof_from_bytes J (r_proof r) of
        None \<Rightarrow> (Ok False, w)
      | Some pf \<Rightarrow> wbind (fetch_invoice J C R (fst pf) w) (\<lambda>ivc w'. (judge_invoice ivc r, w')))"

definition btcpay_verify_webhook ::
    "mac_lib \<Rightarrow> btcpay_codec \<Rightarrow> btcpay_rail \<Rightarrow> webhook_delivery \<Rightarrow> 'w \<Rightarrow> webhook_event result \<times> 'w" where
  "btcpay_verify_webhook H J R d w =
     (rbind (map_err (\<lambda>e. InvalidRequest (btcpay_webhook_error_display e))
        (btcpay_verify_and_extract H J (bt_webhook_secret (bt_config R)) (raw_body d) (header_or_empty d ''BTCPay-Sig'')))
        (\<lambda>invoice_id. Ok (unconfirmed ''btcpay'' invoice_id invoice_id)), w)"

definition btcpay_payment_rail ::
    "mac_lib \<Rightarrow> btcpay_codec \<Rightarrow> ('w \<Rightarrow> u64) \<Rightarrow> 'w http_client \<Rightarrow> btcpay_rail \<Rightarrow> 'w payment_rail" where
  "btcpay_payment_rail H J now C R =
     \<lparr> rail_id = ''btcpay'',
       capabilities = bt_capabilities R,
       rail_quote = btcpay_quote now R,
       rail_charge = btcpay_charge J C R,
       rail_verify = btcpay_verify J C R,
       rail_validate_destination = ignored ''btcpay'',
       rail_refund = default_refund,
       rail_verify_webhook = btcpay_verify_webhook H J R \<rparr>"

section \<open>Facts\<close>

lemma btcpay_charge_Ok:
  "btcpay_charge J C R req w = (Ok r, w') \<longleftrightarrow>
     (\<exists>currency amount ivc. btcpay_charge_guards R req = Ok (currency, amount) \<and>
        says C (btcpay_request R ''POST'' (invoices_path R) (JsonBody (btcpay_charge_body req currency amount)))
          (btj_invoice J) w ivc w' \<and>
        bi_id ivc \<noteq> [] \<and> bi_checkout_link ivc \<noteq> [] \<and>
        r = pending_receipt ''btcpay'' currency (pr_reference req) (btj_proof_to_bytes J (bi_id ivc, bi_checkout_link ivc)))"
  unfolding btcpay_charge_def btcpay_fetch_def guarded_Ok by (auto simp: fetch_then)

lemma btcpay_processor_rail: "processor_rail (btcpay_payment_rail H J now C R) (\<lambda>_. True)"
  by (intro processor_railI processor_coreI)
    (auto simp: btcpay_payment_rail_def btcpay_quote_def btcpay_charge_def btcpay_charge_guards_def
      btcpay_verify_def btcpay_verify_webhook_def Let_def split: sum.splits prod.splits if_splits)

interpretation btcpay: echoing_processor "btcpay_payment_rail H J now C R" "\<lambda>_. True"
  for H J and now :: "'w \<Rightarrow> u64" and C R
  by (intro echoing_processor.intro rail_contract.intro rail_contract_axioms.intro btcpay_processor_rail
      processor_rail.axioms(1) [OF btcpay_processor_rail])
    (auto simp: btcpay_payment_rail_def btcpay_quote_def btcpay_charge_Ok)

interpretation btcpay_final: final_rail "btcpay_payment_rail H J now C R" "\<lambda>_. True"
  for H J and now :: "'w \<Rightarrow> u64" and C R
  by (intro final_rail.intro final_rail_axioms.intro btcpay.rail_contract_axioms)
    (simp add: btcpay_payment_rail_def default_refund_def)

lemma fetch_invoice_Ok_iff:
  "fetch_invoice J C R iid w = (Ok ivc, w') \<longleftrightarrow>
     safe_path_segment ''btcpay id'' iid = Ok iid \<and>
     says C (btcpay_request R ''GET'' (invoices_path R @ ''/'' @ iid) NoBody) (btj_invoice J) w ivc w' \<and> bi_id ivc \<noteq> []"
  unfolding fetch_invoice_def btcpay_fetch_def guarded_Ok
  by (auto simp: fetch_then safe_path_segment_Ok_iff)

lemma judge_invoice_True_iff:
  "judge_invoice ivc r = Ok True \<longleftrightarrow>
     bi_status ivc = ''Settled'' \<and> bi_additional_status ivc \<in> {[], ''None'', ''Marked'', ''PaidLate''} \<and>
     eq_ignore_ascii_case (bi_currency ivc) (r_currency r) \<and>
     (\<exists>amount. major_string_to_minor (bi_amount ivc) (bi_currency ivc) = Ok amount \<and> r_amount_minor r \<le> amount)"
  by (auto simp: judge_invoice_def classify_invoice_state_def covers_iff split: sum.splits)

text \<open>
  A receipt verifies exactly when the invoice of its proof, as the server reports it, is settled (and
  neither overpaid nor in a combination the code does not know), in the receipt's currency, for at
  least its amount.
\<close>

lemma btcpay_verify_True_iff:
  "btcpay_verify J C R r w = (Ok True, w') \<longleftrightarrow>
     r_rail_id r = ''btcpay'' \<and>
     (\<exists>iid link ivc amount. btj_proof_from_bytes J (r_proof r) = Some (iid, link) \<and>
        safe_path_segment ''btcpay id'' iid = Ok iid \<and>
        says C (btcpay_request R ''GET'' (invoices_path R @ ''/'' @ iid) NoBody) (btj_invoice J) w ivc w' \<and>
        bi_id ivc \<noteq> [] \<and> bi_status ivc = ''Settled'' \<and>
        bi_additional_status ivc \<in> {[], ''None'', ''Marked'', ''PaidLate''} \<and>
        eq_ignore_ascii_case (bi_currency ivc) (r_currency r) \<and>
        major_string_to_minor (bi_amount ivc) (bi_currency ivc) = Ok amount \<and> r_amount_minor r \<le> amount)"
proof -
  have "btcpay_verify J C R r w = (Ok True, w') \<longleftrightarrow>
      r_rail_id r = ''btcpay'' \<and>
      (\<exists>pf ivc. btj_proof_from_bytes J (r_proof r) = Some pf \<and> fetch_invoice J C R (fst pf) w = (Ok ivc, w') \<and>
         judge_invoice ivc r = Ok True)"
    by (auto simp: btcpay_verify_def guarded_False)
  then show ?thesis unfolding fetch_invoice_Ok_iff judge_invoice_True_iff by auto
qed

lemma btcpay_webhook_Ok:
  "btcpay_verify_and_extract H J secret body hdr = Ok iid \<longleftrightarrow>
     (\<exists>sig t. trim hdr = ''sha256='' @ sig \<and> verify_hmac_sha256_hex H (as_bytes secret) body sig \<and>
        btj_event J body = Ok (t, iid) \<and> starts_with ''Invoice'' t \<and> iid \<noteq> [])"
  by (auto simp: btcpay_verify_and_extract_def Let_def strip_prefix_Some_iff split: option.splits if_splits prod.splits)

text \<open>So a delivery is authentic, names an invoice and never claims that money moved.\<close>

lemma btcpay_event_claims_nothing:
  "btcpay_verify_webhook H J R d w = (Ok ev, w') \<Longrightarrow>
     \<not> is_settled ev \<and> we_event_id ev \<noteq> [] \<and> we_object_id ev = we_event_id ev \<and> w' = w"
  by (auto simp: btcpay_verify_webhook_def btcpay_webhook_Ok is_settled_def unconfirmed_def)

end
