(* ===== verification/Fiat_Checkoutcom.thy ===== *)
theory Fiat_Checkoutcom
  imports Fiat_Hosted Json
begin

text \<open>
  \<open>patala-fiat/src/checkoutcom\<close>: hosted payments. Chilean pesos travel in hundredths; a payment settles
  once it is captured. The structures \<open>serde\<close> reads and writes go through \<open>J\<close>.
\<close>

section \<open>Configuration\<close>

record checkoutcom_config =
  ck_secret_key :: string
  ck_webhook_secret :: string
  ck_api_base_url :: string
  ck_requires_kyc :: bool
  ck_currencies :: "string list"
  ck_settlement_days :: u8
  ck_timeout_secs :: u64

definition checkoutcom_config_from_env :: "environment \<Rightarrow> checkoutcom_config result" where
  "checkoutcom_config_from_env env =
     rbind (non_empty_env env ''CHECKOUTCOM_SECRET_KEY'') (\<lambda>secret_key.
     rbind (non_empty_env env ''CHECKOUTCOM_WEBHOOK_SECRET'') (\<lambda>webhook_secret.
     rbind (non_empty_env env ''CHECKOUTCOM_API_BASE_URL'') (\<lambda>api_base_url.
       Ok \<lparr> ck_secret_key = secret_key, ck_webhook_secret = webhook_secret, ck_api_base_url = api_base_url,
            ck_requires_kyc = env_flag env ''CHECKOUTCOM_REQUIRES_KYC'' True,
            ck_currencies = env_currencies env ''CHECKOUTCOM_CURRENCIES'' [],
            ck_settlement_days = env_u8 env ''CHECKOUTCOM_SETTLEMENT_DAYS'' 2,
            ck_timeout_secs = env_u64 env ''CHECKOUTCOM_TIMEOUT_SECS'' 15 \<rparr>)))"

section \<open>Amounts and payments\<close>

definition CHECKOUTCOM_FORCED_TWO_DECIMAL :: "string list" where
  "CHECKOUTCOM_FORCED_TWO_DECIMAL = [''CLP'']"

definition checkoutcom_malformed :: "string \<Rightarrow> error" where
  "checkoutcom_malformed detail = malformed_response ''checkoutcom'' detail"

definition checkout_com_amount :: "u64 \<Rightarrow> string \<Rightarrow> u64 result" where
  "checkout_com_amount amount currency =
     (let cur = to_ascii_uppercase (trim currency) in
      if currency_in CHECKOUTCOM_FORCED_TWO_DECIMAL cur then
        ok_or (InvalidRequest (''checkoutcom: amount '' @ dec_of_nat (unat amount) @ '' overflows for '' @ cur))
          (checked_mul_u amount 100)
      else Ok amount)"

definition checkout_com_amount_to_minor :: "u64 \<Rightarrow> string \<Rightarrow> u64 result" where
  "checkout_com_amount_to_minor amt currency =
     (let cur = to_ascii_uppercase (trim currency) in
      if currency_in CHECKOUTCOM_FORCED_TWO_DECIMAL cur then
        if amt mod 100 \<noteq> 0 then
          Err (checkoutcom_malformed (cur @ '' amount '' @ dec_of_nat (unat amt) @
            '' is not a whole multiple of 100 as Checkout.com documents''))
        else Ok (amt div 100)
      else Ok amt)"

record checkoutcom_payment =
  ckp_id :: string
  ckp_status :: string
  ckp_amount :: u64
  ckp_currency :: string
  ckp_reference :: string
  ckp_metadata :: "string \<rightharpoonup> string"

record checkoutcom_outcome =
  cko_reference :: string
  cko_settled :: bool
  cko_amount_minor :: u64
  cko_currency :: string

definition checkoutcom_reference :: "checkoutcom_payment \<Rightarrow> string option" where
  "checkoutcom_reference p =
     (if ckp_reference p \<noteq> [] then Some (ckp_reference p) else ckp_metadata p ''patala_reference'')"

definition checkoutcom_evaluate_payment :: "checkoutcom_payment \<Rightarrow> checkoutcom_outcome result" where
  "checkoutcom_evaluate_payment p =
     (if ckp_id p = [] then Err (checkoutcom_malformed ''missing payment id'')
      else case checkoutcom_reference p of
        None \<Rightarrow> Err (checkoutcom_malformed ''payment has no reference or patala_reference metadata to reconcile against'')
      | Some reference \<Rightarrow>
          let currency = to_ascii_uppercase (trim (ckp_currency p)) in
          if ckp_status p = ''Captured'' then
            if ckp_amount p = 0 then Err (checkoutcom_malformed ''status=Captured with non-positive amount'')
            else rbind (checkout_com_amount_to_minor (ckp_amount p) currency) (\<lambda>amount.
              Ok \<lparr> cko_reference = reference, cko_settled = True, cko_amount_minor = amount, cko_currency = currency \<rparr>)
          else Ok \<lparr> cko_reference = reference, cko_settled = False, cko_amount_minor = 0, cko_currency = currency \<rparr>)"

section \<open>The codec\<close>

record checkoutcom_proof =
  ckf_payment_id :: string
  ckf_status_at_charge :: string
  ckf_redirect_url :: "string option"

record checkoutcom_codec =
  ckj_error :: "bytes \<Rightarrow> (string \<times> string list) option" \<comment> \<open>error type and codes\<close>
  ckj_show_codes :: "string list \<Rightarrow> string" \<comment> \<open>\<open>Debug\<close> of the codes\<close>
  ckj_created :: "bytes \<Rightarrow> string + string \<times> string" \<comment> \<open>id and redirect\<close>
  ckj_payment :: "bytes \<Rightarrow> string + checkoutcom_payment"
  ckj_refund :: "bytes \<Rightarrow> string option" \<comment> \<open>the action's id\<close>
  ckj_event :: "bytes \<Rightarrow> string + string \<times> string \<times> checkoutcom_payment" \<comment> \<open>id, type and data\<close>
  ckj_proof_to_bytes :: "checkoutcom_proof \<Rightarrow> bytes"
  ckj_proof_from_bytes :: "bytes \<Rightarrow> checkoutcom_proof option"
  ckj_refund_to_bytes :: "string \<Rightarrow> bytes"

definition checkoutcom_classify_error :: "checkoutcom_codec \<Rightarrow> nat \<Rightarrow> bytes \<Rightarrow> error" where
  "checkoutcom_classify_error J status body =
     (let (error_type, codes) = (case ckj_error J body of Some e \<Rightarrow> e | None \<Rightarrow> ([], []))
      in Rail (''checkoutcom: unexpected API response status: http '' @ dec_of_nat status @ '': '' @ error_type @ '' '' @
           ckj_show_codes J codes))"

section \<open>Webhook\<close>

datatype checkoutcom_webhook_error =
  CkMissingSignature | CkInvalidSignature | CkMalformedResponse string | CkUnhandledEvent string

fun checkoutcom_webhook_error_display :: "checkoutcom_webhook_error \<Rightarrow> string" where
  "checkoutcom_webhook_error_display CkMissingSignature = ''payments: checkoutcom: missing Cko-Signature header''"
| "checkoutcom_webhook_error_display CkInvalidSignature = ''payments: checkoutcom: invalid webhook signature''"
| "checkoutcom_webhook_error_display (CkMalformedResponse m) = ''payments: checkoutcom: malformed API response: '' @ m"
| "checkoutcom_webhook_error_display (CkUnhandledEvent t) = ''payments: unhandled webhook event type: '' @ t"

record checkoutcom_event =
  cke_event_id :: string
  cke_reference :: string
  cke_settled :: bool
  cke_amount_minor :: u64
  cke_currency :: string

definition checkoutcom_verify_and_parse ::
    "mac_lib \<Rightarrow> checkoutcom_codec \<Rightarrow> string \<Rightarrow> bytes \<Rightarrow> string \<Rightarrow> checkoutcom_webhook_error + checkoutcom_event" where
  "checkoutcom_verify_and_parse H J secret body signature_header =
     (let hdr = trim signature_header in
      if hdr = [] then Err CkMissingSignature
      else if \<not> verify_hmac_sha256_hex H (as_bytes secret) body hdr then Err CkInvalidSignature
      else
        rbind (map_err CkMalformedResponse (ckj_event J body)) (\<lambda>(event_id, event_type, p).
          if event_type \<noteq> ''payment_captured'' then Err (CkUnhandledEvent event_type)
          else rbind (map_err (\<lambda>e. CkMalformedResponse (error_display e)) (checkoutcom_evaluate_payment p)) (\<lambda>outcome.
            if \<not> cko_settled outcome then
              Err (CkMalformedResponse ''payment_captured event carried a non-Captured status'')
            else Ok \<lparr> cke_event_id = (if event_id = [] then ckp_id p else event_id),
                      cke_reference = cko_reference outcome, cke_settled = cko_settled outcome,
                      cke_amount_minor = cko_amount_minor outcome, cke_currency = cko_currency outcome \<rparr>)))"

section \<open>The rail\<close>

record checkoutcom_rail =
  ck_config :: checkoutcom_config
  ck_capabilities :: rail_capabilities
  ck_base_url :: string

definition checkoutcom_new :: "(u64 \<Rightarrow> string + unit) \<Rightarrow> checkoutcom_config \<Rightarrow> checkoutcom_rail result" where
  "checkoutcom_new client config =
     rbind (require_non_empty ''secret_key'' (ck_secret_key config)) (\<lambda>_.
     rbind (require_non_empty ''webhook_secret'' (ck_webhook_secret config)) (\<lambda>_.
     rbind (require_non_empty ''api_base_url'' (ck_api_base_url config)) (\<lambda>_.
     rbind (build_client ''checkoutcom'' client (ck_timeout_secs config)) (\<lambda>_.
       Ok \<lparr> ck_config = config,
            ck_capabilities = custodial_caps True (ck_requires_kyc config) (ck_currencies config)
              (Days (ck_settlement_days config)),
            ck_base_url = trim_end_slashes (ck_api_base_url config) \<rparr>))))"

definition checkoutcom_check_currency :: "checkoutcom_rail \<Rightarrow> string \<Rightarrow> unit result" where
  "checkoutcom_check_currency R currency = check_any_currency ''checkoutcom'' (currencies (ck_capabilities R)) currency"

definition checkoutcom_request :: "checkoutcom_rail \<Rightarrow> string \<Rightarrow> string \<Rightarrow> http_body \<Rightarrow> http_request" where
  "checkoutcom_request R meth path body =
     \<lparr> hq_method = meth, hq_url = ck_base_url R @ path, hq_auth = NoAuth,
       hq_headers = [(''Authorization'', ''Bearer '' @ ck_secret_key (ck_config R)),
         (''Content-Type'', ''application/json''), (''Accept'', ''application/json'')],
       hq_body = body \<rparr>"

definition checkoutcom_fetch ::
    "checkoutcom_codec \<Rightarrow> (bytes \<Rightarrow> string + 'a) \<Rightarrow> 'w http_client \<Rightarrow> checkoutcom_rail \<Rightarrow> string \<Rightarrow> string \<Rightarrow>
     http_body \<Rightarrow> 'w \<Rightarrow> 'a result \<times> 'w" where
  "checkoutcom_fetch J parse C R meth path body w =
     fetch ''checkoutcom'' path (checkoutcom_classify_error J) checkoutcom_malformed parse C
       (checkoutcom_request R meth path body) w"

definition checkoutcom_quote :: "('w \<Rightarrow> u64) \<Rightarrow> checkoutcom_rail \<Rightarrow> pay_request \<Rightarrow> 'w \<Rightarrow> quote result \<times> 'w" where
  "checkoutcom_quote now R req w =
     hosted_quote ''checkoutcom'' (checkoutcom_check_currency R)
       (\<lambda>req. rbind (checkout_com_amount (pr_amount_minor req) (pr_currency req)) (\<lambda>_. Ok ()))
       (caps_settlement (ck_capabilities R)) now req w"

definition checkoutcom_charge_guards :: "checkoutcom_rail \<Rightarrow> pay_request \<Rightarrow> (string \<times> u64) result" where
  "checkoutcom_charge_guards R req =
     rbind (pay_request_validate req) (\<lambda>_.
     rbind (checkoutcom_check_currency R (pr_currency req)) (\<lambda>_.
       let currency = to_ascii_uppercase (trim (pr_currency req)) in
       rbind (checkout_com_amount (pr_amount_minor req) currency) (\<lambda>amount. Ok (currency, amount))))"

definition checkoutcom_charge_body :: "pay_request \<Rightarrow> string \<Rightarrow> u64 \<Rightarrow> json" where
  "checkoutcom_charge_body req currency amount =
     JObject [(''amount'', JNumber (PosInt amount)), (''currency'', JString currency),
       (''reference'', JString (pr_reference req)), (''success_url'', JString (pr_destination req)),
       (''failure_url'', JString (pr_destination req)), (''cancel_url'', JString (pr_destination req)),
       (''metadata'', JObject [(''patala_reference'', JString (pr_reference req))])]"

definition checkoutcom_charge ::
    "checkoutcom_codec \<Rightarrow> 'w http_client \<Rightarrow> checkoutcom_rail \<Rightarrow> pay_request \<Rightarrow> 'w \<Rightarrow> receipt result \<times> 'w" where
  "checkoutcom_charge J C R req w =
     (case checkoutcom_charge_guards R req of
        Err e \<Rightarrow> (Err e, w)
      | Ok (currency, amount) \<Rightarrow>
          (case checkoutcom_fetch J (ckj_created J) C R ''POST'' ''/hosted-payments''
              (JsonBody (checkoutcom_charge_body req currency amount)) w of
             (Err e, w') \<Rightarrow> (Err e, w')
           | (Ok (sid, href), w') \<Rightarrow>
               if sid = [] \<or> href = [] then (Err (checkoutcom_malformed ''empty session id or _links.redirect.href''), w')
               else (Ok (pending_receipt ''checkoutcom'' currency (pr_reference req)
                       (ckj_proof_to_bytes J \<lparr> ckf_payment_id = sid, ckf_status_at_charge = ''pending'',
                          ckf_redirect_url = Some href \<rparr>)), w')))"

text \<open>The reference of the payment is not compared with the receipt's.\<close>

definition checkoutcom_settles :: "checkoutcom_payment \<Rightarrow> receipt \<Rightarrow> bool" where
  "checkoutcom_settles p r =
     (case checkoutcom_evaluate_payment p of
        Err _ \<Rightarrow> False
      | Ok outcome \<Rightarrow> covers (cko_settled outcome) (cko_currency outcome) (cko_amount_minor outcome) r)"

definition checkoutcom_payment_id :: "checkoutcom_codec \<Rightarrow> receipt \<Rightarrow> string option" where
  "checkoutcom_payment_id J r =
     (case ckj_proof_from_bytes J (r_proof r) of
        None \<Rightarrow> None
      | Some pf \<Rightarrow> (case safe_path_segment ''checkoutcom id'' (ckf_payment_id pf) of Err _ \<Rightarrow> None | Ok p \<Rightarrow> Some p))"

definition checkoutcom_verify ::
    "checkoutcom_codec \<Rightarrow> 'w http_client \<Rightarrow> checkoutcom_rail \<Rightarrow> receipt \<Rightarrow> 'w \<Rightarrow> bool result \<times> 'w" where
  "checkoutcom_verify J C R r w =
     (if r_rail_id r \<noteq> ''checkoutcom'' then (Ok False, w)
      else case checkoutcom_payment_id J r of
        None \<Rightarrow> (Ok False, w)
      | Some pid \<Rightarrow>
          (case checkoutcom_fetch J (ckj_payment J) C R ''GET'' (''/payments/'' @ pid) NoBody w of
             (Err e, w') \<Rightarrow> (Err e, w')
           | (Ok p, w') \<Rightarrow> (Ok (checkoutcom_settles p r), w')))"

definition checkoutcom_refund_guards :: "checkoutcom_codec \<Rightarrow> receipt \<Rightarrow> (string \<times> string \<times> u64) result" where
  "checkoutcom_refund_guards J r =
     (if r_rail_id r \<noteq> ''checkoutcom'' then Err (names_other_rail ''checkoutcom'' r)
      else
        rbind (ok_or (InvalidRequest ''receipt proof is not a checkoutcom charge proof'') (ckj_proof_from_bytes J (r_proof r))) (\<lambda>pf.
        rbind (safe_path_segment ''checkoutcom id'' (ckf_payment_id pf)) (\<lambda>pid.
          let currency = to_ascii_uppercase (trim (r_currency r)) in
          rbind (checkout_com_amount (r_amount_minor r) currency) (\<lambda>amount. Ok (pid, currency, amount)))))"

definition checkoutcom_refund_body :: "receipt \<Rightarrow> u64 \<Rightarrow> json" where
  "checkoutcom_refund_body r amount =
     JObject [(''amount'', JNumber (PosInt amount)), (''reference'', JString (r_reference r))]"

text \<open>An answer that cannot be read is an action without an id, not an error.\<close>

definition checkoutcom_refund ::
    "checkoutcom_codec \<Rightarrow> 'w http_client \<Rightarrow> checkoutcom_rail \<Rightarrow> receipt \<Rightarrow> 'w \<Rightarrow> receipt result \<times> 'w" where
  "checkoutcom_refund J C R r w =
     (case checkoutcom_refund_guards J r of
        Err e \<Rightarrow> (Err e, w)
      | Ok (pid, currency, amount) \<Rightarrow>
          (case checkoutcom_fetch J (\<lambda>body. Ok (case ckj_refund J body of Some a \<Rightarrow> a | None \<Rightarrow> [])) C R ''POST''
              (''/payments/'' @ pid @ ''/refunds'') (JsonBody (checkoutcom_refund_body r amount)) w of
             (Err e, w') \<Rightarrow> (Err e, w')
           | (Ok action, w') \<Rightarrow>
               (Ok (pending_receipt ''checkoutcom'' currency (r_reference r) (ckj_refund_to_bytes J action)), w')))"

definition checkoutcom_verify_webhook ::
    "mac_lib \<Rightarrow> checkoutcom_codec \<Rightarrow> checkoutcom_rail \<Rightarrow> webhook_delivery \<Rightarrow> 'w \<Rightarrow> webhook_event result \<times> 'w" where
  "checkoutcom_verify_webhook H J R d w =
     (rbind (map_err (\<lambda>e. InvalidRequest (checkoutcom_webhook_error_display e))
        (checkoutcom_verify_and_parse H J (ck_webhook_secret (ck_config R)) (raw_body d) (header_or_empty d ''Cko-Signature'')))
        (\<lambda>ev. Ok (settlement_event ''checkoutcom'' (cke_event_id ev) (cke_reference ev) (cke_settled ev)
          (cke_amount_minor ev) (cke_currency ev))), w)"

definition checkoutcom_payment_rail ::
    "mac_lib \<Rightarrow> checkoutcom_codec \<Rightarrow> ('w \<Rightarrow> u64) \<Rightarrow> 'w http_client \<Rightarrow> checkoutcom_rail \<Rightarrow> 'w payment_rail" where
  "checkoutcom_payment_rail H J now C R =
     \<lparr> rail_id = ''checkoutcom'',
       capabilities = ck_capabilities R,
       rail_quote = checkoutcom_quote now R,
       rail_charge = checkoutcom_charge J C R,
       rail_verify = checkoutcom_verify J C R,
       rail_validate_destination = redirect_url ''checkoutcom'',
       rail_refund = checkoutcom_refund J C R,
       rail_verify_webhook = checkoutcom_verify_webhook H J R \<rparr>"

section \<open>Facts\<close>

lemma checkoutcom_charge_Ok:
  "checkoutcom_charge J C R req w = (Ok r, w') \<longleftrightarrow>
     (\<exists>currency amount sid href. checkoutcom_charge_guards R req = Ok (currency, amount) \<and>
        says C (checkoutcom_request R ''POST'' ''/hosted-payments'' (JsonBody (checkoutcom_charge_body req currency amount)))
          (ckj_created J) w (sid, href) w' \<and>
        sid \<noteq> [] \<and> href \<noteq> [] \<and>
        r = pending_receipt ''checkoutcom'' currency (pr_reference req)
              (ckj_proof_to_bytes J \<lparr> ckf_payment_id = sid, ckf_status_at_charge = ''pending'', ckf_redirect_url = Some href \<rparr>))"
  unfolding checkoutcom_charge_def checkoutcom_fetch_def guarded_Ok by (auto simp: fetch_then)

lemma checkoutcom_processor_rail: "processor_rail (checkoutcom_payment_rail H J now C R) (\<lambda>_. True)"
  by (intro processor_railI processor_coreI)
    (auto simp: checkoutcom_payment_rail_def checkoutcom_quote_def hosted_quote_invalid checkoutcom_charge_def
      checkoutcom_charge_guards_def checkoutcom_verify_def checkoutcom_verify_webhook_def
      dest: hosted_quote_Ok split: sum.splits prod.splits if_splits)

interpretation checkoutcom: echoing_processor "checkoutcom_payment_rail H J now C R" "\<lambda>_. True"
  for H J and now :: "'w \<Rightarrow> u64" and C R
  by (intro echoing_processor.intro rail_contract.intro rail_contract_axioms.intro checkoutcom_processor_rail
      processor_rail.axioms(1) [OF checkoutcom_processor_rail])
    (auto simp: checkoutcom_payment_rail_def checkoutcom_quote_def checkoutcom_charge_Ok dest: hosted_quote_Ok)

lemma checkoutcom_settles_iff:
  "checkoutcom_settles p r \<longleftrightarrow>
     ckp_id p \<noteq> [] \<and> checkoutcom_reference p \<noteq> None \<and> ckp_status p = ''Captured'' \<and> ckp_amount p \<noteq> 0 \<and>
     eq_ignore_ascii_case (to_ascii_uppercase (trim (ckp_currency p))) (r_currency r) \<and>
     (\<exists>amount. checkout_com_amount_to_minor (ckp_amount p) (to_ascii_uppercase (trim (ckp_currency p))) = Ok amount \<and>
        r_amount_minor r \<le> amount)"
  by (cases "checkoutcom_reference p";
      cases "checkout_com_amount_to_minor (ckp_amount p) (to_ascii_uppercase (trim (ckp_currency p)))")
    (auto simp: checkoutcom_settles_def checkoutcom_evaluate_payment_def covers_iff Let_def)

lemma checkoutcom_verify_True_iff:
  "checkoutcom_verify J C R r w = (Ok True, w') \<longleftrightarrow>
     r_rail_id r = ''checkoutcom'' \<and>
     (\<exists>pid p. checkoutcom_payment_id J r = Some pid \<and>
        says C (checkoutcom_request R ''GET'' (''/payments/'' @ pid) NoBody) (ckj_payment J) w p w' \<and>
        checkoutcom_settles p r)"
  by (auto simp: checkoutcom_verify_def checkoutcom_fetch_def guarded_False judged_fetch)

lemma checkoutcom_webhook_settled:
  "checkoutcom_verify_and_parse H J secret body hdr = Ok e \<Longrightarrow>
     cke_settled e \<and> verify_hmac_sha256_hex H (as_bytes secret) body (trim hdr) \<and>
     (\<exists>i p. ckj_event J body = Ok (i, ''payment_captured'', p) \<and> ckp_status p = ''Captured'' \<and> cke_event_id e \<noteq> [])"
  by (auto simp: checkoutcom_verify_and_parse_def checkoutcom_evaluate_payment_def Let_def
      split: if_splits prod.splits option.splits)

text \<open>An amount sent to Checkout.com and read back is the same amount.\<close>

lemma checkout_com_amount_round_trip:
  assumes "checkout_com_amount a currency = Ok s" shows "checkout_com_amount_to_minor s currency = Ok a"
proof (cases "currency_in CHECKOUTCOM_FORCED_TWO_DECIMAL (to_ascii_uppercase (trim currency))")
  case True
  then have "unat s = unat a * 100"
    using assms by (simp add: checkout_com_amount_def Let_def checked_mul_u_Some_iff)
  then have "unat (s mod 100) = 0" "unat (s div 100) = unat a" by (simp_all add: unat_mod unat_div)
  then have "s mod 100 = 0" "s div 100 = a" by (simp_all add: word_unat_eq_iff)
  with True show ?thesis by (simp add: checkout_com_amount_to_minor_def)
qed (use assms in \<open>simp add: checkout_com_amount_def checkout_com_amount_to_minor_def\<close>)

end
