(* ===== verification/Fiat_Coinbase.thy ===== *)
theory Fiat_Coinbase
  imports Fiat_Hosted Json
begin

text \<open>
  \<open>patala-fiat/src/coinbasecommerce\<close>: a hosted crypto processor. The last entry of a charge's timeline
  decides, an unresolved one is an error for a human, and a webhook names a charge and claims nothing.
  The structures \<open>serde\<close> reads and writes go through \<open>J\<close>.
\<close>

section \<open>Configuration\<close>

record coinbase_config =
  cc_api_key :: string
  cc_webhook_secret :: string
  cc_cfg_base_url :: string
  cc_requires_kyc :: bool
  cc_currencies :: "string list"
  cc_timeout_secs :: u64

definition COINBASE_BASE_URL :: string where "COINBASE_BASE_URL = ''https://api.commerce.coinbase.com''"
definition COINBASE_API_VERSION :: string where "COINBASE_API_VERSION = ''2018-03-22''"

definition coinbase_config_from_env :: "environment \<Rightarrow> coinbase_config result" where
  "coinbase_config_from_env env =
     rbind (trimmed_env env ''COINBASECOMMERCE_API_KEY'') (\<lambda>api_key.
     rbind (trimmed_env env ''COINBASECOMMERCE_WEBHOOK_SECRET'') (\<lambda>webhook_secret.
       Ok \<lparr> cc_api_key = api_key, cc_webhook_secret = webhook_secret,
            cc_cfg_base_url = env_base_url env ''COINBASECOMMERCE_BASE_URL'' COINBASE_BASE_URL,
            cc_requires_kyc = env_flag env ''COINBASECOMMERCE_REQUIRES_KYC'' False,
            cc_currencies = env_currencies env ''COINBASECOMMERCE_CURRENCIES'' [],
            cc_timeout_secs = env_u64 env ''COINBASECOMMERCE_TIMEOUT_SECS'' 20 \<rparr>))"

section \<open>Charges\<close>

record timeline_entry =
  te_time :: string
  te_status :: string
  te_context :: string

record coinbase_charge_data =
  cd_id :: string
  cd_hosted_url :: string
  cd_timeline :: "timeline_entry list"
  cd_amount :: string \<comment> \<open>\<open>pricing.local\<close>\<close>
  cd_currency :: string

datatype coinbase_state =
  CcPaid | CcPending | CcFailed | CcRequiresManualReview "string option" | CcUnrecognised string

definition coinbase_classify_state :: "timeline_entry \<Rightarrow> coinbase_state" where
  "coinbase_classify_state latest =
     (let status = te_status latest in
      if status = ''COMPLETED'' then CcPaid
      else if status \<in> {''NEW'', ''PENDING''} then CcPending
      else if status \<in> {''EXPIRED'', ''CANCELED''} then CcFailed
      else if status \<in> {''UNRESOLVED'', ''RESOLVED''} then
        (if te_context latest = [] then CcRequiresManualReview None else CcRequiresManualReview (Some (te_context latest)))
      else CcUnrecognised status)"

record coinbase_codec =
  ccj_error_message :: "bytes \<Rightarrow> string option"
  ccj_charge :: "bytes \<Rightarrow> string + coinbase_charge_data" \<comment> \<open>the \<open>data\<close> of an envelope\<close>
  ccj_event :: "bytes \<Rightarrow> string + string \<times> string" \<comment> \<open>the event's type and its charge's id\<close>
  ccj_proof_to_bytes :: "string \<times> string \<Rightarrow> bytes" \<comment> \<open>charge id and hosted URL\<close>
  ccj_proof_from_bytes :: "bytes \<Rightarrow> (string \<times> string) option"

definition coinbase_malformed :: "string \<Rightarrow> error" where
  "coinbase_malformed detail = malformed_response ''coinbasecommerce'' detail"

definition coinbase_classify_error :: "coinbase_codec \<Rightarrow> nat \<Rightarrow> bytes \<Rightarrow> error" where
  "coinbase_classify_error J status body = unexpected_status ''coinbasecommerce'' (ccj_error_message J body) status"

section \<open>Webhook\<close>

datatype coinbase_webhook_error =
  CcMissingSignature | CcInvalidSignature | CcMalformedResponse string | CcUnhandledEvent string

fun coinbase_webhook_error_display :: "coinbase_webhook_error \<Rightarrow> string" where
  "coinbase_webhook_error_display CcMissingSignature = ''payments: coinbasecommerce: missing X-CC-Webhook-Signature header''"
| "coinbase_webhook_error_display CcInvalidSignature = ''payments: coinbasecommerce: invalid X-CC-Webhook-Signature''"
| "coinbase_webhook_error_display (CcMalformedResponse m) = ''payments: coinbasecommerce: malformed API response: '' @ m"
| "coinbase_webhook_error_display (CcUnhandledEvent t) = ''payments: unhandled webhook event type: '' @ t"

definition coinbase_verify_and_extract ::
    "mac_lib \<Rightarrow> coinbase_codec \<Rightarrow> string \<Rightarrow> bytes \<Rightarrow> string \<Rightarrow> coinbase_webhook_error + string" where
  "coinbase_verify_and_extract H J secret body signature_header =
     (let hdr = trim signature_header in
      if hdr = [] then Err CcMissingSignature
      else if \<not> verify_hmac_sha256_hex H (as_bytes secret) body hdr then Err CcInvalidSignature
      else
        rbind (map_err CcMalformedResponse (ccj_event J body)) (\<lambda>(event_type, charge_id).
          if \<not> starts_with ''charge:'' event_type then Err (CcUnhandledEvent event_type)
          else if charge_id = [] then Err (CcMalformedResponse ''missing event.data.id'')
          else Ok charge_id))"

section \<open>The rail\<close>

record coinbase_rail =
  cc_config :: coinbase_config
  cc_capabilities :: rail_capabilities
  cc_base_url :: string

definition coinbase_new :: "(u64 \<Rightarrow> string + unit) \<Rightarrow> coinbase_config \<Rightarrow> coinbase_rail result" where
  "coinbase_new client config =
     rbind (require_non_empty ''api_key'' (cc_api_key config)) (\<lambda>_.
     rbind (require_non_empty ''webhook_secret'' (cc_webhook_secret config)) (\<lambda>_.
     rbind (build_client ''coinbasecommerce'' client (cc_timeout_secs config)) (\<lambda>_.
       Ok \<lparr> cc_config = config,
            cc_capabilities = custodial_caps False (cc_requires_kyc config) (cc_currencies config) Instant,
            cc_base_url = cc_cfg_base_url config \<rparr>)))"

definition coinbase_check_currency :: "coinbase_rail \<Rightarrow> string \<Rightarrow> unit result" where
  "coinbase_check_currency R currency =
     check_any_currency ''coinbasecommerce'' (currencies (cc_capabilities R)) currency"

definition coinbase_request :: "coinbase_rail \<Rightarrow> string \<Rightarrow> string \<Rightarrow> http_body \<Rightarrow> http_request" where
  "coinbase_request R meth path body =
     \<lparr> hq_method = meth, hq_url = cc_base_url R @ path, hq_auth = NoAuth,
       hq_headers = [(''X-CC-Api-Key'', cc_api_key (cc_config R)), (''X-CC-Version'', COINBASE_API_VERSION),
         (''Accept'', ''application/json'')],
       hq_body = body \<rparr>"

definition coinbase_fetch_charge ::
    "coinbase_codec \<Rightarrow> 'w http_client \<Rightarrow> coinbase_rail \<Rightarrow> string \<Rightarrow> 'w \<Rightarrow> coinbase_charge_data result \<times> 'w" where
  "coinbase_fetch_charge J C R charge_id w =
     fetch_object ''coinbasecommerce'' ''coinbasecommerce charge id'' (coinbase_classify_error J) coinbase_malformed
       (ccj_charge J) cd_id ''empty charge id'' C (\<lambda>path. coinbase_request R ''GET'' path NoBody) ''/charges/'' charge_id w"

definition coinbase_quote :: "('w \<Rightarrow> u64) \<Rightarrow> coinbase_rail \<Rightarrow> pay_request \<Rightarrow> 'w \<Rightarrow> quote result \<times> 'w" where
  "coinbase_quote now R req w =
     hosted_quote ''coinbasecommerce'' (coinbase_check_currency R) no_check (caps_settlement (cc_capabilities R)) now req w"

definition coinbase_charge_guards :: "coinbase_rail \<Rightarrow> pay_request \<Rightarrow> (string \<times> string) result" where
  "coinbase_charge_guards R req = major_charge_guards (refused_as ''coinbasecommerce'') (coinbase_check_currency R) req"

definition coinbase_charge_body :: "pay_request \<Rightarrow> string \<Rightarrow> string \<Rightarrow> json" where
  "coinbase_charge_body req currency amount =
     JObject [(''name'', JString (''patala order '' @ pr_reference req)),
       (''description'', JString (''patala order '' @ pr_reference req)),
       (''pricing_type'', JString ''fixed_price''),
       (''local_price'', JObject [(''amount'', JString amount), (''currency'', JString currency)]),
       (''metadata'', JObject [(''order_id'', JString (pr_reference req))])]"

definition coinbase_charge ::
    "coinbase_codec \<Rightarrow> 'w http_client \<Rightarrow> coinbase_rail \<Rightarrow> pay_request \<Rightarrow> 'w \<Rightarrow> receipt result \<times> 'w" where
  "coinbase_charge J C R req w =
     (case coinbase_charge_guards R req of
        Err e \<Rightarrow> (Err e, w)
      | Ok (currency, amount) \<Rightarrow>
          (case fetch ''coinbasecommerce'' ''/charges'' (coinbase_classify_error J) coinbase_malformed (ccj_charge J) C
              (coinbase_request R ''POST'' ''/charges'' (JsonBody (coinbase_charge_body req currency amount))) w of
             (Err e, w') \<Rightarrow> (Err e, w')
           | (Ok ch, w') \<Rightarrow>
               if cd_id ch = [] \<or> cd_hosted_url ch = [] then (Err (coinbase_malformed ''empty id or hosted_url''), w')
               else (Ok (pending_receipt ''coinbasecommerce'' currency (pr_reference req)
                       (ccj_proof_to_bytes J (cd_id ch, cd_hosted_url ch))), w')))"

text \<open>The amount is parsed only when the charge is paid.\<close>

definition coinbase_judge :: "coinbase_charge_data \<Rightarrow> receipt \<Rightarrow> bool result" where
  "coinbase_judge ch r =
     (if cd_timeline ch = [] then Err (coinbase_malformed ''empty timeline'')
      else case coinbase_classify_state (List.last (cd_timeline ch)) of
        CcPaid \<Rightarrow>
          rbind (map_err (\<lambda>e. coinbase_malformed (currency_error_display e))
            (major_string_to_minor (cd_amount ch) (cd_currency ch))) (\<lambda>amount_minor.
              Ok (covers True (cd_currency ch) amount_minor r))
      | CcPending \<Rightarrow> Ok False
      | CcFailed \<Rightarrow> Ok False
      | CcRequiresManualReview context \<Rightarrow>
          Err (Rail (''coinbasecommerce: charge requires manual review in the Coinbase Commerce '' @
            ''dashboard (unresolved/resolved timeline state) -- this adapter will not '' @
            ''guess whether it was paid in full: context='' @
            debug_str (case context of Some c \<Rightarrow> c | None \<Rightarrow> [])))
      | CcUnrecognised status \<Rightarrow>
          Err (Rail (''coinbasecommerce: unrecognised timeline status '' @ debug_str status)))"

definition coinbase_verify ::
    "coinbase_codec \<Rightarrow> 'w http_client \<Rightarrow> coinbase_rail \<Rightarrow> receipt \<Rightarrow> 'w \<Rightarrow> bool result \<times> 'w" where
  "coinbase_verify J C R r w =
     proof_verify ''coinbasecommerce'' (ccj_proof_from_bytes J) (\<lambda>pf. coinbase_fetch_charge J C R (fst pf)) coinbase_judge r w"

definition coinbase_verify_webhook ::
    "mac_lib \<Rightarrow> coinbase_codec \<Rightarrow> coinbase_rail \<Rightarrow> webhook_delivery \<Rightarrow> 'w \<Rightarrow> webhook_event result \<times> 'w" where
  "coinbase_verify_webhook H J R d w =
     (rbind (map_err (\<lambda>e. InvalidRequest (coinbase_webhook_error_display e))
        (coinbase_verify_and_extract H J (cc_webhook_secret (cc_config R)) (raw_body d)
          (header_or_empty d ''X-CC-Webhook-Signature''))) (\<lambda>charge_id.
        Ok (unconfirmed ''coinbasecommerce'' charge_id charge_id)), w)"

definition coinbase_payment_rail ::
    "mac_lib \<Rightarrow> coinbase_codec \<Rightarrow> ('w \<Rightarrow> u64) \<Rightarrow> 'w http_client \<Rightarrow> coinbase_rail \<Rightarrow> 'w payment_rail" where
  "coinbase_payment_rail H J now C R =
     \<lparr> rail_id = ''coinbasecommerce'',
       capabilities = cc_capabilities R,
       rail_quote = coinbase_quote now R,
       rail_charge = coinbase_charge J C R,
       rail_verify = coinbase_verify J C R,
       rail_validate_destination = ignored ''coinbasecommerce'',
       rail_refund = default_refund,
       rail_verify_webhook = coinbase_verify_webhook H J R \<rparr>"

section \<open>Facts\<close>

lemma coinbase_charge_Ok:
  "coinbase_charge J C R req w = (Ok r, w') \<longleftrightarrow>
     (\<exists>currency amount ch. coinbase_charge_guards R req = Ok (currency, amount) \<and>
        says C (coinbase_request R ''POST'' ''/charges'' (JsonBody (coinbase_charge_body req currency amount)))
          (ccj_charge J) w ch w' \<and>
        cd_id ch \<noteq> [] \<and> cd_hosted_url ch \<noteq> [] \<and>
        r = pending_receipt ''coinbasecommerce'' currency (pr_reference req)
              (ccj_proof_to_bytes J (cd_id ch, cd_hosted_url ch)))"
  unfolding coinbase_charge_def guarded_Ok by (auto simp: fetch_then)

lemma coinbase_processor_rail: "processor_rail (coinbase_payment_rail H J now C R) (\<lambda>_. True)"
  by (intro processor_railI processor_coreI)
    (auto simp: coinbase_payment_rail_def coinbase_quote_def hosted_quote_invalid coinbase_charge_def
      coinbase_charge_guards_def major_charge_guards_invalid coinbase_verify_def proof_verify_foreign
      coinbase_verify_webhook_def dest: hosted_quote_Ok split: sum.splits prod.splits if_splits)

interpretation coinbase: echoing_processor "coinbase_payment_rail H J now C R" "\<lambda>_. True"
  for H J and now :: "'w \<Rightarrow> u64" and C R
  by (intro echoing_processor.intro rail_contract.intro rail_contract_axioms.intro coinbase_processor_rail
      processor_rail.axioms(1) [OF coinbase_processor_rail])
    (auto simp: coinbase_payment_rail_def coinbase_quote_def coinbase_charge_Ok dest: hosted_quote_Ok)

interpretation coinbase_final: final_rail "coinbase_payment_rail H J now C R" "\<lambda>_. True"
  for H J and now :: "'w \<Rightarrow> u64" and C R
  by (intro final_rail.intro final_rail_axioms.intro coinbase.rail_contract_axioms)
    (simp add: coinbase_payment_rail_def default_refund_def)

lemma coinbase_judge_True_iff:
  "coinbase_judge ch r = Ok True \<longleftrightarrow>
     cd_timeline ch \<noteq> [] \<and> te_status (List.last (cd_timeline ch)) = ''COMPLETED'' \<and>
     eq_ignore_ascii_case (cd_currency ch) (r_currency r) \<and>
     (\<exists>amount. major_string_to_minor (cd_amount ch) (cd_currency ch) = Ok amount \<and> r_amount_minor r \<le> amount)"
  by (auto simp: coinbase_judge_def coinbase_classify_state_def covers_iff Let_def split: sum.splits if_splits)

lemma coinbase_verify_True_iff:
  "coinbase_verify J C R r w = (Ok True, w') \<longleftrightarrow>
     r_rail_id r = ''coinbasecommerce'' \<and>
     (\<exists>cid url ch. ccj_proof_from_bytes J (r_proof r) = Some (cid, url) \<and>
        safe_path_segment ''coinbasecommerce charge id'' cid = Ok cid \<and>
        says C (coinbase_request R ''GET'' (''/charges/'' @ cid) NoBody) (ccj_charge J) w ch w' \<and>
        cd_id ch \<noteq> [] \<and> coinbase_judge ch r = Ok True)"
  unfolding coinbase_verify_def proof_verify_True_iff coinbase_fetch_charge_def fetch_object_Ok_iff by auto

text \<open>What the timeline said before its last entry has no part in the judgement.\<close>

lemma coinbase_judge_only_last:
  "es \<noteq> [] \<Longrightarrow> coinbase_judge (ch\<lparr> cd_timeline := before @ es \<rparr>) r = coinbase_judge (ch\<lparr> cd_timeline := es \<rparr>) r"
  by (cases ch) (simp add: coinbase_judge_def split: coinbase_state.splits)

lemma coinbase_extract_Ok:
  "coinbase_verify_and_extract H J secret body hdr = Ok cid \<longleftrightarrow>
     trim hdr \<noteq> [] \<and> verify_hmac_sha256_hex H (as_bytes secret) body (trim hdr) \<and>
     (\<exists>t. ccj_event J body = Ok (t, cid) \<and> starts_with ''charge:'' t \<and> cid \<noteq> [])"
  by (auto simp: coinbase_verify_and_extract_def Let_def split: if_splits prod.splits)

lemma coinbase_event_claims_nothing:
  "coinbase_verify_webhook H J R d w = (Ok ev, w') \<Longrightarrow>
     \<not> is_settled ev \<and> we_event_id ev \<noteq> [] \<and> we_object_id ev = we_event_id ev \<and> w' = w"
  by (auto simp: coinbase_verify_webhook_def coinbase_extract_Ok is_settled_def unconfirmed_def)

end
