(* ===== verification/Fiat_Flutterwave.thy ===== *)
theory Fiat_Flutterwave
  imports Fiat_Hosted Json
begin

text \<open>
  \<open>patala-fiat/src/flutterwave\<close>: transactions looked up by the caller's reference; a webhook carries a
  static hash and no MAC. The structures \<open>serde\<close> reads and writes and the query encoder of the HTTP
  client go through \<open>J\<close>.
\<close>

section \<open>Configuration\<close>

definition FLUTTERWAVE_CURRENCIES :: "string list" where
  "FLUTTERWAVE_CURRENCIES =
     [''NGN'', ''GHS'', ''KES'', ''UGX'', ''TZS'', ''ZAR'', ''USD'', ''XOF'', ''XAF'', ''RWF'']"

record flutterwave_config =
  fw_secret_key :: string
  fw_webhook_hash :: string
  fw_requires_kyc :: bool
  fw_currencies :: "string list"
  fw_settlement_days :: u8
  fw_timeout_secs :: u64

definition flutterwave_config_from_env :: "environment \<Rightarrow> flutterwave_config result" where
  "flutterwave_config_from_env env =
     rbind (non_empty_env env ''FLUTTERWAVE_SECRET_KEY'') (\<lambda>secret_key.
     rbind (non_empty_env env ''FLUTTERWAVE_WEBHOOK_HASH'') (\<lambda>webhook_hash.
       Ok \<lparr> fw_secret_key = secret_key, fw_webhook_hash = webhook_hash,
            fw_requires_kyc = env_flag env ''FLUTTERWAVE_REQUIRES_KYC'' True,
            fw_currencies = env_currencies env ''FLUTTERWAVE_CURRENCIES'' FLUTTERWAVE_CURRENCIES,
            fw_settlement_days = env_u8 env ''FLUTTERWAVE_SETTLEMENT_DAYS'' 2,
            fw_timeout_secs = env_u64 env ''FLUTTERWAVE_TIMEOUT_SECS'' 15 \<rparr>))"

section \<open>Transactions\<close>

record flutterwave_transaction =
  ft_id :: i64
  ft_tx_ref :: string
  ft_flw_ref :: string
  ft_amount :: string
  ft_currency :: string
  ft_status :: string

text \<open>An amount may come as a string or as a number.\<close>

definition amount_as_string :: "json \<Rightarrow> string option" where
  "amount_as_string v =
     (case v of JString s \<Rightarrow> Some s | JNumber n \<Rightarrow> Some (number_to_string n) | _ \<Rightarrow> None)"

record flutterwave_outcome =
  fo_reference :: string
  fo_event_id :: string
  fo_settled :: bool
  fo_amount_minor :: u64
  fo_currency :: string

definition flutterwave_malformed :: "string \<Rightarrow> error" where
  "flutterwave_malformed detail = malformed_response ''flutterwave'' detail"

definition evaluate_transaction :: "flutterwave_transaction \<Rightarrow> flutterwave_outcome result" where
  "evaluate_transaction t =
     (if ft_tx_ref t = [] then Err (flutterwave_malformed ''missing tx_ref'')
      else
        let currency = to_ascii_uppercase (trim (ft_currency t)) in
        rbind (if ft_amount t = [] then Ok 0
               else map_err (\<lambda>e. flutterwave_malformed (''amount '' @ debug_str (ft_amount t) @ '': '' @ currency_error_display e))
                 (major_string_to_minor (ft_amount t) currency)) (\<lambda>amount.
          if ft_status t = ''successful'' then
            if amount = 0 then Err (flutterwave_malformed ''successful status with non-positive amount'')
            else Ok \<lparr> fo_reference = ft_tx_ref t, fo_event_id = dec_of_int (sint (ft_id t)), fo_settled = True,
                      fo_amount_minor = amount, fo_currency = currency \<rparr>
          else Ok \<lparr> fo_reference = ft_tx_ref t, fo_event_id = dec_of_int (sint (ft_id t)), fo_settled = False,
                    fo_amount_minor = 0, fo_currency = currency \<rparr>))"

record flutterwave_codec =
  fwj_error_message :: "bytes \<Rightarrow> string option"
  fwj_created :: "bytes \<Rightarrow> string + string \<times> string" \<comment> \<open>status and link\<close>
  fwj_verify :: "bytes \<Rightarrow> string + string \<times> flutterwave_transaction" \<comment> \<open>status and data\<close>
  fwj_event :: "bytes \<Rightarrow> string + string \<times> flutterwave_transaction" \<comment> \<open>event and data\<close>
  fwj_query :: "(string \<times> string) list \<Rightarrow> string" \<comment> \<open>what \<open>.query\<close> puts after the path\<close>
  fwj_proof_to_bytes :: "string option \<Rightarrow> bytes"

definition flutterwave_classify_error :: "flutterwave_codec \<Rightarrow> nat \<Rightarrow> bytes \<Rightarrow> error" where
  "flutterwave_classify_error J status body = unexpected_status ''flutterwave'' (fwj_error_message J body) status"

section \<open>Webhook\<close>

datatype flutterwave_webhook_error =
  FwMissingSignature | FwInvalidSignature | FwMalformedResponse string | FwUnhandledEvent string

fun flutterwave_webhook_error_display :: "flutterwave_webhook_error \<Rightarrow> string" where
  "flutterwave_webhook_error_display FwMissingSignature = ''payments: flutterwave: missing verif-hash header''"
| "flutterwave_webhook_error_display FwInvalidSignature = ''payments: flutterwave: invalid verif-hash''"
| "flutterwave_webhook_error_display (FwMalformedResponse m) = ''payments: flutterwave: malformed API response: '' @ m"
| "flutterwave_webhook_error_display (FwUnhandledEvent t) = ''payments: unhandled webhook event type: '' @ t"

definition flutterwave_verify_and_parse ::
    "flutterwave_codec \<Rightarrow> string \<Rightarrow> bytes \<Rightarrow> string \<Rightarrow> flutterwave_webhook_error + flutterwave_outcome" where
  "flutterwave_verify_and_parse J configured_hash body given_hash =
     (let given = trim given_hash in
      if given = [] then Err FwMissingSignature
      else if \<not> constant_time_eq (as_bytes given) (as_bytes (trim configured_hash)) then Err FwInvalidSignature
      else
        rbind (map_err FwMalformedResponse (fwj_event J body)) (\<lambda>(event, t).
          if event \<noteq> ''charge.completed'' then Err (FwUnhandledEvent event)
          else if ft_id t = 0 then
            Err (FwMalformedResponse ''no data.id: this delivery carries no id to deduplicate on'')
          else map_err (\<lambda>e. FwMalformedResponse (error_display e)) (evaluate_transaction t)))"

section \<open>The rail\<close>

definition FLUTTERWAVE_API_BASE :: string where "FLUTTERWAVE_API_BASE = ''https://api.flutterwave.com/v3''"

definition safe_reference :: "string \<Rightarrow> string result" where
  "safe_reference s =
     (if s = [] \<or> list_ex (\<lambda>c. code c = 9 \<or> code c = 10 \<or> code c = 13) s
      then Err (InvalidRequest (''value '' @ debug_str s @ '' is not a safe reference''))
      else Ok s)"

record flutterwave_rail =
  fw_config :: flutterwave_config
  fw_capabilities :: rail_capabilities
  fw_base_url :: string

definition flutterwave_new :: "(u64 \<Rightarrow> string + unit) \<Rightarrow> flutterwave_config \<Rightarrow> flutterwave_rail result" where
  "flutterwave_new client config =
     rbind (require_non_empty ''secret_key'' (fw_secret_key config)) (\<lambda>_.
     rbind (require_non_empty ''webhook_hash'' (fw_webhook_hash config)) (\<lambda>_.
     rbind (if fw_currencies config = [] then Err (InvalidRequest ''currencies must not be empty'') else Ok ()) (\<lambda>_.
     rbind (build_client ''flutterwave'' client (fw_timeout_secs config)) (\<lambda>_.
       Ok \<lparr> fw_config = config,
            fw_capabilities = custodial_caps True (fw_requires_kyc config) (fw_currencies config)
              (Days (fw_settlement_days config)),
            fw_base_url = FLUTTERWAVE_API_BASE \<rparr>))))"

definition flutterwave_check_currency :: "flutterwave_rail \<Rightarrow> string \<Rightarrow> unit result" where
  "flutterwave_check_currency R currency =
     check_listed_currency ''flutterwave'' (currencies (fw_capabilities R)) currency"

definition flutterwave_post :: "flutterwave_rail \<Rightarrow> string \<Rightarrow> json \<Rightarrow> http_request" where
  "flutterwave_post R path body =
     \<lparr> hq_method = ''POST'', hq_url = fw_base_url R @ path, hq_auth = NoAuth,
       hq_headers = [(''Authorization'', ''Bearer '' @ fw_secret_key (fw_config R)), (''Content-Type'', ''application/json'')],
       hq_body = JsonBody body \<rparr>"

definition flutterwave_get :: "flutterwave_codec \<Rightarrow> flutterwave_rail \<Rightarrow> string \<Rightarrow> (string \<times> string) list \<Rightarrow> http_request" where
  "flutterwave_get J R path qs =
     \<lparr> hq_method = ''GET'', hq_url = fw_base_url R @ path @ fwj_query J qs, hq_auth = NoAuth,
       hq_headers = [(''Authorization'', ''Bearer '' @ fw_secret_key (fw_config R))], hq_body = NoBody \<rparr>"

definition refused_plain :: "currency_error \<Rightarrow> error" where
  "refused_plain e = InvalidRequest (currency_error_display e)"

definition flutterwave_quote :: "('w \<Rightarrow> u64) \<Rightarrow> flutterwave_rail \<Rightarrow> pay_request \<Rightarrow> 'w \<Rightarrow> quote result \<times> 'w" where
  "flutterwave_quote now R req w =
     hosted_quote ''flutterwave'' (flutterwave_check_currency R)
       (\<lambda>req. rbind (map_err refused_plain (minor_to_major_string (pr_amount_minor req) (pr_currency req))) (\<lambda>_. Ok ()))
       (caps_settlement (fw_capabilities R)) now req w"

definition flutterwave_charge_guards :: "flutterwave_rail \<Rightarrow> pay_request \<Rightarrow> (string \<times> string \<times> string) result" where
  "flutterwave_charge_guards R req =
     rbind (pay_request_validate req) (\<lambda>_.
     rbind (flutterwave_check_currency R (pr_currency req)) (\<lambda>_.
       let email = trim (pr_destination req); currency = to_ascii_uppercase (trim (pr_currency req)) in
       if email = [] then Err (InvalidRequest ''flutterwave: destination (used as the buyer email) is required'')
       else rbind (map_err refused_plain (minor_to_major_string (pr_amount_minor req) currency)) (\<lambda>amount.
         Ok (email, currency, amount))))"

definition flutterwave_charge_body :: "pay_request \<Rightarrow> string \<times> string \<times> string \<Rightarrow> json" where
  "flutterwave_charge_body req g =
     (case g of (email, currency, amount) \<Rightarrow>
      JObject [(''tx_ref'', JString (pr_reference req)), (''amount'', JString amount), (''currency'', JString currency),
        (''redirect_url'', JString []), (''customer'', JObject [(''email'', JString email), (''name'', JString [])])])"

definition flutterwave_charge ::
    "flutterwave_codec \<Rightarrow> 'w http_client \<Rightarrow> flutterwave_rail \<Rightarrow> pay_request \<Rightarrow> 'w \<Rightarrow> receipt result \<times> 'w" where
  "flutterwave_charge J C R req w =
     (case flutterwave_charge_guards R req of
        Err e \<Rightarrow> (Err e, w)
      | Ok g \<Rightarrow>
          (case fetch ''flutterwave'' ''/payments'' (flutterwave_classify_error J) flutterwave_malformed (fwj_created J) C
              (flutterwave_post R ''/payments'' (flutterwave_charge_body req g)) w of
             (Err e, w') \<Rightarrow> (Err e, w')
           | (Ok (status, link), w') \<Rightarrow>
               if status \<noteq> ''success'' \<or> link = [] then
                 (Err (flutterwave_malformed (''status='' @ debug_str status @ '' or empty link'')), w')
               else (Ok (pending_receipt ''flutterwave'' (fst (snd g)) (pr_reference req)
                       (fwj_proof_to_bytes J (Some link))), w')))"

definition flutterwave_settles :: "string \<Rightarrow> string \<times> flutterwave_transaction \<Rightarrow> receipt \<Rightarrow> bool" where
  "flutterwave_settles reference parsed r =
     (if fst parsed \<noteq> ''success'' then False
      else if ft_tx_ref (snd parsed) \<noteq> [] \<and> ft_tx_ref (snd parsed) \<noteq> reference then False
      else case evaluate_transaction (snd parsed) of
        Err _ \<Rightarrow> False
      | Ok outcome \<Rightarrow> covers (fo_settled outcome) (fo_currency outcome) (fo_amount_minor outcome) r)"

definition flutterwave_lookup :: "flutterwave_codec \<Rightarrow> flutterwave_rail \<Rightarrow> string \<Rightarrow> http_request" where
  "flutterwave_lookup J R reference =
     flutterwave_get J R ''/transactions/verify_by_reference'' [(''tx_ref'', reference)]"

definition flutterwave_verify ::
    "flutterwave_codec \<Rightarrow> 'w http_client \<Rightarrow> flutterwave_rail \<Rightarrow> receipt \<Rightarrow> 'w \<Rightarrow> bool result \<times> 'w" where
  "flutterwave_verify J C R r w =
     (if r_rail_id r \<noteq> ''flutterwave'' then (Ok False, w)
      else case safe_reference (r_reference r) of
        Err _ \<Rightarrow> (Ok False, w)
      | Ok reference \<Rightarrow>
          (case fetch ''flutterwave'' ''/transactions/verify_by_reference'' (flutterwave_classify_error J) flutterwave_malformed
              (fwj_verify J) C (flutterwave_lookup J R reference) w of
             (Err e, w') \<Rightarrow> (Err e, w')
           | (Ok parsed, w') \<Rightarrow> (Ok (flutterwave_settles reference parsed r), w')))"

definition flutterwave_verify_webhook ::
    "flutterwave_codec \<Rightarrow> flutterwave_rail \<Rightarrow> webhook_delivery \<Rightarrow> 'w \<Rightarrow> webhook_event result \<times> 'w" where
  "flutterwave_verify_webhook J R d w =
     (rbind (map_err (\<lambda>e. InvalidRequest (flutterwave_webhook_error_display e))
        (flutterwave_verify_and_parse J (fw_webhook_hash (fw_config R)) (raw_body d) (header_or_empty d ''verif-hash'')))
        (\<lambda>ev. Ok (settlement_event ''flutterwave'' (fo_event_id ev) (fo_reference ev) (fo_settled ev)
          (fo_amount_minor ev) (fo_currency ev))), w)"

definition flutterwave_payment_rail ::
    "flutterwave_codec \<Rightarrow> ('w \<Rightarrow> u64) \<Rightarrow> 'w http_client \<Rightarrow> flutterwave_rail \<Rightarrow> 'w payment_rail" where
  "flutterwave_payment_rail J now C R =
     \<lparr> rail_id = ''flutterwave'',
       capabilities = fw_capabilities R,
       rail_quote = flutterwave_quote now R,
       rail_charge = flutterwave_charge J C R,
       rail_verify = flutterwave_verify J C R,
       rail_validate_destination = buyer_email ''flutterwave'',
       rail_refund = default_refund,
       rail_verify_webhook = flutterwave_verify_webhook J R \<rparr>"

section \<open>Facts\<close>

lemma flutterwave_charge_Ok:
  "flutterwave_charge J C R req w = (Ok r, w') \<longleftrightarrow>
     (\<exists>g link. flutterwave_charge_guards R req = Ok g \<and>
        says C (flutterwave_post R ''/payments'' (flutterwave_charge_body req g)) (fwj_created J) w (''success'', link) w' \<and>
        link \<noteq> [] \<and>
        r = pending_receipt ''flutterwave'' (fst (snd g)) (pr_reference req) (fwj_proof_to_bytes J (Some link)))"
  unfolding flutterwave_charge_def guarded_Ok by (auto simp: fetch_then)

lemma flutterwave_processor_rail: "processor_rail (flutterwave_payment_rail J now C R) (\<lambda>_. True)"
  by (intro processor_railI processor_coreI)
    (auto simp: flutterwave_payment_rail_def flutterwave_quote_def hosted_quote_invalid flutterwave_charge_def
      flutterwave_charge_guards_def flutterwave_verify_def flutterwave_verify_webhook_def
      dest: hosted_quote_Ok split: sum.splits prod.splits if_splits)

interpretation flutterwave: echoing_processor "flutterwave_payment_rail J now C R" "\<lambda>_. True"
  for J and now :: "'w \<Rightarrow> u64" and C R
  by (intro echoing_processor.intro rail_contract.intro rail_contract_axioms.intro flutterwave_processor_rail
      processor_rail.axioms(1) [OF flutterwave_processor_rail])
    (auto simp: flutterwave_payment_rail_def flutterwave_quote_def flutterwave_charge_Ok dest: hosted_quote_Ok)

lemma evaluate_transaction_settled:
  "evaluate_transaction t = Ok oc \<Longrightarrow>
     fo_reference oc = ft_tx_ref t \<and> ft_tx_ref t \<noteq> [] \<and> (fo_settled oc \<longleftrightarrow> ft_status t = ''successful'') \<and>
     (fo_settled oc \<longrightarrow> fo_amount_minor oc \<noteq> 0 \<and> major_string_to_minor (ft_amount t) (fo_currency oc) = Ok (fo_amount_minor oc))"
  by (auto simp: evaluate_transaction_def Let_def split: if_splits)

lemma flutterwave_verify_True_iff:
  "flutterwave_verify J C R r w = (Ok True, w') \<longleftrightarrow>
     r_rail_id r = ''flutterwave'' \<and>
     (\<exists>reference parsed. safe_reference (r_reference r) = Ok reference \<and>
        says C (flutterwave_lookup J R reference) (fwj_verify J) w parsed w' \<and> flutterwave_settles reference parsed r)"
  by (auto simp: flutterwave_verify_def guarded_False judged_fetch)

text \<open>An empty reference in the answer is no way around the comparison: such an answer is malformed.\<close>

lemma flutterwave_settles_reference:
  "flutterwave_settles reference parsed r \<Longrightarrow>
     fst parsed = ''success'' \<and> ft_tx_ref (snd parsed) = reference \<and> ft_status (snd parsed) = ''successful''"
  by (auto simp: flutterwave_settles_def covers_iff dest!: evaluate_transaction_settled split: if_splits sum.splits)

lemma flutterwave_authenticated_event:
  "flutterwave_verify_and_parse J hash body hdr = Ok oc \<longleftrightarrow>
     trim hdr \<noteq> [] \<and> trim hdr = trim hash \<and>
     (\<exists>t. fwj_event J body = Ok (''charge.completed'', t) \<and> ft_id t \<noteq> 0 \<and> evaluate_transaction t = Ok oc)"
  by (auto simp: flutterwave_verify_and_parse_def constant_time_eq_iff Let_def split: if_splits)

end
