(* ===== verification/Fiat_Iyzico.thy ===== *)
theory Fiat_Iyzico
  imports Fiat_Hosted Json "HOL-Library.While_Combinator"
begin

text \<open>
  \<open>patala-fiat/src/iyzico\<close>: every request carries a SHA-1 of the key, a nonce, the secret and the body; a
  callback is unsigned and only names a token, which is looked up. The decoder of the callback slices
  its text at byte positions, and a slice that cuts a character is a panic: that is the value \<open>None\<close>. The
  structures \<open>serde\<close> reads and writes go through \<open>J\<close>, SHA-1 and base64 are \<open>sha1\<close> and \<open>b64\<close>, the nanosecond
  clock is \<open>nanos\<close>.
\<close>

section \<open>Configuration\<close>

definition IYZICO_BASE_URL :: string where "IYZICO_BASE_URL = ''https://api.iyzipay.com''"
definition IYZICO_CURRENCIES :: "string list" where "IYZICO_CURRENCIES = [''TRY'', ''USD'', ''EUR'', ''GBP'']"

record iyzico_config =
  iy_api_key :: string
  iy_secret_key :: string
  iy_cfg_base_url :: string
  iy_requires_kyc :: bool
  iy_currencies :: "string list"
  iy_settlement_days :: u8
  iy_timeout_secs :: u64

definition iyzico_config_from_env :: "environment \<Rightarrow> iyzico_config result" where
  "iyzico_config_from_env env =
     rbind (non_empty_env env ''IYZICO_API_KEY'') (\<lambda>api_key.
     rbind (non_empty_env env ''IYZICO_SECRET_KEY'') (\<lambda>secret_key.
       Ok \<lparr> iy_api_key = api_key, iy_secret_key = secret_key,
            iy_cfg_base_url = (case non_blank_env env ''IYZICO_BASE_URL'' of Some s \<Rightarrow> s | None \<Rightarrow> IYZICO_BASE_URL),
            iy_requires_kyc = env_flag env ''IYZICO_REQUIRES_KYC'' True,
            iy_currencies = env_currencies env ''IYZICO_CURRENCIES'' IYZICO_CURRENCIES,
            iy_settlement_days = env_u8 env ''IYZICO_SETTLEMENT_DAYS'' 2,
            iy_timeout_secs = env_u64 env ''IYZICO_TIMEOUT_SECS'' 15 \<rparr>))"

section \<open>Checkout forms\<close>

record checkout_form =
  cf_status :: string
  cf_payment_status :: string
  cf_token :: string
  cf_payment_id :: string
  cf_paid_price :: string
  cf_currency :: string
  cf_basket_id :: string
  cf_error_message :: string

record iyzico_outcome =
  co_event_id :: string
  co_settled :: bool
  co_amount_minor :: u64
  co_currency :: string

definition iyzico_malformed :: "string \<Rightarrow> error" where
  "iyzico_malformed detail = malformed_response ''iyzico'' detail"

definition iyzico_unexpected_status :: "string \<Rightarrow> error" where
  "iyzico_unexpected_status msg = Rail (''iyzico: unexpected API response status: '' @ msg)"

definition status_or_message :: "string \<Rightarrow> string \<Rightarrow> string" where
  "status_or_message status error_message =
     (if error_message = [] then ''status='' @ debug_str status else error_message)"

definition evaluate_checkout_form :: "checkout_form \<Rightarrow> iyzico_outcome result" where
  "evaluate_checkout_form res =
     (if cf_status res \<noteq> ''success'' then
        Err (iyzico_unexpected_status (status_or_message (cf_status res) (cf_error_message res)))
      else
        let currency = to_ascii_uppercase (trim (cf_currency res)) in
        rbind (if cf_paid_price res = [] then Ok 0
               else map_err (\<lambda>e. iyzico_malformed (''paidPrice '' @ debug_str (cf_paid_price res) @ '': '' @ currency_error_display e))
                 (major_string_to_minor (cf_paid_price res) currency)) (\<lambda>amount.
          if cf_payment_status res = ''SUCCESS'' then
            if amount = 0 \<or> cf_payment_id res = [] then
              Err (iyzico_malformed ''SUCCESS status with non-positive amount or no paymentId'')
            else Ok \<lparr> co_event_id = cf_payment_id res, co_settled = True, co_amount_minor = amount, co_currency = currency \<rparr>
          else Ok \<lparr> co_event_id = cf_payment_id res, co_settled = False, co_amount_minor = 0, co_currency = currency \<rparr>))"

record iyzico_created =
  ic_status :: string
  ic_token :: string
  ic_payment_page_url :: string
  ic_error_message :: string

record iyzico_codec =
  iyj_error_message :: "bytes \<Rightarrow> string option"
  iyj_form :: "bytes \<Rightarrow> string + checkout_form"
  iyj_created :: "bytes \<Rightarrow> string + iyzico_created"
  iyj_token :: "bytes \<Rightarrow> string option" \<comment> \<open>a JSON callback\<close>
  iyj_retrieve_to_bytes :: "string \<Rightarrow> string + bytes"
  iyj_begin_to_bytes :: "string \<Rightarrow> string \<Rightarrow> string \<Rightarrow> string \<Rightarrow> string + bytes" \<comment> \<open>reference, price, currency, callback\<close>
  iyj_proof_to_bytes :: "string \<Rightarrow> string option \<Rightarrow> bytes"
  iyj_proof_from_bytes :: "bytes \<Rightarrow> string option" \<comment> \<open>the token\<close>

definition iyzico_classify_error :: "iyzico_codec \<Rightarrow> nat \<Rightarrow> bytes \<Rightarrow> error" where
  "iyzico_classify_error J status body = unexpected_status ''iyzico'' (iyj_error_message J body) status"

section \<open>Callback\<close>

text \<open>\<open>v[i + 1..i + 3]\<close> behind a \<open>%\<close> panics unless it ends on a character boundary.\<close>

function iyzico_decode_bytes :: "string \<Rightarrow> string option" where
  "iyzico_decode_bytes [] = Some []"
| "iyzico_decode_bytes (c # s) =
     (if c = CHR ''+'' then map_option ((#) (CHR '' '')) (iyzico_decode_bytes s)
      else if c = CHR ''%'' \<and> 2 \<le> length s then
        (if 2 < length s \<and> utf8_cont (code (s ! 2)) then None
         else case hex_byte (s ! 0) (s ! 1) of
           Some b \<Rightarrow> map_option ((#) b) (iyzico_decode_bytes (drop 2 s))
         | None \<Rightarrow> map_option ((#) (CHR ''%'')) (iyzico_decode_bytes s))
      else map_option ((#) c) (iyzico_decode_bytes s))"
  by pat_completeness auto
termination
  by (relation "measure length") auto

text \<open>
  The loop as it is written, over an index and the bytes decoded so far; \<open>None\<close> for them is the panic,
  which ends it.
\<close>

fun decode_step :: "string \<Rightarrow> nat \<times> string option \<Rightarrow> nat \<times> string option" where
  "decode_step v (i, None) = (i, None)"
| "decode_step v (i, Some out) =
     (if v ! i = CHR ''+'' then (i + 1, Some (out @ '' ''))
      else if v ! i = CHR ''%'' \<and> i + 2 < length v then
        (if i + 3 < length v \<and> utf8_cont (code (v ! (i + 3))) then (i, None)
         else case hex_byte (v ! (i + 1)) (v ! (i + 2)) of
           Some b \<Rightarrow> (i + 3, Some (out @ [b]))
         | None \<Rightarrow> (i + 1, Some (out @ ''%'')))
      else (i + 1, Some (out @ [v ! i])))"

definition decode_loop :: "string \<Rightarrow> (nat \<times> string option) option" where
  "decode_loop v = while_option (\<lambda>(i, out). i < length v \<and> out \<noteq> None) (decode_step v) (0, Some [])"

definition percent_decode_form_value :: "string \<Rightarrow> string option" where
  "percent_decode_form_value v = map_option (\<lambda>out. if utf8_valid out then out else v) (iyzico_decode_bytes v)"

text \<open>The loop over the pairs; one without \<open>=\<close> ends it with no token.\<close>

fun iyzico_find_token :: "string list \<Rightarrow> string option option" where
  "iyzico_find_token [] = Some None"
| "iyzico_find_token (pair # pairs) =
     (case split_once (CHR ''='') pair of
        None \<Rightarrow> Some None
      | Some (k, v) \<Rightarrow> if k = ''token'' then map_option Some (percent_decode_form_value v) else iyzico_find_token pairs)"

definition iyzico_extract_token :: "iyzico_codec \<Rightarrow> string \<Rightarrow> bytes \<Rightarrow> string option option" where
  "iyzico_extract_token J content_type body =
     (if contains_str ''application/json'' content_type then
        Some (case iyj_token J body of Some t \<Rightarrow> if t \<noteq> [] then Some t else None | None \<Rightarrow> None)
      else case from_utf8 body of
        Err _ \<Rightarrow> Some None
      | Ok body_str \<Rightarrow> iyzico_find_token (split_on (\<lambda>c. c = CHR ''&'') body_str))"

section \<open>The rail\<close>

definition iyzico_safe_reference :: "string \<Rightarrow> string result" where
  "iyzico_safe_reference s =
     (if s = [] \<or> list_ex (\<lambda>c. code c = 9 \<or> code c = 10 \<or> code c = 13) s
      then Err (InvalidRequest (''value '' @ debug_str s @ '' is not a safe iyzico token''))
      else Ok s)"

record iyzico_rail =
  iy_config :: iyzico_config
  iy_capabilities :: rail_capabilities
  iy_base_url :: string

definition iyzico_new :: "(u64 \<Rightarrow> string + unit) \<Rightarrow> iyzico_config \<Rightarrow> iyzico_rail result" where
  "iyzico_new client config =
     rbind (require_non_empty ''api_key'' (iy_api_key config)) (\<lambda>_.
     rbind (require_non_empty ''secret_key'' (iy_secret_key config)) (\<lambda>_.
     rbind (if iy_currencies config = [] then Err (InvalidRequest ''currencies must not be empty'') else Ok ()) (\<lambda>_.
     rbind (build_client ''iyzico'' client (iy_timeout_secs config)) (\<lambda>_.
       Ok \<lparr> iy_config = config,
            iy_capabilities = custodial_caps True (iy_requires_kyc config) (iy_currencies config)
              (Days (iy_settlement_days config)),
            iy_base_url = iy_cfg_base_url config \<rparr>))))"

definition iyzico_check_currency :: "iyzico_rail \<Rightarrow> string \<Rightarrow> unit result" where
  "iyzico_check_currency R currency = check_listed_currency ''iyzico'' (currencies (iy_capabilities R)) currency"

record 'w iyzico_lib =
  iyl_sha1 :: "bytes \<Rightarrow> bytes"
  iyl_b64 :: "bytes \<Rightarrow> string"
  iyl_nanos :: "'w \<Rightarrow> nat"

definition iyzico_auth_headers :: "'w iyzico_lib \<Rightarrow> iyzico_rail \<Rightarrow> string \<Rightarrow> bytes \<Rightarrow> string \<times> string" where
  "iyzico_auth_headers L R random_key body =
     (''IYZWS '' @ iy_api_key (iy_config R) @ '':'' @
        iyl_b64 L (iyl_sha1 L (as_bytes (iy_api_key (iy_config R)) @ as_bytes random_key @
          as_bytes (iy_secret_key (iy_config R)) @ body)),
      random_key)"

definition iyzico_request :: "'w iyzico_lib \<Rightarrow> iyzico_rail \<Rightarrow> 'w \<Rightarrow> string \<Rightarrow> bytes \<Rightarrow> http_request" where
  "iyzico_request L R w path body =
     (let (authorization, rnd) = iyzico_auth_headers L R (dec_of_nat (iyl_nanos L w)) body
      in \<lparr> hq_method = ''POST'', hq_url = iy_base_url R @ path, hq_auth = NoAuth,
           hq_headers = [(''Authorization'', authorization), (''x-iyzi-rnd'', rnd), (''Content-Type'', ''application/json'')],
           hq_body = RawBody body \<rparr>)"

definition iyzico_post ::
    "'w iyzico_lib \<Rightarrow> iyzico_codec \<Rightarrow> (bytes \<Rightarrow> string + 'a) \<Rightarrow> 'w http_client \<Rightarrow> iyzico_rail \<Rightarrow> string \<Rightarrow> bytes \<Rightarrow>
     'w \<Rightarrow> 'a result \<times> 'w" where
  "iyzico_post L J parse C R path body w =
     fetch ''iyzico'' path (iyzico_classify_error J) iyzico_malformed parse C (iyzico_request L R w path body) w"

definition RETRIEVE_PATH :: string where "RETRIEVE_PATH = ''/payment/iyzipos/checkoutform/auth/ecom/detail''"
definition BEGIN_PATH :: string where "BEGIN_PATH = ''/payment/iyzipos/checkoutform/initialize/auth/ecom''"

definition retrieve_checkout_form ::
    "'w iyzico_lib \<Rightarrow> iyzico_codec \<Rightarrow> 'w http_client \<Rightarrow> iyzico_rail \<Rightarrow> string \<Rightarrow> 'w \<Rightarrow> checkout_form result \<times> 'w" where
  "retrieve_checkout_form L J C R token w =
     (case map_err (\<lambda>e. Rail (''iyzico: encode request: '' @ e)) (iyj_retrieve_to_bytes J token) of
        Err e \<Rightarrow> (Err e, w)
      | Ok body \<Rightarrow> iyzico_post L J (iyj_form J) C R RETRIEVE_PATH body w)"

definition retrieve_and_evaluate ::
    "'w iyzico_lib \<Rightarrow> iyzico_codec \<Rightarrow> 'w http_client \<Rightarrow> iyzico_rail \<Rightarrow> string \<Rightarrow> 'w \<Rightarrow> iyzico_outcome option result \<times> 'w" where
  "retrieve_and_evaluate L J C R token w =
     (case retrieve_checkout_form L J C R token w of
        (Err e, w') \<Rightarrow> (Err e, w')
      | (Ok form, w') \<Rightarrow> (Ok (case evaluate_checkout_form form of Ok oc \<Rightarrow> Some oc | Err _ \<Rightarrow> None), w'))"

definition iyzico_quote :: "('w \<Rightarrow> u64) \<Rightarrow> iyzico_rail \<Rightarrow> pay_request \<Rightarrow> 'w \<Rightarrow> quote result \<times> 'w" where
  "iyzico_quote now R req w =
     hosted_quote ''iyzico'' (iyzico_check_currency R)
       (\<lambda>req. rbind (map_err (\<lambda>e. InvalidRequest (currency_error_display e))
          (minor_to_major_string (pr_amount_minor req) (pr_currency req))) (\<lambda>_. Ok ()))
       (caps_settlement (iy_capabilities R)) now req w"

definition iyzico_begin :: "iyzico_codec \<Rightarrow> iyzico_rail \<Rightarrow> pay_request \<Rightarrow> (string \<times> bytes) result" where
  "iyzico_begin J R req =
     rbind (major_charge_guards (\<lambda>e. InvalidRequest (currency_error_display e)) (iyzico_check_currency R) req)
       (\<lambda>(currency, price).
     rbind (map_err (\<lambda>e. Rail (''iyzico: encode request: '' @ e))
       (iyj_begin_to_bytes J (pr_reference req) price currency (trim (pr_destination req)))) (\<lambda>body. Ok (currency, body)))"

definition iyzico_charge ::
    "'w iyzico_lib \<Rightarrow> iyzico_codec \<Rightarrow> 'w http_client \<Rightarrow> iyzico_rail \<Rightarrow> pay_request \<Rightarrow> 'w \<Rightarrow> receipt result \<times> 'w" where
  "iyzico_charge L J C R req w =
     (case iyzico_begin J R req of
        Err e \<Rightarrow> (Err e, w)
      | Ok (currency, body) \<Rightarrow>
          (case iyzico_post L J (iyj_created J) C R BEGIN_PATH body w of
             (Err e, w') \<Rightarrow> (Err e, w')
           | (Ok parsed, w') \<Rightarrow>
               if ic_status parsed \<noteq> ''success'' \<or> ic_token parsed = [] \<or> ic_payment_page_url parsed = [] then
                 (Err (iyzico_unexpected_status (status_or_message (ic_status parsed) (ic_error_message parsed))), w')
               else (Ok (pending_receipt ''iyzico'' currency (pr_reference req)
                       (iyj_proof_to_bytes J (ic_token parsed) (Some (ic_payment_page_url parsed)))), w')))"

definition iyzico_token :: "iyzico_codec \<Rightarrow> receipt \<Rightarrow> string option" where
  "iyzico_token J r =
     (case iyj_proof_from_bytes J (r_proof r) of
        None \<Rightarrow> None
      | Some t \<Rightarrow> (case iyzico_safe_reference t of Err _ \<Rightarrow> None | Ok t' \<Rightarrow> Some t'))"

text \<open>Neither the token nor the basket of the answer is compared with the receipt.\<close>

definition iyzico_settles :: "iyzico_outcome option \<Rightarrow> receipt \<Rightarrow> bool" where
  "iyzico_settles oc r =
     (case oc of None \<Rightarrow> False | Some oc \<Rightarrow> covers (co_settled oc) (co_currency oc) (co_amount_minor oc) r)"

definition iyzico_verify ::
    "'w iyzico_lib \<Rightarrow> iyzico_codec \<Rightarrow> 'w http_client \<Rightarrow> iyzico_rail \<Rightarrow> receipt \<Rightarrow> 'w \<Rightarrow> bool result \<times> 'w" where
  "iyzico_verify L J C R r w =
     (if r_rail_id r \<noteq> ''iyzico'' then (Ok False, w)
      else case iyzico_token J r of
        None \<Rightarrow> (Ok False, w)
      | Some token \<Rightarrow>
          (case retrieve_and_evaluate L J C R token w of
             (Err e, w') \<Rightarrow> (Err e, w')
           | (Ok oc, w') \<Rightarrow> (Ok (iyzico_settles oc r), w')))"

text \<open>The outcome of a callback: its token and what the lookup said. \<open>None\<close> is a panic.\<close>

definition iyzico_handle_webhook ::
    "'w iyzico_lib \<Rightarrow> iyzico_codec \<Rightarrow> 'w http_client \<Rightarrow> iyzico_rail \<Rightarrow> string \<Rightarrow> bytes \<Rightarrow> 'w \<Rightarrow>
     ((string \<times> iyzico_outcome) result \<times> 'w) option" where
  "iyzico_handle_webhook L J C R content_type body w =
     (case map_err (\<lambda>e. Rail (''iyzico: '' @ e)) (bounded_len_check body DEFAULT_MAX_BODY_BYTES) of
        Err e \<Rightarrow> Some (Err e, w)
      | Ok _ \<Rightarrow>
          (case iyzico_extract_token J content_type body of
             None \<Rightarrow> None
           | Some None \<Rightarrow> Some (Err (Rail ''payments: iyzico: callback carried no token''), w)
           | Some (Some token) \<Rightarrow>
               Some (case retrieve_checkout_form L J C R token w of
                 (Err e, w') \<Rightarrow> (Err e, w')
               | (Ok form, w') \<Rightarrow> (rbind (evaluate_checkout_form form) (\<lambda>oc. Ok (token, oc)), w'))))"

text \<open>The rail's method; \<open>aborted\<close> is the error the caller's runtime makes of a panic.\<close>

definition iyzico_verify_webhook ::
    "error \<Rightarrow> 'w iyzico_lib \<Rightarrow> iyzico_codec \<Rightarrow> 'w http_client \<Rightarrow> iyzico_rail \<Rightarrow> webhook_delivery \<Rightarrow> 'w \<Rightarrow>
     webhook_event result \<times> 'w" where
  "iyzico_verify_webhook aborted L J C R d w =
     (case iyzico_handle_webhook L J C R (header_or_empty d ''Content-Type'') (raw_body d) w of
        None \<Rightarrow> (Err aborted, w)
      | Some res \<Rightarrow>
          wbind res (\<lambda>(token, oc) w'.
            (Ok (with_object_id (settlement_event ''iyzico'' token [] (co_settled oc) (co_amount_minor oc) (co_currency oc))
               token), w')))"

definition iyzico_payment_rail ::
    "error \<Rightarrow> 'w iyzico_lib \<Rightarrow> iyzico_codec \<Rightarrow> ('w \<Rightarrow> u64) \<Rightarrow> 'w http_client \<Rightarrow> iyzico_rail \<Rightarrow> 'w payment_rail" where
  "iyzico_payment_rail aborted L J now C R =
     \<lparr> rail_id = ''iyzico'',
       capabilities = iy_capabilities R,
       rail_quote = iyzico_quote now R,
       rail_charge = iyzico_charge L J C R,
       rail_verify = iyzico_verify L J C R,
       rail_validate_destination = redirect_url ''iyzico'',
       rail_refund = default_refund,
       rail_verify_webhook = iyzico_verify_webhook aborted L J C R \<rparr>"

section \<open>Facts\<close>

lemma iyzico_charge_Ok:
  "iyzico_charge L J C R req w = (Ok r, w') \<longleftrightarrow>
     (\<exists>currency body parsed. iyzico_begin J R req = Ok (currency, body) \<and>
        says C (iyzico_request L R w BEGIN_PATH body) (iyj_created J) w parsed w' \<and>
        ic_status parsed = ''success'' \<and> ic_token parsed \<noteq> [] \<and> ic_payment_page_url parsed \<noteq> [] \<and>
        r = pending_receipt ''iyzico'' currency (pr_reference req)
              (iyj_proof_to_bytes J (ic_token parsed) (Some (ic_payment_page_url parsed))))"
  unfolding iyzico_charge_def iyzico_post_def guarded_Ok by (auto simp: fetch_then split: if_splits)

lemma iyzico_processor_rail: "processor_rail (iyzico_payment_rail aborted L J now C R) (\<lambda>_. True)"
  by (intro processor_railI processor_coreI)
    (auto simp: iyzico_payment_rail_def iyzico_quote_def hosted_quote_invalid iyzico_charge_def iyzico_begin_def
      major_charge_guards_invalid iyzico_verify_def iyzico_verify_webhook_def
      dest: hosted_quote_Ok split: sum.splits prod.splits if_splits option.splits)

interpretation iyzico: echoing_processor "iyzico_payment_rail aborted L J now C R" "\<lambda>_. True"
  for aborted and L :: "'w iyzico_lib" and J now C R
  by (intro echoing_processor.intro rail_contract.intro rail_contract_axioms.intro iyzico_processor_rail
      processor_rail.axioms(1) [OF iyzico_processor_rail])
    (auto simp: iyzico_payment_rail_def iyzico_quote_def iyzico_charge_Ok dest: hosted_quote_Ok)

lemma retrieve_checkout_form_Ok_iff:
  "retrieve_checkout_form L J C R token w = (Ok form, w') \<longleftrightarrow>
     (\<exists>body. iyj_retrieve_to_bytes J token = Ok body \<and>
        says C (iyzico_request L R w RETRIEVE_PATH body) (iyj_form J) w form w')"
  unfolding retrieve_checkout_form_def guarded_Ok by (auto simp: iyzico_post_def fetch_Ok_iff)

lemma retrieve_and_evaluate_Ok_iff:
  "retrieve_and_evaluate L J C R token w = (Ok oc, w') \<longleftrightarrow>
     (\<exists>form. retrieve_checkout_form L J C R token w = (Ok form, w') \<and>
        oc = (case evaluate_checkout_form form of Ok oc \<Rightarrow> Some oc | Err _ \<Rightarrow> None))"
  by (auto simp: retrieve_and_evaluate_def split: prod.splits sum.splits)

lemma iyzico_verify_True_iff:
  "iyzico_verify L J C R r w = (Ok True, w') \<longleftrightarrow>
     r_rail_id r = ''iyzico'' \<and>
     (\<exists>token form oc. iyzico_token J r = Some token \<and> retrieve_checkout_form L J C R token w = (Ok form, w') \<and>
        evaluate_checkout_form form = Ok oc \<and> co_settled oc \<and> eq_ignore_ascii_case (co_currency oc) (r_currency r) \<and>
        r_amount_minor r \<le> co_amount_minor oc)"
proof -
  have "iyzico_verify L J C R r w = (Ok True, w') \<longleftrightarrow>
      r_rail_id r = ''iyzico'' \<and>
      (\<exists>token oc. iyzico_token J r = Some token \<and> retrieve_and_evaluate L J C R token w = (Ok oc, w') \<and> iyzico_settles oc r)"
    by (cases "iyzico_token J r"; cases "retrieve_and_evaluate L J C R (the (iyzico_token J r)) w";
        cases "fst (retrieve_and_evaluate L J C R (the (iyzico_token J r)) w)")
      (auto simp: iyzico_verify_def guarded_False)
  then show ?thesis
    unfolding retrieve_and_evaluate_Ok_iff
    by (fastforce simp: iyzico_settles_def covers_iff split: sum.splits)
qed

lemma evaluate_checkout_form_settled:
  "evaluate_checkout_form form = Ok oc \<Longrightarrow>
     cf_status form = ''success'' \<and> (co_settled oc \<longleftrightarrow> cf_payment_status form = ''SUCCESS'') \<and>
     (co_settled oc \<longrightarrow> co_amount_minor oc \<noteq> 0 \<and> co_event_id oc \<noteq> [] \<and>
        major_string_to_minor (cf_paid_price form) (co_currency oc) = Ok (co_amount_minor oc))"
  by (auto simp: evaluate_checkout_form_def Let_def split: if_splits)

text \<open>One step of the loop is one step of the reference: a panic, or one byte more and the index behind it.\<close>

lemma decode_step_reads:
  assumes i: "i < length v"
  obtains (panics) "decode_step v (i, Some out) = (i, None)" "iyzico_decode_bytes (drop i v) = None"
  | (reads) k b where "0 < k" "i + k \<le> length v" "decode_step v (i, Some out) = (i + k, Some (out @ [b]))"
      "iyzico_decode_bytes (drop i v) = map_option ((#) b) (iyzico_decode_bytes (drop (i + k) v))"
proof -
  define t where "t = drop (Suc i) v"
  have d: "drop i v = v ! i # t" using i by (simp add: Cons_nth_drop_Suc t_def)
  have t: "2 \<le> length t \<longleftrightarrow> i + 2 < length v" "2 < length t \<longleftrightarrow> i + 3 < length v"
    "i + 2 < length v \<Longrightarrow> t ! 0 = v ! (i + 1)" "i + 2 < length v \<Longrightarrow> t ! Suc 0 = v ! (i + 2)"
    "i + 3 < length v \<Longrightarrow> t ! 2 = v ! (i + 3)" "drop (i + 1) v = t" "drop (i + 3) v = drop 2 t"
    by (auto simp: t_def numeral_3_eq_3)
  note one = reads [of 1, unfolded t(6)] and three = reads [of 3, unfolded t(7)]
  consider (plus) "v ! i = CHR ''+''"
    | (escape) "v ! i = CHR ''%''" "i + 2 < length v"
    | (plain) "v ! i \<noteq> CHR ''+''" "\<not> (v ! i = CHR ''%'' \<and> i + 2 < length v)" by blast
  then show thesis
  proof cases
    case escape
    show thesis
    proof (cases "i + 3 < length v \<and> utf8_cont (code (v ! (i + 3)))")
      case True
      then show thesis using escape by (intro panics) (simp_all add: d t)
    next
      case False
      have e: "iyzico_decode_bytes (drop i v) = (case hex_byte (v ! (i + 1)) (v ! (i + 2)) of
          Some b \<Rightarrow> map_option ((#) b) (iyzico_decode_bytes (drop 2 t))
        | None \<Rightarrow> map_option ((#) (CHR ''%'')) (iyzico_decode_bytes t))"
        using escape False t(3)[OF escape(2)] t(4)[OF escape(2)] by (auto simp: d t(1,2,5))
      show thesis
      proof (cases "hex_byte (v ! (i + 1)) (v ! (i + 2))")
        case None
        then show thesis using escape False e i by (intro one) simp_all
      next
        case (Some b)
        then show thesis using escape False e i by (intro three) simp_all
      qed
    qed
  qed (use one i in \<open>auto simp: d t\<close>)
qed

lemma decode_loop_from:
  "i \<le> length v \<Longrightarrow>
     \<exists>j. while_option (\<lambda>(i, out). i < length v \<and> out \<noteq> None) (decode_step v) (i, Some out) =
       Some (j, map_option ((@) out) (iyzico_decode_bytes (drop i v)))"
proof (induction "length v - i" arbitrary: i out rule: less_induct)
  case less
  show ?case
  proof (cases "i = length v")
    case True
    then show ?thesis by (subst while_option_unfold) simp
  next
    case False
    with less.prems have i: "i < length v" by simp
    have step: "while_option (\<lambda>(i, out). i < length v \<and> out \<noteq> None) (decode_step v) (i, Some out) =
        while_option (\<lambda>(i, out). i < length v \<and> out \<noteq> None) (decode_step v) (decode_step v (i, Some out))"
      using i by (subst while_option_unfold) simp
    from i show ?thesis
    proof (cases rule: decode_step_reads [where out = out])
      case panics
      then show ?thesis unfolding step panics by (subst while_option_unfold) simp
    next
      case (reads k b)
      have "(@) (out @ [b]) = (@) out \<circ> (#) b" by (simp add: fun_eq_iff)
      then show ?thesis
        using less.hyps [of "i + k" "out @ [b]"] reads(1,2) i unfolding step reads(3,4) by (simp add: option.map_comp)
    qed
  qed
qed

text \<open>What a form encoder writes, the decoder reads, without a panic.\<close>

lemma iyzico_decode_bytes_escape_char:
  "s = [] \<or> code (hd s) < 128 \<Longrightarrow>
     iyzico_decode_bytes (percent_encode_char c @ s) = map_option ((#) c) (iyzico_decode_bytes s)"
proof (cases "query_safe c")
  case True
  then have "c \<noteq> CHR ''%''" "c \<noteq> CHR ''+''" by (simp_all add: query_safe_plain)
  with True show ?thesis by (simp add: percent_encode_char_def)
next
  case False
  assume "s = [] \<or> code (hd s) < 128"
  then have "\<not> (s \<noteq> [] \<and> utf8_cont (code (s ! 0)))" by (cases s) (auto simp: utf8_cont_def)
  with False show ?thesis by (auto simp: percent_encode_char_def)
qed

lemma percent_encode_head: "percent_encode s = [] \<or> code (hd (percent_encode s)) < 128"
proof (cases s)
  case (Cons c t)
  then show ?thesis
    by (auto simp: percent_encode_char_def query_safe_def is_ascii_upper_def is_ascii_lower_def is_ascii_digit_def)
qed simp

lemma iyzico_decode_bytes_encode [simp]: "iyzico_decode_bytes (percent_encode s) = Some s"
  by (induction s) (simp_all add: iyzico_decode_bytes_escape_char percent_encode_head)

lemma percent_decode_form_value_encode: "utf8_valid s \<Longrightarrow> percent_decode_form_value (percent_encode s) = Some s"
  by (simp add: percent_decode_form_value_def)

text \<open>A token that is not empty as JSON may be empty as a form.\<close>

lemma iyzico_empty_form_token: "iyzico_find_token [''token=''] = Some (Some [])"
  by (simp add: percent_decode_form_value_def utf8_valid_def)

section \<open>Properties\<close>

definition panic_body :: string where
  "panic_body = ''token=%1'' @ [CHR 0xC3, CHR 0xA9]"

text \<open>
  Anyone can crash the handling of a callback. A form body whose token is a per cent sign, one more
  character and then a two-byte character, which is valid UTF-8, makes the decoder slice inside that
  character and panic, before any exchange with iyzico and whatever the rail's configuration; nothing in
  the body has to be signed or known.
\<close>

theorem iyzico_anonymous_panic:
  "iyzico_handle_webhook L J C R [] (as_bytes panic_body) w = None \<and> utf8_valid panic_body"
proof -
  have v: "utf8_valid panic_body" by code_simp
  have "iyzico_find_token (split_on (\<lambda>c. c = CHR ''&'') panic_body) = None" by code_simp
  moreover have "\<not> contains_str ''application/json'' []" by code_simp
  moreover have "from_utf8 (as_bytes panic_body) = Ok panic_body" using v by (simp add: from_utf8_as_bytes)
  ultimately have "iyzico_extract_token J [] (as_bytes panic_body) = None" by (simp add: iyzico_extract_token_def)
  moreover have "bounded_len_check (as_bytes panic_body) DEFAULT_MAX_BODY_BYTES = Ok ()"
    by (simp add: bounded_len_check_Ok_iff DEFAULT_MAX_BODY_BYTES_def panic_body_def)
  ultimately show ?thesis using v by (simp add: iyzico_handle_webhook_def)
qed

text \<open>
  C37: decoding a form value ends. Whatever the bytes, the loop that decodes a callback's token, whose index
  moves by one or three or stays where it panics, comes to an end, and what it has then is what the
  recursive reference gives: the bytes of the value, or nothing for a panic.
\<close>

theorem iyzico_decode_loop_ends: "\<exists>i. decode_loop v = Some (i, iyzico_decode_bytes v)"
proof -
  have "map_option ((@) []) x = x" for x :: "string option" by (cases x) simp_all
  then show ?thesis using decode_loop_from [of 0 v "[]"] by (simp add: decode_loop_def)
qed

end
