(* ===== verification/Fiat_Lnbits.thy ===== *)
theory Fiat_Lnbits
  imports Fiat_Hosted Json
begin

text \<open>
  \<open>patala-fiat/src/lnbits\<close>: a self-hosted Lightning wallet. Its API says whether an invoice is paid and
  not for how much, so the amount and the currency of \<open>verify\<close> are those the receipt's own proof
  carries. A webhook is authenticated by a secret in its query. The structures \<open>serde\<close> reads and writes
  go through \<open>J\<close>.
\<close>

section \<open>Configuration\<close>

record lnbits_config =
  ln_cfg_base_url :: string
  ln_api_key :: string
  ln_webhook_secret :: string
  ln_webhook_url :: "string option"
  ln_quote_ttl_secs :: u64
  ln_requires_kyc :: bool
  ln_currencies :: "string list"
  ln_timeout_secs :: u64

definition DEFAULT_QUOTE_TTL_SECS :: u64 where "DEFAULT_QUOTE_TTL_SECS = 900"

definition ttl_error :: error where
  "ttl_error = InvalidRequest ''LNBITS_QUOTE_TTL_SECONDS must be a positive integer number of seconds''"

definition env_quote_ttl :: "environment \<Rightarrow> u64 result" where
  "env_quote_ttl env =
     (case env ''LNBITS_QUOTE_TTL_SECONDS'' of
        Some v \<Rightarrow>
          if trim v \<noteq> [] then
            rbind (ok_or ttl_error (parse_u64 (trim v))) (\<lambda>n. if n = 0 then Err ttl_error else Ok n)
          else Ok DEFAULT_QUOTE_TTL_SECS
      | None \<Rightarrow> Ok DEFAULT_QUOTE_TTL_SECS)"

definition trimmed_opt_env :: "environment \<Rightarrow> string \<Rightarrow> string option" where
  "trimmed_opt_env env name =
     (case env name of None \<Rightarrow> None | Some s \<Rightarrow> if trim s = [] then None else Some (trim s))"

definition lnbits_config_from_env :: "environment \<Rightarrow> lnbits_config result" where
  "lnbits_config_from_env env =
     rbind (trimmed_env env ''LNBITS_BASE_URL'') (\<lambda>base_url.
     rbind (trimmed_env env ''LNBITS_API_KEY'') (\<lambda>api_key.
     rbind (trimmed_env env ''LNBITS_WEBHOOK_SECRET'') (\<lambda>webhook_secret.
     rbind (env_quote_ttl env) (\<lambda>ttl.
       Ok \<lparr> ln_cfg_base_url = trim_end_slashes base_url, ln_api_key = api_key, ln_webhook_secret = webhook_secret,
            ln_webhook_url = trimmed_opt_env env ''LNBITS_WEBHOOK_URL'', ln_quote_ttl_secs = ttl,
            ln_requires_kyc = env_flag env ''LNBITS_REQUIRES_KYC'' False,
            ln_currencies = env_currencies env ''LNBITS_CURRENCIES'' [],
            ln_timeout_secs = env_u64 env ''LNBITS_TIMEOUT_SECS'' 20 \<rparr>))))"

section \<open>Structures\<close>

record lnbits_proof =
  lp_payment_hash :: string
  lp_payment_request :: string
  lp_amount_minor :: u64
  lp_currency :: string
  lp_created_at_unix :: u64

record lnbits_codec =
  lnj_error_detail :: "bytes \<Rightarrow> string option"
  lnj_created :: "bytes \<Rightarrow> string + string \<times> string" \<comment> \<open>payment hash and payment request\<close>
  lnj_paid :: "bytes \<Rightarrow> string + bool"
  lnj_event :: "bytes \<Rightarrow> string + string" \<comment> \<open>payment hash\<close>
  lnj_float :: "string \<Rightarrow> string option" \<comment> \<open>the nearest \<open>f64\<close>, as JSON prints it\<close>
  lnj_proof_to_bytes :: "lnbits_proof \<Rightarrow> bytes"
  lnj_proof_from_bytes :: "bytes \<Rightarrow> lnbits_proof option"

definition lnbits_malformed :: "string \<Rightarrow> error" where
  "lnbits_malformed detail = malformed_response ''lnbits'' detail"

definition lnbits_classify_error :: "lnbits_codec \<Rightarrow> nat \<Rightarrow> bytes \<Rightarrow> error" where
  "lnbits_classify_error J status body = unexpected_status ''lnbits'' (lnj_error_detail J body) status"

section \<open>Webhook\<close>

datatype lnbits_webhook_error = LnMissingSecret | LnInvalidSecret | LnMalformedResponse string

fun lnbits_webhook_error_display :: "lnbits_webhook_error \<Rightarrow> string" where
  "lnbits_webhook_error_display LnMissingSecret = ''payments: lnbits: missing ?secret= query parameter on webhook request''"
| "lnbits_webhook_error_display LnInvalidSecret =
     ''payments: lnbits: webhook ?secret= does not match the configured webhook secret''"
| "lnbits_webhook_error_display (LnMalformedResponse m) = ''payments: lnbits: malformed API response: '' @ m"

definition lnbits_verify_and_extract ::
    "lnbits_codec \<Rightarrow> string \<Rightarrow> string option \<Rightarrow> bytes \<Rightarrow> lnbits_webhook_error + string" where
  "lnbits_verify_and_extract J expected given_secret body =
     (case given_secret of
        None \<Rightarrow> Err LnMissingSecret
      | Some given \<Rightarrow>
          if given = [] then Err LnMissingSecret
          else if \<not> constant_time_eq (as_bytes given) (as_bytes expected) then Err LnInvalidSecret
          else
            rbind (map_err LnMalformedResponse (lnj_event J body)) (\<lambda>hash.
              if hash = [] then Err (LnMalformedResponse ''missing payment_hash'') else Ok hash))"

section \<open>The rail\<close>

record lnbits_rail =
  ln_config :: lnbits_config
  ln_capabilities :: rail_capabilities
  ln_base_url :: string

definition lnbits_caps :: "lnbits_config \<Rightarrow> rail_capabilities" where
  "lnbits_caps config =
     \<lparr> caps_class = NonCustodialFinal, reversible = False, requires_kyc = ln_requires_kyc config, holds_funds = False,
       currencies = ln_currencies config, caps_settlement = Instant, atomic_multi_party = False \<rparr>"

definition lnbits_new :: "(u64 \<Rightarrow> string + unit) \<Rightarrow> lnbits_config \<Rightarrow> lnbits_rail result" where
  "lnbits_new client config =
     rbind (require_non_empty ''base_url'' (ln_cfg_base_url config)) (\<lambda>_.
     rbind (require_non_empty ''api_key'' (ln_api_key config)) (\<lambda>_.
     rbind (require_non_empty ''webhook_secret'' (ln_webhook_secret config)) (\<lambda>_.
     rbind (if ln_quote_ttl_secs config = 0 then Err (InvalidRequest ''quote_ttl_secs must be a positive integer'')
            else Ok ()) (\<lambda>_.
     rbind (build_client ''lnbits'' client (ln_timeout_secs config)) (\<lambda>_.
       Ok \<lparr> ln_config = config, ln_capabilities = lnbits_caps config, ln_base_url = ln_cfg_base_url config \<rparr>)))))"

definition lnbits_check_currency :: "lnbits_rail \<Rightarrow> string \<Rightarrow> unit result" where
  "lnbits_check_currency R currency = check_any_currency ''lnbits'' (currencies (ln_capabilities R)) currency"

definition lnbits_request :: "lnbits_rail \<Rightarrow> string \<Rightarrow> string \<Rightarrow> http_body \<Rightarrow> http_request" where
  "lnbits_request R meth path body =
     \<lparr> hq_method = meth, hq_url = ln_base_url R @ path, hq_auth = NoAuth,
       hq_headers = [(''X-Api-Key'', ln_api_key (ln_config R)), (''Accept'', ''application/json'')],
       hq_body = body \<rparr>"

definition lnbits_fetch ::
    "lnbits_codec \<Rightarrow> (bytes \<Rightarrow> string + 'a) \<Rightarrow> 'w http_client \<Rightarrow> lnbits_rail \<Rightarrow> string \<Rightarrow> string \<Rightarrow>
     http_body \<Rightarrow> 'w \<Rightarrow> 'a result \<times> 'w" where
  "lnbits_fetch J parse C R meth path body w =
     fetch ''lnbits'' path (lnbits_classify_error J) lnbits_malformed parse C (lnbits_request R meth path body) w"

definition lnbits_quote :: "('w \<Rightarrow> u64) \<Rightarrow> lnbits_rail \<Rightarrow> pay_request \<Rightarrow> 'w \<Rightarrow> quote result \<times> 'w" where
  "lnbits_quote now R req w =
     (rbind (pay_request_validate req) (\<lambda>_.
      rbind (lnbits_check_currency R (pr_currency req)) (\<lambda>_.
        Ok \<lparr> q_rail_id = ''lnbits'', q_amount_minor = pr_amount_minor req, q_currency = pr_currency req,
             q_fee_minor = 0, q_total_minor = pr_amount_minor req, q_settlement = caps_settlement (ln_capabilities R),
             q_expires_at_unix = saturating_add_u (now w) (ln_quote_ttl_secs (ln_config R)) \<rparr>)), w)"

definition lnbits_charge_guards :: "lnbits_codec \<Rightarrow> lnbits_rail \<Rightarrow> pay_request \<Rightarrow> (string \<times> string) result" where
  "lnbits_charge_guards J R req =
     rbind (major_charge_guards (refused_as ''lnbits'') (lnbits_check_currency R) req) (\<lambda>(currency, amount).
     rbind (ok_or (Rail ''lnbits: could not render amount as a number'') (lnj_float J amount)) (\<lambda>f.
       Ok (currency, f)))"

text \<open>The webhook's address carries the shared secret.\<close>

definition lnbits_webhook_address :: "lnbits_config \<Rightarrow> string option" where
  "lnbits_webhook_address config =
     map_option (\<lambda>url. url @ (if CHR ''?'' \<in> set url then ''&'' else ''?'') @ ''secret='' @
       percent_encode (ln_webhook_secret config)) (ln_webhook_url config)"

definition lnbits_charge_body :: "lnbits_config \<Rightarrow> pay_request \<Rightarrow> string \<Rightarrow> string \<Rightarrow> json" where
  "lnbits_charge_body config req currency amount_float =
     JObject ([(''out'', JBool False), (''amount'', JNumber (Float amount_float)),
       (''unit'', JString (to_ascii_lowercase currency)), (''memo'', JString (''patala order '' @ pr_reference req)),
       (''expiry'', JNumber (PosInt (ln_quote_ttl_secs config)))] @
       (case lnbits_webhook_address config of Some full \<Rightarrow> [(''webhook'', JString full)] | None \<Rightarrow> []))"

definition lnbits_charge_proof :: "u64 \<Rightarrow> pay_request \<Rightarrow> string \<Rightarrow> string \<times> string \<Rightarrow> lnbits_proof" where
  "lnbits_charge_proof now req currency parsed =
     \<lparr> lp_payment_hash = fst parsed, lp_payment_request = snd parsed, lp_amount_minor = pr_amount_minor req,
       lp_currency = currency, lp_created_at_unix = now \<rparr>"

definition lnbits_charge ::
    "lnbits_codec \<Rightarrow> ('w \<Rightarrow> u64) \<Rightarrow> 'w http_client \<Rightarrow> lnbits_rail \<Rightarrow> pay_request \<Rightarrow> 'w \<Rightarrow> receipt result \<times> 'w" where
  "lnbits_charge J now C R req w =
     (case lnbits_charge_guards J R req of
        Err e \<Rightarrow> (Err e, w)
      | Ok (currency, amount) \<Rightarrow>
          (case lnbits_fetch J (lnj_created J) C R ''POST'' ''/api/v1/payments''
              (JsonBody (lnbits_charge_body (ln_config R) req currency amount)) w of
             (Err e, w') \<Rightarrow> (Err e, w')
           | (Ok parsed, w') \<Rightarrow>
               if fst parsed = [] \<or> snd parsed = [] then
                 (Err (lnbits_malformed ''empty payment_hash or payment_request''), w')
               else (Ok (pending_receipt ''lnbits'' currency (pr_reference req)
                       (lnj_proof_to_bytes J (lnbits_charge_proof (now w') req currency parsed))), w')))"

text \<open>Expiry is computed and then not used: only \<open>paid\<close> decides.\<close>

definition paid_wins_over_expiry :: "u64 \<Rightarrow> bool \<Rightarrow> u64 \<Rightarrow> u64 \<Rightarrow> bool" where
  "paid_wins_over_expiry now paid created_at ttl =
     (if paid then True
      else let expired = (ttl < (if created_at \<le> now then now - created_at else 0)) in False)"

definition lnbits_proof_covers :: "lnbits_proof \<Rightarrow> receipt \<Rightarrow> bool" where
  "lnbits_proof_covers pf r =
     (if \<not> eq_ignore_ascii_case (lp_currency pf) (r_currency r) then False
      else if lp_amount_minor pf < r_amount_minor r then False
      else True)"

definition lnbits_verify ::
    "lnbits_codec \<Rightarrow> ('w \<Rightarrow> u64) \<Rightarrow> 'w http_client \<Rightarrow> lnbits_rail \<Rightarrow> receipt \<Rightarrow> 'w \<Rightarrow> bool result \<times> 'w" where
  "lnbits_verify J now C R r w =
     (if r_rail_id r \<noteq> ''lnbits'' then (Ok False, w)
      else case lnj_proof_from_bytes J (r_proof r) of
        None \<Rightarrow> (Ok False, w)
      | Some pf \<Rightarrow>
          if \<not> lnbits_proof_covers pf r then (Ok False, w)
          else case safe_path_segment ''lnbits payment hash'' (lp_payment_hash pf) of
            Err e \<Rightarrow> (Err e, w)
          | Ok hash \<Rightarrow>
              (case lnbits_fetch J (lnj_paid J) C R ''GET'' (''/api/v1/payments/'' @ hash) NoBody w of
                 (Err e, w') \<Rightarrow> (Err e, w')
               | (Ok paid, w') \<Rightarrow>
                   (Ok (paid_wins_over_expiry (now w') paid (lp_created_at_unix pf) (ln_quote_ttl_secs (ln_config R))), w')))"

definition lnbits_verify_webhook ::
    "lnbits_codec \<Rightarrow> lnbits_rail \<Rightarrow> webhook_delivery \<Rightarrow> 'w \<Rightarrow> webhook_event result \<times> 'w" where
  "lnbits_verify_webhook J R d w =
     (rbind (map_err (\<lambda>e. InvalidRequest (lnbits_webhook_error_display e))
        (lnbits_verify_and_extract J (ln_webhook_secret (ln_config R)) (query_param d ''secret'') (raw_body d)))
        (\<lambda>hash. Ok (unconfirmed ''lnbits'' hash hash)), w)"

definition lnbits_payment_rail ::
    "lnbits_codec \<Rightarrow> ('w \<Rightarrow> u64) \<Rightarrow> 'w http_client \<Rightarrow> lnbits_rail \<Rightarrow> 'w payment_rail" where
  "lnbits_payment_rail J now C R =
     \<lparr> rail_id = ''lnbits'',
       capabilities = ln_capabilities R,
       rail_quote = lnbits_quote now R,
       rail_charge = lnbits_charge J now C R,
       rail_verify = lnbits_verify J now C R,
       rail_validate_destination = ignored ''lnbits'',
       rail_refund = default_refund,
       rail_verify_webhook = lnbits_verify_webhook J R \<rparr>"

section \<open>Facts\<close>

lemma lnbits_charge_Ok:
  "lnbits_charge J now C R req w = (Ok r, w') \<longleftrightarrow>
     (\<exists>currency amount parsed. lnbits_charge_guards J R req = Ok (currency, amount) \<and>
        says C (lnbits_request R ''POST'' ''/api/v1/payments''
          (JsonBody (lnbits_charge_body (ln_config R) req currency amount))) (lnj_created J) w parsed w' \<and>
        fst parsed \<noteq> [] \<and> snd parsed \<noteq> [] \<and>
        r = pending_receipt ''lnbits'' currency (pr_reference req)
              (lnj_proof_to_bytes J (lnbits_charge_proof (now w') req currency parsed)))"
  unfolding lnbits_charge_def lnbits_fetch_def guarded_Ok by (auto simp: fetch_then)

lemma lnbits_processor_rail: "processor_rail (lnbits_payment_rail J now C R) (\<lambda>_. True)"
  by (intro processor_railI processor_coreI)
    (auto simp: lnbits_payment_rail_def lnbits_quote_def lnbits_charge_def lnbits_charge_guards_def
      major_charge_guards_invalid lnbits_verify_def lnbits_verify_webhook_def
      split: sum.splits prod.splits if_splits)

interpretation lnbits: echoing_processor "lnbits_payment_rail J now C R" "\<lambda>_. True"
  for J and now :: "'w \<Rightarrow> u64" and C R
  by (intro echoing_processor.intro rail_contract.intro rail_contract_axioms.intro lnbits_processor_rail
      processor_rail.axioms(1) [OF lnbits_processor_rail])
    (auto simp: lnbits_payment_rail_def lnbits_quote_def lnbits_charge_Ok)

interpretation lnbits_final: final_rail "lnbits_payment_rail J now C R" "\<lambda>_. True"
  for J and now :: "'w \<Rightarrow> u64" and C R
  by (intro final_rail.intro final_rail_axioms.intro lnbits.rail_contract_axioms)
    (simp add: lnbits_payment_rail_def default_refund_def)

lemma paid_wins_iff: "paid_wins_over_expiry now paid created ttl \<longleftrightarrow> paid"
  by (simp add: paid_wins_over_expiry_def)

lemma lnbits_proof_covers_iff:
  "lnbits_proof_covers pf r \<longleftrightarrow>
     eq_ignore_ascii_case (lp_currency pf) (r_currency r) \<and> r_amount_minor r \<le> lp_amount_minor pf"
  by (auto simp: lnbits_proof_covers_def)

text \<open>
  A receipt verifies exactly when its own proof covers it and the wallet says that the invoice of that
  proof is paid: the wallet is asked about nothing else.
\<close>

lemma lnbits_verify_True_iff:
  "lnbits_verify J now C R r w = (Ok True, w') \<longleftrightarrow>
     r_rail_id r = ''lnbits'' \<and>
     (\<exists>pf. lnj_proof_from_bytes J (r_proof r) = Some pf \<and>
        eq_ignore_ascii_case (lp_currency pf) (r_currency r) \<and> r_amount_minor r \<le> lp_amount_minor pf \<and>
        safe_path_segment ''lnbits payment hash'' (lp_payment_hash pf) = Ok (lp_payment_hash pf) \<and>
        says C (lnbits_request R ''GET'' (''/api/v1/payments/'' @ lp_payment_hash pf) NoBody) (lnj_paid J) w True w')"
proof (cases "lnj_proof_from_bytes J (r_proof r)")
  case (Some pf)
  show ?thesis
  proof (cases "safe_path_segment ''lnbits payment hash'' (lp_payment_hash pf)")
    case (Inr t)
    moreover from Inr have "t = lp_payment_hash pf" by (simp add: safe_path_segment_Ok_iff)
    moreover have "(case m of (Err e, w1) \<Rightarrow> (Err e, w1) | (Ok paid, w1) \<Rightarrow>
        (Ok (paid_wins_over_expiry (now w1) paid a b), w1)) = (Ok True, w') \<longleftrightarrow> m = (Ok True, w')"
      for m :: "bool result \<times> 'a" and a b
      by (cases m; cases "fst m") (auto simp: paid_wins_iff)
    ultimately show ?thesis
      using Some by (simp add: lnbits_verify_def lnbits_fetch_def lnbits_proof_covers_iff fetch_Ok_iff) blast
  qed (use Some in \<open>auto simp: lnbits_verify_def\<close>)
qed (simp add: lnbits_verify_def)

lemma lnbits_extract_Ok:
  "lnbits_verify_and_extract J expected given body = Ok hash \<longleftrightarrow>
     given = Some expected \<and> expected \<noteq> [] \<and> lnj_event J body = Ok hash \<and> hash \<noteq> []"
  by (auto simp: lnbits_verify_and_extract_def constant_time_eq_iff split: option.splits)

lemma lnbits_event_claims_nothing:
  "lnbits_verify_webhook J R d w = (Ok ev, w') \<Longrightarrow>
     \<not> is_settled ev \<and> we_event_id ev \<noteq> [] \<and> we_object_id ev = we_event_id ev \<and> w' = w"
  by (auto simp: lnbits_verify_webhook_def lnbits_extract_Ok is_settled_def unconfirmed_def)

section \<open>Properties\<close>

text \<open>
  C38: an LNbits receipt verifies for whatever amount its own proof names. Whenever a receipt verifies,
  so does the receipt with any other amount whose proof, which is plain unauthenticated JSON, names
  that amount and the same payment hash: one paid invoice, however small, backs receipts of every size.
\<close>

theorem lnbits_amount_is_the_proofs:
  assumes "lnbits_verify J now C R r w = (Ok True, w')"
    and "lnj_proof_from_bytes J (r_proof r) = Some pf"
    and "lnj_proof_from_bytes J forged = Some (pf\<lparr> lp_amount_minor := amount \<rparr>)"
  shows "lnbits_verify J now C R (r\<lparr> r_amount_minor := amount, r_proof := forged \<rparr>) w = (Ok True, w')"
  using assms by (auto simp: lnbits_verify_True_iff)

definition toy_lnbits :: lnbits_rail where
  "toy_lnbits =
     (let config = \<lparr> ln_cfg_base_url = [], ln_api_key = ''k'', ln_webhook_secret = ''s'', ln_webhook_url = None,
         ln_quote_ttl_secs = 900, ln_requires_kyc = False, ln_currencies = [], ln_timeout_secs = 20 \<rparr>
      in \<lparr> ln_config = config, ln_capabilities = lnbits_caps config, ln_base_url = [] \<rparr>)"

definition toy_lnbits_proof :: "u64 \<Rightarrow> lnbits_proof" where
  "toy_lnbits_proof amount =
     \<lparr> lp_payment_hash = ''h'', lp_payment_request = ''ln'', lp_amount_minor = amount, lp_currency = ''USD'',
       lp_created_at_unix = 0 \<rparr>"

text \<open>A codec that writes a proof of this invoice as its amount in one byte.\<close>

definition toy_lnbits_codec :: lnbits_codec where
  "toy_lnbits_codec =
     \<lparr> lnj_error_detail = (\<lambda>_. None), lnj_created = (\<lambda>_. Ok (''h'', ''ln'')), lnj_paid = (\<lambda>_. Ok True),
       lnj_event = (\<lambda>_. Err []), lnj_float = Some,
       lnj_proof_to_bytes = (\<lambda>pf. [ucast (lp_amount_minor pf)]),
       lnj_proof_from_bytes = (\<lambda>bs. case bs of [b] \<Rightarrow> Some (toy_lnbits_proof (ucast b)) | _ \<Rightarrow> None) \<rparr>"

definition toy_lnbits_receipt :: receipt where
  "toy_lnbits_receipt =
     \<lparr> r_rail_id = ''lnbits'', r_amount_minor = 1, r_currency = ''USD'', r_reference = ''ord'', r_proof = [1],
       r_settled_at_unix = 0 \<rparr>"

lemma toy_lnbits_verifies:
  "lnbits_verify toy_lnbits_codec (\<lambda>_. 0) yes_client toy_lnbits toy_lnbits_receipt () = (Ok True, ())"
  by (auto simp: lnbits_verify_True_iff toy_lnbits_receipt_def toy_lnbits_codec_def toy_lnbits_proof_def
      eq_ignore_ascii_case_def safe_path_segment_Ok_iff)

theorem lnbits_amount_is_the_proofs_witness:
  "lnbits_verify toy_lnbits_codec (\<lambda>_. 0) yes_client toy_lnbits
     (toy_lnbits_receipt\<lparr> r_amount_minor := 200, r_proof := [200] \<rparr>) () = (Ok True, ())"
proof (rule lnbits_amount_is_the_proofs [OF toy_lnbits_verifies])
  show "lnj_proof_from_bytes toy_lnbits_codec (r_proof toy_lnbits_receipt) = Some (toy_lnbits_proof 1)"
    by (simp add: toy_lnbits_codec_def toy_lnbits_receipt_def)
  show "lnj_proof_from_bytes toy_lnbits_codec [200] = Some ((toy_lnbits_proof 1)\<lparr> lp_amount_minor := 200 \<rparr>)"
    by (simp add: toy_lnbits_codec_def toy_lnbits_proof_def)
qed

end
