(* ===== verification/Fiat_Mercadopago.thy ===== *)
theory Fiat_Mercadopago
  imports Fiat_Hosted Json
begin

text \<open>
  \<open>patala-fiat/src/mercadopago\<close>: checkout preferences, payments searched by the caller's reference, and a
  webhook whose MAC covers an id, a request id and a time stamp and whose payment is then fetched. The
  structures \<open>serde\<close> reads and writes go through \<open>J\<close>.
\<close>

section \<open>Configuration\<close>

definition MERCADOPAGO_API_BASE :: string where "MERCADOPAGO_API_BASE = ''https://api.mercadopago.com''"

definition MERCADOPAGO_CURRENCIES :: "string list" where
  "MERCADOPAGO_CURRENCIES = [''ARS'', ''BRL'', ''CLP'', ''COP'', ''MXN'', ''PEN'', ''UYU'']"

record mercadopago_config =
  mg_access_token :: string
  mg_webhook_secret :: string
  mg_requires_kyc :: bool
  mg_currencies :: "string list"
  mg_settlement_days :: u8
  mg_timeout_secs :: u64

definition mercadopago_config_from_env :: "environment \<Rightarrow> mercadopago_config result" where
  "mercadopago_config_from_env env =
     rbind (non_empty_env env ''MERCADOPAGO_ACCESS_TOKEN'') (\<lambda>access_token.
     rbind (non_empty_env env ''MERCADOPAGO_WEBHOOK_SECRET'') (\<lambda>webhook_secret.
       Ok \<lparr> mg_access_token = access_token, mg_webhook_secret = webhook_secret,
            mg_requires_kyc = env_flag env ''MERCADOPAGO_REQUIRES_KYC'' True,
            mg_currencies = env_currencies env ''MERCADOPAGO_CURRENCIES'' MERCADOPAGO_CURRENCIES,
            mg_settlement_days = env_u8 env ''MERCADOPAGO_SETTLEMENT_DAYS'' 2,
            mg_timeout_secs = env_u64 env ''MERCADOPAGO_TIMEOUT_SECS'' 15 \<rparr>))"

section \<open>Payments\<close>

record mercadopago_payment =
  my_id :: i64
  my_status :: string
  my_amount :: json_number
  my_currency :: string
  my_reference :: string
  my_approved :: string

record mercadopago_outcome =
  mo2_reference :: string
  mo2_settled :: bool
  mo2_amount_minor :: u64
  mo2_currency :: string
  mo2_event_id :: string

record mercadopago_codec =
  mgj_error_message :: "bytes \<Rightarrow> string option"
  mgj_preference :: "bytes \<Rightarrow> string + string \<times> string" \<comment> \<open>id and \<open>init_point\<close>\<close>
  mgj_payment :: "bytes \<Rightarrow> string + mercadopago_payment"
  mgj_search :: "bytes \<Rightarrow> string + mercadopago_payment list"
  mgj_event :: "bytes \<Rightarrow> string + string \<times> string" \<comment> \<open>type and the id of the data\<close>
  mgj_number :: "string \<Rightarrow> string + json_number" \<comment> \<open>\<open>Number::from_str\<close>\<close>
  mgj_proof_to_bytes :: "string \<Rightarrow> string option \<Rightarrow> bytes"

definition mercadopago_malformed :: "string \<Rightarrow> error" where
  "mercadopago_malformed detail = malformed_response ''mercadopago'' detail"

definition mercadopago_classify_error :: "mercadopago_codec \<Rightarrow> nat \<Rightarrow> bytes \<Rightarrow> error" where
  "mercadopago_classify_error J status body = unexpected_status ''mercadopago'' (mgj_error_message J body) status"

definition amount_minor_to_json_number :: "mercadopago_codec \<Rightarrow> u64 \<Rightarrow> string \<Rightarrow> json_number result" where
  "amount_minor_to_json_number J amount currency =
     rbind (map_err (refused_as ''mercadopago'') (minor_to_major_string amount currency)) (\<lambda>major.
       map_err (\<lambda>e. InvalidRequest (''mercadopago: unparseable amount '' @ debug_str major @ '': '' @ e)) (mgj_number J major))"

definition json_number_to_amount_minor :: "json_number \<Rightarrow> string \<Rightarrow> u64 result" where
  "json_number_to_amount_minor n currency =
     map_err (\<lambda>e. mercadopago_malformed (''transaction_amount: '' @ currency_error_display e))
       (major_string_to_minor (number_to_string n) currency)"

definition mercadopago_evaluate_payment :: "mercadopago_payment \<Rightarrow> mercadopago_outcome result" where
  "mercadopago_evaluate_payment p =
     (if my_reference p = [] then Err (mercadopago_malformed ''missing external_reference'')
      else
        let currency = to_ascii_uppercase (trim (my_currency p)) in
        rbind (json_number_to_amount_minor (my_amount p) currency) (\<lambda>amount.
          if my_status p = ''approved'' then
            if amount = 0 \<or> my_id p = 0 then Err (mercadopago_malformed ''approved with non-positive amount or no id'')
            else Ok \<lparr> mo2_reference = my_reference p, mo2_settled = True, mo2_amount_minor = amount,
                      mo2_currency = currency, mo2_event_id = dec_of_int (sint (my_id p)) \<rparr>
          else Ok \<lparr> mo2_reference = my_reference p, mo2_settled = False, mo2_amount_minor = 0,
                    mo2_currency = currency, mo2_event_id = dec_of_int (sint (my_id p)) \<rparr>))"

section \<open>Webhook\<close>

datatype mercadopago_webhook_error =
  MgMissingSignature | MgInvalidSignature | MgMalformedResponse string | MgUnhandledEvent string

fun mercadopago_webhook_error_display :: "mercadopago_webhook_error \<Rightarrow> string" where
  "mercadopago_webhook_error_display MgMissingSignature = ''payments: mercadopago: missing x-signature/x-request-id headers''"
| "mercadopago_webhook_error_display MgInvalidSignature = ''payments: mercadopago: invalid webhook signature''"
| "mercadopago_webhook_error_display (MgMalformedResponse m) = ''payments: mercadopago: malformed API response: '' @ m"
| "mercadopago_webhook_error_display (MgUnhandledEvent t) = ''payments: unhandled webhook event type: '' @ t"

text \<open>The loop over the parts of the header keeps what each key said last.\<close>

fun mercadopago_signature_parts ::
    "string option \<times> string option \<Rightarrow> string list \<Rightarrow> string option \<times> string option" where
  "mercadopago_signature_parts acc [] = acc"
| "mercadopago_signature_parts (ts, v1) (part # parts) =
     (case split_once (CHR ''='') (trim part) of
        None \<Rightarrow> mercadopago_signature_parts (ts, v1) parts
      | Some (k, v) \<Rightarrow>
          mercadopago_signature_parts
            (if trim k = ''ts'' then (Some (trim v), v1) else if trim k = ''v1'' then (ts, Some (trim v)) else (ts, v1)) parts)"

definition mercadopago_parse_signature_header :: "string \<Rightarrow> (string \<times> string) option" where
  "mercadopago_parse_signature_header hdr =
     (case mercadopago_signature_parts (None, None) (split_on (\<lambda>c. c = CHR '','') hdr) of
        (Some t, Some v) \<Rightarrow> if t \<noteq> [] \<and> v \<noteq> [] then Some (t, v) else None
      | _ \<Rightarrow> None)"

definition mercadopago_manifest :: "string \<Rightarrow> string \<Rightarrow> string \<Rightarrow> string" where
  "mercadopago_manifest data_id request_id ts =
     ''id:'' @ data_id @ '';request-id:'' @ request_id @ '';ts:'' @ ts @ '';''"

definition mercadopago_verify_signature ::
    "mac_lib \<Rightarrow> mercadopago_codec \<Rightarrow> string \<Rightarrow> bytes \<Rightarrow> string \<Rightarrow> string \<Rightarrow> mercadopago_webhook_error + string" where
  "mercadopago_verify_signature H J secret body x_signature x_request_id =
     (let sig = trim x_signature; rid = trim x_request_id in
      if sig = [] \<or> rid = [] then Err MgMissingSignature
      else
        rbind (map_err MgMalformedResponse (mgj_event J body)) (\<lambda>(event_type, data_id).
          if data_id = [] then Err (MgMalformedResponse ''missing data.id'')
          else case mercadopago_parse_signature_header sig of
            None \<Rightarrow> Err MgInvalidSignature
          | Some (ts, v1) \<Rightarrow>
              if \<not> verify_hmac_sha256_hex H (as_bytes secret) (as_bytes (mercadopago_manifest data_id rid ts)) v1 then
                Err MgInvalidSignature
              else if event_type \<noteq> ''payment'' then Err (MgUnhandledEvent event_type)
              else Ok data_id))"

section \<open>The rail\<close>

record mercadopago_rail =
  mg_config :: mercadopago_config
  mg_capabilities :: rail_capabilities
  mg_base_url :: string

definition mercadopago_new :: "(u64 \<Rightarrow> string + unit) \<Rightarrow> mercadopago_config \<Rightarrow> mercadopago_rail result" where
  "mercadopago_new client config =
     rbind (require_non_empty ''access_token'' (mg_access_token config)) (\<lambda>_.
     rbind (require_non_empty ''webhook_secret'' (mg_webhook_secret config)) (\<lambda>_.
     rbind (if mg_currencies config = [] then Err (InvalidRequest ''currencies must not be empty'') else Ok ()) (\<lambda>_.
     rbind (build_client ''mercadopago'' client (mg_timeout_secs config)) (\<lambda>_.
       Ok \<lparr> mg_config = config,
            mg_capabilities = custodial_caps True (mg_requires_kyc config) (mg_currencies config)
              (Days (mg_settlement_days config)),
            mg_base_url = MERCADOPAGO_API_BASE \<rparr>))))"

definition mercadopago_check_currency :: "mercadopago_rail \<Rightarrow> string \<Rightarrow> unit result" where
  "mercadopago_check_currency R currency =
     check_listed_currency ''mercadopago'' (currencies (mg_capabilities R)) currency"

definition mercadopago_request :: "mercadopago_rail \<Rightarrow> string \<Rightarrow> string \<Rightarrow> http_body \<Rightarrow> http_request" where
  "mercadopago_request R meth path body =
     \<lparr> hq_method = meth, hq_url = mg_base_url R @ path, hq_auth = NoAuth,
       hq_headers = [(''Authorization'', ''Bearer '' @ mg_access_token (mg_config R)), (''Content-Type'', ''application/json'')],
       hq_body = body \<rparr>"

definition mercadopago_fetch ::
    "mercadopago_codec \<Rightarrow> (bytes \<Rightarrow> string + 'a) \<Rightarrow> 'w http_client \<Rightarrow> mercadopago_rail \<Rightarrow> string \<Rightarrow> string \<Rightarrow>
     http_body \<Rightarrow> 'w \<Rightarrow> 'a result \<times> 'w" where
  "mercadopago_fetch J parse C R meth path body w =
     fetch ''mercadopago'' path (mercadopago_classify_error J) mercadopago_malformed parse C
       (mercadopago_request R meth path body) w"

definition mercadopago_quote ::
    "mercadopago_codec \<Rightarrow> ('w \<Rightarrow> u64) \<Rightarrow> mercadopago_rail \<Rightarrow> pay_request \<Rightarrow> 'w \<Rightarrow> quote result \<times> 'w" where
  "mercadopago_quote J now R req w =
     hosted_quote ''mercadopago'' (mercadopago_check_currency R)
       (\<lambda>req. rbind (amount_minor_to_json_number J (pr_amount_minor req) (pr_currency req)) (\<lambda>_. Ok ()))
       (caps_settlement (mg_capabilities R)) now req w"

definition mercadopago_charge_guards ::
    "mercadopago_codec \<Rightarrow> mercadopago_rail \<Rightarrow> pay_request \<Rightarrow> (string \<times> json_number) result" where
  "mercadopago_charge_guards J R req =
     rbind (pay_request_validate req) (\<lambda>_.
     rbind (mercadopago_check_currency R (pr_currency req)) (\<lambda>_.
       let currency = to_ascii_uppercase (trim (pr_currency req)) in
       rbind (amount_minor_to_json_number J (pr_amount_minor req) currency) (\<lambda>price. Ok (currency, price))))"

definition mercadopago_charge_body :: "pay_request \<Rightarrow> string \<Rightarrow> json_number \<Rightarrow> json" where
  "mercadopago_charge_body req currency price =
     JObject ([(''external_reference'', JString (pr_reference req)),
       (''items'', JArray [JObject [(''title'', JString (''Order '' @ pr_reference req)), (''quantity'', JNumber (PosInt 1)),
         (''unit_price'', JNumber price), (''currency_id'', JString currency)]])] @
       (if trim (pr_destination req) \<noteq> [] then
          [(''back_urls'', JObject [(''success'', JString (pr_destination req)), (''failure'', JString (pr_destination req)),
            (''pending'', JString (pr_destination req))])]
        else []))"

definition mercadopago_charge ::
    "mercadopago_codec \<Rightarrow> 'w http_client \<Rightarrow> mercadopago_rail \<Rightarrow> pay_request \<Rightarrow> 'w \<Rightarrow> receipt result \<times> 'w" where
  "mercadopago_charge J C R req w =
     (case mercadopago_charge_guards J R req of
        Err e \<Rightarrow> (Err e, w)
      | Ok (currency, price) \<Rightarrow>
          (case mercadopago_fetch J (mgj_preference J) C R ''POST'' ''/checkout/preferences''
              (JsonBody (mercadopago_charge_body req currency price)) w of
             (Err e, w') \<Rightarrow> (Err e, w')
           | (Ok (pid, init_point), w') \<Rightarrow>
               if init_point = [] then (Err (mercadopago_malformed ''empty init_point''), w')
               else (Ok (pending_receipt ''mercadopago'' currency (pr_reference req)
                       (mgj_proof_to_bytes J pid (Some init_point))), w')))"

text \<open>The loop over the payments found: the first that settles the receipt ends it.\<close>

definition mercadopago_pays :: "receipt \<Rightarrow> mercadopago_payment \<Rightarrow> bool" where
  "mercadopago_pays r p =
     (if my_reference p \<noteq> r_reference r then False
      else case mercadopago_evaluate_payment p of
        Err _ \<Rightarrow> False
      | Ok outcome \<Rightarrow> covers (mo2_settled outcome) (mo2_currency outcome) (mo2_amount_minor outcome) r)"

fun mercadopago_search_loop :: "receipt \<Rightarrow> mercadopago_payment list \<Rightarrow> bool" where
  "mercadopago_search_loop r [] = False"
| "mercadopago_search_loop r (p # ps) = (if mercadopago_pays r p then True else mercadopago_search_loop r ps)"

definition mercadopago_search_path :: "string \<Rightarrow> string" where
  "mercadopago_search_path reference = ''/v1/payments/search?external_reference='' @ percent_encode reference"

definition mercadopago_verify ::
    "mercadopago_codec \<Rightarrow> 'w http_client \<Rightarrow> mercadopago_rail \<Rightarrow> receipt \<Rightarrow> 'w \<Rightarrow> bool result \<times> 'w" where
  "mercadopago_verify J C R r w =
     (if r_rail_id r \<noteq> ''mercadopago'' then (Ok False, w)
      else if trim (r_reference r) = [] then (Ok False, w)
      else
        (case mercadopago_fetch J (mgj_search J) C R ''GET'' (mercadopago_search_path (r_reference r)) NoBody w of
           (Err e, w') \<Rightarrow> (Err e, w')
         | (Ok results, w') \<Rightarrow> (Ok (mercadopago_search_loop r results), w')))"

definition mercadopago_handle_webhook ::
    "mac_lib \<Rightarrow> mercadopago_codec \<Rightarrow> 'w http_client \<Rightarrow> mercadopago_rail \<Rightarrow> bytes \<Rightarrow> string \<Rightarrow> string \<Rightarrow> 'w \<Rightarrow>
     mercadopago_outcome result \<times> 'w" where
  "mercadopago_handle_webhook H J C R body x_signature x_request_id w =
     (case map_err (\<lambda>e. InvalidRequest (mercadopago_webhook_error_display e))
        (mercadopago_verify_signature H J (mg_webhook_secret (mg_config R)) body x_signature x_request_id) of
        Err e \<Rightarrow> (Err e, w)
      | Ok data_id \<Rightarrow>
          (case mercadopago_fetch J (mgj_payment J) C R ''GET'' (''/v1/payments/'' @ data_id) NoBody w of
             (Err e, w') \<Rightarrow> (Err e, w')
           | (Ok p, w') \<Rightarrow>
               (if dec_of_int (sint (my_id p)) \<noteq> data_id then
                  Err (mercadopago_malformed (''fetched payment id '' @ dec_of_int (sint (my_id p)) @
                    '' does not match webhook data.id '' @ debug_str data_id))
                else mercadopago_evaluate_payment p, w')))"

definition mercadopago_verify_webhook ::
    "mac_lib \<Rightarrow> mercadopago_codec \<Rightarrow> 'w http_client \<Rightarrow> mercadopago_rail \<Rightarrow> webhook_delivery \<Rightarrow> 'w \<Rightarrow> webhook_event result \<times> 'w" where
  "mercadopago_verify_webhook H J C R d w =
     wbind (mercadopago_handle_webhook H J C R (raw_body d) (header_or_empty d ''x-signature'')
       (header_or_empty d ''x-request-id'') w) (\<lambda>ev w'.
       (Ok (with_object_id (settlement_event ''mercadopago'' (mo2_event_id ev) (mo2_reference ev) (mo2_settled ev)
          (mo2_amount_minor ev) (mo2_currency ev)) (mo2_event_id ev)), w'))"

definition mercadopago_payment_rail ::
    "mac_lib \<Rightarrow> mercadopago_codec \<Rightarrow> ('w \<Rightarrow> u64) \<Rightarrow> 'w http_client \<Rightarrow> mercadopago_rail \<Rightarrow> 'w payment_rail" where
  "mercadopago_payment_rail H J now C R =
     \<lparr> rail_id = ''mercadopago'',
       capabilities = mg_capabilities R,
       rail_quote = mercadopago_quote J now R,
       rail_charge = mercadopago_charge J C R,
       rail_verify = mercadopago_verify J C R,
       rail_validate_destination = redirect_url ''mercadopago'',
       rail_refund = default_refund,
       rail_verify_webhook = mercadopago_verify_webhook H J C R \<rparr>"

section \<open>Facts\<close>

lemma mercadopago_charge_Ok:
  "mercadopago_charge J C R req w = (Ok r, w') \<longleftrightarrow>
     (\<exists>currency price pid init_point. mercadopago_charge_guards J R req = Ok (currency, price) \<and>
        says C (mercadopago_request R ''POST'' ''/checkout/preferences'' (JsonBody (mercadopago_charge_body req currency price)))
          (mgj_preference J) w (pid, init_point) w' \<and>
        init_point \<noteq> [] \<and>
        r = pending_receipt ''mercadopago'' currency (pr_reference req) (mgj_proof_to_bytes J pid (Some init_point)))"
  unfolding mercadopago_charge_def mercadopago_fetch_def guarded_Ok by (auto simp: fetch_then)

lemma mercadopago_processor_rail: "processor_rail (mercadopago_payment_rail H J now C R) (\<lambda>_. True)"
  by (intro processor_railI processor_coreI)
    (auto simp: mercadopago_payment_rail_def mercadopago_quote_def hosted_quote_invalid mercadopago_charge_def
      mercadopago_charge_guards_def mercadopago_verify_def mercadopago_verify_webhook_def
      dest: hosted_quote_Ok split: sum.splits prod.splits if_splits)

interpretation mercadopago: echoing_processor "mercadopago_payment_rail H J now C R" "\<lambda>_. True"
  for H J and now :: "'w \<Rightarrow> u64" and C R
  by (intro echoing_processor.intro rail_contract.intro rail_contract_axioms.intro mercadopago_processor_rail
      processor_rail.axioms(1) [OF mercadopago_processor_rail])
    (auto simp: mercadopago_payment_rail_def mercadopago_quote_def mercadopago_charge_Ok dest: hosted_quote_Ok)

lemma mercadopago_evaluate_settled:
  "mercadopago_evaluate_payment p = Ok oc \<Longrightarrow>
     mo2_reference oc = my_reference p \<and> mo2_event_id oc = dec_of_int (sint (my_id p)) \<and>
     mo2_currency oc = to_ascii_uppercase (trim (my_currency p)) \<and>
     (mo2_settled oc \<longleftrightarrow> my_status p = ''approved'') \<and>
     (mo2_settled oc \<longrightarrow> mo2_amount_minor oc \<noteq> 0 \<and> my_id p \<noteq> 0 \<and>
        json_number_to_amount_minor (my_amount p) (mo2_currency oc) = Ok (mo2_amount_minor oc))"
  by (auto simp: mercadopago_evaluate_payment_def Let_def split: if_splits)

lemma mercadopago_search_loop_iff: "mercadopago_search_loop r ps \<longleftrightarrow> list_ex (mercadopago_pays r) ps"
  by (induction ps) simp_all

lemma mercadopago_verify_True_iff:
  "mercadopago_verify J C R r w = (Ok True, w') \<longleftrightarrow>
     r_rail_id r = ''mercadopago'' \<and> trim (r_reference r) \<noteq> [] \<and>
     (\<exists>ps. says C (mercadopago_request R ''GET'' (mercadopago_search_path (r_reference r)) NoBody) (mgj_search J) w ps w' \<and>
        list_ex (mercadopago_pays r) ps)"
  by (auto simp: mercadopago_verify_def mercadopago_fetch_def judged_fetch mercadopago_search_loop_iff)

text \<open>Different references are different searches, whatever characters they hold.\<close>

lemma mercadopago_search_path_inject: "mercadopago_search_path s = mercadopago_search_path t \<longleftrightarrow> s = t"
  by (simp add: mercadopago_search_path_def percent_encode_inject)

lemma mercadopago_signature_Ok_iff:
  "mercadopago_verify_signature H J secret body x_sig x_rid = Ok data_id \<longleftrightarrow>
     trim x_sig \<noteq> [] \<and> trim x_rid \<noteq> [] \<and> data_id \<noteq> [] \<and> mgj_event J body = Ok (''payment'', data_id) \<and>
     (\<exists>ts v1. mercadopago_parse_signature_header (trim x_sig) = Some (ts, v1) \<and>
        verify_hmac_sha256_hex H (as_bytes secret) (as_bytes (mercadopago_manifest data_id (trim x_rid) ts)) v1)"
  by (cases "mgj_event J body"; cases "mercadopago_parse_signature_header (trim x_sig)")
    (auto simp: mercadopago_verify_signature_def Let_def split: if_splits)

lemma mercadopago_webhook_Ok_iff:
  "mercadopago_handle_webhook H J C R body x_sig x_rid w = (Ok ev, w') \<longleftrightarrow>
     (\<exists>p. mercadopago_verify_signature H J (mg_webhook_secret (mg_config R)) body x_sig x_rid =
            Ok (dec_of_int (sint (my_id p))) \<and>
        says C (mercadopago_request R ''GET'' (''/v1/payments/'' @ dec_of_int (sint (my_id p))) NoBody) (mgj_payment J) w p w' \<and>
        mercadopago_evaluate_payment p = Ok ev)"
  unfolding mercadopago_handle_webhook_def mercadopago_fetch_def guarded_Ok by (auto simp: fetch_then split: if_splits)

end
