(* ===== verification/Fiat_Midtrans.thy ===== *)
theory Fiat_Midtrans
  imports Fiat_Hosted Json
begin

text \<open>
  \<open>patala-fiat/src/midtrans\<close>: IDR only. A notification carries in its body an unkeyed SHA-512 of its
  order id, status code, amount and the server key, run together; the status itself is not in it. SHA-512
  with its hex encoding is the parameter \<open>sha\<close>; the structures \<open>serde\<close> reads and writes go through \<open>J\<close>.
\<close>

section \<open>Configuration\<close>

definition SNAP_API_BASE :: string where "SNAP_API_BASE = ''https://app.midtrans.com/snap/v1''"
definition CORE_API_BASE :: string where "CORE_API_BASE = ''https://api.midtrans.com/v2''"

record midtrans_config =
  mt_server_key :: string
  mt_requires_kyc :: bool
  mt_settlement_days :: u8
  mt_timeout_secs :: u64

definition midtrans_config_from_env :: "environment \<Rightarrow> midtrans_config result" where
  "midtrans_config_from_env env =
     rbind (non_empty_env env ''MIDTRANS_SERVER_KEY'') (\<lambda>key.
       Ok \<lparr> mt_server_key = key, mt_requires_kyc = env_flag env ''MIDTRANS_REQUIRES_KYC'' True,
            mt_settlement_days = env_u8 env ''MIDTRANS_SETTLEMENT_DAYS'' 2,
            mt_timeout_secs = env_u64 env ''MIDTRANS_TIMEOUT_SECS'' 15 \<rparr>)"

section \<open>Statuses\<close>

record midtrans_status =
  ms_order_id :: string
  ms_transaction_id :: string
  ms_transaction_status :: string
  ms_fraud_status :: string
  ms_gross_amount :: string
  ms_currency :: string
  ms_status_code :: string
  ms_signature_key :: string
  ms_settlement_time :: string
  ms_transaction_time :: string

definition currency_or_idr :: "midtrans_status \<Rightarrow> string" where
  "currency_or_idr s = (if ms_currency s = [] then ''IDR'' else ms_currency s)"

record midtrans_outcome =
  mto_event_id :: string
  mto_settled :: bool
  mto_amount_minor :: u64
  mto_currency :: string

definition midtrans_malformed :: "string \<Rightarrow> error" where
  "midtrans_malformed detail = malformed_response ''midtrans'' detail"

definition midtrans_unsupported_currency :: "string \<Rightarrow> error" where
  "midtrans_unsupported_currency got = InvalidRequest (''midtrans: only IDR is supported, got '' @ debug_str got)"

definition evaluate_status :: "midtrans_status \<Rightarrow> midtrans_outcome result" where
  "evaluate_status s =
     (if ms_order_id s = [] then Err (midtrans_malformed ''missing order_id'')
      else if ms_transaction_id s = [] then
        Err (midtrans_malformed ''no transaction_id: this notification carries no id to deduplicate on'')
      else
        let currency = currency_or_idr s;
            unsettled = \<lparr> mto_event_id = ms_transaction_id s, mto_settled = False, mto_amount_minor = 0, mto_currency = currency \<rparr>
        in rbind (map_err (\<lambda>e. midtrans_malformed (''gross_amount '' @ debug_str (ms_gross_amount s) @ '': '' @ currency_error_display e))
             (major_string_to_minor (ms_gross_amount s) currency)) (\<lambda>amount.
          if ms_transaction_status s = ''capture'' then
            if ms_fraud_status s \<noteq> ''accept'' then Ok unsettled
            else if amount = 0 then Err (midtrans_malformed ''capture/accept with non-positive amount'')
            else Ok (unsettled\<lparr> mto_settled := True, mto_amount_minor := amount \<rparr>)
          else if ms_transaction_status s = ''settlement'' then
            if amount = 0 then Err (midtrans_malformed ''settlement with non-positive amount'')
            else Ok (unsettled\<lparr> mto_settled := True, mto_amount_minor := amount \<rparr>)
          else Ok unsettled))"

record midtrans_codec =
  mtj_error_message :: "bytes \<Rightarrow> string option"
  mtj_created :: "bytes \<Rightarrow> string + string" \<comment> \<open>the redirect URL\<close>
  mtj_status :: "bytes \<Rightarrow> string + midtrans_status"
  mtj_raw_value :: "string \<Rightarrow> string + string" \<comment> \<open>\<open>RawValue::from_string\<close>\<close>
  mtj_begin_to_bytes :: "string \<Rightarrow> string \<Rightarrow> string option \<Rightarrow> string + bytes" \<comment> \<open>order, raw amount, email\<close>
  mtj_proof_to_bytes :: "string option \<Rightarrow> bytes"

definition midtrans_classify_error :: "midtrans_codec \<Rightarrow> nat \<Rightarrow> bytes \<Rightarrow> error" where
  "midtrans_classify_error J status body = unexpected_status ''midtrans'' (mtj_error_message J body) status"

section \<open>Webhook\<close>

datatype midtrans_webhook_error = MtMissingSignature | MtInvalidSignature | MtMalformedResponse string

fun midtrans_webhook_error_display :: "midtrans_webhook_error \<Rightarrow> string" where
  "midtrans_webhook_error_display MtMissingSignature = ''payments: midtrans: webhook body has no signature_key''"
| "midtrans_webhook_error_display MtInvalidSignature = ''payments: midtrans: invalid signature_key''"
| "midtrans_webhook_error_display (MtMalformedResponse m) = ''payments: midtrans: malformed API response: '' @ m"

record midtrans_event =
  mte_event_id :: string
  mte_reference :: string
  mte_settled :: bool
  mte_amount_minor :: u64
  mte_currency :: string

definition constant_time_eq_hex_ci :: "string \<Rightarrow> string \<Rightarrow> bool" where
  "constant_time_eq_hex_ci expected given = constant_time_eq (as_bytes expected) (as_bytes (to_ascii_lowercase given))"

definition midtrans_signed :: "string \<Rightarrow> midtrans_status \<Rightarrow> string" where
  "midtrans_signed server_key s = ms_order_id s @ ms_status_code s @ ms_gross_amount s @ server_key"

definition midtrans_verify_and_parse ::
    "(bytes \<Rightarrow> string) \<Rightarrow> midtrans_codec \<Rightarrow> string \<Rightarrow> bytes \<Rightarrow> midtrans_webhook_error + midtrans_event" where
  "midtrans_verify_and_parse sha J server_key body =
     rbind (map_err MtMalformedResponse (mtj_status J body)) (\<lambda>parsed.
       if ms_signature_key parsed = [] then Err MtMissingSignature
       else if ms_order_id parsed = [] \<or> ms_status_code parsed = [] \<or> ms_gross_amount parsed = [] then
         Err (MtMalformedResponse ''missing order_id/status_code/gross_amount'')
       else if \<not> constant_time_eq_hex_ci (sha (as_bytes (midtrans_signed server_key parsed))) (ms_signature_key parsed) then
         Err MtInvalidSignature
       else
         rbind (map_err (\<lambda>e. MtMalformedResponse (error_display e)) (evaluate_status parsed)) (\<lambda>outcome.
           Ok \<lparr> mte_event_id = mto_event_id outcome, mte_reference = ms_order_id parsed,
                mte_settled = mto_settled outcome, mte_amount_minor = mto_amount_minor outcome,
                mte_currency = mto_currency outcome \<rparr>))"

section \<open>The rail\<close>

record midtrans_rail =
  mt_config :: midtrans_config
  mt_capabilities :: rail_capabilities
  mt_snap_base_url :: string
  mt_core_base_url :: string

definition midtrans_new :: "(u64 \<Rightarrow> string + unit) \<Rightarrow> midtrans_config \<Rightarrow> midtrans_rail result" where
  "midtrans_new client config =
     rbind (require_non_empty ''server_key'' (mt_server_key config)) (\<lambda>_.
     rbind (build_client ''midtrans'' client (mt_timeout_secs config)) (\<lambda>_.
       Ok \<lparr> mt_config = config,
            mt_capabilities = custodial_caps True (mt_requires_kyc config) [''IDR''] (Days (mt_settlement_days config)),
            mt_snap_base_url = SNAP_API_BASE, mt_core_base_url = CORE_API_BASE \<rparr>))"

definition midtrans_request :: "midtrans_rail \<Rightarrow> string \<Rightarrow> string \<Rightarrow> string \<Rightarrow> http_body \<Rightarrow> http_request" where
  "midtrans_request R base meth path body =
     \<lparr> hq_method = meth, hq_url = base @ path, hq_auth = BasicAuth (mt_server_key (mt_config R)) None,
       hq_headers = [(''Content-Type'', ''application/json''), (''Accept'', ''application/json'')], hq_body = body \<rparr>"

definition midtrans_fetch ::
    "midtrans_codec \<Rightarrow> (bytes \<Rightarrow> string + 'a) \<Rightarrow> 'w http_client \<Rightarrow> midtrans_rail \<Rightarrow> string \<Rightarrow> string \<Rightarrow> string \<Rightarrow>
     http_body \<Rightarrow> 'w \<Rightarrow> 'a result \<times> 'w" where
  "midtrans_fetch J parse C R base meth path body w =
     fetch ''midtrans'' path (midtrans_classify_error J) midtrans_malformed parse C (midtrans_request R base meth path body) w"

definition idr_guards :: "pay_request \<Rightarrow> string result" where
  "idr_guards req =
     rbind (pay_request_validate req) (\<lambda>_.
       if \<not> eq_ignore_ascii_case (pr_currency req) ''IDR'' then Err (midtrans_unsupported_currency (pr_currency req))
       else map_err (\<lambda>e. InvalidRequest (currency_error_display e)) (minor_to_major_string (pr_amount_minor req) ''IDR''))"

definition midtrans_quote :: "('w \<Rightarrow> u64) \<Rightarrow> midtrans_rail \<Rightarrow> pay_request \<Rightarrow> 'w \<Rightarrow> quote result \<times> 'w" where
  "midtrans_quote now R req w =
     (rbind (idr_guards req) (\<lambda>_.
        Ok (fiat_quote ''midtrans'' (caps_settlement (mt_capabilities R)) (now w) (pr_amount_minor req) ''IDR'')), w)"

text \<open>The body of a charge, with the amount as raw JSON; no customer without an email.\<close>

definition midtrans_begin :: "midtrans_codec \<Rightarrow> pay_request \<Rightarrow> bytes result" where
  "midtrans_begin J req =
     rbind (idr_guards req) (\<lambda>gross.
       let email = trim (pr_destination req) in
       rbind (map_err (\<lambda>e. Rail (''midtrans: encode gross_amount: '' @ e)) (mtj_raw_value J gross)) (\<lambda>raw.
         map_err (\<lambda>e. Rail (''midtrans: encode request: '' @ e))
           (mtj_begin_to_bytes J (pr_reference req) raw (if email = [] then None else Some email))))"

definition midtrans_charge ::
    "midtrans_codec \<Rightarrow> 'w http_client \<Rightarrow> midtrans_rail \<Rightarrow> pay_request \<Rightarrow> 'w \<Rightarrow> receipt result \<times> 'w" where
  "midtrans_charge J C R req w =
     (case midtrans_begin J req of
        Err e \<Rightarrow> (Err e, w)
      | Ok body \<Rightarrow>
          (case midtrans_fetch J (mtj_created J) C R (mt_snap_base_url R) ''POST'' ''/transactions'' (RawBody body) w of
             (Err e, w') \<Rightarrow> (Err e, w')
           | (Ok redirect, w') \<Rightarrow>
               if redirect = [] then (Err (midtrans_malformed ''empty redirect_url''), w')
               else (Ok (pending_receipt ''midtrans'' ''IDR'' (pr_reference req) (mtj_proof_to_bytes J (Some redirect))), w')))"

definition midtrans_settles :: "string \<Rightarrow> midtrans_status \<Rightarrow> receipt \<Rightarrow> bool" where
  "midtrans_settles reference parsed r =
     (if ms_order_id parsed \<noteq> [] \<and> ms_order_id parsed \<noteq> reference then False
      else case evaluate_status parsed of
        Err _ \<Rightarrow> False
      | Ok outcome \<Rightarrow> covers (mto_settled outcome) (mto_currency outcome) (mto_amount_minor outcome) r)"

definition midtrans_verify ::
    "midtrans_codec \<Rightarrow> 'w http_client \<Rightarrow> midtrans_rail \<Rightarrow> receipt \<Rightarrow> 'w \<Rightarrow> bool result \<times> 'w" where
  "midtrans_verify J C R r w =
     (if r_rail_id r \<noteq> ''midtrans'' then (Ok False, w)
      else case safe_path_segment ''midtrans order_id'' (r_reference r) of
        Err _ \<Rightarrow> (Ok False, w)
      | Ok reference \<Rightarrow>
          (case midtrans_fetch J (mtj_status J) C R (mt_core_base_url R) ''GET'' (''/'' @ reference @ ''/status'') NoBody w of
             (Err e, w') \<Rightarrow> (Err e, w')
           | (Ok parsed, w') \<Rightarrow> (Ok (midtrans_settles reference parsed r), w')))"

definition midtrans_verify_webhook ::
    "(bytes \<Rightarrow> string) \<Rightarrow> midtrans_codec \<Rightarrow> midtrans_rail \<Rightarrow> webhook_delivery \<Rightarrow> 'w \<Rightarrow> webhook_event result \<times> 'w" where
  "midtrans_verify_webhook sha J R d w =
     (rbind (map_err (\<lambda>e. InvalidRequest (midtrans_webhook_error_display e))
        (midtrans_verify_and_parse sha J (mt_server_key (mt_config R)) (raw_body d))) (\<lambda>ev.
        Ok (settlement_event ''midtrans'' (mte_event_id ev) (mte_reference ev) (mte_settled ev)
          (mte_amount_minor ev) (mte_currency ev))), w)"

definition midtrans_payment_rail ::
    "(bytes \<Rightarrow> string) \<Rightarrow> midtrans_codec \<Rightarrow> ('w \<Rightarrow> u64) \<Rightarrow> 'w http_client \<Rightarrow> midtrans_rail \<Rightarrow> 'w payment_rail" where
  "midtrans_payment_rail sha J now C R =
     \<lparr> rail_id = ''midtrans'',
       capabilities = mt_capabilities R,
       rail_quote = midtrans_quote now R,
       rail_charge = midtrans_charge J C R,
       rail_verify = midtrans_verify J C R,
       rail_validate_destination = buyer_email ''midtrans'',
       rail_refund = default_refund,
       rail_verify_webhook = midtrans_verify_webhook sha J R \<rparr>"

section \<open>Facts\<close>

lemma midtrans_charge_Ok:
  "midtrans_charge J C R req w = (Ok r, w') \<longleftrightarrow>
     (\<exists>body redirect. midtrans_begin J req = Ok body \<and>
        says C (midtrans_request R (mt_snap_base_url R) ''POST'' ''/transactions'' (RawBody body)) (mtj_created J) w redirect w' \<and>
        redirect \<noteq> [] \<and>
        r = pending_receipt ''midtrans'' ''IDR'' (pr_reference req) (mtj_proof_to_bytes J (Some redirect)))"
  unfolding midtrans_charge_def midtrans_fetch_def guarded_Ok by (auto simp: fetch_then)

interpretation midtrans: processor_rail "midtrans_payment_rail sha J now C R" "\<lambda>_. True"
  for sha J and now :: "'w \<Rightarrow> u64" and C R
  by (intro processor_railI processor_coreI)
    (auto simp: midtrans_payment_rail_def midtrans_quote_def midtrans_charge_def midtrans_begin_def idr_guards_def
      midtrans_verify_def midtrans_verify_webhook_def split: sum.splits prod.splits if_splits)

definition says_settled :: "midtrans_status \<Rightarrow> bool" where
  "says_settled s \<longleftrightarrow>
     ms_transaction_status s = ''settlement'' \<or> ms_transaction_status s = ''capture'' \<and> ms_fraud_status s = ''accept''"

lemma evaluate_status_Ok_iff:
  "evaluate_status s = Ok oc \<longleftrightarrow>
     ms_order_id s \<noteq> [] \<and> ms_transaction_id s \<noteq> [] \<and>
     (\<exists>amount. major_string_to_minor (ms_gross_amount s) (currency_or_idr s) = Ok amount \<and>
        (says_settled s \<longrightarrow> amount \<noteq> 0) \<and>
        oc = \<lparr> mto_event_id = ms_transaction_id s, mto_settled = says_settled s,
               mto_amount_minor = (if says_settled s then amount else 0), mto_currency = currency_or_idr s \<rparr>)"
proof (cases "major_string_to_minor (ms_gross_amount s) (currency_or_idr s)")
  case (Inr a)
  consider "ms_transaction_status s = ''capture''" "ms_fraud_status s = ''accept''"
    | "ms_transaction_status s = ''capture''" "ms_fraud_status s \<noteq> ''accept''"
    | "ms_transaction_status s = ''settlement''"
    | "ms_transaction_status s \<noteq> ''capture''" "ms_transaction_status s \<noteq> ''settlement''"
    by blast
  then show ?thesis
    by cases (auto simp: evaluate_status_def Let_def says_settled_def Inr)
qed (simp add: evaluate_status_def Let_def)

lemma midtrans_settles_iff:
  "midtrans_settles reference s r \<longleftrightarrow>
     ms_order_id s \<in> {[], reference} \<and>
     (\<exists>oc. evaluate_status s = Ok oc \<and> mto_settled oc \<and> eq_ignore_ascii_case (mto_currency oc) (r_currency r) \<and>
        r_amount_minor r \<le> mto_amount_minor oc)"
  by (auto simp: midtrans_settles_def covers_iff split: sum.splits)

lemma midtrans_verify_True_iff:
  "midtrans_verify J C R r w = (Ok True, w') \<longleftrightarrow>
     r_rail_id r = ''midtrans'' \<and>
     (\<exists>reference s. safe_path_segment ''midtrans order_id'' (r_reference r) = Ok reference \<and>
        says C (midtrans_request R (mt_core_base_url R) ''GET'' (''/'' @ reference @ ''/status'') NoBody) (mtj_status J) w s w' \<and>
        midtrans_settles reference s r)"
  by (auto simp: midtrans_verify_def midtrans_fetch_def guarded_False judged_fetch)

lemma midtrans_authenticated_event:
  "midtrans_verify_and_parse sha J key body = Ok e \<longleftrightarrow>
     (\<exists>s oc. mtj_status J body = Ok s \<and> ms_signature_key s \<noteq> [] \<and> ms_status_code s \<noteq> [] \<and> ms_gross_amount s \<noteq> [] \<and>
        ms_order_id s \<noteq> [] \<and>
        constant_time_eq_hex_ci (sha (as_bytes (midtrans_signed key s))) (ms_signature_key s) \<and>
        evaluate_status s = Ok oc \<and>
        e = \<lparr> mte_event_id = mto_event_id oc, mte_reference = ms_order_id s, mte_settled = mto_settled oc,
              mte_amount_minor = mto_amount_minor oc, mte_currency = mto_currency oc \<rparr>)"
  by (cases "mtj_status J body") (auto simp: midtrans_verify_and_parse_def)

lemma constant_time_eq_hex_ci_iff: "constant_time_eq_hex_ci expected given \<longleftrightarrow> expected = to_ascii_lowercase given"
  by (simp add: constant_time_eq_hex_ci_def constant_time_eq_iff)

text \<open>What a status would be if it said that the payment settled under another transaction id.\<close>

definition resettled :: "string \<Rightarrow> midtrans_status \<Rightarrow> midtrans_status" where
  "resettled tid s = s\<lparr> ms_transaction_status := ''settlement'', ms_transaction_id := tid \<rparr>"

lemma resettled_sel [simp]:
  "midtrans_signed key (resettled tid s) = midtrans_signed key s"
  "ms_signature_key (resettled tid s) = ms_signature_key s" "ms_status_code (resettled tid s) = ms_status_code s"
  "ms_gross_amount (resettled tid s) = ms_gross_amount s" "ms_order_id (resettled tid s) = ms_order_id s"
  "ms_transaction_id (resettled tid s) = tid" "ms_transaction_status (resettled tid s) = ''settlement''"
  "currency_or_idr (resettled tid s) = currency_or_idr s"
  by (simp_all add: midtrans_signed_def resettled_def currency_or_idr_def)

lemma evaluate_resettled:
  assumes "major_string_to_minor (ms_gross_amount s) (currency_or_idr s) = Ok amount" "amount \<noteq> 0"
    and "ms_order_id s \<noteq> []" "tid \<noteq> []"
  shows "evaluate_status (resettled tid s) = Ok
     \<lparr> mto_event_id = tid, mto_settled = True, mto_amount_minor = amount, mto_currency = currency_or_idr s \<rparr>"
  using assms by (simp add: evaluate_status_def Let_def)

section \<open>Properties\<close>

text \<open>
  What a Midtrans notification says happened is not under its signature. Take any notification the
  rail accepts, settled or not, for a non-zero amount; a body that says the same but for its status, now
  \<open>settlement\<close>, and its transaction id, now any other, is accepted too, and is a settled event for the
  full amount under an id the caller has never seen.
\<close>

theorem midtrans_signature_omits_status:
  assumes "midtrans_verify_and_parse sha J key body = Ok e"
    and "mtj_status J body = Ok s" and "mtj_status J forged = Ok (resettled tid s)" and "tid \<noteq> []"
    and "major_string_to_minor (ms_gross_amount s) (currency_or_idr s) = Ok amount" and "amount \<noteq> 0"
  shows "midtrans_verify_and_parse sha J key forged = Ok
     \<lparr> mte_event_id = tid, mte_reference = mte_reference e, mte_settled = True, mte_amount_minor = amount,
       mte_currency = currency_or_idr s \<rparr>"
  using assms unfolding midtrans_authenticated_event
  by (auto simp: evaluate_resettled)

definition toy_midtrans_status :: midtrans_status where
  "toy_midtrans_status =
     \<lparr> ms_order_id = ''o'', ms_transaction_id = ''t'', ms_transaction_status = ''deny'', ms_fraud_status = [],
       ms_gross_amount = ''12.05'', ms_currency = ''USD'', ms_status_code = ''202'', ms_signature_key = ''00'',
       ms_settlement_time = [], ms_transaction_time = [] \<rparr>"

text \<open>A codec for two bodies: the notification, and the same resettled.\<close>

definition toy_midtrans_codec :: midtrans_codec where
  "toy_midtrans_codec =
     \<lparr> mtj_error_message = (\<lambda>_. None), mtj_created = (\<lambda>_. Err []),
       mtj_status = (\<lambda>bs. Ok (if bs = [] then toy_midtrans_status else resettled ''x'' toy_midtrans_status)),
       mtj_raw_value = Ok, mtj_begin_to_bytes = (\<lambda>_ _ _. Err []), mtj_proof_to_bytes = (\<lambda>_. []) \<rparr>"

lemma toy_midtrans_amount: "major_string_to_minor ''12.05'' ''USD'' = Ok 1205"
  by (rule major_of_printed) (simp add: minor_to_major_string_def exponent_USD dec_digits pad_left_def)

lemma toy_midtrans_denied:
  "midtrans_verify_and_parse (\<lambda>_. ''00'') toy_midtrans_codec ''k'' [] = Ok
     \<lparr> mte_event_id = ''t'', mte_reference = ''o'', mte_settled = False, mte_amount_minor = 0, mte_currency = ''USD'' \<rparr>"
proof -
  have "to_ascii_lowercase ''00'' = ''00''" by code_simp
  then show ?thesis
    by (simp add: midtrans_authenticated_event constant_time_eq_hex_ci_iff toy_midtrans_codec_def toy_midtrans_status_def evaluate_status_def
        currency_or_idr_def toy_midtrans_amount)
qed

theorem midtrans_signature_omits_status_witness:
  "midtrans_verify_and_parse (\<lambda>_. ''00'') toy_midtrans_codec ''k'' [1] = Ok
     \<lparr> mte_event_id = ''x'', mte_reference = ''o'', mte_settled = True, mte_amount_minor = 1205, mte_currency = ''USD'' \<rparr>"
proof -
  have "ms_gross_amount toy_midtrans_status = ''12.05''" and c: "currency_or_idr toy_midtrans_status = ''USD''"
    by (simp_all add: toy_midtrans_status_def currency_or_idr_def)
  then have "major_string_to_minor (ms_gross_amount toy_midtrans_status) (currency_or_idr toy_midtrans_status) = Ok 1205"
    by (simp add: toy_midtrans_amount)
  from midtrans_signature_omits_status [OF toy_midtrans_denied _ _ _ this, of "[1]" "''x''"]
  show ?thesis by (simp add: toy_midtrans_codec_def c)
qed

end
