(* ===== verification/Fiat_Mollie.thy ===== *)
theory Fiat_Mollie
  imports Fiat_Adapter Fiat_Currency Form_Encoding
begin

text \<open>
  \<open>patala-fiat/src/mollie\<close>: amounts travel as decimal strings, and a webhook is only the id of a payment
  in a form body, unsigned, so the payment is fetched before anything is believed. The structures
  \<open>serde\<close> reads and writes go through \<open>J\<close>.
\<close>

section \<open>Configuration\<close>

record mollie_config =
  ml_api_key :: string
  ml_webhook_url :: string
  ml_requires_kyc :: bool
  ml_currencies :: "string list"
  ml_settlement_days :: u8
  ml_timeout_secs :: u64

definition mollie_config_from_env :: "environment \<Rightarrow> mollie_config result" where
  "mollie_config_from_env env =
     rbind (non_empty_env env ''MOLLIE_API_KEY'') (\<lambda>api_key.
     rbind (non_empty_env env ''MOLLIE_WEBHOOK_URL'') (\<lambda>webhook_url.
       Ok \<lparr> ml_api_key = api_key, ml_webhook_url = webhook_url,
            ml_requires_kyc = env_flag env ''MOLLIE_REQUIRES_KYC'' True,
            ml_currencies = env_currencies env ''MOLLIE_CURRENCIES'' [],
            ml_settlement_days = env_u8 env ''MOLLIE_SETTLEMENT_DAYS'' 2,
            ml_timeout_secs = env_u64 env ''MOLLIE_TIMEOUT_SECS'' 15 \<rparr>))"

section \<open>Amounts\<close>

definition mollie_malformed :: "string \<Rightarrow> error" where
  "mollie_malformed detail = malformed_response ''mollie'' detail"

definition mollie_unsupported_currency :: "string \<Rightarrow> error" where
  "mollie_unsupported_currency cur =
     InvalidRequest (''mollie: '' @ cur @ '' is not a 2-decimal ISO-4217 currency; its amount.value decimal-string format is not verified against Mollie's documented semantics, refusing rather than guessing (see models.rs HONESTY note)'')"

definition mollie_refused :: "currency_error \<Rightarrow> error" where
  "mollie_refused e = InvalidRequest (''mollie: '' @ currency_error_display e)"

definition mollie_amount_value :: "u64 \<Rightarrow> string \<Rightarrow> string result" where
  "mollie_amount_value amount_minor currency =
     (let cur = to_ascii_uppercase (trim currency) in
      rbind (map_err mollie_refused (exponent cur)) (\<lambda>ex.
      if ex \<noteq> 2 then Err (mollie_unsupported_currency cur)
      else map_err mollie_refused (minor_to_major_string amount_minor cur)))"

definition mollie_amount_value_to_minor :: "string \<Rightarrow> string \<Rightarrow> u64 result" where
  "mollie_amount_value_to_minor val currency =
     (let cur = to_ascii_uppercase (trim currency) in
      rbind (map_err (\<lambda>e. mollie_malformed (currency_error_display e)) (exponent cur)) (\<lambda>ex.
      if ex \<noteq> 2 then Err (mollie_unsupported_currency cur)
      else map_err (\<lambda>e. mollie_malformed (currency_error_display e)) (major_string_to_minor val cur)))"

section \<open>Payments\<close>

record mollie_payment =
  mp_id :: string
  mp_status :: string
  mp_currency :: string
  mp_value :: string
  mp_metadata :: "json option"

record mollie_outcome =
  mo_reference :: string
  mo_settled :: bool
  mo_amount_minor :: u64
  mo_currency :: string

definition metadata_reference :: "json option \<Rightarrow> string option" where
  "metadata_reference raw = Option.bind raw (get_str ''patala_reference'')"

definition mollie_evaluate_payment :: "mollie_payment \<Rightarrow> mollie_outcome result" where
  "mollie_evaluate_payment p =
     (if mp_id p = [] then Err (mollie_malformed ''missing payment id'')
      else
        rbind (ok_or (mollie_malformed ''payment has no patala_reference metadata to reconcile against'')
          (metadata_reference (mp_metadata p))) (\<lambda>reference.
        let currency = to_ascii_uppercase (trim (mp_currency p)) in
        if mp_status p = ''paid'' then
          rbind (mollie_amount_value_to_minor (mp_value p) currency) (\<lambda>amount.
          if amount = 0 then Err (mollie_malformed ''status=paid with non-positive amount'')
          else Ok \<lparr> mo_reference = reference, mo_settled = True, mo_amount_minor = amount, mo_currency = currency \<rparr>)
        else Ok \<lparr> mo_reference = reference, mo_settled = False, mo_amount_minor = 0, mo_currency = currency \<rparr>))"

section \<open>The codec\<close>

record mollie_refunded =
  mr_id :: string
  mr_status :: string
  mr_value :: string

record mollie_codec =
  mlj_error :: "bytes \<Rightarrow> (string \<times> string) option" \<comment> \<open>title and detail\<close>
  mlj_created :: "bytes \<Rightarrow> string + string \<times> string" \<comment> \<open>id and checkout link\<close>
  mlj_payment :: "bytes \<Rightarrow> string + mollie_payment"
  mlj_refund :: "bytes \<Rightarrow> string + mollie_refunded"
  mlj_proof_to_bytes :: "string \<Rightarrow> string option \<Rightarrow> bytes"
  mlj_proof_from_bytes :: "bytes \<Rightarrow> string option" \<comment> \<open>the payment id\<close>
  mlj_refund_to_bytes :: "string \<Rightarrow> string \<Rightarrow> bytes"

definition mollie_classify_error :: "mollie_codec \<Rightarrow> nat \<Rightarrow> bytes \<Rightarrow> error" where
  "mollie_classify_error J status body =
     (let (title, detail) = (case mlj_error J body of Some e \<Rightarrow> e | None \<Rightarrow> ([], []))
      in unexpected_status ''mollie'' (Some (if detail \<noteq> [] then detail else title)) status)"

section \<open>Webhook\<close>

datatype mollie_webhook_error = MlMissingId | MlMalformedForm string

fun mollie_webhook_error_display :: "mollie_webhook_error \<Rightarrow> string" where
  "mollie_webhook_error_display MlMissingId = ''payments: mollie: webhook body has no id parameter''"
| "mollie_webhook_error_display (MlMalformedForm m) = ''payments: mollie: body is not valid form encoding: '' @ m"

definition extract_payment_id :: "bytes \<Rightarrow> mollie_webhook_error + string" where
  "extract_payment_id body =
     rbind (map_err MlMalformedForm (from_utf8 body)) (\<lambda>body_str.
       let pid = (case find (\<lambda>(k, _). k = ''id'') (form_parse body_str) of Some (_, v) \<Rightarrow> trim v | None \<Rightarrow> []) in
       if pid = [] then Err MlMissingId else Ok pid)"

section \<open>The rail\<close>

definition MOLLIE_API_BASE :: string where "MOLLIE_API_BASE = ''https://api.mollie.com/v2''"

record mollie_rail =
  ml_config :: mollie_config
  ml_capabilities :: rail_capabilities
  ml_base_url :: string

definition mollie_new :: "(u64 \<Rightarrow> string + unit) \<Rightarrow> mollie_config \<Rightarrow> mollie_rail result" where
  "mollie_new client config =
     rbind (require_non_empty ''api_key'' (ml_api_key config)) (\<lambda>_.
     rbind (require_non_empty ''webhook_url'' (ml_webhook_url config)) (\<lambda>_.
     rbind (build_client ''mollie'' client (ml_timeout_secs config)) (\<lambda>_.
       Ok \<lparr> ml_config = config,
            ml_capabilities = custodial_caps True (ml_requires_kyc config) (ml_currencies config)
              (Days (ml_settlement_days config)),
            ml_base_url = MOLLIE_API_BASE \<rparr>)))"

definition mollie_check_currency :: "mollie_rail \<Rightarrow> string \<Rightarrow> unit result" where
  "mollie_check_currency R currency =
     (if currencies (ml_capabilities R) = [] then Ok ()
      else check_listed_currency ''mollie'' (currencies (ml_capabilities R)) currency)"

definition mollie_request :: "mollie_rail \<Rightarrow> string \<Rightarrow> string \<Rightarrow> http_body \<Rightarrow> http_request" where
  "mollie_request R meth path body =
     \<lparr> hq_method = meth, hq_url = ml_base_url R @ path, hq_auth = NoAuth,
       hq_headers = [(''Authorization'', ''Bearer '' @ ml_api_key (ml_config R)),
         (''Content-Type'', ''application/json''), (''Accept'', ''application/json'')],
       hq_body = body \<rparr>"

definition mollie_fetch ::
    "mollie_codec \<Rightarrow> (bytes \<Rightarrow> string + 'a) \<Rightarrow> 'w http_client \<Rightarrow> mollie_rail \<Rightarrow> string \<Rightarrow> string \<Rightarrow>
     http_body \<Rightarrow> 'w \<Rightarrow> 'a result \<times> 'w" where
  "mollie_fetch J parse C R meth path body w =
     fetch ''mollie'' path (mollie_classify_error J) mollie_malformed parse C (mollie_request R meth path body) w"

definition mollie_fetch_outcome ::
    "mollie_codec \<Rightarrow> 'w http_client \<Rightarrow> mollie_rail \<Rightarrow> string \<Rightarrow> 'w \<Rightarrow> mollie_outcome result \<times> 'w" where
  "mollie_fetch_outcome J C R payment_id w =
     (case safe_path_segment ''mollie id'' payment_id of
        Err e \<Rightarrow> (Err e, w)
      | Ok pid \<Rightarrow>
          (case mollie_fetch J (mlj_payment J) C R ''GET'' (''/payments/'' @ pid) NoBody w of
             (Err e, w') \<Rightarrow> (Err e, w')
           | (Ok p, w') \<Rightarrow> (mollie_evaluate_payment p, w')))"

definition mollie_handle_webhook ::
    "mollie_codec \<Rightarrow> 'w http_client \<Rightarrow> mollie_rail \<Rightarrow> bytes \<Rightarrow> 'w \<Rightarrow> (string \<times> mollie_outcome) result \<times> 'w" where
  "mollie_handle_webhook J C R body w =
     (case map_err (\<lambda>e. InvalidRequest (mollie_webhook_error_display e)) (extract_payment_id body) of
        Err e \<Rightarrow> (Err e, w)
      | Ok pid \<Rightarrow>
          (case mollie_fetch_outcome J C R pid w of
             (Err e, w') \<Rightarrow> (Err e, w')
           | (Ok out, w') \<Rightarrow> (Ok (pid, out), w')))"

definition mollie_quote :: "('w \<Rightarrow> u64) \<Rightarrow> mollie_rail \<Rightarrow> pay_request \<Rightarrow> 'w \<Rightarrow> quote result \<times> 'w" where
  "mollie_quote now R req w =
     (rbind (pay_request_validate req) (\<lambda>_.
      rbind (mollie_check_currency R (pr_currency req)) (\<lambda>_.
      rbind (mollie_amount_value (pr_amount_minor req) (pr_currency req)) (\<lambda>_.
        Ok (fiat_quote ''mollie'' (caps_settlement (ml_capabilities R)) (now w) (pr_amount_minor req) (pr_currency req))))), w)"

definition mollie_amount_json :: "string \<Rightarrow> string \<Rightarrow> json" where
  "mollie_amount_json currency val = JObject [(''currency'', JString currency), (''value'', JString val)]"

definition mollie_charge_body :: "mollie_rail \<Rightarrow> pay_request \<Rightarrow> string \<Rightarrow> string \<Rightarrow> json" where
  "mollie_charge_body R req currency val =
     JObject [(''amount'', mollie_amount_json currency val),
       (''description'', JString (''patala order '' @ pr_reference req)),
       (''redirectUrl'', JString (pr_destination req)),
       (''webhookUrl'', JString (ml_webhook_url (ml_config R))),
       (''metadata'', JObject [(''patala_reference'', JString (pr_reference req))])]"

definition mollie_charge_guards :: "mollie_rail \<Rightarrow> pay_request \<Rightarrow> (string \<times> string) result" where
  "mollie_charge_guards R req =
     rbind (pay_request_validate req) (\<lambda>_.
     rbind (mollie_check_currency R (pr_currency req)) (\<lambda>_.
       let currency = to_ascii_uppercase (trim (pr_currency req)) in
       rbind (mollie_amount_value (pr_amount_minor req) currency) (\<lambda>val. Ok (currency, val))))"

definition mollie_charge ::
    "mollie_codec \<Rightarrow> 'w http_client \<Rightarrow> mollie_rail \<Rightarrow> pay_request \<Rightarrow> 'w \<Rightarrow> receipt result \<times> 'w" where
  "mollie_charge J C R req w =
     (case mollie_charge_guards R req of
        Err e \<Rightarrow> (Err e, w)
      | Ok (currency, val) \<Rightarrow>
          (case mollie_fetch J (mlj_created J) C R ''POST'' ''/payments'' (JsonBody (mollie_charge_body R req currency val)) w of
             (Err e, w') \<Rightarrow> (Err e, w')
           | (Ok (pid, href), w') \<Rightarrow>
               if pid = [] \<or> href = [] then (Err (mollie_malformed ''empty payment id or _links.checkout.href''), w')
               else (Ok (pending_receipt ''mollie'' currency (pr_reference req) (mlj_proof_to_bytes J pid (Some href))), w')))"

text \<open>Any error of the fetch, a failed request too, is a no.\<close>

definition mollie_verify ::
    "mollie_codec \<Rightarrow> 'w http_client \<Rightarrow> mollie_rail \<Rightarrow> receipt \<Rightarrow> 'w \<Rightarrow> bool result \<times> 'w" where
  "mollie_verify J C R r w =
     (if r_rail_id r \<noteq> ''mollie'' then (Ok False, w)
      else case mlj_proof_from_bytes J (r_proof r) of
        None \<Rightarrow> (Ok False, w)
      | Some pid \<Rightarrow>
          (case mollie_fetch_outcome J C R pid w of
             (Err _, w') \<Rightarrow> (Ok False, w')
           | (Ok out, w') \<Rightarrow> (Ok (covers (mo_settled out) (mo_currency out) (mo_amount_minor out) r), w')))"

definition mollie_refund_guards :: "mollie_codec \<Rightarrow> receipt \<Rightarrow> (string \<times> string \<times> string) result" where
  "mollie_refund_guards J r =
     (if r_rail_id r \<noteq> ''mollie'' then Err (names_other_rail ''mollie'' r)
      else
        rbind (ok_or (InvalidRequest ''receipt proof is not a mollie charge proof'') (mlj_proof_from_bytes J (r_proof r))) (\<lambda>p.
        rbind (safe_path_segment ''mollie id'' p) (\<lambda>pid.
          let currency = to_ascii_uppercase (trim (r_currency r)) in
          rbind (mollie_amount_value (r_amount_minor r) currency) (\<lambda>val. Ok (pid, currency, val)))))"

definition mollie_refund_receipt ::
    "mollie_codec \<Rightarrow> u64 \<Rightarrow> receipt \<Rightarrow> string \<Rightarrow> mollie_refunded \<Rightarrow> receipt result" where
  "mollie_refund_receipt J now r currency parsed =
     rbind (if mr_status parsed = ''refunded'' then mollie_amount_value_to_minor (mr_value parsed) currency else Ok 0)
       (\<lambda>amount.
         Ok \<lparr> r_rail_id = ''mollie'', r_amount_minor = amount, r_currency = currency, r_reference = r_reference r,
              r_proof = mlj_refund_to_bytes J (mr_id parsed) (mr_status parsed), r_settled_at_unix = now \<rparr>)"

definition mollie_refund ::
    "mollie_codec \<Rightarrow> ('w \<Rightarrow> u64) \<Rightarrow> 'w http_client \<Rightarrow> mollie_rail \<Rightarrow> receipt \<Rightarrow> 'w \<Rightarrow> receipt result \<times> 'w" where
  "mollie_refund J now C R r w =
     (case mollie_refund_guards J r of
        Err e \<Rightarrow> (Err e, w)
      | Ok (pid, currency, val) \<Rightarrow>
          (case mollie_fetch J (mlj_refund J) C R ''POST'' (''/payments/'' @ pid @ ''/refunds'')
              (JsonBody (JObject [(''amount'', mollie_amount_json currency val)])) w of
             (Err e, w') \<Rightarrow> (Err e, w')
           | (Ok parsed, w') \<Rightarrow> (mollie_refund_receipt J (now w') r currency parsed, w')))"

definition mollie_verify_webhook ::
    "mollie_codec \<Rightarrow> 'w http_client \<Rightarrow> mollie_rail \<Rightarrow> webhook_delivery \<Rightarrow> 'w \<Rightarrow> webhook_event result \<times> 'w" where
  "mollie_verify_webhook J C R d w =
     (case mollie_handle_webhook J C R (raw_body d) w of
        (Err e, w') \<Rightarrow> (Err e, w')
      | (Ok (pid, out), w') \<Rightarrow>
          (Ok (with_object_id
             (settlement_event ''mollie'' pid (mo_reference out) (mo_settled out) (mo_amount_minor out) (mo_currency out)) pid), w'))"

definition mollie_payment_rail ::
    "mollie_codec \<Rightarrow> ('w \<Rightarrow> u64) \<Rightarrow> 'w http_client \<Rightarrow> mollie_rail \<Rightarrow> 'w payment_rail" where
  "mollie_payment_rail J now C R =
     \<lparr> rail_id = ''mollie'',
       capabilities = ml_capabilities R,
       rail_quote = mollie_quote now R,
       rail_charge = mollie_charge J C R,
       rail_verify = mollie_verify J C R,
       rail_validate_destination = redirect_url ''mollie'',
       rail_refund = mollie_refund J now C R,
       rail_verify_webhook = mollie_verify_webhook J C R \<rparr>"

section \<open>Facts\<close>

lemma mollie_fetch_outcome_Ok:
  "mollie_fetch_outcome J C R pid w = (Ok out, w') \<longleftrightarrow>
     (\<exists>p. safe_path_segment ''mollie id'' pid = Ok pid \<and>
        says C (mollie_request R ''GET'' (''/payments/'' @ pid) NoBody) (mlj_payment J) w p w' \<and>
        mollie_evaluate_payment p = Ok out)"
  unfolding mollie_fetch_outcome_def mollie_fetch_def
  by (auto simp: guarded_Ok fetch_then safe_path_segment_Ok_iff)

lemma mollie_charge_Ok:
  "mollie_charge J C R req w = (Ok r, w') \<longleftrightarrow>
     (\<exists>currency val pid href. mollie_charge_guards R req = Ok (currency, val) \<and>
        says C (mollie_request R ''POST'' ''/payments'' (JsonBody (mollie_charge_body R req currency val)))
          (mlj_created J) w (pid, href) w' \<and> pid \<noteq> [] \<and> href \<noteq> [] \<and>
        r = pending_receipt ''mollie'' currency (pr_reference req) (mlj_proof_to_bytes J pid (Some href)))"
  unfolding mollie_charge_def mollie_fetch_def by (auto simp: guarded_Ok fetch_then)

lemma mollie_verify_webhook_Ok:
  "mollie_verify_webhook J C R d w = (Ok ev, w') \<longleftrightarrow>
     (\<exists>pid out. extract_payment_id (raw_body d) = Ok pid \<and> mollie_fetch_outcome J C R pid w = (Ok out, w') \<and>
        ev = with_object_id
          (settlement_event ''mollie'' pid (mo_reference out) (mo_settled out) (mo_amount_minor out) (mo_currency out)) pid)"
proof (cases "extract_payment_id (raw_body d)")
  case (Inr pid)
  then show ?thesis
    by (cases "mollie_fetch_outcome J C R pid w" rule: prod.exhaust; cases "fst (mollie_fetch_outcome J C R pid w)")
      (auto simp: mollie_verify_webhook_def mollie_handle_webhook_def)
qed (simp add: mollie_verify_webhook_def mollie_handle_webhook_def)

lemma mollie_processor_rail: "processor_rail (mollie_payment_rail J now C R) (\<lambda>_. True)"
  by (intro processor_railI processor_coreI)
    (auto simp: mollie_payment_rail_def mollie_quote_def mollie_charge_def mollie_charge_guards_def
      mollie_verify_def mollie_verify_webhook_Ok Let_def split: sum.splits prod.splits if_splits)

interpretation mollie: echoing_processor "mollie_payment_rail J now C R" "\<lambda>_. True"
  for J and now :: "'w \<Rightarrow> u64" and C R
  by (intro echoing_processor.intro rail_contract.intro rail_contract_axioms.intro mollie_processor_rail
      processor_rail.axioms(1) [OF mollie_processor_rail])
    (auto simp: mollie_payment_rail_def mollie_quote_def mollie_charge_Ok)

lemma mollie_evaluate_settled:
  "mollie_evaluate_payment p = Ok out \<and> mo_settled out \<longleftrightarrow>
     mp_id p \<noteq> [] \<and> mp_status p = ''paid'' \<and>
     (\<exists>reference amount. metadata_reference (mp_metadata p) = Some reference \<and>
        mollie_amount_value_to_minor (mp_value p) (to_ascii_uppercase (trim (mp_currency p))) = Ok amount \<and> amount \<noteq> 0 \<and>
        out = \<lparr> mo_reference = reference, mo_settled = True, mo_amount_minor = amount,
                mo_currency = to_ascii_uppercase (trim (mp_currency p)) \<rparr>)"
  by (auto simp: mollie_evaluate_payment_def Let_def)

lemma mollie_outcome_covers:
  "(\<exists>out. (mollie_evaluate_payment p = Ok out \<and> mo_settled out) \<and>
      eq_ignore_ascii_case (mo_currency out) (r_currency r) \<and> r_amount_minor r \<le> mo_amount_minor out) \<longleftrightarrow>
   mp_id p \<noteq> [] \<and> mp_status p = ''paid'' \<and>
   (\<exists>reference amount. metadata_reference (mp_metadata p) = Some reference \<and>
      mollie_amount_value_to_minor (mp_value p) (to_ascii_uppercase (trim (mp_currency p))) = Ok amount \<and> amount \<noteq> 0 \<and>
      eq_ignore_ascii_case (to_ascii_uppercase (trim (mp_currency p))) (r_currency r) \<and> r_amount_minor r \<le> amount)"
  unfolding mollie_evaluate_settled by auto

lemma mollie_verify_True_iff:
  "mollie_verify J C R r w = (Ok True, w') \<longleftrightarrow>
     r_rail_id r = ''mollie'' \<and>
     (\<exists>pid out. mlj_proof_from_bytes J (r_proof r) = Some pid \<and> mollie_fetch_outcome J C R pid w = (Ok out, w') \<and>
        mo_settled out \<and> eq_ignore_ascii_case (mo_currency out) (r_currency r) \<and> r_amount_minor r \<le> mo_amount_minor out)"
proof (cases "mlj_proof_from_bytes J (r_proof r)")
  case (Some pid)
  then show ?thesis
    by (cases "mollie_fetch_outcome J C R pid w" rule: prod.exhaust; cases "fst (mollie_fetch_outcome J C R pid w)")
      (auto simp: mollie_verify_def covers_iff)
qed (simp add: mollie_verify_def)

text \<open>\<open>verify\<close> never fails: what goes wrong on the way is a no.\<close>

lemma mollie_verify_never_errs: "fst (mollie_verify J C R r w) \<noteq> Err e"
  by (auto simp: mollie_verify_def split: option.splits prod.splits sum.splits)

section \<open>Properties\<close>

text \<open>
  Mollie's \<open>verify\<close> says yes exactly when the receipt names this rail, its proof decodes to a payment
  id that is safe in a path, and Mollie answers a GET of that payment, made with the configured key, with
  a payment that is paid, carries a reference, and whose decimal amount reads, in its two-decimal
  currency, as a positive number of minor units that covers the receipt in the receipt's currency.
\<close>

theorem mollie_verify_exact:
  "mollie_verify J C R r w = (Ok True, w') \<longleftrightarrow>
     r_rail_id r = ''mollie'' \<and>
     (\<exists>pid p reference amount.
        mlj_proof_from_bytes J (r_proof r) = Some pid \<and> safe_path_segment ''mollie id'' pid = Ok pid \<and>
        says C (mollie_request R ''GET'' (''/payments/'' @ pid) NoBody) (mlj_payment J) w p w' \<and>
        mp_id p \<noteq> [] \<and> mp_status p = ''paid'' \<and> metadata_reference (mp_metadata p) = Some reference \<and>
        mollie_amount_value_to_minor (mp_value p) (to_ascii_uppercase (trim (mp_currency p))) = Ok amount \<and> amount \<noteq> 0 \<and>
        eq_ignore_ascii_case (to_ascii_uppercase (trim (mp_currency p))) (r_currency r) \<and> r_amount_minor r \<le> amount)"
proof -
  have "mollie_verify J C R r w = (Ok True, w') \<longleftrightarrow>
     r_rail_id r = ''mollie'' \<and>
     (\<exists>pid p. mlj_proof_from_bytes J (r_proof r) = Some pid \<and> safe_path_segment ''mollie id'' pid = Ok pid \<and>
        says C (mollie_request R ''GET'' (''/payments/'' @ pid) NoBody) (mlj_payment J) w p w' \<and>
        (\<exists>out. (mollie_evaluate_payment p = Ok out \<and> mo_settled out) \<and>
           eq_ignore_ascii_case (mo_currency out) (r_currency r) \<and> r_amount_minor r \<le> mo_amount_minor out))"
    unfolding mollie_verify_True_iff mollie_fetch_outcome_Ok by blast
  then show ?thesis unfolding mollie_outcome_covers by blast
qed

text \<open>
  The event id of a Mollie delivery does not tell one status of a payment from another: the body is
  the payment's id and nothing else, so the delivery that says the payment is still open and the later
  one that says it is paid carry the same event id, and suppressing the second as a duplicate loses the
  settlement.
\<close>

theorem mollie_event_id_hides_settlement:
  assumes "mollie_verify_webhook J C R d w1 = (Ok ev1, w1')"
    and "mollie_verify_webhook J C R d w2 = (Ok ev2, w2')"
  shows "we_event_id ev1 = we_event_id ev2 \<and> we_object_id ev1 = we_object_id ev2"
  using assms by (auto simp: mollie_verify_webhook_Ok with_object_id_def settlement_event_def)

text \<open>A processor whose payment \<open>x\<close> is open in the world \<open>False\<close> and paid in the world \<open>True\<close>.\<close>

definition toy_mollie :: mollie_rail where
  "toy_mollie =
     \<lparr> ml_config = \<lparr> ml_api_key = ''k'', ml_webhook_url = ''u'', ml_requires_kyc = True, ml_currencies = [],
         ml_settlement_days = 2, ml_timeout_secs = 15 \<rparr>,
       ml_capabilities = custodial_caps True True [] (Days 2), ml_base_url = [] \<rparr>"

definition toy_mollie_client :: "bool http_client" where
  "toy_mollie_client req paid =
     (Ok \<lparr> hr_status = 200, hr_headers = [], hr_body = Ok (if paid then [1] else []) \<rparr>, paid)"

definition toy_mollie_codec :: mollie_codec where
  "toy_mollie_codec =
     \<lparr> mlj_error = (\<lambda>_. None), mlj_created = (\<lambda>_. Err []),
       mlj_payment = (\<lambda>b. Ok \<lparr> mp_id = ''x'', mp_status = (if b = [] then ''open'' else ''paid''), mp_currency = ''usd'',
         mp_value = ''12.05'', mp_metadata = Some (JObject [(''patala_reference'', JString ''ord'')]) \<rparr>),
       mlj_refund = (\<lambda>_. Err []), mlj_proof_to_bytes = (\<lambda>_ _. []), mlj_proof_from_bytes = (\<lambda>_. None),
       mlj_refund_to_bytes = (\<lambda>_ _. []) \<rparr>"

lemma toy_mollie_amount: "mollie_amount_value_to_minor ''12.05'' ''USD'' = Ok 1205"
proof -
  have "major_string_to_minor ''12.05'' ''USD'' = Ok 1205"
    by (rule major_of_printed) (simp add: minor_to_major_string_def exponent_USD dec_digits pad_left_def)
  then show ?thesis by (simp add: mollie_amount_value_to_minor_def upper_USD exponent_USD Let_def)
qed

lemma toy_mollie_says:
  "says toy_mollie_client req parse w x w' \<longleftrightarrow> parse (if w then [1] else []) = Ok x \<and> w' = w"
  by (auto simp: says_def toy_mollie_client_def ok_status_def DEFAULT_MAX_BODY_BYTES_def)

definition toy_mollie_outcome :: "bool \<Rightarrow> mollie_outcome" where
  "toy_mollie_outcome paid =
     \<lparr> mo_reference = ''ord'', mo_settled = paid, mo_amount_minor = (if paid then 1205 else 0), mo_currency = ''USD'' \<rparr>"

lemma toy_mollie_fetch:
  "mollie_fetch_outcome toy_mollie_codec toy_mollie_client toy_mollie ''x'' paid = (Ok (toy_mollie_outcome paid), paid)"
proof -
  have "safe_path_segment ''mollie id'' ''x'' = Ok ''x''" by code_simp
  then show ?thesis
    by (simp add: mollie_fetch_outcome_Ok toy_mollie_says toy_mollie_codec_def mollie_evaluate_payment_def
        metadata_reference_def get_str_def upper_USD toy_mollie_amount toy_mollie_outcome_def)
qed

definition toy_mollie_delivery :: webhook_delivery where
  "toy_mollie_delivery = delivery_new (as_bytes ''id=x'') 0"

lemma toy_mollie_payment_id: "extract_payment_id (raw_body toy_mollie_delivery) = Ok ''x''"
  by code_simp

definition toy_mollie_event :: "bool \<Rightarrow> webhook_event" where
  "toy_mollie_event paid =
     with_object_id (settlement_event ''mollie'' ''x'' ''ord'' paid (if paid then 1205 else 0) ''USD'') ''x''"

lemma toy_mollie_webhook:
  "mollie_verify_webhook toy_mollie_codec toy_mollie_client toy_mollie toy_mollie_delivery paid = (Ok (toy_mollie_event paid), paid)"
  by (simp add: mollie_verify_webhook_Ok toy_mollie_payment_id toy_mollie_fetch toy_mollie_outcome_def toy_mollie_event_def)

theorem mollie_event_id_hides_settlement_witness:
  "we_event_id (toy_mollie_event False) = we_event_id (toy_mollie_event True) \<and>
   we_object_id (toy_mollie_event False) = we_object_id (toy_mollie_event True) \<and>
   we_status (toy_mollie_event False) = NotSettled \<and> we_status (toy_mollie_event True) = Settled"
  using mollie_event_id_hides_settlement [OF toy_mollie_webhook [of False] toy_mollie_webhook [of True]]
  by (simp add: toy_mollie_event_def with_object_id_def settlement_event_def)

end
