(* ===== verification/Fiat_Opennode.thy ===== *)
theory Fiat_Opennode
  imports Fiat_Hosted Json
begin

text \<open>
  \<open>patala-fiat/src/opennode\<close>: a hosted Lightning processor. The amount of a charge leaves as a float, a
  webhook is a form body whose \<open>hashed_order\<close> is a MAC of the charge's id under the API key, and only a
  fetch of the charge says that it was paid. The structures \<open>serde\<close> reads and writes, the nearest float
  of a decimal and the text of a JSON value go through \<open>J\<close>.
\<close>

section \<open>Configuration\<close>

record opennode_config =
  on_api_key :: string
  on_cfg_base_url :: string
  on_requires_kyc :: bool
  on_currencies :: "string list"
  on_timeout_secs :: u64

definition OPENNODE_BASE_URL :: string where "OPENNODE_BASE_URL = ''https://api.opennode.com''"

definition opennode_config_from_env :: "environment \<Rightarrow> opennode_config result" where
  "opennode_config_from_env env =
     rbind (trimmed_env env ''OPENNODE_API_KEY'') (\<lambda>api_key.
       Ok \<lparr> on_api_key = api_key,
            on_cfg_base_url = env_base_url env ''OPENNODE_BASE_URL'' OPENNODE_BASE_URL,
            on_requires_kyc = env_flag env ''OPENNODE_REQUIRES_KYC'' False,
            on_currencies = env_currencies env ''OPENNODE_CURRENCIES'' [],
            on_timeout_secs = env_u64 env ''OPENNODE_TIMEOUT_SECS'' 20 \<rparr>)"

section \<open>Charges\<close>

record opennode_charge_data =
  oc_id :: string
  oc_status :: string
  oc_amount :: json
  oc_currency :: string
  oc_checkout_url :: string

datatype opennode_state = OnPaid | OnPending | OnFailed

definition opennode_classify_state :: "string \<Rightarrow> opennode_state" where
  "opennode_classify_state status =
     (if status = ''paid'' then OnPaid
      else if status \<in> {''unpaid'', ''processing''} then OnPending
      else if status \<in> {''underpaid'', ''expired'', ''refunded''} then OnFailed
      else OnFailed)"

record opennode_codec =
  onj_error_message :: "bytes \<Rightarrow> string option"
  onj_charge :: "bytes \<Rightarrow> string + opennode_charge_data" \<comment> \<open>the \<open>data\<close> of an envelope\<close>
  onj_float :: "string \<Rightarrow> string option" \<comment> \<open>the nearest \<open>f64\<close>, as JSON prints it\<close>
  onj_show :: "json \<Rightarrow> string"
  onj_proof_to_bytes :: "string \<times> string \<Rightarrow> bytes" \<comment> \<open>charge id and checkout URL\<close>
  onj_proof_from_bytes :: "bytes \<Rightarrow> (string \<times> string) option"

definition opennode_malformed :: "string \<Rightarrow> error" where
  "opennode_malformed detail = malformed_response ''opennode'' detail"

definition opennode_classify_error :: "opennode_codec \<Rightarrow> nat \<Rightarrow> bytes \<Rightarrow> error" where
  "opennode_classify_error J status body = unexpected_status ''opennode'' (onj_error_message J body) status"

definition flexible_amount :: "opennode_codec \<Rightarrow> json \<Rightarrow> string result" where
  "flexible_amount J raw =
     (case raw of
        JNumber n \<Rightarrow> Ok (number_to_string n)
      | JString s \<Rightarrow> Ok s
      | JNull \<Rightarrow> Err (opennode_malformed ''amount is null'')
      | _ \<Rightarrow> Err (opennode_malformed (''amount is neither a JSON number nor a JSON string: '' @ onj_show J raw)))"

section \<open>Webhook\<close>

datatype opennode_webhook_error = OnMissingSignature | OnInvalidSignature | OnMalformedResponse string

fun opennode_webhook_error_display :: "opennode_webhook_error \<Rightarrow> string" where
  "opennode_webhook_error_display OnMissingSignature = ''payments: opennode: missing hashed_order in webhook callback''"
| "opennode_webhook_error_display OnInvalidSignature = ''payments: opennode: invalid hashed_order in webhook callback''"
| "opennode_webhook_error_display (OnMalformedResponse m) = ''payments: opennode: malformed API response: '' @ m"

text \<open>A decoder of its own: an escape it cannot read swallows the two bytes after the \<open>%\<close>.\<close>

fun opennode_decode_bytes :: "string \<Rightarrow> string" where
  "opennode_decode_bytes [] = []"
| "opennode_decode_bytes [c] = [c]"
| "opennode_decode_bytes [c, a] = (if c = CHR ''%'' then [c] else [c, a])"
| "opennode_decode_bytes (c # a # b # s) =
     (if c = CHR ''%'' then (case hex_byte a b of Some x \<Rightarrow> x | None \<Rightarrow> c) # opennode_decode_bytes s
      else c # opennode_decode_bytes (a # b # s))"

definition plus_to_space :: "string \<Rightarrow> string" where
  "plus_to_space s = map (\<lambda>c. if c = CHR ''+'' then CHR '' '' else c) s"

definition opennode_decode :: "string \<Rightarrow> string" where
  "opennode_decode s = utf8_lossy (opennode_decode_bytes (plus_to_space s))"

definition opennode_form_pair :: "string \<Rightarrow> string \<times> string" where
  "opennode_form_pair pair =
     (case split_once (CHR ''='') pair of
        Some (k, v) \<Rightarrow> (opennode_decode k, opennode_decode v)
      | None \<Rightarrow> (opennode_decode pair, opennode_decode []))"

definition opennode_parse_form_body :: "string \<Rightarrow> string \<rightharpoonup> string" where
  "opennode_parse_form_body body =
     foldl (\<lambda>m pair. if pair = [] then m else let (k, v) = opennode_form_pair pair in m(k \<mapsto> v))
       Map.empty (split_on (\<lambda>c. c = CHR ''&'') body)"

text \<open>The event is the charge's id, as its own id and as the object's.\<close>

definition opennode_verify_and_extract ::
    "mac_lib \<Rightarrow> string \<Rightarrow> (string \<rightharpoonup> string) \<Rightarrow> opennode_webhook_error + string" where
  "opennode_verify_and_extract H api_key form =
     (let ident = form_value form ''id''; hashed_order = form_value form ''hashed_order'' in
      if ident = [] then Err (OnMalformedResponse ''missing id'')
      else if hashed_order = [] then Err OnMissingSignature
      else if \<not> verify_hmac_sha256_hex H (as_bytes api_key) (as_bytes ident) hashed_order then Err OnInvalidSignature
      else Ok ident)"

section \<open>The rail\<close>

record opennode_rail =
  on_config :: opennode_config
  on_capabilities :: rail_capabilities
  on_base_url :: string

definition opennode_new :: "(u64 \<Rightarrow> string + unit) \<Rightarrow> opennode_config \<Rightarrow> opennode_rail result" where
  "opennode_new client config =
     rbind (require_non_empty ''api_key'' (on_api_key config)) (\<lambda>_.
     rbind (build_client ''opennode'' client (on_timeout_secs config)) (\<lambda>_.
       Ok \<lparr> on_config = config,
            on_capabilities = custodial_caps False (on_requires_kyc config) (on_currencies config) Instant,
            on_base_url = on_cfg_base_url config \<rparr>))"

definition opennode_check_currency :: "opennode_rail \<Rightarrow> string \<Rightarrow> unit result" where
  "opennode_check_currency R currency = check_any_currency ''opennode'' (currencies (on_capabilities R)) currency"

definition opennode_request :: "opennode_rail \<Rightarrow> string \<Rightarrow> string \<Rightarrow> http_body \<Rightarrow> http_request" where
  "opennode_request R meth path body =
     \<lparr> hq_method = meth, hq_url = on_base_url R @ path, hq_auth = NoAuth,
       hq_headers = [(''Authorization'', on_api_key (on_config R)), (''Accept'', ''application/json'')],
       hq_body = body \<rparr>"

definition opennode_fetch_charge ::
    "opennode_codec \<Rightarrow> 'w http_client \<Rightarrow> opennode_rail \<Rightarrow> string \<Rightarrow> 'w \<Rightarrow> opennode_charge_data result \<times> 'w" where
  "opennode_fetch_charge J C R charge_id w =
     fetch_object ''opennode'' ''opennode charge id'' (opennode_classify_error J) opennode_malformed (onj_charge J)
       oc_id ''empty charge id'' C (\<lambda>path. opennode_request R ''GET'' path NoBody) ''/v1/charge/'' charge_id w"

definition opennode_quote :: "('w \<Rightarrow> u64) \<Rightarrow> opennode_rail \<Rightarrow> pay_request \<Rightarrow> 'w \<Rightarrow> quote result \<times> 'w" where
  "opennode_quote now R req w =
     hosted_quote ''opennode'' (opennode_check_currency R) no_check (caps_settlement (on_capabilities R)) now req w"

definition opennode_charge_guards :: "opennode_codec \<Rightarrow> opennode_rail \<Rightarrow> pay_request \<Rightarrow> (string \<times> string) result" where
  "opennode_charge_guards J R req =
     rbind (major_charge_guards (refused_as ''opennode'') (opennode_check_currency R) req) (\<lambda>(currency, amount).
     rbind (ok_or (Rail ''opennode: could not render amount as a number'') (onj_float J amount)) (\<lambda>f.
       Ok (currency, f)))"

definition opennode_charge_body :: "pay_request \<Rightarrow> string \<Rightarrow> string \<Rightarrow> json" where
  "opennode_charge_body req currency amount_float =
     JObject [(''amount'', JNumber (Float amount_float)), (''currency'', JString currency),
       (''order_id'', JString (pr_reference req)), (''description'', JString (''patala order '' @ pr_reference req))]"

definition opennode_charge ::
    "opennode_codec \<Rightarrow> 'w http_client \<Rightarrow> opennode_rail \<Rightarrow> pay_request \<Rightarrow> 'w \<Rightarrow> receipt result \<times> 'w" where
  "opennode_charge J C R req w =
     (case opennode_charge_guards J R req of
        Err e \<Rightarrow> (Err e, w)
      | Ok (currency, amount) \<Rightarrow>
          (case fetch ''opennode'' ''/v1/charges'' (opennode_classify_error J) opennode_malformed (onj_charge J) C
              (opennode_request R ''POST'' ''/v1/charges'' (JsonBody (opennode_charge_body req currency amount))) w of
             (Err e, w') \<Rightarrow> (Err e, w')
           | (Ok ch, w') \<Rightarrow>
               if oc_id ch = [] \<or> oc_checkout_url ch = [] then
                 (Err (opennode_malformed ''empty id or hosted_checkout_url''), w')
               else (Ok (pending_receipt ''opennode'' currency (pr_reference req)
                       (onj_proof_to_bytes J (oc_id ch, oc_checkout_url ch))), w')))"

text \<open>The amount is parsed whatever the state says.\<close>

definition opennode_judge :: "opennode_codec \<Rightarrow> opennode_charge_data \<Rightarrow> receipt \<Rightarrow> bool result" where
  "opennode_judge J ch r =
     rbind (flexible_amount J (oc_amount ch)) (\<lambda>amount.
     rbind (map_err (\<lambda>e. opennode_malformed (currency_error_display e)) (major_string_to_minor amount (oc_currency ch)))
       (\<lambda>amount_minor.
     case opennode_classify_state (oc_status ch) of
       OnPaid \<Rightarrow> Ok (covers True (oc_currency ch) amount_minor r)
     | OnPending \<Rightarrow> Ok False
     | OnFailed \<Rightarrow> Ok False))"

definition opennode_verify ::
    "opennode_codec \<Rightarrow> 'w http_client \<Rightarrow> opennode_rail \<Rightarrow> receipt \<Rightarrow> 'w \<Rightarrow> bool result \<times> 'w" where
  "opennode_verify J C R r w =
     proof_verify ''opennode'' (onj_proof_from_bytes J) (\<lambda>pf. opennode_fetch_charge J C R (fst pf)) (opennode_judge J) r w"

definition opennode_verify_webhook ::
    "mac_lib \<Rightarrow> opennode_rail \<Rightarrow> webhook_delivery \<Rightarrow> 'w \<Rightarrow> webhook_event result \<times> 'w" where
  "opennode_verify_webhook H R d w =
     (rbind (map_err (\<lambda>_. InvalidRequest ''opennode: webhook body is not valid UTF-8'') (from_utf8 (raw_body d))) (\<lambda>body.
      rbind (map_err (\<lambda>e. InvalidRequest (opennode_webhook_error_display e))
        (opennode_verify_and_extract H (on_api_key (on_config R)) (opennode_parse_form_body body))) (\<lambda>charge_id.
        Ok (unconfirmed ''opennode'' charge_id charge_id))), w)"

definition opennode_payment_rail ::
    "mac_lib \<Rightarrow> opennode_codec \<Rightarrow> ('w \<Rightarrow> u64) \<Rightarrow> 'w http_client \<Rightarrow> opennode_rail \<Rightarrow> 'w payment_rail" where
  "opennode_payment_rail H J now C R =
     \<lparr> rail_id = ''opennode'',
       capabilities = on_capabilities R,
       rail_quote = opennode_quote now R,
       rail_charge = opennode_charge J C R,
       rail_verify = opennode_verify J C R,
       rail_validate_destination = ignored ''opennode'',
       rail_refund = default_refund,
       rail_verify_webhook = opennode_verify_webhook H R \<rparr>"

section \<open>Facts\<close>

lemma opennode_charge_Ok:
  "opennode_charge J C R req w = (Ok r, w') \<longleftrightarrow>
     (\<exists>currency amount ch. opennode_charge_guards J R req = Ok (currency, amount) \<and>
        says C (opennode_request R ''POST'' ''/v1/charges'' (JsonBody (opennode_charge_body req currency amount)))
          (onj_charge J) w ch w' \<and>
        oc_id ch \<noteq> [] \<and> oc_checkout_url ch \<noteq> [] \<and>
        r = pending_receipt ''opennode'' currency (pr_reference req) (onj_proof_to_bytes J (oc_id ch, oc_checkout_url ch)))"
  unfolding opennode_charge_def guarded_Ok by (auto simp: fetch_then)

lemma opennode_processor_rail: "processor_rail (opennode_payment_rail H J now C R) (\<lambda>_. True)"
  by (intro processor_railI processor_coreI)
    (auto simp: opennode_payment_rail_def opennode_quote_def hosted_quote_invalid opennode_charge_def
      opennode_charge_guards_def major_charge_guards_invalid opennode_verify_def proof_verify_foreign
      opennode_verify_webhook_def dest: hosted_quote_Ok split: sum.splits prod.splits if_splits)

interpretation opennode: echoing_processor "opennode_payment_rail H J now C R" "\<lambda>_. True"
  for H J and now :: "'w \<Rightarrow> u64" and C R
  by (intro echoing_processor.intro rail_contract.intro rail_contract_axioms.intro opennode_processor_rail
      processor_rail.axioms(1) [OF opennode_processor_rail])
    (auto simp: opennode_payment_rail_def opennode_quote_def opennode_charge_Ok dest: hosted_quote_Ok)

interpretation opennode_final: final_rail "opennode_payment_rail H J now C R" "\<lambda>_. True"
  for H J and now :: "'w \<Rightarrow> u64" and C R
  by (intro final_rail.intro final_rail_axioms.intro opennode.rail_contract_axioms)
    (simp add: opennode_payment_rail_def default_refund_def)

lemma opennode_judge_True_iff:
  "opennode_judge J ch r = Ok True \<longleftrightarrow>
     oc_status ch = ''paid'' \<and> eq_ignore_ascii_case (oc_currency ch) (r_currency r) \<and>
     (\<exists>t amount. flexible_amount J (oc_amount ch) = Ok t \<and> major_string_to_minor t (oc_currency ch) = Ok amount \<and>
        r_amount_minor r \<le> amount)"
  by (auto simp: opennode_judge_def opennode_classify_state_def covers_iff split: sum.splits)

lemma opennode_verify_True_iff:
  "opennode_verify J C R r w = (Ok True, w') \<longleftrightarrow>
     r_rail_id r = ''opennode'' \<and>
     (\<exists>cid url ch. onj_proof_from_bytes J (r_proof r) = Some (cid, url) \<and>
        safe_path_segment ''opennode charge id'' cid = Ok cid \<and>
        says C (opennode_request R ''GET'' (''/v1/charge/'' @ cid) NoBody) (onj_charge J) w ch w' \<and>
        oc_id ch \<noteq> [] \<and> opennode_judge J ch r = Ok True)"
  unfolding opennode_verify_def proof_verify_True_iff opennode_fetch_charge_def fetch_object_Ok_iff by auto

lemma opennode_extract_Ok:
  "opennode_verify_and_extract H key form = Ok ident \<longleftrightarrow>
     form ''id'' = Some ident \<and> ident \<noteq> [] \<and>
     (\<exists>h. form ''hashed_order'' = Some h \<and> h \<noteq> [] \<and> verify_hmac_sha256_hex H (as_bytes key) (as_bytes ident) h)"
  by (auto simp: opennode_verify_and_extract_def form_value_def Let_def split: option.splits)

lemma opennode_event_claims_nothing:
  "opennode_verify_webhook H R d w = (Ok ev, w') \<Longrightarrow>
     \<not> is_settled ev \<and> we_event_id ev \<noteq> [] \<and> we_object_id ev = we_event_id ev \<and> w' = w"
  by (auto simp: opennode_verify_webhook_def opennode_extract_Ok is_settled_def unconfirmed_def)

text \<open>What its own processor escapes, the decoder reads back.\<close>

lemma opennode_decode_bytes_escape_char:
  "opennode_decode_bytes (percent_encode_char c @ s) = c # opennode_decode_bytes s"
proof (cases "query_safe c")
  case True
  then have "c \<noteq> CHR ''%''" by (simp add: query_safe_plain)
  with True show ?thesis
    by (cases s rule: opennode_decode_bytes.cases) (auto simp: percent_encode_char_def)
qed (simp add: percent_encode_char_def)

lemma opennode_decode_bytes_encode [simp]: "opennode_decode_bytes (percent_encode s) = s"
  by (induction s) (simp_all add: opennode_decode_bytes_escape_char)

lemma plus_to_space_percent_encode [simp]: "plus_to_space (percent_encode s) = percent_encode s"
  unfolding plus_to_space_def by (rule map_idI) (use percent_encode_no_separator(3) [of s] in auto)

lemma opennode_decode_encode: "utf8_valid s \<Longrightarrow> opennode_decode (percent_encode s) = s"
  by (simp add: opennode_decode_def utf8_lossy_valid utf8_valid_def)

text \<open>An escape that cannot be read costs the two characters after it.\<close>

lemma opennode_decode_swallows: "opennode_decode_bytes ''50%zzoff'' = ''50%off''"
  by (simp add: hex_byte_def hex_val_def is_ascii_digit_def is_ascii_upper_def is_ascii_lower_def)

end
