(* ===== verification/Fiat_Payfast.thy ===== *)
theory Fiat_Payfast
  imports Fiat_Adapter Fiat_Currency Form_Encoding
begin

text \<open>
  \<open>patala-fiat/src/payfast\<close>: a charge is a signed query string, made offline; the only news of a payment
  is a notification, which must carry a valid signature and then be confirmed by PayFast itself. There is
  nothing to poll, so \<open>verify\<close> is unsupported. MD5 is the parameter \<open>M\<close>, the proof's serialisation \<open>P\<close>.
\<close>

section \<open>Configuration\<close>

record payfast_config =
  pf_merchant_id :: string
  pf_merchant_key :: string
  pf_passphrase :: string
  pf_requires_kyc :: bool
  pf_settlement_days :: u8
  pf_timeout_secs :: u64

definition payfast_config_from_env :: "environment \<Rightarrow> payfast_config result" where
  "payfast_config_from_env env =
     rbind (non_empty_env env ''PAYFAST_MERCHANT_ID'') (\<lambda>merchant_id.
     rbind (non_empty_env env ''PAYFAST_MERCHANT_KEY'') (\<lambda>merchant_key.
       Ok \<lparr> pf_merchant_id = merchant_id, pf_merchant_key = merchant_key,
            pf_passphrase = (case env ''PAYFAST_PASSPHRASE'' of Some p \<Rightarrow> p | None \<Rightarrow> []),
            pf_requires_kyc = env_flag env ''PAYFAST_REQUIRES_KYC'' True,
            pf_settlement_days = env_u8 env ''PAYFAST_SETTLEMENT_DAYS'' 2,
            pf_timeout_secs = env_u64 env ''PAYFAST_TIMEOUT_SECS'' 15 \<rparr>))"

section \<open>Signatures\<close>

type_synonym kv = "string \<times> string"

text \<open>\<open>format!("{:x}", md5::compute(_))\<close>\<close>

definition md5_hex :: "(bytes \<Rightarrow> bytes) \<Rightarrow> string \<Rightarrow> string" where
  "md5_hex M s = concat (map (\<lambda>b. [hex_digit (unat b div 16), hex_digit (unat b mod 16)]) (M (as_bytes s)))"

fun join_amp :: "string list \<Rightarrow> string" where
  "join_amp [] = []"
| "join_amp [p] = p"
| "join_amp (p # ps) = p @ ''&'' @ join_amp ps"

definition signed_part :: "kv \<Rightarrow> string" where
  "signed_part f = fst f @ ''='' @ query_escape (snd f)"

definition compute_signature :: "(bytes \<Rightarrow> bytes) \<Rightarrow> kv list \<Rightarrow> string \<Rightarrow> string" where
  "compute_signature M kvs passphrase =
     (let parts = map signed_part (filter (\<lambda>f. snd f \<noteq> []) kvs);
          parts' = (if passphrase \<noteq> [] then parts @ [signed_part (''passphrase'', passphrase)] else parts)
      in md5_hex M (join_amp parts'))"

definition constant_time_eq_str :: "string \<Rightarrow> string \<Rightarrow> bool" where
  "constant_time_eq_str a b = constant_time_eq (as_bytes a) (as_bytes b)"

definition body_pairs :: "string \<Rightarrow> kv list" where
  "body_pairs body_str =
     map (\<lambda>pair. case split_once (CHR ''='') pair of Some kv \<Rightarrow> kv | None \<Rightarrow> (pair, []))
       (filter (\<lambda>p. p \<noteq> []) (split_on (\<lambda>c. c = CHR ''&'') body_str))"

text \<open>The fields a signature is over: every pair but the signature's own that can be unescaped.\<close>

fun signed_fields :: "kv list \<Rightarrow> kv list" where
  "signed_fields [] = []"
| "signed_fields ((k, v) # ps) =
     (if k = ''signature'' then signed_fields ps
      else case (query_unescape k, query_unescape v) of
        (Some dk, Some dv) \<Rightarrow> (dk, dv) # signed_fields ps
      | _ \<Rightarrow> signed_fields ps)"

definition verify_signature :: "(bytes \<Rightarrow> bytes) \<Rightarrow> bytes \<Rightarrow> string \<Rightarrow> string \<Rightarrow> bool" where
  "verify_signature M body given passphrase =
     (if given = [] then False
      else case from_utf8 body of
        Err _ \<Rightarrow> False
      | Ok body_str \<Rightarrow>
          constant_time_eq_str (compute_signature M (signed_fields (body_pairs body_str)) passphrase) given)"

section \<open>Notifications\<close>

definition payfast_malformed :: "string \<Rightarrow> error" where
  "payfast_malformed detail = Rail (''payfast: malformed ITN payload: '' @ detail)"

definition payfast_unexpected_status :: "string \<Rightarrow> error" where
  "payfast_unexpected_status msg = Rail (''payfast: unexpected API response status: '' @ msg)"

definition payfast_unsupported_currency :: "string \<Rightarrow> error" where
  "payfast_unsupported_currency got = InvalidRequest (''payfast: only ZAR is supported, got '' @ debug_str got)"

fun insert_pairs :: "(string \<rightharpoonup> string) \<Rightarrow> kv list \<Rightarrow> string \<rightharpoonup> string" where
  "insert_pairs m [] = m"
| "insert_pairs m ((k, v) # ps) =
     (case (query_unescape k, query_unescape v) of
        (Some dk, Some dv) \<Rightarrow> insert_pairs (m(dk \<mapsto> dv)) ps
      | _ \<Rightarrow> insert_pairs m ps)"

definition parse_query_map :: "bytes \<Rightarrow> (string \<rightharpoonup> string) result" where
  "parse_query_map body =
     rbind (map_err (\<lambda>_. payfast_malformed ''notification body is not valid UTF-8'') (from_utf8 body)) (\<lambda>body_str.
       Ok (insert_pairs Map.empty (body_pairs body_str)))"

record notification_outcome =
  no_reference :: string
  no_event_id :: string
  no_settled :: bool
  no_amount_minor :: u64

definition field_or_empty :: "(string \<rightharpoonup> string) \<Rightarrow> string \<Rightarrow> string" where
  "field_or_empty m k = (case m k of Some v \<Rightarrow> v | None \<Rightarrow> [])"

definition evaluate_notification :: "(string \<rightharpoonup> string) \<Rightarrow> notification_outcome result" where
  "evaluate_notification m =
     (let reference = field_or_empty m ''m_payment_id''; amount_str = field_or_empty m ''amount_gross'';
          pf_payment_id = field_or_empty m ''pf_payment_id''; payment_status = field_or_empty m ''payment_status'' in
      if reference = [] \<or> amount_str = [] then Err (payfast_malformed ''missing m_payment_id or amount_gross'')
      else if pf_payment_id = [] then
        Err (payfast_malformed ''no pf_payment_id: this notification carries no id to deduplicate on'')
      else
        rbind (map_err (\<lambda>e. payfast_malformed (''amount_gross '' @ debug_str amount_str @ '': '' @ currency_error_display e))
          (major_string_to_minor amount_str ''ZAR'')) (\<lambda>amount.
        if payment_status = ''COMPLETE'' then
          if amount = 0 then Err (payfast_malformed ''COMPLETE status with non-positive amount'')
          else Ok \<lparr> no_reference = reference, no_event_id = pf_payment_id, no_settled = True, no_amount_minor = amount \<rparr>
        else Ok \<lparr> no_reference = reference, no_event_id = pf_payment_id, no_settled = False, no_amount_minor = 0 \<rparr>))"

datatype payfast_webhook_error = PfMissingSignature | PfInvalidSignature | PfMalformedNotification string

fun payfast_webhook_error_display :: "payfast_webhook_error \<Rightarrow> string" where
  "payfast_webhook_error_display PfMissingSignature = ''payments: payfast: missing signature field''"
| "payfast_webhook_error_display PfInvalidSignature = ''payments: payfast: invalid signature''"
| "payfast_webhook_error_display (PfMalformedNotification m) = ''payments: payfast: malformed ITN payload: '' @ m"

definition payfast_verify_and_parse ::
    "(bytes \<Rightarrow> bytes) \<Rightarrow> string \<Rightarrow> bytes \<Rightarrow> payfast_webhook_error + notification_outcome" where
  "payfast_verify_and_parse M passphrase body =
     rbind (map_err (\<lambda>e. PfMalformedNotification (error_display e)) (parse_query_map body)) (\<lambda>m.
       let given_sig = field_or_empty m ''signature'' in
       if given_sig = [] then Err PfMissingSignature
       else if \<not> verify_signature M body given_sig passphrase then Err PfInvalidSignature
       else map_err (\<lambda>e. PfMalformedNotification (error_display e)) (evaluate_notification m))"

section \<open>The rail\<close>

definition PAYFAST_PROCESS_URL :: string where "PAYFAST_PROCESS_URL = ''https://www.payfast.co.za/eng/process''"

definition PAYFAST_VALIDATE_URL :: string where "PAYFAST_VALIDATE_URL = ''https://www.payfast.co.za/eng/query/validate''"

record payfast_rail =
  pf_config :: payfast_config
  pf_capabilities :: rail_capabilities
  pf_process_url :: string
  pf_validate_url :: string

definition payfast_new :: "(u64 \<Rightarrow> string + unit) \<Rightarrow> payfast_config \<Rightarrow> payfast_rail result" where
  "payfast_new client config =
     rbind (require_non_empty ''merchant_id'' (pf_merchant_id config)) (\<lambda>_.
     rbind (require_non_empty ''merchant_key'' (pf_merchant_key config)) (\<lambda>_.
     rbind (build_client ''payfast'' client (pf_timeout_secs config)) (\<lambda>_.
       Ok \<lparr> pf_config = config,
            pf_capabilities = custodial_caps True (pf_requires_kyc config) [''ZAR''] (Days (pf_settlement_days config)),
            pf_process_url = PAYFAST_PROCESS_URL, pf_validate_url = PAYFAST_VALIDATE_URL \<rparr>)))"

text \<open>The confirmation: the notification goes back to PayFast as it came, and only \<open>VALID\<close> will do.\<close>

definition confirm_request :: "payfast_rail \<Rightarrow> bytes \<Rightarrow> http_request" where
  "confirm_request R body =
     \<lparr> hq_method = ''POST'', hq_url = pf_validate_url R, hq_auth = NoAuth,
       hq_headers = [(''Content-Type'', ''application/x-www-form-urlencoded'')], hq_body = RawBody body \<rparr>"

definition judge_confirmation :: "http_response \<Rightarrow> unit result" where
  "judge_confirmation resp =
     rbind (map_err (\<lambda>e. Rail (''payfast: failed reading validate response: '' @ e)) (hr_body resp)) (\<lambda>bs.
     rbind (map_err (\<lambda>e. Rail (''payfast: '' @ e)) (bounded_len_check bs DEFAULT_MAX_BODY_BYTES)) (\<lambda>_.
     if \<not> ok_status (hr_status resp) then
       Err (payfast_unexpected_status (''validate endpoint returned http '' @ dec_of_nat (hr_status resp)))
     else if trim (utf8_lossy (string_of_bytes bs)) \<noteq> ''VALID'' then
       Err (Rail ''payfast: server-side validate confirmation did not return VALID'')
     else Ok ()))"

definition confirm_with_payfast :: "'w http_client \<Rightarrow> payfast_rail \<Rightarrow> bytes \<Rightarrow> 'w \<Rightarrow> unit result \<times> 'w" where
  "confirm_with_payfast C R body w =
     (case C (confirm_request R body) w of
        (Err e, w') \<Rightarrow> (Err (Rail (''payfast: validate request failed: '' @ e)), w')
      | (Ok resp, w') \<Rightarrow> (judge_confirmation resp, w'))"

definition itn_parse :: "(bytes \<Rightarrow> bytes) \<Rightarrow> payfast_rail \<Rightarrow> bytes \<Rightarrow> notification_outcome result" where
  "itn_parse M R body =
     rbind (map_err (\<lambda>e. Rail (''payfast: '' @ e)) (bounded_len_check body DEFAULT_MAX_BODY_BYTES)) (\<lambda>_.
       map_err (\<lambda>e. Rail (payfast_webhook_error_display e))
         (payfast_verify_and_parse M (pf_passphrase (pf_config R)) body))"

definition handle_itn ::
    "(bytes \<Rightarrow> bytes) \<Rightarrow> 'w http_client \<Rightarrow> payfast_rail \<Rightarrow> bytes \<Rightarrow> 'w \<Rightarrow> notification_outcome result \<times> 'w" where
  "handle_itn M C R body w =
     (case itn_parse M R body of
        Err e \<Rightarrow> (Err e, w)
      | Ok event \<Rightarrow>
          (case confirm_with_payfast C R body w of
             (Err e, w') \<Rightarrow> (Err e, w')
           | (Ok _, w') \<Rightarrow> (Ok event, w')))"

definition payfast_amount :: "pay_request \<Rightarrow> string result" where
  "payfast_amount req =
     rbind (pay_request_validate req) (\<lambda>_.
     if \<not> eq_ignore_ascii_case (pr_currency req) ''ZAR'' then Err (payfast_unsupported_currency (pr_currency req))
     else map_err (\<lambda>e. InvalidRequest (currency_error_display e)) (minor_to_major_string (pr_amount_minor req) ''ZAR''))"

definition payfast_quote :: "('w \<Rightarrow> u64) \<Rightarrow> payfast_rail \<Rightarrow> pay_request \<Rightarrow> 'w \<Rightarrow> quote result \<times> 'w" where
  "payfast_quote now R req w =
     (rbind (payfast_amount req) (\<lambda>_.
        Ok (fiat_quote ''payfast'' (caps_settlement (pf_capabilities R)) (now w) (pr_amount_minor req) ''ZAR'')), w)"

definition payfast_fields :: "payfast_config \<Rightarrow> pay_request \<Rightarrow> string \<Rightarrow> kv list" where
  "payfast_fields config req amount_str =
     [(''merchant_id'', pf_merchant_id config), (''merchant_key'', pf_merchant_key config),
      (''return_url'', trim (pr_destination req)), (''cancel_url'', trim (pr_destination req)), (''notify_url'', []),
      (''m_payment_id'', pr_reference req), (''amount'', amount_str), (''item_name'', ''Order '' @ pr_reference req)]"

text \<open>The loop that writes the query: an \<open>&\<close> before every field but the first one written.\<close>

fun query_string :: "string \<Rightarrow> kv list \<Rightarrow> string" where
  "query_string qs [] = qs"
| "query_string qs (f # fs) =
     (if snd f = [] then query_string qs fs
      else query_string ((if qs \<noteq> [] then qs @ ''&'' else qs) @ signed_part f) fs)"

definition signed_query :: "(bytes \<Rightarrow> bytes) \<Rightarrow> kv list \<Rightarrow> string \<Rightarrow> string" where
  "signed_query M kvs passphrase =
     query_string [] kvs @ ''&signature='' @ compute_signature M kvs passphrase"

definition payfast_charge ::
    "(bytes \<Rightarrow> bytes) \<Rightarrow> (string \<Rightarrow> string \<Rightarrow> bytes) \<Rightarrow> payfast_rail \<Rightarrow> pay_request \<Rightarrow> 'w \<Rightarrow> receipt result \<times> 'w" where
  "payfast_charge M P R req w =
     (rbind (payfast_amount req) (\<lambda>amount_str.
        Ok (pending_receipt ''payfast'' ''ZAR'' (pr_reference req)
          (P (pf_process_url R)
            (signed_query M (payfast_fields (pf_config R) req amount_str) (pf_passphrase (pf_config R)))))), w)"

definition payfast_verify :: "receipt \<Rightarrow> 'w \<Rightarrow> bool result \<times> 'w" where
  "payfast_verify r w =
     (Err (Unsupported ''verify (payfast has no polling endpoint; use handle_itn instead)''), w)"

definition payfast_verify_webhook ::
    "(bytes \<Rightarrow> bytes) \<Rightarrow> 'w http_client \<Rightarrow> payfast_rail \<Rightarrow> webhook_delivery \<Rightarrow> 'w \<Rightarrow> webhook_event result \<times> 'w" where
  "payfast_verify_webhook M C R d w =
     (case handle_itn M C R (raw_body d) w of
        (Err e, w') \<Rightarrow> (Err e, w')
      | (Ok ev, w') \<Rightarrow>
          (Ok (settlement_event ''payfast'' (no_event_id ev) (no_reference ev) (no_settled ev) (no_amount_minor ev) ''ZAR''), w'))"

definition payfast_payment_rail ::
    "(bytes \<Rightarrow> bytes) \<Rightarrow> (string \<Rightarrow> string \<Rightarrow> bytes) \<Rightarrow> ('w \<Rightarrow> u64) \<Rightarrow> 'w http_client \<Rightarrow> payfast_rail \<Rightarrow> 'w payment_rail" where
  "payfast_payment_rail M P now C R =
     \<lparr> rail_id = ''payfast'',
       capabilities = pf_capabilities R,
       rail_quote = payfast_quote now R,
       rail_charge = payfast_charge M P R,
       rail_verify = payfast_verify,
       rail_validate_destination = redirect_url ''payfast'',
       rail_refund = default_refund,
       rail_verify_webhook = payfast_verify_webhook M C R \<rparr>"

section \<open>Facts\<close>

lemma payfast_amount_invalid: "pay_request_validate req = Err e \<Longrightarrow> payfast_amount req = Err e"
  by (simp add: payfast_amount_def)

text \<open>PayFast's \<open>verify\<close> answers nobody, a receipt of another rail neither, so it keeps the weaker contract.\<close>

interpretation payfast: processor_core "payfast_payment_rail M P now C R" "\<lambda>_. True"
  for M P and now :: "'w \<Rightarrow> u64" and C R
  by (rule processor_coreI)
    (auto simp: payfast_payment_rail_def payfast_quote_def payfast_charge_def payfast_amount_invalid
      payfast_verify_webhook_def split: sum.splits prod.splits)

definition live_parts :: "kv list \<Rightarrow> string list" where
  "live_parts fs = map signed_part (filter (\<lambda>f. snd f \<noteq> []) fs)"

lemma join_amp_Cons: "join_amp (p # ps) = p @ concat (map (\<lambda>q. ''&'' @ q) ps)"
  by (induction ps arbitrary: p) simp_all

lemma signed_part_nonempty [simp]: "signed_part f \<noteq> []"
  by (simp add: signed_part_def)

lemma query_string_more: "qs \<noteq> [] \<Longrightarrow> query_string qs fs = qs @ concat (map (\<lambda>q. ''&'' @ q) (live_parts fs))"
  by (induction fs arbitrary: qs) (simp_all add: live_parts_def)

text \<open>The query \<open>charge\<close> writes is the text the signature is over, up to the passphrase.\<close>

lemma query_string_join: "query_string [] fs = join_amp (live_parts fs)"
proof (induction fs)
  case (Cons f fs)
  then show ?case
    by (auto simp: live_parts_def join_amp_Cons query_string_more [unfolded live_parts_def])
qed (simp add: live_parts_def)

lemma split_amp: "CHR ''&'' \<notin> set p \<Longrightarrow> split_on (\<lambda>c. c = CHR ''&'') (p @ CHR ''&'' # s) = p # split_on (\<lambda>c. c = CHR ''&'') s"
  by (induction p) auto

lemma split_no_amp: "CHR ''&'' \<notin> set p \<Longrightarrow> split_on (\<lambda>c. c = CHR ''&'') p = [p]"
  by (induction p) auto

lemma split_join_amp:
  "list_all (\<lambda>p. CHR ''&'' \<notin> set p) (p # ps) \<Longrightarrow> CHR ''&'' \<notin> set s \<Longrightarrow>
     split_on (\<lambda>c. c = CHR ''&'') (join_amp (p # ps) @ CHR ''&'' # s) = (p # ps) @ [s]"
  by (induction ps arbitrary: p) (auto simp: split_amp split_no_amp)

text \<open>A key as the sources write them: nothing in it is ever escaped.\<close>

definition plain_key :: "string \<Rightarrow> bool" where
  "plain_key k \<longleftrightarrow> list_all query_safe k \<and> k \<noteq> ''signature''"

lemma query_escape_safe: "list_all query_safe k \<Longrightarrow> query_escape k = k"
  by (induction k) (simp_all add: query_escape_char_def)

lemma query_safe_ascii: "query_safe c \<Longrightarrow> code c < 128"
  by (auto simp: query_safe_def is_ascii_digit_def is_ascii_upper_def is_ascii_lower_def)

lemma query_escape_ascii: "list_all (\<lambda>c. code c < 128) (query_escape s)"
  by (auto simp: list_all_iff dest!: set_query_escape query_safe_ascii)

lemma plain_key_facts:
  assumes "plain_key k"
  shows "query_unescape k = Some k" "CHR ''&'' \<notin> set k" "CHR ''='' \<notin> set k" "list_all (\<lambda>c. code c < 128) k"
proof -
  from assms have k: "list_all query_safe k" by (simp add: plain_key_def)
  then show "CHR ''&'' \<notin> set k" "CHR ''='' \<notin> set k"
    using query_safe_plain by (fastforce simp: list_all_iff)+
  from k show a: "list_all (\<lambda>c. code c < 128) k"
    by (auto simp: list_all_iff query_safe_ascii)
  then have "utf8_valid k" by (simp add: utf8_valid_def utf8_error_ascii)
  then show "query_unescape k = Some k"
    using query_unescape_escape [of k] query_escape_safe [OF k] by simp
qed

lemma hex_digit_plain: "d < 16 \<Longrightarrow> code (hex_digit d) < 128 \<and> hex_digit d \<noteq> CHR ''&''"
proof -
  assume "d < 16"
  then have "code (hex_digit d) = (if d < 10 then 48 + d else 87 + d)" by (simp add: hex_digit_def)
  then show ?thesis using \<open>d < 16\<close> by (auto split: if_splits)
qed

lemma md5_hex_plain:
  "CHR ''&'' \<notin> set (md5_hex M s)" "list_all (\<lambda>c. code c < 128) (md5_hex M s)" "md5_hex M s = [] \<longleftrightarrow> M (as_bytes s) = []"
proof -
  have "code c < 128 \<and> c \<noteq> CHR ''&''" if "c \<in> set (md5_hex M s)" for c
  proof -
    from that obtain b :: u8 where "c = hex_digit (unat b div 16) \<or> c = hex_digit (unat b mod 16)"
      by (auto simp: md5_hex_def)
    moreover have "unat b div 16 < 16"
      using unsigned_less [of b, where ?'a = nat] by (simp add: less_mult_imp_div_less)
    ultimately show ?thesis using hex_digit_plain [of "unat b div 16"] hex_digit_plain [of "unat b mod 16"] by auto
  qed
  then show "CHR ''&'' \<notin> set (md5_hex M s)" "list_all (\<lambda>c. code c < 128) (md5_hex M s)"
    by (auto simp: list_all_iff)
  show "md5_hex M s = [] \<longleftrightarrow> M (as_bytes s) = []"
    by (cases "M (as_bytes s)") (auto simp: md5_hex_def)
qed

lemma signed_part_facts:
  assumes "plain_key (fst f)"
  shows "split_once (CHR ''='') (signed_part f) = Some (fst f, query_escape (snd f))"
    "CHR ''&'' \<notin> set (signed_part f)" "list_all (\<lambda>c. code c < 128) (signed_part f)"
  using plain_key_facts [OF assms] query_escape_no_separator(1) [of "snd f"] query_escape_ascii [of "snd f"]
  by (simp_all add: signed_part_def split_once_append)

lemma signed_fields_of_parts:
  assumes "list_all (\<lambda>f. plain_key (fst f) \<and> utf8_valid (snd f)) fs"
  shows "signed_fields (map (\<lambda>f. (fst f, query_escape (snd f))) fs @ [(''signature'', s)]) = fs"
  using assms
  by (induction fs) (auto simp: plain_key_facts query_unescape_escape, auto simp: plain_key_def)

lemma compute_signature_live: "compute_signature M (filter (\<lambda>f. snd f \<noteq> []) fs) pass = compute_signature M fs pass"
  by (simp add: compute_signature_def)

text \<open>What the body of a signed query is made of.\<close>

lemma body_pairs_signed:
  assumes keys: "list_all (\<lambda>f. plain_key (fst f)) fs" and live: "list_all (\<lambda>f. snd f \<noteq> []) fs" "fs \<noteq> []"
    and s: "CHR ''&'' \<notin> set s"
  shows "body_pairs (query_string [] fs @ ''&signature='' @ s) =
     map (\<lambda>f. (fst f, query_escape (snd f))) fs @ [(''signature'', s)]"
proof -
  have parts: "live_parts fs = map signed_part fs"
    using live(1) by (simp add: live_parts_def filter_id_conv list_all_iff)
  obtain p ps where pps: "map signed_part fs = p # ps" using live(2) by (cases fs) auto
  have amp: "list_all (\<lambda>p. CHR ''&'' \<notin> set p) (p # ps)"
    unfolding pps [symmetric] using keys signed_part_facts(2) by (auto simp: list_all_iff)
  have "split_on (\<lambda>c. c = CHR ''&'') (query_string [] fs @ ''&signature='' @ s) =
      map signed_part fs @ [''signature='' @ s]"
    using split_join_amp [OF amp, of "''signature='' @ s"] s by (simp add: query_string_join parts pps)
  moreover have "map (\<lambda>pair. case split_once (CHR ''='') pair of Some kv \<Rightarrow> kv | None \<Rightarrow> (pair, [])) (map signed_part fs) =
      map (\<lambda>f. (fst f, query_escape (snd f))) fs"
    using keys by (induction fs) (auto simp: signed_part_facts(1))
  moreover have "filter (\<lambda>p. p \<noteq> []) (map signed_part fs) = map signed_part fs"
    by (simp add: filter_id_conv)
  moreover have "split_once (CHR ''='') (''signature='' @ s) = Some (''signature'', s)"
    by simp
  ultimately show ?thesis unfolding body_pairs_def by simp
qed

lemma query_string_live: "query_string qs (filter (\<lambda>f. snd f \<noteq> []) fs) = query_string qs fs"
  by (induction fs arbitrary: qs) auto

lemma join_amp_ascii: "list_all (list_all (\<lambda>c. code c < 128)) ps \<Longrightarrow> list_all (\<lambda>c. code c < 128) (join_amp ps)"
  by (induction ps rule: join_amp.induct) auto

lemma signed_query_utf8:
  assumes "list_all (\<lambda>f. plain_key (fst f)) fs"
  shows "utf8_valid (signed_query M fs pass)"
proof -
  have "list_all (list_all (\<lambda>c. code c < 128)) (live_parts fs)"
    using assms signed_part_facts(3) by (auto simp: live_parts_def list_all_iff)
  then have "list_all (\<lambda>c. code c < 128) (signed_query M fs pass)"
    by (simp add: signed_query_def query_string_join join_amp_ascii compute_signature_def md5_hex_plain Let_def)
  then show ?thesis by (simp add: utf8_valid_def utf8_error_ascii)
qed

lemma signed_query_verifies:
  assumes keys: "list_all (\<lambda>f. plain_key (fst f) \<and> utf8_valid (snd f)) fs" and live: "list_ex (\<lambda>f. snd f \<noteq> []) fs"
    and md5: "\<And>bs. M bs \<noteq> []"
  shows "verify_signature M (as_bytes (signed_query M fs pass)) (compute_signature M fs pass) pass"
proof -
  let ?fs = "filter (\<lambda>f. snd f \<noteq> []) fs" and ?sig = "compute_signature M fs pass"
  have k: "list_all (\<lambda>f. plain_key (fst f)) fs" using keys by (simp add: list_all_iff)
  have sig: "CHR ''&'' \<notin> set ?sig" "?sig \<noteq> []"
    by (simp_all add: compute_signature_def md5_hex_plain md5 Let_def)
  have "body_pairs (signed_query M fs pass) = map (\<lambda>f. (fst f, query_escape (snd f))) ?fs @ [(''signature'', ?sig)]"
    unfolding signed_query_def query_string_live [of _ fs, symmetric]
    by (rule body_pairs_signed) (use keys live sig in \<open>auto simp: list_all_iff list_ex_iff filter_empty_conv\<close>)
  moreover have "signed_fields (map (\<lambda>f. (fst f, query_escape (snd f))) ?fs @ [(''signature'', ?sig)]) = ?fs"
    by (rule signed_fields_of_parts) (use keys in \<open>auto simp: list_all_iff\<close>)
  ultimately have fields: "signed_fields (body_pairs (signed_query M fs pass)) = ?fs" by simp
  have "from_utf8 (as_bytes (signed_query M fs pass)) = Ok (signed_query M fs pass)"
    by (simp add: from_utf8_as_bytes signed_query_utf8 [OF k])
  then show ?thesis
    by (simp add: verify_signature_def sig fields compute_signature_live constant_time_eq_str_def constant_time_eq_iff)
qed

lemma payfast_fields_plain: "list_all (\<lambda>f. plain_key (fst f)) (payfast_fields config req a)"
  by (simp add: payfast_fields_def plain_key_def query_safe_def is_ascii_lower_def)

lemma judge_confirmation_Ok:
  "judge_confirmation resp = Ok u \<longleftrightarrow>
     ok_status (hr_status resp) \<and> (\<exists>bs. hr_body resp = Ok bs \<and> length bs \<le> DEFAULT_MAX_BODY_BYTES \<and>
       trim (utf8_lossy (string_of_bytes bs)) = ''VALID'')"
  by (auto simp: judge_confirmation_def bounded_len_check_Ok_iff split: if_splits)

lemma handle_itn_Ok:
  "handle_itn M C R body w = (Ok ev, w') \<longleftrightarrow>
     length body \<le> DEFAULT_MAX_BODY_BYTES \<and> payfast_verify_and_parse M (pf_passphrase (pf_config R)) body = Ok ev \<and>
     (\<exists>resp. C (confirm_request R body) w = (Ok resp, w') \<and> judge_confirmation resp = Ok ())"
proof -
  have conf: "confirm_with_payfast C R body w = (Ok u, w') \<longleftrightarrow>
      (\<exists>resp. C (confirm_request R body) w = (Ok resp, w') \<and> judge_confirmation resp = Ok u)" for u
    by (auto simp: confirm_with_payfast_def split: prod.splits sum.splits)
  have "itn_parse M R body = Ok ev \<longleftrightarrow> length body \<le> DEFAULT_MAX_BODY_BYTES \<and>
      payfast_verify_and_parse M (pf_passphrase (pf_config R)) body = Ok ev"
    by (auto simp: itn_parse_def bounded_len_check_Ok_iff)
  moreover have "handle_itn M C R body w = (Ok ev, w') \<longleftrightarrow>
      itn_parse M R body = Ok ev \<and> (\<exists>u. confirm_with_payfast C R body w = (Ok u, w'))"
    by (auto simp: handle_itn_def split: prod.splits sum.splits)
  ultimately show ?thesis unfolding conf by auto
qed

lemma payfast_verify_and_parse_Ok:
  "payfast_verify_and_parse M pass body = Ok ev \<longleftrightarrow>
     (\<exists>m given. parse_query_map body = Ok m \<and> m ''signature'' = Some given \<and> given \<noteq> [] \<and>
        verify_signature M body given pass \<and> evaluate_notification m = Ok ev)"
  by (auto simp: payfast_verify_and_parse_def Let_def field_or_empty_def split: if_splits option.splits)

section \<open>Properties\<close>

text \<open>
  C32: the query string a charge hands out passes the check a notification is put through, under the same
  passphrase: what \<open>charge\<close> signs and how \<open>verify_signature\<close> rebuilds the signed text from an encoded
  body (splitting, unescaping, dropping empty fields and the signature itself) agree, for every text the
  fields may hold.
\<close>

theorem payfast_signed_query_verifies:
  assumes "list_all (\<lambda>f. utf8_valid (snd f)) (payfast_fields config req amount_str)"
    and "pr_reference req \<noteq> []"
    and "\<And>bs. length (M bs) = 16"
  shows "verify_signature M (as_bytes (signed_query M (payfast_fields config req amount_str) passphrase))
           (compute_signature M (payfast_fields config req amount_str) passphrase) passphrase"
proof (rule signed_query_verifies)
  show "list_all (\<lambda>f. plain_key (fst f) \<and> utf8_valid (snd f)) (payfast_fields config req amount_str)"
    using assms(1) payfast_fields_plain [of config req amount_str] by (auto simp: list_all_iff)
  show "list_ex (\<lambda>f. snd f \<noteq> []) (payfast_fields config req amount_str)"
    using assms(2) by (simp add: payfast_fields_def)
  show "M bs \<noteq> []" for bs using assms(3) [of bs] by auto
qed

definition toy_payfast_config :: payfast_config where
  "toy_payfast_config =
     \<lparr> pf_merchant_id = ''10'', pf_merchant_key = ''k&='', pf_passphrase = ''p w'', pf_requires_kyc = True,
       pf_settlement_days = 2, pf_timeout_secs = 15 \<rparr>"

definition toy_payfast_request :: pay_request where
  "toy_payfast_request =
     \<lparr> pr_amount_minor = 500, pr_currency = ''ZAR'', pr_destination = ''u'', pr_reference = ''a+b'' \<rparr>"

theorem payfast_signed_query_verifies_witness:
  "verify_signature (\<lambda>_. replicate 16 7)
     (as_bytes (signed_query (\<lambda>_. replicate 16 7) (payfast_fields toy_payfast_config toy_payfast_request ''5.00'') ''p w''))
     (compute_signature (\<lambda>_. replicate 16 7) (payfast_fields toy_payfast_config toy_payfast_request ''5.00'') ''p w'') ''p w''"
proof (rule payfast_signed_query_verifies)
  show "list_all (\<lambda>f. utf8_valid (snd f)) (payfast_fields toy_payfast_config toy_payfast_request ''5.00'')"
    by (simp add: payfast_fields_def toy_payfast_config_def toy_payfast_request_def utf8_valid_def utf8_head_of_ascii
        trim_graphic graphic_def)
qed (simp_all add: toy_payfast_request_def)

text \<open>
  A PayFast notification becomes an event only when it is within bounds, its signature matches, its
  fields are in order, and PayFast, sent the same bytes back, answers \<open>VALID\<close>; and then the event is the
  notification's, in rand.
\<close>

theorem payfast_webhook_exact:
  "payfast_verify_webhook M C R d w = (Ok ev, w') \<longleftrightarrow>
     (\<exists>m given out resp bs.
        length (raw_body d) \<le> DEFAULT_MAX_BODY_BYTES \<and> parse_query_map (raw_body d) = Ok m \<and>
        m ''signature'' = Some given \<and> given \<noteq> [] \<and>
        verify_signature M (raw_body d) given (pf_passphrase (pf_config R)) \<and> evaluate_notification m = Ok out \<and>
        C (confirm_request R (raw_body d)) w = (Ok resp, w') \<and> ok_status (hr_status resp) \<and> hr_body resp = Ok bs \<and>
        length bs \<le> DEFAULT_MAX_BODY_BYTES \<and> trim (utf8_lossy (string_of_bytes bs)) = ''VALID'' \<and>
        ev = settlement_event ''payfast'' (no_event_id out) (no_reference out) (no_settled out) (no_amount_minor out) ''ZAR'')"
proof -
  have "payfast_verify_webhook M C R d w = (Ok ev, w') \<longleftrightarrow>
      (\<exists>out. handle_itn M C R (raw_body d) w = (Ok out, w') \<and>
        ev = settlement_event ''payfast'' (no_event_id out) (no_reference out) (no_settled out) (no_amount_minor out) ''ZAR'')"
    by (auto simp: payfast_verify_webhook_def split: prod.splits sum.splits)
  then show ?thesis
    unfolding handle_itn_Ok payfast_verify_and_parse_Ok judge_confirmation_Ok by blast
qed

end
