(* ===== verification/Fiat_Payu.thy ===== *)
theory Fiat_Payu
  imports Fiat_Adyen
begin

text \<open>
  \<open>patala-fiat/src/payu\<close>: a charge makes no call, it signs the fields of a form the buyer posts; a
  callback carries a digest of most of its fields. SHA-512 with its hex encoding is the parameter \<open>sha\<close>;
  the structures \<open>serde\<close> reads and writes and the form coding of the \<open>url\<close> crate go through \<open>J\<close>.
\<close>

section \<open>Configuration\<close>

record payu_config =
  pu_merchant_key :: string
  pu_salt :: string
  pu_requires_kyc :: bool
  pu_settlement_days :: u8
  pu_timeout_secs :: u64

definition payu_config_from_env :: "environment \<Rightarrow> payu_config result" where
  "payu_config_from_env env =
     rbind (non_empty_env env ''PAYU_MERCHANT_KEY'') (\<lambda>merchant_key.
     rbind (non_empty_env env ''PAYU_SALT'') (\<lambda>salt.
       Ok \<lparr> pu_merchant_key = merchant_key, pu_salt = salt,
            pu_requires_kyc = env_flag env ''PAYU_REQUIRES_KYC'' True,
            pu_settlement_days = env_u8 env ''PAYU_SETTLEMENT_DAYS'' 2,
            pu_timeout_secs = env_u64 env ''PAYU_TIMEOUT_SECS'' 15 \<rparr>))"

section \<open>Digests\<close>

text \<open>Both digests are SHA-512 in hexadecimal, over fields joined by bars.\<close>

type_synonym sha512_hex = "bytes \<Rightarrow> string"
type_synonym payu_field = string

definition request_hash ::
    "sha512_hex \<Rightarrow> payu_field \<Rightarrow> payu_field \<Rightarrow> payu_field \<Rightarrow> payu_field \<Rightarrow> payu_field \<Rightarrow> payu_field \<Rightarrow> payu_field \<Rightarrow> string" where
  "request_hash sha merchant_key salt txnid amount productinfo firstname email =
     sha (as_bytes (join ''|''
       ([merchant_key, txnid, amount, productinfo, firstname, email] @ replicate 10 [] @ [salt])))"

definition response_fields ::
    "payu_field \<Rightarrow> payu_field \<Rightarrow> payu_field \<Rightarrow> payu_field \<Rightarrow> payu_field \<Rightarrow> payu_field \<Rightarrow> payu_field \<Rightarrow> payu_field \<Rightarrow> string list" where
  "response_fields merchant_key salt status txnid amount productinfo firstname email =
     [salt, status] @ replicate 5 [] @ [email, firstname, productinfo, amount, txnid, merchant_key]"

definition response_hash ::
    "sha512_hex \<Rightarrow> payu_field \<Rightarrow> payu_field \<Rightarrow> payu_field \<Rightarrow> payu_field \<Rightarrow> payu_field \<Rightarrow> payu_field \<Rightarrow> payu_field \<Rightarrow> payu_field \<Rightarrow> string" where
  "response_hash sha merchant_key salt status txnid amount productinfo firstname email =
     sha (as_bytes (join ''|'' (response_fields merchant_key salt status txnid amount productinfo firstname email)))"

record payu_detail =
  pd_mihpayid :: string
  pd_status :: string
  pd_txn_id :: string
  pd_amount :: string
  pd_addedon :: string

record payu_codec =
  puj_verify :: "bytes \<Rightarrow> string + (string \<rightharpoonup> payu_detail)" \<comment> \<open>the transaction details\<close>
  puj_form_serialize :: "(string \<times> string) list \<Rightarrow> string"
  puj_form_parse :: "bytes \<Rightarrow> (string \<times> string) list"
  puj_proof_to_bytes :: "string \<times> string \<Rightarrow> bytes" \<comment> \<open>fields and checkout URL\<close>

definition payu_malformed :: "string \<Rightarrow> error" where
  "payu_malformed detail = malformed_response ''payu'' detail"

definition payu_unexpected_status :: "nat \<Rightarrow> error" where
  "payu_unexpected_status status = Rail (''payu: unexpected API response status: http '' @ dec_of_nat status)"

definition is_settled_success_ci :: "string \<Rightarrow> bool" where
  "is_settled_success_ci status \<longleftrightarrow> eq_ignore_ascii_case status ''success''"

section \<open>Webhook\<close>

datatype payu_webhook_error = PuMissingHash | PuInvalidHash | PuMalformedResponse string | PuResponseTooLarge

fun payu_webhook_error_display :: "payu_webhook_error \<Rightarrow> string" where
  "payu_webhook_error_display PuMissingHash = ''payments: payu: missing hash field''"
| "payu_webhook_error_display PuInvalidHash = ''payments: payu: invalid response hash''"
| "payu_webhook_error_display (PuMalformedResponse m) = ''payments: payu: malformed API response: '' @ m"
| "payu_webhook_error_display PuResponseTooLarge = ''payments: payu: response body exceeds size limit''"

record payu_event =
  pue_event_id :: string
  pue_reference :: string
  pue_settled :: bool
  pue_amount_minor :: u64
  pue_currency :: string

text \<open>Collected into a map: what a key says last.\<close>

definition payu_values :: "payu_codec \<Rightarrow> bytes \<Rightarrow> string \<rightharpoonup> string" where
  "payu_values J body = map_of (rev (puj_form_parse J body))"

definition payu_expected_hash :: "(bytes \<Rightarrow> string) \<Rightarrow> string \<Rightarrow> string \<Rightarrow> (string \<rightharpoonup> string) \<Rightarrow> string" where
  "payu_expected_hash sha merchant_key salt vs =
     response_hash sha merchant_key salt (form_value vs ''status'') (form_value vs ''txnid'') (form_value vs ''amount'')
       (form_value vs ''productinfo'') (form_value vs ''firstname'') (form_value vs ''email'')"

definition payu_judge_values ::
    "(bytes \<Rightarrow> string) \<Rightarrow> string \<Rightarrow> string \<Rightarrow> (string \<rightharpoonup> string) \<Rightarrow> payu_webhook_error + payu_event" where
  "payu_judge_values sha merchant_key salt vs =
     (let given = form_value vs ''hash''; txnid = form_value vs ''txnid''; amount = form_value vs ''amount'';
          mihpayid = form_value vs ''mihpayid'' in
      if given = [] then Err PuMissingHash
      else if txnid = [] \<or> amount = [] then Err (PuMalformedResponse ''missing txnid or amount'')
      else if \<not> constant_time_eq (as_bytes (payu_expected_hash sha merchant_key salt vs)) (as_bytes given) then
        Err PuInvalidHash
      else if mihpayid = [] then
        Err (PuMalformedResponse ''no mihpayid: this delivery carries no id to deduplicate on'')
      else
        rbind (map_err (\<lambda>e. PuMalformedResponse (''amount '' @ debug_str amount @ '': '' @ currency_error_display e))
          (major_string_to_minor amount ''INR'')) (\<lambda>amount_minor.
          if form_value vs ''status'' = ''success'' then
            if amount_minor = 0 then Err (PuMalformedResponse ''success status with non-positive amount'')
            else Ok \<lparr> pue_event_id = mihpayid, pue_reference = txnid, pue_settled = True,
                      pue_amount_minor = amount_minor, pue_currency = ''INR'' \<rparr>
          else Ok \<lparr> pue_event_id = mihpayid, pue_reference = txnid, pue_settled = False,
                    pue_amount_minor = 0, pue_currency = ''INR'' \<rparr>))"

definition payu_verify_and_parse ::
    "(bytes \<Rightarrow> string) \<Rightarrow> payu_codec \<Rightarrow> string \<Rightarrow> string \<Rightarrow> bytes \<Rightarrow> payu_webhook_error + payu_event" where
  "payu_verify_and_parse sha J merchant_key salt body =
     rbind (map_err (\<lambda>_. PuResponseTooLarge) (bounded_len_check body DEFAULT_MAX_BODY_BYTES)) (\<lambda>_.
       payu_judge_values sha merchant_key salt (payu_values J body))"

section \<open>The rail\<close>

definition PAYU_CHECKOUT_URL :: string where "PAYU_CHECKOUT_URL = ''https://secure.payu.in/_payment''"
definition PAYU_VERIFY_URL :: string where "PAYU_VERIFY_URL = ''https://info.payu.in/merchant/postservice?form=2''"

record payu_rail =
  pu_config :: payu_config
  pu_capabilities :: rail_capabilities
  pu_base_url :: string

definition payu_new :: "(u64 \<Rightarrow> string + unit) \<Rightarrow> payu_config \<Rightarrow> payu_rail result" where
  "payu_new client config =
     rbind (require_non_empty ''merchant_key'' (pu_merchant_key config)) (\<lambda>_.
     rbind (require_non_empty ''salt'' (pu_salt config)) (\<lambda>_.
     rbind (build_client ''payu'' client (pu_timeout_secs config)) (\<lambda>_.
       Ok \<lparr> pu_config = config,
            pu_capabilities = custodial_caps False (pu_requires_kyc config) [''INR''] (Days (pu_settlement_days config)),
            pu_base_url = PAYU_VERIFY_URL \<rparr>)))"

definition payu_check_currency :: "payu_rail \<Rightarrow> string \<Rightarrow> unit result" where
  "payu_check_currency R currency = check_listed_currency ''payu'' (currencies (pu_capabilities R)) currency"

definition payu_verify_request :: "payu_rail \<Rightarrow> (string \<times> string) list \<Rightarrow> http_request" where
  "payu_verify_request R form = http_post (pu_base_url R) (FormBody form)"

definition payu_verify_call ::
    "'w http_client \<Rightarrow> payu_rail \<Rightarrow> (string \<times> string) list \<Rightarrow> 'w \<Rightarrow> (bytes \<times> nat) result \<times> 'w" where
  "payu_verify_call C R form w =
     (case C (payu_verify_request R form) w of
        (Err e, w') \<Rightarrow> (Err (Rail (''payu: verify request failed: '' @ e)), w')
      | (Ok resp, w') \<Rightarrow>
          (rbind (map_err (\<lambda>e. Rail (''payu: failed reading response body: '' @ e)) (hr_body resp)) (\<lambda>bs.
           rbind (map_err (\<lambda>e. Rail (''payu: '' @ e)) (bounded_len_check bs DEFAULT_MAX_BODY_BYTES)) (\<lambda>_.
             Ok (bs, hr_status resp))), w'))"

definition payu_quote :: "('w \<Rightarrow> u64) \<Rightarrow> payu_rail \<Rightarrow> pay_request \<Rightarrow> 'w \<Rightarrow> quote result \<times> 'w" where
  "payu_quote now R req w =
     hosted_quote ''payu'' (payu_check_currency R)
       (\<lambda>req. rbind (map_err (refused_as ''payu'') (minor_to_major_string (pr_amount_minor req) ''INR'')) (\<lambda>_. Ok ()))
       (caps_settlement (pu_capabilities R)) now req w"

definition payu_fields :: "(bytes \<Rightarrow> string) \<Rightarrow> payu_config \<Rightarrow> pay_request \<Rightarrow> string \<Rightarrow> string \<Rightarrow> (string \<times> string) list" where
  "payu_fields sha config req email amount =
     (let productinfo = ''Order '' @ pr_reference req; firstname = ''Customer'' in
      [(''key'', pu_merchant_key config), (''txnid'', pr_reference req), (''amount'', amount),
       (''productinfo'', productinfo), (''firstname'', firstname), (''email'', email),
       (''hash'', request_hash sha (pu_merchant_key config) (pu_salt config) (pr_reference req) amount productinfo
          firstname email)])"

text \<open>No call is made: the receipt's proof is the signed form.\<close>

definition payu_charge ::
    "(bytes \<Rightarrow> string) \<Rightarrow> payu_codec \<Rightarrow> payu_rail \<Rightarrow> pay_request \<Rightarrow> 'w \<Rightarrow> receipt result \<times> 'w" where
  "payu_charge sha J R req w =
     (rbind (pay_request_validate req) (\<lambda>_.
      rbind (payu_check_currency R (pr_currency req)) (\<lambda>_.
        let email = trim (pr_destination req) in
        if email = [] then Err (InvalidRequest ''payu: destination (used as the buyer email) is required'')
        else
          rbind (map_err (refused_as ''payu'') (minor_to_major_string (pr_amount_minor req) ''INR'')) (\<lambda>amount.
            Ok (pending_receipt ''payu'' ''INR'' (pr_reference req)
              (puj_proof_to_bytes J (puj_form_serialize J (payu_fields sha (pu_config R) req email amount), PAYU_CHECKOUT_URL)))))), w)"

definition payu_verify_form :: "(bytes \<Rightarrow> string) \<Rightarrow> payu_config \<Rightarrow> string \<Rightarrow> (string \<times> string) list" where
  "payu_verify_form sha config reference =
     [(''key'', pu_merchant_key config), (''command'', ''verify_payment''), (''var1'', reference),
      (''hash'', sha (as_bytes (pu_merchant_key config @ ''|verify_payment|'' @ reference @ ''|'' @ pu_salt config)))]"

definition payu_settles :: "string \<Rightarrow> (string \<rightharpoonup> payu_detail) \<Rightarrow> receipt \<Rightarrow> bool" where
  "payu_settles reference details r =
     (case details reference of
        None \<Rightarrow> False
      | Some detail \<Rightarrow>
          if pd_txn_id detail \<noteq> [] \<and> pd_txn_id detail \<noteq> reference then False
          else if \<not> is_settled_success_ci (pd_status detail) then False
          else if pd_mihpayid detail = [] then False
          else case major_string_to_minor (pd_amount detail) ''INR'' of
            Err _ \<Rightarrow> False
          | Ok amount_minor \<Rightarrow>
              if amount_minor = 0 then False
              else if \<not> eq_ignore_ascii_case (r_currency r) ''INR'' then False
              else if amount_minor < r_amount_minor r then False
              else True)"

definition payu_verify ::
    "(bytes \<Rightarrow> string) \<Rightarrow> payu_codec \<Rightarrow> 'w http_client \<Rightarrow> payu_rail \<Rightarrow> receipt \<Rightarrow> 'w \<Rightarrow> bool result \<times> 'w" where
  "payu_verify sha J C R r w =
     (if r_rail_id r \<noteq> ''payu'' then (Ok False, w)
      else
        let reference = trim (r_reference r) in
        if reference = [] then (Ok False, w)
        else
          (case payu_verify_call C R (payu_verify_form sha (pu_config R) reference) w of
             (Err e, w') \<Rightarrow> (Err e, w')
           | (Ok (body, status), w') \<Rightarrow>
               (if \<not> ok_status status then Err (payu_unexpected_status status)
                else rbind (map_err payu_malformed (puj_verify J body)) (\<lambda>details. Ok (payu_settles reference details r)), w')))"

definition payu_verify_webhook ::
    "(bytes \<Rightarrow> string) \<Rightarrow> payu_codec \<Rightarrow> payu_rail \<Rightarrow> webhook_delivery \<Rightarrow> 'w \<Rightarrow> webhook_event result \<times> 'w" where
  "payu_verify_webhook sha J R d w =
     (rbind (map_err (\<lambda>e. InvalidRequest (payu_webhook_error_display e))
        (payu_verify_and_parse sha J (pu_merchant_key (pu_config R)) (pu_salt (pu_config R)) (raw_body d))) (\<lambda>ev.
        Ok (settlement_event ''payu'' (pue_event_id ev) (pue_reference ev) (pue_settled ev) (pue_amount_minor ev)
          (pue_currency ev))), w)"

definition payu_payment_rail ::
    "(bytes \<Rightarrow> string) \<Rightarrow> payu_codec \<Rightarrow> ('w \<Rightarrow> u64) \<Rightarrow> 'w http_client \<Rightarrow> payu_rail \<Rightarrow> 'w payment_rail" where
  "payu_payment_rail sha J now C R =
     \<lparr> rail_id = ''payu'',
       capabilities = pu_capabilities R,
       rail_quote = payu_quote now R,
       rail_charge = payu_charge sha J R,
       rail_verify = payu_verify sha J C R,
       rail_validate_destination = buyer_email ''payu'',
       rail_refund = default_refund,
       rail_verify_webhook = payu_verify_webhook sha J R \<rparr>"

section \<open>Facts\<close>

lemma payu_charge_Ok:
  "payu_charge sha J R req w = (Ok r, w') \<longleftrightarrow>
     w' = w \<and> pay_request_validate req = Ok () \<and> payu_check_currency R (pr_currency req) = Ok () \<and>
     trim (pr_destination req) \<noteq> [] \<and>
     (\<exists>amount. minor_to_major_string (pr_amount_minor req) ''INR'' = Ok amount \<and>
        r = pending_receipt ''payu'' ''INR'' (pr_reference req)
              (puj_proof_to_bytes J
                (puj_form_serialize J (payu_fields sha (pu_config R) req (trim (pr_destination req)) amount), PAYU_CHECKOUT_URL)))"
  by (auto simp: payu_charge_def Let_def)

lemma payu_processor_rail: "processor_rail (payu_payment_rail sha J now C R) (\<lambda>_. True)"
  by (intro processor_railI processor_coreI)
    (auto simp: payu_payment_rail_def payu_quote_def hosted_quote_invalid payu_charge_def Let_def
      payu_verify_def payu_verify_webhook_def dest: hosted_quote_Ok split: sum.splits prod.splits if_splits)

interpretation payu: echoing_processor "payu_payment_rail sha J now C R" "\<lambda>_. True"
  for sha J and now :: "'w \<Rightarrow> u64" and C R
  by (intro echoing_processor.intro rail_contract.intro rail_contract_axioms.intro payu_processor_rail
      processor_rail.axioms(1) [OF payu_processor_rail])
    (auto simp: payu_payment_rail_def payu_quote_def payu_charge_Ok dest: hosted_quote_Ok)

interpretation payu_final: final_rail "payu_payment_rail sha J now C R" "\<lambda>_. True"
  for sha J and now :: "'w \<Rightarrow> u64" and C R
  by (intro final_rail.intro final_rail_axioms.intro payu.rail_contract_axioms)
    (simp add: payu_payment_rail_def default_refund_def)

lemma payu_settles_iff:
  "payu_settles reference details r \<longleftrightarrow>
     (\<exists>d amount. details reference = Some d \<and> pd_txn_id d \<in> {[], reference} \<and> is_settled_success_ci (pd_status d) \<and>
        pd_mihpayid d \<noteq> [] \<and> major_string_to_minor (pd_amount d) ''INR'' = Ok amount \<and> amount \<noteq> 0 \<and>
        eq_ignore_ascii_case (r_currency r) ''INR'' \<and> r_amount_minor r \<le> amount)"
  by (auto simp: payu_settles_def not_less split: option.splits sum.splits)

lemma payu_verify_call_Ok_iff:
  "payu_verify_call C R form w = (Ok (body, status), w') \<longleftrightarrow>
     (\<exists>resp. C (payu_verify_request R form) w = (Ok resp, w') \<and> hr_body resp = Ok body \<and> hr_status resp = status \<and>
        length body \<le> DEFAULT_MAX_BODY_BYTES)"
  by (auto simp: payu_verify_call_def bounded_len_check_Ok_iff split: prod.splits sum.splits)

lemma payu_verify_True_iff:
  "payu_verify sha J C R r w = (Ok True, w') \<longleftrightarrow>
     r_rail_id r = ''payu'' \<and> trim (r_reference r) \<noteq> [] \<and>
     (\<exists>details. says C (payu_verify_request R (payu_verify_form sha (pu_config R) (trim (r_reference r)))) (puj_verify J) w
          details w' \<and> payu_settles (trim (r_reference r)) details r)"
proof -
  have "(case m of (Err e, w1) \<Rightarrow> (Err e, w1) | (Ok (body, status), w1) \<Rightarrow>
      (if \<not> ok_status status then Err (payu_unexpected_status status)
       else rbind (map_err payu_malformed (puj_verify J body)) (\<lambda>details. Ok (P details)), w1)) = (Ok True, w') \<longleftrightarrow>
      (\<exists>body status details. m = (Ok (body, status), w') \<and> ok_status status \<and> puj_verify J body = Ok details \<and> P details)"
    for m :: "(bytes \<times> nat) result \<times> 'a" and P
    by (auto split: prod.splits sum.splits)
  then show ?thesis
    by (auto simp: payu_verify_def Let_def payu_verify_call_Ok_iff says_def)
qed

lemma payu_judge_values_Ok_iff:
  "payu_judge_values sha key salt vs = Ok e \<longleftrightarrow>
     form_value vs ''hash'' \<noteq> [] \<and> form_value vs ''txnid'' \<noteq> [] \<and> form_value vs ''amount'' \<noteq> [] \<and>
     form_value vs ''mihpayid'' \<noteq> [] \<and> payu_expected_hash sha key salt vs = form_value vs ''hash'' \<and>
     (\<exists>amount. major_string_to_minor (form_value vs ''amount'') ''INR'' = Ok amount \<and>
        (form_value vs ''status'' = ''success'' \<longrightarrow> amount \<noteq> 0) \<and>
        e = \<lparr> pue_event_id = form_value vs ''mihpayid'', pue_reference = form_value vs ''txnid'',
              pue_settled = (form_value vs ''status'' = ''success''),
              pue_amount_minor = (if form_value vs ''status'' = ''success'' then amount else 0), pue_currency = ''INR'' \<rparr>)"
  by (cases "form_value vs ''status'' = ''success''"; cases "major_string_to_minor (form_value vs ''amount'') ''INR''")
    (auto simp: payu_judge_values_def Let_def constant_time_eq_iff)

lemma form_value_other: "k \<noteq> k' \<Longrightarrow> form_value (vs(k' \<mapsto> v)) k = form_value vs k"
  by (simp add: form_value_def)

section \<open>Properties\<close>

text \<open>
  The id of a PayU event is not under its digest. A callback the rail accepts is accepted with any
  other non-empty \<open>mihpayid\<close> as well and is then the same settlement under another event id, so a caller
  who suppresses duplicates by event id, as the webhook contract asks, may be made to count one payment
  any number of times by whoever has seen one callback.
\<close>

theorem payu_event_id_is_unsigned:
  assumes "payu_judge_values sha key salt vs = Ok e" and "mihpayid \<noteq> []"
  shows "payu_judge_values sha key salt (vs(''mihpayid'' \<mapsto> mihpayid)) = Ok (e\<lparr> pue_event_id := mihpayid \<rparr>)"
proof -
  have h: "payu_expected_hash sha key salt (vs(''mihpayid'' \<mapsto> mihpayid)) = payu_expected_hash sha key salt vs"
    by (simp add: payu_expected_hash_def form_value_other)
  have "form_value (vs(''mihpayid'' \<mapsto> mihpayid)) ''mihpayid'' = mihpayid" by (simp add: form_value_def)
  with assms show ?thesis
    unfolding payu_judge_values_Ok_iff h by (auto simp: form_value_other)
qed

definition toy_payu_values :: "string \<rightharpoonup> string" where
  "toy_payu_values =
     [''hash'' \<mapsto> ''00'', ''txnid'' \<mapsto> ''o'', ''amount'' \<mapsto> ''12.05'', ''mihpayid'' \<mapsto> ''m'', ''status'' \<mapsto> ''success'']"

lemma exponent_INR: "exponent ''INR'' = Ok 2"
proof -
  have "currency_row ''INR'' 2 ''Indian Rupee'' \<in> set CURRENCY_DEFS"
    by (simp add: CURRENCY_DEFS_def)
  moreover have "to_ascii_uppercase (trim ''INR'') = ''INR''"
    by (simp add: trim_graphic graphic_def) code_simp
  ultimately have "lookup_currency ''INR'' = Ok (currency_row ''INR'' 2 ''Indian Rupee'')"
    by (simp add: lookup_currency_Ok_iff)
  then show ?thesis by (simp add: exponent_def)
qed

lemma toy_payu_accepted:
  "payu_judge_values (\<lambda>_. ''00'') ''k'' ''s'' toy_payu_values = Ok
     \<lparr> pue_event_id = ''m'', pue_reference = ''o'', pue_settled = True, pue_amount_minor = 1205, pue_currency = ''INR'' \<rparr>"
proof -
  have "minor_to_major_string 1205 ''INR'' = Ok ''12.05''"
    by (simp add: minor_to_major_string_def exponent_INR dec_digits pad_left_def)
  from major_of_printed [OF this] show ?thesis
    by (simp add: payu_judge_values_Ok_iff payu_expected_hash_def response_hash_def form_value_def toy_payu_values_def)
qed

theorem payu_event_id_is_unsigned_witness:
  "payu_judge_values (\<lambda>_. ''00'') ''k'' ''s'' (toy_payu_values(''mihpayid'' \<mapsto> ''n'')) = Ok
     \<lparr> pue_event_id = ''n'', pue_reference = ''o'', pue_settled = True, pue_amount_minor = 1205, pue_currency = ''INR'' \<rparr>"
  using payu_event_id_is_unsigned [OF toy_payu_accepted, of "''n''"] by simp

end
