(* ===== verification/Fiat_Razorpay.thy ===== *)
theory Fiat_Razorpay
  imports Fiat_Adapter
begin

text \<open>
  \<open>patala-fiat/src/razorpay\<close>: an order is charged, its captured payment is what verifies. Rupees only,
  no refunds; the destination is not used. The structures \<open>serde\<close> reads and writes go through \<open>J\<close>.
\<close>

section \<open>Configuration\<close>

record razorpay_config =
  rz_key_id :: string
  rz_key_secret :: string
  rz_webhook_secret :: string
  rz_requires_kyc :: bool
  rz_settlement_days :: u8
  rz_timeout_secs :: u64

definition env_or_empty :: "environment \<Rightarrow> string \<Rightarrow> string" where
  "env_or_empty env name = (case env name of Some v \<Rightarrow> v | None \<Rightarrow> [])"

definition razorpay_config_from_env :: "environment \<Rightarrow> razorpay_config result" where
  "razorpay_config_from_env env =
     (let key_id = env_or_empty env ''RAZORPAY_KEY_ID''; key_secret = env_or_empty env ''RAZORPAY_KEY_SECRET'' in
      if blank key_id \<or> blank key_secret then
        Err (InvalidRequest ''razorpay: RAZORPAY_KEY_ID and RAZORPAY_KEY_SECRET must both be set'')
      else
        rbind (non_empty_env env ''RAZORPAY_WEBHOOK_SECRET'') (\<lambda>webhook_secret.
          Ok \<lparr> rz_key_id = trim key_id, rz_key_secret = trim key_secret, rz_webhook_secret = webhook_secret,
               rz_requires_kyc = env_flag env ''RAZORPAY_REQUIRES_KYC'' True,
               rz_settlement_days = env_u8 env ''RAZORPAY_SETTLEMENT_DAYS'' 2,
               rz_timeout_secs = env_u64 env ''RAZORPAY_TIMEOUT_SECS'' 15 \<rparr>))"

section \<open>Payments\<close>

record razorpay_payment =
  rp_id :: string
  rp_order_id :: string
  rp_amount :: u64
  rp_currency :: string
  rp_status :: string

record payment_outcome =
  po_order_id :: string
  po_event_id :: string
  po_settled :: bool
  po_amount_minor :: u64
  po_currency :: string

definition razorpay_malformed :: "string \<Rightarrow> error" where
  "razorpay_malformed detail = malformed_response ''razorpay'' detail"

definition evaluate_payment :: "razorpay_payment \<Rightarrow> payment_outcome result" where
  "evaluate_payment pay =
     (if rp_order_id pay = [] then Err (razorpay_malformed ''missing order_id'')
      else if rp_id pay = [] then
        Err (razorpay_malformed ''no payment id: this entity carries no id to deduplicate on'')
      else
        let currency = to_ascii_uppercase (trim (rp_currency pay)) in
        if rp_status pay = ''captured'' then
          if rp_amount pay = 0 then Err (razorpay_malformed ''captured with non-positive amount'')
          else Ok \<lparr> po_order_id = rp_order_id pay, po_event_id = rp_id pay, po_settled = True,
                    po_amount_minor = rp_amount pay, po_currency = currency \<rparr>
        else Ok \<lparr> po_order_id = rp_order_id pay, po_event_id = rp_id pay, po_settled = False,
                  po_amount_minor = 0, po_currency = currency \<rparr>)"

section \<open>The codec\<close>

record razorpay_codec =
  rzj_error_description :: "bytes \<Rightarrow> string option"
  rzj_created :: "bytes \<Rightarrow> string + string" \<comment> \<open>the order's id\<close>
  rzj_payments :: "bytes \<Rightarrow> string + razorpay_payment list"
  rzj_event :: "bytes \<Rightarrow> string + string \<times> razorpay_payment"
  rzj_proof_to_bytes :: "string \<Rightarrow> bytes"
  rzj_proof_from_bytes :: "bytes \<Rightarrow> string option"

definition razorpay_classify_error :: "razorpay_codec \<Rightarrow> nat \<Rightarrow> bytes \<Rightarrow> error" where
  "razorpay_classify_error J status body = unexpected_status ''razorpay'' (rzj_error_description J body) status"

section \<open>Webhook\<close>

datatype razorpay_webhook_error =
    RzMissingSignature | RzInvalidSignature | RzMalformedResponse string | RzResponseTooLarge | RzUnhandledEvent string

fun razorpay_webhook_error_display :: "razorpay_webhook_error \<Rightarrow> string" where
  "razorpay_webhook_error_display RzMissingSignature = ''payments: razorpay: missing X-Razorpay-Signature header''"
| "razorpay_webhook_error_display RzInvalidSignature = ''payments: razorpay: invalid webhook signature''"
| "razorpay_webhook_error_display (RzMalformedResponse m) = ''payments: razorpay: malformed API response: '' @ m"
| "razorpay_webhook_error_display RzResponseTooLarge = ''payments: razorpay: response body exceeds size limit''"
| "razorpay_webhook_error_display (RzUnhandledEvent t) = ''payments: unhandled webhook event type: '' @ t"

definition razorpay_verify_and_parse ::
    "mac_lib \<Rightarrow> razorpay_codec \<Rightarrow> string \<Rightarrow> bytes \<Rightarrow> string \<Rightarrow> razorpay_webhook_error + payment_outcome" where
  "razorpay_verify_and_parse H J secret body signature_header =
     (let sig = trim signature_header in
      if sig = [] then Err RzMissingSignature
      else
        rbind (map_err (\<lambda>_. RzResponseTooLarge) (bounded_len_check body DEFAULT_MAX_BODY_BYTES)) (\<lambda>_.
        if \<not> verify_hmac_sha256_hex H (as_bytes secret) body sig then Err RzInvalidSignature
        else
          rbind (map_err RzMalformedResponse (rzj_event J body)) (\<lambda>(event, pay).
          if event \<noteq> ''payment.captured'' then Err (RzUnhandledEvent event)
          else map_err (\<lambda>e. RzMalformedResponse (error_display e)) (evaluate_payment pay))))"

section \<open>The rail\<close>

definition RAZORPAY_API_BASE :: string where "RAZORPAY_API_BASE = ''https://api.razorpay.com/v1''"

record razorpay_rail =
  rz_config :: razorpay_config
  rz_capabilities :: rail_capabilities
  rz_base_url :: string

definition razorpay_new :: "(u64 \<Rightarrow> string + unit) \<Rightarrow> razorpay_config \<Rightarrow> razorpay_rail result" where
  "razorpay_new client config =
     rbind (require_non_empty ''key_id'' (rz_key_id config)) (\<lambda>_.
     rbind (require_non_empty ''key_secret'' (rz_key_secret config)) (\<lambda>_.
     rbind (require_non_empty ''webhook_secret'' (rz_webhook_secret config)) (\<lambda>_.
     rbind (build_client ''razorpay'' client (rz_timeout_secs config)) (\<lambda>_.
       Ok \<lparr> rz_config = config,
            rz_capabilities = custodial_caps False (rz_requires_kyc config) [''INR''] (Days (rz_settlement_days config)),
            rz_base_url = RAZORPAY_API_BASE \<rparr>))))"

definition razorpay_check_currency :: "razorpay_rail \<Rightarrow> string \<Rightarrow> unit result" where
  "razorpay_check_currency R currency = check_listed_currency ''razorpay'' (currencies (rz_capabilities R)) currency"

definition razorpay_request :: "razorpay_rail \<Rightarrow> string \<Rightarrow> string \<Rightarrow> http_body \<Rightarrow> http_request" where
  "razorpay_request R meth path body =
     \<lparr> hq_method = meth, hq_url = rz_base_url R @ path,
       hq_auth = BasicAuth (rz_key_id (rz_config R)) (Some (rz_key_secret (rz_config R))),
       hq_headers = [(''Content-Type'', ''application/json'')], hq_body = body \<rparr>"

definition razorpay_fetch ::
    "razorpay_codec \<Rightarrow> (bytes \<Rightarrow> string + 'a) \<Rightarrow> 'w http_client \<Rightarrow> razorpay_rail \<Rightarrow> string \<Rightarrow> string \<Rightarrow>
     http_body \<Rightarrow> 'w \<Rightarrow> 'a result \<times> 'w" where
  "razorpay_fetch J parse C R meth path body w =
     fetch ''razorpay'' path (razorpay_classify_error J) razorpay_malformed parse C (razorpay_request R meth path body) w"

definition razorpay_quote :: "('w \<Rightarrow> u64) \<Rightarrow> razorpay_rail \<Rightarrow> pay_request \<Rightarrow> 'w \<Rightarrow> quote result \<times> 'w" where
  "razorpay_quote now R req w =
     (rbind (pay_request_validate req) (\<lambda>_.
      rbind (razorpay_check_currency R (pr_currency req)) (\<lambda>_.
        Ok (fiat_quote ''razorpay'' (caps_settlement (rz_capabilities R)) (now w) (pr_amount_minor req) (pr_currency req)))), w)"

definition razorpay_charge_body :: "pay_request \<Rightarrow> string \<Rightarrow> json" where
  "razorpay_charge_body req currency =
     JObject [(''amount'', JNumber (PosInt (pr_amount_minor req))), (''currency'', JString currency),
       (''receipt'', JString (pr_reference req))]"

definition razorpay_charge_guards :: "razorpay_rail \<Rightarrow> pay_request \<Rightarrow> string result" where
  "razorpay_charge_guards R req =
     rbind (pay_request_validate req) (\<lambda>_.
     rbind (razorpay_check_currency R (pr_currency req)) (\<lambda>_. Ok (to_ascii_uppercase (trim (pr_currency req)))))"

definition razorpay_charge ::
    "razorpay_codec \<Rightarrow> 'w http_client \<Rightarrow> razorpay_rail \<Rightarrow> pay_request \<Rightarrow> 'w \<Rightarrow> receipt result \<times> 'w" where
  "razorpay_charge J C R req w =
     (case razorpay_charge_guards R req of
        Err e \<Rightarrow> (Err e, w)
      | Ok currency \<Rightarrow>
          (case razorpay_fetch J (rzj_created J) C R ''POST'' ''/orders'' (JsonBody (razorpay_charge_body req currency)) w of
             (Err e, w') \<Rightarrow> (Err e, w')
           | (Ok order_id, w') \<Rightarrow>
               if order_id = [] then (Err (razorpay_malformed ''empty order id''), w')
               else (Ok (pending_receipt ''razorpay'' currency (pr_reference req) (rzj_proof_to_bytes J order_id)), w')))"

text \<open>The order a receipt's proof names, if it may go into a path.\<close>

definition razorpay_order_id :: "razorpay_codec \<Rightarrow> receipt \<Rightarrow> string option" where
  "razorpay_order_id J r =
     Option.bind (rzj_proof_from_bytes J (r_proof r)) (\<lambda>order_id.
       case safe_path_segment ''razorpay id'' order_id of Ok s \<Rightarrow> Some s | Err _ \<Rightarrow> None)"

definition razorpay_settles :: "string \<Rightarrow> razorpay_payment list \<Rightarrow> receipt \<Rightarrow> bool" where
  "razorpay_settles order_id items r =
     (case find (\<lambda>i. rp_status i = ''captured'') (filter (\<lambda>i. rp_order_id i = order_id) items) of
        None \<Rightarrow> False
      | Some pay \<Rightarrow>
          (case evaluate_payment pay of
             Err _ \<Rightarrow> False
           | Ok out \<Rightarrow> covers (po_settled out) (po_currency out) (po_amount_minor out) r))"

definition razorpay_verify ::
    "razorpay_codec \<Rightarrow> 'w http_client \<Rightarrow> razorpay_rail \<Rightarrow> receipt \<Rightarrow> 'w \<Rightarrow> bool result \<times> 'w" where
  "razorpay_verify J C R r w =
     (if r_rail_id r \<noteq> ''razorpay'' then (Ok False, w)
      else case razorpay_order_id J r of
        None \<Rightarrow> (Ok False, w)
      | Some order_id \<Rightarrow>
          (case razorpay_fetch J (rzj_payments J) C R ''GET'' (''/orders/'' @ order_id @ ''/payments'') NoBody w of
             (Err e, w') \<Rightarrow> (Err e, w')
           | (Ok items, w') \<Rightarrow> (Ok (razorpay_settles order_id items r), w')))"

definition razorpay_verify_webhook ::
    "mac_lib \<Rightarrow> razorpay_codec \<Rightarrow> razorpay_rail \<Rightarrow> webhook_delivery \<Rightarrow> 'w \<Rightarrow> webhook_event result \<times> 'w" where
  "razorpay_verify_webhook H J R d w =
     (rbind (map_err (\<lambda>e. InvalidRequest (razorpay_webhook_error_display e))
        (razorpay_verify_and_parse H J (rz_webhook_secret (rz_config R)) (raw_body d)
          (header_or_empty d ''X-Razorpay-Signature''))) (\<lambda>ev.
        Ok (settlement_event ''razorpay'' (po_event_id ev) (po_order_id ev) (po_settled ev) (po_amount_minor ev)
          (po_currency ev))), w)"

definition razorpay_payment_rail ::
    "mac_lib \<Rightarrow> razorpay_codec \<Rightarrow> ('w \<Rightarrow> u64) \<Rightarrow> 'w http_client \<Rightarrow> razorpay_rail \<Rightarrow> 'w payment_rail" where
  "razorpay_payment_rail H J now C R =
     \<lparr> rail_id = ''razorpay'',
       capabilities = rz_capabilities R,
       rail_quote = razorpay_quote now R,
       rail_charge = razorpay_charge J C R,
       rail_verify = razorpay_verify J C R,
       rail_validate_destination = ignored ''razorpay'',
       rail_refund = default_refund,
       rail_verify_webhook = razorpay_verify_webhook H J R \<rparr>"

section \<open>Facts\<close>

lemma razorpay_charge_Ok:
  "razorpay_charge J C R req w = (Ok r, w') \<longleftrightarrow>
     (\<exists>currency order_id. razorpay_charge_guards R req = Ok currency \<and>
        says C (razorpay_request R ''POST'' ''/orders'' (JsonBody (razorpay_charge_body req currency)))
          (rzj_created J) w order_id w' \<and> order_id \<noteq> [] \<and>
        r = pending_receipt ''razorpay'' currency (pr_reference req) (rzj_proof_to_bytes J order_id))"
  unfolding razorpay_charge_def razorpay_fetch_def by (auto simp: guarded_Ok fetch_then)

lemma razorpay_processor_rail: "processor_rail (razorpay_payment_rail H J now C R) (\<lambda>_. True)"
  by (intro processor_railI processor_coreI)
    (auto simp: razorpay_payment_rail_def razorpay_quote_def razorpay_charge_def razorpay_charge_guards_def
      razorpay_verify_def razorpay_verify_webhook_def Let_def split: sum.splits prod.splits if_splits)

interpretation razorpay: echoing_processor "razorpay_payment_rail H J now C R" "\<lambda>_. True"
  for H J and now :: "'w \<Rightarrow> u64" and C R
  by (intro echoing_processor.intro rail_contract.intro rail_contract_axioms.intro razorpay_processor_rail
      processor_rail.axioms(1) [OF razorpay_processor_rail])
    (auto simp: razorpay_payment_rail_def razorpay_quote_def razorpay_charge_Ok)

lemma evaluate_payment_captured:
  "rp_status p = ''captured'' \<Longrightarrow>
     evaluate_payment p = Ok out \<longleftrightarrow>
       rp_order_id p \<noteq> [] \<and> rp_id p \<noteq> [] \<and> rp_amount p \<noteq> 0 \<and>
       out = \<lparr> po_order_id = rp_order_id p, po_event_id = rp_id p, po_settled = True,
               po_amount_minor = rp_amount p, po_currency = to_ascii_uppercase (trim (rp_currency p)) \<rparr>"
  by (auto simp: evaluate_payment_def Let_def)

lemma evaluate_payment_never_anonymous: "evaluate_payment p = Ok out \<Longrightarrow> po_event_id out \<noteq> [] \<and> po_order_id out \<noteq> []"
  by (auto simp: evaluate_payment_def Let_def split: if_splits)

text \<open>The payment that decides: the first of the order's captured ones.\<close>

lemma razorpay_settles_iff:
  "razorpay_settles order_id items r \<longleftrightarrow>
     (\<exists>before p after. items = before @ p # after \<and>
        list_all (\<lambda>i. \<not> (rp_order_id i = order_id \<and> rp_status i = ''captured'')) before \<and>
        rp_order_id p = order_id \<and> rp_status p = ''captured'' \<and> rp_id p \<noteq> [] \<and> order_id \<noteq> [] \<and> rp_amount p \<noteq> 0 \<and>
        eq_ignore_ascii_case (to_ascii_uppercase (trim (rp_currency p))) (r_currency r) \<and>
        r_amount_minor r \<le> rp_amount p)"
proof -
  let ?Q = "\<lambda>i. rp_order_id i = order_id \<and> rp_status i = ''captured''"
  have q: "find ?Q items = Some p \<Longrightarrow> ?Q p" for p
    unfolding find_Some_split by blast
  have "razorpay_settles order_id items r \<longleftrightarrow>
      (\<exists>p. find ?Q items = Some p \<and> (\<exists>out. evaluate_payment p = Ok out \<and> covers (po_settled out) (po_currency out) (po_amount_minor out) r))"
    unfolding razorpay_settles_def find_filter by (auto split: option.splits sum.splits)
  also have "\<dots> \<longleftrightarrow> (\<exists>p. find ?Q items = Some p \<and> rp_id p \<noteq> [] \<and> order_id \<noteq> [] \<and> rp_amount p \<noteq> 0 \<and>
        eq_ignore_ascii_case (to_ascii_uppercase (trim (rp_currency p))) (r_currency r) \<and> r_amount_minor r \<le> rp_amount p)"
    by (intro ex_cong1 conj_cong refl) (drule q, auto simp: evaluate_payment_captured covers_iff)
  finally show ?thesis unfolding find_Some_split by blast
qed

lemma razorpay_order_id_Some_iff:
  "razorpay_order_id J r = Some oid \<longleftrightarrow>
     (\<exists>p. rzj_proof_from_bytes J (r_proof r) = Some p \<and> safe_path_segment ''razorpay id'' p = Ok oid)"
proof (cases "rzj_proof_from_bytes J (r_proof r)")
  case (Some p)
  then show ?thesis
    by (cases "safe_path_segment ''razorpay id'' p") (auto simp: razorpay_order_id_def)
qed (simp add: razorpay_order_id_def)

lemma razorpay_webhook_Ok:
  "razorpay_verify_and_parse H J secret body hdr = Ok out \<longleftrightarrow>
     trim hdr \<noteq> [] \<and> length body \<le> DEFAULT_MAX_BODY_BYTES \<and>
     verify_hmac_sha256_hex H (as_bytes secret) body (trim hdr) \<and>
     (\<exists>pay. rzj_event J body = Ok (''payment.captured'', pay) \<and> evaluate_payment pay = Ok out)"
  by (auto simp: razorpay_verify_and_parse_def Let_def bounded_len_check_Ok_iff split: if_splits prod.splits)

section \<open>Properties\<close>

text \<open>
  Razorpay's \<open>verify\<close> says yes exactly when the receipt names this rail, its proof decodes to an
  order id that is safe in a path, Razorpay lists the payments of that order, and the first captured
  payment of that very order has an id and a positive amount, is in the receipt's currency and covers
  the receipt's amount. Payments of other orders, and payments only authorised, count for nothing.
\<close>

theorem razorpay_verify_exact:
  "razorpay_verify J C R r w = (Ok True, w') \<longleftrightarrow>
     r_rail_id r = ''razorpay'' \<and>
     (\<exists>p oid before pay after.
        rzj_proof_from_bytes J (r_proof r) = Some p \<and> safe_path_segment ''razorpay id'' p = Ok oid \<and>
        says C (razorpay_request R ''GET'' (''/orders/'' @ oid @ ''/payments'') NoBody) (rzj_payments J) w
          (before @ pay # after) w' \<and>
        list_all (\<lambda>i. \<not> (rp_order_id i = oid \<and> rp_status i = ''captured'')) before \<and>
        rp_order_id pay = oid \<and> rp_status pay = ''captured'' \<and> rp_id pay \<noteq> [] \<and> rp_amount pay \<noteq> 0 \<and>
        eq_ignore_ascii_case (to_ascii_uppercase (trim (rp_currency pay))) (r_currency r) \<and>
        r_amount_minor r \<le> rp_amount pay)"
proof -
  have "razorpay_verify J C R r w = (Ok True, w') \<longleftrightarrow>
     r_rail_id r = ''razorpay'' \<and>
     (\<exists>p oid items. rzj_proof_from_bytes J (r_proof r) = Some p \<and> safe_path_segment ''razorpay id'' p = Ok oid \<and>
        says C (razorpay_request R ''GET'' (''/orders/'' @ oid @ ''/payments'') NoBody) (rzj_payments J) w items w' \<and>
        oid \<noteq> [] \<and> razorpay_settles oid items r)"
    by (auto simp: razorpay_verify_def razorpay_fetch_def guarded_False judged_fetch razorpay_order_id_Some_iff
        safe_path_segment_Ok_iff)
  then show ?thesis unfolding razorpay_settles_iff safe_path_segment_Ok_iff by blast
qed

end
