(* ===== verification/Fiat_Square.thy ===== *)
theory Fiat_Square
  imports Fiat_Hosted Json
begin

text \<open>
  \<open>patala-fiat/src/square\<close>: payment links. A charge's proof names the link and not the payment, which
  exists only once the buyer pays, so a receipt fresh from \<open>charge\<close> never verifies; a webhook is signed
  together with the address it is sent to. The structures \<open>serde\<close> reads and writes go through \<open>J\<close>.
\<close>

section \<open>Configuration\<close>

record square_config =
  sq_access_token :: string
  sq_webhook_signature_key :: string
  sq_location_id :: string
  sq_notification_url :: string
  sq_api_base_url :: string
  sq_requires_kyc :: bool
  sq_currencies :: "string list"
  sq_settlement_days :: u8
  sq_timeout_secs :: u64

definition square_config_from_env :: "environment \<Rightarrow> square_config result" where
  "square_config_from_env env =
     rbind (non_empty_env env ''SQUARE_ACCESS_TOKEN'') (\<lambda>access_token.
     rbind (non_empty_env env ''SQUARE_WEBHOOK_SIGNATURE_KEY'') (\<lambda>key.
     rbind (non_empty_env env ''SQUARE_LOCATION_ID'') (\<lambda>location_id.
     rbind (non_empty_env env ''SQUARE_NOTIFICATION_URL'') (\<lambda>notification_url.
     rbind (non_empty_env env ''SQUARE_API_BASE_URL'') (\<lambda>api_base_url.
       Ok \<lparr> sq_access_token = access_token, sq_webhook_signature_key = key, sq_location_id = location_id,
            sq_notification_url = notification_url, sq_api_base_url = trim_end_slashes api_base_url,
            sq_requires_kyc = env_flag env ''SQUARE_REQUIRES_KYC'' True,
            sq_currencies = env_currencies env ''SQUARE_CURRENCIES'' [],
            sq_settlement_days = env_u8 env ''SQUARE_SETTLEMENT_DAYS'' 2,
            sq_timeout_secs = env_u64 env ''SQUARE_TIMEOUT_SECS'' 15 \<rparr>)))))"

section \<open>Amounts and payments\<close>

definition SQUARE_THREE_DECIMAL :: "string list" where
  "SQUARE_THREE_DECIMAL = [''KWD'', ''BHD'', ''JOD'', ''OMR'', ''TND'']"

definition square_unsupported_currency :: "string \<Rightarrow> error" where
  "square_unsupported_currency cur =
     InvalidRequest (''square: '' @ cur @ '' is a three-decimal ISO-4217 currency, not verified against Square's documented Money semantics; refusing rather than guessing'')"

definition square_amount :: "u64 \<Rightarrow> string \<Rightarrow> u64 result" where
  "square_amount amount_minor currency =
     (let cur = to_ascii_uppercase (trim currency) in
      if currency_in SQUARE_THREE_DECIMAL cur then Err (square_unsupported_currency cur) else Ok amount_minor)"

definition square_malformed :: "string \<Rightarrow> error" where
  "square_malformed detail = malformed_response ''square'' detail"

record square_payment =
  sp_id :: string
  sp_status :: string
  sp_reference_id :: string
  sp_order_id :: string
  sp_amount :: u64
  sp_currency :: string

record square_outcome =
  so_reference :: string
  so_event_id :: string
  so_settled :: bool
  so_amount_minor :: u64
  so_currency :: string

definition parse_square_payment :: "square_payment \<Rightarrow> square_outcome result" where
  "parse_square_payment p =
     (if sp_id p = [] then Err (square_malformed ''missing payment id'')
      else if sp_reference_id p = [] then Err (square_malformed ''payment has no reference_id to reconcile against'')
      else
        let currency = to_ascii_uppercase (trim (sp_currency p)) in
        if sp_status p = ''COMPLETED'' then
          if sp_amount p = 0 then Err (square_malformed ''status=COMPLETED with non-positive amount'')
          else Ok \<lparr> so_reference = sp_reference_id p, so_event_id = sp_id p, so_settled = True,
                    so_amount_minor = sp_amount p, so_currency = currency \<rparr>
        else Ok \<lparr> so_reference = sp_reference_id p, so_event_id = sp_id p, so_settled = False,
                  so_amount_minor = 0, so_currency = currency \<rparr>)"

section \<open>The codec\<close>

record square_proof =
  qp_order_id :: string
  qp_payment_link_id :: string
  qp_payment_id :: "string option"

definition with_resolved_payment_id :: "square_proof \<Rightarrow> string \<Rightarrow> square_proof" where
  "with_resolved_payment_id pf payment_id =
     \<lparr> qp_order_id = qp_order_id pf, qp_payment_link_id = qp_payment_link_id pf, qp_payment_id = Some payment_id \<rparr>"

record square_link =
  sl_id :: string
  sl_url :: string
  sl_order_id :: string

record square_refunded =
  sr_id :: string
  sr_status :: string
  sr_amount :: u64
  sr_currency :: string

record square_codec =
  sqj_error :: "bytes \<Rightarrow> (string \<times> string) option" \<comment> \<open>the first error's code and detail\<close>
  sqj_created :: "bytes \<Rightarrow> string + square_link"
  sqj_payment :: "bytes \<Rightarrow> string + square_payment"
  sqj_refund :: "bytes \<Rightarrow> string + square_refunded"
  sqj_event :: "bytes \<Rightarrow> string + string \<times> string \<times> square_payment" \<comment> \<open>event id, type and payment\<close>
  sqj_proof_to_bytes :: "square_proof \<Rightarrow> bytes"
  sqj_proof_from_bytes :: "bytes \<Rightarrow> square_proof option"

definition square_classify_error :: "square_codec \<Rightarrow> nat \<Rightarrow> bytes \<Rightarrow> error" where
  "square_classify_error J status body =
     (let msg = (case sqj_error J body of Some (c, detail) \<Rightarrow> c @ '': '' @ detail | None \<Rightarrow> ''no message'')
      in Rail (''square: unexpected API response status: http '' @ dec_of_nat status @ '': '' @ msg))"

section \<open>Webhook\<close>

datatype square_webhook_error =
  SqMissingSignature | SqInvalidSignature | SqMalformedResponse string | SqResponseTooLarge | SqUnhandledEvent string

fun square_webhook_error_display :: "square_webhook_error \<Rightarrow> string" where
  "square_webhook_error_display SqMissingSignature = ''payments: square: missing x-square-hmacsha256-signature header''"
| "square_webhook_error_display SqInvalidSignature = ''payments: square: invalid webhook signature''"
| "square_webhook_error_display (SqMalformedResponse m) = ''payments: square: malformed API response: '' @ m"
| "square_webhook_error_display SqResponseTooLarge = ''payments: square: response body exceeds size limit''"
| "square_webhook_error_display (SqUnhandledEvent t) = ''payments: unhandled webhook event type: '' @ t"

record square_event =
  se_event_id :: string
  se_reference :: string
  se_payment_id :: string
  se_amount_minor :: u64
  se_currency :: string

definition square_verify_and_parse ::
    "mac_lib \<Rightarrow> square_codec \<Rightarrow> string \<Rightarrow> string \<Rightarrow> bytes \<Rightarrow> string \<Rightarrow> square_webhook_error + square_event" where
  "square_verify_and_parse H J key url body signature_header =
     rbind (map_err (\<lambda>_. SqResponseTooLarge) (bounded_len_check body DEFAULT_MAX_BODY_BYTES)) (\<lambda>_.
       let hdr = trim signature_header in
       if hdr = [] then Err SqMissingSignature
       else if \<not> verify_hmac_sha256_base64 H (as_bytes key) (as_bytes url @ body) hdr then Err SqInvalidSignature
       else
         rbind (map_err SqMalformedResponse (sqj_event J body)) (\<lambda>(event_id, event_type, payment).
           if event_type \<noteq> ''payment.updated'' then Err (SqUnhandledEvent event_type)
           else
             rbind (map_err (\<lambda>e. SqMalformedResponse (error_display e)) (parse_square_payment payment)) (\<lambda>outcome.
               if \<not> so_settled outcome then Err (SqUnhandledEvent ''payment.updated with status!=COMPLETED'')
               else Ok \<lparr> se_event_id = (if event_id = [] then so_event_id outcome else event_id),
                         se_reference = so_reference outcome, se_payment_id = sp_id payment,
                         se_amount_minor = so_amount_minor outcome, se_currency = so_currency outcome \<rparr>)))"

section \<open>The rail\<close>

record square_rail =
  sq_config :: square_config
  sq_capabilities :: rail_capabilities
  sq_base_url :: string

definition square_new :: "(u64 \<Rightarrow> string + unit) \<Rightarrow> square_config \<Rightarrow> square_rail result" where
  "square_new client config =
     rbind (require_non_empty ''access_token'' (sq_access_token config)) (\<lambda>_.
     rbind (require_non_empty ''webhook_signature_key'' (sq_webhook_signature_key config)) (\<lambda>_.
     rbind (require_non_empty ''location_id'' (sq_location_id config)) (\<lambda>_.
     rbind (require_non_empty ''notification_url'' (sq_notification_url config)) (\<lambda>_.
     rbind (require_non_empty ''api_base_url'' (sq_api_base_url config)) (\<lambda>_.
     rbind (build_client ''square'' client (sq_timeout_secs config)) (\<lambda>_.
       Ok \<lparr> sq_config = config,
            sq_capabilities = custodial_caps True (sq_requires_kyc config) (sq_currencies config)
              (Days (sq_settlement_days config)),
            sq_base_url = sq_api_base_url config \<rparr>))))))"

definition square_check_currency :: "square_rail \<Rightarrow> string \<Rightarrow> unit result" where
  "square_check_currency R currency = check_any_currency ''square'' (currencies (sq_capabilities R)) currency"

definition square_request :: "square_rail \<Rightarrow> string \<Rightarrow> string \<Rightarrow> http_body \<Rightarrow> http_request" where
  "square_request R meth path body =
     \<lparr> hq_method = meth, hq_url = sq_base_url R @ path, hq_auth = NoAuth,
       hq_headers = [(''Authorization'', ''Bearer '' @ sq_access_token (sq_config R)),
         (''Content-Type'', ''application/json''), (''Accept'', ''application/json'')],
       hq_body = body \<rparr>"

definition square_fetch ::
    "square_codec \<Rightarrow> (bytes \<Rightarrow> string + 'a) \<Rightarrow> 'w http_client \<Rightarrow> square_rail \<Rightarrow> string \<Rightarrow> string \<Rightarrow>
     http_body \<Rightarrow> 'w \<Rightarrow> 'a result \<times> 'w" where
  "square_fetch J parse C R meth path body w =
     fetch ''square'' path (square_classify_error J) square_malformed parse C (square_request R meth path body) w"

definition square_quote :: "('w \<Rightarrow> u64) \<Rightarrow> square_rail \<Rightarrow> pay_request \<Rightarrow> 'w \<Rightarrow> quote result \<times> 'w" where
  "square_quote now R req w =
     hosted_quote ''square'' (square_check_currency R)
       (\<lambda>req. rbind (square_amount (pr_amount_minor req) (pr_currency req)) (\<lambda>_. Ok ()))
       (caps_settlement (sq_capabilities R)) now req w"

definition square_charge_guards :: "square_rail \<Rightarrow> pay_request \<Rightarrow> (string \<times> u64 \<times> string) result" where
  "square_charge_guards R req =
     rbind (pay_request_validate req) (\<lambda>_.
     rbind (square_check_currency R (pr_currency req)) (\<lambda>_.
       let currency = to_ascii_uppercase (trim (pr_currency req)) in
       rbind (square_amount (pr_amount_minor req) currency) (\<lambda>amount.
         let redirect = trim (pr_destination req) in
         if redirect = [] then Err (InvalidRequest ''square: destination (used as the redirect_url) is required'')
         else Ok (currency, amount, redirect))))"

definition square_charge_body :: "square_config \<Rightarrow> pay_request \<Rightarrow> string \<times> u64 \<times> string \<Rightarrow> json" where
  "square_charge_body config req g =
     (case g of (currency, amount, redirect) \<Rightarrow>
      JObject [(''idempotency_key'', JString (pr_reference req)),
        (''order'', JObject [(''location_id'', JString (sq_location_id config)),
          (''reference_id'', JString (pr_reference req)),
          (''line_items'', JArray [JObject [(''name'', JString (''patala order '' @ pr_reference req)),
            (''quantity'', JString ''1''),
            (''base_price_money'', JObject [(''amount'', JNumber (PosInt amount)), (''currency'', JString currency)])]])]),
        (''checkout_options'', JObject [(''redirect_url'', JString redirect)])])"

definition square_charge_proof :: "square_link \<Rightarrow> square_proof" where
  "square_charge_proof link =
     \<lparr> qp_order_id = sl_order_id link, qp_payment_link_id = sl_id link, qp_payment_id = None \<rparr>"

definition square_charge ::
    "square_codec \<Rightarrow> 'w http_client \<Rightarrow> square_rail \<Rightarrow> pay_request \<Rightarrow> 'w \<Rightarrow> receipt result \<times> 'w" where
  "square_charge J C R req w =
     (case square_charge_guards R req of
        Err e \<Rightarrow> (Err e, w)
      | Ok g \<Rightarrow>
          (case square_fetch J (sqj_created J) C R ''POST'' ''/v2/online-checkout/payment-links''
              (JsonBody (square_charge_body (sq_config R) req g)) w of
             (Err e, w') \<Rightarrow> (Err e, w')
           | (Ok link, w') \<Rightarrow>
               if sl_id link = [] \<or> sl_url link = [] then (Err (square_malformed ''empty payment link id or url''), w')
               else (Ok (pending_receipt ''square'' (fst g) (pr_reference req)
                       (sqj_proof_to_bytes J (square_charge_proof link))), w')))"

text \<open>The payment the proof names, if it names one that may stand in a path.\<close>

definition square_payment_id :: "square_codec \<Rightarrow> receipt \<Rightarrow> string option" where
  "square_payment_id J r =
     (case sqj_proof_from_bytes J (r_proof r) of
        None \<Rightarrow> None
      | Some pf \<Rightarrow>
          (case qp_payment_id pf of
             None \<Rightarrow> None
           | Some pid \<Rightarrow> (case safe_path_segment ''square id'' pid of Err _ \<Rightarrow> None | Ok p \<Rightarrow> Some p)))"

definition square_settles :: "square_payment \<Rightarrow> receipt \<Rightarrow> bool" where
  "square_settles payment r =
     (case parse_square_payment payment of
        Err _ \<Rightarrow> False
      | Ok outcome \<Rightarrow>
          if so_reference outcome \<noteq> r_reference r then False
          else covers (so_settled outcome) (so_currency outcome) (so_amount_minor outcome) r)"

definition square_verify ::
    "square_codec \<Rightarrow> 'w http_client \<Rightarrow> square_rail \<Rightarrow> receipt \<Rightarrow> 'w \<Rightarrow> bool result \<times> 'w" where
  "square_verify J C R r w =
     (if r_rail_id r \<noteq> ''square'' then (Ok False, w)
      else case square_payment_id J r of
        None \<Rightarrow> (Ok False, w)
      | Some pid \<Rightarrow>
          (case square_fetch J (sqj_payment J) C R ''GET'' (''/v2/payments/'' @ pid) NoBody w of
             (Err e, w') \<Rightarrow> (Err e, w')
           | (Ok payment, w') \<Rightarrow> (Ok (square_settles payment r), w')))"

definition square_refund_guards :: "square_codec \<Rightarrow> receipt \<Rightarrow> string result" where
  "square_refund_guards J r =
     (if r_rail_id r \<noteq> ''square'' then Err (names_other_rail ''square'' r)
      else
        rbind (ok_or (InvalidRequest ''receipt proof is not a square charge proof'') (sqj_proof_from_bytes J (r_proof r))) (\<lambda>pf.
        rbind (ok_or (InvalidRequest (''square: receipt has no resolved payment_id -- cannot refund a payment whose id '' @
            ''was never learned (see proof.rs's module docs)'')) (qp_payment_id pf)) (\<lambda>pid.
          safe_path_segment ''square id'' pid)))"

definition square_refund_body :: "receipt \<Rightarrow> string \<Rightarrow> json" where
  "square_refund_body r pid =
     JObject [(''idempotency_key'', JString (''refund:'' @ r_reference r)),
       (''amount_money'', JObject [(''amount'', JNumber (PosInt (r_amount_minor r))), (''currency'', JString (r_currency r))]),
       (''payment_id'', JString pid)]"

definition square_refund_receipt :: "u64 \<Rightarrow> receipt \<Rightarrow> square_refunded \<Rightarrow> receipt" where
  "square_refund_receipt now r parsed =
     (let succeeded = (sr_status parsed = ''COMPLETED'');
          currency = to_ascii_uppercase (trim (sr_currency parsed))
      in \<lparr> r_rail_id = ''square'', r_amount_minor = (if succeeded then sr_amount parsed else 0),
           r_currency = (if currency = [] then r_currency r else currency), r_reference = r_reference r,
           r_proof = [], r_settled_at_unix = now \<rparr>)"

definition square_refund ::
    "square_codec \<Rightarrow> ('w \<Rightarrow> u64) \<Rightarrow> 'w http_client \<Rightarrow> square_rail \<Rightarrow> receipt \<Rightarrow> 'w \<Rightarrow> receipt result \<times> 'w" where
  "square_refund J now C R r w =
     (case square_refund_guards J r of
        Err e \<Rightarrow> (Err e, w)
      | Ok pid \<Rightarrow>
          (case square_fetch J (sqj_refund J) C R ''POST'' ''/v2/refunds'' (JsonBody (square_refund_body r pid)) w of
             (Err e, w') \<Rightarrow> (Err e, w')
           | (Ok parsed, w') \<Rightarrow>
               if sr_id parsed = [] then (Err (square_malformed ''empty refund id''), w')
               else (Ok (square_refund_receipt (now w') r parsed), w')))"

definition square_verify_webhook ::
    "mac_lib \<Rightarrow> square_codec \<Rightarrow> square_rail \<Rightarrow> webhook_delivery \<Rightarrow> 'w \<Rightarrow> webhook_event result \<times> 'w" where
  "square_verify_webhook H J R d w =
     (rbind (map_err (\<lambda>e. InvalidRequest (square_webhook_error_display e))
        (square_verify_and_parse H J (sq_webhook_signature_key (sq_config R)) (sq_notification_url (sq_config R))
          (raw_body d) (header_or_empty d ''x-square-hmacsha256-signature''))) (\<lambda>ev.
        Ok (with_object_id (settlement_event ''square'' (se_event_id ev) (se_reference ev) True
          (se_amount_minor ev) (se_currency ev)) (se_payment_id ev))), w)"

definition square_payment_rail ::
    "mac_lib \<Rightarrow> square_codec \<Rightarrow> ('w \<Rightarrow> u64) \<Rightarrow> 'w http_client \<Rightarrow> square_rail \<Rightarrow> 'w payment_rail" where
  "square_payment_rail H J now C R =
     \<lparr> rail_id = ''square'',
       capabilities = sq_capabilities R,
       rail_quote = square_quote now R,
       rail_charge = square_charge J C R,
       rail_verify = square_verify J C R,
       rail_validate_destination = redirect_url ''square'',
       rail_refund = square_refund J now C R,
       rail_verify_webhook = square_verify_webhook H J R \<rparr>"

section \<open>Facts\<close>

lemma square_charge_Ok:
  "square_charge J C R req w = (Ok r, w') \<longleftrightarrow>
     (\<exists>g link. square_charge_guards R req = Ok g \<and>
        says C (square_request R ''POST'' ''/v2/online-checkout/payment-links''
          (JsonBody (square_charge_body (sq_config R) req g))) (sqj_created J) w link w' \<and>
        sl_id link \<noteq> [] \<and> sl_url link \<noteq> [] \<and>
        r = pending_receipt ''square'' (fst g) (pr_reference req) (sqj_proof_to_bytes J (square_charge_proof link)))"
  unfolding square_charge_def square_fetch_def guarded_Ok by (auto simp: fetch_then)

lemma square_processor_rail: "processor_rail (square_payment_rail H J now C R) (\<lambda>_. True)"
  by (intro processor_railI processor_coreI)
    (auto simp: square_payment_rail_def square_quote_def hosted_quote_invalid square_charge_def
      square_charge_guards_def square_verify_def square_verify_webhook_def
      dest: hosted_quote_Ok split: sum.splits prod.splits if_splits)

interpretation square: echoing_processor "square_payment_rail H J now C R" "\<lambda>_. True"
  for H J and now :: "'w \<Rightarrow> u64" and C R
  by (intro echoing_processor.intro rail_contract.intro rail_contract_axioms.intro square_processor_rail
      processor_rail.axioms(1) [OF square_processor_rail])
    (auto simp: square_payment_rail_def square_quote_def square_charge_Ok dest: hosted_quote_Ok)

lemma square_settles_iff:
  "square_settles p r \<longleftrightarrow>
     sp_id p \<noteq> [] \<and> sp_reference_id p \<noteq> [] \<and> sp_reference_id p = r_reference r \<and>
     sp_status p = ''COMPLETED'' \<and> sp_amount p \<noteq> 0 \<and> r_amount_minor r \<le> sp_amount p \<and>
     eq_ignore_ascii_case (to_ascii_uppercase (trim (sp_currency p))) (r_currency r)"
  by (auto simp: square_settles_def covers_iff parse_square_payment_def Let_def)

lemma square_verify_True_iff:
  "square_verify J C R r w = (Ok True, w') \<longleftrightarrow>
     r_rail_id r = ''square'' \<and>
     (\<exists>pid p. square_payment_id J r = Some pid \<and>
        says C (square_request R ''GET'' (''/v2/payments/'' @ pid) NoBody) (sqj_payment J) w p w' \<and> square_settles p r)"
  by (auto simp: square_verify_def square_fetch_def guarded_False judged_fetch)

lemma square_authenticated_event:
  "square_verify_and_parse H J key url body hdr = Ok e \<longleftrightarrow>
     length body \<le> DEFAULT_MAX_BODY_BYTES \<and> trim hdr \<noteq> [] \<and>
     verify_hmac_sha256_base64 H (as_bytes key) (as_bytes url @ body) (trim hdr) \<and>
     (\<exists>i p. sqj_event J body = Ok (i, ''payment.updated'', p) \<and> sp_id p \<noteq> [] \<and> sp_reference_id p \<noteq> [] \<and>
        sp_status p = ''COMPLETED'' \<and> sp_amount p \<noteq> 0 \<and>
        e = \<lparr> se_event_id = (if i = [] then sp_id p else i), se_reference = sp_reference_id p,
              se_payment_id = sp_id p, se_amount_minor = sp_amount p,
              se_currency = to_ascii_uppercase (trim (sp_currency p)) \<rparr>)"
  by (auto simp: square_verify_and_parse_def bounded_len_check_Ok_iff parse_square_payment_def Let_def
      split: prod.splits)

section \<open>Properties\<close>

text \<open>
  If a proof reads back as it was written, the receipt a Square charge returns never verifies and
  cannot be refunded, whatever the buyer does, and asking costs no exchange: its proof names no payment.
  It is the caller who must learn the payment's id (from a webhook, whose object it is) and put it in.
\<close>

theorem square_charge_needs_payment_id:
  assumes "square_charge J C R req w = (Ok r, w')"
    and "\<And>pf. sqj_proof_from_bytes J (sqj_proof_to_bytes J pf) = Some pf"
  shows "square_verify J C R r w1 = (Ok False, w1) \<and> (\<exists>e. square_refund J now C R r w1 = (Err e, w1))"
  using assms
  by (auto simp: square_charge_Ok square_verify_def square_payment_id_def square_charge_proof_def
      square_refund_def square_refund_guards_def)

text \<open>With the id in place it verifies when Square reports a completed payment of that reference.\<close>

lemma square_resolved_verifies:
  assumes "\<And>pf. sqj_proof_from_bytes J (sqj_proof_to_bytes J pf) = Some pf"
    and "safe_path_segment ''square id'' pid = Ok pid"
  shows "square_payment_id J (r\<lparr> r_proof := sqj_proof_to_bytes J (with_resolved_payment_id pf pid) \<rparr>) = Some pid"
  using assms by (simp add: square_payment_id_def with_resolved_payment_id_def)

definition toy_square :: square_rail where
  "toy_square =
     (let config = \<lparr> sq_access_token = ''k'', sq_webhook_signature_key = ''s'', sq_location_id = ''L'',
         sq_notification_url = ''u'', sq_api_base_url = [], sq_requires_kyc = True, sq_currencies = [],
         sq_settlement_days = 2, sq_timeout_secs = 15 \<rparr>
      in \<lparr> sq_config = config, sq_capabilities = custodial_caps True True [] (Days 2), sq_base_url = [] \<rparr>)"

definition toy_square_codec :: square_codec where
  "toy_square_codec =
     \<lparr> sqj_error = (\<lambda>_. None), sqj_created = (\<lambda>_. Ok \<lparr> sl_id = ''PL'', sl_url = ''u'', sl_order_id = ''O'' \<rparr>),
       sqj_payment = (\<lambda>_. Err []), sqj_refund = (\<lambda>_. Err []), sqj_event = (\<lambda>_. Err []),
       sqj_proof_to_bytes = (\<lambda>pf. mark_text (qp_order_id pf) @ mark_text (qp_payment_link_id pf) @
         (case qp_payment_id pf of None \<Rightarrow> [] | Some p \<Rightarrow> mark_text p)),
       sqj_proof_from_bytes = (\<lambda>bs. Option.bind (read_text bs) (\<lambda>(a, bs1). Option.bind (read_text bs1) (\<lambda>(b, bs2).
         if bs2 = [] then Some \<lparr> qp_order_id = a, qp_payment_link_id = b, qp_payment_id = None \<rparr>
         else map_option (\<lambda>(c, _). \<lparr> qp_order_id = a, qp_payment_link_id = b, qp_payment_id = Some c \<rparr>) (read_text bs2)))) \<rparr>"

lemma mark_text_nonempty [simp]: "mark_text s \<noteq> []"
  by (cases s) simp_all

lemma toy_square_codec_round_trip: "sqj_proof_from_bytes toy_square_codec (sqj_proof_to_bytes toy_square_codec pf) = Some pf"
  by (cases "qp_payment_id pf") (simp_all add: toy_square_codec_def)

definition toy_square_request :: pay_request where
  "toy_square_request =
     \<lparr> pr_amount_minor = 500, pr_currency = ''USD'', pr_destination = ''https://a.b'', pr_reference = ''ord'' \<rparr>"

lemma toy_square_charges: "\<exists>r. square_charge toy_square_codec yes_client toy_square toy_square_request () = (Ok r, ())"
proof -
  have "square_charge_guards toy_square toy_square_request = Ok (''USD'', 500, ''https://a.b'')"
    by code_simp
  then show ?thesis by (auto simp: square_charge_Ok toy_square_codec_def)
qed

theorem square_charge_needs_payment_id_witness:
  "\<exists>r. square_charge toy_square_codec yes_client toy_square toy_square_request () = (Ok r, ()) \<and>
     square_verify toy_square_codec yes_client toy_square r () = (Ok False, ()) \<and>
     (\<exists>e. square_refund toy_square_codec (\<lambda>_. 0) yes_client toy_square r () = (Err e, ()))"
proof -
  obtain r where "square_charge toy_square_codec yes_client toy_square toy_square_request () = (Ok r, ())"
    using toy_square_charges by blast
  with square_charge_needs_payment_id [OF this toy_square_codec_round_trip, where ?w1.0 = "()"] show ?thesis by blast
qed

end
