(* ===== verification/Fiat_Xendit.thy ===== *)
theory Fiat_Xendit
  imports Fiat_Hosted Json
begin

text \<open>
  \<open>patala-fiat/src/xendit\<close>: invoices looked up by the caller's own reference. A webhook carries a static
  token and no MAC. The structures \<open>serde\<close> reads and writes, and a number printed with six decimals, go
  through \<open>J\<close>.
\<close>

section \<open>Configuration\<close>

definition XENDIT_CURRENCIES :: "string list" where
  "XENDIT_CURRENCIES = [''IDR'', ''PHP'', ''VND'', ''THB'', ''MYR'']"

record xendit_config =
  xd_secret_key :: string
  xd_webhook_token :: string
  xd_requires_kyc :: bool
  xd_currencies :: "string list"
  xd_settlement_days :: u8
  xd_timeout_secs :: u64

definition xendit_config_from_env :: "environment \<Rightarrow> xendit_config result" where
  "xendit_config_from_env env =
     rbind (non_empty_env env ''XENDIT_SECRET_KEY'') (\<lambda>secret_key.
     rbind (non_empty_env env ''XENDIT_WEBHOOK_TOKEN'') (\<lambda>webhook_token.
       Ok \<lparr> xd_secret_key = secret_key, xd_webhook_token = webhook_token,
            xd_requires_kyc = env_flag env ''XENDIT_REQUIRES_KYC'' True,
            xd_currencies = env_currencies env ''XENDIT_CURRENCIES'' XENDIT_CURRENCIES,
            xd_settlement_days = env_u8 env ''XENDIT_SETTLEMENT_DAYS'' 2,
            xd_timeout_secs = env_u64 env ''XENDIT_TIMEOUT_SECS'' 15 \<rparr>))"

section \<open>Invoices\<close>

record xendit_invoice =
  xi_id :: string
  xi_external_id :: string
  xi_status :: string
  xi_amount :: json
  xi_paid_amount :: json
  xi_currency :: string
  xi_invoice_url :: string
  xi_paid_at :: string

record xendit_codec =
  xdj_error :: "bytes \<Rightarrow> (string \<times> string) option" \<comment> \<open>message and error code\<close>
  xdj_invoice :: "bytes \<Rightarrow> string + xendit_invoice"
  xdj_invoices :: "bytes \<Rightarrow> string + xendit_invoice list"
  xdj_fixed6 :: "json_number \<Rightarrow> string option" \<comment> \<open>as \<open>f64\<close>, with six decimals\<close>
  xdj_proof_to_bytes :: "string \<times> string \<Rightarrow> bytes" \<comment> \<open>invoice URL and id\<close>

definition xendit_trim_trailing_zeros :: "string \<Rightarrow> string" where
  "xendit_trim_trailing_zeros s =
     rev (dropWhile (\<lambda>c. c = CHR ''.'') (dropWhile (\<lambda>c. c = CHR ''0'') (rev s)))"

definition xendit_number_to_string :: "xendit_codec \<Rightarrow> json \<Rightarrow> string option" where
  "xendit_number_to_string J v =
     (case v of
        JString s \<Rightarrow> Some s
      | JNumber n \<Rightarrow> map_option xendit_trim_trailing_zeros (xdj_fixed6 J n)
      | _ \<Rightarrow> None)"

definition xendit_malformed :: "string \<Rightarrow> error" where
  "xendit_malformed detail = malformed_response ''xendit'' detail"

definition xendit_classify_error :: "xendit_codec \<Rightarrow> nat \<Rightarrow> bytes \<Rightarrow> error" where
  "xendit_classify_error J status body =
     (let (message, error_code) = (case xdj_error J body of Some e \<Rightarrow> e | None \<Rightarrow> ([], []))
      in unexpected_status ''xendit'' (Some (if message \<noteq> [] then message else error_code)) status)"

record invoice_outcome =
  io_reference :: string
  io_event_id :: string
  io_settled :: bool
  io_amount_minor :: u64
  io_currency :: string

definition invoice_amount_field :: "xendit_invoice \<Rightarrow> json" where
  "invoice_amount_field i =
     (if xi_status i = ''PAID'' \<and> \<not> is_null (xi_paid_amount i) then xi_paid_amount i else xi_amount i)"

definition invoice_amount :: "xendit_codec \<Rightarrow> xendit_invoice \<Rightarrow> u64 result" where
  "invoice_amount J i =
     (case xendit_number_to_string J (invoice_amount_field i) of
        None \<Rightarrow> Err (xendit_malformed ''unparseable amount field'')
      | Some s \<Rightarrow>
          if s = [] then Err (xendit_malformed ''unparseable amount field'')
          else map_err (\<lambda>e. xendit_malformed (''amount '' @ debug_str s @ '': '' @ currency_error_display e))
            (major_string_to_minor s (xi_currency i)))"

definition invoice_to_outcome :: "xendit_codec \<Rightarrow> xendit_invoice \<Rightarrow> invoice_outcome result" where
  "invoice_to_outcome J i =
     (if xi_external_id i = [] then Err (xendit_malformed ''missing external_id'')
      else
        rbind (invoice_amount J i) (\<lambda>amount.
          if xi_status i \<in> {''PAID'', ''SETTLED''} then
            if amount = 0 then Err (xendit_malformed ''paid status with non-positive amount'')
            else if xi_id i = [] then Err (xendit_malformed ''paid invoice with no id (cannot dedupe webhooks)'')
            else Ok \<lparr> io_reference = xi_external_id i, io_event_id = xi_id i, io_settled = True,
                      io_amount_minor = amount, io_currency = xi_currency i \<rparr>
          else Ok \<lparr> io_reference = xi_external_id i, io_event_id = xi_id i, io_settled = False,
                    io_amount_minor = 0, io_currency = xi_currency i \<rparr>))"

text \<open>A reference that may stand in the query.\<close>

definition safe_query_value :: "string \<Rightarrow> string result" where
  "safe_query_value s =
     (if s = [] \<or> list_ex (\<lambda>c. c \<in> set ''/?#&= '' \<or> code c = 9 \<or> code c = 10 \<or> code c = 13) s \<or>
         \<not> list_all (\<lambda>c. code c < 128) s
      then Err (InvalidRequest (''value '' @ debug_str s @ '' is not a safe query value for a xendit external_id''))
      else Ok s)"

section \<open>Webhook\<close>

datatype xendit_webhook_error =
  XdMissingToken | XdInvalidToken | XdMalformedResponse string | XdUnhandledEvent string | XdResponseTooLarge

fun xendit_webhook_error_display :: "xendit_webhook_error \<Rightarrow> string" where
  "xendit_webhook_error_display XdMissingToken = ''payments: xendit: missing x-callback-token header''"
| "xendit_webhook_error_display XdInvalidToken = ''payments: xendit: invalid x-callback-token''"
| "xendit_webhook_error_display (XdMalformedResponse m) = ''payments: xendit: malformed API response: '' @ m"
| "xendit_webhook_error_display (XdUnhandledEvent t) = ''payments: unhandled webhook event type: '' @ t"
| "xendit_webhook_error_display XdResponseTooLarge = ''payments: xendit: response body exceeds size limit''"

definition xendit_verify_and_parse ::
    "xendit_codec \<Rightarrow> string \<Rightarrow> bytes \<Rightarrow> string \<Rightarrow> xendit_webhook_error + invoice_outcome" where
  "xendit_verify_and_parse J webhook_token body token_header =
     (let given = trim token_header in
      if given = [] then Err XdMissingToken
      else
        rbind (map_err (\<lambda>_. XdResponseTooLarge) (bounded_len_check body DEFAULT_MAX_BODY_BYTES)) (\<lambda>_.
          if \<not> constant_time_eq (as_bytes given) (as_bytes webhook_token) then Err XdInvalidToken
          else
            rbind (map_err XdMalformedResponse (xdj_invoice J body)) (\<lambda>i.
              if xi_status i \<notin> {''PAID'', ''SETTLED''} then Err (XdUnhandledEvent (xi_status i))
              else map_err (\<lambda>e. XdMalformedResponse (error_display e)) (invoice_to_outcome J i))))"

section \<open>The rail\<close>

definition XENDIT_API_BASE :: string where "XENDIT_API_BASE = ''https://api.xendit.co''"

record xendit_rail =
  xd_config :: xendit_config
  xd_capabilities :: rail_capabilities
  xd_base_url :: string

definition xendit_new :: "(u64 \<Rightarrow> string + unit) \<Rightarrow> xendit_config \<Rightarrow> xendit_rail result" where
  "xendit_new client config =
     rbind (require_non_empty ''secret_key'' (xd_secret_key config)) (\<lambda>_.
     rbind (require_non_empty ''webhook_token'' (xd_webhook_token config)) (\<lambda>_.
     rbind (if xd_currencies config = [] then Err (InvalidRequest ''currencies must not be empty'') else Ok ()) (\<lambda>_.
     rbind (build_client ''xendit'' client (xd_timeout_secs config)) (\<lambda>_.
       Ok \<lparr> xd_config = config,
            xd_capabilities = custodial_caps False (xd_requires_kyc config) (xd_currencies config)
              (Days (xd_settlement_days config)),
            xd_base_url = XENDIT_API_BASE \<rparr>))))"

definition xendit_check_currency :: "xendit_rail \<Rightarrow> string \<Rightarrow> unit result" where
  "xendit_check_currency R currency = check_listed_currency ''xendit'' (currencies (xd_capabilities R)) currency"

definition xendit_request :: "xendit_rail \<Rightarrow> string \<Rightarrow> string \<Rightarrow> http_body \<Rightarrow> http_request" where
  "xendit_request R meth path body =
     \<lparr> hq_method = meth, hq_url = xd_base_url R @ path, hq_auth = BasicAuth (xd_secret_key (xd_config R)) (Some []),
       hq_headers = [(''Content-Type'', ''application/json''), (''Accept'', ''application/json'')], hq_body = body \<rparr>"

definition xendit_fetch ::
    "xendit_codec \<Rightarrow> (bytes \<Rightarrow> string + 'a) \<Rightarrow> 'w http_client \<Rightarrow> xendit_rail \<Rightarrow> string \<Rightarrow> string \<Rightarrow>
     http_body \<Rightarrow> 'w \<Rightarrow> 'a result \<times> 'w" where
  "xendit_fetch J parse C R meth path body w =
     fetch ''xendit'' path (xendit_classify_error J) xendit_malformed parse C (xendit_request R meth path body) w"

definition xendit_quote :: "('w \<Rightarrow> u64) \<Rightarrow> xendit_rail \<Rightarrow> pay_request \<Rightarrow> 'w \<Rightarrow> quote result \<times> 'w" where
  "xendit_quote now R req w =
     hosted_quote ''xendit'' (xendit_check_currency R)
       (\<lambda>req. rbind (map_err (refused_as ''xendit'') (minor_to_major_string (pr_amount_minor req) (pr_currency req))) (\<lambda>_. Ok ()))
       (caps_settlement (xd_capabilities R)) now req w"

definition xendit_charge_guards :: "xendit_rail \<Rightarrow> pay_request \<Rightarrow> (string \<times> string) result" where
  "xendit_charge_guards R req = major_charge_guards (refused_as ''xendit'') (xendit_check_currency R) req"

definition xendit_charge_body :: "pay_request \<Rightarrow> string \<Rightarrow> string \<Rightarrow> json" where
  "xendit_charge_body req currency amount =
     JObject [(''external_id'', JString (pr_reference req)), (''amount'', JString amount),
       (''currency'', JString currency), (''success_redirect_url'', JString (pr_destination req))]"

definition xendit_charge ::
    "xendit_codec \<Rightarrow> 'w http_client \<Rightarrow> xendit_rail \<Rightarrow> pay_request \<Rightarrow> 'w \<Rightarrow> receipt result \<times> 'w" where
  "xendit_charge J C R req w =
     (case xendit_charge_guards R req of
        Err e \<Rightarrow> (Err e, w)
      | Ok (currency, amount) \<Rightarrow>
          (case xendit_fetch J (xdj_invoice J) C R ''POST'' ''/v2/invoices''
              (JsonBody (xendit_charge_body req currency amount)) w of
             (Err e, w') \<Rightarrow> (Err e, w')
           | (Ok i, w') \<Rightarrow>
               if xi_invoice_url i = [] then (Err (xendit_malformed ''empty invoice_url''), w')
               else (Ok (pending_receipt ''xendit'' currency (pr_reference req)
                       (xdj_proof_to_bytes J (xi_invoice_url i, xi_id i))), w')))"

text \<open>Only the first invoice is looked at.\<close>

definition xendit_settles :: "xendit_codec \<Rightarrow> string \<Rightarrow> xendit_invoice list \<Rightarrow> receipt \<Rightarrow> bool" where
  "xendit_settles J reference invoices r =
     (case invoices of
        [] \<Rightarrow> False
      | i # _ \<Rightarrow>
          if xi_external_id i \<noteq> reference then False
          else case invoice_to_outcome J i of
            Err _ \<Rightarrow> False
          | Ok outcome \<Rightarrow> covers (io_settled outcome) (io_currency outcome) (io_amount_minor outcome) r)"

definition xendit_verify ::
    "xendit_codec \<Rightarrow> 'w http_client \<Rightarrow> xendit_rail \<Rightarrow> receipt \<Rightarrow> 'w \<Rightarrow> bool result \<times> 'w" where
  "xendit_verify J C R r w =
     (if r_rail_id r \<noteq> ''xendit'' then (Ok False, w)
      else case safe_query_value (r_reference r) of
        Err _ \<Rightarrow> (Ok False, w)
      | Ok reference \<Rightarrow>
          (case xendit_fetch J (xdj_invoices J) C R ''GET'' (''/v2/invoices?external_id='' @ reference) NoBody w of
             (Err e, w') \<Rightarrow> (Err e, w')
           | (Ok invoices, w') \<Rightarrow> (Ok (xendit_settles J reference invoices r), w')))"

definition xendit_verify_webhook ::
    "xendit_codec \<Rightarrow> xendit_rail \<Rightarrow> webhook_delivery \<Rightarrow> 'w \<Rightarrow> webhook_event result \<times> 'w" where
  "xendit_verify_webhook J R d w =
     (rbind (map_err (\<lambda>e. InvalidRequest (xendit_webhook_error_display e))
        (xendit_verify_and_parse J (xd_webhook_token (xd_config R)) (raw_body d) (header_or_empty d ''x-callback-token'')))
        (\<lambda>ev. Ok (settlement_event ''xendit'' (io_event_id ev) (io_reference ev) True (io_amount_minor ev) (io_currency ev))), w)"

definition xendit_payment_rail ::
    "xendit_codec \<Rightarrow> ('w \<Rightarrow> u64) \<Rightarrow> 'w http_client \<Rightarrow> xendit_rail \<Rightarrow> 'w payment_rail" where
  "xendit_payment_rail J now C R =
     \<lparr> rail_id = ''xendit'',
       capabilities = xd_capabilities R,
       rail_quote = xendit_quote now R,
       rail_charge = xendit_charge J C R,
       rail_verify = xendit_verify J C R,
       rail_validate_destination = redirect_url ''xendit'',
       rail_refund = default_refund,
       rail_verify_webhook = xendit_verify_webhook J R \<rparr>"

section \<open>Facts\<close>

lemma xendit_charge_Ok:
  "xendit_charge J C R req w = (Ok r, w') \<longleftrightarrow>
     (\<exists>currency amount i. xendit_charge_guards R req = Ok (currency, amount) \<and>
        says C (xendit_request R ''POST'' ''/v2/invoices'' (JsonBody (xendit_charge_body req currency amount)))
          (xdj_invoice J) w i w' \<and>
        xi_invoice_url i \<noteq> [] \<and>
        r = pending_receipt ''xendit'' currency (pr_reference req) (xdj_proof_to_bytes J (xi_invoice_url i, xi_id i)))"
  unfolding xendit_charge_def xendit_fetch_def guarded_Ok by (auto simp: fetch_then)

lemma xendit_processor_rail: "processor_rail (xendit_payment_rail J now C R) (\<lambda>_. True)"
  by (intro processor_railI processor_coreI)
    (auto simp: xendit_payment_rail_def xendit_quote_def hosted_quote_invalid xendit_charge_def
      xendit_charge_guards_def major_charge_guards_invalid xendit_verify_def xendit_verify_webhook_def
      dest: hosted_quote_Ok split: sum.splits prod.splits if_splits)

interpretation xendit: echoing_processor "xendit_payment_rail J now C R" "\<lambda>_. True"
  for J and now :: "'w \<Rightarrow> u64" and C R
  by (intro echoing_processor.intro rail_contract.intro rail_contract_axioms.intro xendit_processor_rail
      processor_rail.axioms(1) [OF xendit_processor_rail])
    (auto simp: xendit_payment_rail_def xendit_quote_def xendit_charge_Ok dest: hosted_quote_Ok)

interpretation xendit_final: final_rail "xendit_payment_rail J now C R" "\<lambda>_. True"
  for J and now :: "'w \<Rightarrow> u64" and C R
  by (intro final_rail.intro final_rail_axioms.intro xendit.rail_contract_axioms)
    (simp add: xendit_payment_rail_def default_refund_def)

lemma invoice_to_outcome_settled:
  "invoice_to_outcome J i = Ok oc \<Longrightarrow> io_settled oc \<longleftrightarrow> xi_status i \<in> {''PAID'', ''SETTLED''}"
  by (auto simp: invoice_to_outcome_def split: if_splits)

lemma invoice_to_outcome_paid:
  "xi_status i \<in> {''PAID'', ''SETTLED''} \<Longrightarrow>
     invoice_to_outcome J i = Ok oc \<longleftrightarrow>
       xi_external_id i \<noteq> [] \<and> xi_id i \<noteq> [] \<and>
       (\<exists>amount. invoice_amount J i = Ok amount \<and> amount \<noteq> 0 \<and>
          oc = \<lparr> io_reference = xi_external_id i, io_event_id = xi_id i, io_settled = True,
                 io_amount_minor = amount, io_currency = xi_currency i \<rparr>)"
  by (auto simp: invoice_to_outcome_def)

lemma xendit_settles_iff:
  "xendit_settles J reference is r \<longleftrightarrow>
     (\<exists>i rest amount. is = i # rest \<and> xi_external_id i = reference \<and> reference \<noteq> [] \<and> xi_id i \<noteq> [] \<and>
        xi_status i \<in> {''PAID'', ''SETTLED''} \<and> invoice_amount J i = Ok amount \<and> amount \<noteq> 0 \<and>
        eq_ignore_ascii_case (xi_currency i) (r_currency r) \<and> r_amount_minor r \<le> amount)"
  by (auto simp: xendit_settles_def covers_iff invoice_to_outcome_def split: list.splits sum.splits if_splits)

lemma safe_query_value_Ok_iff:
  "safe_query_value s = Ok t \<longleftrightarrow>
     t = s \<and> s \<noteq> [] \<and> list_all (\<lambda>c. code c < 128 \<and> c \<notin> set ''/?#&= '' \<and> code c \<noteq> 9 \<and> code c \<noteq> 10 \<and> code c \<noteq> 13) s"
  by (auto simp: safe_query_value_def list_all_iff list_ex_iff)

lemma xendit_verify_True_iff:
  "xendit_verify J C R r w = (Ok True, w') \<longleftrightarrow>
     r_rail_id r = ''xendit'' \<and>
     (\<exists>is. safe_query_value (r_reference r) = Ok (r_reference r) \<and>
        says C (xendit_request R ''GET'' (''/v2/invoices?external_id='' @ r_reference r) NoBody) (xdj_invoices J) w is w' \<and>
        xendit_settles J (r_reference r) is r)"
  by (auto simp: xendit_verify_def xendit_fetch_def guarded_False judged_fetch safe_query_value_Ok_iff)

lemma xendit_authenticated_event:
  "xendit_verify_and_parse J token body hdr = Ok oc \<longleftrightarrow>
     trim hdr \<noteq> [] \<and> trim hdr = token \<and> length body \<le> DEFAULT_MAX_BODY_BYTES \<and>
     (\<exists>i. xdj_invoice J body = Ok i \<and> xi_status i \<in> {''PAID'', ''SETTLED''} \<and> invoice_to_outcome J i = Ok oc)"
  by (auto simp: xendit_verify_and_parse_def bounded_len_check_Ok_iff constant_time_eq_iff Let_def)

text \<open>The token says nothing about the body: whoever has it may claim any settlement.\<close>

lemma xendit_token_covers_no_body:
  "trim hdr = token \<Longrightarrow> token \<noteq> [] \<Longrightarrow> length body \<le> DEFAULT_MAX_BODY_BYTES \<Longrightarrow>
     xdj_invoice J body = Ok i \<Longrightarrow> xi_status i = ''PAID'' \<Longrightarrow> invoice_to_outcome J i = Ok oc \<Longrightarrow>
     xendit_verify_and_parse J token body hdr = Ok oc"
  by (simp add: xendit_authenticated_event)

text \<open>
  The amount of a settled invoice is its face value whatever was paid: only the status \<open>PAID\<close> looks at
  the paid amount.
\<close>

lemma xendit_settled_ignores_paid_amount:
  "xi_status i = ''SETTLED'' \<Longrightarrow> invoice_amount J (i\<lparr> xi_paid_amount := v \<rparr>) = invoice_amount J i"
  by (simp add: invoice_amount_def invoice_amount_field_def cong: if_cong option.case_cong)

lemma xendit_settled_outcome_ignores_paid_amount:
  "xi_status i = ''SETTLED'' \<Longrightarrow> invoice_to_outcome J (i\<lparr> xi_paid_amount := v \<rparr>) = invoice_to_outcome J i"
  by (simp add: invoice_to_outcome_def xendit_settled_ignores_paid_amount cong: if_cong)

end
