(* ===== verification/Fiat_Yoco.thy ===== *)
theory Fiat_Yoco
  imports Fiat_Adapter
begin

text \<open>
  \<open>patala-fiat/src/yoco\<close>: a hosted checkout in rand, and a webhook signed over id, timestamp and body
  whose header may list several signatures. The structures \<open>serde\<close> reads and writes go through \<open>J\<close>;
  \<open>B\<close> decodes base64, saying why when it cannot.
\<close>

section \<open>Configuration\<close>

record yoco_config =
  yc_secret_key :: string
  yc_webhook_secret :: string
  yc_requires_kyc :: bool
  yc_settlement_days :: u8
  yc_timeout_secs :: u64

definition yoco_config_from_env :: "environment \<Rightarrow> yoco_config result" where
  "yoco_config_from_env env =
     rbind (non_empty_env env ''YOCO_SECRET_KEY'') (\<lambda>secret_key.
     rbind (non_empty_env env ''YOCO_WEBHOOK_SECRET'') (\<lambda>webhook_secret.
       Ok \<lparr> yc_secret_key = secret_key, yc_webhook_secret = webhook_secret,
            yc_requires_kyc = env_flag env ''YOCO_REQUIRES_KYC'' True,
            yc_settlement_days = env_u8 env ''YOCO_SETTLEMENT_DAYS'' 2,
            yc_timeout_secs = env_u64 env ''YOCO_TIMEOUT_SECS'' 15 \<rparr>))"

section \<open>Checkouts\<close>

record yoco_checkout =
  yk_id :: string
  yk_status :: string
  yk_amount :: u64
  yk_currency :: string

record checkout_outcome =
  ko_event_id :: string
  ko_settled :: bool
  ko_amount_minor :: u64
  ko_currency :: string

definition yoco_malformed :: "string \<Rightarrow> error" where
  "yoco_malformed detail = malformed_response ''yoco'' detail"

definition yoco_unsupported_currency :: "string \<Rightarrow> error" where
  "yoco_unsupported_currency got = InvalidRequest (''yoco: only ZAR is supported, got '' @ debug_str got)"

definition evaluate_checkout :: "yoco_checkout \<Rightarrow> checkout_outcome result" where
  "evaluate_checkout c =
     (if yk_id c = [] then Err (yoco_malformed ''missing id'')
      else if to_ascii_lowercase (yk_status c) \<in> {''completed'', ''succeeded''} then
        if yk_amount c = 0 then Err (yoco_malformed ''completed status with non-positive amount'')
        else Ok \<lparr> ko_event_id = yk_id c, ko_settled = True, ko_amount_minor = yk_amount c, ko_currency = yk_currency c \<rparr>
      else Ok \<lparr> ko_event_id = yk_id c, ko_settled = False, ko_amount_minor = 0, ko_currency = yk_currency c \<rparr>)"

section \<open>The codec\<close>

record yoco_codec =
  ycj_error_message :: "bytes \<Rightarrow> string option"
  ycj_created :: "bytes \<Rightarrow> string + string \<times> string" \<comment> \<open>id and redirect url\<close>
  ycj_checkout :: "bytes \<Rightarrow> string + yoco_checkout"
  ycj_event :: "bytes \<Rightarrow> string + string \<times> yoco_checkout"
  ycj_proof_to_bytes :: "string \<Rightarrow> string option \<Rightarrow> bytes"
  ycj_proof_from_bytes :: "bytes \<Rightarrow> string option" \<comment> \<open>the checkout id\<close>

definition yoco_classify_error :: "yoco_codec \<Rightarrow> nat \<Rightarrow> bytes \<Rightarrow> error" where
  "yoco_classify_error J status body = unexpected_status ''yoco'' (ycj_error_message J body) status"

section \<open>Webhook\<close>

text \<open>\<open>split_whitespace\<close>: the runs of characters between whitespace.\<close>

function split_ws :: "string \<Rightarrow> string \<Rightarrow> string list" where
  "split_ws acc [] = (if acc = [] then [] else [rev acc])"
| "split_ws acc (c # s) =
     (let n = ws_head (c # s) in
      if n = 0 then split_ws (c # acc) s
      else (if acc = [] then [] else [rev acc]) @ split_ws [] (drop n (c # s)))"
  by pat_completeness auto
termination
  by (relation "measure (\<lambda>(acc, s). length s)") auto

definition split_whitespace :: "string \<Rightarrow> string list" where
  "split_whitespace s = split_ws [] s"

datatype yoco_webhook_error =
    YcMissingSignature | YcInvalidSignature | YcStaleTimestamp | YcMalformedResponse string | YcUnhandledEvent string

fun yoco_webhook_error_display :: "yoco_webhook_error \<Rightarrow> string" where
  "yoco_webhook_error_display YcMissingSignature =
     ''payments: yoco: missing webhook-id/webhook-timestamp/webhook-signature headers''"
| "yoco_webhook_error_display YcInvalidSignature = ''payments: yoco: invalid webhook signature''"
| "yoco_webhook_error_display YcStaleTimestamp = ''payments: yoco: webhook timestamp outside tolerance window''"
| "yoco_webhook_error_display (YcMalformedResponse m) = ''payments: yoco: malformed API response: '' @ m"
| "yoco_webhook_error_display (YcUnhandledEvent t) = ''payments: unhandled webhook event type: '' @ t"

definition YOCO_TOLERANCE_SECS :: nat where "YOCO_TOLERANCE_SECS = 5 * 60"

text \<open>The loop over the entries of the header: the first \<open>v1\<close> entry that matches ends it.\<close>

fun any_valid_entry :: "mac_lib \<Rightarrow> bytes \<Rightarrow> string list \<Rightarrow> bool" where
  "any_valid_entry H expected [] = False"
| "any_valid_entry H expected (entry # entries) =
     (case split_once (CHR '','') entry of
        None \<Rightarrow> any_valid_entry H expected entries
      | Some (version, sig_b64) \<Rightarrow>
          if version \<noteq> ''v1'' then any_valid_entry H expected entries
          else case mac_base64_decode H sig_b64 of
            None \<Rightarrow> any_valid_entry H expected entries
          | Some given \<Rightarrow> if constant_time_eq expected given then True else any_valid_entry H expected entries)"

definition yoco_signed :: "string \<Rightarrow> string \<Rightarrow> bytes \<Rightarrow> bytes" where
  "yoco_signed wid timestamp body = as_bytes wid @ as_bytes ''.'' @ as_bytes timestamp @ as_bytes ''.'' @ body"

definition yoco_authenticate ::
    "mac_lib \<Rightarrow> bytes \<Rightarrow> bytes \<Rightarrow> string \<Rightarrow> string \<Rightarrow> string \<Rightarrow> u64 \<Rightarrow> yoco_webhook_error + unit" where
  "yoco_authenticate H secret body id_header timestamp_header signature_header now =
     (let wid = trim id_header; timestamp = trim timestamp_header; sig_header = trim signature_header in
      if wid = [] \<or> timestamp = [] \<or> sig_header = [] then Err YcMissingSignature
      else
        rbind (ok_or YcInvalidSignature (parse_i64 timestamp)) (\<lambda>ts.
        if YOCO_TOLERANCE_SECS < age_abs now ts then Err YcStaleTimestamp
        else if \<not> any_valid_entry H (hmac_sha256 H secret (yoco_signed wid timestamp body)) (split_whitespace sig_header)
        then Err YcInvalidSignature
        else Ok ()))"

definition yoco_parse_event ::
    "yoco_codec \<Rightarrow> bytes \<Rightarrow> yoco_webhook_error + string \<times> checkout_outcome" where
  "yoco_parse_event J body =
     rbind (map_err YcMalformedResponse (ycj_event J body)) (\<lambda>(event_type, payload).
     if event_type \<noteq> ''payment.succeeded'' then Err (YcUnhandledEvent event_type)
     else
       rbind (map_err (\<lambda>e. YcMalformedResponse (error_display e)) (evaluate_checkout payload)) (\<lambda>out.
         Ok (yk_id payload, out)))"

definition yoco_verify_and_parse ::
    "mac_lib \<Rightarrow> yoco_codec \<Rightarrow> bytes \<Rightarrow> bytes \<Rightarrow> string \<Rightarrow> string \<Rightarrow> string \<Rightarrow> u64 \<Rightarrow>
     yoco_webhook_error + string \<times> checkout_outcome" where
  "yoco_verify_and_parse H J secret body id_header timestamp_header signature_header now =
     rbind (yoco_authenticate H secret body id_header timestamp_header signature_header now) (\<lambda>_.
       yoco_parse_event J body)"

section \<open>The rail\<close>

definition YOCO_API_BASE :: string where "YOCO_API_BASE = ''https://payments.yoco.com/api''"

record yoco_rail =
  yc_config :: yoco_config
  yc_secret :: bytes
  yc_capabilities :: rail_capabilities
  yc_base_url :: string

definition strip_whsec :: "string \<Rightarrow> string" where
  "strip_whsec s = (case strip_prefix ''whsec_'' s of Some t \<Rightarrow> t | None \<Rightarrow> s)"

definition decode_webhook_secret :: "(string \<Rightarrow> string + bytes) \<Rightarrow> string \<Rightarrow> bytes result" where
  "decode_webhook_secret B whsec =
     rbind (map_err (\<lambda>e. InvalidRequest (''yoco: webhook_secret not valid base64 after whsec_ prefix: '' @ e))
       (B (strip_whsec whsec))) (\<lambda>decoded.
     if decoded = [] then
       Err (InvalidRequest (''yoco: webhook_secret decodes to zero bytes; an empty HMAC key verifies signatures '' @
         ''anyone can compute''))
     else Ok decoded)"

definition yoco_new ::
    "(string \<Rightarrow> string + bytes) \<Rightarrow> (u64 \<Rightarrow> string + unit) \<Rightarrow> yoco_config \<Rightarrow> yoco_rail result" where
  "yoco_new B client config =
     rbind (require_non_empty ''secret_key'' (yc_secret_key config)) (\<lambda>_.
     rbind (require_non_empty ''webhook_secret'' (yc_webhook_secret config)) (\<lambda>_.
     rbind (decode_webhook_secret B (yc_webhook_secret config)) (\<lambda>secret.
     rbind (build_client ''yoco'' client (yc_timeout_secs config)) (\<lambda>_.
       Ok \<lparr> yc_config = config, yc_secret = secret,
            yc_capabilities = custodial_caps True (yc_requires_kyc config) [''ZAR''] (Days (yc_settlement_days config)),
            yc_base_url = YOCO_API_BASE \<rparr>))))"

definition yoco_request :: "yoco_rail \<Rightarrow> string \<Rightarrow> string \<Rightarrow> http_body \<Rightarrow> http_request" where
  "yoco_request R meth path body =
     \<lparr> hq_method = meth, hq_url = yc_base_url R @ path, hq_auth = NoAuth,
       hq_headers = [(''Authorization'', ''Bearer '' @ yc_secret_key (yc_config R)),
         (''Content-Type'', ''application/json'')],
       hq_body = body \<rparr>"

definition yoco_fetch ::
    "yoco_codec \<Rightarrow> (bytes \<Rightarrow> string + 'a) \<Rightarrow> 'w http_client \<Rightarrow> yoco_rail \<Rightarrow> string \<Rightarrow> string \<Rightarrow>
     http_body \<Rightarrow> 'w \<Rightarrow> 'a result \<times> 'w" where
  "yoco_fetch J parse C R meth path body w =
     fetch ''yoco'' path (yoco_classify_error J) yoco_malformed parse C (yoco_request R meth path body) w"

definition yoco_guards :: "pay_request \<Rightarrow> unit result" where
  "yoco_guards req =
     rbind (pay_request_validate req) (\<lambda>_.
     if \<not> eq_ignore_ascii_case (pr_currency req) ''ZAR'' then Err (yoco_unsupported_currency (pr_currency req))
     else Ok ())"

definition yoco_quote :: "('w \<Rightarrow> u64) \<Rightarrow> yoco_rail \<Rightarrow> pay_request \<Rightarrow> 'w \<Rightarrow> quote result \<times> 'w" where
  "yoco_quote now R req w =
     (rbind (yoco_guards req) (\<lambda>_.
        Ok (fiat_quote ''yoco'' (caps_settlement (yc_capabilities R)) (now w) (pr_amount_minor req) ''ZAR'')), w)"

definition yoco_charge_body :: "pay_request \<Rightarrow> json" where
  "yoco_charge_body req =
     (let callback = JString (trim (pr_destination req)) in
      JObject [(''amount'', JNumber (PosInt (pr_amount_minor req))), (''currency'', JString ''ZAR''),
        (''metadata'', JObject [(''reference'', JString (pr_reference req))]),
        (''successUrl'', callback), (''cancelUrl'', callback), (''failureUrl'', callback)])"

definition yoco_charge ::
    "yoco_codec \<Rightarrow> 'w http_client \<Rightarrow> yoco_rail \<Rightarrow> pay_request \<Rightarrow> 'w \<Rightarrow> receipt result \<times> 'w" where
  "yoco_charge J C R req w =
     (case yoco_guards req of
        Err e \<Rightarrow> (Err e, w)
      | Ok _ \<Rightarrow>
          (case yoco_fetch J (ycj_created J) C R ''POST'' ''/checkouts'' (JsonBody (yoco_charge_body req)) w of
             (Err e, w') \<Rightarrow> (Err e, w')
           | (Ok (cid, url), w') \<Rightarrow>
               if cid = [] \<or> url = [] then (Err (yoco_malformed ''empty id or redirectUrl''), w')
               else (Ok (pending_receipt ''yoco'' ''ZAR'' (pr_reference req) (ycj_proof_to_bytes J cid (Some url))), w')))"

definition yoco_checkout_id :: "yoco_codec \<Rightarrow> receipt \<Rightarrow> string option" where
  "yoco_checkout_id J r =
     Option.bind (ycj_proof_from_bytes J (r_proof r)) (\<lambda>cid.
       case safe_path_segment ''yoco checkout id'' cid of Ok s \<Rightarrow> Some s | Err _ \<Rightarrow> None)"

definition yoco_settles :: "string \<Rightarrow> yoco_checkout \<Rightarrow> receipt \<Rightarrow> bool" where
  "yoco_settles cid parsed r =
     (if yk_id parsed \<noteq> [] \<and> yk_id parsed \<noteq> cid then False
      else case evaluate_checkout parsed of
        Err _ \<Rightarrow> False
      | Ok out \<Rightarrow> covers (ko_settled out) (ko_currency out) (ko_amount_minor out) r)"

definition yoco_verify ::
    "yoco_codec \<Rightarrow> 'w http_client \<Rightarrow> yoco_rail \<Rightarrow> receipt \<Rightarrow> 'w \<Rightarrow> bool result \<times> 'w" where
  "yoco_verify J C R r w =
     (if r_rail_id r \<noteq> ''yoco'' then (Ok False, w)
      else case yoco_checkout_id J r of
        None \<Rightarrow> (Ok False, w)
      | Some cid \<Rightarrow>
          (case yoco_fetch J (ycj_checkout J) C R ''GET'' (''/checkouts/'' @ cid) NoBody w of
             (Err e, w') \<Rightarrow> (Err e, w')
           | (Ok parsed, w') \<Rightarrow> (Ok (yoco_settles cid parsed r), w')))"

definition yoco_verify_webhook ::
    "mac_lib \<Rightarrow> yoco_codec \<Rightarrow> yoco_rail \<Rightarrow> webhook_delivery \<Rightarrow> 'w \<Rightarrow> webhook_event result \<times> 'w" where
  "yoco_verify_webhook H J R d w =
     (rbind (map_err (\<lambda>e. InvalidRequest (yoco_webhook_error_display e))
        (yoco_verify_and_parse H J (yc_secret R) (raw_body d) (header_or_empty d ''webhook-id'')
          (header_or_empty d ''webhook-timestamp'') (header_or_empty d ''webhook-signature'') (now_unix d)))
        (\<lambda>(cid, ev).
          Ok (with_object_id
            (settlement_event ''yoco'' (ko_event_id ev) [] (ko_settled ev) (ko_amount_minor ev) (ko_currency ev)) cid)), w)"

definition yoco_payment_rail ::
    "mac_lib \<Rightarrow> yoco_codec \<Rightarrow> ('w \<Rightarrow> u64) \<Rightarrow> 'w http_client \<Rightarrow> yoco_rail \<Rightarrow> 'w payment_rail" where
  "yoco_payment_rail H J now C R =
     \<lparr> rail_id = ''yoco'',
       capabilities = yc_capabilities R,
       rail_quote = yoco_quote now R,
       rail_charge = yoco_charge J C R,
       rail_verify = yoco_verify J C R,
       rail_validate_destination = redirect_url ''yoco'',
       rail_refund = default_refund,
       rail_verify_webhook = yoco_verify_webhook H J R \<rparr>"

section \<open>Facts\<close>

interpretation yoco: processor_rail "yoco_payment_rail H J now C R" "\<lambda>_. True"
  for H J and now :: "'w \<Rightarrow> u64" and C R
  by (intro processor_railI processor_coreI)
    (auto simp: yoco_payment_rail_def yoco_quote_def yoco_charge_def yoco_guards_def
      yoco_verify_def yoco_verify_webhook_def Let_def split: sum.splits prod.splits if_splits)

lemma v1_entry: "entry = ''v1,'' @ sig \<longleftrightarrow> split_once (CHR '','') entry = Some (''v1'', sig)"
  by (simp add: split_once_Some_iff)

lemma any_valid_entry_step:
  "any_valid_entry H expected (entry # entries) \<longleftrightarrow>
     (\<exists>sig. entry = ''v1,'' @ sig \<and> mac_base64_decode H sig = Some expected) \<or> any_valid_entry H expected entries"
  unfolding v1_entry by (auto simp: constant_time_eq_iff split: option.splits)

lemma any_valid_entry_iff:
  "any_valid_entry H expected entries \<longleftrightarrow>
     (\<exists>sig. ''v1,'' @ sig \<in> set entries \<and> mac_base64_decode H sig = Some expected)"
proof (induction entries)
  case (Cons entry entries)
  then show ?case unfolding any_valid_entry_step by auto
qed simp

lemma yoco_checkout_id_Some_iff:
  "yoco_checkout_id J r = Some cid \<longleftrightarrow>
     (\<exists>p. ycj_proof_from_bytes J (r_proof r) = Some p \<and> safe_path_segment ''yoco checkout id'' p = Ok cid)"
proof (cases "ycj_proof_from_bytes J (r_proof r)")
  case (Some p)
  then show ?thesis
    by (cases "safe_path_segment ''yoco checkout id'' p") (auto simp: yoco_checkout_id_def)
qed (simp add: yoco_checkout_id_def)

text \<open>A rail that could be built never checks a signature under an empty key.\<close>

lemma yoco_secret_nonempty: "yoco_new B client config = Ok R \<Longrightarrow> yc_secret R \<noteq> []"
  by (auto simp: yoco_new_def decode_webhook_secret_def split: if_splits)

lemma yoco_verify_True_iff:
  "yoco_verify J C R r w = (Ok True, w') \<longleftrightarrow>
     r_rail_id r = ''yoco'' \<and>
     (\<exists>p cid c. ycj_proof_from_bytes J (r_proof r) = Some p \<and> safe_path_segment ''yoco checkout id'' p = Ok cid \<and>
        says C (yoco_request R ''GET'' (''/checkouts/'' @ cid) NoBody) (ycj_checkout J) w c w' \<and>
        yk_id c = cid \<and> to_ascii_lowercase (yk_status c) \<in> {''completed'', ''succeeded''} \<and> yk_amount c \<noteq> 0 \<and>
        eq_ignore_ascii_case (yk_currency c) (r_currency r) \<and> r_amount_minor r \<le> yk_amount c)"
proof -
  have "yoco_settles cid c r \<longleftrightarrow>
      yk_id c = cid \<and> to_ascii_lowercase (yk_status c) \<in> {''completed'', ''succeeded''} \<and> yk_amount c \<noteq> 0 \<and>
        eq_ignore_ascii_case (yk_currency c) (r_currency r) \<and> r_amount_minor r \<le> yk_amount c"
    if "cid \<noteq> []" for cid c
    using that by (auto simp: yoco_settles_def evaluate_checkout_def covers_iff)
  then show ?thesis
    by (auto simp: yoco_verify_def yoco_fetch_def guarded_False judged_fetch yoco_checkout_id_Some_iff
        safe_path_segment_Ok_iff)
qed

section \<open>Properties\<close>

text \<open>
  A Yoco delivery becomes an event exactly when its id, timestamp and signature headers are all
  there, the timestamp is a number at most 300 seconds from now on either side, one of the \<open>v1\<close> entries
  of the signature header decodes to the HMAC of id, dot, timestamp, dot and raw body under the rail's
  secret, and the body is a succeeded payment. A forged entry cannot hide a valid one that follows it.
\<close>

theorem yoco_webhook_authentic:
  "yoco_verify_webhook H J R d w = (Ok ev, w') \<longleftrightarrow>
     (\<exists>wid ts sigs t sig cid out.
        wid = trim (header_or_empty d ''webhook-id'') \<and> ts = trim (header_or_empty d ''webhook-timestamp'') \<and>
        sigs = trim (header_or_empty d ''webhook-signature'') \<and> wid \<noteq> [] \<and> ts \<noteq> [] \<and> sigs \<noteq> [] \<and>
        parse_i64 ts = Some t \<and> nat \<bar>sint (now_unix d - t)\<bar> \<le> 300 \<and>
        ''v1,'' @ sig \<in> set (split_whitespace sigs) \<and>
        mac_base64_decode H sig =
          Some (hmac_sha256 H (yc_secret R)
            (as_bytes wid @ as_bytes ''.'' @ as_bytes ts @ as_bytes ''.'' @ raw_body d)) \<and>
        yoco_parse_event J (raw_body d) = Ok (cid, out) \<and>
        ev = with_object_id
          (settlement_event ''yoco'' (ko_event_id out) [] (ko_settled out) (ko_amount_minor out) (ko_currency out)) cid) \<and>
     w' = w"
proof -
  have auth: "yoco_authenticate H secret body a b c now = Ok u \<longleftrightarrow>
      trim a \<noteq> [] \<and> trim b \<noteq> [] \<and> trim c \<noteq> [] \<and>
      (\<exists>t. parse_i64 (trim b) = Some t \<and> age_abs now t \<le> 300) \<and>
      any_valid_entry H (hmac_sha256 H secret (yoco_signed (trim a) (trim b) body)) (split_whitespace (trim c))"
    for secret body a b c now u
    by (auto simp: yoco_authenticate_def Let_def YOCO_TOLERANCE_SECS_def not_less)
  show ?thesis
    unfolding yoco_verify_webhook_def yoco_verify_and_parse_def
    by (simp add: auth any_valid_entry_iff yoco_signed_def age_abs_def split_paired_Ex) blast
qed

end
