(* ===== verification/Uniffi_Fiat.thy ===== *)
theory Uniffi_Fiat
  imports Uniffi Fiat_Manual Fiat_Stripe Fiat_Paystack Fiat_Adyen Fiat_Btcpay Fiat_Checkoutcom Fiat_Coinbase
    Fiat_Flutterwave Fiat_Iyzico Fiat_Lnbits Fiat_Mercadopago Fiat_Midtrans Fiat_Mollie Fiat_Opennode
    Fiat_Payfast Fiat_Paypal Fiat_Payu Fiat_Razorpay Fiat_Square Fiat_Xendit Fiat_Yoco
    "HOL-Library.List_Lexorder" "HOL-Library.Char_ord"
begin

text \<open>
  \<open>patala-uniffi/src/fiat.rs\<close>: a fiat rail by the name of its provider and a map of strings. \<open>F\<close> says which
  Cargo features are compiled in, and a record holds what the adapters take as parameters. All rails live
  over the world of the manual rail, whose records are those of the one manual rail in it.
\<close>

type_synonym fiat_config = "string \<rightharpoonup> string"

record fiat_libs =
  fl_client :: "u64 \<Rightarrow> string + unit"
  fl_http :: "world http_client"
  fl_mac :: mac_lib
  fl_hex_decode :: "string \<Rightarrow> string + bytes"
  fl_b64_decode :: "string \<Rightarrow> string + bytes"
  fl_sha512 :: "bytes \<Rightarrow> string"
  fl_md5 :: "bytes \<Rightarrow> bytes"
  fl_manual :: "string \<Rightarrow> bytes"
  fl_payfast :: "string \<Rightarrow> string \<Rightarrow> bytes"
  fl_iyzico_lib :: "world iyzico_lib"
  fl_aborted :: error
  fl_stripe :: stripe_codec
  fl_paystack :: paystack_codec
  fl_adyen :: adyen_codec
  fl_btcpay :: btcpay_codec
  fl_checkoutcom :: checkoutcom_codec
  fl_coinbasecommerce :: coinbase_codec
  fl_flutterwave :: flutterwave_codec
  fl_iyzico :: iyzico_codec
  fl_lnbits :: lnbits_codec
  fl_mercadopago :: mercadopago_codec
  fl_midtrans :: midtrans_codec
  fl_mollie :: mollie_codec
  fl_opennode :: opennode_codec
  fl_paypal :: paypal_codec
  fl_payu :: payu_codec
  fl_razorpay :: razorpay_codec
  fl_square :: square_codec
  fl_xendit :: xendit_codec
  fl_yoco :: yoco_codec

definition not_compiled_in :: "string \<Rightarrow> string \<Rightarrow> patala_error" where
  "not_compiled_in provider feature =
     PInvalidRequest (''patala-uniffi was built without --features '' @ feature @ ''; the '' @ debug_str provider @
       '' fiat rail is not available in this build'')"

section \<open>Reading the map\<close>

definition get_string :: "fiat_config \<Rightarrow> string \<Rightarrow> string" where
  "get_string config key = (case config key of Some s \<Rightarrow> s | None \<Rightarrow> [])"

definition get_optional_string :: "fiat_config \<Rightarrow> string \<Rightarrow> string option" where
  "get_optional_string config key =
     (case config key of Some s \<Rightarrow> (if trim s = [] then None else Some (trim s)) | None \<Rightarrow> None)"

definition get_string_or :: "fiat_config \<Rightarrow> string \<Rightarrow> string \<Rightarrow> string" where
  "get_string_or config key dflt =
     (case config key of Some s \<Rightarrow> (if trim s = [] then dflt else trim s) | None \<Rightarrow> dflt)"

definition get_bool :: "fiat_config \<Rightarrow> string \<Rightarrow> bool \<Rightarrow> bool" where
  "get_bool config key dflt = (case config key of Some s \<Rightarrow> eq_ignore_ascii_case s ''true'' | None \<Rightarrow> dflt)"

definition get_currencies :: "fiat_config \<Rightarrow> string \<Rightarrow> string list \<Rightarrow> string list" where
  "get_currencies config key dflt =
     (case config key of
        Some s \<Rightarrow>
          (if blank s then dflt
           else filter (\<lambda>c. c \<noteq> []) (map (\<lambda>c. to_ascii_uppercase (trim c)) (split_on (\<lambda>c. c = CHR '','') s)))
      | None \<Rightarrow> dflt)"

definition get_u8 :: "fiat_config \<Rightarrow> string \<Rightarrow> u8 \<Rightarrow> string \<Rightarrow> patala_error + u8" where
  "get_u8 config key dflt provider =
     (case config key of
        None \<Rightarrow> Ok dflt
      | Some s \<Rightarrow>
          (if blank s then Ok dflt
           else ok_or (PInvalidRequest (provider @ '': '' @ debug_str key @ '' must be an integer between 0 and 255''))
             (parse_u8 (trim s))))"

definition get_optional_u32 :: "fiat_config \<Rightarrow> string \<Rightarrow> string \<Rightarrow> patala_error + u32 option" where
  "get_optional_u32 config key provider =
     (case config key of
        None \<Rightarrow> Ok None
      | Some s \<Rightarrow>
          (if blank s then Ok None
           else rbind (ok_or (PInvalidRequest (provider @ '': '' @ debug_str key @ '' must be a non-negative integer''))
             (parse_u32 (trim s))) (\<lambda>n. Ok (Some n))))"

definition get_u64 :: "fiat_config \<Rightarrow> string \<Rightarrow> u64 \<Rightarrow> string \<Rightarrow> patala_error + u64" where
  "get_u64 config key dflt provider =
     (case config key of
        None \<Rightarrow> Ok dflt
      | Some s \<Rightarrow>
          (if blank s then Ok dflt
           else ok_or (PInvalidRequest (provider @ '': '' @ debug_str key @ '' must be a non-negative integer''))
             (parse_u64 (trim s))))"

section \<open>The builders\<close>

type_synonym fiat_build = "patala_error + world payment_rail"

definition built :: "'a result \<Rightarrow> ('a \<Rightarrow> world payment_rail) \<Rightarrow> fiat_build" where
  "built new rail = rbind (map_err patala_error_from new) (\<lambda>R. Ok (rail R))"

definition build_manual :: "fiat_libs \<Rightarrow> fiat_build" where
  "build_manual L = Ok (manual_payment_rail (manual_new (fl_manual L) None))"

definition build_stripe :: "(string \<Rightarrow> bool) \<Rightarrow> fiat_libs \<Rightarrow> fiat_config \<Rightarrow> fiat_build" where
  "build_stripe F L config =
     (if F ''fiat-stripe'' then
       rbind (get_u8 config ''settlement_days'' 2 ''stripe'') (\<lambda>days.
       rbind (get_u64 config ''timeout_secs'' 15 ''stripe'') (\<lambda>secs.
         built (stripe_new (fl_client L)
           \<lparr> st_secret_key = get_string config ''secret_key'',
              st_webhook_secret = get_string config ''webhook_secret'',
              st_requires_kyc = get_bool config ''requires_kyc'' True,
              st_currencies = get_currencies config ''currencies'' [], st_settlement_days = days,
              st_timeout_secs = secs \<rparr>)
           (stripe_payment_rail (fl_mac L) (fl_stripe L) w_now (fl_http L))))
      else Err (not_compiled_in ''stripe'' ''fiat-stripe''))"

definition build_paystack :: "(string \<Rightarrow> bool) \<Rightarrow> fiat_libs \<Rightarrow> fiat_config \<Rightarrow> fiat_build" where
  "build_paystack F L config =
     (if F ''fiat-paystack'' then
       rbind (get_u8 config ''settlement_days'' 2 ''paystack'') (\<lambda>days.
       rbind (get_u64 config ''timeout_secs'' 15 ''paystack'') (\<lambda>secs.
         built (paystack_new (fl_client L)
           \<lparr> ps_secret_key = get_string config ''secret_key'',
              ps_requires_kyc = get_bool config ''requires_kyc'' True,
              ps_currencies = get_currencies config ''currencies'' PAYSTACK_CURRENCIES,
              ps_settlement_days = days, ps_timeout_secs = secs \<rparr>)
           (paystack_payment_rail (fl_mac L) (fl_paystack L) w_now (fl_http L))))
      else Err (not_compiled_in ''paystack'' ''fiat-paystack''))"

definition build_adyen :: "(string \<Rightarrow> bool) \<Rightarrow> fiat_libs \<Rightarrow> fiat_config \<Rightarrow> fiat_build" where
  "build_adyen F L config =
     (if F ''fiat-adyen'' then
       rbind (get_u8 config ''settlement_days'' 2 ''adyen'') (\<lambda>days.
       rbind (get_u64 config ''timeout_secs'' 15 ''adyen'') (\<lambda>secs.
         built (adyen_new (fl_hex_decode L) (fl_client L)
           \<lparr> ad_cfg_api_key = get_string config ''api_key'',
              ad_cfg_merchant_account = get_string config ''merchant_account'',
              ad_hmac_key_hex = get_string config ''hmac_key_hex'',
              ad_api_base_url = get_string config ''api_base_url'',
              ad_requires_kyc = get_bool config ''requires_kyc'' True,
              ad_currencies = get_currencies config ''currencies'' [], ad_settlement_days = days,
              ad_timeout_secs = secs \<rparr>)
           (adyen_payment_rail (fl_mac L) (fl_adyen L) w_now (fl_http L))))
      else Err (not_compiled_in ''adyen'' ''fiat-adyen''))"

definition build_btcpay :: "(string \<Rightarrow> bool) \<Rightarrow> fiat_libs \<Rightarrow> fiat_config \<Rightarrow> fiat_build" where
  "build_btcpay F L config =
     (if F ''fiat-btcpay'' then
       rbind (get_optional_u32 config ''settlement_seconds'' ''btcpay'') (\<lambda>settlement_seconds.
       rbind (get_u64 config ''timeout_secs'' 20 ''btcpay'') (\<lambda>secs.
         built (btcpay_new (fl_client L)
           \<lparr> bt_cfg_base_url = get_string config ''base_url'',
              bt_api_key = get_string config ''api_key'', bt_store_id = get_string config ''store_id'',
              bt_webhook_secret = get_string config ''webhook_secret'',
              bt_requires_kyc = get_bool config ''requires_kyc'' False,
              bt_currencies = get_currencies config ''currencies'' [],
              bt_settlement_seconds = settlement_seconds, bt_timeout_secs = secs \<rparr>)
           (btcpay_payment_rail (fl_mac L) (fl_btcpay L) w_now (fl_http L))))
      else Err (not_compiled_in ''btcpay'' ''fiat-btcpay''))"

definition build_checkoutcom :: "(string \<Rightarrow> bool) \<Rightarrow> fiat_libs \<Rightarrow> fiat_config \<Rightarrow> fiat_build" where
  "build_checkoutcom F L config =
     (if F ''fiat-checkoutcom'' then
       rbind (get_u8 config ''settlement_days'' 2 ''checkoutcom'') (\<lambda>days.
       rbind (get_u64 config ''timeout_secs'' 15 ''checkoutcom'') (\<lambda>secs.
         built (checkoutcom_new (fl_client L)
           \<lparr> ck_secret_key = get_string config ''secret_key'',
              ck_webhook_secret = get_string config ''webhook_secret'',
              ck_api_base_url = get_string config ''api_base_url'',
              ck_requires_kyc = get_bool config ''requires_kyc'' True,
              ck_currencies = get_currencies config ''currencies'' [], ck_settlement_days = days,
              ck_timeout_secs = secs \<rparr>)
           (checkoutcom_payment_rail (fl_mac L) (fl_checkoutcom L) w_now (fl_http L))))
      else Err (not_compiled_in ''checkoutcom'' ''fiat-checkoutcom''))"

definition build_coinbasecommerce :: "(string \<Rightarrow> bool) \<Rightarrow> fiat_libs \<Rightarrow> fiat_config \<Rightarrow> fiat_build" where
  "build_coinbasecommerce F L config =
     (if F ''fiat-coinbasecommerce'' then
       rbind (get_u64 config ''timeout_secs'' 20 ''coinbasecommerce'') (\<lambda>secs.
         built (coinbase_new (fl_client L)
           \<lparr> cc_api_key = get_string config ''api_key'',
              cc_webhook_secret = get_string config ''webhook_secret'',
              cc_cfg_base_url = get_string_or config ''base_url'' COINBASE_BASE_URL,
              cc_requires_kyc = get_bool config ''requires_kyc'' False,
              cc_currencies = get_currencies config ''currencies'' [], cc_timeout_secs = secs \<rparr>)
           (coinbase_payment_rail (fl_mac L) (fl_coinbasecommerce L) w_now (fl_http L)))
      else Err (not_compiled_in ''coinbasecommerce'' ''fiat-coinbasecommerce''))"

definition build_flutterwave :: "(string \<Rightarrow> bool) \<Rightarrow> fiat_libs \<Rightarrow> fiat_config \<Rightarrow> fiat_build" where
  "build_flutterwave F L config =
     (if F ''fiat-flutterwave'' then
       rbind (get_u8 config ''settlement_days'' 2 ''flutterwave'') (\<lambda>days.
       rbind (get_u64 config ''timeout_secs'' 15 ''flutterwave'') (\<lambda>secs.
         built (flutterwave_new (fl_client L)
           \<lparr> fw_secret_key = get_string config ''secret_key'',
              fw_webhook_hash = get_string config ''webhook_hash'',
              fw_requires_kyc = get_bool config ''requires_kyc'' True,
              fw_currencies = get_currencies config ''currencies'' FLUTTERWAVE_CURRENCIES,
              fw_settlement_days = days, fw_timeout_secs = secs \<rparr>)
           (flutterwave_payment_rail (fl_flutterwave L) w_now (fl_http L))))
      else Err (not_compiled_in ''flutterwave'' ''fiat-flutterwave''))"

definition build_iyzico :: "(string \<Rightarrow> bool) \<Rightarrow> fiat_libs \<Rightarrow> fiat_config \<Rightarrow> fiat_build" where
  "build_iyzico F L config =
     (if F ''fiat-iyzico'' then
       rbind (get_u8 config ''settlement_days'' 2 ''iyzico'') (\<lambda>days.
       rbind (get_u64 config ''timeout_secs'' 15 ''iyzico'') (\<lambda>secs.
         built (iyzico_new (fl_client L)
           \<lparr> iy_api_key = get_string config ''api_key'',
              iy_secret_key = get_string config ''secret_key'',
              iy_cfg_base_url = get_string_or config ''base_url'' IYZICO_BASE_URL,
              iy_requires_kyc = get_bool config ''requires_kyc'' True,
              iy_currencies = get_currencies config ''currencies'' IYZICO_CURRENCIES,
              iy_settlement_days = days, iy_timeout_secs = secs \<rparr>)
           (iyzico_payment_rail (fl_aborted L) (fl_iyzico_lib L) (fl_iyzico L) w_now (fl_http L))))
      else Err (not_compiled_in ''iyzico'' ''fiat-iyzico''))"

definition lnbits_ttl :: "fiat_config \<Rightarrow> patala_error + u64" where
  "lnbits_ttl config =
     (case config ''quote_ttl_secs'' of
        None \<Rightarrow> Ok DEFAULT_QUOTE_TTL_SECS
      | Some s \<Rightarrow>
          (if blank s then Ok DEFAULT_QUOTE_TTL_SECS
           else ok_or (PInvalidRequest (''lnbits: '' @ debug_str ''quote_ttl_secs'' @
               '' must be a positive integer number of seconds'')) (parse_u64 (trim s))))"

definition build_lnbits :: "(string \<Rightarrow> bool) \<Rightarrow> fiat_libs \<Rightarrow> fiat_config \<Rightarrow> fiat_build" where
  "build_lnbits F L config =
     (if F ''fiat-lnbits'' then
       rbind (lnbits_ttl config) (\<lambda>ttl.
       rbind (get_u64 config ''timeout_secs'' 20 ''lnbits'') (\<lambda>secs.
         built (lnbits_new (fl_client L)
           \<lparr> ln_cfg_base_url = get_string config ''base_url'',
              ln_api_key = get_string config ''api_key'',
              ln_webhook_secret = get_string config ''webhook_secret'',
              ln_webhook_url = get_optional_string config ''webhook_url'', ln_quote_ttl_secs = ttl,
              ln_requires_kyc = get_bool config ''requires_kyc'' False,
              ln_currencies = get_currencies config ''currencies'' [], ln_timeout_secs = secs \<rparr>)
           (lnbits_payment_rail (fl_lnbits L) w_now (fl_http L))))
      else Err (not_compiled_in ''lnbits'' ''fiat-lnbits''))"

definition build_mercadopago :: "(string \<Rightarrow> bool) \<Rightarrow> fiat_libs \<Rightarrow> fiat_config \<Rightarrow> fiat_build" where
  "build_mercadopago F L config =
     (if F ''fiat-mercadopago'' then
       rbind (get_u8 config ''settlement_days'' 2 ''mercadopago'') (\<lambda>days.
       rbind (get_u64 config ''timeout_secs'' 15 ''mercadopago'') (\<lambda>secs.
         built (mercadopago_new (fl_client L)
           \<lparr> mg_access_token = get_string config ''access_token'',
              mg_webhook_secret = get_string config ''webhook_secret'',
              mg_requires_kyc = get_bool config ''requires_kyc'' True,
              mg_currencies = get_currencies config ''currencies'' MERCADOPAGO_CURRENCIES,
              mg_settlement_days = days, mg_timeout_secs = secs \<rparr>)
           (mercadopago_payment_rail (fl_mac L) (fl_mercadopago L) w_now (fl_http L))))
      else Err (not_compiled_in ''mercadopago'' ''fiat-mercadopago''))"

definition build_midtrans :: "(string \<Rightarrow> bool) \<Rightarrow> fiat_libs \<Rightarrow> fiat_config \<Rightarrow> fiat_build" where
  "build_midtrans F L config =
     (if F ''fiat-midtrans'' then
       rbind (get_u8 config ''settlement_days'' 2 ''midtrans'') (\<lambda>days.
       rbind (get_u64 config ''timeout_secs'' 15 ''midtrans'') (\<lambda>secs.
         built (midtrans_new (fl_client L)
           \<lparr> mt_server_key = get_string config ''server_key'',
              mt_requires_kyc = get_bool config ''requires_kyc'' True, mt_settlement_days = days,
              mt_timeout_secs = secs \<rparr>)
           (midtrans_payment_rail (fl_sha512 L) (fl_midtrans L) w_now (fl_http L))))
      else Err (not_compiled_in ''midtrans'' ''fiat-midtrans''))"

definition build_mollie :: "(string \<Rightarrow> bool) \<Rightarrow> fiat_libs \<Rightarrow> fiat_config \<Rightarrow> fiat_build" where
  "build_mollie F L config =
     (if F ''fiat-mollie'' then
       rbind (get_u8 config ''settlement_days'' 2 ''mollie'') (\<lambda>days.
       rbind (get_u64 config ''timeout_secs'' 15 ''mollie'') (\<lambda>secs.
         built (mollie_new (fl_client L)
           \<lparr> ml_api_key = get_string config ''api_key'',
              ml_webhook_url = get_string config ''webhook_url'',
              ml_requires_kyc = get_bool config ''requires_kyc'' True,
              ml_currencies = get_currencies config ''currencies'' [], ml_settlement_days = days,
              ml_timeout_secs = secs \<rparr>)
           (mollie_payment_rail (fl_mollie L) w_now (fl_http L))))
      else Err (not_compiled_in ''mollie'' ''fiat-mollie''))"

definition build_opennode :: "(string \<Rightarrow> bool) \<Rightarrow> fiat_libs \<Rightarrow> fiat_config \<Rightarrow> fiat_build" where
  "build_opennode F L config =
     (if F ''fiat-opennode'' then
       rbind (get_u64 config ''timeout_secs'' 20 ''opennode'') (\<lambda>secs.
         built (opennode_new (fl_client L)
           \<lparr> on_api_key = get_string config ''api_key'',
              on_cfg_base_url = get_string_or config ''base_url'' OPENNODE_BASE_URL,
              on_requires_kyc = get_bool config ''requires_kyc'' False,
              on_currencies = get_currencies config ''currencies'' [], on_timeout_secs = secs \<rparr>)
           (opennode_payment_rail (fl_mac L) (fl_opennode L) w_now (fl_http L)))
      else Err (not_compiled_in ''opennode'' ''fiat-opennode''))"

definition build_payfast :: "(string \<Rightarrow> bool) \<Rightarrow> fiat_libs \<Rightarrow> fiat_config \<Rightarrow> fiat_build" where
  "build_payfast F L config =
     (if F ''fiat-payfast'' then
       rbind (get_u8 config ''settlement_days'' 2 ''payfast'') (\<lambda>days.
       rbind (get_u64 config ''timeout_secs'' 15 ''payfast'') (\<lambda>secs.
         built (payfast_new (fl_client L)
           \<lparr> pf_merchant_id = get_string config ''merchant_id'',
              pf_merchant_key = get_string config ''merchant_key'',
              pf_passphrase = get_string config ''passphrase'',
              pf_requires_kyc = get_bool config ''requires_kyc'' True, pf_settlement_days = days,
              pf_timeout_secs = secs \<rparr>)
           (payfast_payment_rail (fl_md5 L) (fl_payfast L) w_now (fl_http L))))
      else Err (not_compiled_in ''payfast'' ''fiat-payfast''))"

definition configured_paypal_url :: "fiat_config \<Rightarrow> patala_error + string" where
  "configured_paypal_url config =
     (let env = to_ascii_lowercase (trim (get_string config ''env'')) in
      if env = ''live'' then Ok LIVE_BASE_URL
      else if env = ''sandbox'' then Ok SANDBOX_BASE_URL
      else Err (PInvalidRequest (''paypal: config key '' @ debug_str ''env'' @ '' must be exactly '' @ debug_str ''live'' @
             '' or '' @ debug_str ''sandbox'' @ '', got '' @ debug_str env)))"

definition build_paypal :: "(string \<Rightarrow> bool) \<Rightarrow> fiat_libs \<Rightarrow> fiat_config \<Rightarrow> fiat_build" where
  "build_paypal F L config =
     (if F ''fiat-paypal'' then
       rbind (configured_paypal_url config) (\<lambda>base_url.
       rbind (get_u8 config ''settlement_days'' 2 ''paypal'') (\<lambda>days.
       rbind (get_u64 config ''timeout_secs'' 15 ''paypal'') (\<lambda>secs.
         built (paypal_new (fl_client L)
           \<lparr> pp_client_id = get_string config ''client_id'',
              pp_client_secret = get_string config ''client_secret'',
              pp_webhook_id = get_string config ''webhook_id'', pp_config_base_url = base_url,
              pp_requires_kyc = get_bool config ''requires_kyc'' True,
              pp_currencies = get_currencies config ''currencies'' [], pp_settlement_days = days,
              pp_timeout_secs = secs \<rparr>)
           (paypal_payment_rail (fl_aborted L) (fl_paypal L) w_now (fl_http L)))))
      else Err (not_compiled_in ''paypal'' ''fiat-paypal''))"

definition build_payu :: "(string \<Rightarrow> bool) \<Rightarrow> fiat_libs \<Rightarrow> fiat_config \<Rightarrow> fiat_build" where
  "build_payu F L config =
     (if F ''fiat-payu'' then
       rbind (get_u8 config ''settlement_days'' 2 ''payu'') (\<lambda>days.
       rbind (get_u64 config ''timeout_secs'' 15 ''payu'') (\<lambda>secs.
         built (payu_new (fl_client L)
           \<lparr> pu_merchant_key = get_string config ''merchant_key'',
              pu_salt = get_string config ''salt'', pu_requires_kyc = get_bool config ''requires_kyc'' True,
              pu_settlement_days = days, pu_timeout_secs = secs \<rparr>)
           (payu_payment_rail (fl_sha512 L) (fl_payu L) w_now (fl_http L))))
      else Err (not_compiled_in ''payu'' ''fiat-payu''))"

definition build_razorpay :: "(string \<Rightarrow> bool) \<Rightarrow> fiat_libs \<Rightarrow> fiat_config \<Rightarrow> fiat_build" where
  "build_razorpay F L config =
     (if F ''fiat-razorpay'' then
       rbind (get_u8 config ''settlement_days'' 2 ''razorpay'') (\<lambda>days.
       rbind (get_u64 config ''timeout_secs'' 15 ''razorpay'') (\<lambda>secs.
         built (razorpay_new (fl_client L)
           \<lparr> rz_key_id = get_string config ''key_id'',
              rz_key_secret = get_string config ''key_secret'',
              rz_webhook_secret = get_string config ''webhook_secret'',
              rz_requires_kyc = get_bool config ''requires_kyc'' True, rz_settlement_days = days,
              rz_timeout_secs = secs \<rparr>)
           (razorpay_payment_rail (fl_mac L) (fl_razorpay L) w_now (fl_http L))))
      else Err (not_compiled_in ''razorpay'' ''fiat-razorpay''))"

definition build_square :: "(string \<Rightarrow> bool) \<Rightarrow> fiat_libs \<Rightarrow> fiat_config \<Rightarrow> fiat_build" where
  "build_square F L config =
     (if F ''fiat-square'' then
       rbind (get_u8 config ''settlement_days'' 2 ''square'') (\<lambda>days.
       rbind (get_u64 config ''timeout_secs'' 15 ''square'') (\<lambda>secs.
         built (square_new (fl_client L)
           \<lparr> sq_access_token = get_string config ''access_token'',
              sq_webhook_signature_key = get_string config ''webhook_signature_key'',
              sq_location_id = get_string config ''location_id'',
              sq_notification_url = get_string config ''notification_url'',
              sq_api_base_url = get_string config ''api_base_url'',
              sq_requires_kyc = get_bool config ''requires_kyc'' True,
              sq_currencies = get_currencies config ''currencies'' [], sq_settlement_days = days,
              sq_timeout_secs = secs \<rparr>)
           (square_payment_rail (fl_mac L) (fl_square L) w_now (fl_http L))))
      else Err (not_compiled_in ''square'' ''fiat-square''))"

definition build_xendit :: "(string \<Rightarrow> bool) \<Rightarrow> fiat_libs \<Rightarrow> fiat_config \<Rightarrow> fiat_build" where
  "build_xendit F L config =
     (if F ''fiat-xendit'' then
       rbind (get_u8 config ''settlement_days'' 2 ''xendit'') (\<lambda>days.
       rbind (get_u64 config ''timeout_secs'' 15 ''xendit'') (\<lambda>secs.
         built (xendit_new (fl_client L)
           \<lparr> xd_secret_key = get_string config ''secret_key'',
              xd_webhook_token = get_string config ''webhook_token'',
              xd_requires_kyc = get_bool config ''requires_kyc'' True,
              xd_currencies = get_currencies config ''currencies'' XENDIT_CURRENCIES,
              xd_settlement_days = days, xd_timeout_secs = secs \<rparr>)
           (xendit_payment_rail (fl_xendit L) w_now (fl_http L))))
      else Err (not_compiled_in ''xendit'' ''fiat-xendit''))"

definition build_yoco :: "(string \<Rightarrow> bool) \<Rightarrow> fiat_libs \<Rightarrow> fiat_config \<Rightarrow> fiat_build" where
  "build_yoco F L config =
     (if F ''fiat-yoco'' then
       rbind (get_u8 config ''settlement_days'' 2 ''yoco'') (\<lambda>days.
       rbind (get_u64 config ''timeout_secs'' 15 ''yoco'') (\<lambda>secs.
         built (yoco_new (fl_b64_decode L) (fl_client L)
           \<lparr> yc_secret_key = get_string config ''secret_key'',
              yc_webhook_secret = get_string config ''webhook_secret'',
              yc_requires_kyc = get_bool config ''requires_kyc'' True, yc_settlement_days = days,
              yc_timeout_secs = secs \<rparr>)
           (yoco_payment_rail (fl_mac L) (fl_yoco L) w_now (fl_http L))))
      else Err (not_compiled_in ''yoco'' ''fiat-yoco''))"

section \<open>By name\<close>

definition fiat_builders ::
    "(string \<Rightarrow> bool) \<Rightarrow> fiat_libs \<Rightarrow> (string \<times> (fiat_config \<Rightarrow> fiat_build)) list" where
  "fiat_builders F L =
     [(''manual'', \<lambda>config. build_manual L),
      (''stripe'', build_stripe F L),
      (''paystack'', build_paystack F L),
      (''adyen'', build_adyen F L),
      (''btcpay'', build_btcpay F L),
      (''checkoutcom'', build_checkoutcom F L),
      (''coinbasecommerce'', build_coinbasecommerce F L),
      (''flutterwave'', build_flutterwave F L),
      (''iyzico'', build_iyzico F L),
      (''lnbits'', build_lnbits F L),
      (''mercadopago'', build_mercadopago F L),
      (''midtrans'', build_midtrans F L),
      (''mollie'', build_mollie F L),
      (''opennode'', build_opennode F L),
      (''payfast'', build_payfast F L),
      (''paypal'', build_paypal F L),
      (''payu'', build_payu F L),
      (''razorpay'', build_razorpay F L),
      (''square'', build_square F L),
      (''xendit'', build_xendit F L),
      (''yoco'', build_yoco F L)]"

definition patala_new_fiat ::
    "(string \<Rightarrow> bool) \<Rightarrow> fiat_libs \<Rightarrow> string \<Rightarrow> fiat_config \<Rightarrow> patala_error + world patala_rail" where
  "patala_new_fiat F L provider config =
     (case map_of (fiat_builders F L) (to_ascii_lowercase provider) of
        Some build \<Rightarrow> rbind (build config) (\<lambda>inner. Ok \<lparr> pt_inner = inner \<rparr>)
      | None \<Rightarrow> Err (PInvalidRequest (''unknown fiat provider '' @ debug_str (to_ascii_lowercase provider) @
          ''; see patala-fiat's registry (PORTING.md) for the supported list'')))"

definition ADAPTER_NAMES :: "string list" where
  "ADAPTER_NAMES =
     [''adyen'', ''btcpay'', ''checkoutcom'', ''coinbasecommerce'', ''flutterwave'', ''iyzico'', ''lnbits'',
      ''mercadopago'', ''midtrans'', ''mollie'', ''opennode'', ''payfast'', ''paypal'', ''payu'', ''paystack'',
      ''razorpay'', ''square'', ''stripe'', ''xendit'', ''yoco'']"

definition patala_fiat_providers :: "(string \<Rightarrow> bool) \<Rightarrow> string list" where
  "patala_fiat_providers F = sort (''manual'' # filter (\<lambda>n. F (''fiat-'' @ n)) ADAPTER_NAMES)"

section \<open>Facts\<close>

text \<open>The keys without which a provider is not configured.\<close>

definition REQUIRED_KEYS :: "(string \<times> string list) list" where
  "REQUIRED_KEYS =
     [(''stripe'', [''secret_key'', ''webhook_secret'']),
      (''paystack'', [''secret_key'']),
      (''adyen'', [''api_key'', ''merchant_account'', ''hmac_key_hex'', ''api_base_url'']),
      (''btcpay'', [''base_url'', ''api_key'', ''store_id'', ''webhook_secret'']),
      (''checkoutcom'', [''secret_key'', ''webhook_secret'', ''api_base_url'']),
      (''coinbasecommerce'', [''api_key'', ''webhook_secret'']),
      (''flutterwave'', [''secret_key'', ''webhook_hash'']),
      (''iyzico'', [''api_key'', ''secret_key'']),
      (''lnbits'', [''base_url'', ''api_key'', ''webhook_secret'']),
      (''mercadopago'', [''access_token'', ''webhook_secret'']),
      (''midtrans'', [''server_key'']),
      (''mollie'', [''api_key'', ''webhook_url'']),
      (''opennode'', [''api_key'']),
      (''payfast'', [''merchant_id'', ''merchant_key'']),
      (''paypal'', [''client_id'', ''client_secret'', ''webhook_id'', ''env'']),
      (''payu'', [''merchant_key'', ''salt'']),
      (''razorpay'', [''key_id'', ''key_secret'', ''webhook_secret'']),
      (''square'', [''access_token'', ''webhook_signature_key'', ''location_id'', ''notification_url'', ''api_base_url'']),
      (''xendit'', [''secret_key'', ''webhook_token'']),
      (''yoco'', [''secret_key'', ''webhook_secret''])]"

definition required_keys :: "string \<Rightarrow> string set" where
  "required_keys n = (case map_of REQUIRED_KEYS n of Some ks \<Rightarrow> set ks | None \<Rightarrow> {})"

lemma built_Ok: "built new rail = Ok r \<longleftrightarrow> (\<exists>R. new = Ok R \<and> r = rail R)"
  by (auto simp: built_def)

definition refused :: "patala_error + 'a \<Rightarrow> bool" where
  "refused x \<longleftrightarrow> (\<exists>m. x = Err (PInvalidRequest m))"

lemma refused_not_compiled [simp]: "refused (Err (not_compiled_in p f))"
  by (simp add: refused_def not_compiled_in_def)

lemma refused_ok_or: "(\<And>v. refused (f v)) \<Longrightarrow> refused (rbind (ok_or (PInvalidRequest m) x) f)"
  by (cases x) (simp_all add: refused_def)

lemma rbind_rbind: "rbind (rbind x g) f = rbind x (\<lambda>a. rbind (g a) f)"
  by (cases x) simp_all

lemma refused_reads:
  "(\<And>v. refused (f v)) \<Longrightarrow> refused (rbind (get_u8 c k d p) f)"
  "(\<And>v. refused (g v)) \<Longrightarrow> refused (rbind (get_optional_u32 c k p) g)"
  "(\<And>v. refused (h v)) \<Longrightarrow> refused (rbind (get_u64 c k d' p) h)"
  "(\<And>v. refused (h v)) \<Longrightarrow> refused (rbind (lnbits_ttl c) h)"
  by (auto simp: get_u8_def get_optional_u32_def get_u64_def lnbits_ttl_def rbind_rbind intro!: refused_ok_or
      split: option.splits)

lemma refused_built: "new = Err (InvalidRequest m) \<Longrightarrow> refused (built new rail)"
  by (simp add: refused_def built_def)

lemma refused_configured_paypal_url:
  "(\<And>v. \<not> blank (get_string c ''env'') \<Longrightarrow> refused (f v)) \<Longrightarrow> refused (rbind (configured_paypal_url c) f)"
  by (auto simp: refused_def configured_paypal_url_def Let_def blank_def to_ascii_lowercase_def)

text \<open>What each builder gives: a rail under its own name that keeps the seam's contract, in its class.\<close>

definition NONCUSTODIAL :: "string set" where
  "NONCUSTODIAL = {''btcpay'', ''lnbits''}"

definition keeps_name :: "(string \<Rightarrow> bool) \<Rightarrow> string \<Rightarrow> world payment_rail \<Rightarrow> bool" where
  "keeps_name F n r \<longleftrightarrow>
     F (''fiat-'' @ n) \<and> rail_core r (\<lambda>_. True) \<and> rail_id r = n \<and>
     (caps_class (capabilities r) = NonCustodialFinal \<longleftrightarrow> n \<in> NONCUSTODIAL) \<and>
     (holds_funds (capabilities r) \<longleftrightarrow> n \<notin> NONCUSTODIAL)"

lemma keeps_nameI:
  "F (''fiat-'' @ n) \<Longrightarrow> rail_core r (\<lambda>_. True) \<Longrightarrow> rail_id r = n \<Longrightarrow>
     caps_class (capabilities r) = (if n \<in> NONCUSTODIAL then NonCustodialFinal else CustodialReversible) \<Longrightarrow>
     holds_funds (capabilities r) = (n \<notin> NONCUSTODIAL) \<Longrightarrow> keeps_name F n r"
  by (simp add: keeps_name_def)

lemma custodial_caps_sel [simp]:
  "caps_class (custodial_caps a b c d) = CustodialReversible" "holds_funds (custodial_caps a b c d)"
  by (simp_all add: custodial_caps_def)

lemma build_stripe_keeps: "build_stripe F L c = Ok r \<Longrightarrow> keeps_name F ''stripe'' r"
  by (auto simp: build_stripe_def built_Ok split: if_splits intro!: keeps_nameI [OF _ stripe.rail_core_axioms])
    (auto simp: stripe_payment_rail_def stripe_new_def NONCUSTODIAL_def Let_def split: if_splits)

lemma build_stripe_refused: "k \<in> required_keys ''stripe'' \<Longrightarrow> blank (get_string c k) \<Longrightarrow> refused (build_stripe F L c)"
  unfolding build_stripe_def
  by (auto simp: required_keys_def REQUIRED_KEYS_def stripe_new_def require_non_empty_def intro!: refused_reads refused_built)

lemma build_paystack_keeps: "build_paystack F L c = Ok r \<Longrightarrow> keeps_name F ''paystack'' r"
  by (auto simp: build_paystack_def built_Ok split: if_splits intro!: keeps_nameI [OF _ paystack.rail_core_axioms])
    (auto simp: paystack_payment_rail_def paystack_new_def NONCUSTODIAL_def Let_def split: if_splits)

lemma build_paystack_refused: "k \<in> required_keys ''paystack'' \<Longrightarrow> blank (get_string c k) \<Longrightarrow> refused (build_paystack F L c)"
  unfolding build_paystack_def
  by (auto simp: required_keys_def REQUIRED_KEYS_def paystack_new_def require_non_empty_def intro!: refused_reads refused_built)

lemma build_adyen_keeps: "build_adyen F L c = Ok r \<Longrightarrow> keeps_name F ''adyen'' r"
  by (auto simp: build_adyen_def built_Ok split: if_splits intro!: keeps_nameI [OF _ adyen.rail_core_axioms])
    (auto simp: adyen_payment_rail_def adyen_new_def NONCUSTODIAL_def Let_def split: if_splits)

lemma build_adyen_refused: "k \<in> required_keys ''adyen'' \<Longrightarrow> blank (get_string c k) \<Longrightarrow> refused (build_adyen F L c)"
  unfolding build_adyen_def
  by (auto simp: required_keys_def REQUIRED_KEYS_def adyen_new_def require_non_empty_def intro!: refused_reads refused_built)

lemma build_btcpay_keeps: "build_btcpay F L c = Ok r \<Longrightarrow> keeps_name F ''btcpay'' r"
  by (auto simp: build_btcpay_def built_Ok split: if_splits intro!: keeps_nameI [OF _ btcpay.rail_core_axioms])
    (auto simp: btcpay_payment_rail_def btcpay_new_def NONCUSTODIAL_def btcpay_caps_def Let_def split: if_splits)

lemma build_btcpay_refused: "k \<in> required_keys ''btcpay'' \<Longrightarrow> blank (get_string c k) \<Longrightarrow> refused (build_btcpay F L c)"
  unfolding build_btcpay_def
  by (auto simp: required_keys_def REQUIRED_KEYS_def btcpay_new_def require_non_empty_def intro!: refused_reads refused_built)

lemma build_checkoutcom_keeps: "build_checkoutcom F L c = Ok r \<Longrightarrow> keeps_name F ''checkoutcom'' r"
  by (auto simp: build_checkoutcom_def built_Ok split: if_splits intro!: keeps_nameI [OF _ checkoutcom.rail_core_axioms])
    (auto simp: checkoutcom_payment_rail_def checkoutcom_new_def NONCUSTODIAL_def Let_def split: if_splits)

lemma build_checkoutcom_refused: "k \<in> required_keys ''checkoutcom'' \<Longrightarrow> blank (get_string c k) \<Longrightarrow> refused (build_checkoutcom F L c)"
  unfolding build_checkoutcom_def
  by (auto simp: required_keys_def REQUIRED_KEYS_def checkoutcom_new_def require_non_empty_def intro!: refused_reads refused_built)

lemma build_coinbasecommerce_keeps: "build_coinbasecommerce F L c = Ok r \<Longrightarrow> keeps_name F ''coinbasecommerce'' r"
  by (auto simp: build_coinbasecommerce_def built_Ok split: if_splits intro!: keeps_nameI [OF _ coinbase.rail_core_axioms])
    (auto simp: coinbase_payment_rail_def coinbase_new_def NONCUSTODIAL_def Let_def split: if_splits)

lemma build_coinbasecommerce_refused: "k \<in> required_keys ''coinbasecommerce'' \<Longrightarrow> blank (get_string c k) \<Longrightarrow> refused (build_coinbasecommerce F L c)"
  unfolding build_coinbasecommerce_def
  by (auto simp: required_keys_def REQUIRED_KEYS_def coinbase_new_def require_non_empty_def intro!: refused_reads refused_built)

lemma build_flutterwave_keeps: "build_flutterwave F L c = Ok r \<Longrightarrow> keeps_name F ''flutterwave'' r"
  by (auto simp: build_flutterwave_def built_Ok split: if_splits intro!: keeps_nameI [OF _ flutterwave.rail_core_axioms])
    (auto simp: flutterwave_payment_rail_def flutterwave_new_def NONCUSTODIAL_def Let_def split: if_splits)

lemma build_flutterwave_refused: "k \<in> required_keys ''flutterwave'' \<Longrightarrow> blank (get_string c k) \<Longrightarrow> refused (build_flutterwave F L c)"
  unfolding build_flutterwave_def
  by (auto simp: required_keys_def REQUIRED_KEYS_def flutterwave_new_def require_non_empty_def intro!: refused_reads refused_built)

lemma build_iyzico_keeps: "build_iyzico F L c = Ok r \<Longrightarrow> keeps_name F ''iyzico'' r"
  by (auto simp: build_iyzico_def built_Ok split: if_splits intro!: keeps_nameI [OF _ iyzico.rail_core_axioms])
    (auto simp: iyzico_payment_rail_def iyzico_new_def NONCUSTODIAL_def Let_def split: if_splits)

lemma build_iyzico_refused: "k \<in> required_keys ''iyzico'' \<Longrightarrow> blank (get_string c k) \<Longrightarrow> refused (build_iyzico F L c)"
  unfolding build_iyzico_def
  by (auto simp: required_keys_def REQUIRED_KEYS_def iyzico_new_def require_non_empty_def intro!: refused_reads refused_built)

lemma build_lnbits_keeps: "build_lnbits F L c = Ok r \<Longrightarrow> keeps_name F ''lnbits'' r"
  by (auto simp: build_lnbits_def built_Ok split: if_splits intro!: keeps_nameI [OF _ lnbits.rail_core_axioms])
    (auto simp: lnbits_payment_rail_def lnbits_new_def NONCUSTODIAL_def lnbits_caps_def Let_def split: if_splits)

lemma build_lnbits_refused: "k \<in> required_keys ''lnbits'' \<Longrightarrow> blank (get_string c k) \<Longrightarrow> refused (build_lnbits F L c)"
  unfolding build_lnbits_def
  by (auto simp: required_keys_def REQUIRED_KEYS_def lnbits_new_def require_non_empty_def intro!: refused_reads refused_built)

lemma build_mercadopago_keeps: "build_mercadopago F L c = Ok r \<Longrightarrow> keeps_name F ''mercadopago'' r"
  by (auto simp: build_mercadopago_def built_Ok split: if_splits intro!: keeps_nameI [OF _ mercadopago.rail_core_axioms])
    (auto simp: mercadopago_payment_rail_def mercadopago_new_def NONCUSTODIAL_def Let_def split: if_splits)

lemma build_mercadopago_refused: "k \<in> required_keys ''mercadopago'' \<Longrightarrow> blank (get_string c k) \<Longrightarrow> refused (build_mercadopago F L c)"
  unfolding build_mercadopago_def
  by (auto simp: required_keys_def REQUIRED_KEYS_def mercadopago_new_def require_non_empty_def intro!: refused_reads refused_built)

lemma build_midtrans_keeps: "build_midtrans F L c = Ok r \<Longrightarrow> keeps_name F ''midtrans'' r"
  by (auto simp: build_midtrans_def built_Ok split: if_splits intro!: keeps_nameI [OF _ midtrans.rail_core_axioms])
    (auto simp: midtrans_payment_rail_def midtrans_new_def NONCUSTODIAL_def Let_def split: if_splits)

lemma build_midtrans_refused: "k \<in> required_keys ''midtrans'' \<Longrightarrow> blank (get_string c k) \<Longrightarrow> refused (build_midtrans F L c)"
  unfolding build_midtrans_def
  by (auto simp: required_keys_def REQUIRED_KEYS_def midtrans_new_def require_non_empty_def intro!: refused_reads refused_built)

lemma build_mollie_keeps: "build_mollie F L c = Ok r \<Longrightarrow> keeps_name F ''mollie'' r"
  by (auto simp: build_mollie_def built_Ok split: if_splits intro!: keeps_nameI [OF _ mollie.rail_core_axioms])
    (auto simp: mollie_payment_rail_def mollie_new_def NONCUSTODIAL_def Let_def split: if_splits)

lemma build_mollie_refused: "k \<in> required_keys ''mollie'' \<Longrightarrow> blank (get_string c k) \<Longrightarrow> refused (build_mollie F L c)"
  unfolding build_mollie_def
  by (auto simp: required_keys_def REQUIRED_KEYS_def mollie_new_def require_non_empty_def intro!: refused_reads refused_built)

lemma build_opennode_keeps: "build_opennode F L c = Ok r \<Longrightarrow> keeps_name F ''opennode'' r"
  by (auto simp: build_opennode_def built_Ok split: if_splits intro!: keeps_nameI [OF _ opennode.rail_core_axioms])
    (auto simp: opennode_payment_rail_def opennode_new_def NONCUSTODIAL_def Let_def split: if_splits)

lemma build_opennode_refused: "k \<in> required_keys ''opennode'' \<Longrightarrow> blank (get_string c k) \<Longrightarrow> refused (build_opennode F L c)"
  unfolding build_opennode_def
  by (auto simp: required_keys_def REQUIRED_KEYS_def opennode_new_def require_non_empty_def intro!: refused_reads refused_built)

lemma build_payfast_keeps: "build_payfast F L c = Ok r \<Longrightarrow> keeps_name F ''payfast'' r"
  by (auto simp: build_payfast_def built_Ok split: if_splits intro!: keeps_nameI [OF _ payfast.rail_core_axioms])
    (auto simp: payfast_payment_rail_def payfast_new_def NONCUSTODIAL_def Let_def split: if_splits)

lemma build_payfast_refused: "k \<in> required_keys ''payfast'' \<Longrightarrow> blank (get_string c k) \<Longrightarrow> refused (build_payfast F L c)"
  unfolding build_payfast_def
  by (auto simp: required_keys_def REQUIRED_KEYS_def payfast_new_def require_non_empty_def intro!: refused_reads refused_built)

lemma build_paypal_keeps: "build_paypal F L c = Ok r \<Longrightarrow> keeps_name F ''paypal'' r"
  by (auto simp: build_paypal_def built_Ok split: if_splits intro!: keeps_nameI [OF _ paypal.rail_core_axioms])
    (auto simp: paypal_payment_rail_def paypal_new_def NONCUSTODIAL_def Let_def split: if_splits)

lemma build_paypal_refused: "k \<in> required_keys ''paypal'' \<Longrightarrow> blank (get_string c k) \<Longrightarrow> refused (build_paypal F L c)"
  unfolding build_paypal_def
  by (auto simp: required_keys_def REQUIRED_KEYS_def paypal_new_def require_non_empty_def intro!: refused_reads refused_configured_paypal_url refused_built)

lemma build_payu_keeps: "build_payu F L c = Ok r \<Longrightarrow> keeps_name F ''payu'' r"
  by (auto simp: build_payu_def built_Ok split: if_splits intro!: keeps_nameI [OF _ payu.rail_core_axioms])
    (auto simp: payu_payment_rail_def payu_new_def NONCUSTODIAL_def Let_def split: if_splits)

lemma build_payu_refused: "k \<in> required_keys ''payu'' \<Longrightarrow> blank (get_string c k) \<Longrightarrow> refused (build_payu F L c)"
  unfolding build_payu_def
  by (auto simp: required_keys_def REQUIRED_KEYS_def payu_new_def require_non_empty_def intro!: refused_reads refused_built)

lemma build_razorpay_keeps: "build_razorpay F L c = Ok r \<Longrightarrow> keeps_name F ''razorpay'' r"
  by (auto simp: build_razorpay_def built_Ok split: if_splits intro!: keeps_nameI [OF _ razorpay.rail_core_axioms])
    (auto simp: razorpay_payment_rail_def razorpay_new_def NONCUSTODIAL_def Let_def split: if_splits)

lemma build_razorpay_refused: "k \<in> required_keys ''razorpay'' \<Longrightarrow> blank (get_string c k) \<Longrightarrow> refused (build_razorpay F L c)"
  unfolding build_razorpay_def
  by (auto simp: required_keys_def REQUIRED_KEYS_def razorpay_new_def require_non_empty_def intro!: refused_reads refused_built)

lemma build_square_keeps: "build_square F L c = Ok r \<Longrightarrow> keeps_name F ''square'' r"
  by (auto simp: build_square_def built_Ok split: if_splits intro!: keeps_nameI [OF _ square.rail_core_axioms])
    (auto simp: square_payment_rail_def square_new_def NONCUSTODIAL_def Let_def split: if_splits)

lemma build_square_refused: "k \<in> required_keys ''square'' \<Longrightarrow> blank (get_string c k) \<Longrightarrow> refused (build_square F L c)"
  unfolding build_square_def
  by (auto simp: required_keys_def REQUIRED_KEYS_def square_new_def require_non_empty_def intro!: refused_reads refused_built)

lemma build_xendit_keeps: "build_xendit F L c = Ok r \<Longrightarrow> keeps_name F ''xendit'' r"
  by (auto simp: build_xendit_def built_Ok split: if_splits intro!: keeps_nameI [OF _ xendit.rail_core_axioms])
    (auto simp: xendit_payment_rail_def xendit_new_def NONCUSTODIAL_def Let_def split: if_splits)

lemma build_xendit_refused: "k \<in> required_keys ''xendit'' \<Longrightarrow> blank (get_string c k) \<Longrightarrow> refused (build_xendit F L c)"
  unfolding build_xendit_def
  by (auto simp: required_keys_def REQUIRED_KEYS_def xendit_new_def require_non_empty_def intro!: refused_reads refused_built)

lemma build_yoco_keeps: "build_yoco F L c = Ok r \<Longrightarrow> keeps_name F ''yoco'' r"
  by (auto simp: build_yoco_def built_Ok split: if_splits intro!: keeps_nameI [OF _ yoco.rail_core_axioms])
    (auto simp: yoco_payment_rail_def yoco_new_def NONCUSTODIAL_def Let_def split: if_splits)

lemma build_yoco_refused: "k \<in> required_keys ''yoco'' \<Longrightarrow> blank (get_string c k) \<Longrightarrow> refused (build_yoco F L c)"
  unfolding build_yoco_def
  by (auto simp: required_keys_def REQUIRED_KEYS_def yoco_new_def require_non_empty_def intro!: refused_reads refused_built)

lemmas build_keeps =
  build_stripe_keeps
  build_paystack_keeps
  build_adyen_keeps
  build_btcpay_keeps
  build_checkoutcom_keeps
  build_coinbasecommerce_keeps
  build_flutterwave_keeps
  build_iyzico_keeps
  build_lnbits_keeps
  build_mercadopago_keeps
  build_midtrans_keeps
  build_mollie_keeps
  build_opennode_keeps
  build_payfast_keeps
  build_paypal_keeps
  build_payu_keeps
  build_razorpay_keeps
  build_square_keeps
  build_xendit_keeps
  build_yoco_keeps

lemmas build_refused =
  build_stripe_refused
  build_paystack_refused
  build_adyen_refused
  build_btcpay_refused
  build_checkoutcom_refused
  build_coinbasecommerce_refused
  build_flutterwave_refused
  build_iyzico_refused
  build_lnbits_refused
  build_mercadopago_refused
  build_midtrans_refused
  build_mollie_refused
  build_opennode_refused
  build_payfast_refused
  build_paypal_refused
  build_payu_refused
  build_razorpay_refused
  build_square_refused
  build_xendit_refused
  build_yoco_refused


lemmas build_defs =
  build_stripe_def
  build_paystack_def
  build_adyen_def
  build_btcpay_def
  build_checkoutcom_def
  build_coinbasecommerce_def
  build_flutterwave_def
  build_iyzico_def
  build_lnbits_def
  build_mercadopago_def
  build_midtrans_def
  build_mollie_def
  build_opennode_def
  build_payfast_def
  build_paypal_def
  build_payu_def
  build_razorpay_def
  build_square_def
  build_xendit_def
  build_yoco_def

lemma fiat_builders_keeps:
  "map_of (fiat_builders F L) n = Some b \<Longrightarrow> b c = Ok r \<Longrightarrow> n \<noteq> ''manual'' \<Longrightarrow> keeps_name F n r"
  by (auto simp: fiat_builders_def split: if_splits intro: build_keeps)

lemma fiat_builders_refused:
  "map_of (fiat_builders F L) n = Some b \<Longrightarrow> k \<in> required_keys n \<Longrightarrow> blank (get_string c k) \<Longrightarrow> refused (b c)"
  by (auto simp: fiat_builders_def split: if_splits intro: build_refused)
    (simp add: required_keys_def REQUIRED_KEYS_def)

lemma fiat_builders_absent:
  "map_of (fiat_builders F L) n = Some b \<Longrightarrow> n \<noteq> ''manual'' \<Longrightarrow> \<not> F (''fiat-'' @ n) \<Longrightarrow> refused (b c)"
  by (auto simp: fiat_builders_def build_defs split: if_splits)

lemma fiat_builders_None: "map_of (fiat_builders F L) n = None \<longleftrightarrow> n \<notin> set (''manual'' # ADAPTER_NAMES)"
  by (simp add: map_of_eq_None_iff fiat_builders_def ADAPTER_NAMES_def)

lemma fiat_builders_manual: "map_of (fiat_builders F L) ''manual'' = Some (\<lambda>config. build_manual L)"
  by (simp add: fiat_builders_def)

lemma providers_iff:
  "n \<in> set (patala_fiat_providers F) \<longleftrightarrow> n = ''manual'' \<or> n \<in> set ADAPTER_NAMES \<and> F (''fiat-'' @ n)"
  unfolding patala_fiat_providers_def set_sort by auto

lemma patala_new_fiat_Ok:
  assumes "patala_new_fiat F L p c = Ok P"
  obtains "to_ascii_lowercase p = ''manual''" "pt_inner P = manual_payment_rail (manual_new (fl_manual L) None)"
  | "to_ascii_lowercase p \<in> set ADAPTER_NAMES" "to_ascii_lowercase p \<noteq> ''manual''"
    "keeps_name F (to_ascii_lowercase p) (pt_inner P)"
proof (cases "to_ascii_lowercase p = ''manual''")
  case True
  with assms show thesis
    by (intro that(1)) (auto simp: patala_new_fiat_def fiat_builders_manual build_manual_def)
next
  case False
  from assms obtain b where b: "map_of (fiat_builders F L) (to_ascii_lowercase p) = Some b" "b c = Ok (pt_inner P)"
    by (auto simp: patala_new_fiat_def split: option.splits)
  moreover have "to_ascii_lowercase p \<in> set (''manual'' # ADAPTER_NAMES)"
    using b(1) fiat_builders_None [of F L "to_ascii_lowercase p"] by auto
  ultimately show thesis
    using False by (intro that(2)) (auto intro: fiat_builders_keeps)
qed

section \<open>Properties\<close>

text \<open>
  C21: asking for a fiat rail by name gives that rail or none. What \<open>new_fiat\<close> returns calls itself by the
  name that was asked for, up to ASCII case, is one of the providers this build lists, and keeps the
  contract of the seam: it refuses malformed requests before any effect, its receipts and quotes name it
  and its destination verdicts are honest. No name, feature set or configuration gives another rail.
\<close>

theorem new_fiat_never_another_rail:
  assumes "patala_new_fiat F L p c = Ok P"
  shows "patala_id P = to_ascii_lowercase p \<and> patala_id P \<in> set (patala_fiat_providers F) \<and>
     rail_core (pt_inner P) (if patala_id P = ''manual'' then records_ok else (\<lambda>_. True))"
  using assms
proof (cases rule: patala_new_fiat_Ok)
  case 1
  then have "patala_id P = ''manual''"
    by (simp add: patala_id_def manual_payment_rail_def RAIL_ID_MANUAL_def)
  with 1 show ?thesis by (simp add: providers_iff manual.rail_core_axioms)
next
  case 2
  then show ?thesis by (simp add: providers_iff keeps_name_def patala_id_def)
qed

theorem new_fiat_never_another_rail_witness:
  "\<forall>F L. \<exists>P. patala_new_fiat F L ''Manual'' Map.empty = Ok P \<and> patala_id P = ''manual'' \<and>
     rail_core (pt_inner P) records_ok"
proof (intro allI)
  fix F L
  have low: "to_ascii_lowercase ''Manual'' = ''manual''" by code_simp
  have "patala_new_fiat F L ''Manual'' Map.empty =
      Ok \<lparr> pt_inner = manual_payment_rail (manual_new (fl_manual L) None) \<rparr>"
    by (simp add: patala_new_fiat_def low fiat_builders_manual build_manual_def)
  from this new_fiat_never_another_rail [OF this]
  show "\<exists>P. patala_new_fiat F L ''Manual'' Map.empty = Ok P \<and> patala_id P = ''manual'' \<and>
      rail_core (pt_inner P) records_ok"
    by (auto simp: low)
qed

text \<open>
  C23: which fiat rails hold funds. A rail that \<open>new_fiat\<close> returns is of the final, non-custodial class
  exactly for the two providers a merchant runs themselves, BTCPay Server and LNbits, and a processor
  holds funds exactly for the other eighteen; the offline manual rail is in the custodial class and holds
  none. The class decides what a failover may cross to, and the documentation of \<open>new_fiat\<close> claims one
  class and \<open>holds_funds\<close> for all twenty.
\<close>

theorem new_fiat_class:
  assumes "patala_new_fiat F L p c = Ok P"
  shows "(fc_rail_class (patala_capabilities P) = FNonCustodialFinal \<longleftrightarrow> patala_id P \<in> {''btcpay'', ''lnbits''}) \<and>
     (fc_holds_funds (patala_capabilities P) \<longleftrightarrow> patala_id P \<notin> {''btcpay'', ''lnbits'', ''manual''})"
  using assms
proof (cases rule: patala_new_fiat_Ok)
  case 1
  then show ?thesis
    by (simp add: patala_id_def patala_capabilities_def capabilities_from_def manual_payment_rail_def
        manual_capabilities_def RAIL_ID_MANUAL_def)
next
  case 2
  then show ?thesis
    using rail_class_from_inject [of _ NonCustodialFinal]
    by (auto simp: keeps_name_def patala_id_def patala_capabilities_def capabilities_from_def NONCUSTODIAL_def)
qed

theorem new_fiat_class_witness:
  "\<forall>L. \<exists>P. patala_new_fiat (\<lambda>_. True) (L\<lparr> fl_client := \<lambda>_. Ok () \<rparr>) ''btcpay''
       [''base_url'' \<mapsto> ''b'', ''api_key'' \<mapsto> ''k'', ''store_id'' \<mapsto> ''s'', ''webhook_secret'' \<mapsto> ''w''] = Ok P \<and>
     fc_rail_class (patala_capabilities P) = FNonCustodialFinal \<and> \<not> fc_holds_funds (patala_capabilities P)"
proof (intro allI)
  fix L :: fiat_libs
  let ?new = "patala_new_fiat (\<lambda>_. True) (L\<lparr> fl_client := \<lambda>_. Ok () \<rparr>) ''btcpay''
    [''base_url'' \<mapsto> ''b'', ''api_key'' \<mapsto> ''k'', ''store_id'' \<mapsto> ''s'', ''webhook_secret'' \<mapsto> ''w'']"
  have low: "to_ascii_lowercase ''btcpay'' = ''btcpay''" by code_simp
  have "\<exists>P. ?new = Ok P"
    by (simp add: patala_new_fiat_def low fiat_builders_def build_btcpay_def get_optional_u32_def get_u64_def built_def
        btcpay_new_def require_non_empty_def get_string_def build_client_def not_blank_Cons graphic_def)
  then obtain P where P: "?new = Ok P" ..
  from P have "patala_id P = ''btcpay''"
    by (cases rule: patala_new_fiat_Ok) (simp_all add: low keeps_name_def patala_id_def)
  with P new_fiat_class [OF P] show "\<exists>P. ?new = Ok P \<and>
      fc_rail_class (patala_capabilities P) = FNonCustodialFinal \<and> \<not> fc_holds_funds (patala_capabilities P)"
    by auto
qed

text \<open>
  C22: \<open>new_fiat\<close> fails closed. A provider that this build does not list, whether unknown or compiled out,
  and a provider any of whose required keys is missing or blank, are refused as an invalid request,
  whatever else the configuration holds and whatever its numbers parse to.
\<close>

theorem new_fiat_fails_closed:
  assumes "to_ascii_lowercase p \<notin> set (patala_fiat_providers F) \<or>
     (\<exists>k \<in> required_keys (to_ascii_lowercase p). blank (get_string c k))"
  shows "\<exists>m. patala_new_fiat F L p c = Err (PInvalidRequest m)"
proof (cases "map_of (fiat_builders F L) (to_ascii_lowercase p)")
  case None
  then show ?thesis by (simp add: patala_new_fiat_def)
next
  case (Some b)
  have "to_ascii_lowercase p \<in> set (''manual'' # ADAPTER_NAMES)"
    using Some fiat_builders_None [of F L "to_ascii_lowercase p"] by auto
  then have "refused (b c)"
    using assms fiat_builders_refused [OF Some] fiat_builders_absent [OF Some] by (auto simp: providers_iff)
  with Some show ?thesis by (auto simp: patala_new_fiat_def refused_def)
qed

theorem new_fiat_fails_closed_witness:
  "\<forall>F L. \<exists>m. patala_new_fiat F L ''Stripe'' [''secret_key'' \<mapsto> ''k'', ''webhook_secret'' \<mapsto> '' ''] =
     Err (PInvalidRequest m)"
proof (intro allI new_fiat_fails_closed disjI2 bexI [of _ "''webhook_secret''"])
  show "blank (get_string [''secret_key'' \<mapsto> ''k'', ''webhook_secret'' \<mapsto> '' ''] ''webhook_secret'')"
    by (simp add: get_string_def) code_simp
  have "to_ascii_lowercase ''Stripe'' = ''stripe''" by code_simp
  then show "''webhook_secret'' \<in> required_keys (to_ascii_lowercase ''Stripe'')"
    by (simp add: required_keys_def REQUIRED_KEYS_def)
qed

end
