(* ===== verification/Ffi.thy ===== *)
theory Ffi
  imports Uniffi_Fiat Form_Encoding
begin

text \<open>
  \<open>patala-ffi/src/lib.rs\<close> and \<open>abi.rs\<close>: rails behind integer handles, JSON in and out, and the C functions
  around them. A record holds the Cargo features, what the rails take as parameters and the derived JSON
  parsers and printers. The table of handles is a state of its own beside the world of the rails; an open
  takes a handle from the counter and enters the rail in the table in two steps, between which other
  threads may run. A call that unwinds is a parameter, for only third-party code can panic.
\<close>

definition METHODS :: "string list" where
  "METHODS = [''id'', ''capabilities'', ''quote'', ''charge'', ''verify'', ''validate-destination'', ''webhook'',
     ''caveat'', ''providers'']"

section \<open>The table of handles\<close>

record ffi_state =
  fs_next :: u64
  fs_table :: "u64 \<rightharpoonup> world payment_rail"
  fs_pending :: "(u64 \<times> world payment_rail) list" \<comment> \<open>issued, not yet entered\<close>

definition ffi_initial :: ffi_state where
  "ffi_initial = \<lparr> fs_next = 1, fs_table = Map.empty, fs_pending = [] \<rparr>"

definition ffi_lookup :: "ffi_state \<Rightarrow> u64 \<Rightarrow> string + world payment_rail" where
  "ffi_lookup st h =
     ok_or (''patala: unknown handle '' @ dec_of_nat (unat h) @ '' (never created, or already closed)'') (fs_table st h)"

definition issue_handle :: "world payment_rail \<Rightarrow> ffi_state \<Rightarrow> u64 \<times> ffi_state" where
  "issue_handle r st =
     (fs_next st, st\<lparr> fs_next := fs_next st + 1, fs_pending := (fs_next st, r) # fs_pending st \<rparr>)"

definition enter_handle :: "u64 \<Rightarrow> world payment_rail \<Rightarrow> ffi_state \<Rightarrow> ffi_state" where
  "enter_handle h r st =
     st\<lparr> fs_table := (fs_table st)(h \<mapsto> r), fs_pending := remove1 (h, r) (fs_pending st) \<rparr>"

definition ffi_close :: "ffi_state \<Rightarrow> u64 \<Rightarrow> ffi_state" where
  "ffi_close st h = st\<lparr> fs_table := (fs_table st)(h := None) \<rparr>"

definition live_handles :: "ffi_state \<Rightarrow> nat" where
  "live_handles st = card (dom (fs_table st))"

definition handle_is_live :: "ffi_state \<Rightarrow> u64 \<Rightarrow> bool" where
  "handle_is_live st h \<longleftrightarrow> fs_table st h \<noteq> None"

section \<open>Configuration\<close>

datatype config_rail_class = CfgCustodialReversible | CfgNonCustodialFinal

fun config_core_class :: "config_rail_class \<Rightarrow> rail_class" where
  "config_core_class CfgCustodialReversible = CustodialReversible"
| "config_core_class CfgNonCustodialFinal = NonCustodialFinal"

definition default_currencies :: "string list" where "default_currencies = [''USDC'']"

definition default_mock_id :: string where "default_mock_id = ''mock''"

text \<open>A map of strings is the list of its pairs, in the order of its hash; its keys are distinct.\<close>

datatype rail_config =
    CfgMock string config_rail_class "string list" u64 bool bool
      \<comment> \<open>\<open>id\<close>, \<open>class\<close>, \<open>currencies\<close>, \<open>fee_minor\<close>, \<open>failing\<close>, \<open>destination_checks\<close>\<close>
  | CfgFiat string "(string \<times> string) list" \<comment> \<open>\<open>provider\<close>, \<open>config\<close>\<close>
  | CfgSolana string string "string option" \<comment> \<open>\<open>rpc_url\<close>, \<open>cluster\<close>, \<open>keypair_seed_hex\<close>\<close>
  | CfgStellar string string "string option" "string option"
      \<comment> \<open>\<open>horizon_url\<close>, \<open>network\<close>, \<open>usdc_issuer\<close>, \<open>keypair_seed_hex\<close>\<close>
  | CfgHyperswitch string string "string option" "string option" bool "string list" u8 u64
      \<comment> \<open>\<open>base_url\<close>, \<open>api_key\<close>, \<open>connector\<close>, \<open>webhook_secret\<close>, \<open>requires_kyc\<close>, \<open>currencies\<close>, \<open>settlement_days\<close>, \<open>timeout_secs\<close>\<close>

text \<open>A document as it is read, before the fields it leaves out take their defaults.\<close>

datatype config_document =
    DocMock "string option" "config_rail_class option" "string list option" "u64 option" "bool option" "bool option"
  | DocFiat string "(string \<times> string) list option"
  | DocSolana string string "string option"
  | DocStellar string string "string option" "string option"
  | DocHyperswitch string string "string option" "string option" "bool option" "string list option" "u8 option" "u64 option"

definition or_default :: "'a \<Rightarrow> 'a option \<Rightarrow> 'a" where
  "or_default d x = (case x of Some v \<Rightarrow> v | None \<Rightarrow> d)"

fun config_of_document :: "config_document \<Rightarrow> rail_config" where
  "config_of_document (DocMock i cls ccys fee fail checks) =
     CfgMock (or_default default_mock_id i) (or_default CfgNonCustodialFinal cls) (or_default default_currencies ccys)
       (or_default 0 fee) (or_default False fail) (or_default True checks)"
| "config_of_document (DocFiat provider config) = CfgFiat provider (or_default [] config)"
| "config_of_document (DocSolana url cluster seed) = CfgSolana url cluster seed"
| "config_of_document (DocStellar url network issuer seed) = CfgStellar url network issuer seed"
| "config_of_document (DocHyperswitch url key connector secret kyc ccys days secs) =
     CfgHyperswitch url key connector secret (or_default True kyc) (or_default [] ccys) (or_default 2 days)
       (or_default 30 secs)"

definition default_mock :: rail_config where
  "default_mock = CfgMock default_mock_id CfgNonCustodialFinal default_currencies 0 False True"

section \<open>Rendering a configuration\<close>

fun debug_config_class :: "config_rail_class \<Rightarrow> string" where
  "debug_config_class CfgCustodialReversible = ''CustodialReversible''"
| "debug_config_class CfgNonCustodialFinal = ''NonCustodialFinal''"

fun debug_config :: "rail_config \<Rightarrow> string" where
  "debug_config (CfgMock i cls ccys fee fail checks) =
     ''Mock { id: '' @ debug_str i @ '', class: '' @ debug_config_class cls @ '', currencies: '' @ debug_strs ccys @
     '', fee_minor: '' @ dec_of_nat (unat fee) @ '', failing: '' @ debug_bool fail @
     '', destination_checks: '' @ debug_bool checks @ '' }''"
| "debug_config (CfgFiat provider config) =
     ''Fiat { provider: '' @ debug_str provider @ '', config_keys: '' @ debug_strs (sort (map fst config)) @ '' }''"
| "debug_config (CfgSolana url cluster seed) =
     ''Solana { rpc_url: '' @ debug_str url @ '', cluster: '' @ debug_str cluster @
     '', keypair_seed_hex: '' @ debug_str (redacted (seed \<noteq> None)) @ '' }''"
| "debug_config (CfgStellar url network issuer seed) =
     ''Stellar { horizon_url: '' @ debug_str url @ '', network: '' @ debug_str network @
     '', usdc_issuer: '' @ debug_opt issuer @ '', keypair_seed_hex: '' @ debug_str (redacted (seed \<noteq> None)) @ '' }''"
| "debug_config (CfgHyperswitch url key connector secret kyc ccys days secs) =
     ''Hyperswitch { base_url: '' @ debug_str url @ '', api_key: '' @ debug_str (redacted (key \<noteq> [])) @
     '', connector: '' @ debug_opt connector @ '', webhook_secret: '' @ debug_str (redacted (secret \<noteq> None)) @
     '', requires_kyc: '' @ debug_bool kyc @ '', currencies: '' @ debug_strs ccys @
     '', settlement_days: '' @ dec_of_nat (unat days) @ '', timeout_secs: '' @ dec_of_nat (unat secs) @ '' }''"

section \<open>Hexadecimal\<close>

definition nibble :: "char \<Rightarrow> nat \<Rightarrow> string + u8" where
  "nibble c at =
     (case hex_val c of
        Some n \<Rightarrow> Ok (word_of_nat n)
      | None \<Rightarrow> Err (''the character at position '' @ dec_of_nat at @ '' is not a hex digit (it is not quoted '' @
                    ''back here: this is a private key)''))"

fun hex_pairs :: "nat \<Rightarrow> string \<Rightarrow> string + bytes" where
  "hex_pairs i (a # b # s) =
     rbind (nibble a (i * 2)) (\<lambda>x.
     rbind (nibble b (i * 2 + 1)) (\<lambda>y.
     rbind (hex_pairs (i + 1) s) (\<lambda>bs. Ok ((push_bit 4 x OR y) # bs))))"
| "hex_pairs i s = Ok []"

definition decode_hex :: "string \<Rightarrow> string + bytes" where
  "decode_hex s =
     (if length s mod 2 \<noteq> 0 then Err (''odd number of hex digits ('' @ dec_of_nat (length s) @ '')'')
      else hex_pairs 0 s)"

definition decode_seed :: "string option \<Rightarrow> string \<Rightarrow> string + bytes option" where
  "decode_seed hex rail =
     (case hex of
        None \<Rightarrow> Ok None
      | Some s \<Rightarrow>
          rbind (map_err (\<lambda>e. ''patala: '' @ rail @ '' keypair_seed_hex is not valid hex: '' @ e) (decode_hex s)) (\<lambda>bs.
            Ok (Some bs)))"

section \<open>Building a rail\<close>

datatype ffi_response =
    IdResponse string
  | CapabilitiesResponse rail_capabilities
  | QuoteResponse quote
  | ReceiptResponse receipt
  | VerifyResponse bool
  | ValidateDestinationResponse destination_verdict bool
  | EventResponse webhook_event
  | CaveatResponse string
  | ProvidersResponse "string list"

record webhook_request =
  wr_body :: "string option"
  wr_body_hex :: "string option"
  wr_headers :: "(string \<times> string) list"
  wr_query :: "(string \<times> string) list"
  wr_now_unix :: u64

record ffi_libs =
  ff_features :: "string \<Rightarrow> bool"
  ff_fiat :: fiat_libs
  ff_solana :: solana_lib
  ff_solana_json :: solana_json
  ff_stellar :: stellar_lib
  ff_stellar_json :: stellar_json
  ff_hyperswitch :: hs_codec
  ff_json :: json_text
  ff_runtime :: "string + unit" \<comment> \<open>creating a runtime\<close>
  ff_config :: "string \<Rightarrow> string + config_document"
  ff_request :: "string \<Rightarrow> string + pay_request"
  ff_receipt :: "string \<Rightarrow> string + receipt"
  ff_destination :: "string \<Rightarrow> string + string"
  ff_webhook :: "string \<Rightarrow> string + webhook_request"
  ff_encode :: "ffi_response \<Rightarrow> string + string"

definition ffi_not_compiled_in :: "string \<Rightarrow> string \<Rightarrow> string" where
  "ffi_not_compiled_in feature what =
     ''patala: this libpatala_ffi was built without --features '' @ feature @ '', so the '' @ debug_str what @
     '' rail is not available in it. Rebuild with `cargo build -p patala-ffi --features '' @ feature @
     ''` (see patala-ffi/README.md).''"

text \<open>\<open>.map(|r| r.as_payment_rail()).map_err(|e| format!("patala: {e}"))\<close>\<close>

definition constructed :: "patala_error + world patala_rail \<Rightarrow> string + world payment_rail" where
  "constructed x =
     rbind (map_err (\<lambda>e. ''patala: '' @ patala_error_display e) x) (\<lambda>P. Ok (as_payment_rail P))"

fun build_config :: "ffi_libs \<Rightarrow> rail_config \<Rightarrow> string + world payment_rail" where
  "build_config L (CfgMock i cls ccys fee fail checks) =
     (let rail = with_fee_minor (mock_new i (config_core_class cls) ccys) fee;
          rail = (if \<not> checks then without_destination_checks rail else rail);
          rail = (if fail then failing rail else rail)
      in Ok (mock_payment_rail w_now rail))"
| "build_config L (CfgFiat provider config) =
     (if ff_features L ''fiat'' then constructed (patala_new_fiat (ff_features L) (ff_fiat L) provider (map_of config))
      else Err (ffi_not_compiled_in ''fiat'' provider))"
| "build_config L (CfgSolana rpc_url cluster seed_hex) =
     (if ff_features L ''solana'' then
        rbind (decode_seed seed_hex ''solana'') (\<lambda>seed.
          constructed (patala_new_solana (ff_solana L) (ff_solana_json L) (ff_json L) w_now (fl_http (ff_fiat L))
            rpc_url cluster seed))
      else Err (ffi_not_compiled_in ''solana'' ''solana''))"
| "build_config L (CfgStellar horizon_url network issuer seed_hex) =
     (if ff_features L ''stellar'' then
        rbind (decode_seed seed_hex ''stellar'') (\<lambda>seed.
          constructed (patala_new_stellar (ff_stellar L) (ff_stellar_json L) (ff_json L) w_now (fl_http (ff_fiat L))
            horizon_url network issuer seed))
      else Err (ffi_not_compiled_in ''stellar'' ''stellar''))"
| "build_config L (CfgHyperswitch base_url api_key connector secret kyc ccys days secs) =
     (if ff_features L ''hyperswitch'' then
        constructed (patala_new_hyperswitch (fl_mac (ff_fiat L)) (ff_hyperswitch L) w_now (fl_http (ff_fiat L))
          (fl_client (ff_fiat L)) base_url api_key connector secret kyc ccys days secs)
      else Err (ffi_not_compiled_in ''hyperswitch'' ''hyperswitch''))"

definition read_config :: "ffi_libs \<Rightarrow> string \<Rightarrow> string + rail_config" where
  "read_config L text =
     (if trim text = [] then Ok default_mock
      else rbind (map_err (\<lambda>e. ''patala: invalid configuration document: '' @ e) (ff_config L text)) (\<lambda>doc.
        Ok (config_of_document doc)))"

definition ffi_open :: "ffi_libs \<Rightarrow> ffi_state \<Rightarrow> string \<Rightarrow> (string + u64) \<times> ffi_state" where
  "ffi_open L st config_json =
     (case rbind (read_config L config_json) (\<lambda>config.
           rbind (build_config L config) (\<lambda>rail.
           rbind (map_err (\<lambda>e. ''patala: could not create the current-thread runtime: '' @ e) (ff_runtime L)) (\<lambda>_.
             Ok rail))) of
        Err e \<Rightarrow> (Err e, st)
      | Ok rail \<Rightarrow> (let (h, st') = issue_handle rail st in (Ok h, enter_handle h rail st')))"

section \<open>Calls\<close>

definition unknown_method :: "string \<Rightarrow> string" where
  "unknown_method meth =
     ''patala: unknown method '' @ debug_str meth @ '' (want one of: '' @ comma_sep METHODS @ '')''"

definition bad_request :: "string \<Rightarrow> string + 'a \<Rightarrow> string + 'a" where
  "bad_request meth x = map_err (\<lambda>e. ''patala: '' @ meth @ '': invalid request JSON: '' @ e) x"

definition ffi_encode :: "ffi_libs \<Rightarrow> ffi_response \<Rightarrow> string + string" where
  "ffi_encode L r = map_err (\<lambda>e. ''patala: could not encode the response: '' @ e) (ff_encode L r)"

text \<open>A method that awaits the rail: the request, the rail's answer, and its encoding.\<close>

definition awaited ::
    "ffi_libs \<Rightarrow> string + 'r \<Rightarrow> ('r \<Rightarrow> world \<Rightarrow> 'a result \<times> world) \<Rightarrow> ('a \<Rightarrow> ffi_response) \<Rightarrow> world \<Rightarrow>
     (string + string) \<times> world" where
  "awaited L req ask respond w =
     (case req of
        Err e \<Rightarrow> (Err e, w)
      | Ok q \<Rightarrow>
          (case ask q w of
             (Err e, w') \<Rightarrow> (Err (''patala: '' @ error_display e), w')
           | (Ok a, w') \<Rightarrow> (ffi_encode L (respond a), w')))"

definition webhook_body :: "webhook_request \<Rightarrow> string + bytes" where
  "webhook_body req =
     (case (wr_body req, wr_body_hex req) of
        (Some _, Some _) \<Rightarrow>
          Err (''patala: webhook: give exactly one of '' @ debug_str ''body'' @ '' or '' @ debug_str ''body_hex'' @
            '', not both '' @ em_dash @ '' they would disagree about what the processor signed'')
      | (Some b, None) \<Rightarrow> Ok (as_bytes b)
      | (None, Some h) \<Rightarrow> map_err (\<lambda>e. ''patala: webhook: body_hex is not valid hex: '' @ e) (decode_hex h)
      | (None, None) \<Rightarrow>
          Err (''patala: webhook: one of '' @ debug_str ''body'' @ '' or '' @ debug_str ''body_hex'' @ '' is required''))"

definition webhook_delivery_of :: "webhook_request \<Rightarrow> string + webhook_delivery" where
  "webhook_delivery_of req =
     rbind (webhook_body req) (\<lambda>body.
       Ok (with_query (with_headers (delivery_new body (wr_now_unix req)) (wr_headers req)) (wr_query req)))"

definition ffi_dispatch ::
    "ffi_libs \<Rightarrow> world payment_rail \<Rightarrow> string \<Rightarrow> string \<Rightarrow> world \<Rightarrow> (string + string) \<times> world" where
  "ffi_dispatch L rail meth request w =
     (if meth = ''id'' then (ffi_encode L (IdResponse (rail_id rail)), w)
      else if meth = ''capabilities'' then (ffi_encode L (CapabilitiesResponse (capabilities rail)), w)
      else if meth = ''quote'' then awaited L (bad_request meth (ff_request L request)) (rail_quote rail) QuoteResponse w
      else if meth = ''charge'' then
        awaited L (bad_request meth (ff_request L request)) (rail_charge rail) ReceiptResponse w
      else if meth = ''verify'' then
        awaited L (bad_request meth (ff_receipt L request)) (rail_verify rail) VerifyResponse w
      else if meth = ''validate-destination'' then
        (rbind (bad_request meth (ff_destination L request)) (\<lambda>dest.
           let verdict = rail_validate_destination rail dest
           in ffi_encode L (ValidateDestinationResponse verdict (is_refusal verdict))), w)
      else if meth = ''webhook'' then
        awaited L (rbind (bad_request meth (ff_webhook L request)) webhook_delivery_of) (rail_verify_webhook rail)
          EventResponse w
      else if meth = ''caveat'' then (ffi_encode L (CaveatResponse EXCHANGE_DEPOSIT_CAVEAT), w)
      else if meth = ''providers'' then
        (if ff_features L ''fiat'' then ffi_encode L (ProvidersResponse (patala_fiat_providers (ff_features L)))
         else Err (ffi_not_compiled_in ''fiat'' ''fiat''), w)
      else (Err (unknown_method meth), w))"

definition ffi_call ::
    "ffi_libs \<Rightarrow> ffi_state \<Rightarrow> u64 \<Rightarrow> string \<Rightarrow> string \<Rightarrow> world \<Rightarrow> (string + string) \<times> world" where
  "ffi_call L st h meth request w =
     (case ffi_lookup st h of Err e \<Rightarrow> (Err e, w) | Ok rail \<Rightarrow> ffi_dispatch L rail meth request w)"

section \<open>The C functions\<close>

text \<open>
  A C string is its bytes, \<open>None\<close> the null pointer. An error slot is \<open>None\<close> when the caller gave none, else
  what it holds after the call. \<open>unwound\<close> says that the closure panicked, and where it left the world.
\<close>

type_synonym c_string = "bytes option"
type_synonym c_slot = "bytes option option"

definition ABI_VERSION :: string where "ABI_VERSION = ''0.1.2''"

definition into_c :: "string \<Rightarrow> bytes" where
  "into_c s =
     (if 0 \<in> set (as_bytes s) then
        as_bytes (''patala: internal error '' @ em_dash @ '' a response contained a NUL byte and cannot cross a C string'')
      else as_bytes s)"

definition set_err :: "bool \<Rightarrow> string \<Rightarrow> c_slot" where
  "set_err errp message = (if errp then Some (Some (into_c message)) else None)"

definition clear_err :: "bool \<Rightarrow> c_slot" where
  "clear_err errp = (if errp then Some None else None)"

definition as_str_opt :: "c_string \<Rightarrow> string option" where
  "as_str_opt p = (case p of None \<Rightarrow> Some [] | Some bs \<Rightarrow> (case from_utf8 bs of Ok s \<Rightarrow> Some s | Err _ \<Rightarrow> None))"

definition as_str_c :: "c_string \<Rightarrow> string" where
  "as_str_c p = (case as_str_opt p of Some s \<Rightarrow> s | None \<Rightarrow> [])"

definition patala_abi_version :: bytes where
  "patala_abi_version = as_bytes ABI_VERSION"

definition patala_abi_check :: "c_string \<Rightarrow> bool \<Rightarrow> int \<times> c_slot" where
  "patala_abi_check expected errp =
     (let want = as_str_c expected in
      if want = ABI_VERSION then (0, clear_err errp)
      else (-1, set_err errp (''patala: ABI version mismatch '' @ em_dash @ '' this library is '' @ ABI_VERSION @
             '', the caller expected '' @ debug_str want @
             ''. A stale libpatala_ffi is earlier on the load path than the one you installed.'')))"

definition patala_new ::
    "ffi_libs \<Rightarrow> bool \<Rightarrow> ffi_state \<Rightarrow> c_string \<Rightarrow> bool \<Rightarrow> (u64 \<times> c_slot) \<times> ffi_state" where
  "patala_new L unwound st config_json errp =
     (case as_str_opt config_json of
        None \<Rightarrow>
          ((0, set_err errp (''patala: configuration is not valid UTF-8. It is refused rather than                  '' @
              ''treated as absent, because an absent configuration means the offline                  '' @
              ''MockRail '' @ em_dash @ '' which would report a charge that never happened as settled.'')), st)
      | Some config \<Rightarrow>
          if unwound then ((0, set_err errp ''patala: panicked while creating a rail''), st)
          else
            (case ffi_open L st config of
               (Ok handle, st') \<Rightarrow> ((handle, clear_err errp), st')
             | (Err message, st') \<Rightarrow> ((0, set_err errp message), st')))"

definition patala_close :: "ffi_state \<Rightarrow> u64 \<Rightarrow> ffi_state" where
  "patala_close st h = ffi_close st h"

definition patala_call ::
    "ffi_libs \<Rightarrow> world option \<Rightarrow> ffi_state \<Rightarrow> u64 \<Rightarrow> c_string \<Rightarrow> c_string \<Rightarrow> bool \<Rightarrow> world \<Rightarrow>
     (c_string \<times> c_slot) \<times> world" where
  "patala_call L unwound st h meth request_json errp w =
     (case unwound of
        Some w' \<Rightarrow> ((None, set_err errp ''patala: panicked during the call''), w')
      | None \<Rightarrow>
          (case ffi_call L st h (as_str_c meth) (as_str_c request_json) w of
             (Ok out, w') \<Rightarrow> ((Some (into_c out), clear_err errp), w')
           | (Err message, w') \<Rightarrow> ((None, set_err errp message), w')))"

section \<open>Facts about configurations\<close>

lemma empty_document_is_mock: "config_of_document (DocMock None None None None None None) = default_mock"
  by (simp add: or_default_def default_mock_def)

text \<open>A configuration with its secrets taken out: what is left says only whether there was one.\<close>

fun without_secrets :: "rail_config \<Rightarrow> rail_config" where
  "without_secrets (CfgMock i cls ccys fee fail checks) = CfgMock i cls ccys fee fail checks"
| "without_secrets (CfgFiat provider config) = CfgFiat provider (map (\<lambda>(k, v). (k, [])) config)"
| "without_secrets (CfgSolana url cluster seed) = CfgSolana url cluster (map_option (\<lambda>_. []) seed)"
| "without_secrets (CfgStellar url network issuer seed) = CfgStellar url network issuer (map_option (\<lambda>_. []) seed)"
| "without_secrets (CfgHyperswitch url key connector secret kyc ccys days secs) =
     CfgHyperswitch url (if key = [] then [] else ''x'') connector (map_option (\<lambda>_. []) secret) kyc ccys days secs"

section \<open>Facts about hexadecimal\<close>

definition hex_of :: "bytes \<Rightarrow> string" where
  "hex_of bs = concat (map (\<lambda>b. [hex_digit (unat b div 16), hex_digit (unat b mod 16)]) bs)"

lemma hex_val_hex_digit: "n < 16 \<Longrightarrow> hex_val (hex_digit n) = Some n"
  by (simp add: hex_val_def hex_digit_def is_ascii_digit_def is_ascii_upper_def is_ascii_lower_def)

lemma nibble_hex_digit [simp]: "n < 16 \<Longrightarrow> nibble (hex_digit n) i = Ok (word_of_nat n)"
  by (simp add: nibble_def hex_val_hex_digit)

lemma join_nibbles: "push_bit 4 (word_of_nat (unat b div 16)) OR word_of_nat (unat b mod 16) = (b :: u8)"
proof -
  have "unat b div 16 < 256" using unsigned_less [of b, where ?'a = nat] by simp
  then have "take_bit 8 (unat b div 16) = unat b div 16" by (simp add: take_bit_nat_eq_self)
  moreover have "push_bit 4 (drop_bit 4 b) OR take_bit 4 b = b"
    by (rule bit_eqI) (auto simp: bit_simps)
  ultimately have "push_bit 4 (drop_bit 4 b) OR take_bit 4 b = b" "drop_bit 4 b = word_of_nat (unat b div 16)"
    by (simp_all add: drop_bit_eq_div word_unat_eq_iff unat_div_distrib unat_mod_distrib unsigned_of_nat)
  moreover have "take_bit 4 b = word_of_nat (unat b mod 16)"
    by (simp add: word_unat_eq_iff unsigned_take_bit_eq take_bit_eq_mod unsigned_of_nat unat_mod_distrib)
  ultimately show ?thesis by simp
qed

lemma hex_of_Nil [simp]: "hex_of [] = []"
  by (simp add: hex_of_def)

lemma hex_of_Cons [simp]: "hex_of (b # bs) = hex_digit (unat b div 16) # hex_digit (unat b mod 16) # hex_of bs"
  by (simp add: hex_of_def)

lemma length_hex_of [simp]: "length (hex_of bs) = 2 * length bs"
  by (induction bs) simp_all

lemma unat_div_16 [simp]: "unat (b :: u8) div 16 < 16"
  using unsigned_less [of b, where ?'a = nat] by simp

lemma hex_pairs_hex_of: "hex_pairs i (hex_of bs) = Ok bs"
  by (induction bs arbitrary: i) (simp_all add: join_nibbles)

lemma decode_hex_hex_of [simp]: "decode_hex (hex_of bs) = Ok bs"
  by (simp add: decode_hex_def hex_pairs_hex_of)

lemma hex_val_None: "hex_val a = None \<longleftrightarrow> hex_val b = None \<Longrightarrow> nibble a i = Err e \<longleftrightarrow> nibble b i = Err e"
  by (auto simp: nibble_def split: option.splits)

lemma nibble_shape: "hex_val a = None \<longleftrightarrow> hex_val b = None \<Longrightarrow>
    (\<exists>e. nibble a i = Err e \<and> nibble b i = Err e) \<or> (\<exists>x y. nibble a i = Ok x \<and> nibble b i = Ok y)"
  by (auto simp: nibble_def split: option.splits)

lemma hex_pairs_error_shape:
  "list_all2 (\<lambda>a b. hex_val a = None \<longleftrightarrow> hex_val b = None) s t \<Longrightarrow>
     hex_pairs i s = Err e \<longleftrightarrow> hex_pairs i t = Err e"
proof (induction i s arbitrary: t rule: hex_pairs.induct)
  case (1 i a b s)
  then obtain a' b' t' where t: "t = a' # b' # t'" "hex_val a = None \<longleftrightarrow> hex_val a' = None"
      "hex_val b = None \<longleftrightarrow> hex_val b' = None" "list_all2 (\<lambda>a b. hex_val a = None \<longleftrightarrow> hex_val b = None) s t'"
    by (auto simp: list_all2_Cons1)
  have IH: "hex_pairs (i + 1) s = Err e \<longleftrightarrow> hex_pairs (i + 1) t' = Err e"
    by (rule 1) (rule t(4))
  from nibble_shape [OF t(2), of "i * 2"] nibble_shape [OF t(3), of "i * 2 + 1"] show ?case
    unfolding t(1) using IH
    by (cases "hex_pairs (i + 1) s"; cases "hex_pairs (i + 1) t'") auto
qed (auto simp: list_all2_Cons1)

section \<open>Facts about handles\<close>

text \<open>
  The table as a transition system: a thread takes a handle, a thread enters the rail it took a handle
  for, and a handle is closed, in any order and any interleaving.
\<close>

datatype handle_event = Issued u64 | Entered u64 | Closed u64

inductive table_step :: "ffi_state \<Rightarrow> handle_event \<Rightarrow> ffi_state \<Rightarrow> bool" where
  issue: "issue_handle r st = (h, st') \<Longrightarrow> table_step st (Issued h) st'"
| enter: "(h, r) \<in> set (fs_pending st) \<Longrightarrow> table_step st (Entered h) (enter_handle h r st)"
| close: "table_step st (Closed h) (ffi_close st h)"

inductive table_run :: "ffi_state \<Rightarrow> handle_event list \<Rightarrow> ffi_state \<Rightarrow> bool" where
  start: "table_run st [] st"
| step: "table_run st evs st1 \<Longrightarrow> table_step st1 e st2 \<Longrightarrow> table_run st (evs @ [e]) st2"

inductive_cases table_step_cases: "table_step st e st'"
inductive_simps table_run_Nil [simp]: "table_run st [] st'"
inductive_simps table_run_snoc: "table_run st (evs @ [e]) st'"

fun issued :: "handle_event list \<Rightarrow> u64 list" where
  "issued [] = []"
| "issued (Issued h # evs) = h # issued evs"
| "issued (_ # evs) = issued evs"

definition pending_handles :: "ffi_state \<Rightarrow> u64 list" where
  "pending_handles st = map fst (fs_pending st)"

lemma issued_append [simp]: "issued (xs @ ys) = issued xs @ issued ys"
  by (induction xs rule: issued.induct) simp_all

lemma issued_iff: "h \<in> set (issued evs) \<longleftrightarrow> Issued h \<in> set evs"
  by (induction evs rule: issued.induct) auto

lemma table_run_snoc_iff: "table_run st (evs @ [e]) st' \<longleftrightarrow> (\<exists>st1. table_run st evs st1 \<and> table_step st1 e st')"
  by (subst table_run_snoc) auto

lemma table_run_append: "table_run a (xs @ ys) c \<longleftrightarrow> (\<exists>b. table_run a xs b \<and> table_run b ys c)"
proof (induction ys arbitrary: c rule: rev_induct)
  case (snoc e ys)
  show ?case
    unfolding append_assoc [symmetric] table_run_snoc_iff snoc.IH by blast
qed simp

lemma table_run_Cons: "table_run a (e # ys) c \<longleftrightarrow> (\<exists>b. table_step a e b \<and> table_run b ys c)"
  using table_run_append [of a "[e]" ys c] table_run_snoc_iff [of a "[]" e] by simp

lemma open_is_a_run:
  assumes "ffi_open L st doc = (Ok h, st')"
  shows "table_run st [Issued h, Entered h] st'"
proof -
  obtain rail where st': "issue_handle rail st = (h, snd (issue_handle rail st))" "st' = enter_handle h rail (snd (issue_handle rail st))"
    using assms by (auto simp: ffi_open_def Let_def issue_handle_def split: sum.splits)
  moreover have "(h, rail) \<in> set (fs_pending (snd (issue_handle rail st)))"
    using st'(1) by (auto simp: issue_handle_def)
  ultimately show ?thesis
    unfolding table_run_Cons by (auto intro: table_step.issue table_step.enter)
qed

text \<open>The counter counts, so handles repeat only when it wraps.\<close>

lemma table_run_counter:
  "table_run ffi_initial evs st \<Longrightarrow>
     fs_next st = word_of_nat (Suc (length (issued evs))) \<and>
     issued evs = map (\<lambda>i. word_of_nat (Suc i)) [0..<length (issued evs)]"
proof (induction evs arbitrary: st rule: rev_induct)
  case (snoc e evs)
  then obtain st1 where st1: "table_run ffi_initial evs st1" "table_step st1 e st"
    by (auto simp: table_run_snoc_iff)
  from st1(2) snoc.IH [OF st1(1)] show ?case
    by cases (auto simp: issue_handle_def enter_handle_def ffi_close_def)
qed (simp add: ffi_initial_def)

lemma handles_distinct:
  assumes "table_run ffi_initial evs st" "length (issued evs) < 2 ^ 64"
  shows "distinct (issued evs) \<and> 0 \<notin> set (issued evs)"
proof -
  define n where "n = length (issued evs)"
  let ?f = "\<lambda>i. word_of_nat (Suc i) :: u64"
  have val: "unat (?f i) = Suc i" if "i < n" for i
    using that assms(2) by (simp only: unsigned_of_nat) (simp add: take_bit_nat_eq_self n_def)
  have "issued evs = map ?f [0..<n]"
    using table_run_counter [OF assms(1)] by (simp add: n_def)
  moreover have "inj_on ?f {0..<n}"
    by (rule inj_onI) (metis val atLeastLessThan_iff nat.inject)
  moreover have "?f i \<noteq> 0" if "i < n" for i
    using val [OF that] by (metis unsigned_0 nat.simps(3))
  ultimately show ?thesis by (auto simp: distinct_map)
qed

lemma pending_handles_steps [simp]:
  "pending_handles (st\<lparr> fs_next := k, fs_pending := (h, r) # ps \<rparr>) = h # map fst ps"
  "pending_handles (st\<lparr> fs_table := t \<rparr>) = pending_handles st"
  by (simp_all add: pending_handles_def)

lemma map_fst_pending: "map fst (fs_pending st) = pending_handles st"
  by (simp add: pending_handles_def)

lemma pending_after_enter: "x \<in> set (pending_handles (enter_handle h r st)) \<Longrightarrow> x \<in> set (pending_handles st)"
  by (auto simp: pending_handles_def enter_handle_def dest: set_mp [OF set_remove1_subset])

lemma enter_handle_table [simp]: "fs_table (enter_handle h r st) = (fs_table st)(h \<mapsto> r)"
  by (simp add: enter_handle_def)

lemma pendingI: "(h, r) \<in> set (fs_pending st) \<Longrightarrow> h \<in> set (pending_handles st)"
  by (force simp: pending_handles_def)

lemma table_run_known:
  "table_run ffi_initial evs st \<Longrightarrow>
     (\<forall>h \<in> set (pending_handles st). h \<in> set (issued evs)) \<and>
     (\<forall>h. fs_table st h \<noteq> None \<longrightarrow> Entered h \<in> set evs) \<and> (\<forall>h. Entered h \<in> set evs \<longrightarrow> h \<in> set (issued evs))"
proof (induction evs arbitrary: st rule: rev_induct)
  case (snoc e evs)
  then obtain st1 where st1: "table_run ffi_initial evs st1" "table_step st1 e st"
    by (auto simp: table_run_snoc_iff)
  from st1(2) snoc.IH [OF st1(1)] show ?case
  proof cases
    case (issue r h)
    with snoc.IH [OF st1(1)] show ?thesis by (auto simp: issue_handle_def map_fst_pending)
  next
    case (enter h r)
    with snoc.IH [OF st1(1)] pendingI [of h r st1] show ?thesis by (auto dest: pending_after_enter)
  next
    case (close h)
    with snoc.IH [OF st1(1)] show ?thesis by (auto simp: ffi_close_def)
  qed
qed (simp add: ffi_initial_def pending_handles_def)

lemma table_run_pending:
  "table_run ffi_initial evs st \<Longrightarrow> length (issued evs) < 2 ^ 64 \<Longrightarrow>
     distinct (pending_handles st) \<and> (\<forall>h \<in> set (pending_handles st). Entered h \<notin> set evs)"
proof (induction evs arbitrary: st rule: rev_induct)
  case (snoc e evs)
  then obtain st1 where st1: "table_run ffi_initial evs st1" "table_step st1 e st"
    by (auto simp: table_run_snoc_iff)
  have len: "length (issued evs) < 2 ^ 64" using snoc.prems(2) by simp
  note IH = snoc.IH [OF st1(1) len] and known = table_run_known [OF st1(1)]
  from st1(2) show ?case
  proof cases
    case (issue r h)
    then have "h \<notin> set (issued evs)"
      using handles_distinct [OF snoc.prems] by simp
    then have "h \<notin> set (pending_handles st1)" "Entered h \<notin> set evs"
      using known by blast+
    then show ?thesis
      using IH issue by (auto simp: issue_handle_def map_fst_pending)
  next
    case (enter h r)
    then obtain us vs where p: "fs_pending st1 = us @ (h, r) # vs" "(h, r) \<notin> set us"
      by (auto dest: split_list_first)
    with IH have "h \<notin> fst ` set us" "h \<notin> fst ` set vs" by (auto simp: pending_handles_def)
    with IH p enter show ?thesis
      by (auto simp: enter_handle_def pending_handles_def remove1_append)
  qed (use IH in \<open>auto simp: ffi_close_def\<close>)
qed (simp add: ffi_initial_def pending_handles_def)

lemma stays_out:
  "table_run a ys b \<Longrightarrow> fs_table a h = None \<Longrightarrow> h \<notin> set (pending_handles a) \<Longrightarrow> h \<notin> set (issued ys) \<Longrightarrow>
     fs_table b h = None \<and> h \<notin> set (pending_handles b)"
proof (induction ys arbitrary: b rule: rev_induct)
  case (snoc e ys)
  then obtain b1 where b1: "table_run a ys b1" "table_step b1 e b"
    by (auto simp: table_run_snoc_iff)
  have "fs_table b1 h = None \<and> h \<notin> set (pending_handles b1)"
    using snoc b1(1) by simp
  with b1(2) show ?case
  proof cases
    case (issue r k)
    with \<open>fs_table b1 h = None \<and> _\<close> snoc.prems(4) show ?thesis by (auto simp: issue_handle_def map_fst_pending)
  next
    case (enter k r)
    with \<open>fs_table b1 h = None \<and> _\<close> pendingI [of k r b1] show ?thesis by (auto dest: pending_after_enter)
  qed (use \<open>fs_table b1 h = None \<and> _\<close> in \<open>auto simp: ffi_close_def\<close>)
qed simp

section \<open>Facts about the C functions\<close>

lemma into_c_no_nul: "0 \<notin> set (into_c s)"
  by (auto simp: into_c_def as_bytes_def byte_of_def em_dash_def)

lemma webhook_body_hex_of: "webhook_body (req\<lparr> wr_body := None, wr_body_hex := Some (hex_of bs) \<rparr>) = Ok bs"
  by (simp add: webhook_body_def)

lemma webhook_body_text: "webhook_body (req\<lparr> wr_body := Some b, wr_body_hex := None \<rparr>) = Ok (as_bytes b)"
  by (simp add: webhook_body_def)

text \<open>A handle that is not in the table answers no method, and no rail is asked.\<close>

lemma ffi_call_unknown_handle: "fs_table st h = None \<Longrightarrow> \<exists>e. ffi_call L st h m q w = (Err e, w)"
  by (simp add: ffi_call_def ffi_lookup_def)

lemma ffi_call_live: "fs_table st h = Some r \<Longrightarrow> ffi_call L st h m q w = ffi_dispatch L r m q w"
  by (simp add: ffi_call_def ffi_lookup_def)

lemma ffi_open_Ok_iff:
  "ffi_open L st doc = (Ok h, st') \<longleftrightarrow>
     (\<exists>config rail. read_config L doc = Ok config \<and> build_config L config = Ok rail \<and> ff_runtime L = Ok () \<and>
        h = fs_next st \<and> st' = enter_handle h rail (snd (issue_handle rail st)))"
  by (auto simp: ffi_open_def Let_def issue_handle_def split: sum.splits)

lemma ffi_open_Err: "ffi_open L st doc = (Err e, st') \<Longrightarrow> st' = st"
  by (auto simp: ffi_open_def Let_def issue_handle_def split: sum.splits)

lemma dispatch_charge:
  "ffi_dispatch L r ''charge'' q w = (Ok t, w') \<longleftrightarrow>
     (\<exists>req rc. ff_request L q = Ok req \<and> rail_charge r req w = (Ok rc, w') \<and> ff_encode L (ReceiptResponse rc) = Ok t)"
  by (auto simp: ffi_dispatch_def awaited_def bad_request_def ffi_encode_def split: sum.splits prod.splits)

lemma dispatch_verify:
  "ff_receipt L q = Ok rc \<Longrightarrow> rail_verify r rc w = (Ok b, w') \<Longrightarrow>
     ffi_dispatch L r ''verify'' q w = (ffi_encode L (VerifyResponse b), w')"
  by (simp add: ffi_dispatch_def awaited_def bad_request_def)

section \<open>Properties\<close>

text \<open>
  C19: handles are well typed. Under any interleaving of opening, entering and closing, as long as the
  counter of 64 bits has not wrapped, the handles that were issued are pairwise different and none is zero,
  which a C caller reads as failure; every entry of the table and every handle a thread still holds was
  issued; and no handle is both in the table and still to be entered.
\<close>

theorem handles_well_typed:
  assumes "table_run ffi_initial evs st" "length (issued evs) < 2 ^ 64"
  shows "distinct (issued evs) \<and> 0 \<notin> set (issued evs) \<and>
     dom (fs_table st) \<union> set (pending_handles st) \<subseteq> set (issued evs) \<and>
     distinct (pending_handles st) \<and> dom (fs_table st) \<inter> set (pending_handles st) = {}"
  using handles_distinct [OF assms] table_run_pending [OF assms] table_run_known [OF assms(1)] by blast

theorem handles_well_typed_witness:
  "\<exists>st. table_run ffi_initial [Issued 1, Issued 2, Entered 2, Closed 2] st \<and> distinct [1, 2 :: u64] \<and>
     set (pending_handles st) \<subseteq> {1, 2} \<and> distinct (pending_handles st)"
proof -
  define r :: "world payment_rail" where "r = mock_payment_rail w_now (mock_new ''mock'' NonCustodialFinal [])"
  let ?s1 = "snd (issue_handle r ffi_initial)"
  let ?s2 = "snd (issue_handle r ?s1)"
  have "table_step ffi_initial (Issued 1) ?s1" "table_step ?s1 (Issued 2) ?s2"
    by (rule table_step.issue [of r], simp add: issue_handle_def ffi_initial_def)+
  moreover have "table_step ?s2 (Entered 2) (enter_handle 2 r ?s2)"
    by (rule table_step.enter) (simp add: issue_handle_def ffi_initial_def)
  ultimately have run: "table_run ffi_initial [Issued 1, Issued 2, Entered 2, Closed 2] (ffi_close (enter_handle 2 r ?s2) 2)"
    unfolding table_run_Cons by (blast intro: table_step.close table_run.start)
  from run handles_well_typed [OF run] show ?thesis by auto
qed

text \<open>
  C18: a closed handle never opens again. Once a handle has been entered and then closed, whatever threads
  open, enter and close afterwards, it is not in the table, and every call on it is an error that asks no
  rail, until the counter of 64 bits has wrapped.
\<close>

theorem closed_handle_stays_closed:
  assumes "table_run ffi_initial (xs @ Closed h # ys) st" "Entered h \<in> set xs"
    and "length (issued xs) + length (issued ys) < 2 ^ 64"
  shows "\<not> handle_is_live st h \<and> (\<exists>e. ffi_call L st h m q w = (Err e, w))"
proof -
  from assms(1) obtain a b where runs: "table_run ffi_initial xs a" "table_step a (Closed h) b" "table_run b ys st"
    unfolding table_run_append table_run_Cons by blast
  have b: "b = ffi_close a h"
    using runs(2) by cases auto
  have "length (issued (xs @ Closed h # ys)) < 2 ^ 64"
    using assms(3) by simp
  from handles_distinct [OF assms(1) this] have "distinct (issued xs @ issued ys)" by simp
  moreover have "h \<in> set (issued xs)" "h \<notin> set (pending_handles a)"
    using table_run_known [OF runs(1)] table_run_pending [OF runs(1)] assms(2,3) by auto
  ultimately have "fs_table st h = None"
    using stays_out [OF runs(3), of h] by (auto simp: b ffi_close_def)
  then show ?thesis using ffi_call_unknown_handle by (auto simp: handle_is_live_def)
qed

theorem closed_handle_stays_closed_witness:
  "\<exists>st. table_run ffi_initial [Issued 1, Entered 1, Closed 1, Issued 2] st \<and> \<not> handle_is_live st 1"
proof -
  define r :: "world payment_rail" where "r = mock_payment_rail w_now (mock_new ''mock'' NonCustodialFinal [])"
  let ?s1 = "snd (issue_handle r ffi_initial)"
  let ?s2 = "ffi_close (enter_handle 1 r ?s1) 1"
  have "table_step ffi_initial (Issued 1) ?s1" "table_step ?s2 (Issued 2) (snd (issue_handle r ?s2))"
    by (rule table_step.issue [of r], simp add: issue_handle_def ffi_initial_def ffi_close_def enter_handle_def)+
  moreover have "table_step ?s1 (Entered 1) (enter_handle 1 r ?s1)"
    by (rule table_step.enter) (simp add: issue_handle_def ffi_initial_def)
  ultimately have run: "table_run ffi_initial ([Issued 1, Entered 1] @ Closed 1 # [Issued 2]) (snd (issue_handle r ?s2))"
    unfolding append.simps table_run_Cons by (blast intro: table_step.close table_run.start)
  from run closed_handle_stays_closed [OF run] show ?thesis by auto
qed

text \<open>
  C27: a configuration that is there but is not text never becomes the offline mock. If \<open>patala_new\<close> is
  given bytes and returns a handle, the bytes are text, and either the text is blank, the documented
  default, or the rail of the handle is the one its document describes.
\<close>

theorem patala_new_defaults_only_when_blank:
  assumes "patala_new L unwound st (Some bs) errp = ((h, slot), st')" "h \<noteq> 0"
  shows "\<exists>text rail. from_utf8 bs = Ok text \<and> fs_table st' h = Some rail \<and> slot = clear_err errp \<and>
     (trim text = [] \<and> build_config L default_mock = Ok rail \<or>
      (\<exists>doc. ff_config L text = Ok doc \<and> build_config L (config_of_document doc) = Ok rail))"
  using assms
  by (auto simp: patala_new_def as_str_opt_def ffi_open_Ok_iff read_config_def split: option.splits sum.splits if_splits prod.splits)

theorem patala_new_defaults_only_when_blank_witness:
  "\<forall>L. \<exists>st' rail. patala_new (L\<lparr> ff_runtime := Ok () \<rparr>) False ffi_initial (Some []) True = ((1, Some None), st') \<and>
     fs_table st' 1 = Some rail"
proof
  fix L :: ffi_libs
  have empty: "from_utf8 [] = Ok []" by code_simp
  obtain st' where new: "patala_new (L\<lparr> ff_runtime := Ok () \<rparr>) False ffi_initial (Some []) True = ((1, Some None), st')"
    by (simp add: patala_new_def as_str_opt_def empty ffi_open_def read_config_def default_mock_def Let_def
        issue_handle_def ffi_initial_def clear_err_def)
  from new patala_new_defaults_only_when_blank [OF new]
  show "\<exists>st' rail. patala_new (L\<lparr> ff_runtime := Ok () \<rparr>) False ffi_initial (Some []) True = ((1, Some None), st') \<and>
      fs_table st' 1 = Some rail"
    by auto
qed

text \<open>
  The error slot says whether the call succeeded. After \<open>patala_call\<close> with a slot, whatever the slot
  held before and whether or not the call unwound, the slot holds a message exactly when the result is the
  null pointer and the null pointer exactly when there is a result; and what crosses has no NUL inside.
\<close>

theorem patala_call_slot_exact:
  assumes "patala_call L unwound st h m q True w = ((out, slot), w')"
  shows "(\<exists>s. out = None \<and> slot = Some (Some s) \<and> 0 \<notin> set s) \<or> (\<exists>s. out = Some s \<and> slot = Some None \<and> 0 \<notin> set s)"
  using assms
  by (auto simp: patala_call_def set_err_def clear_err_def into_c_no_nul split: option.splits sum.splits prod.splits)

theorem patala_call_slot_exact_witness:
  "\<forall>L w. \<exists>s. patala_call L None ffi_initial 7 None None True w = ((None, Some (Some s)), w) \<and> 0 \<notin> set s"
proof (intro allI)
  fix L w
  obtain s where "patala_call L None ffi_initial 7 None None True w = ((None, Some (Some s)), w)"
    by (simp add: patala_call_def ffi_call_def ffi_lookup_def ffi_initial_def set_err_def)
  with patala_call_slot_exact [OF this]
  show "\<exists>s. patala_call L None ffi_initial 7 None None True w = ((None, Some (Some s)), w) \<and> 0 \<notin> set s" by auto
qed

text \<open>
  C39: rendering a configuration for a log shows no secret. What is printed is what is printed after every
  keypair seed, API key, webhook secret and value of a fiat rail's map has been taken out; only whether
  there was one remains.
\<close>

theorem debug_shows_no_secret: "debug_config config = debug_config (without_secrets config)"
proof -
  have keys: "map fst (map (\<lambda>(k, v). (k, [] :: string)) kvs) = map fst kvs" for kvs :: "(string \<times> string) list"
    by (induction kvs) auto
  have key: "((if key = [] then [] else ''x'') \<noteq> []) = (key \<noteq> [])" for key :: string by simp
  have seed: "(map_option (\<lambda>_. [] :: string) x \<noteq> None) = (x \<noteq> None)" for x :: "string option"
    by (cases x) simp_all
  show ?thesis
  proof (cases config)
    case (CfgFiat provider kvs)
    show ?thesis unfolding CfgFiat without_secrets.simps debug_config.simps keys ..
  next
    case (CfgSolana url cluster x)
    show ?thesis unfolding CfgSolana without_secrets.simps debug_config.simps seed ..
  next
    case (CfgStellar url network issuer x)
    show ?thesis unfolding CfgStellar without_secrets.simps debug_config.simps seed ..
  next
    case (CfgHyperswitch url key connector x kyc ccys days secs)
    show ?thesis unfolding CfgHyperswitch without_secrets.simps debug_config.simps key seed ..
  qed (simp only: without_secrets.simps)
qed

text \<open>
  A refused key is not quoted back. If two texts have hexadecimal digits at the same places, the one is
  refused with a message exactly when the other is refused with the same message: no character of a
  private key leaves with the error.
\<close>

theorem refused_seed_not_quoted:
  assumes "list_all2 (\<lambda>a b. hex_val a = None \<longleftrightarrow> hex_val b = None) s t"
  shows "decode_seed (Some s) rail = Err e \<longleftrightarrow> decode_seed (Some t) rail = Err e"
proof -
  have same: "decode_hex s = Err m \<longleftrightarrow> decode_hex t = Err m" for m
    using hex_pairs_error_shape [OF assms, of 0] list_all2_lengthD [OF assms] by (simp add: decode_hex_def)
  show ?thesis
  proof (cases "decode_hex s")
    case (Inl m)
    then have "decode_hex t = Err m" using same by blast
    with Inl show ?thesis by (simp add: decode_seed_def)
  next
    case (Inr x)
    then obtain y where "decode_hex t = Ok y" using same by (cases "decode_hex t") auto
    with Inr show ?thesis by (simp add: decode_seed_def)
  qed
qed

theorem refused_seed_not_quoted_witness:
  "decode_seed (Some ''0g'') ''solana'' = decode_seed (Some ''f!'') ''solana''"
proof -
  obtain e where "decode_seed (Some ''0g'') ''solana'' = Err e"
    by (simp add: decode_seed_def decode_hex_def nibble_def hex_val_def is_ascii_digit_def is_ascii_upper_def
        is_ascii_lower_def)
  moreover have "list_all2 (\<lambda>a b. hex_val a = None \<longleftrightarrow> hex_val b = None) ''0g'' ''f!''" by code_simp
  ultimately show ?thesis using refused_seed_not_quoted by metis
qed

text \<open>
  A webhook may come as text or as hexadecimal and is the same delivery. A call that gives a body in
  hexadecimal does what the call that gives the same bytes as text does, to the answer and the world.
\<close>

theorem webhook_hex_is_the_body:
  assumes "ff_webhook L q = Ok (req\<lparr> wr_body := Some b, wr_body_hex := None \<rparr>)"
    and "ff_webhook L q' = Ok (req\<lparr> wr_body := None, wr_body_hex := Some (hex_of (as_bytes b)) \<rparr>)"
  shows "ffi_call L st h ''webhook'' q' w = ffi_call L st h ''webhook'' q w"
proof -
  have "webhook_delivery_of (req\<lparr> wr_body := None, wr_body_hex := Some (hex_of (as_bytes b)) \<rparr>) =
      webhook_delivery_of (req\<lparr> wr_body := Some b, wr_body_hex := None \<rparr>)"
    by (simp add: webhook_delivery_of_def webhook_body_hex_of webhook_body_text)
  then have "rbind (bad_request ''webhook'' (ff_webhook L q')) webhook_delivery_of =
      rbind (bad_request ''webhook'' (ff_webhook L q)) webhook_delivery_of"
    by (simp add: assms bad_request_def)
  then show ?thesis
    by (simp add: ffi_call_def ffi_dispatch_def split: sum.split)
qed

definition toy_webhook_request :: webhook_request where
  "toy_webhook_request = \<lparr> wr_body = None, wr_body_hex = None, wr_headers = [], wr_query = [], wr_now_unix = 7 \<rparr>"

theorem webhook_hex_is_the_body_witness:
  "\<forall>L st h w. let L' = L\<lparr> ff_webhook := (\<lambda>q. Ok (if q = ''t''
         then toy_webhook_request\<lparr> wr_body := Some ''{}'', wr_body_hex := None \<rparr>
         else toy_webhook_request\<lparr> wr_body := None, wr_body_hex := Some (hex_of (as_bytes ''{}'')) \<rparr>)) \<rparr>
     in ffi_call L' st h ''webhook'' ''h'' w = ffi_call L' st h ''webhook'' ''t'' w"
  unfolding Let_def by (intro allI webhook_hex_is_the_body) simp_all

text \<open>
  C20: a session with the offline mock goes through. When a configuration describes a mock rail, a receipt
  that \<open>charge\<close> returned on its handle, given back as the text it came in, is answered valid by
  \<open>verify\<close> on that handle, whatever happened to the world in between. The one thing relied on is that
  the receipt's printed form reads back as that receipt.
\<close>

theorem mock_session_verifies:
  assumes "ffi_open L st doc = (Ok h, st')" "read_config L doc = Ok (CfgMock i cls ccys fee fail checks)"
    and "ffi_call L st' h ''charge'' q w = (Ok t, w')"
    and "\<And>r. ff_encode L (ReceiptResponse r) = Ok t \<Longrightarrow> ff_receipt L t = Ok r"
  shows "ffi_call L st' h ''verify'' t w2 = (ffi_encode L (VerifyResponse True), w2)"
proof -
  obtain m where rail: "fs_table st' h = Some (mock_payment_rail w_now m)"
    using assms(1,2) by (auto simp: ffi_open_Ok_iff Let_def)
  with assms(3) obtain req r where r: "mock_charge w_now m req w = (Ok r, w')" "ff_encode L (ReceiptResponse r) = Ok t"
    by (auto simp: ffi_call_live dispatch_charge mock_payment_rail_def)
  have "ff_receipt L t = Ok r" by (rule assms(4)) (rule r(2))
  moreover have "mock_verify m r w2 = (Ok True, w2)"
    by (rule mock_charge_verifies [OF r(1)])
  ultimately show ?thesis
    using rail by (simp add: ffi_call_live dispatch_verify mock_payment_rail_def)
qed

definition toy_order :: pay_request where
  "toy_order = \<lparr> pr_amount_minor = 5, pr_currency = ''USDC'', pr_destination = ''d'', pr_reference = ''r'' \<rparr>"

definition toy_session_libs :: "ffi_libs \<Rightarrow> receipt \<Rightarrow> ffi_libs" where
  "toy_session_libs L r = L\<lparr> ff_runtime := Ok (), ff_request := \<lambda>_. Ok toy_order, ff_receipt := \<lambda>_. Ok r,
     ff_encode := \<lambda>x. if x = ReceiptResponse r then Ok ''t'' else if x = VerifyResponse True then Ok ''yes'' else Err [] \<rparr>"

theorem mock_session_verifies_witness:
  "\<forall>L w w2. \<exists>r st. ffi_open (toy_session_libs L r) ffi_initial [] = (Ok 1, st) \<and>
     ffi_call (toy_session_libs L r) st 1 ''charge'' ''c'' w = (Ok ''t'', w) \<and>
     ffi_call (toy_session_libs L r) st 1 ''verify'' ''t'' w2 = (Ok ''yes'', w2)"
proof (intro allI)
  fix L and w w2 :: world
  define m where "m = with_fee_minor (mock_new default_mock_id NonCustodialFinal default_currencies) 0"
  have "pay_request_validate toy_order = Ok ()"
    by (simp add: validate_Ok_iff well_formed_request_def toy_order_def not_blank_Cons graphic_def)
  moreover have "currency_supported m (pr_currency toy_order)" "\<not> m_fail m"
    by (simp_all add: currency_supported_def m_def mock_new_def with_fee_minor_def default_currencies_def toy_order_def Let_def)
  ultimately obtain r where r: "mock_charge w_now m toy_order w = (Ok r, w)"
    by (simp add: mock_charge_def Let_def)
  let ?L = "toy_session_libs L r"
  have config: "read_config ?L [] = Ok default_mock" by (simp add: read_config_def)
  have runtime: "ff_runtime ?L = Ok ()" by (simp add: toy_session_libs_def)
  have build: "build_config ?L default_mock = Ok (mock_payment_rail w_now m)"
    by (simp add: default_mock_def m_def)
  obtain st where st: "ffi_open ?L ffi_initial [] = (Ok 1, st)"
    by (simp add: ffi_open_def config build runtime issue_handle_def ffi_initial_def)
  with config build have live: "fs_table st 1 = Some (mock_payment_rail w_now m)"
    by (auto simp: ffi_open_Ok_iff)
  have charge: "ffi_call ?L st 1 ''charge'' ''c'' w = (Ok ''t'', w)"
    by (simp add: ffi_call_live [OF live] dispatch_charge toy_session_libs_def) (simp add: mock_payment_rail_def r)
  have "ffi_call ?L st 1 ''verify'' ''t'' w2 = (ffi_encode ?L (VerifyResponse True), w2)"
    by (rule mock_session_verifies [OF st config [unfolded default_mock_def] charge])
      (auto simp: toy_session_libs_def split: if_splits)
  with st charge show "\<exists>r st. ffi_open (toy_session_libs L r) ffi_initial [] = (Ok 1, st) \<and>
      ffi_call (toy_session_libs L r) st 1 ''charge'' ''c'' w = (Ok ''t'', w) \<and>
      ffi_call (toy_session_libs L r) st 1 ''verify'' ''t'' w2 = (Ok ''yes'', w2)"
    by (intro exI [of _ r] exI [of _ st]) (simp add: ffi_encode_def toy_session_libs_def)
qed

end
