(* ===== verification/Spec2Isabelle.thy ===== *)
theory Spec2Isabelle
  imports Chains Fiat_Registry Fiat_Scales Stellar_Recurring Stellar_Split Stellar_Horizon Solana_Http Sidecar Ffi
begin

text \<open>
  \<^bold>\<open>Patala, a payment seam and its rails.\<close>

  The program is one trait, \<open>PaymentRail\<close>, and what stands on either side of it. Behind it are rails: an
  offline mock, a rail an operator settles by hand, twenty processors, a Hyperswitch instance, and two that
  pay on a ledger with a key of their own. In front of it are what chooses between rails (the failover
  chain, the registry) and what carries the trait out of Rust (the HTTP sidecar, the object of the language
  bindings, the C functions). A caller asks a rail for a quote, charges, keeps the receipt, and later asks
  \<open>verify\<close> whether the receipt is money; a processor's webhook arrives as raw bytes and leaves as an event
  or an error. The properties are about that: when \<open>verify\<close> may say yes, who can make an event, what a
  chain or a binding may change on the way, and that amounts are never read as other amounts.

  \<^bold>\<open>How code becomes definitions.\<close> A trait object is a record of its methods
  (\<open>Core_Rail.payment_rail\<close>). A method that talks to somebody takes the world and returns its answer with
  the world it leaves; the clock and the network are functions of the world, so an answer may depend on
  everything that happened before. \<open>Result\<close> is a sum, \<open>Err\<close> and \<open>Ok\<close> its constructors, \<open>rbind\<close> is
  \<open>?\<close>; every early return is a branch. Machine integers are words of their width, with checked,
  saturating and wrapping arithmetic as each line of the source has it; where a release build wraps an
  unchecked sum, the model wraps. A \<open>str\<close> is the list of its UTF-8 bytes. A lock held over a method makes
  the method one step. Code outside the repository is a parameter: the HTTP client (a function from a
  request and the world to a response), serde's readers and printers (one record of functions per adapter),
  HMAC, SHA, ed25519, StrKey, XDR, base58 and hexadecimal. Nothing is said of them but what a theorem's
  hypotheses say, and each hypothesis is shown to hold for a concrete instance by the theorem's witness.

  \<^bold>\<open>Theories.\<close>
  \<^item> \<open>Prelude\<close>, \<open>Rust_Str\<close>, \<open>Json\<close>, \<open>Http\<close>, \<open>Form_Encoding\<close>: the parts of Rust's standard library, of
    \<open>serde_json::Value\<close> and of the HTTP client that the sources use, with the facts the rest shares: the
    collections \<open>rust_defs\<close> and \<open>wide_ints\<close>, parsing and printing of numbers, trimming, splitting, UTF-8.
  \<^item> \<open>Core_Types\<close>, \<open>Core_Destination\<close>, \<open>Core_Webhook\<close>, \<open>Core_Rail\<close>, \<open>Core_Failover\<close>, \<open>Core_Mock\<close>:
    \<open>patala-core\<close>, one theory per source file. \<open>Core_Rail\<close> states the seam's contract as locales.
    \<open>Chains\<close> puts the failover chain and the rails together.
  \<^item> \<open>Fiat_Currency\<close>, \<open>Fiat_Destination\<close>, \<open>Fiat_Manual\<close>, \<open>Fiat_Registry\<close>, \<open>Fiat_Http\<close>: the shared
    modules of \<open>patala-fiat\<close>. \<open>Fiat_Adapter\<close> and \<open>Fiat_Hosted\<close> hold the helpers of which every adapter
    carries its own copy, once, with the adapter's name as an argument.
  \<^item> \<open>Fiat_Stripe\<close> to \<open>Fiat_Yoco\<close>: the twenty adapters, each with its configuration, wire types,
    amounts, webhook and every method of the trait. \<open>Fiat_Scales\<close> compares the amounts Stripe and PayPal
    are sent with the currency table.
  \<^item> \<open>Stellar_Tx\<close>, \<open>Stellar_Rpc\<close>, \<open>Stellar_Rail\<close>, \<open>Stellar_Split\<close>, \<open>Stellar_Recurring\<close>,
    \<open>Stellar_Destination\<close>, \<open>Stellar_Horizon\<close>: \<open>patala-stellar\<close>. Transactions and their strict decoder,
    the Horizon seam and its HTTP client, single payments, atomic splits, and pre-signed instalment plans.
  \<^item> \<open>Solana_Tx\<close>, \<open>Solana_Rail\<close>, \<open>Solana_Destination\<close>, \<open>Solana_Http\<close>: \<open>patala-solana\<close>. Addresses,
    messages and the wire format, the rail with its reading of a node's JSON, and the RPC client.
  \<^item> \<open>Hyperswitch_Rail\<close>: \<open>patala-hyperswitch\<close>. \<open>Sidecar\<close>: \<open>patala-sidecar\<close>.
  \<^item> \<open>Uniffi\<close> and \<open>Uniffi_Fiat\<close>: \<open>patala-uniffi/src/lib.rs\<close> and \<open>fiat.rs\<close>, the object the bindings hold
    and the fiat rails by name. \<open>Ffi\<close>: \<open>patala-ffi/src/lib.rs\<close> and \<open>abi.rs\<close>, the table of handles, the
    configuration documents, the dispatch and the C functions.

  \<^bold>\<open>Interfaces.\<close> \<open>rail_core\<close>, \<open>rail_base\<close>, \<open>rail_contract\<close> and \<open>final_rail\<close> (\<open>Core_Rail\<close>) are the
  contract of a rail, each adding laws: malformed requests are refused before any effect, receipts and
  quotes name the rail, verdicts are honest; a foreign receipt never verifies; the reference is echoed; there
  is no refund. Every rail of the repository is interpreted in the strongest one it keeps. \<open>processor_core\<close>,
  \<open>processor_rail\<close> and \<open>echoing_processor\<close> (\<open>Fiat_Adapter\<close>) add what a processor's adapter promises.
  Adyen and PayFast keep the core alone, since they answer \<open>verify\<close> with \<open>Unsupported\<close>; Midtrans, Paystack
  and Yoco do not echo all the contract asks for. \<open>failover_chain\<close> (\<open>Core_Failover\<close>) lifts the contract to a
  chain of rails and is interpreted for mock rails and for a Stellar rail with mock rails behind it;
  \<open>settling_rail\<close> (\<open>Chains\<close>) adds that a receipt just returned verifies, and with it what a chain charges the
  chain verifies (\<open>chain_charge_verifies\<close>); \<open>rail_directory\<close> (\<open>Sidecar\<close>) is what the handlers rely
  on, interpreted for the server's own registry.

  \<^bold>\<open>Lemma groups.\<close>
  \<^item> Exactness: for each rail an equivalence that says when \<open>verify\<close> answers yes, and for each webhook when a
    delivery becomes an event, down to the signed bytes (\<open>stripe_verify_exact\<close>, \<open>stripe_webhook_authentic\<close>,
    \<open>paypal_verify_exact\<close>, \<open>hyperswitch_verify_exact\<close> and their siblings in every adapter).
  \<^item> Ledgers: a receipt that verifies is a payment on the ledger, one payment backs one receipt up to a hash
    collision, and what the rail charges it verifies (\<open>stellar_verify_sound\<close>, \<open>one_payment_one_receipt\<close>,
    \<open>stellar_charge_verifies\<close>, \<open>verify_split_sound\<close>, \<open>charge_split_verifies\<close>, \<open>solana_verify_sound\<close>,
    \<open>single_memo_one_receipt\<close>); what Solana is sent reads back as the payment asked for (\<open>solana_charge_sends\<close>).
  \<^item> State machines: the manual rail's records (\<open>manual_step\<close>), the account of an instalment plan under the
    ledger's rule (\<open>schedule_step\<close>) and the table of handles under any interleaving of threads
    (\<open>table_step\<close>), each with its invariant by induction over runs.
  \<^item> Refinement: the failover loop computes an abstract plan (\<open>failover_plan_refines_spec\<close>), a session
    through the bindings is the rail's own session, each value the same field by field (\<open>patala_object_refines_rail\<close>),
    and the server's yes is the rail's yes (\<open>sidecar_valid_iff_rail_verifies\<close>).
  \<^item> Amounts: the table and both conversions of \<open>Fiat_Currency\<close>, the amounts of every adapter, their round
    trips and where they wrap (\<open>paypal_amount_wraps\<close>). What the shared parser accepts is wider than its
    documentation: digits may be missing beside the point (\<open>major_string_to_minor_exact\<close>).
  \<^item> Loops: the constant-time comparison is equality, the search for a program address stops at the highest
    bump off the curve, the decoding loop of iyzico's callback ends.

  \<^bold>\<open>Bounds.\<close> No definition takes fuel. Loops are structural recursion, \<open>function\<close> with a measure, or
  \<open>while_option\<close> with a theorem that the value is \<open>Some\<close>. The bounds that occur are the code's own: 256
  bumps, 100 operations in a transaction, 3650 instalments, one mebibyte of body, 300 seconds of replay
  window. The one on handles, fewer than \<open>2 ^ 64\<close> opened, is the counter's width. A panic is modelled where
  input from outside reaches it (\<open>None\<close> in \<open>Fiat_Iyzico\<close> and \<open>Fiat_Paypal\<close>, and as a method's answer the error
  \<open>aborted\<close> that the caller's runtime makes of it); across the C boundary, whether a call unwound is a
  parameter, because the boundary catches it.

  \<^bold>\<open>Not modelled.\<close> The async runtimes, listening and shutting down have no effect on an answer. Random
  generation of keys and wiping of memory have no counterpart in values. The generated bindings, the
  wrappers in other languages and \<open>patala_free\<close> hold no logic of the library. The tests, which are about half
  of the lines of the sources, state examples of what is proved here. Fields that serde reads and the code
  never looks at are left out of the wire types, as are lists of currencies that decide nothing. Where a
  manual rail is opened more than once, the world holds the records of one of them.
\<close>

end
